(* ===== verification/Go_Prelude.thy ===== *)
theory Go_Prelude
  imports Main
begin

section \<open>Prelude: Go integers, results, strings, and list facts\<close>

text \<open>
  What every component of the development shares.

  \<^item> Go's sized integers are values of type \<open>int\<close>; \<open>int64\<close> and \<open>int32\<close> are
    the wrap-around that a Go conversion or an overflowing addition performs.
  \<^item> A fallible Go call is a value of a sum type: \<open>Inl\<close> holds the error, \<open>Inr\<close>
    the result.  \<open>rbind\<close> is the \<^verbatim>\<open>if err != nil { return err }\<close> of the source,
    \<open>rfold\<close> a \<^verbatim>\<open>for\<close> loop whose body may return an error.
  \<^item> \<open>TrimSpace\<close>, \<open>HasPrefix\<close>, \<open>TrimSuffix\<close> and \<open>ToLower\<close> are the functions of
    the package \<^verbatim>\<open>strings\<close> on byte strings (type \<open>string\<close>).

  The collections of facts below carry the proofs of the components.
\<close>

named_theorems res_simps \<open>rewriting of results that are \<open>Inr\<close> or \<open>Inl\<close>\<close>
named_theorems tbl_simps \<open>rewriting of table reads and writes\<close>
named_theorems frame_simps \<open>what an operation leaves unchanged\<close>

subsection \<open>Integers\<close>

definition int64 :: "int \<Rightarrow> int" where
  "int64 x = signed_take_bit 63 x"

definition int32 :: "int \<Rightarrow> int" where
  "int32 x = signed_take_bit 31 x"

abbreviation max_int64 :: int where
  "max_int64 \<equiv> 9223372036854775807"

definition is_int64 :: "int \<Rightarrow> bool" where
  "is_int64 x \<longleftrightarrow> - (2 ^ 63) \<le> x \<and> x < 2 ^ 63"

lemma int64_self [simp]: "is_int64 x \<Longrightarrow> int64 x = x"
  by (simp add: int64_def is_int64_def signed_take_bit_int_eq_self)

lemma int64_range: "is_int64 (int64 x)"
  using signed_take_bit_int_greater_eq_minus_exp [of 63 x] signed_take_bit_int_less_exp [of 63 x]
  by (simp add: int64_def is_int64_def)

lemma int64_idem [simp]: "int64 (int64 x) = int64 x"
  by (simp add: int64_range)

lemma int32_self: "- (2 ^ 31) \<le> x \<Longrightarrow> x < 2 ^ 31 \<Longrightarrow> int32 x = x"
  by (simp add: int32_def signed_take_bit_int_eq_self)

text \<open>Go's integer division truncates towards zero.\<close>

definition go_div :: "int \<Rightarrow> int \<Rightarrow> int" where
  "go_div a b = sgn a * sgn b * (\<bar>a\<bar> div \<bar>b\<bar>)"

lemma go_div_nonneg: "0 \<le> a \<Longrightarrow> 0 < b \<Longrightarrow> go_div a b = a div b"
  by (cases "a = 0") (auto simp: go_div_def)

lemma go_div_neg: "a < 0 \<Longrightarrow> 0 < b \<Longrightarrow> go_div a b \<le> 0"
  by (simp add: go_div_def pos_imp_zdiv_nonneg_iff)

subsection \<open>Results\<close>

fun rbind :: "'e + 'a \<Rightarrow> ('a \<Rightarrow> 'e + 'b) \<Rightarrow> 'e + 'b" where
  "rbind (Inl e) f = Inl e"
| "rbind (Inr x) f = f x"

lemma rbind_Inr_iff [res_simps]: "rbind m f = Inr y \<longleftrightarrow> (\<exists>x. m = Inr x \<and> f x = Inr y)"
  by (cases m) auto

lemma rbind_Inl_iff [res_simps]:
  "rbind m f = Inl e \<longleftrightarrow> m = Inl e \<or> (\<exists>x. m = Inr x \<and> f x = Inl e)"
  by (cases m) auto

lemma rbind_cong [fundef_cong]:
  "m = m' \<Longrightarrow> (\<And>x. m' = Inr x \<Longrightarrow> f x = f' x) \<Longrightarrow> rbind m f = rbind m' f'"
  by (cases m') auto

fun rfold :: "('a \<Rightarrow> 's \<Rightarrow> 'e + 's) \<Rightarrow> 'a list \<Rightarrow> 's \<Rightarrow> 'e + 's" where
  "rfold f [] s = Inr s"
| "rfold f (x # xs) s = rbind (f x s) (rfold f xs)"

lemma rfold_append: "rfold f (xs @ ys) s = rbind (rfold f xs s) (rfold f ys)"
proof (induction xs arbitrary: s)
  case Nil
  then show ?case by simp
next
  case (Cons x xs)
  then show ?case by (cases "f x s") auto
qed

text \<open>The loop rule: what every iteration keeps, the loop keeps.\<close>

lemma rfold_invariant:
  assumes "rfold f xs s = Inr s'" and "P s"
    and "\<And>x t t'. x \<in> set xs \<Longrightarrow> P t \<Longrightarrow> f x t = Inr t' \<Longrightarrow> P t'"
  shows "P s'"
  using assms
proof (induction xs arbitrary: s)
  case Nil
  then show ?case by simp
next
  case (Cons x xs)
  from Cons.prems(1) obtain t where t: "f x s = Inr t" "rfold f xs t = Inr s'"
    by (auto simp: res_simps)
  have "P t" using Cons.prems(3) [of x s t] Cons.prems(2) t(1) by simp
  with t(2) show ?case by (rule Cons.IH) (use Cons.prems(3) in auto)
qed

text \<open>A relation that is reflexive and transitive holds across a loop.\<close>

lemma rfold_rel:
  assumes "rfold f xs s = Inr s'"
    and "\<And>t. R t t" and "\<And>t u v. R t u \<Longrightarrow> R u v \<Longrightarrow> R t v"
    and "\<And>x t t'. x \<in> set xs \<Longrightarrow> f x t = Inr t' \<Longrightarrow> R t t'"
  shows "R s s'"
  using assms(1)
proof (rule rfold_invariant)
  show "R s s" by (rule assms(2))
next
  fix x t t'
  assume "x \<in> set xs" "R s t" "f x t = Inr t'"
  then show "R s t'" using assms(3,4) by blast
qed

lemma rfold_total:
  assumes "\<And>x s. x \<in> set xs \<Longrightarrow> \<exists>s'. f x s = Inr s'"
  shows "\<exists>s'. rfold f xs s = Inr s'"
  using assms
proof (induction xs arbitrary: s)
  case Nil
  then show ?case by simp
next
  case (Cons x xs)
  from Cons.prems [of x s] obtain t where "f x s = Inr t" by auto
  moreover from Cons obtain s' where "rfold f xs t = Inr s'" by fastforce
  ultimately show ?case by simp
qed

text \<open>The value a nil-able pointer or protobuf wrapper stands for.\<close>

fun GetValue :: "'a \<Rightarrow> 'a option \<Rightarrow> 'a" where
  "GetValue zero None = zero"
| "GetValue zero (Some v) = v"

subsection \<open>Byte strings\<close>

definition HasPrefix :: "string \<Rightarrow> string \<Rightarrow> bool" where
  "HasPrefix s p \<longleftrightarrow> take (length p) s = p"

definition HasSuffix :: "string \<Rightarrow> string \<Rightarrow> bool" where
  "HasSuffix s p \<longleftrightarrow> HasPrefix (rev s) (rev p)"

definition TrimSuffix :: "string \<Rightarrow> string \<Rightarrow> string" where
  "TrimSuffix s p = (if HasSuffix s p then take (length s - length p) s else s)"

text \<open>
  The UTF-8 encodings of the runes \<^verbatim>\<open>unicode.IsSpace\<close> accepts.
\<close>

definition space_runes :: "string list" where
  "space_runes =
     [[CHR 0x09], [CHR 0x0A], [CHR 0x0B], [CHR 0x0C], [CHR 0x0D], [CHR 0x20],
      [CHR 0xC2, CHR 0x85], [CHR 0xC2, CHR 0xA0], [CHR 0xE1, CHR 0x9A, CHR 0x80]]
     @ map (\<lambda>n. [CHR 0xE2, CHR 0x80, char_of (0x80 + n :: nat)]) [0..<11]
     @ [[CHR 0xE2, CHR 0x80, CHR 0xA8], [CHR 0xE2, CHR 0x80, CHR 0xA9],
        [CHR 0xE2, CHR 0x80, CHR 0xAF], [CHR 0xE2, CHR 0x81, CHR 0x9F],
        [CHR 0xE3, CHR 0x80, CHR 0x80]]"

lemma space_runes_nonempty: "\<forall>p \<in> set space_runes. p \<noteq> []"
  by (auto simp: space_runes_def)

text \<open>\<open>strip\<close> removes leading members of \<open>ps\<close>; fuel \<open>length s\<close> suffices since each removal shortens.\<close>

fun strip :: "string list \<Rightarrow> nat \<Rightarrow> string \<Rightarrow> string" where
  "strip ps 0 s = s"
| "strip ps (Suc n) s =
     (case find (HasPrefix s) ps of None \<Rightarrow> s | Some p \<Rightarrow> strip ps n (drop (length p) s))"

definition TrimSpace :: "string \<Rightarrow> string" where
  "TrimSpace s =
     (let l = strip space_runes (length s) s
      in rev (strip (map rev space_runes) (length l) (rev l)))"

lemma strip_stuck:
  assumes "\<forall>p \<in> set ps. p \<noteq> []" and "length s \<le> n"
  shows "find (HasPrefix (strip ps n s)) ps = None"
  using assms(2)
proof (induction n arbitrary: s)
  case 0
  with assms(1) show ?case
    by (auto simp: find_None_iff HasPrefix_def)
next
  case (Suc n)
  show ?case
  proof (cases "find (HasPrefix s) ps")
    case None
    then show ?thesis by simp
  next
    case (Some p)
    then have "p \<in> set ps" "HasPrefix s p"
      by (auto simp: find_Some_iff)
    from \<open>HasPrefix s p\<close> have "length (take (length p) s) = length p"
      unfolding HasPrefix_def by (rule arg_cong)
    moreover from assms(1) \<open>p \<in> set ps\<close> have "p \<noteq> []" by simp
    ultimately have "length (drop (length p) s) \<le> n"
      using Suc.prems by (cases p) auto
    then show ?thesis using Some Suc.IH by simp
  qed
qed

fun to_lower_char :: "char \<Rightarrow> char" where
  "to_lower_char c =
     (let n = of_char c :: nat in if 65 \<le> n \<and> n \<le> 90 then char_of (n + 32) else c)"

text \<open>Functions move into a \<open>let\<close>.\<close>

lemma let_push: "h (Let a f) = Let a (\<lambda>x. h (f x))"
  by (simp add: Let_def)

subsection \<open>Lists\<close>

lemma find_Some_mem: "find P xs = Some x \<Longrightarrow> x \<in> set xs \<and> P x"
  by (auto simp: find_Some_iff)

lemma find_None_not: "find P xs = None \<longleftrightarrow> (\<forall>x \<in> set xs. \<not> P x)"
  by (auto simp: find_None_iff)

lemma find_filter: "find P (filter Q xs) = find (\<lambda>x. Q x \<and> P x) xs"
  by (induction xs) auto

end
