(* ===== verification/Errs.thy ===== *)
theory Errs
  imports Go_Prelude
begin

section \<open>Structured errors and their translation to HTTP\<close>

text \<open>
  The package \<^verbatim>\<open>errs\<close> (\<^verbatim>\<open>src/errs/errs.go\<close>, \<^verbatim>\<open>src/errs/httperrors.go\<close>) and the function
  \<^verbatim>\<open>writeError\<close> of \<^verbatim>\<open>src/handlers/handlers.go\<close>.

  A value of type \<open>goerr\<close> is a Go error with its chain of causes: the structured
  \<^verbatim>\<open>*errs.Error\<close>, the driver's \<^verbatim>\<open>pgx.ErrNoRows\<close> and \<^verbatim>\<open>*pgconn.PgError\<close>, the validator's
  \<^verbatim>\<open>ValidationErrors\<close>, a plain \<^verbatim>\<open>errors.New\<close> and a \<^verbatim>\<open>fmt.Errorf\<close> that wraps with
  \<^verbatim>\<open>%w\<close>.  The text of the third-party errors is an argument (\<open>ext_text\<close>) of the
  functions that show it.  Logging is left out; it changes no state.
\<close>

subsection \<open>Errors\<close>

datatype Kind = Other | Invalid | Database | Internal | Validation | Unauthenticated | Unauthorized

record field_error =
  fe_Field :: string
  fe_Tag :: string
  fe_Param :: string

datatype goerr =
    Error_struct (Op: string) (Kind: Kind) (Param: string) (Code: string) (Realm: string)
      (Err: "goerr option")
  | ErrNoRows
  | PgError (SqlState: string) (ConstraintName: string)
  | ValidationErrors "field_error list"
  | NewError string
  | WrapError string goerr

definition Kind_String :: "Kind \<Rightarrow> string" where
  "Kind_String k =
     (case k of
        Invalid \<Rightarrow> ''invalid operation''
      | Database \<Rightarrow> ''database error''
      | Internal \<Rightarrow> ''internal error''
      | Validation \<Rightarrow> ''input validation error''
      | Unauthenticated \<Rightarrow> ''unauthenticated request''
      | Unauthorized \<Rightarrow> ''unauthorized request''
      | Other \<Rightarrow> ''error'')"

text \<open>The method \<^verbatim>\<open>Error()\<close>.\<close>

fun Error_string :: "(goerr \<Rightarrow> string) \<Rightarrow> goerr \<Rightarrow> string" where
  "Error_string ext_text (Error_struct _ _ _ _ _ None) = ''unknown error''"
| "Error_string ext_text (Error_struct _ _ _ _ _ (Some e)) = Error_string ext_text e"
| "Error_string ext_text (NewError m) = m"
| "Error_string ext_text (WrapError m e) = m @ Error_string ext_text e"
| "Error_string ext_text e = ext_text e"

text \<open>
  \<open>chain\<close> lists an error and what repeated \<^verbatim>\<open>Unwrap\<close> finds; \<^verbatim>\<open>errors.As\<close> and
  \<^verbatim>\<open>errors.Is\<close> search it from the front.
\<close>

fun Unwrap :: "goerr \<Rightarrow> goerr option" where
  "Unwrap (Error_struct _ _ _ _ _ e) = e"
| "Unwrap (WrapError _ e) = Some e"
| "Unwrap _ = None"

lemma Unwrap_size: "Unwrap e = Some e' \<Longrightarrow> size e' < size e"
  by (cases e) auto

function chain :: "goerr \<Rightarrow> goerr list" where
  "chain e = e # (case Unwrap e of None \<Rightarrow> [] | Some e' \<Rightarrow> chain e')"
  by auto
termination
  by (relation "measure size") (auto intro: Unwrap_size)

declare chain.simps [simp del]

fun is_Error :: "goerr \<Rightarrow> bool" where
  "is_Error (Error_struct _ _ _ _ _ _) = True"
| "is_Error _ = False"

fun is_PgError :: "goerr \<Rightarrow> bool" where
  "is_PgError (PgError _ _) = True"
| "is_PgError _ = False"

definition As_Error :: "goerr \<Rightarrow> goerr option" where
  "As_Error e = find is_Error (chain e)"

definition As_PgError :: "goerr \<Rightarrow> goerr option" where
  "As_PgError e = find is_PgError (chain e)"

definition Is_ErrNoRows :: "goerr \<Rightarrow> bool" where
  "Is_ErrNoRows e \<longleftrightarrow> ErrNoRows \<in> set (chain e)"

lemma chain_simps [simp]:
  "chain (Error_struct o' k p c r None) = [Error_struct o' k p c r None]"
  "chain (Error_struct o' k p c r (Some e)) = Error_struct o' k p c r (Some e) # chain e"
  "chain ErrNoRows = [ErrNoRows]"
  "chain (PgError s n) = [PgError s n]"
  "chain (ValidationErrors vs) = [ValidationErrors vs]"
  "chain (NewError m) = [NewError m]"
  "chain (WrapError m e) = WrapError m e # chain e"
  by (simp_all add: chain.simps)

lemma chain_size: "x \<in> set (chain e) \<Longrightarrow> size x \<le> size e"
proof (induction e rule: chain.induct)
  case (1 e)
  show ?case
  proof (cases "Unwrap e")
    case None
    with "1.prems" show ?thesis by (simp add: chain.simps [of e])
  next
    case (Some e')
    with "1.prems" have "x = e \<or> x \<in> set (chain e')"
      by (simp add: chain.simps [of e])
    then show ?thesis
      using "1.IH" [OF Some] Unwrap_size [OF Some] by fastforce
  qed
qed

lemma As_Error_size: "As_Error e = Some x \<Longrightarrow> Err x = Some y \<Longrightarrow> size y < size e"
proof -
  assume "As_Error e = Some x" and y: "Err x = Some y"
  then have "x \<in> set (chain e)" "is_Error x"
    using find_Some_mem [of is_Error "chain e" x] by (auto simp: As_Error_def)
  then have "size x \<le> size e" "Unwrap x = Some y"
    using chain_size y by (auto elim: is_Error.elims)
  with Unwrap_size show ?thesis by fastforce
qed

subsection \<open>Building errors\<close>

text \<open>The dynamic types \<^verbatim>\<open>errs.E\<close> distinguishes; a value of any other type is ignored.\<close>

datatype E_arg =
    AOp string
  | AKind Kind
  | AParameter string
  | ACode string
  | ARealm string
  | AString string
  | AError goerr
  | AIgnored

fun E_step :: "E_arg \<Rightarrow> goerr \<Rightarrow> goerr" where
  "E_step (AOp x) (Error_struct o' k p c r e) = Error_struct x k p c r e"
| "E_step (AKind x) (Error_struct o' k p c r e) = Error_struct o' x p c r e"
| "E_step (AParameter x) (Error_struct o' k p c r e) = Error_struct o' k x c r e"
| "E_step (ACode x) (Error_struct o' k p c r e) = Error_struct o' k p x r e"
| "E_step (ARealm x) (Error_struct o' k p c r e) = Error_struct o' k p c x e"
| "E_step (AString x) (Error_struct o' k p c r e) = Error_struct o' k p c r (Some (NewError x))"
| "E_step (AError x) (Error_struct o' k p c r e) = Error_struct o' k p c r (Some x)"
| "E_step _ err = err"

definition E_zero :: goerr where
  "E_zero = Error_struct '''' Other '''' '''' '''' None"

fun E_inherit :: "goerr \<Rightarrow> goerr" where
  "E_inherit (Error_struct o' Other p c r (Some e)) =
     (case As_Error e of
        None \<Rightarrow> Error_struct o' Other p c r (Some e)
      | Some sub \<Rightarrow> Error_struct o' (Kind sub) p c r (Some e))"
| "E_inherit err = err"

text \<open>The result is \<open>None\<close> when the call panics.\<close>

definition E :: "E_arg list \<Rightarrow> goerr option" where
  "E args = (if args = [] then None else Some (E_inherit (fold E_step args E_zero)))"

text \<open>The form every service uses: \<^verbatim>\<open>errs.E(op, kind, err)\<close>.\<close>

definition E_op :: "string \<Rightarrow> Kind \<Rightarrow> goerr \<Rightarrow> goerr" where
  "E_op o' k err = the (E [AOp o', AKind k, AError err])"

definition E_msg :: "string \<Rightarrow> Kind \<Rightarrow> string \<Rightarrow> goerr" where
  "E_msg o' k m = the (E [AOp o', AKind k, AString m])"

lemma E_op_eq: "k \<noteq> Other \<Longrightarrow> E_op o' k err = Error_struct o' k '''' '''' '''' (Some err)"
  by (cases k) (simp_all add: E_op_def E_def E_zero_def)

lemma E_msg_eq: "k \<noteq> Other \<Longrightarrow> E_msg o' k m = Error_struct o' k '''' '''' '''' (Some (NewError m))"
  by (cases k) (simp_all add: E_msg_def E_def E_zero_def)

subsection \<open>The operation stack\<close>

function OpStack_ops :: "goerr option \<Rightarrow> string list" where
  "OpStack_ops None = []"
| "OpStack_ops (Some e) =
     (case As_Error e of
        None \<Rightarrow> []
      | Some x \<Rightarrow> (if Op x \<noteq> '''' then [Op x] else []) @ OpStack_ops (Err x))"
  by pat_completeness auto
termination
  by (relation "measure (\<lambda>e. case e of None \<Rightarrow> 0 | Some e \<Rightarrow> Suc (size e))")
    (auto split: option.split dest: As_Error_size)

text \<open>The swap loop \<^verbatim>\<open>for i, j := 0, len(ops)-1; i < j; i, j = i+1, j-1\<close>.\<close>

function reverse_swap :: "nat \<Rightarrow> nat \<Rightarrow> 'a list \<Rightarrow> 'a list" where
  "reverse_swap i j xs =
     (if i < j then reverse_swap (i + 1) (j - 1) (xs[i := xs ! j, j := xs ! i]) else xs)"
  by auto
termination
  by (relation "measure (\<lambda>(i, j, xs). j - i)") auto

declare reverse_swap.simps [simp del]

definition OpStack :: "goerr option \<Rightarrow> string list" where
  "OpStack err = (let ops = OpStack_ops err in reverse_swap 0 (length ops - 1) ops)"

function KindIs :: "goerr option \<Rightarrow> Kind \<Rightarrow> bool" where
  "KindIs None k = False"
| "KindIs (Some err) k =
     (case As_Error err of
        None \<Rightarrow> False
      | Some x \<Rightarrow> (if Kind x = k then True else KindIs (Err x) k))"
  by pat_completeness auto
termination
  by (relation "measure (\<lambda>(e, k). case e of None \<Rightarrow> 0 | Some e \<Rightarrow> Suc (size e))")
    (auto split: option.split dest: As_Error_size)

subsection \<open>HTTP responses\<close>

record ServiceError =
  se_Kind :: string
  se_Code :: string
  se_Param :: string
  se_Message :: string

datatype body = NoBody | NullBody | ErrResponse ServiceError | ErrorResult "string list"

record http_response =
  r_status :: int
  r_headers :: "(string \<times> string) list"
  r_body :: body

definition http_response :: "int \<Rightarrow> (string \<times> string) list \<Rightarrow> body \<Rightarrow> http_response" where
  "http_response s h b = \<lparr>r_status = s, r_headers = h, r_body = b\<rparr>"

definition ServiceError :: "string \<Rightarrow> string \<Rightarrow> string \<Rightarrow> string \<Rightarrow> ServiceError" where
  "ServiceError k c p m = \<lparr>se_Kind = k, se_Code = c, se_Param = p, se_Message = m\<rparr>"

definition httpStatusCode :: "Kind \<Rightarrow> int" where
  "httpStatusCode k =
     (case k of
        Validation \<Rightarrow> 400
      | Invalid \<Rightarrow> 400
      | Unauthenticated \<Rightarrow> 401
      | Unauthorized \<Rightarrow> 403
      | Database \<Rightarrow> 500
      | Internal \<Rightarrow> 500
      | Other \<Rightarrow> 500)"

definition sendJSON :: "int \<Rightarrow> ServiceError \<Rightarrow> http_response" where
  "sendJSON status e =
     http_response status
       [(''Content-Type'', ''application/json; charset=utf-8''), (''X-Content-Type-Options'', ''nosniff'')]
       (ErrResponse e)"

definition HTTPErrorResponse :: "(goerr \<Rightarrow> string) \<Rightarrow> goerr option \<Rightarrow> http_response" where
  "HTTPErrorResponse ext_text err =
     (case err of
        None \<Rightarrow> http_response 500 [] NoBody
      | Some err \<Rightarrow>
          (case As_Error err of
             None \<Rightarrow>
               sendJSON 500 (ServiceError ''unanticipated_error'' '''' '''' ''Unexpected internal server error.'')
           | Some e \<Rightarrow>
               if Kind e = Unauthenticated then
                 http_response 401 [(''WWW-Authenticate'', ''Bearer realm='' @ [CHR 0x22] @ Realm e @ [CHR 0x22])] NoBody
               else if Kind e = Unauthorized then
                 http_response 403 [] NoBody
               else if Kind e = Validation \<or> Kind e = Invalid then
                 sendJSON (httpStatusCode (Kind e))
                   (ServiceError (Kind_String (Kind e)) (Code e) (Param e) (Error_string ext_text e))
               else
                 sendJSON (httpStatusCode (Kind e))
                   (ServiceError (Kind_String (Kind e)) '''' ''''
                      ''An internal error occurred. Please contact support.'')))"

definition writeJSON :: "int \<Rightarrow> body \<Rightarrow> http_response" where
  "writeJSON status b = http_response status [(''Content-Type'', ''application/json'')] b"

definition getValidationErrorMsg :: "field_error \<Rightarrow> string" where
  "getValidationErrorMsg fe =
     (if fe_Tag fe = ''required'' then fe_Field fe @ '' is required''
      else if fe_Tag fe = ''lte'' then fe_Field fe @ '' should be less than or equal to '' @ fe_Param fe
      else if fe_Tag fe = ''lt'' then fe_Field fe @ '' should be less than '' @ fe_Param fe
      else if fe_Tag fe = ''gte'' then fe_Field fe @ '' should be greater than or equal to '' @ fe_Param fe
      else if fe_Tag fe = ''gt'' then fe_Field fe @ '' should be greater than '' @ fe_Param fe
      else if fe_Tag fe = ''min'' then fe_Field fe @ '' should have minimum length of '' @ fe_Param fe
      else if fe_Tag fe = ''max'' then fe_Field fe @ '' should have maximum length of '' @ fe_Param fe
      else if fe_Tag fe = ''alpha'' then fe_Field fe @ '' should contain alpha characters only''
      else ''Unknown error'')"

definition translateErrors :: "field_error list \<Rightarrow> string list" where
  "translateErrors vs = map getValidationErrorMsg vs"

text \<open>
  Only a bare \<^verbatim>\<open>ValidationErrors\<close> is recognised here (a type assertion, not \<^verbatim>\<open>errors.As\<close>).
\<close>

definition errorToHttpResult :: "goerr \<Rightarrow> int \<times> body" where
  "errorToHttpResult err =
     (case err of
        ValidationErrors vs \<Rightarrow> (400, ErrorResult (translateErrors vs))
      | _ \<Rightarrow>
          if Is_ErrNoRows err then (404, NullBody)
          else
            (case As_PgError err of
               Some pe \<Rightarrow>
                 if SqlState pe = ''23505'' then (409, ErrorResult [''Record duplication detected''])
                 else (500, ErrorResult [''Unknown error''])
             | None \<Rightarrow> (500, ErrorResult [''Unknown error''])))"

definition is_duplicate :: "goerr \<Rightarrow> bool" where
  "is_duplicate err \<longleftrightarrow>
     (case As_PgError err of Some pe \<Rightarrow> SqlState pe = ''23505'' | None \<Rightarrow> False)"

definition writeError :: "(goerr \<Rightarrow> string) \<Rightarrow> goerr \<Rightarrow> http_response" where
  "writeError ext_text err =
     (if Is_ErrNoRows err then writeJSON 404 NullBody
      else if is_duplicate err then writeJSON 409 (ErrorResult [''Record duplication detected''])
      else
        (case As_Error err of
           Some e \<Rightarrow> HTTPErrorResponse ext_text (Some e)
         | None \<Rightarrow> (case errorToHttpResult err of (status, b) \<Rightarrow> writeJSON status b)))"

subsection \<open>Facts about chains\<close>

lemma As_Error_cases:
  "As_Error e = None \<longleftrightarrow> filter is_Error (chain e) = []"
  by (simp add: As_Error_def find_None_not filter_empty_conv)

lemma As_Error_chain:
  assumes "As_Error e = Some x"
  shows "filter is_Error (chain e) =
           x # (case Err x of None \<Rightarrow> [] | Some y \<Rightarrow> filter is_Error (chain y))"
  using assms
proof (induction e rule: chain.induct)
  case (1 e)
  show ?case
  proof (cases "is_Error e")
    case True
    with "1.prems" have "x = e" by (simp add: As_Error_def chain.simps [of e])
    with True show ?thesis
      by (cases e) (auto simp: chain.simps [of e] split: option.split)
  next
    case False
    with "1.prems" obtain e' where e': "Unwrap e = Some e'" "As_Error e' = Some x"
      by (auto simp: As_Error_def chain.simps [of e] split: option.splits)
    with "1.IH" False show ?thesis by (simp add: chain.simps [of e])
  qed
qed

lemma As_Error_is_Error: "As_Error e = Some x \<Longrightarrow> is_Error x"
  by (auto simp: As_Error_def dest: find_Some_mem)

lemma As_Error_self [simp]: "As_Error (Error_struct o' k p c r e) = Some (Error_struct o' k p c r e)"
  by (cases e) (simp_all add: As_Error_def)

lemma OpStack_ops_eq:
  "OpStack_ops err =
     (case err of None \<Rightarrow> [] | Some e \<Rightarrow> filter (\<lambda>o'. o' \<noteq> '''') (map Op (filter is_Error (chain e))))"
proof (induction err rule: OpStack_ops.induct)
  case 1
  then show ?case by simp
next
  case (2 e)
  then show ?case
    by (auto simp: As_Error_cases As_Error_chain split: option.splits)
qed

lemma KindIs_eq: "KindIs (Some e) k \<longleftrightarrow> (\<exists>x \<in> set (chain e). is_Error x \<and> Kind x = k)"
proof -
  have "KindIs err k \<longleftrightarrow>
          (case err of None \<Rightarrow> False | Some e \<Rightarrow> k \<in> Kind ` set (filter is_Error (chain e)))" for err
  proof (induction err k rule: KindIs.induct)
    case (1 k)
    then show ?case by simp
  next
    case (2 e k)
    then show ?case
      by (auto simp: As_Error_cases As_Error_chain simp del: set_filter split: option.splits)
  qed
  from this [of "Some e"] show ?thesis by auto
qed

text \<open>The swap loop reverses the segment it runs over.\<close>

lemma reverse_swap_nth:
  assumes "j < length xs" and "k < length xs"
  shows "length (reverse_swap i j xs) = length xs \<and>
         reverse_swap i j xs ! k = (if i \<le> k \<and> k \<le> j then xs ! (i + j - k) else xs ! k)"
  using assms
proof (induction i j xs rule: reverse_swap.induct)
  case (1 i j xs)
  show ?case
  proof (cases "i < j")
    case False
    then have "reverse_swap i j xs = xs" by (simp add: reverse_swap.simps [of i j xs])
    moreover have "i \<le> k \<and> k \<le> j \<Longrightarrow> i + j - k = k" using False by linarith
    ultimately show ?thesis by simp
  next
    case True
    let ?ys = "xs[i := xs ! j, j := xs ! i]"
    have step: "reverse_swap i j xs = reverse_swap (i + 1) (j - 1) ?ys"
      using True by (simp add: reverse_swap.simps [of i j xs])
    have IH: "length (reverse_swap (i + 1) (j - 1) ?ys) = length xs \<and>
              reverse_swap (i + 1) (j - 1) ?ys ! k =
                (if i + 1 \<le> k \<and> k \<le> j - 1 then ?ys ! (i + 1 + (j - 1) - k) else ?ys ! k)"
      using "1.IH" [OF True] "1.prems" by simp
    have sum: "i + 1 + (j - 1) = i + j" using True by simp
    consider "k = i" | "k = j" | "i < k" "k < j" | "k < i \<or> j < k" by linarith
    then show ?thesis
      using IH True "1.prems" unfolding step sum
      by cases (auto simp: nth_list_update)
  qed
qed

lemma reverse_swap_rev: "reverse_swap 0 (length xs - 1) xs = rev xs"
proof (cases "xs = []")
  case True
  then show ?thesis by (simp add: reverse_swap.simps)
next
  case False
  then have "length xs - 1 < length xs" by simp
  note nth = reverse_swap_nth [OF this]
  show ?thesis
  proof (rule nth_equalityI)
    show "length (reverse_swap 0 (length xs - 1) xs) = length (rev xs)"
      using nth [of 0 0] False by simp
  next
    fix k
    assume "k < length (reverse_swap 0 (length xs - 1) xs)"
    then have "k < length xs" using nth [of 0 0] False by simp
    then show "reverse_swap 0 (length xs - 1) xs ! k = rev xs ! k"
      using nth [of k 0] by (auto simp: rev_nth)
  qed
qed

lemma OpStack_eq: "OpStack err = rev (OpStack_ops err)"
  unfolding OpStack_def Let_def by (rule reverse_swap_rev)

lemma OpStack_Some:
  "OpStack (Some e) = rev (filter (\<lambda>o'. o' \<noteq> '''') (map Op (filter is_Error (chain e))))"
  by (simp add: OpStack_eq OpStack_ops_eq)

subsection \<open>Facts about the responses\<close>

lemma E_Error_struct: "\<exists>o' k p c r e. fold E_step args (Error_struct a b d f g h) = Error_struct o' k p c r e"
proof (induction args arbitrary: a b d f g h)
  case Nil
  then show ?case by simp
next
  case (Cons x args)
  show ?case by (cases x) (simp_all add: Cons.IH)
qed

lemma wrap_Database [simp]:
  "Is_ErrNoRows (Error_struct o' k p c r (Some e)) = Is_ErrNoRows e"
  "is_duplicate (Error_struct o' k p c r (Some e)) = is_duplicate e"
  by (simp_all add: Is_ErrNoRows_def is_duplicate_def As_PgError_def)

lemma leaf_errors [simp]:
  "Is_ErrNoRows ErrNoRows" "\<not> Is_ErrNoRows (PgError s n)" "\<not> Is_ErrNoRows (NewError m)"
  "is_duplicate (PgError s n) \<longleftrightarrow> s = ''23505''" "\<not> is_duplicate ErrNoRows" "\<not> is_duplicate (NewError m)"
  by (simp_all add: Is_ErrNoRows_def is_duplicate_def As_PgError_def)

text \<open>The three answers a service's database error can lead to.\<close>

definition masked_500 :: http_response where
  "masked_500 =
     sendJSON 500 (ServiceError ''database error'' '''' '''' ''An internal error occurred. Please contact support.'')"

lemma writeError_Database:
  "writeError ext_text (E_op o' Database e) =
     (if Is_ErrNoRows e then writeJSON 404 NullBody
      else if is_duplicate e then writeJSON 409 (ErrorResult [''Record duplication detected''])
      else masked_500)"
  by (simp add: E_op_eq writeError_def HTTPErrorResponse_def masked_500_def httpStatusCode_def Kind_String_def)

lemma writeError_Invalid:
  "writeError ext_text (E_msg o' Invalid m) =
     sendJSON 400 (ServiceError ''invalid operation'' '''' '''' m)"
  by (simp add: E_msg_eq writeError_def HTTPErrorResponse_def httpStatusCode_def Kind_String_def)

end
