(* ===== verification/Sql_Table.thy ===== *)
theory Sql_Table
  imports Errs
begin

section \<open>Tables as keyed lists of rows\<close>

text \<open>
  What the SQL statements of \<^verbatim>\<open>src/db/queries.sql.go\<close> do to one table.  A table is
  the list of its rows; \<open>key\<close> reads a row's primary key.  Where a statement has no
  \<^verbatim>\<open>ORDER BY\<close> the order of the rows is the database's choice, and the theorems
  about it speak of sets of rows.

  \<^item> \<open>select_one\<close>: \<^verbatim>\<open>SELECT ... WHERE key = $1\<close> scanned by \<^verbatim>\<open>QueryRow\<close>;
  \<^item> \<open>insert_row\<close>: \<^verbatim>\<open>INSERT\<close>, a unique violation (SQLSTATE 23505) when the key is taken;
  \<^item> \<open>insert_new\<close>: \<^verbatim>\<open>INSERT ... ON CONFLICT DO NOTHING\<close>;
  \<^item> \<open>upsert_row\<close>: \<^verbatim>\<open>INSERT ... ON CONFLICT (key) DO UPDATE SET ...\<close>;
  \<^item> \<open>update_where\<close>, \<open>delete_where\<close>: \<^verbatim>\<open>UPDATE\<close> and \<^verbatim>\<open>DELETE\<close> with a \<^verbatim>\<open>WHERE\<close>.
\<close>

definition select_one :: "('r \<Rightarrow> bool) \<Rightarrow> 'r list \<Rightarrow> goerr + 'r" where
  "select_one P t = (case find P t of None \<Rightarrow> Inl ErrNoRows | Some r \<Rightarrow> Inr r)"

definition insert_row :: "string \<Rightarrow> ('r \<Rightarrow> 'k) \<Rightarrow> 'r \<Rightarrow> 'r list \<Rightarrow> goerr + 'r list" where
  "insert_row constraint key r t =
     (if key r \<in> key ` set t then Inl (PgError ''23505'' constraint) else Inr (t @ [r]))"

definition insert_new :: "('r \<Rightarrow> 'k) \<Rightarrow> 'r \<Rightarrow> 'r list \<Rightarrow> 'r list" where
  "insert_new key r t = (if key r \<in> key ` set t then t else t @ [r])"

definition update_where :: "('r \<Rightarrow> bool) \<Rightarrow> ('r \<Rightarrow> 'r) \<Rightarrow> 'r list \<Rightarrow> 'r list" where
  "update_where P f t = map (\<lambda>r. if P r then f r else r) t"

definition delete_where :: "('r \<Rightarrow> bool) \<Rightarrow> 'r list \<Rightarrow> 'r list" where
  "delete_where P t = filter (\<lambda>r. \<not> P r) t"

definition upsert_row :: "('r \<Rightarrow> 'k) \<Rightarrow> 'r \<Rightarrow> ('r \<Rightarrow> 'r) \<Rightarrow> 'r list \<Rightarrow> 'r list" where
  "upsert_row key r upd t =
     (if key r \<in> key ` set t then update_where (\<lambda>x. key x = key r) upd t else t @ [r])"

definition keyed :: "('r \<Rightarrow> 'k) \<Rightarrow> 'r list \<Rightarrow> bool" where
  "keyed key t \<longleftrightarrow> distinct (map key t)"

subsection \<open>Reads\<close>

lemma select_one_Inr [res_simps]: "select_one P t = Inr r \<longleftrightarrow> find P t = Some r"
  by (simp add: select_one_def split: option.split)

lemma select_one_Inl [res_simps]: "select_one P t = Inl e \<longleftrightarrow> find P t = None \<and> e = ErrNoRows"
  by (auto simp: select_one_def split: option.split)

lemma select_one_error: "select_one P t = Inl e \<Longrightarrow> Is_ErrNoRows e"
  by (auto simp: select_one_Inl)

lemma keyed_find:
  assumes "keyed key t"
  shows "find (\<lambda>r. key r = k) t = Some r \<longleftrightarrow> r \<in> set t \<and> key r = k"
  using assms
proof (induction t)
  case Nil
  then show ?case by simp
next
  case (Cons x t)
  then show ?case by (auto simp: keyed_def image_iff)
qed

lemma keyed_inj: "keyed key t \<Longrightarrow> a \<in> set t \<Longrightarrow> b \<in> set t \<Longrightarrow> key a = key b \<Longrightarrow> a = b"
  by (simp add: keyed_def distinct_map inj_on_def)

lemma keyed_Nil [simp]: "keyed key []"
  by (simp add: keyed_def)

lemma keyed_filter: "keyed key t \<Longrightarrow> keyed key (filter P t)"
  by (simp add: keyed_def distinct_map_filter)

subsection \<open>Writes\<close>

lemma keyed_delete [intro]: "keyed key t \<Longrightarrow> keyed key (delete_where P t)"
  by (simp add: delete_where_def keyed_filter)

lemma set_delete_where [tbl_simps]: "set (delete_where P t) = {r \<in> set t. \<not> P r}"
  by (simp add: delete_where_def)

lemma set_update_where [tbl_simps]:
  "set (update_where P f t) = {r \<in> set t. \<not> P r} \<union> f ` {r \<in> set t. P r}"
  by (auto simp: update_where_def)

lemma keyed_update:
  assumes "keyed key t" and "\<And>r. P r \<Longrightarrow> key (f r) = key r"
  shows "keyed key (update_where P f t)"
proof -
  from assms(2) have "map key (update_where P f t) = map key t"
    by (simp add: update_where_def)
  with assms(1) show ?thesis by (simp add: keyed_def)
qed

lemma keyed_insert: "keyed key t \<Longrightarrow> insert_row c key r t = Inr t' \<Longrightarrow> keyed key t'"
  by (auto simp: insert_row_def keyed_def split: if_splits)

lemma keyed_insert_new: "keyed key t \<Longrightarrow> keyed key (insert_new key r t)"
  by (auto simp: insert_new_def keyed_def)

lemma keyed_upsert:
  assumes "keyed key t" and "\<And>x. key x = key r \<Longrightarrow> key (upd x) = key r"
  shows "keyed key (upsert_row key r upd t)"
  using assms keyed_update [of key t "\<lambda>x. key x = key r" upd]
  by (auto simp: upsert_row_def keyed_def)

lemma insert_row_Inr [res_simps]:
  "insert_row c key r t = Inr t' \<longleftrightarrow> key r \<notin> key ` set t \<and> t' = t @ [r]"
  by (auto simp: insert_row_def)

lemma insert_row_Inl [res_simps]:
  "insert_row c key r t = Inl e \<longleftrightarrow> key r \<in> key ` set t \<and> e = PgError ''23505'' c"
  by (auto simp: insert_row_def)

lemma upsert_row_mem:
  "x \<in> set (upsert_row key r upd t) \<Longrightarrow> x \<in> set t \<or> x = r \<or> (\<exists>y \<in> set t. key y = key r \<and> x = upd y)"
  by (auto simp: upsert_row_def tbl_simps split: if_splits)

text \<open>The rows of other keys survive an upsert, and the key's row is the new one.\<close>

lemma upsert_others:
  assumes "\<And>x. key x = key r \<Longrightarrow> key (upd x) = key r"
  shows "{x \<in> set (upsert_row key r upd t). key x \<noteq> key r} = {x \<in> set t. key x \<noteq> key r}"
  using assms by (auto simp: upsert_row_def tbl_simps)

lemma upsert_own:
  assumes "keyed key t" and "\<And>x. key x = key r \<Longrightarrow> key (upd x) = key r"
  shows "{x \<in> set (upsert_row key r upd t). key x = key r} =
           {case find (\<lambda>x. key x = key r) t of None \<Rightarrow> r | Some x \<Rightarrow> upd x}"
proof (cases "find (\<lambda>x. key x = key r) t")
  case None
  then have "key r \<notin> key ` set t" "{x \<in> set t. key x = key r} = {}"
    by (auto simp: find_None_not image_iff)
  then have "{x \<in> set (upsert_row key r upd t). key x = key r} = {r}"
    by (auto simp: upsert_row_def)
  with None show ?thesis by simp
next
  case (Some x)
  then have x: "x \<in> set t" "key x = key r" using keyed_find [OF assms(1)] by auto
  with assms have "{y \<in> set t. key y = key r} = {x}"
    by (auto dest: keyed_inj)
  moreover from x have "key r \<in> key ` set t" by (metis imageI)
  ultimately show ?thesis
    using Some assms(2) x by (auto simp: upsert_row_def tbl_simps)
qed

lemma update_where_find:
  assumes "\<And>x. key x = k' \<Longrightarrow> key (upd x) = k'"
  shows "find (\<lambda>x. key x = k) (update_where (\<lambda>x. key x = k') upd t) =
           (if k = k' then map_option upd (find (\<lambda>x. key x = k) t) else find (\<lambda>x. key x = k) t)"
  using assms by (induction t) (auto simp: update_where_def)

lemma find_append: "find P (xs @ ys) = (case find P xs of None \<Rightarrow> find P ys | Some x \<Rightarrow> Some x)"
  by (induction xs) auto

lemma find_key_None: "find (\<lambda>x. key x = k) t = None \<longleftrightarrow> k \<notin> key ` set t"
  by (induction t) auto

lemma upsert_find:
  assumes "\<And>x. key x = key r \<Longrightarrow> key (upd x) = key r"
  shows "find (\<lambda>x. key x = k) (upsert_row key r upd t) =
           (if k = key r then Some (case find (\<lambda>x. key x = k) t of None \<Rightarrow> r | Some x \<Rightarrow> upd x)
            else find (\<lambda>x. key x = k) t)"
proof (cases "key r \<in> key ` set t")
  case True
  then have "find (\<lambda>x. key x = key r) t \<noteq> None" by (subst find_key_None) simp
  then show ?thesis
    using True update_where_find [of key "key r" upd k t] assms by (auto simp: upsert_row_def)
next
  case False
  then have "find (\<lambda>x. key x = key r) t = None" by (subst find_key_None) simp
  then show ?thesis
    using False by (auto simp: upsert_row_def find_append split: option.split)
qed

text \<open>The rows of other users, in tables whose key starts with the user.\<close>

lemma upsert_row_other_user:
  assumes "\<And>x. key x = key r \<Longrightarrow> key (upd x) = key r" and "fst (key r) \<noteq> uid'"
  shows "filter (\<lambda>x. fst (key x) = uid') (upsert_row key r upd t) = filter (\<lambda>x. fst (key x) = uid') t"
proof -
  have "filter (\<lambda>x. fst (key x) = uid') (update_where (\<lambda>x. key x = key r) upd t) =
        filter (\<lambda>x. fst (key x) = uid') t"
    using assms by (induction t) (auto simp: update_where_def)
  then show ?thesis using assms(2) by (simp add: upsert_row_def)
qed

end
