(* ===== verification/Proto_Api.thy ===== *)
theory Proto_Api
  imports Sql_Table
begin

section \<open>Protobuf messages and the environment\<close>

text \<open>
  The messages of \<^verbatim>\<open>src/protos/api/api.pb.go\<close> (generated from \<^verbatim>\<open>src/protos/api.proto\<close>)
  the sync service reads and writes, one \<open>record\<close> per message.  A wrapper field
  (\<^verbatim>\<open>google.protobuf.Int32Value\<close> and the like) and a nil-able pointer are an
  \<open>option\<close>; a \<^verbatim>\<open>double\<close> is its 64-bit pattern read as an integer.  A timestamp is a
  pair of seconds and nanoseconds, an instant (\<^verbatim>\<open>time.Time\<close>) the number of
  nanoseconds since the epoch.

  The record \<open>env\<close> holds the code that is not part of the repository: PostgreSQL's
  conversions of \<^verbatim>\<open>uuid\<close>, \<^verbatim>\<open>timestamptz\<close> and \<^verbatim>\<open>jsonb\<close> values, the \<^verbatim>\<open>protojson\<close> codec, and the
  parser and printer of URLs, and the database's failures.  \<open>env_ok\<close> names the documented behaviour of them
  that theorems rely on.
\<close>

subsection \<open>Time\<close>

record Timestamp =
  ts_Seconds :: int
  ts_Nanos :: int

type_synonym instant = int

definition AsTime :: "Timestamp \<Rightarrow> instant" where
  "AsTime ts = ts_Seconds ts * 1000000000 + ts_Nanos ts"

definition timestamppb_New :: "instant \<Rightarrow> Timestamp" where
  "timestamppb_New t = \<lparr>ts_Seconds = t div 1000000000, ts_Nanos = t mod 1000000000\<rparr>"

definition UnixMilli :: "instant \<Rightarrow> int" where
  "UnixMilli t = int64 (t div 1000000)"

definition timestampFromMillis :: "int \<Rightarrow> instant" where
  "timestampFromMillis ms = ms * 1000000"

lemma AsTime_New [simp]: "AsTime (timestamppb_New t) = t"
  by (simp add: AsTime_def timestamppb_New_def)

lemma UnixMilli_FromMillis [simp]: "UnixMilli (timestampFromMillis ms) = int64 ms"
  by (simp add: UnixMilli_def timestampFromMillis_def)

subsection \<open>Settings messages\<close>

text \<open>
  The settings messages are handled through reflection, so a message is the list of
  its populated fields with their names, in the order \<^verbatim>\<open>Range\<close> visits them, which
  protobuf leaves undefined.  A field holds one of the four setting messages.
\<close>

datatype setting_type = Int32Setting | BoolSetting | DoubleSetting | StringSetting

datatype scalar = VInt32 int | VBool bool | VDouble int | VString string

fun scalar_type :: "scalar \<Rightarrow> setting_type" where
  "scalar_type (VInt32 _) = Int32Setting"
| "scalar_type (VBool _) = BoolSetting"
| "scalar_type (VDouble _) = DoubleSetting"
| "scalar_type (VString _) = StringSetting"

record setting =
  set_FullName :: setting_type
  set_Value :: "scalar option"
  set_Changed :: "bool option"
  set_ModifiedAt :: "Timestamp option"

type_synonym settings_msg = "(string \<times> setting) list"
type_synonym named_settings = "(string \<times> scalar) list"
type_synonym descriptor = "(string \<times> setting_type) list"

definition ChangeableSettings_fields :: descriptor where
  "ChangeableSettings_fields =
     [(''grid_layout'', Int32Setting), (''grid_order'', Int32Setting), (''show_played'', Int32Setting),
      (''theme'', Int32Setting), (''skip_forward'', Int32Setting), (''skip_back'', Int32Setting),
      (''web_version'', Int32Setting), (''language'', StringSetting), (''recommendations_on'', BoolSetting),
      (''use_embedded_artwork'', BoolSetting), (''playback_speed'', DoubleSetting),
      (''volume_boost'', BoolSetting), (''badges'', Int32Setting),
      (''free_gift_acknowledgement'', BoolSetting), (''marketing_opt_in'', BoolSetting),
      (''auto_archive_played_episodes'', BoolSetting), (''auto_archive_includes_starred'', BoolSetting),
      (''region'', StringSetting), (''row_action'', Int32Setting), (''up_next_swipe'', Int32Setting),
      (''episode_grouping'', Int32Setting), (''show_archived'', BoolSetting), (''open_links'', BoolSetting),
      (''media_actions'', BoolSetting), (''media_actions_order'', StringSetting),
      (''keep_screen_awake'', BoolSetting), (''open_player'', BoolSetting),
      (''intelligent_resumption'', BoolSetting), (''play_up_next_on_tap'', BoolSetting),
      (''remote_skip_chapters'', BoolSetting), (''playback_actions'', BoolSetting),
      (''legacy_bluetooth'', BoolSetting), (''multi_select_gesture'', BoolSetting),
      (''chapter_titles'', BoolSetting), (''notifications'', BoolSetting),
      (''notification_actions'', StringSetting), (''play_over_notifications'', Int32Setting),
      (''hide_notification_on_pause'', BoolSetting), (''app_badge'', Int32Setting),
      (''app_badge_filter'', StringSetting), (''auto_archive_played'', Int32Setting),
      (''auto_archive_inactive'', Int32Setting), (''auto_up_next_limit'', Int32Setting),
      (''auto_up_next_limit_reached'', Int32Setting), (''warn_data_usage'', BoolSetting),
      (''files_auto_up_next'', BoolSetting), (''files_after_playing_delete_local'', BoolSetting),
      (''files_after_playing_delete_cloud'', BoolSetting), (''privacy_analytics'', BoolSetting),
      (''privacy_crash_reports'', BoolSetting), (''privacy_link_account'', BoolSetting),
      (''player_shelf'', StringSetting), (''auto_subscribe_to_played'', BoolSetting),
      (''auto_show_played'', BoolSetting), (''auto_play_enabled'', BoolSetting),
      (''auto_play_last_list_uuid'', StringSetting), (''trim_silence'', Int32Setting),
      (''show_artwork_on_lock_screen'', BoolSetting), (''headphone_controls_next_action'', Int32Setting),
      (''headphone_controls_previous_action'', Int32Setting),
      (''headphone_controls_play_bookmark_confirmation_sound'', BoolSetting),
      (''dark_theme_preference'', Int32Setting), (''light_theme_preference'', Int32Setting),
      (''use_system_theme'', BoolSetting), (''episode_bookmarks_sort_type'', Int32Setting),
      (''player_bookmarks_sort_type'', Int32Setting), (''podcast_bookmarks_sort_type'', Int32Setting),
      (''use_dark_up_next_theme'', BoolSetting), (''use_dynamic_colors_for_widget'', BoolSetting),
      (''files_sort_order'', Int32Setting), (''background_refresh'', BoolSetting),
      (''auto_download_unmetered_only'', BoolSetting), (''auto_download_only_when_charging'', BoolSetting),
      (''auto_download_up_next'', BoolSetting), (''cloud_auto_upload'', BoolSetting),
      (''cloud_auto_download'', BoolSetting), (''cloud_download_unmetered_only'', BoolSetting),
      (''use_rss_artwork'', BoolSetting), (''bookmarks_sort_order'', Int32Setting),
      (''auto_archive_played_episodes_global'', BoolSetting),
      (''auto_archive_includes_starred_global'', BoolSetting), (''files_auto_up_next_global'', BoolSetting),
      (''files_after_playing_delete_local_global'', BoolSetting),
      (''files_after_playing_delete_cloud_global'', BoolSetting), (''player_shelf_global'', StringSetting),
      (''row_action_global'', Int32Setting), (''use_embedded_artwork_global'', BoolSetting),
      (''recommendations_on_global'', BoolSetting), (''grid_layout_global'', Int32Setting),
      (''volume_boost_global'', BoolSetting), (''badges_global'', Int32Setting),
      (''smart_folders_number_of_times_shown'', Int32Setting),
      (''smart_folders_last_date_shown'', StringSetting),
      (''save_up_next_on_playlists_play_all'', BoolSetting), (''do_not_sell_or_share'', BoolSetting),
      (''live_analytics_url'', StringSetting), (''listening_time_stats'', BoolSetting),
      (''tap_to_play'', BoolSetting), (''seek_acceleration'', BoolSetting),
      (''transcription_engine_mode'', Int32Setting), (''transcription_battery_policy'', Int32Setting),
      (''transcription_language_override'', StringSetting),
      (''transcription_remote_provider'', StringSetting), (''transcription_max_speakers'', Int32Setting),
      (''transcription_whisper_model'', StringSetting),
      (''transcription_allow_cellular_model_downloads'', BoolSetting),
      (''transcription_local_stack'', StringSetting), (''adaptive_effects'', BoolSetting),
      (''allow_cellular_downloads'', BoolSetting), (''allow_cellular_auto_downloads'', BoolSetting),
      (''review_highlight_after_capture'', BoolSetting), (''highlight_style_preset'', StringSetting),
      (''highlight_style_custom'', StringSetting), (''highlight_confirmation_style'', Int32Setting)]"

definition NamedSettingsResponse_fields :: descriptor where
  "NamedSettingsResponse_fields =
     [(''grid_layout'', Int32Setting), (''grid_order'', Int32Setting), (''show_played'', Int32Setting),
      (''theme'', Int32Setting), (''skip_forward'', Int32Setting), (''skip_back'', Int32Setting),
      (''web_version'', Int32Setting), (''language'', StringSetting), (''recommendations_on'', BoolSetting),
      (''use_embedded_artwork'', BoolSetting), (''playback_speed'', DoubleSetting),
      (''volume_boost'', BoolSetting), (''badges'', Int32Setting),
      (''free_gift_acknowledgement'', BoolSetting), (''marketing_opt_in'', BoolSetting),
      (''auto_archive_played_episodes'', BoolSetting), (''auto_archive_includes_starred'', BoolSetting),
      (''region'', StringSetting), (''row_action'', Int32Setting), (''up_next_swipe'', Int32Setting),
      (''episode_grouping'', Int32Setting), (''show_archived'', BoolSetting), (''open_links'', BoolSetting),
      (''media_actions'', BoolSetting), (''media_actions_order'', StringSetting),
      (''keep_screen_awake'', BoolSetting), (''open_player'', BoolSetting),
      (''intelligent_resumption'', BoolSetting), (''play_up_next_on_tap'', BoolSetting),
      (''remote_skip_chapters'', BoolSetting), (''playback_actions'', BoolSetting),
      (''legacy_bluetooth'', BoolSetting), (''multi_select_gesture'', BoolSetting),
      (''chapter_titles'', BoolSetting), (''notifications'', BoolSetting),
      (''notification_actions'', StringSetting), (''play_over_notifications'', Int32Setting),
      (''hide_notification_on_pause'', BoolSetting), (''app_badge'', Int32Setting),
      (''app_badge_filter'', StringSetting), (''auto_archive_played'', Int32Setting),
      (''auto_archive_inactive'', Int32Setting), (''auto_up_next_limit'', Int32Setting),
      (''auto_up_next_limit_reached'', Int32Setting), (''warn_data_usage'', BoolSetting),
      (''files_auto_up_next'', BoolSetting), (''files_after_playing_delete_local'', BoolSetting),
      (''files_after_playing_delete_cloud'', BoolSetting), (''privacy_analytics'', BoolSetting),
      (''privacy_crash_reports'', BoolSetting), (''privacy_link_account'', BoolSetting),
      (''player_shelf'', StringSetting), (''auto_subscribe_to_played'', BoolSetting),
      (''auto_show_played'', BoolSetting), (''auto_play_enabled'', BoolSetting),
      (''auto_play_last_list_uuid'', StringSetting), (''trim_silence'', Int32Setting),
      (''show_artwork_on_lock_screen'', BoolSetting), (''headphone_controls_next_action'', Int32Setting),
      (''headphone_controls_previous_action'', Int32Setting),
      (''headphone_controls_play_bookmark_confirmation_sound'', BoolSetting),
      (''dark_theme_preference'', Int32Setting), (''light_theme_preference'', Int32Setting),
      (''use_system_theme'', BoolSetting), (''episode_bookmarks_sort_type'', Int32Setting),
      (''player_bookmarks_sort_type'', Int32Setting), (''podcast_bookmarks_sort_type'', Int32Setting),
      (''use_dark_up_next_theme'', BoolSetting), (''use_dynamic_colors_for_widget'', BoolSetting),
      (''files_sort_order'', Int32Setting), (''background_refresh'', BoolSetting),
      (''auto_download_unmetered_only'', BoolSetting), (''auto_download_only_when_charging'', BoolSetting),
      (''auto_download_up_next'', BoolSetting), (''cloud_auto_upload'', BoolSetting),
      (''cloud_auto_download'', BoolSetting), (''cloud_download_unmetered_only'', BoolSetting),
      (''use_rss_artwork'', BoolSetting), (''bookmarks_sort_order'', Int32Setting),
      (''auto_archive_played_episodes_global'', BoolSetting),
      (''auto_archive_includes_starred_global'', BoolSetting), (''files_auto_up_next_global'', BoolSetting),
      (''files_after_playing_delete_local_global'', BoolSetting),
      (''files_after_playing_delete_cloud_global'', BoolSetting), (''player_shelf_global'', StringSetting),
      (''row_action_global'', Int32Setting), (''use_embedded_artwork_global'', BoolSetting),
      (''recommendations_on_global'', BoolSetting), (''grid_layout_global'', Int32Setting),
      (''volume_boost_global'', BoolSetting), (''badges_global'', Int32Setting), (''developer'', BoolSetting),
      (''smart_folders_number_of_times_shown'', Int32Setting),
      (''smart_folders_last_date_shown'', StringSetting),
      (''save_up_next_on_playlists_play_all'', BoolSetting), (''do_not_sell_or_share'', BoolSetting),
      (''live_analytics_url'', StringSetting), (''listening_time_stats'', BoolSetting),
      (''tap_to_play'', BoolSetting), (''seek_acceleration'', BoolSetting),
      (''transcription_engine_mode'', Int32Setting), (''transcription_battery_policy'', Int32Setting),
      (''transcription_language_override'', StringSetting),
      (''transcription_remote_provider'', StringSetting), (''transcription_max_speakers'', Int32Setting),
      (''transcription_whisper_model'', StringSetting),
      (''transcription_allow_cellular_model_downloads'', BoolSetting),
      (''transcription_local_stack'', StringSetting), (''adaptive_effects'', BoolSetting),
      (''allow_cellular_downloads'', BoolSetting), (''allow_cellular_auto_downloads'', BoolSetting),
      (''review_highlight_after_capture'', BoolSetting), (''highlight_style_preset'', StringSetting),
      (''highlight_style_custom'', StringSetting), (''highlight_confirmation_style'', Int32Setting)]"

definition PodcastSettings_fields :: descriptor where
  "PodcastSettings_fields =
     [(''notification'', BoolSetting), (''add_to_up_next'', BoolSetting),
      (''add_to_up_next_position'', Int32Setting), (''auto_archive'', BoolSetting),
      (''playback_effects'', BoolSetting), (''playback_speed'', DoubleSetting),
      (''trim_silence'', Int32Setting), (''volume_boost'', BoolSetting), (''auto_start_from'', Int32Setting),
      (''auto_skip_last'', Int32Setting), (''episodes_sort_order'', Int32Setting),
      (''auto_archive_played'', Int32Setting), (''auto_archive_inactive'', Int32Setting),
      (''auto_archive_episode_limit'', Int32Setting), (''episode_grouping'', Int32Setting),
      (''show_archived'', BoolSetting), (''skip_chapter_titles'', StringSetting),
      (''disable_remote_transcription'', BoolSetting)]"

definition settings_ok :: "descriptor \<Rightarrow> settings_msg \<Rightarrow> bool" where
  "settings_ok d m \<longleftrightarrow>
     distinct (map fst m) \<and> (\<forall>(k, s) \<in> set m. map_of d k = Some (set_FullName s))"

subsection \<open>Sync records\<close>

record SyncPlaylistEpisode =
  spe_Episode :: string
  spe_Podcast :: string
  spe_Added :: "int option"
  spe_Published :: "Timestamp option"
  spe_Title :: "string option"
  spe_Url :: "string option"
  spe_PodcastSlug :: "string option"
  spe_EpisodeSlug :: "string option"

record SyncUserPodcast =
  sp_Uuid :: string
  sp_IsDeleted :: "bool option"
  sp_Subscribed :: "bool option"
  sp_AutoStartFrom :: "int option"
  sp_EpisodesSortOrder :: "int option"
  sp_AutoSkipLast :: "int option"
  sp_FolderUuid :: "string option"
  sp_SortPosition :: "int option"
  sp_DateAdded :: "Timestamp option"
  sp_Settings :: "settings_msg option"
  sp_FeedUrl :: "string option"
  sp_Title :: "string option"

record SyncUserEpisode =
  sep_Uuid :: string
  sep_PodcastUuid :: string
  sep_IsDeleted :: "bool option"
  sep_IsDeletedModified :: "int option"
  sep_Duration :: "int option"
  sep_DurationModified :: "int option"
  sep_PlayingStatus :: "int option"
  sep_PlayingStatusModified :: "int option"
  sep_PlayedUpTo :: "int option"
  sep_PlayedUpToModified :: "int option"
  sep_Starred :: "bool option"
  sep_StarredModified :: "int option"
  sep_DeselectedChapters :: string
  sep_DeselectedChaptersModified :: "int option"

text \<open>A repeated field that is absent on the wire is a nil slice, here the empty list.\<close>

record SyncUserPlaylist =
  spl_Uuid :: string
  spl_IsDeleted :: "bool option"
  spl_Title :: "string option"
  spl_AllPodcasts :: "bool option"
  spl_PodcastUuids :: "string option"
  spl_EpisodeUuids :: "string option"
  spl_AudioVideo :: "int option"
  spl_NotDownloaded :: "bool option"
  spl_Downloaded :: "bool option"
  spl_Downloading :: "bool option"
  spl_Finished :: "bool option"
  spl_PartiallyPlayed :: "bool option"
  spl_Unplayed :: "bool option"
  spl_Starred :: "bool option"
  spl_Manual :: "bool option"
  spl_SortPosition :: "int option"
  spl_SortType :: "int option"
  spl_IconId :: "int option"
  spl_FilterHours :: "int option"
  spl_OriginalUuid :: string
  spl_FilterDuration :: "bool option"
  spl_LongerThan :: "int option"
  spl_ShorterThan :: "int option"
  spl_EpisodeOrder :: "string list"
  spl_Episodes :: "SyncPlaylistEpisode list"
  spl_ShowArchived :: "bool option"
  spl_CustomQuery :: "string option"

record SyncUserFolder =
  sfo_FolderUuid :: string
  sfo_IsDeleted :: bool
  sfo_Name :: string
  sfo_Color :: int
  sfo_SortPosition :: int
  sfo_PodcastsSortType :: int
  sfo_DateAdded :: "Timestamp option"

text \<open>The tags of a bookmark keep the difference between a nil and an empty slice.\<close>

record SyncUserBookmark =
  sbm_BookmarkUuid :: string
  sbm_PodcastUuid :: string
  sbm_EpisodeUuid :: string
  sbm_CreatedAt :: "Timestamp option"
  sbm_Time :: "int option"
  sbm_Title :: "string option"
  sbm_TitleModified :: "int option"
  sbm_IsDeleted :: "bool option"
  sbm_IsDeletedModified :: "int option"
  sbm_AiTitle :: "string option"
  sbm_AiTitleModified :: "int option"
  sbm_AiSummary :: "string option"
  sbm_AiSummaryModified :: "int option"
  sbm_Excerpt :: "string option"
  sbm_EndTime :: "int option"
  sbm_TrimModified :: "int option"
  sbm_Tags :: "string list option"
  sbm_TagsModified :: "int option"

record SyncUserDevice =
  sdv_DeviceId :: "string option"
  sdv_DeviceType :: "int option"
  sdv_TimesStartedAt :: "int option"
  sdv_TimeSilenceRemoval :: "int option"
  sdv_TimeVariableSpeed :: "int option"
  sdv_TimeIntroSkipping :: "int option"
  sdv_TimeSkipping :: "int option"
  sdv_TimeListened :: "int option"

datatype Record =
    Record_Podcast SyncUserPodcast
  | Record_Episode SyncUserEpisode
  | Record_Playlist SyncUserPlaylist
  | Record_Device SyncUserDevice
  | Record_Folder SyncUserFolder
  | Record_Bookmark SyncUserBookmark
  | Record_Unset

record SyncUpdateRequest =
  req_LastModified :: int
  req_Records :: "Record list"

record SyncUpdateResponse =
  resp_LastModified :: int
  resp_Records :: "Record list"

subsection \<open>The environment\<close>

text \<open>
  A JSON document is its value, not its text: \<^verbatim>\<open>json.RawMessage\<close> and the bytes of a
  \<^verbatim>\<open>jsonb\<close> column are a \<open>json\<close>, an empty byte slice is \<open>None\<close>.
\<close>

datatype json =
    JNull
  | JBool bool
  | JNumber string
  | JString string
  | JArray "json list"
  | JObject "(string \<times> json) list"

record url =
  url_Scheme :: string
  url_Host :: string
  url_Path :: string
  url_Fragment :: string
  url_Rest :: "string list"

record env =
  pg_fault :: "string \<Rightarrow> goerr option"
  pg_uuid :: "string \<Rightarrow> string option"
  pg_time :: "instant \<Rightarrow> instant"
  pg_jsonb :: "json \<Rightarrow> json"
  marshal_episode :: "SyncPlaylistEpisode \<Rightarrow> goerr + json"
  unmarshal_episode :: "json \<Rightarrow> SyncPlaylistEpisode option"
  marshal_settings :: "settings_msg \<Rightarrow> goerr + json"
  unmarshal_settings :: "descriptor \<Rightarrow> json \<Rightarrow> goerr + settings_msg"
  url_Parse :: "string \<Rightarrow> url option"
  url_String :: "url \<Rightarrow> string"

text \<open>
  \<open>pg_fault e name\<close> is the failure, if any, that the statement \<open>name\<close> meets during the
  request for reasons outside the tables (a lost connection, a cancelled context);
  a \<open>healthy\<close> environment has none.
\<close>

definition healthy :: "env \<Rightarrow> bool" where
  "healthy e \<longleftrightarrow> pg_fault e = Map.empty"

text \<open>
  The documented behaviour the development relies on: PostgreSQL prints a \<^verbatim>\<open>uuid\<close> in a
  form it reads back as the same value, and rejects the empty string; a stored
  timestamp is stored again unchanged; \<^verbatim>\<open>jsonb\<close> keeps arrays and the empty object; what
  \<^verbatim>\<open>protojson\<close> writes it reads back, also after \<^verbatim>\<open>jsonb\<close> has normalised the document
  (up to the order in which reflection visits the fields), and only a message with
  no populated field is written as the empty object.
\<close>

definition env_ok :: "env \<Rightarrow> bool" where
  "env_ok e \<longleftrightarrow>
     pg_uuid e '''' = None \<and>
     (\<forall>s u. pg_uuid e s = Some u \<longrightarrow> pg_uuid e u = Some u) \<and>
     (\<forall>t. pg_time e (pg_time e t) = pg_time e t) \<and>
     (\<forall>xs. pg_jsonb e (JArray xs) = JArray (map (pg_jsonb e) xs)) \<and>
     pg_jsonb e (JObject []) = JObject [] \<and>
     (\<forall>m j. marshal_episode e m = Inr j \<longrightarrow> unmarshal_episode e (pg_jsonb e j) = Some m) \<and>
     (\<forall>d m j. settings_ok d m \<longrightarrow> marshal_settings e m = Inr j \<longrightarrow>
        pg_jsonb e j \<noteq> JNull \<and> (pg_jsonb e j = JObject [] \<longrightarrow> m = []) \<and>
        (\<exists>m'. unmarshal_settings e d (pg_jsonb e j) = Inr m' \<and> settings_ok d m' \<and> map_of m' = map_of m))"

text \<open>
  Clock readings: \<open>ck_ms\<close> are the wall-clock milliseconds of the successive
  \<^verbatim>\<open>time.Now().UnixMilli()\<close> of a request, \<open>ck_ns\<close> the instants of its other readings,
  \<open>ck_db\<close> the database's \<^verbatim>\<open>now()\<close>, which is fixed for a transaction.
\<close>

record clock =
  ck_ms :: "nat \<Rightarrow> int"
  ck_ns :: "nat \<Rightarrow> instant"
  ck_db :: instant

end
