(* ===== verification/Db_Store.thy ===== *)
theory Db_Store
  imports Proto_Api
begin

section \<open>The database: rows, tables and statements\<close>

text \<open>
  The rows of \<^verbatim>\<open>src/db/models.go\<close>, the tables the sync and account services use, and one
  definition per statement of \<^verbatim>\<open>src/db/queries.sql.go\<close>.  Every statement returns a
  result: \<open>Inl\<close> for a failure of the environment, for \<^verbatim>\<open>pgx.ErrNoRows\<close>, for a value
  that is no \<^verbatim>\<open>uuid\<close> (SQLSTATE 22P02), for a NULL in a NOT NULL column (23502), for a
  number out of range (22003), and for a taken key (23505).  \<open>InTx\<close> is
  \<^verbatim>\<open>pgStore.InTx\<close> of \<^verbatim>\<open>src/db/store.go\<close>; the row lock that \<^verbatim>\<open>GetUserForUpdate\<close> takes makes the
  transactions of one user run one after the other, so a transaction is a function
  on the store.
\<close>

subsection \<open>Rows\<close>

record User =
  u_ID :: int
  u_Uuid :: string
  u_Email :: string
  u_PasswordHash :: string
  u_Scope :: string
  u_CreatedAt :: instant
  u_UpdatedAt :: instant
  u_DeletedAt :: "instant option"
  u_SyncLastModified :: int
  u_UpNextModified :: int
  u_HistoryModified :: int
  u_HistoryClearedAtMs :: int
  u_MarketingOptIn :: bool

record UserPodcast =
  up_UserID :: int
  up_PodcastUuid :: string
  up_Subscribed :: bool
  up_IsDeleted :: bool
  up_AutoStartFrom :: "int option"
  up_AutoSkipLast :: "int option"
  up_EpisodesSortOrder :: "int option"
  up_FolderUuid :: "string option"
  up_SortPosition :: "int option"
  up_DateAdded :: "instant option"
  up_Settings :: "json option"
  up_ModifiedAt :: int
  up_NotifyEnabled :: bool
  up_SyncedTitle :: string
  up_SyncedFeedUrl :: string

record UserEpisode =
  ue_UserID :: int
  ue_EpisodeUuid :: string
  ue_PodcastUuid :: string
  ue_PlayingStatus :: int
  ue_PlayingStatusModified :: int
  ue_PlayedUpTo :: int
  ue_PlayedUpToModified :: int
  ue_Starred :: bool
  ue_StarredModified :: int
  ue_IsDeleted :: bool
  ue_IsDeletedModified :: int
  ue_Duration :: int
  ue_DurationModified :: int
  ue_DeselectedChapters :: string
  ue_DeselectedChaptersModified :: int
  ue_ModifiedAt :: int

record Folder =
  fo_UserID :: int
  fo_FolderUuid :: string
  fo_Name :: string
  fo_Color :: int
  fo_SortPosition :: int
  fo_PodcastsSortType :: int
  fo_DateAdded :: "instant option"
  fo_IsDeleted :: bool
  fo_ModifiedAt :: int

record Playlist =
  pl_UserID :: int
  pl_Uuid :: string
  pl_OriginalUuid :: string
  pl_Title :: string
  pl_IsDeleted :: bool
  pl_AllPodcasts :: "bool option"
  pl_PodcastUuids :: "string option"
  pl_EpisodeUuids :: "string option"
  pl_AudioVideo :: "int option"
  pl_NotDownloaded :: "bool option"
  pl_Downloaded :: "bool option"
  pl_Downloading :: "bool option"
  pl_Finished :: "bool option"
  pl_PartiallyPlayed :: "bool option"
  pl_Unplayed :: "bool option"
  pl_Starred :: "bool option"
  pl_Manual :: "bool option"
  pl_SortPosition :: "int option"
  pl_SortType :: "int option"
  pl_IconID :: "int option"
  pl_FilterHours :: "int option"
  pl_FilterDuration :: "bool option"
  pl_LongerThan :: "int option"
  pl_ShorterThan :: "int option"
  pl_ShowArchived :: "bool option"
  pl_EpisodeOrder :: "string list option"
  pl_Episodes :: "json option"
  pl_ModifiedAt :: int
  pl_CustomQuery :: string

record Bookmark =
  bm_UserID :: int
  bm_BookmarkUuid :: string
  bm_PodcastUuid :: string
  bm_EpisodeUuid :: string
  bm_TimeSecs :: int
  bm_Title :: string
  bm_TitleModified :: int
  bm_CreatedAt :: instant
  bm_IsDeleted :: bool
  bm_IsDeletedModified :: int
  bm_ModifiedAt :: int
  bm_Excerpt :: string
  bm_EndTimeSecs :: int
  bm_TrimModified :: int
  bm_Tags :: "string list option"
  bm_TagsModified :: int

record Device =
  dv_UserID :: int
  dv_DeviceID :: string
  dv_DeviceType :: int
  dv_TimesStartedAt :: int
  dv_TimeSilenceRemoval :: int
  dv_TimeVariableSpeed :: int
  dv_TimeIntroSkipping :: int
  dv_TimeSkipping :: int
  dv_TimeListened :: int
  dv_UpdatedAt :: instant
  dv_CreatedAt :: instant
  dv_PushToken :: string
  dv_PushOn :: bool
  dv_PushEnvironment :: string

record UpNextItem =
  un_UserID :: int
  un_EpisodeUuid :: string
  un_PodcastUuid :: string
  un_Title :: string
  un_Url :: string
  un_Published :: "instant option"
  un_Position :: int
  un_AddedAt :: instant

record History =
  hi_UserID :: int
  hi_EpisodeUuid :: string
  hi_PodcastUuid :: string
  hi_Title :: string
  hi_Url :: string
  hi_Published :: "instant option"
  hi_ModifiedAt :: int
  hi_IsDeleted :: bool

record UserSetting =
  us_UserID :: int
  us_Settings :: "json option"
  us_ModifiedAt :: int

record SocialMilestone =
  ms_UserID :: int
  ms_Kind :: int
  ms_Tier :: int
  ms_CrossedAt :: instant

record Podcast =
  pc_ID :: int
  pc_Uuid :: string
  pc_FeedUrl :: string
  pc_Title :: string
  pc_Author :: string
  pc_Description :: string
  pc_ImageUrl :: string
  pc_WebsiteUrl :: string
  pc_Category :: string
  pc_Language :: string
  pc_MediaType :: string
  pc_ShowType :: string
  pc_IsExplicit :: bool
  pc_RefreshStatus :: string
  pc_RefreshError :: string
  pc_FeedEtag :: string
  pc_FeedLastModified :: string
  pc_LastRefreshAt :: "instant option"
  pc_NextRefreshAt :: instant
  pc_LatestEpisodeUuid :: "string option"
  pc_LatestEpisodePublished :: "instant option"
  pc_ContentModifiedMs :: int
  pc_CreatedAt :: instant
  pc_UpdatedAt :: instant
  pc_BackgroundColor :: string
  pc_TintForLightBg :: string
  pc_TintForDarkBg :: string
  pc_ColorsSourceImageUrl :: string

record RefreshToken =
  rt_ID :: int
  rt_UserID :: int
  rt_TokenHash :: string
  rt_Scope :: string
  rt_CreatedAt :: instant
  rt_ExpiresAt :: instant
  rt_RevokedAt :: "instant option"
  rt_FamilyID :: string
  rt_DeviceID :: string
  rt_RotatedFromID :: "int option"
  rt_LastUsedAt :: "instant option"

record PasswordResetCode =
  prc_ID :: int
  prc_UserID :: int
  prc_CodeHash :: string
  prc_ExpiresAt :: instant
  prc_ConsumedAt :: "instant option"
  prc_CreatedAt :: instant

subsection \<open>Tables\<close>

record store =
  st_users :: "User list"
  st_user_podcasts :: "UserPodcast list"
  st_user_episodes :: "UserEpisode list"
  st_folders :: "Folder list"
  st_playlists :: "Playlist list"
  st_bookmarks :: "Bookmark list"
  st_devices :: "Device list"
  st_up_next :: "UpNextItem list"
  st_history :: "History list"
  st_settings :: "UserSetting list"
  st_milestones :: "SocialMilestone list"
  st_podcasts :: "Podcast list"
  st_refresh_tokens :: "RefreshToken list"
  st_reset_codes :: "PasswordResetCode list"

type_synonym 'a result = "goerr + 'a"

subsection \<open>Statements and conversions\<close>

definition stmt :: "env \<Rightarrow> string \<Rightarrow> 'a result \<Rightarrow> 'a result" where
  "stmt e name r = (case pg_fault e name of Some err \<Rightarrow> Inl err | None \<Rightarrow> r)"

definition cast_uuid :: "env \<Rightarrow> string \<Rightarrow> string result" where
  "cast_uuid e s = (case pg_uuid e s of None \<Rightarrow> Inl (PgError ''22P02'' '''') | Some u \<Rightarrow> Inr u)"

definition cast_uuid_null :: "env \<Rightarrow> string option \<Rightarrow> string option result" where
  "cast_uuid_null e v = (case v of None \<Rightarrow> Inr None | Some s \<Rightarrow> rbind (cast_uuid e s) (\<lambda>u. Inr (Some u)))"

definition not_null :: "'a option \<Rightarrow> 'a result" where
  "not_null v = (case v of None \<Rightarrow> Inl (PgError ''23502'' '''') | Some x \<Rightarrow> Inr x)"

definition cast_bigint :: "int \<Rightarrow> int result" where
  "cast_bigint n = (if is_int64 n then Inr n else Inl (PgError ''22003'' ''''))"

definition cast_int :: "int \<Rightarrow> int result" where
  "cast_int n = (if - (2 ^ 31) \<le> n \<and> n < 2 ^ 31 then Inr n else Inl (PgError ''22003'' ''''))"

lemma stmt_Inr [res_simps]: "stmt e n r = Inr x \<longleftrightarrow> pg_fault e n = None \<and> r = Inr x"
  by (simp add: stmt_def split: option.split)

lemma stmt_healthy [simp]: "healthy e \<Longrightarrow> stmt e n r = r"
  by (simp add: stmt_def healthy_def)

lemma cast_uuid_Inr [res_simps]: "cast_uuid e s = Inr u \<longleftrightarrow> pg_uuid e s = Some u"
  by (simp add: cast_uuid_def split: option.split)

lemma cast_uuid_null_Inr [res_simps]:
  "cast_uuid_null e v = Inr w \<longleftrightarrow>
     (case v of None \<Rightarrow> w = None | Some s \<Rightarrow> (\<exists>u. pg_uuid e s = Some u \<and> w = Some u))"
  by (auto simp: cast_uuid_null_def res_simps split: option.split)

lemma not_null_Inr [res_simps]: "not_null v = Inr x \<longleftrightarrow> v = Some x"
  by (simp add: not_null_def split: option.split)

subsection \<open>Transactions\<close>

definition InTx :: "env \<Rightarrow> ('s \<Rightarrow> ('a \<times> 's) result) \<Rightarrow> 's \<Rightarrow> 'a result \<times> 's" where
  "InTx e fn st =
     (case pg_fault e ''begin'' of
        Some err \<Rightarrow> (Inl err, st)
      | None \<Rightarrow>
          (case fn st of
             Inl err \<Rightarrow> (Inl err, st)
           | Inr (x, st') \<Rightarrow>
               (case pg_fault e ''commit'' of
                  Some err \<Rightarrow> (Inl err, st)
                | None \<Rightarrow> (Inr x, st'))))"

lemma InTx_Inr [res_simps]:
  "InTx e fn st = (Inr x, st') \<longleftrightarrow>
     pg_fault e ''begin'' = None \<and> fn st = Inr (x, st') \<and> pg_fault e ''commit'' = None"
  by (auto simp: InTx_def split: option.splits sum.splits)

text \<open>A failed transaction leaves the store as it was.\<close>

lemma InTx_Inl: "InTx e fn st = (Inl err, st') \<Longrightarrow> st' = st"
  by (auto simp: InTx_def split: option.splits sum.splits)

lemma InTx_healthy:
  "healthy e \<Longrightarrow>
   InTx e fn st = (case fn st of Inl err \<Rightarrow> (Inl err, st) | Inr (x, st') \<Rightarrow> (Inr x, st'))"
  by (simp add: InTx_def healthy_def split: sum.split prod.split)

subsection \<open>Users\<close>

definition GetUserForUpdate :: "env \<Rightarrow> int \<Rightarrow> store \<Rightarrow> User result" where
  "GetUserForUpdate e uid st =
     stmt e ''GetUserForUpdate'' (select_one (\<lambda>u. u_ID u = uid \<and> u_DeletedAt u = None) (st_users st))"

definition GetUserByID :: "env \<Rightarrow> int \<Rightarrow> store \<Rightarrow> User result" where
  "GetUserByID e uid st =
     stmt e ''GetUserByID'' (select_one (\<lambda>u. u_ID u = uid \<and> u_DeletedAt u = None) (st_users st))"

definition SetUserSyncLastModified :: "env \<Rightarrow> int \<Rightarrow> int \<Rightarrow> store \<Rightarrow> store result" where
  "SetUserSyncLastModified e uid m st =
     stmt e ''SetUserSyncLastModified''
       (Inr (st\<lparr>st_users := update_where (\<lambda>u. u_ID u = uid) (\<lambda>u. u\<lparr>u_SyncLastModified := m\<rparr>) (st_users st)\<rparr>))"

definition SetUserUpNextModified :: "env \<Rightarrow> int \<Rightarrow> int \<Rightarrow> store \<Rightarrow> store result" where
  "SetUserUpNextModified e uid m st =
     stmt e ''SetUserUpNextModified''
       (Inr (st\<lparr>st_users := update_where (\<lambda>u. u_ID u = uid) (\<lambda>u. u\<lparr>u_UpNextModified := m\<rparr>) (st_users st)\<rparr>))"

definition SetUserHistoryCleared :: "env \<Rightarrow> int \<Rightarrow> int \<Rightarrow> int \<Rightarrow> store \<Rightarrow> store result" where
  "SetUserHistoryCleared e uid cleared m st =
     stmt e ''SetUserHistoryCleared''
       (Inr (st\<lparr>st_users :=
          update_where (\<lambda>u. u_ID u = uid)
            (\<lambda>u. u\<lparr>u_HistoryClearedAtMs := cleared, u_HistoryModified := m\<rparr>) (st_users st)\<rparr>))"

subsection \<open>Subscriptions\<close>

definition up_key :: "UserPodcast \<Rightarrow> int \<times> string" where
  "up_key r = (up_UserID r, up_PodcastUuid r)"

definition GetUserPodcast :: "env \<Rightarrow> int \<Rightarrow> string \<Rightarrow> store \<Rightarrow> UserPodcast result" where
  "GetUserPodcast e uid uuid st =
     stmt e ''GetUserPodcast''
       (rbind (cast_uuid e uuid) (\<lambda>u. select_one (\<lambda>r. up_key r = (uid, u)) (st_user_podcasts st)))"

text \<open>
  \<^verbatim>\<open>UpsertUserPodcastParams\<close> has every column of the row but \<^verbatim>\<open>notify_enabled\<close>, which an
  insert leaves at its default and an update leaves alone.
\<close>

definition UpsertUserPodcast :: "env \<Rightarrow> UserPodcast \<Rightarrow> store \<Rightarrow> store result" where
  "UpsertUserPodcast e p st =
     stmt e ''UpsertUserPodcast''
       (rbind (cast_uuid e (up_PodcastUuid p)) (\<lambda>uuid.
        rbind (cast_uuid_null e (up_FolderUuid p)) (\<lambda>folder.
        rbind (not_null (up_Settings p)) (\<lambda>settings.
          let new = p\<lparr>up_PodcastUuid := uuid, up_FolderUuid := folder, up_NotifyEnabled := False,
                      up_DateAdded := map_option (pg_time e) (up_DateAdded p),
                      up_Settings := Some (pg_jsonb e settings)\<rparr>;
              upd = (\<lambda>old. new\<lparr>up_NotifyEnabled := up_NotifyEnabled old,
                      up_SyncedTitle :=
                        (if up_SyncedTitle new \<noteq> '''' then up_SyncedTitle new else up_SyncedTitle old),
                      up_SyncedFeedUrl :=
                        (if up_SyncedFeedUrl new \<noteq> '''' then up_SyncedFeedUrl new else up_SyncedFeedUrl old)\<rparr>)
          in Inr (st\<lparr>st_user_podcasts := upsert_row up_key new upd (st_user_podcasts st)\<rparr>)))))"

definition GetUserPodcastsModifiedSince :: "env \<Rightarrow> int \<Rightarrow> int \<Rightarrow> int \<Rightarrow> store \<Rightarrow> UserPodcast list result" where
  "GetUserPodcastsModifiedSince e uid since upTo st =
     stmt e ''GetUserPodcastsModifiedSince''
       (Inr (filter (\<lambda>r. up_UserID r = uid \<and> up_ModifiedAt r > since \<and> up_ModifiedAt r \<le> upTo)
          (st_user_podcasts st)))"

definition GetPodcastByUUID :: "env \<Rightarrow> string \<Rightarrow> store \<Rightarrow> Podcast result" where
  "GetPodcastByUUID e uuid st =
     stmt e ''GetPodcastByUUID''
       (rbind (cast_uuid e uuid) (\<lambda>u. select_one (\<lambda>p. pc_Uuid p = u) (st_podcasts st)))"

definition GetPodcastByFeedURL :: "env \<Rightarrow> string \<Rightarrow> store \<Rightarrow> Podcast result" where
  "GetPodcastByFeedURL e feedURL st =
     stmt e ''GetPodcastByFeedURL'' (select_one (\<lambda>p. pc_FeedUrl p = feedURL) (st_podcasts st))"

subsection \<open>Episodes\<close>

definition ue_key :: "UserEpisode \<Rightarrow> int \<times> string" where
  "ue_key r = (ue_UserID r, ue_EpisodeUuid r)"

definition GetUserEpisode :: "env \<Rightarrow> int \<Rightarrow> string \<Rightarrow> store \<Rightarrow> UserEpisode result" where
  "GetUserEpisode e uid uuid st =
     stmt e ''GetUserEpisode''
       (rbind (cast_uuid e uuid) (\<lambda>u. select_one (\<lambda>r. ue_key r = (uid, u)) (st_user_episodes st)))"

definition UpsertUserEpisode :: "env \<Rightarrow> UserEpisode \<Rightarrow> store \<Rightarrow> store result" where
  "UpsertUserEpisode e p st =
     stmt e ''UpsertUserEpisode''
       (rbind (cast_uuid e (ue_EpisodeUuid p)) (\<lambda>uuid.
        rbind (cast_uuid e (ue_PodcastUuid p)) (\<lambda>podcast.
          let new = p\<lparr>ue_EpisodeUuid := uuid, ue_PodcastUuid := podcast\<rparr>
          in Inr (st\<lparr>st_user_episodes := upsert_row ue_key new (\<lambda>old. new) (st_user_episodes st)\<rparr>))))"

definition GetUserEpisodesModifiedSince :: "env \<Rightarrow> int \<Rightarrow> int \<Rightarrow> int \<Rightarrow> store \<Rightarrow> UserEpisode list result" where
  "GetUserEpisodesModifiedSince e uid since upTo st =
     stmt e ''GetUserEpisodesModifiedSince''
       (Inr (filter (\<lambda>r. ue_UserID r = uid \<and> ue_ModifiedAt r > since \<and> ue_ModifiedAt r \<le> upTo)
          (st_user_episodes st)))"

definition GetUserEpisodesForPodcast :: "env \<Rightarrow> int \<Rightarrow> string \<Rightarrow> store \<Rightarrow> UserEpisode list result" where
  "GetUserEpisodesForPodcast e uid podcast st =
     stmt e ''GetUserEpisodesForPodcast''
       (rbind (cast_uuid e podcast) (\<lambda>u.
          Inr (filter (\<lambda>r. ue_UserID r = uid \<and> ue_PodcastUuid r = u) (st_user_episodes st))))"

definition GetStarredEpisodes :: "env \<Rightarrow> int \<Rightarrow> store \<Rightarrow> UserEpisode list result" where
  "GetStarredEpisodes e uid st =
     stmt e ''GetStarredEpisodes''
       (Inr (filter (\<lambda>r. ue_UserID r = uid \<and> ue_Starred r) (st_user_episodes st)))"

text \<open>\<^verbatim>\<open>LEAST(GREATEST(played_up_to, 0), CASE WHEN duration > 0 THEN duration ELSE played_up_to END)\<close>\<close>

definition listened :: "UserEpisode \<Rightarrow> int" where
  "listened r =
     min (max (ue_PlayedUpTo r) 0) (if ue_Duration r > 0 then ue_Duration r else ue_PlayedUpTo r)"

record ListeningTotals =
  lt_ListenedSeconds :: int
  lt_EpisodesFinished :: int

definition GetListeningTotals :: "env \<Rightarrow> int \<Rightarrow> store \<Rightarrow> ListeningTotals result" where
  "GetListeningTotals e uid st =
     stmt e ''GetListeningTotals''
       (let rows = filter (\<lambda>r. ue_UserID r = uid) (st_user_episodes st)
        in rbind (cast_bigint (sum_list (map listened rows))) (\<lambda>secs.
           rbind (cast_int (int (length (filter (\<lambda>r. ue_PlayingStatus r = 3) rows)))) (\<lambda>n.
             Inr \<lparr>lt_ListenedSeconds = secs, lt_EpisodesFinished = n\<rparr>)))"

subsection \<open>Folders\<close>

definition fo_key :: "Folder \<Rightarrow> int \<times> string" where
  "fo_key r = (fo_UserID r, fo_FolderUuid r)"

definition UpsertFolder :: "env \<Rightarrow> Folder \<Rightarrow> store \<Rightarrow> store result" where
  "UpsertFolder e p st =
     stmt e ''UpsertFolder''
       (rbind (cast_uuid e (fo_FolderUuid p)) (\<lambda>uuid.
          let new = p\<lparr>fo_FolderUuid := uuid, fo_DateAdded := map_option (pg_time e) (fo_DateAdded p)\<rparr>
          in Inr (st\<lparr>st_folders := upsert_row fo_key new (\<lambda>old. new) (st_folders st)\<rparr>)))"

definition GetFoldersModifiedSince :: "env \<Rightarrow> int \<Rightarrow> int \<Rightarrow> int \<Rightarrow> store \<Rightarrow> Folder list result" where
  "GetFoldersModifiedSince e uid since upTo st =
     stmt e ''GetFoldersModifiedSince''
       (Inr (filter (\<lambda>r. fo_UserID r = uid \<and> fo_ModifiedAt r > since \<and> fo_ModifiedAt r \<le> upTo)
          (st_folders st)))"

definition GetFolders :: "env \<Rightarrow> int \<Rightarrow> store \<Rightarrow> Folder list result" where
  "GetFolders e uid st =
     stmt e ''GetFolders'' (Inr (filter (\<lambda>r. fo_UserID r = uid \<and> \<not> fo_IsDeleted r) (st_folders st)))"

subsection \<open>Playlists\<close>

definition pl_key :: "Playlist \<Rightarrow> int \<times> string" where
  "pl_key r = (pl_UserID r, pl_Uuid r)"

definition UpsertPlaylist :: "env \<Rightarrow> Playlist \<Rightarrow> store \<Rightarrow> store result" where
  "UpsertPlaylist e p st =
     stmt e ''UpsertPlaylist''
       (rbind (cast_uuid e (pl_Uuid p)) (\<lambda>uuid.
        rbind (not_null (pl_EpisodeOrder p)) (\<lambda>order.
        rbind (not_null (pl_Episodes p)) (\<lambda>episodes.
          let new = p\<lparr>pl_Uuid := uuid, pl_Episodes := Some (pg_jsonb e episodes)\<rparr>
          in Inr (st\<lparr>st_playlists := upsert_row pl_key new (\<lambda>old. new) (st_playlists st)\<rparr>)))))"

definition GetPlaylistsModifiedSince :: "env \<Rightarrow> int \<Rightarrow> int \<Rightarrow> int \<Rightarrow> store \<Rightarrow> Playlist list result" where
  "GetPlaylistsModifiedSince e uid since upTo st =
     stmt e ''GetPlaylistsModifiedSince''
       (Inr (filter (\<lambda>r. pl_UserID r = uid \<and> pl_ModifiedAt r > since \<and> pl_ModifiedAt r \<le> upTo)
          (st_playlists st)))"

definition GetPlaylists :: "env \<Rightarrow> int \<Rightarrow> store \<Rightarrow> Playlist list result" where
  "GetPlaylists e uid st =
     stmt e ''GetPlaylists'' (Inr (filter (\<lambda>r. pl_UserID r = uid \<and> \<not> pl_IsDeleted r) (st_playlists st)))"

subsection \<open>Bookmarks\<close>

definition bm_key :: "Bookmark \<Rightarrow> int \<times> string" where
  "bm_key r = (bm_UserID r, bm_BookmarkUuid r)"

definition GetBookmark :: "env \<Rightarrow> int \<Rightarrow> string \<Rightarrow> store \<Rightarrow> Bookmark result" where
  "GetBookmark e uid uuid st =
     stmt e ''GetBookmark''
       (rbind (cast_uuid e uuid) (\<lambda>u. select_one (\<lambda>r. bm_key r = (uid, u)) (st_bookmarks st)))"

definition UpsertBookmark :: "env \<Rightarrow> Bookmark \<Rightarrow> store \<Rightarrow> store result" where
  "UpsertBookmark e p st =
     stmt e ''UpsertBookmark''
       (rbind (cast_uuid e (bm_BookmarkUuid p)) (\<lambda>uuid.
        rbind (cast_uuid e (bm_PodcastUuid p)) (\<lambda>podcast.
        rbind (cast_uuid e (bm_EpisodeUuid p)) (\<lambda>episode.
        rbind (not_null (bm_Tags p)) (\<lambda>tags.
          let new = p\<lparr>bm_BookmarkUuid := uuid, bm_PodcastUuid := podcast, bm_EpisodeUuid := episode,
                      bm_CreatedAt := pg_time e (bm_CreatedAt p)\<rparr>
          in Inr (st\<lparr>st_bookmarks := upsert_row bm_key new (\<lambda>old. new) (st_bookmarks st)\<rparr>))))))"

definition GetBookmarksModifiedSince :: "env \<Rightarrow> int \<Rightarrow> int \<Rightarrow> int \<Rightarrow> store \<Rightarrow> Bookmark list result" where
  "GetBookmarksModifiedSince e uid since upTo st =
     stmt e ''GetBookmarksModifiedSince''
       (Inr (filter (\<lambda>r. bm_UserID r = uid \<and> bm_ModifiedAt r > since \<and> bm_ModifiedAt r \<le> upTo)
          (st_bookmarks st)))"

definition GetBookmarks :: "env \<Rightarrow> int \<Rightarrow> store \<Rightarrow> Bookmark list result" where
  "GetBookmarks e uid st =
     stmt e ''GetBookmarks'' (Inr (filter (\<lambda>r. bm_UserID r = uid \<and> \<not> bm_IsDeleted r) (st_bookmarks st)))"

fun cast_uuids :: "env \<Rightarrow> string list \<Rightarrow> string list result" where
  "cast_uuids e [] = Inr []"
| "cast_uuids e (s # ss) = rbind (cast_uuid e s) (\<lambda>u. rbind (cast_uuids e ss) (\<lambda>us. Inr (u # us)))"

definition GetBookmarksForEpisodes :: "env \<Rightarrow> int \<Rightarrow> string list \<Rightarrow> store \<Rightarrow> Bookmark list result" where
  "GetBookmarksForEpisodes e uid uuids st =
     stmt e ''GetBookmarksForEpisodes''
       (rbind (cast_uuids e uuids) (\<lambda>us.
          Inr (filter (\<lambda>r. bm_UserID r = uid \<and> bm_EpisodeUuid r \<in> set us \<and> \<not> bm_IsDeleted r)
                 (st_bookmarks st))))"

subsection \<open>Devices\<close>

definition dv_key :: "Device \<Rightarrow> int \<times> string" where
  "dv_key r = (dv_UserID r, dv_DeviceID r)"

text \<open>
  \<^verbatim>\<open>UpsertDeviceParams\<close> carries the counters; the push columns and \<^verbatim>\<open>created_at\<close> take their
  defaults on insert and keep their values on update.
\<close>

definition UpsertDevice :: "env \<Rightarrow> instant \<Rightarrow> Device \<Rightarrow> store \<Rightarrow> store result" where
  "UpsertDevice e now p st =
     stmt e ''UpsertDevice''
       (let new = p\<lparr>dv_UpdatedAt := now, dv_CreatedAt := now, dv_PushToken := '''', dv_PushOn := False,
                    dv_PushEnvironment := ''production''\<rparr>;
            upd = (\<lambda>old. new\<lparr>dv_CreatedAt := dv_CreatedAt old, dv_PushToken := dv_PushToken old,
                    dv_PushOn := dv_PushOn old, dv_PushEnvironment := dv_PushEnvironment old\<rparr>)
        in Inr (st\<lparr>st_devices := upsert_row dv_key new upd (st_devices st)\<rparr>))"

subsection \<open>Milestones\<close>

definition ms_key :: "SocialMilestone \<Rightarrow> int \<times> int \<times> int" where
  "ms_key r = (ms_UserID r, ms_Kind r, ms_Tier r)"

definition CountMilestonesForUser :: "env \<Rightarrow> int \<Rightarrow> store \<Rightarrow> int result" where
  "CountMilestonesForUser e uid st =
     stmt e ''CountMilestonesForUser''
       (Inr (int (length (filter (\<lambda>r. ms_UserID r = uid) (st_milestones st)))))"

definition InsertMilestone :: "env \<Rightarrow> instant \<Rightarrow> int \<Rightarrow> int \<Rightarrow> int \<Rightarrow> store \<Rightarrow> store result" where
  "InsertMilestone e now uid kind tier st =
     stmt e ''InsertMilestone''
       (Inr (st\<lparr>st_milestones :=
          insert_new ms_key \<lparr>ms_UserID = uid, ms_Kind = kind, ms_Tier = tier, ms_CrossedAt = now\<rparr>
            (st_milestones st)\<rparr>))"

definition eight_days :: instant where
  "eight_days = 8 * 86400 * 1000000000"

definition InsertMilestoneBackdated :: "env \<Rightarrow> instant \<Rightarrow> int \<Rightarrow> int \<Rightarrow> int \<Rightarrow> store \<Rightarrow> store result" where
  "InsertMilestoneBackdated e now uid kind tier st =
     stmt e ''InsertMilestoneBackdated''
       (Inr (st\<lparr>st_milestones :=
          insert_new ms_key \<lparr>ms_UserID = uid, ms_Kind = kind, ms_Tier = tier, ms_CrossedAt = now - eight_days\<rparr>
            (st_milestones st)\<rparr>))"

subsection \<open>Up Next\<close>

definition un_key :: "UpNextItem \<Rightarrow> int \<times> string" where
  "un_key r = (un_UserID r, un_EpisodeUuid r)"

definition GetUpNextItems :: "env \<Rightarrow> int \<Rightarrow> store \<Rightarrow> UpNextItem list result" where
  "GetUpNextItems e uid st =
     stmt e ''GetUpNextItems'' (Inr (sort_key un_Position (filter (\<lambda>r. un_UserID r = uid) (st_up_next st))))"

definition DeleteAllUpNextItems :: "env \<Rightarrow> int \<Rightarrow> store \<Rightarrow> store result" where
  "DeleteAllUpNextItems e uid st =
     stmt e ''DeleteAllUpNextItems''
       (Inr (st\<lparr>st_up_next := delete_where (\<lambda>r. un_UserID r = uid) (st_up_next st)\<rparr>))"

text \<open>\<^verbatim>\<open>added_at\<close> is not a parameter: it takes its default, \<^verbatim>\<open>now()\<close>.\<close>

definition InsertUpNextItem :: "env \<Rightarrow> instant \<Rightarrow> UpNextItem \<Rightarrow> store \<Rightarrow> store result" where
  "InsertUpNextItem e now p st =
     stmt e ''InsertUpNextItem''
       (rbind (cast_uuid e (un_EpisodeUuid p)) (\<lambda>uuid.
        rbind (insert_row ''up_next_items_pkey'' un_key
                 (p\<lparr>un_EpisodeUuid := uuid, un_Published := map_option (pg_time e) (un_Published p),
                    un_AddedAt := now\<rparr>)
                 (st_up_next st)) (\<lambda>t. Inr (st\<lparr>st_up_next := t\<rparr>))))"

subsection \<open>Listening history\<close>

definition hi_key :: "History \<Rightarrow> int \<times> string" where
  "hi_key r = (hi_UserID r, hi_EpisodeUuid r)"

definition history_add :: "History \<Rightarrow> History list \<Rightarrow> History list" where
  "history_add new t =
     upsert_row hi_key new (\<lambda>old. if hi_ModifiedAt new > hi_ModifiedAt old then new else old) t"

definition UpsertHistoryItem :: "env \<Rightarrow> History \<Rightarrow> store \<Rightarrow> store result" where
  "UpsertHistoryItem e p st =
     stmt e ''UpsertHistoryItem''
       (rbind (cast_uuid e (hi_EpisodeUuid p)) (\<lambda>uuid.
          let new = p\<lparr>hi_EpisodeUuid := uuid, hi_Published := map_option (pg_time e) (hi_Published p),
                      hi_IsDeleted := False\<rparr>
          in Inr (st\<lparr>st_history := history_add new (st_history st)\<rparr>)))"

definition history_tombstone :: "int \<Rightarrow> string \<Rightarrow> int \<Rightarrow> History list \<Rightarrow> History list" where
  "history_tombstone uid uuid modified t =
     upsert_row hi_key
       \<lparr>hi_UserID = uid, hi_EpisodeUuid = uuid, hi_PodcastUuid = '''', hi_Title = '''', hi_Url = '''',
        hi_Published = None, hi_ModifiedAt = modified, hi_IsDeleted = True\<rparr>
       (\<lambda>old. if modified > hi_ModifiedAt old
              then old\<lparr>hi_ModifiedAt := modified, hi_IsDeleted := True\<rparr> else old)
       t"

definition TombstoneHistoryItem :: "env \<Rightarrow> int \<Rightarrow> string \<Rightarrow> int \<Rightarrow> store \<Rightarrow> store result" where
  "TombstoneHistoryItem e uid episode modified st =
     stmt e ''TombstoneHistoryItem''
       (rbind (cast_uuid e episode) (\<lambda>uuid.
          Inr (st\<lparr>st_history := history_tombstone uid uuid modified (st_history st)\<rparr>)))"

definition DeleteHistoryBefore :: "env \<Rightarrow> int \<Rightarrow> int \<Rightarrow> store \<Rightarrow> store result" where
  "DeleteHistoryBefore e uid modified st =
     stmt e ''DeleteHistoryBefore''
       (Inr (st\<lparr>st_history :=
          delete_where (\<lambda>r. hi_UserID r = uid \<and> hi_ModifiedAt r \<le> modified) (st_history st)\<rparr>))"

text \<open>\<^verbatim>\<open>WHERE user_id = $1 ORDER BY modified_at DESC LIMIT $2\<close>\<close>

definition recent_history :: "int \<Rightarrow> nat \<Rightarrow> History list \<Rightarrow> History list" where
  "recent_history uid n t = take n (sort_key (\<lambda>r. - hi_ModifiedAt r) (filter (\<lambda>r. hi_UserID r = uid) t))"

definition TrimHistory :: "env \<Rightarrow> int \<Rightarrow> nat \<Rightarrow> store \<Rightarrow> store result" where
  "TrimHistory e uid n st =
     stmt e ''TrimHistory''
       (Inr (st\<lparr>st_history :=
          delete_where
            (\<lambda>r. hi_UserID r = uid \<and>
                 hi_EpisodeUuid r \<notin> hi_EpisodeUuid ` set (recent_history uid n (st_history st)))
            (st_history st)\<rparr>))"

definition GetHistory :: "env \<Rightarrow> int \<Rightarrow> nat \<Rightarrow> store \<Rightarrow> History list result" where
  "GetHistory e uid n st = stmt e ''GetHistory'' (Inr (recent_history uid n (st_history st)))"

subsection \<open>Settings\<close>

definition GetUserSettings :: "env \<Rightarrow> int \<Rightarrow> store \<Rightarrow> UserSetting result" where
  "GetUserSettings e uid st =
     stmt e ''GetUserSettings'' (select_one (\<lambda>r. us_UserID r = uid) (st_settings st))"

definition UpsertUserSettings :: "env \<Rightarrow> UserSetting \<Rightarrow> store \<Rightarrow> store result" where
  "UpsertUserSettings e p st =
     stmt e ''UpsertUserSettings''
       (rbind (not_null (us_Settings p)) (\<lambda>settings.
          let new = p\<lparr>us_Settings := Some (pg_jsonb e settings)\<rparr>
          in Inr (st\<lparr>st_settings := upsert_row us_UserID new (\<lambda>old. new) (st_settings st)\<rparr>)))"

end
