(* ===== verification/Lww_Register.thy ===== *)
theory Lww_Register
  imports Go_Prelude "HOL-Library.Multiset"
begin

section \<open>Last-writer-wins registers\<close>

text \<open>
  The contract that the per-field merges of the sync service share (episode fields,
  bookmark fields, settings, history items).  A register is a part of some state that
  carries a time stamp; a message may propose a value with a stamp; the merge takes
  the proposal exactly when the register is unset or older.  The facts proved here
  are what the service needs of it: stamps never go back, replayed messages change
  nothing, the outcome of a run is the newest proposal, and two runs over the same
  messages in different orders agree.
\<close>

subsection \<open>The specification\<close>

type_synonym 'v stamped = "int \<times> 'v"

fun lww :: "'v stamped option \<Rightarrow> 'v stamped option \<Rightarrow> 'v stamped option" where
  "lww None cur = cur"
| "lww (Some (t, v)) None = Some (t, v)"
| "lww (Some (t, v)) (Some (t0, v0)) = (if t0 < t then Some (t, v) else Some (t0, v0))"

fun older_eq :: "'v stamped option \<Rightarrow> 'v stamped option \<Rightarrow> bool" where
  "older_eq None _ = True"
| "older_eq (Some _) None = False"
| "older_eq (Some (t, _)) (Some (t', _)) = (t \<le> t')"

text \<open>No two proposals in \<open>ps\<close> carry the same stamp with different values.\<close>

definition agree :: "'v stamped option set \<Rightarrow> bool" where
  "agree ps \<longleftrightarrow> (\<forall>t v v'. Some (t, v) \<in> ps \<longrightarrow> Some (t, v') \<in> ps \<longrightarrow> v = v')"

lemma older_eq_refl [simp]: "older_eq x x"
  by (cases x) auto

lemma older_eq_trans: "older_eq x y \<Longrightarrow> older_eq y z \<Longrightarrow> older_eq x z"
  by (cases x; cases y; cases z) auto

lemma lww_newer: "older_eq p (lww p c)" "older_eq c (lww p c)"
  by (cases p; cases c; auto)+

lemma lww_mem: "lww p c = p \<or> lww p c = c"
  by (cases p; cases c; auto)

lemma lww_absorb: "older_eq p c \<Longrightarrow> lww p c = c"
  by (cases p; cases c) auto

lemma lww_best: "older_eq (fold lww ps c) x \<longleftrightarrow> older_eq c x \<and> (\<forall>p \<in> set ps. older_eq p x)"
proof (induction ps arbitrary: c)
  case Nil
  then show ?case by simp
next
  case (Cons p ps)
  have "older_eq (lww p c) x \<longleftrightarrow> older_eq p x \<and> older_eq c x"
    by (cases p; cases c; cases x) (auto split: if_splits)
  with Cons show ?case by auto
qed

lemma lww_fold_mem: "fold lww ps c \<in> insert c (set ps)"
proof (induction ps arbitrary: c)
  case Nil
  then show ?case by simp
next
  case (Cons p ps)
  from Cons [of "lww p c"] lww_mem [of p c] show ?case by auto
qed

lemma agree_antisym:
  "agree ps \<Longrightarrow> x \<in> ps \<Longrightarrow> y \<in> ps \<Longrightarrow> older_eq x y \<Longrightarrow> older_eq y x \<Longrightarrow> x = y"
  by (cases x; cases y) (auto simp: agree_def)

text \<open>With agreeing proposals the outcome depends only on which proposals there are.\<close>

lemma lww_fold_set_cong:
  assumes "set ps = set qs" and "agree (insert c (set ps))"
  shows "fold lww ps c = fold lww qs c"
proof (rule agree_antisym [OF assms(2)])
  show "fold lww ps c \<in> insert c (set ps)" by (rule lww_fold_mem)
  show "fold lww qs c \<in> insert c (set ps)" using lww_fold_mem [of qs c] assms(1) by simp
  show "older_eq (fold lww ps c) (fold lww qs c)" "older_eq (fold lww qs c) (fold lww ps c)"
    using lww_best [of ps c "fold lww qs c"] lww_best [of qs c "fold lww qs c"]
      lww_best [of qs c "fold lww ps c"] lww_best [of ps c "fold lww ps c"] assms(1)
    by auto
qed

subsection \<open>The interface\<close>

locale lww_register =
  fixes cur :: "'s \<Rightarrow> 'v stamped option"
    and proposal :: "'m \<Rightarrow> 'v stamped option"
    and merge :: "'m \<Rightarrow> 's \<Rightarrow> 's"
  assumes cur_merge: "cur (merge m s) = lww (proposal m) (cur s)"
begin

lemma cur_fold: "cur (fold merge ms s) = fold lww (map proposal ms) (cur s)"
proof (induction ms arbitrary: s)
  case Nil
  then show ?case by simp
next
  case (Cons m ms)
  then show ?case by (simp add: cur_merge)
qed

lemma stamp_monotone: "older_eq (cur s) (cur (fold merge ms s))"
  using lww_best [of "map proposal ms" "cur s" "cur (fold merge ms s)"] by (simp add: cur_fold)

lemma newest_wins:
  shows "cur (fold merge ms s) \<in> insert (cur s) (proposal ` set ms)"
    and "m \<in> set ms \<Longrightarrow> older_eq (proposal m) (cur (fold merge ms s))"
  using lww_fold_mem [of "map proposal ms" "cur s"]
    lww_best [of "map proposal ms" "cur s" "cur (fold merge ms s)"]
  by (auto simp: cur_fold)

lemma replay: "set ms' \<subseteq> set ms \<Longrightarrow> cur (fold merge ms' (fold merge ms s)) = cur (fold merge ms s)"
proof (induction ms')
  case Nil
  then show ?case by simp
next
  case (Cons m ms')
  then have "lww (proposal m) (cur (fold merge ms s)) = cur (fold merge ms s)"
    by (intro lww_absorb newest_wins) simp
  with Cons show ?case by (simp add: cur_fold cur_merge)
qed

lemma order_irrelevant:
  assumes "set ms = set ms'" and "agree (insert (cur s) (proposal ` set ms))"
  shows "cur (fold merge ms s) = cur (fold merge ms' s)"
  using assms lww_fold_set_cong [of "map proposal ms" "map proposal ms'" "cur s"]
  by (simp add: cur_fold)

end

end
