(* ===== verification/Sync_Settings.thy ===== *)
theory Sync_Settings
  imports Proto_Api Lww_Register "HOL-Library.AList"
begin

section \<open>Named settings and per-podcast settings\<close>

text \<open>
  \<^verbatim>\<open>src/syncsvc/settings.go\<close>.  Reflection over a settings message is iteration over the
  list of its populated fields; \<^verbatim>\<open>storedRef.Has\<close>, \<^verbatim>\<open>Get\<close> and \<^verbatim>\<open>Set\<close> are \<open>map_of\<close> and
  \<open>AList.update\<close>.  Each key of a message is a last-writer-wins register whose
  stamp is the setting's \<^verbatim>\<open>modified_at\<close>, so the result of a merge does not depend on
  the order in which \<^verbatim>\<open>Range\<close> visits the fields.
\<close>

subsection \<open>The code\<close>

definition empty_json :: "json option \<Rightarrow> bool" where
  "empty_json raw \<longleftrightarrow> raw = None \<or> raw = Some (JObject []) \<or> raw = Some JNull"

definition decodeStoredSettings :: "env \<Rightarrow> json option \<Rightarrow> goerr + settings_msg" where
  "decodeStoredSettings e raw =
     (if empty_json raw then Inr []
      else
        (case unmarshal_settings e ChangeableSettings_fields (the raw) of
           Inl err \<Rightarrow> Inl (E_op ''syncsvc/decodeStoredSettings'' Internal err)
         | Inr stored \<Rightarrow> Inr stored))"

definition encodeStoredSettings :: "env \<Rightarrow> settings_msg \<Rightarrow> goerr + json option" where
  "encodeStoredSettings e settings =
     (case marshal_settings e settings of
        Inl err \<Rightarrow> Inl (E_op ''syncsvc/encodeStoredSettings'' Internal err)
      | Inr raw \<Rightarrow> Inr (Some raw))"

definition settingModifiedAt :: "setting \<Rightarrow> int" where
  "settingModifiedAt s =
     (case set_ModifiedAt s of None \<Rightarrow> 0 | Some ts \<Rightarrow> UnixMilli (AsTime ts))"

fun merge_setting :: "string \<times> setting \<Rightarrow> settings_msg \<Rightarrow> settings_msg" where
  "merge_setting (k, v) stored =
     (case map_of stored k of
        Some existing \<Rightarrow>
          if settingModifiedAt v \<le> settingModifiedAt existing then stored else AList.update k v stored
      | None \<Rightarrow> AList.update k v stored)"

fun setting_taken :: "string \<times> setting \<Rightarrow> settings_msg \<Rightarrow> bool" where
  "setting_taken (k, v) stored =
     (case map_of stored k of
        Some existing \<Rightarrow> \<not> settingModifiedAt v \<le> settingModifiedAt existing
      | None \<Rightarrow> True)"

text \<open>The closure passed to \<^verbatim>\<open>Range\<close> updates \<^verbatim>\<open>stored\<close> and the flag \<^verbatim>\<open>changed\<close>.\<close>

definition MergeChangedSettings :: "settings_msg \<Rightarrow> settings_msg option \<Rightarrow> settings_msg \<times> bool" where
  "MergeChangedSettings stored incoming =
     (case incoming of
        None \<Rightarrow> (stored, False)
      | Some fs \<Rightarrow>
          fold (\<lambda>f (stored, changed). (merge_setting f stored, changed \<or> setting_taken f stored))
            fs (stored, False))"

definition legacy_setting :: "scalar \<Rightarrow> int \<Rightarrow> setting" where
  "legacy_setting v nowMs =
     \<lparr>set_FullName = scalar_type v, set_Value = Some v, set_Changed = Some True,
      set_ModifiedAt = Some (timestamppb_New (timestampFromMillis nowMs))\<rparr>"

fun apply_legacy :: "int \<Rightarrow> string \<times> scalar \<Rightarrow> settings_msg \<times> bool \<Rightarrow> settings_msg \<times> bool" where
  "apply_legacy nowMs (name, v) (stored, changed) =
     (case map_of ChangeableSettings_fields name of
        None \<Rightarrow> (stored, changed)
      | Some target \<Rightarrow>
          if set_FullName (legacy_setting v nowMs) \<noteq> target then (stored, changed)
          else (AList.update name (legacy_setting v nowMs) stored, True))"

definition ApplyLegacySettings :: "settings_msg \<Rightarrow> named_settings option \<Rightarrow> int \<Rightarrow> settings_msg \<times> bool" where
  "ApplyLegacySettings stored legacy nowMs =
     (case legacy of
        None \<Rightarrow> (stored, False)
      | Some fs \<Rightarrow> fold (apply_legacy nowMs) fs (stored, False))"

fun project_setting :: "string \<times> setting \<Rightarrow> settings_msg \<Rightarrow> settings_msg" where
  "project_setting (name, v) resp =
     (case map_of NamedSettingsResponse_fields name of
        None \<Rightarrow> resp
      | Some target \<Rightarrow> if target \<noteq> set_FullName v then resp else AList.update name v resp)"

definition BuildNamedSettingsResponse :: "settings_msg \<Rightarrow> settings_msg" where
  "BuildNamedSettingsResponse stored = fold project_setting stored []"

definition MergePodcastSettings :: "env \<Rightarrow> json option \<Rightarrow> settings_msg option \<Rightarrow> goerr + json option" where
  "MergePodcastSettings e storedRaw incoming =
     rbind
       (if empty_json storedRaw then Inr []
        else
          (case unmarshal_settings e PodcastSettings_fields (the storedRaw) of
             Inl err \<Rightarrow> Inl (E_op ''syncsvc/MergePodcastSettings'' Internal err)
           | Inr stored \<Rightarrow> Inr stored))
       (\<lambda>stored.
          let merged = (case incoming of None \<Rightarrow> stored | Some fs \<Rightarrow> fold merge_setting fs stored)
          in
            (case marshal_settings e merged of
               Inl err \<Rightarrow> Inl (E_op ''syncsvc/MergePodcastSettings'' Internal err)
             | Inr raw \<Rightarrow> Inr (Some raw)))"

definition decodePodcastSettings :: "env \<Rightarrow> json option \<Rightarrow> settings_msg" where
  "decodePodcastSettings e raw =
     (if empty_json raw then []
      else
        (case unmarshal_settings e PodcastSettings_fields (the raw) of
           Inl err \<Rightarrow> []
         | Inr settings \<Rightarrow> settings))"

subsection \<open>Every key is a register\<close>

definition setting_cur :: "string \<Rightarrow> settings_msg \<Rightarrow> setting stamped option" where
  "setting_cur k m = map_option (\<lambda>s. (settingModifiedAt s, s)) (map_of m k)"

definition setting_proposal :: "string \<Rightarrow> string \<times> setting \<Rightarrow> setting stamped option" where
  "setting_proposal k f = (if fst f = k then Some (settingModifiedAt (snd f), snd f) else None)"

interpretation setting_key: lww_register "setting_cur k" "setting_proposal k" merge_setting for k
proof
  fix f :: "string \<times> setting" and m
  obtain k' v where "f = (k', v)" by (cases f)
  then show "setting_cur k (merge_setting f m) = lww (setting_proposal k f) (setting_cur k m)"
    by (auto simp: setting_cur_def setting_proposal_def update_conv' split: option.split)
qed

lemma Merge_fold:
  "fold (\<lambda>f (m, c). (merge_setting f m, c \<or> setting_taken f m)) fs (m, c) =
     (fold merge_setting fs m, c \<or> (\<exists>i < length fs. setting_taken (fs ! i) (fold merge_setting (take i fs) m)))"
proof (induction fs arbitrary: m c)
  case Nil
  then show ?case by simp
next
  case (Cons f fs)
  have "(\<exists>i < length (f # fs). setting_taken ((f # fs) ! i) (fold merge_setting (take i (f # fs)) m)) \<longleftrightarrow>
        setting_taken f m \<or>
        (\<exists>i < length fs. setting_taken (fs ! i) (fold merge_setting (take i fs) (merge_setting f m)))"
    by (auto simp: Ex_less_Suc2)
  with Cons.IH show ?case by auto
qed

lemma MergeChangedSettings_fst:
  "fst (MergeChangedSettings stored incoming) = fold merge_setting (case incoming of None \<Rightarrow> [] | Some fs \<Rightarrow> fs) stored"
  by (auto simp: MergeChangedSettings_def Merge_fold split: option.split)

lemma settings_ok_iff:
  "settings_ok d m \<longleftrightarrow>
     distinct (map fst m) \<and> (\<forall>k s. map_of m k = Some s \<longrightarrow> map_of d k = Some (set_FullName s))"
  by (auto simp: settings_ok_def map_of_eq_Some_iff split: prod.splits)

lemma settings_ok_update:
  assumes "settings_ok d m" and "map_of d k = Some (set_FullName v)"
  shows "settings_ok d (AList.update k v m)"
  using assms unfolding settings_ok_iff update_conv' by (auto simp: distinct_update simp del: map_of_eq_Some_iff)

lemma merge_setting_ok:
  "settings_ok d m \<Longrightarrow> map_of d (fst f) = Some (set_FullName (snd f)) \<Longrightarrow> settings_ok d (merge_setting f m)"
  by (cases f) (auto simp: settings_ok_update split: option.splits)

text \<open>An unchanged flag means an unchanged message.\<close>

lemma setting_not_taken: "\<not> setting_taken f m \<Longrightarrow> merge_setting f m = m"
  by (cases f) (auto split: option.splits)

lemma fold_not_taken:
  "\<forall>i < length fs. \<not> setting_taken (fs ! i) (fold merge_setting (take i fs) m) \<Longrightarrow> fold merge_setting fs m = m"
proof (induction fs arbitrary: m)
  case Nil
  then show ?case by simp
next
  case (Cons f fs)
  from Cons.prems have "merge_setting f m = m"
    by (intro setting_not_taken) (auto dest: spec [of _ 0])
  with Cons show ?case by (auto simp: All_less_Suc2)
qed

lemma MergeChangedSettings_unchanged:
  "\<not> snd (MergeChangedSettings stored incoming) \<Longrightarrow> fst (MergeChangedSettings stored incoming) = stored"
  by (auto simp: MergeChangedSettings_def Merge_fold fold_not_taken split: option.splits)

subsection \<open>What a merge computes\<close>

lemma lww_fold_None: "\<forall>p \<in> set ps. p = None \<Longrightarrow> fold lww ps c = c"
  by (induction ps arbitrary: c) auto

lemma proposals_distinct:
  "distinct (map fst fs) \<Longrightarrow> fold lww (map (setting_proposal k) fs) c = lww (setting_cur k fs) c"
proof (induction fs arbitrary: c)
  case Nil
  then show ?case by (simp add: setting_cur_def)
next
  case (Cons f fs)
  obtain k' v where f: "f = (k', v)" by (cases f)
  show ?case
  proof (cases "k' = k")
    case True
    with Cons.prems f have "\<forall>p \<in> set (map (setting_proposal k) fs). p = None"
      by (auto simp: setting_proposal_def)
    then show ?thesis
      using True f by (simp add: lww_fold_None setting_proposal_def setting_cur_def)
  next
    case False
    then show ?thesis
      using Cons f by (simp add: setting_proposal_def setting_cur_def)
  qed
qed

lemma merge_fold_cur:
  "distinct (map fst fs) \<Longrightarrow> setting_cur k (fold merge_setting fs m) = lww (setting_cur k fs) (setting_cur k m)"
  by (simp add: setting_key.cur_fold proposals_distinct)

lemma map_of_cur: "map_of m k = map_option snd (setting_cur k m)"
  by (cases "map_of m k") (simp_all add: setting_cur_def)

text \<open>The newer of two versions of a setting; the stored one on a tie.\<close>

definition newer_setting :: "setting option \<Rightarrow> setting option \<Rightarrow> setting option" where
  "newer_setting incoming stored =
     (case incoming of
        None \<Rightarrow> stored
      | Some v \<Rightarrow>
          (case stored of
             None \<Rightarrow> Some v
           | Some v0 \<Rightarrow> if settingModifiedAt v0 < settingModifiedAt v then Some v else Some v0))"

lemma merge_fold_map_of:
  assumes "distinct (map fst fs)"
  shows "map_of (fold merge_setting fs m) k = newer_setting (map_of fs k) (map_of m k)"
  unfolding map_of_cur merge_fold_cur [OF assms] newer_setting_def
  by (auto simp: setting_cur_def split: option.split)

lemma fold_untouched: "k \<notin> fst ` set fs \<Longrightarrow> map_of (fold merge_setting fs m) k = map_of m k"
proof (induction fs arbitrary: m)
  case Nil
  then show ?case by simp
next
  case (Cons f fs)
  then show ?case by (cases f) (auto simp: update_conv' split: option.split)
qed

lemma taken_iff_changed:
  assumes "distinct (map fst fs)" and "i < length fs"
  shows "setting_taken (fs ! i) (fold merge_setting (take i fs) m) \<longleftrightarrow>
         map_of (fold merge_setting fs m) (fst (fs ! i)) \<noteq> map_of m (fst (fs ! i))"
proof -
  obtain k v where kv: "fs ! i = (k, v)" by (cases "fs ! i")
  have "k \<notin> fst ` set (take i fs)"
  proof
    assume "k \<in> fst ` set (take i fs)"
    then obtain j where "j < i" "fst (fs ! j) = k"
      using assms(2) by (force simp: in_set_conv_nth)
    with assms kv show False
      using nth_eq_iff_index_eq [OF assms(1), of i j] by simp
  qed
  then have "map_of (fold merge_setting (take i fs) m) k = map_of m k" by (rule fold_untouched)
  moreover have "map_of fs k = Some v"
    using assms kv by (metis map_of_is_SomeI nth_mem)
  ultimately show ?thesis
    by (auto simp: kv merge_fold_map_of [OF assms(1)] newer_setting_def split: option.splits)
qed

lemma MergeChangedSettings_changed:
  assumes "distinct (map fst fs)"
  shows "snd (MergeChangedSettings m (Some fs)) \<longleftrightarrow> map_of (fold merge_setting fs m) \<noteq> map_of m"
proof -
  have "snd (MergeChangedSettings m (Some fs)) \<longleftrightarrow>
          (\<exists>i < length fs. map_of (fold merge_setting fs m) (fst (fs ! i)) \<noteq> map_of m (fst (fs ! i)))"
    using taken_iff_changed [OF assms] by (auto simp: MergeChangedSettings_def Merge_fold)
  also have "\<dots> \<longleftrightarrow> (\<exists>k \<in> fst ` set fs. map_of (fold merge_setting fs m) k \<noteq> map_of m k)"
    by (force simp: in_set_conv_nth)
  also have "\<dots> \<longleftrightarrow> map_of (fold merge_setting fs m) \<noteq> map_of m"
    using fold_untouched [of _ fs m] by (metis ext)
  finally show ?thesis .
qed

lemma legacy_fold:
  assumes "distinct (map fst fs)"
  shows "map_of (fst (fold (apply_legacy now) fs (m, c))) k =
           (case map_of fs k of
              None \<Rightarrow> map_of m k
            | Some v \<Rightarrow> if map_of ChangeableSettings_fields k = Some (scalar_type v)
                        then Some (legacy_setting v now) else map_of m k)"
  using assms
proof (induction fs arbitrary: m c)
  case Nil
  then show ?case by simp
next
  case (Cons f fs)
  obtain k' v where f: "f = (k', v)" by (cases f)
  from Cons.prems f have "k' = k \<Longrightarrow> map_of fs k = None" by (auto simp: map_of_eq_None_iff)
  with Cons f show ?case
    by (auto simp: update_conv' legacy_setting_def split: option.split)
qed

lemma apply_legacy_ok:
  "settings_ok ChangeableSettings_fields (fst s) \<Longrightarrow> settings_ok ChangeableSettings_fields (fst (apply_legacy now f s))"
  by (cases f; cases s) (auto simp: settings_ok_update split: option.split)

lemma ApplyLegacySettings_ok:
  "settings_ok ChangeableSettings_fields m \<Longrightarrow> settings_ok ChangeableSettings_fields (fst (ApplyLegacySettings m l now))"
proof -
  have "settings_ok ChangeableSettings_fields (fst s) \<Longrightarrow>
        settings_ok ChangeableSettings_fields (fst (fold (apply_legacy now) fs s))" for fs s
    by (induction fs arbitrary: s) (auto simp: apply_legacy_ok)
  then show "settings_ok ChangeableSettings_fields m \<Longrightarrow> ?thesis"
    by (auto simp: ApplyLegacySettings_def split: option.split)
qed

lemma merge_fold_ok:
  "settings_ok d m \<Longrightarrow> settings_ok d fs \<Longrightarrow> settings_ok d (fold merge_setting fs m)"
proof -
  have "settings_ok d m \<Longrightarrow> \<forall>(k, v) \<in> set fs. map_of d k = Some (set_FullName v) \<Longrightarrow>
        settings_ok d (fold merge_setting fs m)"
    by (induction fs arbitrary: m) (auto simp: merge_setting_ok simp del: merge_setting.simps)
  then show "settings_ok d m \<Longrightarrow> settings_ok d fs \<Longrightarrow> ?thesis"
    by (simp add: settings_ok_def)
qed

subsection \<open>The response\<close>

lemma response_fields_split:
  "NamedSettingsResponse_fields =
     take 91 ChangeableSettings_fields @ (''developer'', BoolSetting) # drop 91 ChangeableSettings_fields"
  unfolding NamedSettingsResponse_fields_def ChangeableSettings_fields_def by simp

lemma developer_not_changeable: "map_of ChangeableSettings_fields ''developer'' = None"
  unfolding ChangeableSettings_fields_def by simp

lemma response_has_every_field:
  assumes "map_of ChangeableSettings_fields k = Some t"
  shows "map_of NamedSettingsResponse_fields k = Some t"
proof -
  have "map_of (take 91 ChangeableSettings_fields @ drop 91 ChangeableSettings_fields) k = Some t"
    using assms by simp
  moreover have "k \<noteq> ''developer''" using assms developer_not_changeable by auto
  ultimately show ?thesis
    unfolding response_fields_split map_of_append by (simp add: map_add_def split: option.splits)
qed

lemma project_fold:
  assumes "\<forall>(k, v) \<in> set fs. map_of NamedSettingsResponse_fields k = Some (set_FullName v)"
    and "distinct (map fst fs)"
  shows "map_of (fold project_setting fs m) k = (case map_of fs k of None \<Rightarrow> map_of m k | Some v \<Rightarrow> Some v)"
  using assms
proof (induction fs arbitrary: m)
  case Nil
  then show ?case by simp
next
  case (Cons f fs)
  obtain k' v where f: "f = (k', v)" by (cases f)
  from Cons.prems f have "k' = k \<Longrightarrow> map_of fs k = None" by (auto simp: map_of_eq_None_iff)
  with Cons f show ?case
    by (auto simp: update_conv' split: option.split)
qed

lemma response_complete:
  assumes "settings_ok ChangeableSettings_fields m"
  shows "map_of (BuildNamedSettingsResponse m) = map_of m"
proof
  fix k
  from assms have "\<forall>(k, v) \<in> set m. map_of NamedSettingsResponse_fields k = Some (set_FullName v)"
    by (auto simp: settings_ok_def intro: response_has_every_field)
  with assms show "map_of (BuildNamedSettingsResponse m) k = map_of m k"
    by (simp add: BuildNamedSettingsResponse_def project_fold settings_ok_def split: option.split)
qed

subsection \<open>Storing a settings document\<close>

lemma settings_stored_read:
  assumes "env_ok e" and "settings_ok d m" and "marshal_settings e m = Inr j"
  shows "\<exists>m'. (if empty_json (Some (pg_jsonb e j)) then m' = []
               else unmarshal_settings e d (pg_jsonb e j) = Inr m') \<and> settings_ok d m' \<and> map_of m' = map_of m"
proof -
  from assms have j: "pg_jsonb e j \<noteq> JNull" "pg_jsonb e j = JObject [] \<longrightarrow> m = []"
    "\<exists>m'. unmarshal_settings e d (pg_jsonb e j) = Inr m' \<and> settings_ok d m' \<and> map_of m' = map_of m"
    unfolding env_ok_def by blast+
  then show ?thesis
    using assms(2) by (cases "empty_json (Some (pg_jsonb e j))") (auto simp: empty_json_def)
qed

end
