(* ===== verification/Sync_Convert.thy ===== *)
theory Sync_Convert
  imports Db_Store Sync_Settings
begin

section \<open>Conversions between rows and messages\<close>

text \<open>
  \<^verbatim>\<open>src/syncsvc/convert.go\<close>, with \<^verbatim>\<open>encodePlaylistEpisodes\<close> and \<^verbatim>\<open>decodePlaylistEpisodes\<close> of
  \<^verbatim>\<open>src/syncsvc/engine.go\<close>.  Wrapper messages and nil-able pointers are both \<open>option\<close>, so
  the pointer helpers copy an \<open>option\<close>.
\<close>

definition timePtrFromProto :: "Timestamp option \<Rightarrow> instant option" where
  "timePtrFromProto ts = (case ts of None \<Rightarrow> None | Some ts \<Rightarrow> Some (AsTime ts))"

definition protoFromTimePtr :: "instant option \<Rightarrow> Timestamp option" where
  "protoFromTimePtr t = (case t of None \<Rightarrow> None | Some t \<Rightarrow> Some (timestamppb_New t))"

definition int32Ptr :: "int option \<Rightarrow> int option" where
  "int32Ptr v = (case v of None \<Rightarrow> None | Some x \<Rightarrow> Some x)"

definition boolPtr :: "bool option \<Rightarrow> bool option" where
  "boolPtr v = (case v of None \<Rightarrow> None | Some x \<Rightarrow> Some x)"

definition stringPtr :: "string option \<Rightarrow> string option" where
  "stringPtr v = (case v of None \<Rightarrow> None | Some x \<Rightarrow> Some x)"

definition wrapInt32 :: "int option \<Rightarrow> int option" where
  "wrapInt32 v = (case v of None \<Rightarrow> None | Some x \<Rightarrow> Some x)"

definition wrapBool :: "bool option \<Rightarrow> bool option" where
  "wrapBool v = (case v of None \<Rightarrow> None | Some x \<Rightarrow> Some x)"

definition wrapString :: "string option \<Rightarrow> string option" where
  "wrapString v = (case v of None \<Rightarrow> None | Some x \<Rightarrow> Some x)"

definition orEmpty :: "string option \<Rightarrow> string" where
  "orEmpty s = (case s of None \<Rightarrow> [] | Some x \<Rightarrow> x)"

lemma ptr_simps [simp]:
  "int32Ptr v = v" "boolPtr b = b" "stringPtr s = s" "wrapInt32 v = v" "wrapBool b = b" "wrapString s = s"
  by (simp_all add: int32Ptr_def boolPtr_def stringPtr_def wrapInt32_def wrapBool_def wrapString_def
      split: option.split)

lemma time_ptr_roundtrip [simp]: "timePtrFromProto (protoFromTimePtr t) = t"
  by (simp add: timePtrFromProto_def protoFromTimePtr_def split: option.split)

text \<open>On the wire a nil slice and an empty one are the same.\<close>

definition nil_slice :: "'a list option \<Rightarrow> 'a list" where
  "nil_slice xs = (case xs of None \<Rightarrow> [] | Some ys \<Rightarrow> ys)"

subsection \<open>Manual playlist episodes\<close>

fun marshal_items :: "env \<Rightarrow> SyncPlaylistEpisode list \<Rightarrow> goerr + json list" where
  "marshal_items e [] = Inr []"
| "marshal_items e (ep # eps) =
     (case marshal_episode e ep of
        Inl err \<Rightarrow> Inl (E_op ''syncsvc/encodePlaylistEpisodes'' Internal err)
      | Inr raw \<Rightarrow> rbind (marshal_items e eps) (\<lambda>items. Inr (raw # items)))"

definition encodePlaylistEpisodes :: "env \<Rightarrow> SyncPlaylistEpisode list \<Rightarrow> goerr + json option" where
  "encodePlaylistEpisodes e episodes = rbind (marshal_items e episodes) (\<lambda>items. Inr (Some (JArray items)))"

text \<open>\<^verbatim>\<open>json.Unmarshal\<close> into a slice accepts an array, and leaves the slice nil on \<^verbatim>\<open>null\<close>.\<close>

definition decodePlaylistEpisodes :: "env \<Rightarrow> json option \<Rightarrow> SyncPlaylistEpisode list" where
  "decodePlaylistEpisodes e raw =
     (case raw of
        Some (JArray items) \<Rightarrow> List.map_filter (unmarshal_episode e) items
      | _ \<Rightarrow> [])"

lemma playlist_episodes_roundtrip:
  assumes "env_ok e" and "encodePlaylistEpisodes e eps = Inr (Some raw)"
  shows "decodePlaylistEpisodes e (Some (pg_jsonb e raw)) = eps"
proof -
  obtain items where items: "marshal_items e eps = Inr items" "raw = JArray items"
    using assms(2) by (auto simp: encodePlaylistEpisodes_def res_simps)
  have "marshal_items e eps = Inr items \<Longrightarrow> List.map_filter (unmarshal_episode e) (map (pg_jsonb e) items) = eps"
  proof (induction eps arbitrary: items)
    case Nil
    then show ?case by (simp add: List.map_filter_simps)
  next
    case (Cons ep eps)
    then obtain j js where "marshal_episode e ep = Inr j" "marshal_items e eps = Inr js" "items = j # js"
      by (auto simp: res_simps split: sum.splits)
    with Cons.IH [of js] assms(1) show ?case
      by (simp add: List.map_filter_simps env_ok_def)
  qed
  with items assms(1) show ?thesis
    by (simp add: decodePlaylistEpisodes_def env_ok_def)
qed

subsection \<open>Records echoed to devices\<close>

definition userPodcastToProto :: "env \<Rightarrow> UserPodcast \<Rightarrow> SyncUserPodcast" where
  "userPodcastToProto e row =
     \<lparr>sp_Uuid = up_PodcastUuid row,
      sp_IsDeleted = Some (up_IsDeleted row),
      sp_Subscribed = Some (up_Subscribed row),
      sp_AutoStartFrom = wrapInt32 (up_AutoStartFrom row),
      sp_EpisodesSortOrder = wrapInt32 (up_EpisodesSortOrder row),
      sp_AutoSkipLast = wrapInt32 (up_AutoSkipLast row),
      sp_FolderUuid = wrapString (up_FolderUuid row),
      sp_SortPosition = wrapInt32 (up_SortPosition row),
      sp_DateAdded = protoFromTimePtr (up_DateAdded row),
      sp_Settings = Some (decodePodcastSettings e (up_Settings row)),
      sp_FeedUrl = None,
      sp_Title = None\<rparr>"

definition userEpisodeToProto :: "UserEpisode \<Rightarrow> SyncUserEpisode" where
  "userEpisodeToProto row =
     \<lparr>sep_Uuid = ue_EpisodeUuid row,
      sep_PodcastUuid = ue_PodcastUuid row,
      sep_IsDeleted = Some (ue_IsDeleted row),
      sep_IsDeletedModified = Some (ue_IsDeletedModified row),
      sep_Duration = Some (ue_Duration row),
      sep_DurationModified = Some (ue_DurationModified row),
      sep_PlayingStatus = Some (ue_PlayingStatus row),
      sep_PlayingStatusModified = Some (ue_PlayingStatusModified row),
      sep_PlayedUpTo = Some (ue_PlayedUpTo row),
      sep_PlayedUpToModified = Some (ue_PlayedUpToModified row),
      sep_Starred = Some (ue_Starred row),
      sep_StarredModified = Some (ue_StarredModified row),
      sep_DeselectedChapters = ue_DeselectedChapters row,
      sep_DeselectedChaptersModified = Some (ue_DeselectedChaptersModified row)\<rparr>"

definition folderToProto :: "Folder \<Rightarrow> SyncUserFolder" where
  "folderToProto row =
     \<lparr>sfo_FolderUuid = fo_FolderUuid row,
      sfo_IsDeleted = fo_IsDeleted row,
      sfo_Name = fo_Name row,
      sfo_Color = fo_Color row,
      sfo_SortPosition = fo_SortPosition row,
      sfo_PodcastsSortType = fo_PodcastsSortType row,
      sfo_DateAdded = protoFromTimePtr (fo_DateAdded row)\<rparr>"

definition playlistToProto :: "env \<Rightarrow> Playlist \<Rightarrow> SyncUserPlaylist" where
  "playlistToProto e row =
     \<lparr>spl_Uuid = pl_Uuid row,
      spl_IsDeleted = Some (pl_IsDeleted row),
      spl_Title = wrapString (Some (pl_Title row)),
      spl_AllPodcasts = wrapBool (pl_AllPodcasts row),
      spl_PodcastUuids = wrapString (pl_PodcastUuids row),
      spl_EpisodeUuids = wrapString (pl_EpisodeUuids row),
      spl_AudioVideo = wrapInt32 (pl_AudioVideo row),
      spl_NotDownloaded = wrapBool (pl_NotDownloaded row),
      spl_Downloaded = wrapBool (pl_Downloaded row),
      spl_Downloading = wrapBool (pl_Downloading row),
      spl_Finished = wrapBool (pl_Finished row),
      spl_PartiallyPlayed = wrapBool (pl_PartiallyPlayed row),
      spl_Unplayed = wrapBool (pl_Unplayed row),
      spl_Starred = wrapBool (pl_Starred row),
      spl_Manual = wrapBool (pl_Manual row),
      spl_SortPosition = wrapInt32 (pl_SortPosition row),
      spl_SortType = wrapInt32 (pl_SortType row),
      spl_IconId = wrapInt32 (pl_IconID row),
      spl_FilterHours = wrapInt32 (pl_FilterHours row),
      spl_OriginalUuid = pl_OriginalUuid row,
      spl_FilterDuration = wrapBool (pl_FilterDuration row),
      spl_LongerThan = wrapInt32 (pl_LongerThan row),
      spl_ShorterThan = wrapInt32 (pl_ShorterThan row),
      spl_EpisodeOrder = nil_slice (pl_EpisodeOrder row),
      spl_Episodes = decodePlaylistEpisodes e (pl_Episodes row),
      spl_ShowArchived = wrapBool (pl_ShowArchived row),
      spl_CustomQuery = wrapString (Some (pl_CustomQuery row))\<rparr>"

text \<open>
  Highlight fields appear when there is an excerpt or a trim stamp, tags when there
  is a tag stamp.
\<close>

definition bookmarkToProto :: "Bookmark \<Rightarrow> SyncUserBookmark" where
  "bookmarkToProto row =
     (let rec =
        \<lparr>sbm_BookmarkUuid = bm_BookmarkUuid row,
         sbm_PodcastUuid = bm_PodcastUuid row,
         sbm_EpisodeUuid = bm_EpisodeUuid row,
         sbm_CreatedAt = Some (timestamppb_New (bm_CreatedAt row)),
         sbm_Time = Some (bm_TimeSecs row),
         sbm_Title = Some (bm_Title row),
         sbm_TitleModified = Some (bm_TitleModified row),
         sbm_IsDeleted = Some (bm_IsDeleted row),
         sbm_IsDeletedModified = Some (bm_IsDeletedModified row),
         sbm_AiTitle = None, sbm_AiTitleModified = None, sbm_AiSummary = None, sbm_AiSummaryModified = None,
         sbm_Excerpt = None, sbm_EndTime = None, sbm_TrimModified = None, sbm_Tags = None,
         sbm_TagsModified = None\<rparr>;
      rec =
        (if bm_Excerpt row \<noteq> [] \<or> bm_TrimModified row \<noteq> 0
         then rec\<lparr>sbm_Excerpt := Some (bm_Excerpt row), sbm_EndTime := Some (bm_EndTimeSecs row)\<rparr> else rec);
      rec =
        (if bm_TrimModified row \<noteq> 0 then rec\<lparr>sbm_TrimModified := Some (bm_TrimModified row)\<rparr> else rec);
      rec =
        (if bm_TagsModified row \<noteq> 0
         then rec\<lparr>sbm_Tags := bm_Tags row, sbm_TagsModified := Some (bm_TagsModified row)\<rparr> else rec)
      in rec)"

end
