(* ===== verification/Sync_Token.thy ===== *)
theory Sync_Token
  imports Go_Prelude
begin

section \<open>Sync tokens\<close>

text \<open>
  \<^verbatim>\<open>src/syncsvc/token.go\<close>: the per-user token is the wall clock in milliseconds, moved past
  the previous token when the clock has not advanced.  \<open>now\<close> is the clock reading.
\<close>

definition NextToken :: "int \<Rightarrow> int \<Rightarrow> int" where
  "NextToken now prev = (if now \<le> prev then int64 (prev + 1) else now)"

lemma NextToken_greater: "is_int64 prev \<Longrightarrow> prev < max_int64 \<Longrightarrow> prev < NextToken now prev"
  by (auto simp: NextToken_def is_int64_def)

lemma NextToken_int64: "is_int64 now \<Longrightarrow> is_int64 (NextToken now prev)"
  by (simp add: NextToken_def int64_range)

lemma NextToken_clock: "prev < now \<Longrightarrow> NextToken now prev = now"
  by (simp add: NextToken_def)

lemma NextToken_wraps: "now \<le> max_int64 \<Longrightarrow> NextToken now max_int64 = - (2 ^ 63)"
  by (simp add: NextToken_def int64_def signed_take_bit_int_eq_self_iff)

end
