(* ===== verification/Sync_Engine.thy ===== *)
theory Sync_Engine
  imports Sync_Convert Sync_Token
begin

section \<open>The sync engine\<close>

text \<open>
  \<^verbatim>\<open>src/syncsvc/engine.go\<close>: \<^verbatim>\<open>ApplyUpdate\<close> applies a device's records under a fresh token and
  returns every record that changed after the token the device already has.  Each
  \<open>apply...Record\<close> is one definition; its pure part, the computation of the row to
  write from the stored row and the record, is a definition of its own.  The callback
  for unknown feeds adds to a set that is handed to the ingestion hook after the
  commit.
\<close>

subsection \<open>Reading a row that may be missing\<close>

definition or_no_rows :: "'a result \<Rightarrow> 'a option result" where
  "or_no_rows r =
     (case r of
        Inr x \<Rightarrow> Inr (Some x)
      | Inl err \<Rightarrow> if Is_ErrNoRows err then Inr None else Inl err)"

subsection \<open>Subscriptions\<close>

definition CanonicalFeedURL :: "env \<Rightarrow> string \<Rightarrow> string" where
  "CanonicalFeedURL e feedURL =
     (let trimmed = TrimSpace feedURL
      in case url_Parse e trimmed of
           None \<Rightarrow> trimmed
         | Some parsed \<Rightarrow>
             if url_Host parsed = '''' then trimmed
             else url_String e
               (parsed\<lparr>url_Scheme := map to_lower_char (url_Scheme parsed),
                       url_Host := map to_lower_char (url_Host parsed),
                       url_Fragment := '''',
                       url_Path := TrimSuffix (url_Path parsed) ''/''\<rparr>))"

definition podcast_base :: "int \<Rightarrow> int \<Rightarrow> string \<Rightarrow> UserPodcast option \<Rightarrow> UserPodcast" where
  "podcast_base uid token uuid existing =
     (let params =
        \<lparr>up_UserID = uid, up_PodcastUuid = uuid, up_Subscribed = True, up_IsDeleted = False,
         up_AutoStartFrom = None, up_AutoSkipLast = None, up_EpisodesSortOrder = None,
         up_FolderUuid = None, up_SortPosition = None, up_DateAdded = None,
         up_Settings = Some (JObject []), up_ModifiedAt = token, up_NotifyEnabled = False,
         up_SyncedTitle = '''', up_SyncedFeedUrl = ''''\<rparr>
      in case existing of
           None \<Rightarrow> params
         | Some ex \<Rightarrow>
             params\<lparr>up_Subscribed := up_Subscribed ex,
                    up_IsDeleted := up_IsDeleted ex,
                    up_AutoStartFrom := up_AutoStartFrom ex,
                    up_AutoSkipLast := up_AutoSkipLast ex,
                    up_EpisodesSortOrder := up_EpisodesSortOrder ex,
                    up_FolderUuid := up_FolderUuid ex,
                    up_SortPosition := up_SortPosition ex,
                    up_DateAdded := up_DateAdded ex,
                    up_Settings := up_Settings ex,
                    up_SyncedTitle := up_SyncedTitle ex,
                    up_SyncedFeedUrl := up_SyncedFeedUrl ex\<rparr>)"

text \<open>Everything the record sets but the settings; an absent field keeps the stored value.\<close>

definition podcast_params :: "env \<Rightarrow> int \<Rightarrow> int \<Rightarrow> SyncUserPodcast \<Rightarrow> UserPodcast option \<Rightarrow> UserPodcast" where
  "podcast_params e uid token rec existing =
     (let p = podcast_base uid token (sp_Uuid rec) existing;
          p = p\<lparr>up_Subscribed := GetValue (up_Subscribed p) (sp_Subscribed rec)\<rparr>;
          p = p\<lparr>up_IsDeleted := GetValue (up_IsDeleted p) (sp_IsDeleted rec),
                up_Subscribed := (if sp_IsDeleted rec = Some True then False else up_Subscribed p)\<rparr>;
          title = GetValue '''' (sp_Title rec);
          p = p\<lparr>up_SyncedTitle := (if title \<noteq> '''' then title else up_SyncedTitle p)\<rparr>;
          feedURL = GetValue '''' (sp_FeedUrl rec);
          p = p\<lparr>up_SyncedFeedUrl := (if feedURL \<noteq> '''' then CanonicalFeedURL e feedURL else up_SyncedFeedUrl p)\<rparr>;
          p = p\<lparr>up_AutoStartFrom :=
                  (if sp_AutoStartFrom rec \<noteq> None then int32Ptr (sp_AutoStartFrom rec) else up_AutoStartFrom p)\<rparr>;
          p = p\<lparr>up_AutoSkipLast :=
                  (if sp_AutoSkipLast rec \<noteq> None then int32Ptr (sp_AutoSkipLast rec) else up_AutoSkipLast p)\<rparr>;
          p = p\<lparr>up_EpisodesSortOrder :=
                  (if sp_EpisodesSortOrder rec \<noteq> None then int32Ptr (sp_EpisodesSortOrder rec)
                   else up_EpisodesSortOrder p)\<rparr>;
          p = p\<lparr>up_FolderUuid :=
                  (if sp_FolderUuid rec \<noteq> None then stringPtr (sp_FolderUuid rec) else up_FolderUuid p)\<rparr>;
          p = p\<lparr>up_SortPosition :=
                  (if sp_SortPosition rec \<noteq> None then int32Ptr (sp_SortPosition rec) else up_SortPosition p)\<rparr>;
          p = p\<lparr>up_DateAdded :=
                  (if sp_DateAdded rec \<noteq> None then timePtrFromProto (sp_DateAdded rec) else up_DateAdded p)\<rparr>
      in p)"

text \<open>
  The feed a live subscription names, when the catalog knows neither the podcast nor
  the feed.
\<close>

definition unknown_feed :: "env \<Rightarrow> SyncUserPodcast \<Rightarrow> UserPodcast \<Rightarrow> store \<Rightarrow> string option result" where
  "unknown_feed e rec params st =
     (let feedURL = GetValue '''' (sp_FeedUrl rec); canonicalFeedURL = CanonicalFeedURL e feedURL
      in if feedURL \<noteq> '''' \<and> up_Subscribed params \<and> \<not> up_IsDeleted params then
           rbind (or_no_rows (GetPodcastByUUID e (sp_Uuid rec) st)) (\<lambda>cat.
             if cat \<noteq> None then Inr None
             else rbind (or_no_rows (GetPodcastByFeedURL e canonicalFeedURL st)) (\<lambda>feed.
               if feed \<noteq> None then Inr None else Inr (Some canonicalFeedURL)))
         else Inr None)"

definition merged_podcast :: "env \<Rightarrow> SyncUserPodcast \<Rightarrow> UserPodcast \<Rightarrow> UserPodcast result" where
  "merged_podcast e rec params =
     (case sp_Settings rec of
        None \<Rightarrow> Inr params
      | Some incoming \<Rightarrow>
          rbind (MergePodcastSettings e (up_Settings params) (Some incoming)) (\<lambda>merged.
            Inr (params\<lparr>up_Settings := merged\<rparr>)))"

definition applyPodcastRecord ::
  "env \<Rightarrow> int \<Rightarrow> int \<Rightarrow> SyncUserPodcast \<Rightarrow> store \<times> string set \<Rightarrow> (store \<times> string set) result" where
  "applyPodcastRecord e uid token rec s =
     (let (st, unknownFeeds) = s
      in if sp_Uuid rec = '''' then Inr (st, unknownFeeds)
         else
           rbind (or_no_rows (GetUserPodcast e uid (sp_Uuid rec) st)) (\<lambda>existing.
             let params = podcast_params e uid token rec existing
             in rbind (unknown_feed e rec params st) (\<lambda>unknown.
                rbind (merged_podcast e rec params) (\<lambda>params.
                rbind (UpsertUserPodcast e params st) (\<lambda>st.
                  Inr (st, case unknown of None \<Rightarrow> unknownFeeds | Some u \<Rightarrow> insert u unknownFeeds))))))"

subsection \<open>Episodes\<close>

definition modifiedAfter :: "int option \<Rightarrow> int \<Rightarrow> bool" where
  "modifiedAfter incoming existing = (case incoming of None \<Rightarrow> False | Some t \<Rightarrow> t > existing)"

definition new_episode :: "int \<Rightarrow> string \<Rightarrow> UserEpisode" where
  "new_episode uid uuid =
     \<lparr>ue_UserID = uid, ue_EpisodeUuid = uuid, ue_PodcastUuid = '''', ue_PlayingStatus = 1,
      ue_PlayingStatusModified = 0, ue_PlayedUpTo = 0, ue_PlayedUpToModified = 0, ue_Starred = False,
      ue_StarredModified = 0, ue_IsDeleted = False, ue_IsDeletedModified = 0, ue_Duration = 0,
      ue_DurationModified = 0, ue_DeselectedChapters = '''', ue_DeselectedChaptersModified = 0,
      ue_ModifiedAt = 0\<rparr>"

definition upsertParamsFromRow :: "UserEpisode \<Rightarrow> UserEpisode" where
  "upsertParamsFromRow row = row"

text \<open>The six field merges; the guards read the row before the merge.\<close>

definition merge_episode_fields :: "SyncUserEpisode \<Rightarrow> UserEpisode \<Rightarrow> UserEpisode" where
  "merge_episode_fields rec existing =
     (let p = existing;
          p = (if sep_PlayingStatus rec \<noteq> None \<and>
                  modifiedAfter (sep_PlayingStatusModified rec) (ue_PlayingStatusModified existing)
               then p\<lparr>ue_PlayingStatus := GetValue 0 (sep_PlayingStatus rec),
                      ue_PlayingStatusModified := GetValue 0 (sep_PlayingStatusModified rec)\<rparr> else p);
          p = (if sep_PlayedUpTo rec \<noteq> None \<and>
                  modifiedAfter (sep_PlayedUpToModified rec) (ue_PlayedUpToModified existing)
               then p\<lparr>ue_PlayedUpTo := GetValue 0 (sep_PlayedUpTo rec),
                      ue_PlayedUpToModified := GetValue 0 (sep_PlayedUpToModified rec)\<rparr> else p);
          p = (if sep_Starred rec \<noteq> None \<and>
                  modifiedAfter (sep_StarredModified rec) (ue_StarredModified existing)
               then p\<lparr>ue_Starred := GetValue False (sep_Starred rec),
                      ue_StarredModified := GetValue 0 (sep_StarredModified rec)\<rparr> else p);
          p = (if sep_IsDeleted rec \<noteq> None \<and>
                  modifiedAfter (sep_IsDeletedModified rec) (ue_IsDeletedModified existing)
               then p\<lparr>ue_IsDeleted := GetValue False (sep_IsDeleted rec),
                      ue_IsDeletedModified := GetValue 0 (sep_IsDeletedModified rec)\<rparr> else p);
          p = (if sep_Duration rec \<noteq> None \<and>
                  modifiedAfter (sep_DurationModified rec) (ue_DurationModified existing)
               then p\<lparr>ue_Duration := GetValue 0 (sep_Duration rec),
                      ue_DurationModified := GetValue 0 (sep_DurationModified rec)\<rparr> else p);
          p = (if sep_DeselectedChaptersModified rec \<noteq> None \<and>
                  modifiedAfter (sep_DeselectedChaptersModified rec) (ue_DeselectedChaptersModified existing)
               then p\<lparr>ue_DeselectedChapters := sep_DeselectedChapters rec,
                      ue_DeselectedChaptersModified := GetValue 0 (sep_DeselectedChaptersModified rec)\<rparr>
               else p)
      in p)"

definition applyEpisodeRecord :: "env \<Rightarrow> int \<Rightarrow> int \<Rightarrow> SyncUserEpisode \<Rightarrow> store \<Rightarrow> store result" where
  "applyEpisodeRecord e uid token rec st =
     (if sep_Uuid rec = '''' then Inr st
      else
        rbind (or_no_rows (GetUserEpisode e uid (sep_Uuid rec) st)) (\<lambda>found.
          let existing = (case found of Some r \<Rightarrow> r | None \<Rightarrow> new_episode uid (sep_Uuid rec));
              params = (upsertParamsFromRow (merge_episode_fields rec existing))
                \<lparr>ue_UserID := uid, ue_EpisodeUuid := sep_Uuid rec, ue_ModifiedAt := token\<rparr>;
              params = (if sep_PodcastUuid rec \<noteq> '''' then params\<lparr>ue_PodcastUuid := sep_PodcastUuid rec\<rparr>
                        else params)
          in if ue_PodcastUuid params = '''' then Inr st else UpsertUserEpisode e params st))"

subsection \<open>Playlists and folders\<close>

definition playlist_params :: "int \<Rightarrow> int \<Rightarrow> SyncUserPlaylist \<Rightarrow> json option \<Rightarrow> Playlist" where
  "playlist_params uid token rec episodes =
     \<lparr>pl_UserID = uid,
      pl_Uuid = spl_Uuid rec,
      pl_OriginalUuid = spl_OriginalUuid rec,
      pl_Title = GetValue [] (spl_Title rec),
      pl_IsDeleted = GetValue False (spl_IsDeleted rec),
      pl_AllPodcasts = boolPtr (spl_AllPodcasts rec),
      pl_PodcastUuids = stringPtr (spl_PodcastUuids rec),
      pl_EpisodeUuids = stringPtr (spl_EpisodeUuids rec),
      pl_AudioVideo = int32Ptr (spl_AudioVideo rec),
      pl_NotDownloaded = boolPtr (spl_NotDownloaded rec),
      pl_Downloaded = boolPtr (spl_Downloaded rec),
      pl_Downloading = boolPtr (spl_Downloading rec),
      pl_Finished = boolPtr (spl_Finished rec),
      pl_PartiallyPlayed = boolPtr (spl_PartiallyPlayed rec),
      pl_Unplayed = boolPtr (spl_Unplayed rec),
      pl_Starred = boolPtr (spl_Starred rec),
      pl_Manual = boolPtr (spl_Manual rec),
      pl_SortPosition = int32Ptr (spl_SortPosition rec),
      pl_SortType = int32Ptr (spl_SortType rec),
      pl_IconID = int32Ptr (spl_IconId rec),
      pl_FilterHours = int32Ptr (spl_FilterHours rec),
      pl_FilterDuration = boolPtr (spl_FilterDuration rec),
      pl_LongerThan = int32Ptr (spl_LongerThan rec),
      pl_ShorterThan = int32Ptr (spl_ShorterThan rec),
      pl_ShowArchived = boolPtr (spl_ShowArchived rec),
      pl_EpisodeOrder = Some (spl_EpisodeOrder rec),
      pl_Episodes = episodes,
      pl_ModifiedAt = token,
      pl_CustomQuery = GetValue [] (spl_CustomQuery rec)\<rparr>"

definition applyPlaylistRecord :: "env \<Rightarrow> int \<Rightarrow> int \<Rightarrow> SyncUserPlaylist \<Rightarrow> store \<Rightarrow> store result" where
  "applyPlaylistRecord e uid token rec st =
     (if spl_Uuid rec = '''' then Inr st
      else
        rbind (encodePlaylistEpisodes e (spl_Episodes rec)) (\<lambda>episodes.
          UpsertPlaylist e (playlist_params uid token rec episodes) st))"

definition folder_params :: "int \<Rightarrow> int \<Rightarrow> SyncUserFolder \<Rightarrow> Folder" where
  "folder_params uid token rec =
     \<lparr>fo_UserID = uid,
      fo_FolderUuid = sfo_FolderUuid rec,
      fo_Name = sfo_Name rec,
      fo_Color = sfo_Color rec,
      fo_SortPosition = sfo_SortPosition rec,
      fo_PodcastsSortType = sfo_PodcastsSortType rec,
      fo_DateAdded = timePtrFromProto (sfo_DateAdded rec),
      fo_IsDeleted = sfo_IsDeleted rec,
      fo_ModifiedAt = token\<rparr>"

definition applyFolderRecord :: "env \<Rightarrow> int \<Rightarrow> int \<Rightarrow> SyncUserFolder \<Rightarrow> store \<Rightarrow> store result" where
  "applyFolderRecord e uid token rec st =
     (if sfo_FolderUuid rec = '''' then Inr st else UpsertFolder e (folder_params uid token rec) st)"

subsection \<open>Bookmarks\<close>

definition timestampOrNow :: "instant \<Rightarrow> SyncUserBookmark \<Rightarrow> instant" where
  "timestampOrNow now rec = (case sbm_CreatedAt rec of Some ts \<Rightarrow> AsTime ts | None \<Rightarrow> now)"

definition new_bookmark :: "instant \<Rightarrow> int \<Rightarrow> SyncUserBookmark \<Rightarrow> Bookmark" where
  "new_bookmark now uid rec =
     \<lparr>bm_UserID = uid, bm_BookmarkUuid = sbm_BookmarkUuid rec, bm_PodcastUuid = sbm_PodcastUuid rec,
      bm_EpisodeUuid = sbm_EpisodeUuid rec, bm_TimeSecs = GetValue 0 (sbm_Time rec), bm_Title = '''',
      bm_TitleModified = 0, bm_CreatedAt = timestampOrNow now rec, bm_IsDeleted = False,
      bm_IsDeletedModified = 0, bm_ModifiedAt = 0, bm_Excerpt = '''', bm_EndTimeSecs = 0,
      bm_TrimModified = 0, bm_Tags = None, bm_TagsModified = 0\<rparr>"

definition merge_bookmark_fields :: "SyncUserBookmark \<Rightarrow> Bookmark \<Rightarrow> Bookmark" where
  "merge_bookmark_fields rec existing =
     (let p = existing;
          p = (if bm_Tags p = None then p\<lparr>bm_Tags := Some []\<rparr> else p);
          p = (if sbm_Title rec \<noteq> None \<and> modifiedAfter (sbm_TitleModified rec) (bm_TitleModified existing)
               then p\<lparr>bm_Title := GetValue '''' (sbm_Title rec),
                      bm_TitleModified := GetValue 0 (sbm_TitleModified rec)\<rparr> else p);
          p = (if sbm_IsDeleted rec \<noteq> None \<and>
                  modifiedAfter (sbm_IsDeletedModified rec) (bm_IsDeletedModified existing)
               then p\<lparr>bm_IsDeleted := GetValue False (sbm_IsDeleted rec),
                      bm_IsDeletedModified := GetValue 0 (sbm_IsDeletedModified rec)\<rparr> else p);
          p = (if sbm_TrimModified rec \<noteq> None \<and>
                  modifiedAfter (sbm_TrimModified rec) (bm_TrimModified existing)
               then p\<lparr>bm_Excerpt := GetValue '''' (sbm_Excerpt rec),
                      bm_EndTimeSecs := GetValue 0 (sbm_EndTime rec),
                      bm_TrimModified := GetValue 0 (sbm_TrimModified rec)\<rparr>
               else if sbm_TrimModified rec = None \<and> bm_TrimModified existing = 0 \<and>
                       bm_Excerpt existing = '''' \<and> GetValue '''' (sbm_Excerpt rec) \<noteq> ''''
               then p\<lparr>bm_Excerpt := GetValue '''' (sbm_Excerpt rec),
                      bm_EndTimeSecs := GetValue 0 (sbm_EndTime rec)\<rparr>
               else p);
          p = (if sbm_TagsModified rec \<noteq> None \<and>
                  modifiedAfter (sbm_TagsModified rec) (bm_TagsModified existing)
               then p\<lparr>bm_Tags := (case sbm_Tags rec of None \<Rightarrow> Some [] | Some tags \<Rightarrow> Some tags),
                      bm_TagsModified := GetValue 0 (sbm_TagsModified rec)\<rparr> else p)
      in p)"

definition applyBookmarkRecord :: "env \<Rightarrow> instant \<Rightarrow> int \<Rightarrow> int \<Rightarrow> SyncUserBookmark \<Rightarrow> store \<Rightarrow> store result" where
  "applyBookmarkRecord e now uid token rec st =
     (if sbm_BookmarkUuid rec = '''' then Inr st
      else
        rbind (or_no_rows (GetBookmark e uid (sbm_BookmarkUuid rec) st)) (\<lambda>found.
          let existing = (case found of Some r \<Rightarrow> r | None \<Rightarrow> new_bookmark now uid rec);
              params = (merge_bookmark_fields rec existing)
                \<lparr>bm_UserID := uid, bm_BookmarkUuid := sbm_BookmarkUuid rec, bm_ModifiedAt := token\<rparr>
          in UpsertBookmark e params st))"

subsection \<open>Devices\<close>

definition applyDeviceRecord :: "env \<Rightarrow> instant \<Rightarrow> int \<Rightarrow> SyncUserDevice \<Rightarrow> store \<Rightarrow> store result" where
  "applyDeviceRecord e now uid rec st =
     (let deviceID = GetValue '''' (sdv_DeviceId rec)
      in if deviceID = '''' then Inr st
         else UpsertDevice e now
           \<lparr>dv_UserID = uid, dv_DeviceID = deviceID,
            dv_DeviceType = GetValue 0 (sdv_DeviceType rec),
            dv_TimesStartedAt = GetValue 0 (sdv_TimesStartedAt rec),
            dv_TimeSilenceRemoval = GetValue 0 (sdv_TimeSilenceRemoval rec),
            dv_TimeVariableSpeed = GetValue 0 (sdv_TimeVariableSpeed rec),
            dv_TimeIntroSkipping = GetValue 0 (sdv_TimeIntroSkipping rec),
            dv_TimeSkipping = GetValue 0 (sdv_TimeSkipping rec),
            dv_TimeListened = GetValue 0 (sdv_TimeListened rec),
            dv_UpdatedAt = now, dv_CreatedAt = now, dv_PushToken = '''', dv_PushOn = False,
            dv_PushEnvironment = ''''\<rparr> st)"

subsection \<open>Milestones\<close>

definition milestoneTiers :: "int list" where
  "milestoneTiers = [10, 50, 100, 250, 500, 1000]"

definition milestoneKindHours :: int where
  "milestoneKindHours = 1"

definition milestoneKindEpisodes :: int where
  "milestoneKindEpisodes = 2"

definition insert_milestone :: "env \<Rightarrow> instant \<Rightarrow> int \<Rightarrow> int \<Rightarrow> int \<Rightarrow> int \<Rightarrow> store \<Rightarrow> store result" where
  "insert_milestone e now uid existing kind tier st =
     (if existing = 0 then InsertMilestoneBackdated e now uid kind (int32 tier) st
      else InsertMilestone e now uid kind (int32 tier) st)"

definition milestone_tier ::
  "env \<Rightarrow> instant \<Rightarrow> int \<Rightarrow> int \<Rightarrow> int \<Rightarrow> int \<Rightarrow> int \<Rightarrow> store \<Rightarrow> store result" where
  "milestone_tier e now uid existing hours episodes tier st =
     rbind (if hours \<ge> tier then insert_milestone e now uid existing milestoneKindHours tier st else Inr st)
       (\<lambda>st. if episodes \<ge> tier then insert_milestone e now uid existing milestoneKindEpisodes tier st
             else Inr st)"

definition detectMilestones :: "env \<Rightarrow> instant \<Rightarrow> int \<Rightarrow> store \<Rightarrow> store result" where
  "detectMilestones e now uid st =
     rbind (GetListeningTotals e uid st) (\<lambda>totals.
     rbind (CountMilestonesForUser e uid st) (\<lambda>existing.
       let hours = go_div (lt_ListenedSeconds totals) 3600
       in rfold (milestone_tier e now uid existing hours (lt_EpisodesFinished totals)) milestoneTiers st))"

subsection \<open>The response\<close>

definition collectChangedRecords :: "env \<Rightarrow> int \<Rightarrow> int \<Rightarrow> int \<Rightarrow> store \<Rightarrow> Record list result" where
  "collectChangedRecords e uid since upTo st =
     rbind (GetFoldersModifiedSince e uid since upTo st) (\<lambda>folders.
     rbind (GetUserPodcastsModifiedSince e uid since upTo st) (\<lambda>podcasts.
     rbind (GetUserEpisodesModifiedSince e uid since upTo st) (\<lambda>episodes.
     rbind (GetPlaylistsModifiedSince e uid since upTo st) (\<lambda>playlists.
     rbind (GetBookmarksModifiedSince e uid since upTo st) (\<lambda>bookmarks.
       Inr (map (\<lambda>r. Record_Folder (folderToProto r)) folders
            @ map (\<lambda>r. Record_Podcast (userPodcastToProto e r)) podcasts
            @ map (\<lambda>r. Record_Episode (userEpisodeToProto r)) episodes
            @ map (\<lambda>r. Record_Playlist (playlistToProto e r)) playlists
            @ map (\<lambda>r. Record_Bookmark (bookmarkToProto r)) bookmarks))))))"

subsection \<open>ApplyUpdate\<close>

definition on_store :: "(store \<Rightarrow> store result) \<Rightarrow> store \<times> 'u \<Rightarrow> (store \<times> 'u) result" where
  "on_store f s = rbind (f (fst s)) (\<lambda>st. Inr (st, snd s))"

text \<open>The pair holds the position of the record in the request, which names its clock reading.\<close>

definition applyRecord ::
  "env \<Rightarrow> clock \<Rightarrow> int \<Rightarrow> int \<Rightarrow> nat \<times> Record \<Rightarrow> store \<times> string set \<Rightarrow> (store \<times> string set) result" where
  "applyRecord e ck uid token ir s =
     (case snd ir of
        Record_Podcast rec \<Rightarrow> applyPodcastRecord e uid token rec s
      | Record_Episode rec \<Rightarrow> on_store (applyEpisodeRecord e uid token rec) s
      | Record_Playlist rec \<Rightarrow> on_store (applyPlaylistRecord e uid token rec) s
      | Record_Folder rec \<Rightarrow> on_store (applyFolderRecord e uid token rec) s
      | Record_Bookmark rec \<Rightarrow> on_store (applyBookmarkRecord e (ck_ns ck (fst ir)) uid token rec) s
      | Record_Device rec \<Rightarrow> on_store (applyDeviceRecord e (ck_db ck) uid rec) s
      | Record_Unset \<Rightarrow> Inr s)"

fun is_Record_Episode :: "Record \<Rightarrow> bool" where
  "is_Record_Episode (Record_Episode _) = True"
| "is_Record_Episode _ = False"

definition apply_update_tx ::
  "env \<Rightarrow> clock \<Rightarrow> int \<Rightarrow> SyncUpdateRequest \<Rightarrow> store \<Rightarrow> ((SyncUpdateResponse \<times> string set) \<times> store) result" where
  "apply_update_tx e ck uid req st =
     rbind (GetUserForUpdate e uid st) (\<lambda>user.
       let token = NextToken (ck_ms ck 0) (u_SyncLastModified user)
       in rbind (rfold (applyRecord e ck uid token) (enumerate 0 (req_Records req)) (st, {})) (\<lambda>(st, unknownFeeds).
          rbind (if list_ex is_Record_Episode (req_Records req) then detectMilestones e (ck_db ck) uid st
                 else Inr st) (\<lambda>st.
          rbind (SetUserSyncLastModified e uid token st) (\<lambda>st.
          rbind (collectChangedRecords e uid (req_LastModified req) token st) (\<lambda>records.
            Inr ((\<lparr>resp_LastModified = token, resp_Records = records\<rparr>, unknownFeeds), st))))))"

text \<open>An engine call wraps the error of its transaction with its operation.\<close>

definition engine_call ::
  "env \<Rightarrow> string \<Rightarrow> (store \<Rightarrow> ('a \<times> store) result) \<Rightarrow> store \<Rightarrow> 'a result \<times> store" where
  "engine_call e o' fn st =
     (case InTx e fn st of
        (Inl err, st') \<Rightarrow> (Inl (E_op o' Database err), st')
      | (Inr x, st') \<Rightarrow> (Inr x, st'))"

text \<open>The second component of the result is what \<^verbatim>\<open>OnUnknownPodcast\<close> is called with.\<close>

definition ApplyUpdate ::
  "env \<Rightarrow> clock \<Rightarrow> int \<Rightarrow> SyncUpdateRequest \<Rightarrow> store \<Rightarrow> (SyncUpdateResponse \<times> string set) result \<times> store" where
  "ApplyUpdate e ck uid req st = engine_call e ''syncsvc/Engine.ApplyUpdate'' (apply_update_tx e ck uid req) st"

end
