(* ===== verification/Delta_Table.thy ===== *)
theory Delta_Table
  imports Db_Store
begin

section \<open>The contract of a synced table\<close>

text \<open>
  The incremental protocol rests on five tables (folders, subscriptions, episodes,
  playlists, bookmarks) that offer the same two statements: an upsert that stamps the
  row of its key, and a read of one user's rows with \<open>since < stamp \<le> upTo\<close>.
  The locale \<open>delta_table\<close> states what the engine relies on; its lemmas are proved
  once and the five interpretations discharge the laws for the statements of
  \<^verbatim>\<open>src/db/queries.sql.go\<close>.
\<close>

text \<open>The effect of an upsert with parameters \<open>p\<close> on the rows of its table.\<close>

definition upsert_spec :: "('r \<Rightarrow> int \<times> string) \<Rightarrow> ('r \<Rightarrow> int) \<Rightarrow> env \<Rightarrow> 'r \<Rightarrow> 'r list \<Rightarrow> 'r list \<Rightarrow> bool" where
  "upsert_spec key stamp e p t t' \<longleftrightarrow>
     (\<exists>u new upd. pg_uuid e (snd (key p)) = Some u \<and> key new = (fst (key p), u) \<and> stamp new = stamp p \<and>
        (\<forall>x. key (upd x) = key new \<and> stamp (upd x) = stamp p) \<and> t' = upsert_row key new upd t)"

lemma upsert_specI:
  assumes "t' = upsert_row key new upd t" and "key new = (fst (key p), u)"
    and "pg_uuid e (snd (key p)) = Some u" and "stamp new = stamp p"
    and "\<And>x. key (upd x) = key new" and "\<And>x. stamp (upd x) = stamp p"
  shows "upsert_spec key stamp e p t t'"
  unfolding upsert_spec_def by (rule exI [of _ u], rule exI [of _ new], rule exI [of _ upd]) (simp add: assms)

locale delta_table =
  fixes tbl :: "store \<Rightarrow> 'r list"
    and key :: "'r \<Rightarrow> int \<times> string"
    and stamp :: "'r \<Rightarrow> int"
    and upsert :: "env \<Rightarrow> 'r \<Rightarrow> store \<Rightarrow> store result"
    and since :: "env \<Rightarrow> int \<Rightarrow> int \<Rightarrow> int \<Rightarrow> store \<Rightarrow> 'r list result"
  assumes upsert_effect:
    "upsert e p st = Inr st' \<Longrightarrow> upsert_spec key stamp e p (tbl st) (tbl st')"
    and since_eq:
    "since e uid lo hi st = Inr rows \<Longrightarrow>
       rows = filter (\<lambda>r. fst (key r) = uid \<and> lo < stamp r \<and> stamp r \<le> hi) (tbl st)"
begin

text \<open>Keys stay unique.\<close>

lemma upsert_keyed:
  assumes "upsert e p st = Inr st'" and "keyed key (tbl st)"
  shows "keyed key (tbl st')"
proof -
  obtain u new upd where "key new = (fst (key p), u)" "\<forall>x. key (upd x) = key new"
      "tbl st' = upsert_row key new upd (tbl st)"
    using upsert_effect [OF assms(1)] unfolding upsert_spec_def by blast
  then show ?thesis using keyed_upsert [OF assms(2), of new upd] by simp
qed

text \<open>A row after the upsert is an old one or carries the new stamp and the writer's id.\<close>

lemma upsert_rows:
  assumes "upsert e p st = Inr st'" and "r \<in> set (tbl st')"
  shows "r \<in> set (tbl st) \<or> fst (key r) = fst (key p) \<and> stamp r = stamp p"
proof -
  obtain u new upd where eff: "key new = (fst (key p), u)" "stamp new = stamp p"
      "\<forall>x. key (upd x) = key new \<and> stamp (upd x) = stamp p" "tbl st' = upsert_row key new upd (tbl st)"
    using upsert_effect [OF assms(1)] unfolding upsert_spec_def by blast
  then show ?thesis
    using upsert_row_mem [of r key new upd "tbl st"] assms(2) by auto
qed

text \<open>The upserted key has a row with the new stamp.\<close>

lemma upsert_echo:
  assumes "upsert e p st = Inr st'"
  obtains r u where "r \<in> set (tbl st')" "key r = (fst (key p), u)" "pg_uuid e (snd (key p)) = Some u"
    "stamp r = stamp p"
proof -
  obtain u new upd where eff: "pg_uuid e (snd (key p)) = Some u" "key new = (fst (key p), u)"
      "stamp new = stamp p" "\<forall>x. key (upd x) = key new \<and> stamp (upd x) = stamp p"
      "tbl st' = upsert_row key new upd (tbl st)"
    using upsert_effect [OF assms(1)] unfolding upsert_spec_def by blast
  show thesis
  proof (cases "key new \<in> key ` set (tbl st)")
    case True
    then obtain x where "x \<in> set (tbl st)" "key x = key new" by (auto simp: image_iff)
    then have "upd x \<in> set (tbl st')" using True eff(5) by (auto simp: upsert_row_def tbl_simps)
    then show thesis using that eff by metis
  next
    case False
    then have "new \<in> set (tbl st')" using eff(5) by (simp add: upsert_row_def)
    then show thesis using that eff by metis
  qed
qed

text \<open>No key disappears.\<close>

lemma upsert_keys_persist:
  assumes "upsert e p st = Inr st'" and "r \<in> set (tbl st)"
  shows "\<exists>r' \<in> set (tbl st'). key r' = key r"
proof -
  obtain u new upd where eff: "key new = (fst (key p), u)"
      "\<forall>x. key (upd x) = key new" "tbl st' = upsert_row key new upd (tbl st)"
    using upsert_effect [OF assms(1)] unfolding upsert_spec_def by blast
  show ?thesis
  proof (cases "key r = key new")
    case True
    then have "upd r \<in> set (tbl st')"
      using assms(2) eff(3) by (auto simp: upsert_row_def tbl_simps intro: rev_image_eqI)
    then show ?thesis using True eff(2) by metis
  next
    case False
    then have "r \<in> set (tbl st')" using assms(2) eff(3) by (auto simp: upsert_row_def tbl_simps)
    then show ?thesis by blast
  qed
qed

text \<open>The rows of other users are untouched.\<close>

lemma upsert_others_rows:
  assumes "upsert e p st = Inr st'" and "uid \<noteq> fst (key p)"
  shows "filter (\<lambda>r. fst (key r) = uid) (tbl st') = filter (\<lambda>r. fst (key r) = uid) (tbl st)"
proof -
  obtain u new upd where eff: "key new = (fst (key p), u)"
      "\<forall>x. key (upd x) = key new" "tbl st' = upsert_row key new upd (tbl st)"
    using upsert_effect [OF assms(1)] unfolding upsert_spec_def by blast
  have "filter (\<lambda>r. fst (key r) = uid) (update_where (\<lambda>x. key x = key new) upd t) =
        filter (\<lambda>r. fst (key r) = uid) t" for t
    using eff(1,2) assms(2) by (induction t) (auto simp: update_where_def)
  then show ?thesis
    using eff(1,3) assms(2) by (auto simp: upsert_row_def)
qed

text \<open>A stamp above every stamp of the user keeps its rows below it.\<close>

lemma upsert_bounded:
  assumes "upsert e p st = Inr st'" and "\<forall>r \<in> set (tbl st). fst (key r) = uid \<longrightarrow> stamp r \<le> hi"
    and "stamp p \<le> hi"
  shows "\<forall>r \<in> set (tbl st'). fst (key r) = uid \<longrightarrow> stamp r \<le> hi"
  using assms upsert_rows by metis

lemma since_iff:
  assumes "since e uid lo hi st = Inr rows"
  shows "r \<in> set rows \<longleftrightarrow> r \<in> set (tbl st) \<and> fst (key r) = uid \<and> lo < stamp r \<and> stamp r \<le> hi"
  using since_eq [OF assms] by auto

end

subsection \<open>The five tables\<close>

interpretation folders: delta_table st_folders fo_key fo_ModifiedAt UpsertFolder GetFoldersModifiedSince
proof
  show "UpsertFolder e p st = Inr st' \<Longrightarrow> upsert_spec fo_key fo_ModifiedAt e p (st_folders st) (st_folders st')"
    for e p st st'
    by (auto simp: UpsertFolder_def res_simps Let_def) (rule upsert_specI, rule refl, auto simp: fo_key_def)
qed (auto simp: GetFoldersModifiedSince_def res_simps fo_key_def)

interpretation podcasts: delta_table st_user_podcasts up_key up_ModifiedAt UpsertUserPodcast
  GetUserPodcastsModifiedSince
proof
  show "UpsertUserPodcast e p st = Inr st' \<Longrightarrow>
        upsert_spec up_key up_ModifiedAt e p (st_user_podcasts st) (st_user_podcasts st')" for e p st st'
    by (auto simp: UpsertUserPodcast_def res_simps Let_def) (rule upsert_specI, rule refl, auto simp: up_key_def)
qed (auto simp: GetUserPodcastsModifiedSince_def res_simps up_key_def)

interpretation episodes: delta_table st_user_episodes ue_key ue_ModifiedAt UpsertUserEpisode
  GetUserEpisodesModifiedSince
proof
  show "UpsertUserEpisode e p st = Inr st' \<Longrightarrow>
        upsert_spec ue_key ue_ModifiedAt e p (st_user_episodes st) (st_user_episodes st')" for e p st st'
    by (auto simp: UpsertUserEpisode_def res_simps Let_def) (rule upsert_specI, rule refl, auto simp: ue_key_def)
qed (auto simp: GetUserEpisodesModifiedSince_def res_simps ue_key_def)

interpretation playlists: delta_table st_playlists pl_key pl_ModifiedAt UpsertPlaylist GetPlaylistsModifiedSince
proof
  show "UpsertPlaylist e p st = Inr st' \<Longrightarrow> upsert_spec pl_key pl_ModifiedAt e p (st_playlists st) (st_playlists st')"
    for e p st st'
    by (auto simp: UpsertPlaylist_def res_simps Let_def) (rule upsert_specI, rule refl, auto simp: pl_key_def)
qed (auto simp: GetPlaylistsModifiedSince_def res_simps pl_key_def)

interpretation bookmarks: delta_table st_bookmarks bm_key bm_ModifiedAt UpsertBookmark GetBookmarksModifiedSince
proof
  show "UpsertBookmark e p st = Inr st' \<Longrightarrow> upsert_spec bm_key bm_ModifiedAt e p (st_bookmarks st) (st_bookmarks st')"
    for e p st st'
    by (auto simp: UpsertBookmark_def res_simps Let_def) (rule upsert_specI, rule refl, auto simp: bm_key_def)
qed (auto simp: GetBookmarksModifiedSince_def res_simps bm_key_def)

end
