(* ===== verification/Sync_Delta.thy ===== *)
theory Sync_Delta
  imports Sync_Engine Delta_Table
begin

section \<open>What one update does to the store\<close>

text \<open>
  The five synced tables seen as one set of stamped rows, the part of the store that
  belongs to one user, and the relation \<open>sync_write\<close> between the stores before and
  after a batch of records: new rows belong to the writer and carry its token, the
  rest is as it was, and keys stay unique.  Every \<open>apply...Record\<close> is such a write and
  the relation is reflexive and transitive, so the loop over the records is one.
\<close>

subsection \<open>Synced rows\<close>

datatype synced =
    SFolder Folder
  | SPodcast UserPodcast
  | SEpisode UserEpisode
  | SPlaylist Playlist
  | SBookmark Bookmark

fun sy_owner :: "synced \<Rightarrow> int" where
  "sy_owner (SFolder r) = fo_UserID r"
| "sy_owner (SPodcast r) = up_UserID r"
| "sy_owner (SEpisode r) = ue_UserID r"
| "sy_owner (SPlaylist r) = pl_UserID r"
| "sy_owner (SBookmark r) = bm_UserID r"

fun sy_key :: "synced \<Rightarrow> nat \<times> int \<times> string" where
  "sy_key (SFolder r) = (0, fo_key r)"
| "sy_key (SPodcast r) = (1, up_key r)"
| "sy_key (SEpisode r) = (2, ue_key r)"
| "sy_key (SPlaylist r) = (3, pl_key r)"
| "sy_key (SBookmark r) = (4, bm_key r)"

fun sy_stamp :: "synced \<Rightarrow> int" where
  "sy_stamp (SFolder r) = fo_ModifiedAt r"
| "sy_stamp (SPodcast r) = up_ModifiedAt r"
| "sy_stamp (SEpisode r) = ue_ModifiedAt r"
| "sy_stamp (SPlaylist r) = pl_ModifiedAt r"
| "sy_stamp (SBookmark r) = bm_ModifiedAt r"

fun sy_record :: "env \<Rightarrow> synced \<Rightarrow> Record" where
  "sy_record e (SFolder r) = Record_Folder (folderToProto r)"
| "sy_record e (SPodcast r) = Record_Podcast (userPodcastToProto e r)"
| "sy_record e (SEpisode r) = Record_Episode (userEpisodeToProto r)"
| "sy_record e (SPlaylist r) = Record_Playlist (playlistToProto e r)"
| "sy_record e (SBookmark r) = Record_Bookmark (bookmarkToProto r)"

definition synced_list :: "store \<Rightarrow> synced list" where
  "synced_list st =
     map SFolder (st_folders st) @ map SPodcast (st_user_podcasts st) @ map SEpisode (st_user_episodes st)
     @ map SPlaylist (st_playlists st) @ map SBookmark (st_bookmarks st)"

abbreviation synced_rows :: "store \<Rightarrow> synced set" where
  "synced_rows st \<equiv> set (synced_list st)"

lemma synced_rows_iff [tbl_simps]:
  "SFolder r1 \<in> synced_rows st \<longleftrightarrow> r1 \<in> set (st_folders st)"
  "SPodcast r2 \<in> synced_rows st \<longleftrightarrow> r2 \<in> set (st_user_podcasts st)"
  "SEpisode r3 \<in> synced_rows st \<longleftrightarrow> r3 \<in> set (st_user_episodes st)"
  "SPlaylist r4 \<in> synced_rows st \<longleftrightarrow> r4 \<in> set (st_playlists st)"
  "SBookmark r5 \<in> synced_rows st \<longleftrightarrow> r5 \<in> set (st_bookmarks st)"
  by (auto simp: synced_list_def)

lemma synced_ball [tbl_simps]:
  "(\<forall>r \<in> synced_rows st. P r) \<longleftrightarrow>
     (\<forall>r \<in> set (st_folders st). P (SFolder r)) \<and> (\<forall>r \<in> set (st_user_podcasts st). P (SPodcast r)) \<and>
     (\<forall>r \<in> set (st_user_episodes st). P (SEpisode r)) \<and> (\<forall>r \<in> set (st_playlists st). P (SPlaylist r)) \<and>
     (\<forall>r \<in> set (st_bookmarks st). P (SBookmark r))"
  by (auto simp: synced_list_def)

lemma synced_bex [tbl_simps]:
  "(\<exists>r \<in> synced_rows st. P r) \<longleftrightarrow>
     (\<exists>r \<in> set (st_folders st). P (SFolder r)) \<or> (\<exists>r \<in> set (st_user_podcasts st). P (SPodcast r)) \<or>
     (\<exists>r \<in> set (st_user_episodes st). P (SEpisode r)) \<or> (\<exists>r \<in> set (st_playlists st). P (SPlaylist r)) \<or>
     (\<exists>r \<in> set (st_bookmarks st). P (SBookmark r))"
  by (auto simp: synced_list_def)

text \<open>The response lists the rows in the window, kind by kind.\<close>

lemma collectChangedRecords_eq:
  assumes "collectChangedRecords e uid since upTo st = Inr records"
  shows "records =
    map (sy_record e) (filter (\<lambda>r. sy_owner r = uid \<and> since < sy_stamp r \<and> sy_stamp r \<le> upTo) (synced_list st))"
  using assms
  by (auto simp: collectChangedRecords_def res_simps synced_list_def filter_map comp_def
      GetFoldersModifiedSince_def GetUserPodcastsModifiedSince_def GetUserEpisodesModifiedSince_def
      GetPlaylistsModifiedSince_def GetBookmarksModifiedSince_def)

subsection \<open>One user's part of the store\<close>

definition user_view :: "int \<Rightarrow> store \<Rightarrow> store" where
  "user_view uid st =
     st\<lparr>st_users := filter (\<lambda>r. u_ID r = uid) (st_users st),
        st_user_podcasts := filter (\<lambda>r. fst (up_key r) = uid) (st_user_podcasts st),
        st_user_episodes := filter (\<lambda>r. fst (ue_key r) = uid) (st_user_episodes st),
        st_folders := filter (\<lambda>r. fst (fo_key r) = uid) (st_folders st),
        st_playlists := filter (\<lambda>r. fst (pl_key r) = uid) (st_playlists st),
        st_bookmarks := filter (\<lambda>r. fst (bm_key r) = uid) (st_bookmarks st),
        st_devices := filter (\<lambda>r. fst (dv_key r) = uid) (st_devices st),
        st_up_next := filter (\<lambda>r. fst (un_key r) = uid) (st_up_next st),
        st_history := filter (\<lambda>r. fst (hi_key r) = uid) (st_history st),
        st_settings := filter (\<lambda>r. us_UserID r = uid) (st_settings st),
        st_milestones := filter (\<lambda>r. fst (ms_key r) = uid) (st_milestones st)\<rparr>"

definition tables_keyed :: "store \<Rightarrow> bool" where
  "tables_keyed st \<longleftrightarrow>
     keyed u_ID (st_users st) \<and> keyed up_key (st_user_podcasts st) \<and> keyed ue_key (st_user_episodes st) \<and>
     keyed fo_key (st_folders st) \<and> keyed pl_key (st_playlists st) \<and> keyed bm_key (st_bookmarks st) \<and>
     keyed dv_key (st_devices st) \<and> keyed un_key (st_up_next st) \<and> keyed hi_key (st_history st) \<and>
     keyed us_UserID (st_settings st) \<and> keyed ms_key (st_milestones st)"

subsection \<open>Writes\<close>

definition sync_write :: "int \<Rightarrow> int \<Rightarrow> store \<Rightarrow> store \<Rightarrow> bool" where
  "sync_write uid token st st' \<longleftrightarrow>
     st_users st' = st_users st \<and>
     (\<forall>uid'. uid' \<noteq> uid \<longrightarrow> user_view uid' st' = user_view uid' st) \<and>
     (\<forall>r \<in> synced_rows st'. r \<in> synced_rows st \<or> sy_owner r = uid \<and> sy_stamp r = token) \<and>
     (\<forall>r \<in> synced_rows st. \<exists>r' \<in> synced_rows st'. sy_key r' = sy_key r) \<and>
     (tables_keyed st \<longrightarrow> tables_keyed st')"

lemma sync_write_refl [simp, intro]: "sync_write uid token st st"
  by (auto simp: sync_write_def)

lemma sync_write_trans:
  "sync_write uid token st st' \<Longrightarrow> sync_write uid token st' st'' \<Longrightarrow> sync_write uid token st st''"
  unfolding sync_write_def by (intro conjI) (simp, simp, blast, metis, blast)

text \<open>The statements on the five tables are writes.\<close>

lemmas write_simps = sync_write_def tbl_simps user_view_def tables_keyed_def

lemma UpsertFolder_write:
  assumes "UpsertFolder e p st = Inr st'"
  shows "sync_write (fo_UserID p) (fo_ModifiedAt p) st st'"
proof -
  obtain t where "st' = st\<lparr>st_folders := t\<rparr>"
    using assms by (auto simp: UpsertFolder_def res_simps Let_def)
  then show ?thesis
    using folders.upsert_rows [OF assms] folders.upsert_others_rows [OF assms] folders.upsert_keyed [OF assms]
      folders.upsert_keys_persist [OF assms]
    by (auto simp: write_simps fo_key_def)
qed

lemma UpsertUserPodcast_write:
  assumes "UpsertUserPodcast e p st = Inr st'"
  shows "sync_write (up_UserID p) (up_ModifiedAt p) st st'"
proof -
  obtain t where "st' = st\<lparr>st_user_podcasts := t\<rparr>"
    using assms by (auto simp: UpsertUserPodcast_def res_simps Let_def)
  then show ?thesis
    using podcasts.upsert_rows [OF assms] podcasts.upsert_others_rows [OF assms] podcasts.upsert_keyed [OF assms]
      podcasts.upsert_keys_persist [OF assms]
    by (auto simp: write_simps up_key_def)
qed

lemma UpsertUserEpisode_write:
  assumes "UpsertUserEpisode e p st = Inr st'"
  shows "sync_write (ue_UserID p) (ue_ModifiedAt p) st st'"
proof -
  obtain t where "st' = st\<lparr>st_user_episodes := t\<rparr>"
    using assms by (auto simp: UpsertUserEpisode_def res_simps Let_def)
  then show ?thesis
    using episodes.upsert_rows [OF assms] episodes.upsert_others_rows [OF assms] episodes.upsert_keyed [OF assms]
      episodes.upsert_keys_persist [OF assms]
    by (auto simp: write_simps ue_key_def)
qed

lemma UpsertPlaylist_write:
  assumes "UpsertPlaylist e p st = Inr st'"
  shows "sync_write (pl_UserID p) (pl_ModifiedAt p) st st'"
proof -
  obtain t where "st' = st\<lparr>st_playlists := t\<rparr>"
    using assms by (auto simp: UpsertPlaylist_def res_simps Let_def)
  then show ?thesis
    using playlists.upsert_rows [OF assms] playlists.upsert_others_rows [OF assms] playlists.upsert_keyed [OF assms]
      playlists.upsert_keys_persist [OF assms]
    by (auto simp: write_simps pl_key_def)
qed

lemma UpsertBookmark_write:
  assumes "UpsertBookmark e p st = Inr st'"
  shows "sync_write (bm_UserID p) (bm_ModifiedAt p) st st'"
proof -
  obtain t where "st' = st\<lparr>st_bookmarks := t\<rparr>"
    using assms by (auto simp: UpsertBookmark_def res_simps Let_def)
  then show ?thesis
    using bookmarks.upsert_rows [OF assms] bookmarks.upsert_others_rows [OF assms] bookmarks.upsert_keyed [OF assms]
      bookmarks.upsert_keys_persist [OF assms]
    by (auto simp: write_simps bm_key_def)
qed

lemma UpsertDevice_write:
  assumes "UpsertDevice e now p st = Inr st'"
  shows "sync_write (dv_UserID p) token st st'"
proof -
  obtain new upd where st': "st' = st\<lparr>st_devices := upsert_row dv_key new upd (st_devices st)\<rparr>"
      and key: "dv_key new = dv_key p" "\<And>x. dv_key (upd x) = dv_key new"
    using assms by (auto simp: UpsertDevice_def res_simps Let_def dv_key_def)
  have "uid' \<noteq> dv_UserID p \<Longrightarrow>
        filter (\<lambda>x. fst (dv_key x) = uid') (upsert_row dv_key new upd t) = filter (\<lambda>x. fst (dv_key x) = uid') t"
    for uid' t
    using upsert_row_other_user [of dv_key new upd uid'] key by (simp add: dv_key_def)
  moreover have "keyed dv_key (st_devices st) \<Longrightarrow> keyed dv_key (upsert_row dv_key new upd (st_devices st))"
    using key by (intro keyed_upsert) simp_all
  ultimately show ?thesis
    unfolding st' by (auto simp: write_simps)
qed

lemma insert_milestone_write:
  assumes "insert_milestone e now uid existing kind tier st = Inr st'"
  shows "sync_write uid token st st'"
proof -
  obtain r where "st' = st\<lparr>st_milestones := insert_new ms_key r (st_milestones st)\<rparr>" "ms_UserID r = uid"
    using assms
    by (auto simp: insert_milestone_def InsertMilestone_def InsertMilestoneBackdated_def res_simps split: if_splits)
  then show ?thesis
    by (auto simp: write_simps keyed_insert_new) (auto simp: insert_new_def ms_key_def)
qed

subsection \<open>The records\<close>

lemma podcast_params_owner [simp]:
  "up_UserID (podcast_params e uid token rec ex) = uid" "up_ModifiedAt (podcast_params e uid token rec ex) = token"
  "up_PodcastUuid (podcast_params e uid token rec ex) = sp_Uuid rec"
  by (cases ex; simp add: podcast_params_def podcast_base_def Let_def)+

lemma merged_podcast_owner:
  "merged_podcast e rec p = Inr p' \<Longrightarrow>
     up_UserID p' = up_UserID p \<and> up_ModifiedAt p' = up_ModifiedAt p \<and> up_PodcastUuid p' = up_PodcastUuid p"
  by (auto simp: merged_podcast_def res_simps split: option.splits)

lemma applyPodcastRecord_write:
  "applyPodcastRecord e uid token rec s = Inr s' \<Longrightarrow> sync_write uid token (fst s) (fst s')"
  by (auto simp: applyPodcastRecord_def res_simps Let_def split: prod.splits if_splits
      dest!: merged_podcast_owner UpsertUserPodcast_write)

lemma applyEpisodeRecord_write:
  "applyEpisodeRecord e uid token rec st = Inr st' \<Longrightarrow> sync_write uid token st st'"
  by (auto simp: applyEpisodeRecord_def res_simps Let_def split: if_splits dest!: UpsertUserEpisode_write)

lemma applyPlaylistRecord_write:
  "applyPlaylistRecord e uid token rec st = Inr st' \<Longrightarrow> sync_write uid token st st'"
  by (auto simp: applyPlaylistRecord_def res_simps playlist_params_def split: if_splits dest!: UpsertPlaylist_write)

lemma applyFolderRecord_write:
  "applyFolderRecord e uid token rec st = Inr st' \<Longrightarrow> sync_write uid token st st'"
  by (auto simp: applyFolderRecord_def folder_params_def split: if_splits dest!: UpsertFolder_write)

lemma applyBookmarkRecord_write:
  "applyBookmarkRecord e now uid token rec st = Inr st' \<Longrightarrow> sync_write uid token st st'"
  by (auto simp: applyBookmarkRecord_def res_simps Let_def split: if_splits dest!: UpsertBookmark_write)

lemma applyDeviceRecord_write:
  "applyDeviceRecord e now uid rec st = Inr st' \<Longrightarrow> sync_write uid token st st'"
  using UpsertDevice_write by (fastforce simp: applyDeviceRecord_def Let_def split: if_splits)

lemma applyRecord_write:
  "applyRecord e ck uid token ir s = Inr s' \<Longrightarrow> sync_write uid token (fst s) (fst s')"
  by (auto simp: applyRecord_def on_store_def res_simps split: Record.splits
      intro: applyPodcastRecord_write applyEpisodeRecord_write applyPlaylistRecord_write
        applyFolderRecord_write applyBookmarkRecord_write applyDeviceRecord_write)

lemma applyRecords_write:
  assumes "rfold (applyRecord e ck uid token) irs s = Inr s'"
  shows "sync_write uid token (fst s) (fst s')"
  using assms
proof (rule rfold_rel [where R = "\<lambda>s s'. sync_write uid token (fst s) (fst s')"])
  show "sync_write uid token (fst s) (fst u) \<Longrightarrow> sync_write uid token (fst u) (fst v) \<Longrightarrow>
        sync_write uid token (fst s) (fst v)" for s u v :: "store \<times> string set"
    by (rule sync_write_trans)
qed (auto intro: applyRecord_write)

lemma detectMilestones_write:
  assumes "detectMilestones e now uid st = Inr st'"
  shows "sync_write uid token st st'"
proof -
  obtain existing hours finished where
    "rfold (milestone_tier e now uid existing hours finished) milestoneTiers st = Inr st'"
    using assms by (auto simp: detectMilestones_def res_simps Let_def)
  then show ?thesis
  proof (rule rfold_rel [where R = "sync_write uid token"])
    show "sync_write uid token s u \<Longrightarrow> sync_write uid token u v \<Longrightarrow> sync_write uid token s v" for s u v
      by (rule sync_write_trans)
    show "milestone_tier e now uid existing hours finished tier s = Inr s' \<Longrightarrow> sync_write uid token s s'"
      for tier s s'
      by (auto simp: milestone_tier_def res_simps split: if_splits
          intro: insert_milestone_write sync_write_trans)
  qed simp
qed

subsection \<open>The transaction\<close>

text \<open>What a successful \<^verbatim>\<open>ApplyUpdate\<close> did, in one place.\<close>

lemma apply_update_tx_cases:
  assumes "apply_update_tx e ck uid req st = Inr ((resp, unknown), st')"
  obtains user st1 where
    "u_ID user = uid" "u_DeletedAt user = None" "user \<in> set (st_users st)"
    "resp_LastModified resp = NextToken (ck_ms ck 0) (u_SyncLastModified user)"
    "sync_write uid (resp_LastModified resp) st st1"
    "st' = st1\<lparr>st_users := update_where (\<lambda>u. u_ID u = uid)
             (\<lambda>u. u\<lparr>u_SyncLastModified := resp_LastModified resp\<rparr>) (st_users st)\<rparr>"
    "resp_Records resp =
       map (sy_record e) (filter (\<lambda>r. sy_owner r = uid \<and> req_LastModified req < sy_stamp r \<and>
         sy_stamp r \<le> resp_LastModified resp) (synced_list st'))"
proof -
  obtain user st0 st1 where user: "GetUserForUpdate e uid st = Inr user"
    and fold: "rfold (applyRecord e ck uid (NextToken (ck_ms ck 0) (u_SyncLastModified user)))
      (enumerate 0 (req_Records req)) (st, {}) = Inr (st0, unknown)"
    and ms: "(if list_ex is_Record_Episode (req_Records req) then detectMilestones e (ck_db ck) uid st0
      else Inr st0) = Inr st1"
    and set: "SetUserSyncLastModified e uid (NextToken (ck_ms ck 0) (u_SyncLastModified user)) st1 = Inr st'"
    and resp: "resp_LastModified resp = NextToken (ck_ms ck 0) (u_SyncLastModified user)"
    and coll: "collectChangedRecords e uid (req_LastModified req) (resp_LastModified resp) st' = Inr (resp_Records resp)"
    using assms by (auto simp: apply_update_tx_def res_simps Let_def)
  have w: "sync_write uid (resp_LastModified resp) st st1"
    using applyRecords_write [OF fold] ms resp
    by (auto split: if_splits intro: sync_write_trans detectMilestones_write)
  have "st' = st1\<lparr>st_users := update_where (\<lambda>u. u_ID u = uid)
          (\<lambda>u. u\<lparr>u_SyncLastModified := resp_LastModified resp\<rparr>) (st_users st)\<rparr>"
    using set w resp by (auto simp: SetUserSyncLastModified_def res_simps sync_write_def)
  moreover have "user \<in> set (st_users st)" "u_ID user = uid" "u_DeletedAt user = None"
    using user by (auto simp: GetUserForUpdate_def res_simps dest: find_Some_mem)
  ultimately show thesis
    using that w resp collectChangedRecords_eq [OF coll] by blast
qed

lemma engine_call_Inr [res_simps]:
  "engine_call e o' fn st = (Inr x, st') \<longleftrightarrow>
     pg_fault e ''begin'' = None \<and> fn st = Inr (x, st') \<and> pg_fault e ''commit'' = None"
  by (auto simp: engine_call_def InTx_def split: prod.splits sum.splits option.splits)

lemma engine_call_Inl:
  assumes "engine_call e o' fn st = (Inl err, st')"
  shows "st' = st \<and> (\<exists>cause. err = E_op o' Database cause)"
  using assms by (auto simp: engine_call_def split: prod.splits sum.splits dest: InTx_Inl)

subsection \<open>Reading an episode back\<close>

text \<open>The stored row of an episode.\<close>

definition episode_row :: "store \<Rightarrow> int \<Rightarrow> string \<Rightarrow> UserEpisode option" where
  "episode_row st uid uuid = find (\<lambda>r. ue_key r = (uid, uuid)) (st_user_episodes st)"

lemma GetUserEpisode_row:
  assumes "healthy e" and "pg_uuid e s = Some u"
  shows "GetUserEpisode e uid s st = (case episode_row st uid u of None \<Rightarrow> Inl ErrNoRows | Some r \<Rightarrow> Inr r)"
  using assms by (simp add: GetUserEpisode_def cast_uuid_def select_one_def episode_row_def)

lemma UpsertUserEpisode_row:
  assumes "healthy e" and "pg_uuid e (ue_EpisodeUuid p) = Some u" and "pg_uuid e (ue_PodcastUuid p) = Some pod"
  shows "\<exists>st'. UpsertUserEpisode e p st = Inr st' \<and>
           episode_row st' (ue_UserID p) u = Some (p\<lparr>ue_EpisodeUuid := u, ue_PodcastUuid := pod\<rparr>)"
proof -
  let ?new = "p\<lparr>ue_EpisodeUuid := u, ue_PodcastUuid := pod\<rparr>"
  have "find (\<lambda>r. ue_key r = ue_key ?new) (upsert_row ue_key ?new (\<lambda>old. ?new) t) = Some ?new" for t
    by (subst upsert_find) (auto split: option.split)
  then show ?thesis
    using assms by (simp add: UpsertUserEpisode_def cast_uuid_def Let_def episode_row_def ue_key_def)
qed

end
