(* ===== verification/Sync_Updates.thy ===== *)
theory Sync_Updates
  imports Sync_Delta
begin

section \<open>Settings and real-time episode updates\<close>

text \<open>
  \<^verbatim>\<open>src/syncsvc/updates.go\<close>: the endpoints that write outside the batched sync.  Each runs
  in a transaction under a fresh sync token, so that the next incremental sync of
  every device sees its write.
\<close>

record NamedSettingsRequest =
  nsr_Settings :: "named_settings option"
  nsr_ChangedSettings :: "settings_msg option"

record UpdateEpisodeRequest =
  uq_Uuid :: string
  uq_Podcast :: string
  uq_Position :: "int option"
  uq_Status :: int
  uq_Duration :: int

record UpdateEpisodeStarRequest =
  usq_Uuid :: string
  usq_Podcast :: string
  usq_Star :: bool

subsection \<open>The code\<close>

definition settings_tx :: "env \<Rightarrow> clock \<Rightarrow> int \<Rightarrow> NamedSettingsRequest \<Rightarrow> store \<Rightarrow> (settings_msg \<times> store) result" where
  "settings_tx e ck uid req st =
     rbind (GetUserForUpdate e uid st) (\<lambda>user.
     rbind (or_no_rows (GetUserSettings e uid st)) (\<lambda>row.
       let storedRaw = (case row of None \<Rightarrow> None | Some r \<Rightarrow> us_Settings r)
       in rbind (decodeStoredSettings e storedRaw) (\<lambda>stored.
            let token = NextToken (ck_ms ck 0) (u_SyncLastModified user);
                (stored, changed) = MergeChangedSettings stored (nsr_ChangedSettings req);
                (stored, legacyChanged) = ApplyLegacySettings stored (nsr_Settings req) token;
                changed = (changed \<or> legacyChanged)
            in rbind
                 (if changed then
                    rbind (encodeStoredSettings e stored) (\<lambda>raw.
                    rbind (UpsertUserSettings e \<lparr>us_UserID = uid, us_Settings = raw, us_ModifiedAt = token\<rparr> st)
                      (SetUserSyncLastModified e uid token))
                  else Inr st)
                 (\<lambda>st. Inr (BuildNamedSettingsResponse stored, st)))))"

definition UpdateSettings ::
  "env \<Rightarrow> clock \<Rightarrow> int \<Rightarrow> NamedSettingsRequest \<Rightarrow> store \<Rightarrow> settings_msg result \<times> store" where
  "UpdateSettings e ck uid req st = engine_call e ''syncsvc/Engine.UpdateSettings'' (settings_tx e ck uid req) st"

definition episode_update_params :: "int \<Rightarrow> UpdateEpisodeRequest \<Rightarrow> UserEpisode \<Rightarrow> UserEpisode" where
  "episode_update_params token req existing =
     (let p = (upsertParamsFromRow existing)\<lparr>ue_ModifiedAt := token\<rparr>;
          p = (if uq_Podcast req \<noteq> '''' then p\<lparr>ue_PodcastUuid := uq_Podcast req\<rparr> else p);
          p = (case uq_Position req of
                 None \<Rightarrow> p | Some v \<Rightarrow> p\<lparr>ue_PlayedUpTo := v, ue_PlayedUpToModified := token\<rparr>);
          p = (if uq_Status req \<noteq> 0
               then p\<lparr>ue_PlayingStatus := uq_Status req, ue_PlayingStatusModified := token\<rparr> else p);
          p = (if uq_Duration req \<noteq> 0
               then p\<lparr>ue_Duration := uq_Duration req, ue_DurationModified := token\<rparr> else p)
      in p)"

definition update_episode_tx :: "env \<Rightarrow> clock \<Rightarrow> int \<Rightarrow> UpdateEpisodeRequest \<Rightarrow> store \<Rightarrow> (unit \<times> store) result" where
  "update_episode_tx e ck uid req st =
     rbind (GetUserForUpdate e uid st) (\<lambda>user.
       let token = NextToken (ck_ms ck 0) (u_SyncLastModified user)
       in rbind (or_no_rows (GetUserEpisode e uid (uq_Uuid req) st)) (\<lambda>found.
            let existing = (case found of Some r \<Rightarrow> r | None \<Rightarrow> new_episode uid (uq_Uuid req));
                params = episode_update_params token req existing
            in if ue_PodcastUuid params = '''' then Inr ((), st)
               else
                 rbind (UpsertUserEpisode e params st) (\<lambda>st.
                 rbind (SetUserSyncLastModified e uid token st) (\<lambda>st. Inr ((), st)))))"

definition UpdateEpisode :: "env \<Rightarrow> clock \<Rightarrow> int \<Rightarrow> UpdateEpisodeRequest \<Rightarrow> store \<Rightarrow> unit result \<times> store" where
  "UpdateEpisode e ck uid req st =
     (if uq_Uuid req = '''' then (Inl (E_msg ''syncsvc/Engine.UpdateEpisode'' Invalid ''episode uuid is required''), st)
      else engine_call e ''syncsvc/Engine.UpdateEpisode'' (update_episode_tx e ck uid req) st)"

definition star_update_params :: "int \<Rightarrow> UpdateEpisodeStarRequest \<Rightarrow> UserEpisode \<Rightarrow> UserEpisode" where
  "star_update_params token req existing =
     (let p = (upsertParamsFromRow existing)\<lparr>ue_ModifiedAt := token\<rparr>;
          p = (if usq_Podcast req \<noteq> '''' then p\<lparr>ue_PodcastUuid := usq_Podcast req\<rparr> else p)
      in p\<lparr>ue_Starred := usq_Star req, ue_StarredModified := token\<rparr>)"

definition update_star_tx :: "env \<Rightarrow> clock \<Rightarrow> int \<Rightarrow> UpdateEpisodeStarRequest \<Rightarrow> store \<Rightarrow> (unit \<times> store) result" where
  "update_star_tx e ck uid req st =
     rbind (GetUserForUpdate e uid st) (\<lambda>user.
       let token = NextToken (ck_ms ck 0) (u_SyncLastModified user)
       in rbind (or_no_rows (GetUserEpisode e uid (usq_Uuid req) st)) (\<lambda>found.
            let existing = (case found of Some r \<Rightarrow> r | None \<Rightarrow> new_episode uid (usq_Uuid req))
            in rbind (UpsertUserEpisode e (star_update_params token req existing) st) (\<lambda>st.
               rbind (SetUserSyncLastModified e uid token st) (\<lambda>st. Inr ((), st)))))"

definition UpdateEpisodeStar :: "env \<Rightarrow> clock \<Rightarrow> int \<Rightarrow> UpdateEpisodeStarRequest \<Rightarrow> store \<Rightarrow> unit result \<times> store" where
  "UpdateEpisodeStar e ck uid req st =
     (if usq_Uuid req = '''' then (Inl (E_msg ''syncsvc/Engine.UpdateEpisodeStar'' Invalid ''episode uuid is required''), st)
      else engine_call e ''syncsvc/Engine.UpdateEpisodeStar'' (update_star_tx e ck uid req) st)"

subsection \<open>Effects\<close>

lemma or_no_rows_Inr [res_simps]:
  "or_no_rows r = Inr x \<longleftrightarrow>
     (case x of Some y \<Rightarrow> r = Inr y | None \<Rightarrow> (\<exists>err. r = Inl err \<and> Is_ErrNoRows err))"
  by (auto simp: or_no_rows_def split: sum.splits option.splits if_splits)

lemma found_episode_owner:
  "or_no_rows (GetUserEpisode e uid uuid st) = Inr found \<Longrightarrow>
   ue_UserID (case found of Some r \<Rightarrow> r | None \<Rightarrow> new_episode uid uuid) = uid"
  by (auto simp: res_simps GetUserEpisode_def new_episode_def ue_key_def split: option.splits dest!: find_Some_mem)

lemma episode_update_owner [simp]:
  "ue_UserID (episode_update_params token req ex) = ue_UserID ex"
  "ue_ModifiedAt (episode_update_params token req ex) = token"
  by (simp_all add: episode_update_params_def upsertParamsFromRow_def Let_def split: option.split)

lemma star_update_owner [simp]:
  "ue_UserID (star_update_params token req ex) = ue_UserID ex"
  "ue_ModifiedAt (star_update_params token req ex) = token"
  by (simp_all add: star_update_params_def upsertParamsFromRow_def Let_def)

text \<open>
  Every endpoint that moves the sync token: it writes rows under a token that is the
  successor of the user's, and stores that token.
\<close>

definition token_write :: "clock \<Rightarrow> int \<Rightarrow> store \<Rightarrow> store \<Rightarrow> bool" where
  "token_write ck uid st st' \<longleftrightarrow>
     (\<exists>user st1 token. user \<in> set (st_users st) \<and> u_ID user = uid \<and>
        token = NextToken (ck_ms ck 0) (u_SyncLastModified user) \<and> sync_write uid token st st1 \<and>
        st' = st1\<lparr>st_users := update_where (\<lambda>u. u_ID u = uid) (\<lambda>u. u\<lparr>u_SyncLastModified := token\<rparr>) (st_users st)\<rparr>)"

lemma GetUserForUpdate_user:
  "GetUserForUpdate e uid st = Inr user \<Longrightarrow> user \<in> set (st_users st) \<and> u_ID user = uid \<and> u_DeletedAt user = None"
  by (auto simp: GetUserForUpdate_def res_simps dest: find_Some_mem)

lemma token_writeI:
  assumes "GetUserForUpdate e uid st = Inr user" and "token = NextToken (ck_ms ck 0) (u_SyncLastModified user)"
    and "sync_write uid token st st1" and "SetUserSyncLastModified e uid token st1 = Inr st'"
  shows "token_write ck uid st st'"
  using assms GetUserForUpdate_user [OF assms(1)]
  unfolding token_write_def by (auto simp: SetUserSyncLastModified_def res_simps sync_write_def)

lemma apply_update_token_write:
  assumes "apply_update_tx e ck uid req st = Inr (x, st')"
  shows "token_write ck uid st st'"
proof -
  obtain resp unknown where "x = (resp, unknown)" by (cases x)
  with assms obtain user st1 where "u_ID user = uid" "user \<in> set (st_users st)"
      "resp_LastModified resp = NextToken (ck_ms ck 0) (u_SyncLastModified user)"
      "sync_write uid (resp_LastModified resp) st st1"
      "st' = st1\<lparr>st_users := update_where (\<lambda>u. u_ID u = uid)
         (\<lambda>u. u\<lparr>u_SyncLastModified := resp_LastModified resp\<rparr>) (st_users st)\<rparr>"
    by (auto elim!: apply_update_tx_cases)
  then show ?thesis unfolding token_write_def by blast
qed

lemma upsert_episode_token_write:
  assumes "GetUserForUpdate e uid st = Inr user" and "or_no_rows (GetUserEpisode e uid uuid st) = Inr found"
    and "UpsertUserEpisode e p st = Inr st1"
    and "ue_UserID p = ue_UserID (case found of Some r \<Rightarrow> r | None \<Rightarrow> new_episode uid uuid)"
    and "ue_ModifiedAt p = NextToken (ck_ms ck 0) (u_SyncLastModified user)"
    and "SetUserSyncLastModified e uid (NextToken (ck_ms ck 0) (u_SyncLastModified user)) st1 = Inr st'"
  shows "token_write ck uid st st'"
  using assms UpsertUserEpisode_write [OF assms(3)] found_episode_owner [OF assms(2)]
  by (intro token_writeI [OF assms(1) refl _ assms(6)]) simp

lemma update_episode_token_write:
  "update_episode_tx e ck uid req st = Inr (x, st') \<Longrightarrow> token_write ck uid st st' \<or> st' = st"
  by (auto simp: update_episode_tx_def Let_def rbind_Inr_iff split: if_splits
      intro: upsert_episode_token_write)

lemma update_star_token_write:
  "update_star_tx e ck uid req st = Inr (x, st') \<Longrightarrow> token_write ck uid st st'"
  by (auto simp: update_star_tx_def Let_def rbind_Inr_iff intro: upsert_episode_token_write)

lemma UpsertUserSettings_write:
  assumes "UpsertUserSettings e p st = Inr st'"
  shows "sync_write (us_UserID p) token st st'"
proof -
  obtain new where st': "st' = st\<lparr>st_settings := upsert_row us_UserID new (\<lambda>old. new) (st_settings st)\<rparr>"
      and key: "us_UserID new = us_UserID p"
    using assms by (auto simp: UpsertUserSettings_def res_simps Let_def)
  have "uid' \<noteq> us_UserID p \<Longrightarrow>
        filter (\<lambda>r. us_UserID r = uid') (upsert_row us_UserID new (\<lambda>old. new) t) = filter (\<lambda>r. us_UserID r = uid') t"
    for uid' t
  proof -
    assume "uid' \<noteq> us_UserID p"
    then have "filter (\<lambda>r. us_UserID r = uid') (update_where (\<lambda>x. us_UserID x = us_UserID new) (\<lambda>old. new) t) =
          filter (\<lambda>r. us_UserID r = uid') t"
      using key by (induction t) (auto simp: update_where_def)
    then show ?thesis using key \<open>uid' \<noteq> us_UserID p\<close> by (simp add: upsert_row_def)
  qed
  moreover have "keyed us_UserID (st_settings st) \<Longrightarrow>
      keyed us_UserID (upsert_row us_UserID new (\<lambda>old. new) (st_settings st))"
    by (rule keyed_upsert) simp_all
  ultimately show ?thesis
    unfolding st' by (auto simp: write_simps)
qed

text \<open>The stored settings, the merge and the outcome of a successful settings request.\<close>

lemma settings_tx_cases:
  assumes "settings_tx e ck uid req st = Inr (resp, st')"
  obtains user row stored token merged1 c1 merged c2 where
    "GetUserForUpdate e uid st = Inr user" "or_no_rows (GetUserSettings e uid st) = Inr row"
    "decodeStoredSettings e (case row of None \<Rightarrow> None | Some r \<Rightarrow> us_Settings r) = Inr stored"
    "token = NextToken (ck_ms ck 0) (u_SyncLastModified user)"
    "MergeChangedSettings stored (nsr_ChangedSettings req) = (merged1, c1)"
    "ApplyLegacySettings merged1 (nsr_Settings req) token = (merged, c2)"
    "resp = BuildNamedSettingsResponse merged"
    "c1 \<or> c2 \<Longrightarrow> \<exists>raw st1. encodeStoredSettings e merged = Inr raw \<and>
       UpsertUserSettings e \<lparr>us_UserID = uid, us_Settings = raw, us_ModifiedAt = token\<rparr> st = Inr st1 \<and>
       SetUserSyncLastModified e uid token st1 = Inr st'"
    "\<not> c1 \<Longrightarrow> \<not> c2 \<Longrightarrow> st' = st"
proof -
  obtain user row stored where 1: "GetUserForUpdate e uid st = Inr user"
      "or_no_rows (GetUserSettings e uid st) = Inr row"
      "decodeStoredSettings e (case row of None \<Rightarrow> None | Some r \<Rightarrow> us_Settings r) = Inr stored"
    and rest: "(let token = NextToken (ck_ms ck 0) (u_SyncLastModified user);
                (stored, changed) = MergeChangedSettings stored (nsr_ChangedSettings req);
                (stored, legacyChanged) = ApplyLegacySettings stored (nsr_Settings req) token;
                changed = (changed \<or> legacyChanged)
            in rbind
                 (if changed then
                    rbind (encodeStoredSettings e stored) (\<lambda>raw.
                    rbind (UpsertUserSettings e \<lparr>us_UserID = uid, us_Settings = raw, us_ModifiedAt = token\<rparr> st)
                      (SetUserSyncLastModified e uid token))
                  else Inr st)
                 (\<lambda>st. Inr (BuildNamedSettingsResponse stored, st))) = Inr (resp, st')"
    using assms by (auto simp: settings_tx_def rbind_Inr_iff Let_def)
  obtain merged1 c1 where m1: "MergeChangedSettings stored (nsr_ChangedSettings req) = (merged1, c1)"
    by (cases "MergeChangedSettings stored (nsr_ChangedSettings req)")
  obtain merged c2 where m2: "ApplyLegacySettings merged1 (nsr_Settings req)
      (NextToken (ck_ms ck 0) (u_SyncLastModified user)) = (merged, c2)"
    by (cases "ApplyLegacySettings merged1 (nsr_Settings req) (NextToken (ck_ms ck 0) (u_SyncLastModified user))")
  show thesis
    by (rule that [OF 1 refl m1 m2]) (use rest m1 m2 in \<open>auto simp: rbind_Inr_iff Let_def split: if_splits\<close>)
qed

lemma settings_token_write:
  "settings_tx e ck uid req st = Inr (x, st') \<Longrightarrow> token_write ck uid st st' \<or> st' = st"
proof (erule settings_tx_cases)
  fix user row stored token merged1 c1 merged c2
  assume user: "GetUserForUpdate e uid st = Inr user" "token = NextToken (ck_ms ck 0) (u_SyncLastModified user)"
    and upd: "c1 \<or> c2 \<Longrightarrow> \<exists>raw st1. encodeStoredSettings e merged = Inr raw \<and>
       UpsertUserSettings e \<lparr>us_UserID = uid, us_Settings = raw, us_ModifiedAt = token\<rparr> st = Inr st1 \<and>
       SetUserSyncLastModified e uid token st1 = Inr st'"
    and same: "\<not> c1 \<Longrightarrow> \<not> c2 \<Longrightarrow> st' = st"
  show "token_write ck uid st st' \<or> st' = st"
  proof (cases "c1 \<or> c2")
    case True
    from upd [OF True] obtain raw st1 where
      "UpsertUserSettings e \<lparr>us_UserID = uid, us_Settings = raw, us_ModifiedAt = token\<rparr> st = Inr st1"
      "SetUserSyncLastModified e uid token st1 = Inr st'" by blast
    with user show ?thesis
      using UpsertUserSettings_write by (fastforce intro: token_writeI)
  next
    case False
    with same show ?thesis by blast
  qed
qed

end
