(* ===== verification/Sync_UpNext.thy ===== *)
theory Sync_UpNext
  imports Sync_Engine
begin

section \<open>The Up Next queue\<close>

text \<open>
  \<^verbatim>\<open>src/syncsvc/upnext.go\<close>.  A queue is the list of a user's items in play order.  The code
  edits its slice in place: \<^verbatim>\<open>removeFromQueue\<close> writes into the array it is reading, and the
  insertion grows the slice by one and shifts the tail with \<^verbatim>\<open>copy\<close>.  Both are modelled
  on the array and proved equal to the list functions one expects.
\<close>

subsection \<open>Messages\<close>

record UpNextEpisodeRequest =
  uer_Uuid :: string
  uer_Title :: string
  uer_Url :: string
  uer_Podcast :: string
  uer_Published :: "Timestamp option"

record UpNextChange =
  ch_Uuid :: string
  ch_Action :: int
  ch_Modified :: int
  ch_Title :: string
  ch_Url :: string
  ch_Podcast :: string
  ch_Episodes :: "UpNextEpisodeRequest list"
  ch_Published :: "Timestamp option"

record UpNextSyncRequest =
  unr_Changes :: "UpNextChange list option"
  unr_ShowPlayStatus :: bool

record UpNextEpisodeResponse =
  uep_Title :: string
  uep_Url :: string
  uep_Podcast :: string
  uep_Uuid :: string
  uep_Published :: "Timestamp option"

record UpNextEpisodeSync =
  ues_Uuid :: string
  ues_PlayedUpTo :: "int option"
  ues_Duration :: "int option"

record UpNextResponse =
  unp_ServerModified :: int
  unp_Episodes :: "UpNextEpisodeResponse list"
  unp_EpisodeSync :: "UpNextEpisodeSync list"

definition upNextActionPlayNow :: int where "upNextActionPlayNow = 1"
definition upNextActionPlayNext :: int where "upNextActionPlayNext = 2"
definition upNextActionPlayLast :: int where "upNextActionPlayLast = 3"
definition upNextActionRemove :: int where "upNextActionRemove = 4"
definition upNextActionReplace :: int where "upNextActionReplace = 5"

lemmas action_defs = upNextActionPlayNow_def upNextActionPlayNext_def upNextActionPlayLast_def
  upNextActionRemove_def upNextActionReplace_def

subsection \<open>Editing the queue\<close>

text \<open>
  \<open>remove_loop uuid i k arr\<close> is the loop at index \<open>i\<close> with \<open>k\<close> elements kept: the slice
  \<^verbatim>\<open>out\<close> is the first \<open>k\<close> cells of \<open>arr\<close>, the array \<^verbatim>\<open>range\<close> reads from.
\<close>

function remove_loop :: "string \<Rightarrow> nat \<Rightarrow> nat \<Rightarrow> UpNextItem list \<Rightarrow> UpNextItem list" where
  "remove_loop uuid i k arr =
     (if i < length arr then
        (if un_EpisodeUuid (arr ! i) \<noteq> uuid then remove_loop uuid (i + 1) (k + 1) (arr[k := arr ! i])
         else remove_loop uuid (i + 1) k arr)
      else take k arr)"
  by auto
termination
  by (relation "measure (\<lambda>(uuid, i, k, arr). length arr - i)") auto

declare remove_loop.simps [simp del]

definition removeFromQueue :: "UpNextItem list \<Rightarrow> string \<Rightarrow> UpNextItem list" where
  "removeFromQueue queue uuid = remove_loop uuid 0 0 queue"

text \<open>\<^verbatim>\<open>copy(xs[i:], xs[j:])\<close>\<close>

definition go_copy :: "nat \<Rightarrow> nat \<Rightarrow> 'a list \<Rightarrow> 'a list" where
  "go_copy i j xs =
     (let n = min (length xs - i) (length xs - j)
      in take i xs @ take n (drop j xs) @ drop (i + n) xs)"

definition zero_item :: UpNextItem where
  "zero_item =
     \<lparr>un_UserID = 0, un_EpisodeUuid = '''', un_PodcastUuid = '''', un_Title = '''', un_Url = '''',
      un_Published = None, un_Position = 0, un_AddedAt = 0\<rparr>"

definition insert_at :: "nat \<Rightarrow> UpNextItem \<Rightarrow> UpNextItem list \<Rightarrow> UpNextItem list" where
  "insert_at index item queue =
     (let queue = queue @ [zero_item];
          queue = go_copy (index + 1) index queue
      in queue[index := item])"

definition replacement_item :: "int \<Rightarrow> UpNextEpisodeRequest \<Rightarrow> UpNextItem" where
  "replacement_item uid ep =
     zero_item\<lparr>un_UserID := uid, un_EpisodeUuid := uer_Uuid ep, un_PodcastUuid := uer_Podcast ep,
       un_Title := uer_Title ep, un_Url := uer_Url ep, un_Published := timePtrFromProto (uer_Published ep)\<rparr>"

definition change_item :: "int \<Rightarrow> UpNextChange \<Rightarrow> UpNextItem" where
  "change_item uid change =
     zero_item\<lparr>un_UserID := uid, un_EpisodeUuid := ch_Uuid change, un_PodcastUuid := ch_Podcast change,
       un_Title := ch_Title change, un_Url := ch_Url change,
       un_Published := timePtrFromProto (ch_Published change)\<rparr>"

definition applyUpNextChange :: "int \<Rightarrow> UpNextChange \<Rightarrow> UpNextItem list \<Rightarrow> UpNextItem list" where
  "applyUpNextChange uid change queue =
     (if ch_Action change = upNextActionReplace then
        map (replacement_item uid) (filter (\<lambda>ep. uer_Uuid ep \<noteq> '''') (ch_Episodes change))
      else if ch_Action change = upNextActionRemove then
        removeFromQueue queue (ch_Uuid change)
      else if ch_Action change \<in> {upNextActionPlayNow, upNextActionPlayNext, upNextActionPlayLast} then
        (if ch_Uuid change = '''' then queue
         else
           let queue = removeFromQueue queue (ch_Uuid change);
               index = (if ch_Action change = upNextActionPlayNow then 0
                        else if ch_Action change = upNextActionPlayNext then
                          (if length queue = 0 then 0 else 1)
                        else length queue)
           in insert_at index (change_item uid change) queue)
      else queue)"

definition rewriteUpNextQueue :: "env \<Rightarrow> instant \<Rightarrow> int \<Rightarrow> UpNextItem list \<Rightarrow> store \<Rightarrow> store result" where
  "rewriteUpNextQueue e now uid queue st =
     rbind (DeleteAllUpNextItems e uid st)
       (rfold (\<lambda>(i, item). InsertUpNextItem e now
            (item\<lparr>un_UserID := uid, un_Position := int32 (int i)\<rparr>)) (enumerate 0 queue))"

definition upnext_episode :: "UpNextItem \<Rightarrow> UpNextEpisodeResponse" where
  "upnext_episode item =
     \<lparr>uep_Title = un_Title item, uep_Url = un_Url item, uep_Podcast = un_PodcastUuid item,
      uep_Uuid = un_EpisodeUuid item, uep_Published = protoFromTimePtr (un_Published item)\<rparr>"

fun play_status :: "env \<Rightarrow> int \<Rightarrow> store \<Rightarrow> UpNextItem list \<Rightarrow> UpNextEpisodeSync list result" where
  "play_status e uid st [] = Inr []"
| "play_status e uid st (item # items) =
     rbind (or_no_rows (GetUserEpisode e uid (un_EpisodeUuid item) st)) (\<lambda>found.
     rbind (play_status e uid st items) (\<lambda>rest.
       Inr (case found of
              None \<Rightarrow> rest
            | Some episode \<Rightarrow>
                \<lparr>ues_Uuid = ue_EpisodeUuid episode,
                 ues_PlayedUpTo = Some (int32 (ue_PlayedUpTo episode)),
                 ues_Duration = Some (int32 (ue_Duration episode))\<rparr> # rest)))"

definition apply_changes :: "int \<Rightarrow> UpNextChange list \<Rightarrow> UpNextItem list \<Rightarrow> UpNextItem list" where
  "apply_changes uid changes queue = fold (applyUpNextChange uid) (sort_key ch_Modified changes) queue"

definition up_next_tx :: "env \<Rightarrow> clock \<Rightarrow> int \<Rightarrow> UpNextSyncRequest \<Rightarrow> store \<Rightarrow> (UpNextResponse \<times> store) result" where
  "up_next_tx e ck uid req st =
     rbind (GetUserForUpdate e uid st) (\<lambda>user.
     rbind
       (let changes = (case unr_Changes req of None \<Rightarrow> [] | Some cs \<Rightarrow> cs)
        in if changes \<noteq> [] then
             rbind (GetUpNextItems e uid st) (\<lambda>queue.
             rbind (rewriteUpNextQueue e (ck_db ck) uid (apply_changes uid changes queue) st) (\<lambda>st.
               let serverModified = NextToken (ck_ms ck 0) (u_UpNextModified user)
               in rbind (SetUserUpNextModified e uid serverModified st) (\<lambda>st. Inr (serverModified, st))))
           else Inr (u_UpNextModified user, st))
       (\<lambda>(serverModified, st).
     rbind (GetUpNextItems e uid st) (\<lambda>queue.
     rbind (if unr_ShowPlayStatus req then play_status e uid st queue else Inr []) (\<lambda>sync.
       Inr (\<lparr>unp_ServerModified = serverModified, unp_Episodes = map upnext_episode queue,
             unp_EpisodeSync = sync\<rparr>, st)))))"

definition SyncUpNext :: "env \<Rightarrow> clock \<Rightarrow> int \<Rightarrow> UpNextSyncRequest \<Rightarrow> store \<Rightarrow> UpNextResponse result \<times> store" where
  "SyncUpNext e ck uid req st = engine_call e ''syncsvc/Engine.SyncUpNext'' (up_next_tx e ck uid req) st"

subsection \<open>The in-place edits are the list functions\<close>

lemma remove_loop_eq:
  assumes "k \<le> i"
  shows "remove_loop uuid i k arr = take k arr @ filter (\<lambda>x. un_EpisodeUuid x \<noteq> uuid) (drop i arr)"
  using assms
proof (induction uuid i k arr rule: remove_loop.induct)
  case (1 uuid i k arr)
  show ?case
  proof (cases "i < length arr")
    case False
    then show ?thesis by (simp add: remove_loop.simps [of uuid i k arr])
  next
    case True
    then have drop: "drop i arr = arr ! i # drop (Suc i) arr" by (rule Cons_nth_drop_Suc [symmetric])
    show ?thesis
    proof (cases "un_EpisodeUuid (arr ! i) \<noteq> uuid")
      case keep: True
      have "take (k + 1) (arr[k := arr ! i]) = take k arr @ [arr ! i]"
        using True "1.prems" by (simp add: take_Suc_conv_app_nth)
      moreover have "drop (i + 1) (arr[k := arr ! i]) = drop (i + 1) arr"
        using "1.prems" by simp
      ultimately show ?thesis
        using "1.IH"(1) [OF True keep] "1.prems" True keep drop by (simp add: remove_loop.simps [of uuid i k arr])
    next
      case False
      then show ?thesis
        using "1.IH"(2) [OF True] "1.prems" True drop by (simp add: remove_loop.simps [of uuid i k arr])
    qed
  qed
qed

lemma removeFromQueue_eq: "removeFromQueue queue uuid = filter (\<lambda>x. un_EpisodeUuid x \<noteq> uuid) queue"
  by (simp add: removeFromQueue_def remove_loop_eq)

lemma insert_at_eq:
  assumes "index \<le> length queue"
  shows "insert_at index item queue = take index queue @ item # drop index queue"
proof -
  have "go_copy (index + 1) index (queue @ [zero_item]) =
        take (index + 1) (queue @ [zero_item]) @ drop index queue"
    using assms by (simp add: go_copy_def Let_def)
  moreover have "take (index + 1) (queue @ [zero_item]) = take index queue @ [(queue @ [zero_item]) ! index]"
    using assms take_Suc_conv_app_nth [of index "queue @ [zero_item]"] by simp
  ultimately have "go_copy (index + 1) index (queue @ [zero_item]) =
      take index queue @ (queue @ [zero_item]) ! index # drop index queue"
    by simp
  then show ?thesis
    using assms by (simp add: insert_at_def Let_def list_update_append)
qed

subsection \<open>What a change does\<close>

text \<open>The queue after a change, by action.\<close>

lemma applyUpNextChange_cases:
  assumes "rest = filter (\<lambda>x. un_EpisodeUuid x \<noteq> ch_Uuid change) queue"
  shows "ch_Action change = upNextActionRemove \<Longrightarrow> applyUpNextChange uid change queue = rest"
    and "ch_Action change = upNextActionPlayNow \<Longrightarrow> ch_Uuid change \<noteq> '''' \<Longrightarrow>
         applyUpNextChange uid change queue = change_item uid change # rest"
    and "ch_Action change = upNextActionPlayNext \<Longrightarrow> ch_Uuid change \<noteq> '''' \<Longrightarrow>
         applyUpNextChange uid change queue = take 1 rest @ change_item uid change # drop 1 rest"
    and "ch_Action change = upNextActionPlayLast \<Longrightarrow> ch_Uuid change \<noteq> '''' \<Longrightarrow>
         applyUpNextChange uid change queue = rest @ [change_item uid change]"
  using assms
  by (auto simp: applyUpNextChange_def action_defs removeFromQueue_eq insert_at_eq Let_def Suc_leI)

lemma change_item_uuid [simp]: "un_EpisodeUuid (change_item uid change) = ch_Uuid change"
  by (simp add: change_item_def)

text \<open>Every change but a replacement keeps the episodes of the queue distinct.\<close>

lemma distinct_take_insert:
  "distinct (map f xs) \<Longrightarrow> f y \<notin> f ` set xs \<Longrightarrow> distinct (map f (take n xs @ y # drop n xs))"
proof -
  assume "distinct (map f xs)" "f y \<notin> f ` set xs"
  then have "distinct (map f (y # xs))" by simp
  moreover have "mset (take n xs) + mset (drop n xs) = mset xs"
    by (metis append_take_drop_id mset_append)
  then have "mset (map f (take n xs @ y # drop n xs)) = mset (map f (y # xs))"
    unfolding mset_map by simp
  ultimately show ?thesis using mset_eq_imp_distinct_iff by blast
qed

lemma filter_uuid_distinct:
  "distinct (map un_EpisodeUuid q) \<Longrightarrow> distinct (map un_EpisodeUuid (filter (\<lambda>x. un_EpisodeUuid x \<noteq> u) q))"
  by (rule distinct_map_filter)

lemma applyUpNextChange_distinct:
  assumes "ch_Action change \<noteq> upNextActionReplace" and "distinct (map un_EpisodeUuid queue)"
  shows "distinct (map un_EpisodeUuid (applyUpNextChange uid change queue))"
proof -
  let ?rest = "filter (\<lambda>x. un_EpisodeUuid x \<noteq> ch_Uuid change) queue"
  have d: "distinct (map un_EpisodeUuid ?rest)" by (rule filter_uuid_distinct) (rule assms(2))
  have ins: "distinct (map un_EpisodeUuid (take n ?rest @ change_item uid change # drop n ?rest))" for n
    by (rule distinct_take_insert [OF d]) (auto simp: image_iff)
  show ?thesis
    using assms d ins
    by (auto simp: applyUpNextChange_def removeFromQueue_eq insert_at_eq Let_def Suc_leI simp del: map_append)
qed

subsection \<open>Writing the queue back\<close>

text \<open>The row an item becomes when it is written at position \<open>i\<close>.\<close>

definition stored_item :: "env \<Rightarrow> instant \<Rightarrow> int \<Rightarrow> nat \<times> UpNextItem \<Rightarrow> UpNextItem" where
  "stored_item e now uid ii =
     (snd ii)\<lparr>un_UserID := uid, un_Position := int32 (int (fst ii)),
       un_EpisodeUuid := the (pg_uuid e (un_EpisodeUuid (snd ii))),
       un_Published := map_option (pg_time e) (un_Published (snd ii)), un_AddedAt := now\<rparr>"

definition queue_ok :: "env \<Rightarrow> UpNextItem list \<Rightarrow> bool" where
  "queue_ok e queue \<longleftrightarrow>
     (\<forall>item \<in> set queue. pg_uuid e (un_EpisodeUuid item) \<noteq> None) \<and>
     distinct (map (\<lambda>item. pg_uuid e (un_EpisodeUuid item)) queue)"

lemma insert_loop:
  assumes "healthy e" and "queue_ok e queue"
    and "\<forall>item \<in> set queue. (uid, the (pg_uuid e (un_EpisodeUuid item))) \<notin> un_key ` set (st_up_next st)"
  shows "rfold (\<lambda>(i, item). InsertUpNextItem e now (item\<lparr>un_UserID := uid, un_Position := int32 (int i)\<rparr>))
           (enumerate n queue) st =
         Inr (st\<lparr>st_up_next := st_up_next st @ map (stored_item e now uid) (enumerate n queue)\<rparr>)"
  using assms(2,3)
proof (induction queue arbitrary: n st)
  case Nil
  then show ?case by simp
next
  case (Cons item queue)
  let ?st = "st\<lparr>st_up_next := st_up_next st @ [stored_item e now uid (n, item)]\<rparr>"
  obtain u where u: "pg_uuid e (un_EpisodeUuid item) = Some u" using Cons.prems(1) by (auto simp: queue_ok_def)
  have "InsertUpNextItem e now (item\<lparr>un_UserID := uid, un_Position := int32 (int n)\<rparr>) st = Inr ?st"
    using assms(1) u Cons.prems(2)
    by (simp add: InsertUpNextItem_def cast_uuid_def insert_row_def un_key_def stored_item_def)
  moreover have "\<forall>x \<in> set queue. (uid, the (pg_uuid e (un_EpisodeUuid x))) \<notin> un_key ` set (st_up_next ?st)"
  proof
    fix x
    assume x: "x \<in> set queue"
    have "pg_uuid e (un_EpisodeUuid x) \<noteq> Some u"
      using Cons.prems(1) u x by (force simp: queue_ok_def image_iff)
    with Cons.prems(1) x obtain v where v: "pg_uuid e (un_EpisodeUuid x) = Some v" "v \<noteq> u"
      by (auto simp: queue_ok_def)
    with bspec [OF Cons.prems(2), of x] x u show "(uid, the (pg_uuid e (un_EpisodeUuid x))) \<notin> un_key ` set (st_up_next ?st)"
      by (simp add: un_key_def stored_item_def)
  qed
  moreover have "queue_ok e queue" using Cons.prems(1) by (simp add: queue_ok_def)
  ultimately show ?case using Cons.IH [of ?st "Suc n"] by simp
qed

lemma rewrite_eq:
  assumes "healthy e" and "queue_ok e queue"
  shows "rewriteUpNextQueue e now uid queue st =
           Inr (st\<lparr>st_up_next := delete_where (\<lambda>r. un_UserID r = uid) (st_up_next st)
                                 @ map (stored_item e now uid) (enumerate 0 queue)\<rparr>)"
proof -
  let ?st = "st\<lparr>st_up_next := delete_where (\<lambda>r. un_UserID r = uid) (st_up_next st)\<rparr>"
  have "\<forall>item \<in> set queue. (uid, the (pg_uuid e (un_EpisodeUuid item))) \<notin> un_key ` set (st_up_next ?st)"
    by (auto simp: tbl_simps un_key_def)
  from insert_loop [OF assms this, of now 0] assms(1) show ?thesis
    by (simp add: rewriteUpNextQueue_def DeleteAllUpNextItems_def)
qed

lemma sorted_stored: "length queue < 2 ^ 31 \<Longrightarrow>
  sort_key un_Position (map (stored_item e now uid) (enumerate 0 queue)) = map (stored_item e now uid) (enumerate 0 queue)"
proof -
  assume len: "length queue < 2 ^ 31"
  have "map un_Position (map (stored_item e now uid) (enumerate 0 queue)) = map int [0..<length queue]"
    using len by (intro nth_equalityI) (auto simp: stored_item_def nth_enumerate_eq int32_self)
  moreover have "sorted (map int [0..<length queue])" by (simp add: sorted_iff_nth_mono)
  ultimately show ?thesis by (intro sort_key_id_if_sorted) simp
qed

text \<open>What is written is what is read, in the same order.\<close>

lemma rewrite_read:
  assumes "healthy e" and "queue_ok e queue" and "length queue < 2 ^ 31"
    and "rewriteUpNextQueue e now uid queue st = Inr st'"
  shows "GetUpNextItems e uid st' = Inr (map (stored_item e now uid) (enumerate 0 queue))"
proof -
  have "filter (\<lambda>r. un_UserID r = uid) (map (stored_item e now uid) (enumerate 0 queue)) =
        map (stored_item e now uid) (enumerate 0 queue)"
    by (auto simp: filter_id_conv stored_item_def)
  moreover have "filter (\<lambda>r. un_UserID r = uid) (delete_where (\<lambda>r. un_UserID r = uid) t) = []" for t
    by (auto simp: delete_where_def filter_empty_conv)
  ultimately have "filter (\<lambda>r. un_UserID r = uid) (st_up_next st') = map (stored_item e now uid) (enumerate 0 queue)"
    using assms(4) rewrite_eq [OF assms(1,2), of now uid st] by auto
  then show ?thesis
    using assms(1,4) rewrite_eq [OF assms(1,2), of now uid st] sorted_stored [OF assms(3), of e now uid]
    by (simp add: GetUpNextItems_def)
qed

end
