(* ===== verification/Sync_History.thy ===== *)
theory Sync_History
  imports Sync_Engine
begin

section \<open>Listening history\<close>

text \<open>
  \<^verbatim>\<open>src/syncsvc/history.go\<close>.  Each history item is a last-writer-wins register whose value is
  whether it is deleted; the store keeps the hundred most recent items of a user.
  The loop reads the clock once per change that needs a token and once at the end.
\<close>

record HistoryChange =
  hc_Action :: int
  hc_Podcast :: string
  hc_Episode :: string
  hc_ModifiedAt :: int
  hc_Title :: string
  hc_Url :: string
  hc_Published :: "Timestamp option"

record HistoryResponse =
  hr_ServerModified :: int
  hr_LastCleared :: int
  hr_Changes :: "HistoryChange list"

definition historyActionAdd :: int where "historyActionAdd = 1"
definition historyActionDelete :: int where "historyActionDelete = 2"
definition historyActionClearAll :: int where "historyActionClearAll = 3"

definition maxHistoryItems :: nat where "maxHistoryItems = 100"

lemmas history_actions = historyActionAdd_def historyActionDelete_def historyActionClearAll_def

subsection \<open>The code\<close>

definition history_change ::
  "env \<Rightarrow> clock \<Rightarrow> int \<Rightarrow> int \<Rightarrow> nat \<times> HistoryChange \<Rightarrow> store \<times> int \<Rightarrow> (store \<times> int) result" where
  "history_change e ck uid serverModified ic s =
     (let (i, change) = ic; (st, lastCleared) = s
      in if hc_Action change = historyActionAdd then
           (if hc_Episode change = '''' then Inr (st, lastCleared)
            else
              rbind (UpsertHistoryItem e
                \<lparr>hi_UserID = uid, hi_EpisodeUuid = hc_Episode change, hi_PodcastUuid = hc_Podcast change,
                 hi_Title = hc_Title change, hi_Url = hc_Url change,
                 hi_Published = timePtrFromProto (hc_Published change), hi_ModifiedAt = hc_ModifiedAt change,
                 hi_IsDeleted = False\<rparr> st) (\<lambda>st. Inr (st, lastCleared)))
         else if hc_Action change = historyActionDelete then
           (if hc_Episode change = '''' then Inr (st, lastCleared)
            else
              let modifiedAt = (if hc_ModifiedAt change = 0 then NextToken (ck_ms ck i) serverModified
                                else hc_ModifiedAt change)
              in rbind (TombstoneHistoryItem e uid (hc_Episode change) modifiedAt st) (\<lambda>st. Inr (st, lastCleared)))
         else if hc_Action change = historyActionClearAll then
           (let clearedAt = (if hc_ModifiedAt change = 0 then NextToken (ck_ms ck i) serverModified
                             else hc_ModifiedAt change)
            in rbind (DeleteHistoryBefore e uid clearedAt st) (\<lambda>st. Inr (st, clearedAt)))
         else Inr (st, lastCleared))"

definition history_response_change :: "History \<Rightarrow> HistoryChange" where
  "history_response_change row =
     \<lparr>hc_Action = (if hi_IsDeleted row then historyActionDelete else historyActionAdd),
      hc_Podcast = hi_PodcastUuid row, hc_Episode = hi_EpisodeUuid row, hc_ModifiedAt = hi_ModifiedAt row,
      hc_Title = hi_Title row, hc_Url = hi_Url row, hc_Published = protoFromTimePtr (hi_Published row)\<rparr>"

definition history_tx :: "env \<Rightarrow> clock \<Rightarrow> int \<Rightarrow> HistoryChange list \<Rightarrow> store \<Rightarrow> (HistoryResponse \<times> store) result" where
  "history_tx e ck uid changes st =
     rbind (GetUserForUpdate e uid st) (\<lambda>user.
     rbind
       (if changes \<noteq> [] then
          rbind (rfold (history_change e ck uid (u_HistoryModified user)) (enumerate 0 changes)
                   (st, u_HistoryClearedAtMs user)) (\<lambda>(st, lastCleared).
          rbind (TrimHistory e uid maxHistoryItems st) (\<lambda>st.
            let serverModified = NextToken (ck_ms ck (length changes)) (u_HistoryModified user)
            in rbind (SetUserHistoryCleared e uid lastCleared serverModified st) (\<lambda>st.
                 Inr (serverModified, lastCleared, st))))
        else Inr (u_HistoryModified user, u_HistoryClearedAtMs user, st))
       (\<lambda>(serverModified, lastCleared, st).
     rbind (GetHistory e uid maxHistoryItems st) (\<lambda>rows.
       Inr (\<lparr>hr_ServerModified = serverModified, hr_LastCleared = lastCleared,
             hr_Changes = map history_response_change rows\<rparr>, st))))"

definition SyncHistory :: "env \<Rightarrow> clock \<Rightarrow> int \<Rightarrow> HistoryChange list \<Rightarrow> store \<Rightarrow> HistoryResponse result \<times> store" where
  "SyncHistory e ck uid changes st = engine_call e ''syncsvc/Engine.SyncHistory'' (history_tx e ck uid changes) st"

subsection \<open>Each item is a register\<close>

datatype history_op = HAdd History | HDelete int string int

fun history_apply :: "history_op \<Rightarrow> History list \<Rightarrow> History list" where
  "history_apply (HAdd r) t = history_add r t"
| "history_apply (HDelete uid uuid m) t = history_tombstone uid uuid m t"

definition history_cur :: "int \<times> string \<Rightarrow> History list \<Rightarrow> bool stamped option" where
  "history_cur k t = map_option (\<lambda>r. (hi_ModifiedAt r, hi_IsDeleted r)) (find (\<lambda>r. hi_key r = k) t)"

fun history_proposal :: "int \<times> string \<Rightarrow> history_op \<Rightarrow> bool stamped option" where
  "history_proposal k (HAdd r) = (if hi_key r = k then Some (hi_ModifiedAt r, hi_IsDeleted r) else None)"
| "history_proposal k (HDelete uid uuid m) = (if (uid, uuid) = k then Some (m, True) else None)"

interpretation history_item: lww_register "history_cur k" "history_proposal k" history_apply for k
proof
  fix opr t
  show "history_cur k (history_apply opr t) = lww (history_proposal k opr) (history_cur k t)"
  proof (cases opr)
    case (HAdd r)
    then show ?thesis
      by (auto simp: history_add_def history_cur_def upsert_find split: option.split)
  next
    case (HDelete uid uuid m)
    then show ?thesis
      unfolding HDelete history_apply.simps history_tombstone_def history_cur_def
      by (subst upsert_find) (auto simp: hi_key_def split: option.split)
  qed
qed

subsection \<open>The most recent items\<close>

lemma recent_history_subset: "set (recent_history uid n t) \<subseteq> {r \<in> set t. hi_UserID r = uid}"
  by (auto simp: recent_history_def dest: in_set_takeD)

lemma recent_history_length: "length (recent_history uid n t) \<le> n"
  by (simp add: recent_history_def)

lemma recent_history_sorted: "sorted (map (\<lambda>r. - hi_ModifiedAt r) (recent_history uid n t))"
  by (simp add: recent_history_def take_map [symmetric] sorted_wrt_take)

lemma recent_history_newest:
  assumes "r \<in> set t" and "hi_UserID r = uid" and "r \<notin> set (recent_history uid n t)"
    and "x \<in> set (recent_history uid n t)"
  shows "hi_ModifiedAt r \<le> hi_ModifiedAt x"
proof -
  let ?s = "sort_key (\<lambda>r. - hi_ModifiedAt r) (filter (\<lambda>r. hi_UserID r = uid) t)"
  have "set ?s = set (take n ?s) \<union> set (drop n ?s)" by (metis append_take_drop_id set_append)
  moreover have "r \<in> set ?s" using assms(1,2) by simp
  ultimately have "r \<in> set (take n ?s) \<union> set (drop n ?s)" by (rule subst)
  with assms(3) have "r \<in> set (drop n ?s)" by (simp add: recent_history_def)
  moreover have "sorted (map (\<lambda>r. - hi_ModifiedAt r) (take n ?s) @ map (\<lambda>r. - hi_ModifiedAt r) (drop n ?s))"
    by (metis append_take_drop_id map_append sorted_sort_key)
  ultimately show ?thesis
    using assms(4) by (auto simp: recent_history_def sorted_append)
qed

text \<open>After a trim the user's rows are exactly the recent ones.\<close>

lemma trim_rows:
  assumes "keyed hi_key t"
  shows "{r \<in> set (delete_where (\<lambda>r. hi_UserID r = uid \<and>
             hi_EpisodeUuid r \<notin> hi_EpisodeUuid ` set (recent_history uid n t)) t). hi_UserID r = uid} =
         set (recent_history uid n t)"
proof -
  have "r \<in> set (recent_history uid n t)"
    if "r \<in> set t" "hi_UserID r = uid" "x \<in> set (recent_history uid n t)" "hi_EpisodeUuid r = hi_EpisodeUuid x"
    for r x
  proof -
    have "x \<in> set t" "hi_UserID x = uid" using that(3) recent_history_subset by blast+
    then have "x = r" using that keyed_inj [OF assms, of x r] by (simp add: hi_key_def)
    then show ?thesis using that(3) by simp
  qed
  then show ?thesis using recent_history_subset [of uid n t] by (auto simp: tbl_simps)
qed

lemma keyed_user_length:
  assumes "keyed hi_key t" and "{r \<in> set t. hi_UserID r = uid} = set xs"
  shows "length (filter (\<lambda>r. hi_UserID r = uid) t) \<le> length xs"
proof -
  have "distinct t" using assms(1) by (simp add: keyed_def distinct_map)
  then have "length (filter (\<lambda>r. hi_UserID r = uid) t) = card (set (filter (\<lambda>r. hi_UserID r = uid) t))"
    by (intro distinct_card [symmetric] distinct_filter)
  also have "\<dots> = card (set xs)" using assms(2) by simp
  also have "\<dots> \<le> length xs" by (rule card_length)
  finally show ?thesis .
qed

subsection \<open>The loop\<close>

definition history_frame :: "int \<Rightarrow> store \<Rightarrow> store \<Rightarrow> bool" where
  "history_frame uid st st' \<longleftrightarrow>
     (\<exists>t. st' = st\<lparr>st_history := t\<rparr>) \<and>
     (\<forall>uid'. uid' \<noteq> uid \<longrightarrow>
        filter (\<lambda>r. fst (hi_key r) = uid') (st_history st') = filter (\<lambda>r. fst (hi_key r) = uid') (st_history st)) \<and>
     (keyed hi_key (st_history st) \<longrightarrow> keyed hi_key (st_history st'))"

lemma history_frame_refl [simp]: "history_frame uid st st"
  unfolding history_frame_def by (auto intro: exI [of _ "st_history st"])

lemma history_frame_trans: "history_frame uid st st' \<Longrightarrow> history_frame uid st' st'' \<Longrightarrow> history_frame uid st st''"
  by (auto simp: history_frame_def)

lemma history_frameI:
  assumes "\<And>uid'. uid' \<noteq> uid \<Longrightarrow> filter (\<lambda>r. fst (hi_key r) = uid') t = filter (\<lambda>r. fst (hi_key r) = uid') (st_history st)"
    and "keyed hi_key (st_history st) \<Longrightarrow> keyed hi_key t"
  shows "history_frame uid st (st\<lparr>st_history := t\<rparr>)"
  using assms by (auto simp: history_frame_def)

lemma filter_delete_other:
  "uid' \<noteq> uid \<Longrightarrow> filter (\<lambda>r. fst (hi_key r) = uid') (delete_where (\<lambda>r. hi_UserID r = uid \<and> P r) t) =
     filter (\<lambda>r. fst (hi_key r) = uid') t"
  by (induction t) (auto simp: delete_where_def hi_key_def)

lemma UpsertHistoryItem_frame:
  "UpsertHistoryItem e p st = Inr st' \<Longrightarrow> history_frame (hi_UserID p) st st'"
  by (auto simp: UpsertHistoryItem_def res_simps Let_def history_add_def hi_key_def
      intro!: history_frameI upsert_row_other_user keyed_upsert)

lemma TombstoneHistoryItem_frame:
  "TombstoneHistoryItem e uid ep m st = Inr st' \<Longrightarrow> history_frame uid st st'"
  by (auto simp: TombstoneHistoryItem_def res_simps history_tombstone_def hi_key_def
      intro!: history_frameI upsert_row_other_user keyed_upsert)

lemma DeleteHistoryBefore_frame:
  "DeleteHistoryBefore e uid m st = Inr st' \<Longrightarrow> history_frame uid st st'"
  by (auto simp: DeleteHistoryBefore_def res_simps filter_delete_other intro!: history_frameI)

lemma TrimHistory_frame: "TrimHistory e uid n st = Inr st' \<Longrightarrow> history_frame uid st st'"
  by (auto simp: TrimHistory_def res_simps filter_delete_other intro!: history_frameI)

lemma history_change_frame:
  "history_change e ck uid sm ic s = Inr s' \<Longrightarrow> history_frame uid (fst s) (fst s')"
  by (auto simp: history_change_def Let_def res_simps split: prod.splits if_splits
      dest: UpsertHistoryItem_frame TombstoneHistoryItem_frame DeleteHistoryBefore_frame)

lemma history_loop_frame:
  assumes "rfold (history_change e ck uid sm) ics s = Inr s'"
  shows "history_frame uid (fst s) (fst s')"
  using assms
proof (rule rfold_rel [where R = "\<lambda>s s'. history_frame uid (fst s) (fst s')"])
  show "history_frame uid (fst s) (fst u) \<Longrightarrow> history_frame uid (fst u) (fst v) \<Longrightarrow> history_frame uid (fst s) (fst v)"
    for s u v :: "store \<times> int"
    by (rule history_frame_trans)
qed (auto intro: history_change_frame)

subsection \<open>The transaction\<close>

text \<open>The table operation a change stands for, when it names one.\<close>

definition history_op_of :: "env \<Rightarrow> clock \<Rightarrow> int \<Rightarrow> int \<Rightarrow> nat \<times> HistoryChange \<Rightarrow> history_op option" where
  "history_op_of e ck uid sm ic =
     (let (i, change) = ic
      in if hc_Episode change = [] then None
         else if hc_Action change = historyActionAdd then
           Some (HAdd \<lparr>hi_UserID = uid, hi_EpisodeUuid = the (pg_uuid e (hc_Episode change)),
             hi_PodcastUuid = hc_Podcast change, hi_Title = hc_Title change, hi_Url = hc_Url change,
             hi_Published = map_option (pg_time e) (timePtrFromProto (hc_Published change)),
             hi_ModifiedAt = hc_ModifiedAt change, hi_IsDeleted = False\<rparr>)
         else if hc_Action change = historyActionDelete then
           Some (HDelete uid (the (pg_uuid e (hc_Episode change)))
             (if hc_ModifiedAt change = 0 then NextToken (ck_ms ck i) sm else hc_ModifiedAt change))
         else None)"

lemma history_change_op:
  assumes "history_change e ck uid sm ic s = Inr s'" and "hc_Action (snd ic) \<noteq> historyActionClearAll"
  shows "st_history (fst s') = fold history_apply (case history_op_of e ck uid sm ic of None \<Rightarrow> [] | Some x \<Rightarrow> [x])
           (st_history (fst s)) \<and> snd s' = snd s"
  using assms
  by (auto simp: history_change_def history_op_of_def Let_def res_simps UpsertHistoryItem_def
      TombstoneHistoryItem_def history_actions split: prod.splits if_splits)

lemma history_loop_ops:
  assumes "rfold (history_change e ck uid sm) ics s = Inr s'"
    and "\<forall>ic \<in> set ics. hc_Action (snd ic) \<noteq> historyActionClearAll"
  shows "st_history (fst s') = fold history_apply (List.map_filter (history_op_of e ck uid sm) ics) (st_history (fst s))
         \<and> snd s' = snd s"
  using assms
proof (induction ics arbitrary: s)
  case Nil
  then show ?case by (simp add: List.map_filter_simps)
next
  case (Cons ic ics)
  then obtain s1 where s1: "history_change e ck uid sm ic s = Inr s1" "rfold (history_change e ck uid sm) ics s1 = Inr s'"
    by (auto simp: res_simps)
  with Cons history_change_op [OF s1(1)] show ?case
    by (auto simp: List.map_filter_simps split: option.splits)
qed

text \<open>A successful request with changes: the loop, the trim, the user's marks, the answer.\<close>

lemma history_tx_cases:
  assumes "history_tx e ck uid changes st = Inr (resp, st')" and "changes \<noteq> []"
  obtains user st1 lastCleared where
    "user \<in> set (st_users st)" "u_ID user = uid" "u_DeletedAt user = None"
    "rfold (history_change e ck uid (u_HistoryModified user)) (enumerate 0 changes)
       (st, u_HistoryClearedAtMs user) = Inr (st1, lastCleared)"
    "st_history st' = delete_where (\<lambda>r. hi_UserID r = uid \<and>
       hi_EpisodeUuid r \<notin> hi_EpisodeUuid ` set (recent_history uid maxHistoryItems (st_history st1))) (st_history st1)"
    "st' = st1\<lparr>st_history := st_history st', st_users := update_where (\<lambda>u. u_ID u = uid)
       (\<lambda>u. u\<lparr>u_HistoryClearedAtMs := lastCleared, u_HistoryModified := hr_ServerModified resp\<rparr>) (st_users st)\<rparr>"
    "hr_ServerModified resp = NextToken (ck_ms ck (length changes)) (u_HistoryModified user)"
    "hr_LastCleared resp = lastCleared"
    "hr_Changes resp = map history_response_change (recent_history uid maxHistoryItems (st_history st'))"
proof -
  obtain user st1 lastCleared where user: "GetUserForUpdate e uid st = Inr user"
    and loop: "rfold (history_change e ck uid (u_HistoryModified user)) (enumerate 0 changes)
      (st, u_HistoryClearedAtMs user) = Inr (st1, lastCleared)"
    and rest: "st_history st' = delete_where (\<lambda>r. hi_UserID r = uid \<and>
       hi_EpisodeUuid r \<notin> hi_EpisodeUuid ` set (recent_history uid maxHistoryItems (st_history st1))) (st_history st1)"
      "st' = st1\<lparr>st_history := st_history st', st_users := update_where (\<lambda>u. u_ID u = uid)
       (\<lambda>u. u\<lparr>u_HistoryClearedAtMs := lastCleared, u_HistoryModified := hr_ServerModified resp\<rparr>) (st_users st1)\<rparr>"
      "hr_ServerModified resp = NextToken (ck_ms ck (length changes)) (u_HistoryModified user)"
      "hr_LastCleared resp = lastCleared"
      "hr_Changes resp = map history_response_change (recent_history uid maxHistoryItems (st_history st'))"
    using assms
    by (auto simp: history_tx_def res_simps Let_def TrimHistory_def SetUserHistoryCleared_def GetHistory_def)
  have "st_users st1 = st_users st"
    using history_loop_frame [OF loop] by (auto simp: history_frame_def)
  moreover have "user \<in> set (st_users st)" "u_ID user = uid" "u_DeletedAt user = None"
    using user by (auto simp: GetUserForUpdate_def res_simps dest: find_Some_mem)
  ultimately show thesis using that loop rest by simp
qed

end
