(* ===== verification/Sync_System.thy ===== *)
theory Sync_System
  imports Sync_Updates Sync_UpNext Sync_History
begin

section \<open>The sync service as a system of steps\<close>

text \<open>
  Requests of any number of users and devices, one transaction at a time.  A step is one
  call of an engine entry point, successful or not, with any environment, any clock and
  any request.  The invariant is that the rows of a user are never stamped beyond
  the user's token; with strictly increasing tokens it gives the guarantee of the
  incremental protocol: a device that presents the token of its last answer is told of
  every row that has changed since.
\<close>

subsection \<open>Effects of the entry points\<close>

text \<open>A write of one user that leaves the synced tables and the sync tokens alone.\<close>

definition side_write :: "int \<Rightarrow> store \<Rightarrow> store \<Rightarrow> bool" where
  "side_write uid st st' \<longleftrightarrow>
     synced_list st' = synced_list st \<and>
     map (\<lambda>u. (u_ID u, u_SyncLastModified u)) (st_users st') = map (\<lambda>u. (u_ID u, u_SyncLastModified u)) (st_users st) \<and>
     (\<forall>uid'. uid' \<noteq> uid \<longrightarrow> user_view uid' st' = user_view uid' st) \<and>
     (tables_keyed st \<longrightarrow> tables_keyed st')"

lemma side_write_refl [simp]: "side_write uid st st"
  by (simp add: side_write_def)

lemma side_write_trans: "side_write uid st st' \<Longrightarrow> side_write uid st' st'' \<Longrightarrow> side_write uid st st''"
  by (simp add: side_write_def)

lemma filter_update_other_user:
  "uid' \<noteq> uid \<Longrightarrow> (\<And>u. u_ID (f u) = u_ID u) \<Longrightarrow>
   filter (\<lambda>u. u_ID u = uid') (update_where (\<lambda>u. u_ID u = uid) f t) = filter (\<lambda>u. u_ID u = uid') t"
  by (induction t) (auto simp: update_where_def)

lemma user_view_set_users:
  "filter (\<lambda>u. u_ID u = uid') us = filter (\<lambda>u. u_ID u = uid') (st_users st) \<Longrightarrow>
   user_view uid' (st\<lparr>st_users := us\<rparr>) = user_view uid' st"
  by (simp add: user_view_def)

lemma users_side_write:
  assumes "\<And>u. u_ID (f u) = u_ID u" and "\<And>u. u_SyncLastModified (f u) = u_SyncLastModified u"
  shows "side_write uid st (st\<lparr>st_users := update_where (\<lambda>u. u_ID u = uid) f (st_users st)\<rparr>)"
proof -
  have "map (\<lambda>u. (u_ID u, u_SyncLastModified u)) (update_where (\<lambda>u. u_ID u = uid) f t) =
        map (\<lambda>u. (u_ID u, u_SyncLastModified u)) t" for t
    using assms by (induction t) (auto simp: update_where_def)
  moreover have "keyed u_ID t \<Longrightarrow> keyed u_ID (update_where (\<lambda>u. u_ID u = uid) f t)" for t
    using assms by (intro keyed_update)
  ultimately show ?thesis
    using assms filter_update_other_user [of _ uid f]
    by (auto simp: side_write_def synced_list_def user_view_def tables_keyed_def)
qed

lemma history_frame_side_write: "history_frame uid st st' \<Longrightarrow> side_write uid st st'"
  by (auto simp: history_frame_def side_write_def synced_list_def user_view_def tables_keyed_def)

lemma history_tx_side_write:
  assumes "history_tx e ck uid changes st = Inr (resp, st')"
  shows "side_write uid st st'"
proof (cases "changes = []")
  case True
  then show ?thesis using assms by (auto simp: history_tx_def rbind_Inr_iff)
next
  case False
  obtain user :: User and st1 st2 lastCleared m where
      loop: "rfold (history_change e ck uid (u_HistoryModified user)) (enumerate 0 changes)
         (st, u_HistoryClearedAtMs user) = Inr (st1, lastCleared)"
      and trim: "TrimHistory e uid maxHistoryItems st1 = Inr st2"
      and set: "SetUserHistoryCleared e uid lastCleared m st2 = Inr st'"
    using assms False by (auto simp: history_tx_def rbind_Inr_iff Let_def)
  have "side_write uid st st2"
    using history_loop_frame [OF loop] TrimHistory_frame [OF trim]
    by (auto intro: history_frame_side_write history_frame_trans)
  moreover have "side_write uid st2 st'"
    using set by (auto simp: SetUserHistoryCleared_def res_simps intro!: users_side_write)
  ultimately show ?thesis by (rule side_write_trans)
qed

lemma InsertUpNextItem_side_write:
  assumes "InsertUpNextItem e now p st = Inr st'"
  shows "side_write (un_UserID p) st st'"
proof -
  obtain r where st': "st' = st\<lparr>st_up_next := st_up_next st @ [r]\<rparr>" "un_UserID r = un_UserID p"
      "un_key r \<notin> un_key ` set (st_up_next st)"
    using assms by (auto simp: InsertUpNextItem_def res_simps)
  then show ?thesis
    by (auto simp: side_write_def synced_list_def user_view_def tables_keyed_def keyed_def un_key_def)
qed

lemma rewriteUpNextQueue_side_write:
  assumes "rewriteUpNextQueue e now uid queue st = Inr st'"
  shows "side_write uid st st'"
proof -
  obtain st1 where del: "DeleteAllUpNextItems e uid st = Inr st1"
    and ins: "rfold (\<lambda>(i, item). InsertUpNextItem e now (item\<lparr>un_UserID := uid, un_Position := int32 (int i)\<rparr>))
       (enumerate 0 queue) st1 = Inr st'"
    using assms by (auto simp: rewriteUpNextQueue_def rbind_Inr_iff)
  have "filter (\<lambda>r. fst (un_key r) = uid') (delete_where (\<lambda>r. un_UserID r = uid) t) =
        filter (\<lambda>r. fst (un_key r) = uid') t" if "uid' \<noteq> uid" for uid' t
    using that by (induction t) (auto simp: delete_where_def un_key_def)
  then have "side_write uid st st1"
    using del by (auto simp: DeleteAllUpNextItems_def res_simps side_write_def synced_list_def user_view_def tables_keyed_def)
  moreover have "side_write uid st1 st'"
    using ins
  proof (rule rfold_rel [where R = "side_write uid"])
    show "side_write uid s u \<Longrightarrow> side_write uid u v \<Longrightarrow> side_write uid s v" for s u v
      by (rule side_write_trans)
  qed (auto dest!: InsertUpNextItem_side_write)
  ultimately show ?thesis by (rule side_write_trans)
qed

lemma up_next_tx_side_write:
  assumes "up_next_tx e ck uid req st = Inr (resp, st')"
  shows "side_write uid st st'"
proof -
  obtain user :: User and m where
    "(let changes = (case unr_Changes req of None \<Rightarrow> [] | Some cs \<Rightarrow> cs)
        in if changes \<noteq> [] then
             rbind (GetUpNextItems e uid st) (\<lambda>queue.
             rbind (rewriteUpNextQueue e (ck_db ck) uid (apply_changes uid changes queue) st) (\<lambda>st.
               let serverModified = NextToken (ck_ms ck 0) (u_UpNextModified user)
               in rbind (SetUserUpNextModified e uid serverModified st) (\<lambda>st. Inr (serverModified, st))))
           else Inr (u_UpNextModified user, st)) = Inr (m, st')"
    using assms by (auto simp: up_next_tx_def rbind_Inr_iff)
  then show ?thesis
    by (auto simp: Let_def rbind_Inr_iff SetUserUpNextModified_def stmt_Inr split: if_splits
        dest!: rewriteUpNextQueue_side_write)
      (rule side_write_trans, assumption, rule users_side_write, simp_all)
qed

subsection \<open>Steps\<close>

text \<open>
  \<open>room\<close> says that no user's token has reached the last \<^verbatim>\<open>int64\<close>, after which \<^verbatim>\<open>prev + 1\<close> would
  wrap.  Nothing is assumed of the clock.
\<close>

definition room :: "store \<Rightarrow> bool" where
  "room st \<longleftrightarrow> (\<forall>u \<in> set (st_users st). is_int64 (u_SyncLastModified u) \<and> u_SyncLastModified u < max_int64)"

inductive sync_step :: "int \<Rightarrow> store \<Rightarrow> store \<Rightarrow> bool" where
  update: "ApplyUpdate e ck uid req st = (r, st') \<Longrightarrow> room st \<Longrightarrow> sync_step uid st st'"
| settings: "UpdateSettings e ck uid sreq st = (sr, st') \<Longrightarrow> room st \<Longrightarrow> sync_step uid st st'"
| episode: "UpdateEpisode e ck uid ereq st = (er, st') \<Longrightarrow> room st \<Longrightarrow> sync_step uid st st'"
| star: "UpdateEpisodeStar e ck uid starreq st = (er, st') \<Longrightarrow> room st \<Longrightarrow> sync_step uid st st'"
| up_next: "SyncUpNext e ck uid ureq st = (ur, st') \<Longrightarrow> room st \<Longrightarrow> sync_step uid st st'"
| history: "SyncHistory e ck uid changes st = (hr, st') \<Longrightarrow> room st \<Longrightarrow> sync_step uid st st'"

inductive sync_steps :: "store \<Rightarrow> store \<Rightarrow> bool" where
  none: "sync_steps st st"
| more: "sync_steps st st' \<Longrightarrow> sync_step uid st' st'' \<Longrightarrow> sync_steps st st''"

lemma engine_call_cases:
  "engine_call e o' fn st = (r, st') \<Longrightarrow> (\<exists>x. fn st = Inr (x, st')) \<or> st' = st"
  by (cases r) (auto simp: engine_call_Inr dest: engine_call_Inl)

lemma step_effect:
  assumes "sync_step uid st st'"
  shows "(\<exists>ck. token_write ck uid st st') \<or> side_write uid st st'"
  using assms
proof cases
  case (update e ck req r)
  then show ?thesis
    by (auto simp: ApplyUpdate_def dest!: engine_call_cases dest: apply_update_token_write)
next
  case (settings e ck sreq sr)
  then show ?thesis
    using settings_token_write by (fastforce simp: UpdateSettings_def dest!: engine_call_cases)
next
  case (episode e ck ereq er)
  then show ?thesis
    using update_episode_token_write by (fastforce simp: UpdateEpisode_def split: if_splits dest!: engine_call_cases)
next
  case (star e ck starreq er)
  then show ?thesis
    using update_star_token_write by (fastforce simp: UpdateEpisodeStar_def split: if_splits dest!: engine_call_cases)
next
  case (up_next e ck ureq ur)
  then show ?thesis
    using up_next_tx_side_write by (fastforce simp: SyncUpNext_def dest!: engine_call_cases)
next
  case (history e ck changes hr)
  then show ?thesis
    using history_tx_side_write by (fastforce simp: SyncHistory_def dest!: engine_call_cases)
qed

subsection \<open>The invariant\<close>

definition sync_inv :: "store \<Rightarrow> bool" where
  "sync_inv st \<longleftrightarrow>
     tables_keyed st \<and>
     (\<forall>r \<in> synced_rows st. \<forall>u \<in> set (st_users st). u_ID u = sy_owner r \<longrightarrow> sy_stamp r \<le> u_SyncLastModified u)"

text \<open>
  \<open>fresh_since w uid st st'\<close>: the user's token is at least \<open>w\<close> and every row of the user
  that is not in \<open>st\<close> is stamped after \<open>w\<close>.
\<close>

definition fresh_since :: "int \<Rightarrow> int \<Rightarrow> store \<Rightarrow> store \<Rightarrow> bool" where
  "fresh_since w uid st st' \<longleftrightarrow>
     (\<forall>u \<in> set (st_users st'). u_ID u = uid \<longrightarrow> w \<le> u_SyncLastModified u) \<and>
     (\<forall>r \<in> synced_rows st'. sy_owner r = uid \<longrightarrow> r \<in> synced_rows st \<or> w < sy_stamp r) \<and>
     (\<forall>r \<in> synced_rows st. sy_owner r = uid \<longrightarrow> (\<exists>r' \<in> synced_rows st'. sy_key r' = sy_key r))"

text \<open>What a write under a new token does, with the token above the user's old one.\<close>

definition token_effect :: "int \<Rightarrow> store \<Rightarrow> store \<Rightarrow> bool" where
  "token_effect uid st st' \<longleftrightarrow>
     (\<exists>user token. user \<in> set (st_users st) \<and> u_ID user = uid \<and> u_SyncLastModified user < token \<and>
        (\<forall>r \<in> synced_rows st'. r \<in> synced_rows st \<or> sy_owner r = uid \<and> sy_stamp r = token) \<and>
        (\<forall>r \<in> synced_rows st. \<exists>r' \<in> synced_rows st'. sy_key r' = sy_key r) \<and>
        (\<forall>u \<in> set (st_users st').
           u_ID u = uid \<and> u_SyncLastModified u = token \<or> u_ID u \<noteq> uid \<and> u \<in> set (st_users st))) \<and>
     (tables_keyed st \<longrightarrow> tables_keyed st') \<and>
     (\<forall>uid'. uid' \<noteq> uid \<longrightarrow> user_view uid' st' = user_view uid' st)"

lemma next_token:
  assumes "room st" and "user \<in> set (st_users st)"
  shows "u_SyncLastModified user < NextToken now (u_SyncLastModified user)"
  using assms NextToken_greater by (auto simp: room_def)

lemma token_write_effect:
  assumes "token_write ck uid st st'" and "room st"
  shows "token_effect uid st st'"
proof -
  obtain user st1 token where w: "user \<in> set (st_users st)" "u_ID user = uid"
      "token = NextToken (ck_ms ck 0) (u_SyncLastModified user)" "sync_write uid token st st1"
      "st' = st1\<lparr>st_users := update_where (\<lambda>u. u_ID u = uid) (\<lambda>u. u\<lparr>u_SyncLastModified := token\<rparr>) (st_users st)\<rparr>"
    using assms(1) unfolding token_write_def by blast
  have rows: "synced_list st' = synced_list st1" using w(5) by (simp add: synced_list_def)
  have lt: "u_SyncLastModified user < token" using next_token [OF assms(2) w(1)] w(3) by simp
  have users: "\<forall>u \<in> set (st_users st').
      u_ID u = uid \<and> u_SyncLastModified u = token \<or> u_ID u \<noteq> uid \<and> u \<in> set (st_users st)"
    using w(5) by (auto simp: tbl_simps)
  have keyed: "tables_keyed st \<longrightarrow> tables_keyed st'"
    using w(4,5) keyed_update [of u_ID "st_users st" "\<lambda>u. u_ID u = uid"]
    by (auto simp: sync_write_def tables_keyed_def)
  have view: "user_view uid' st' = user_view uid' st" if "uid' \<noteq> uid" for uid'
  proof -
    have "st_users st1 = st_users st" using w(4) by (simp add: sync_write_def)
    then have "user_view uid' st' = user_view uid' st1"
      unfolding w(5) by (intro user_view_set_users) (simp add: filter_update_other_user that)
    then show ?thesis using w(4) that by (simp add: sync_write_def)
  qed
  show ?thesis
    unfolding token_effect_def rows using w(1,2,4) lt users keyed view unfolding sync_write_def by blast
qed

lemma side_write_users:
  assumes "side_write uid st st'" and "u \<in> set (st_users st')"
  shows "\<exists>v \<in> set (st_users st). u_ID v = u_ID u \<and> u_SyncLastModified v = u_SyncLastModified u"
proof -
  have "(u_ID u, u_SyncLastModified u) \<in> set (map (\<lambda>u. (u_ID u, u_SyncLastModified u)) (st_users st'))"
    using assms(2) by auto
  then have "(u_ID u, u_SyncLastModified u) \<in> set (map (\<lambda>u. (u_ID u, u_SyncLastModified u)) (st_users st))"
    using assms(1) unfolding side_write_def by metis
  then show ?thesis by auto
qed

lemma sync_step_room: "sync_step uid st st' \<Longrightarrow> room st"
  by (erule sync_step.cases) simp_all

lemma step_effect_cases:
  assumes "sync_step uid st st'"
  shows "token_effect uid st st' \<or> side_write uid st st'"
  using step_effect [OF assms] token_write_effect sync_step_room [OF assms] by blast

lemma step_inv:
  assumes "sync_step uid st st'" and inv: "sync_inv st"
  shows "sync_inv st'"
  using step_effect_cases [OF assms(1)]
proof
  assume "token_effect uid st st'"
  then obtain user token where w: "user \<in> set (st_users st)" "u_ID user = uid" "u_SyncLastModified user < token"
      "\<forall>r \<in> synced_rows st'. r \<in> synced_rows st \<or> sy_owner r = uid \<and> sy_stamp r = token"
      "\<forall>u \<in> set (st_users st').
         u_ID u = uid \<and> u_SyncLastModified u = token \<or> u_ID u \<noteq> uid \<and> u \<in> set (st_users st)"
      "tables_keyed st'"
    using inv unfolding token_effect_def sync_inv_def by blast
  show ?thesis
    unfolding sync_inv_def
  proof (intro conjI ballI impI)
    show "tables_keyed st'" by (rule w(6))
    fix r u
    assume r: "r \<in> synced_rows st'" "u \<in> set (st_users st')" "u_ID u = sy_owner r"
    show "sy_stamp r \<le> u_SyncLastModified u"
      using bspec [OF w(4) r(1)] bspec [OF w(5) r(2)] r(3) inv w(1-3) by (fastforce simp: sync_inv_def)
  qed
next
  assume s: "side_write uid st st'"
  have "tables_keyed st'" "synced_list st' = synced_list st"
    using s inv by (auto simp: side_write_def sync_inv_def)
  then show ?thesis
    using inv side_write_users [OF s] unfolding sync_inv_def by metis
qed

subsection \<open>The guarantees of the protocol\<close>

lemma steps_inv: "sync_steps st st' \<Longrightarrow> sync_inv st \<Longrightarrow> sync_inv st'"
  by (induction rule: sync_steps.induct) (auto intro: step_inv)

lemma step_fresh:
  assumes "sync_step uid' st' st''" and fresh: "fresh_since w uid st st'"
  shows "fresh_since w uid st st''"
  using step_effect_cases [OF assms(1)]
proof
  assume "token_effect uid' st' st''"
  then obtain user token where w: "user \<in> set (st_users st')" "u_ID user = uid'" "u_SyncLastModified user < token"
      "\<forall>r \<in> synced_rows st''. r \<in> synced_rows st' \<or> sy_owner r = uid' \<and> sy_stamp r = token"
      "\<forall>r \<in> synced_rows st'. \<exists>r' \<in> synced_rows st''. sy_key r' = sy_key r"
      "\<forall>u \<in> set (st_users st'').
         u_ID u = uid' \<and> u_SyncLastModified u = token \<or> u_ID u \<noteq> uid' \<and> u \<in> set (st_users st')"
    unfolding token_effect_def by blast
  have new: "w < token" if "uid' = uid"
    using fresh w(1-3) that by (fastforce simp: fresh_since_def)
  show ?thesis
    unfolding fresh_since_def
  proof (intro conjI ballI impI)
    show "w \<le> u_SyncLastModified u" if "u \<in> set (st_users st'')" "u_ID u = uid" for u
      using bspec [OF w(6) that(1)] that(2) new fresh by (auto simp: fresh_since_def)
    show "r \<in> synced_rows st \<or> w < sy_stamp r" if "r \<in> synced_rows st''" "sy_owner r = uid" for r
      using bspec [OF w(4) that(1)] that(2) new fresh by (auto simp: fresh_since_def)
    show "\<exists>r' \<in> synced_rows st''. sy_key r' = sy_key r" if "r \<in> synced_rows st" "sy_owner r = uid" for r
      using fresh w(5) that unfolding fresh_since_def by metis
  qed
next
  assume s: "side_write uid' st' st''"
  then have rows: "synced_list st'' = synced_list st'" by (simp add: side_write_def)
  show ?thesis
    using fresh side_write_users [OF s] unfolding fresh_since_def rows by fastforce
qed

lemma steps_fresh:
  "sync_steps st' st'' \<Longrightarrow> fresh_since w uid st st' \<Longrightarrow> fresh_since w uid st st''"
proof (induction rule: sync_steps.induct)
  case (none st)
  then show ?case by simp
next
  case (more st1 st2 uid' st3)
  then show ?case using step_fresh by blast
qed

lemma step_isolated:
  assumes "sync_step uid st st'" and "uid' \<noteq> uid"
  shows "user_view uid' st' = user_view uid' st"
  using step_effect_cases [OF assms(1)] assms(2) by (auto simp: token_effect_def side_write_def)

end
