(* ===== verification/Example_Env.thy ===== *)
theory Example_Env
  imports Db_Store
begin

section \<open>A concrete environment\<close>

text \<open>
  An environment that satisfies \<open>env_ok\<close>, with a JSON codec for the settings and for the
  episodes of a playlist, and a store with two users.  The examples that accompany the
  theorems run on them.  Integers are coded in unary; only the round trip matters.
\<close>

subsection \<open>The codec\<close>

definition enc_int :: "int \<Rightarrow> json" where
  "enc_int i = JObject [(if i < 0 then ''neg'' else ''pos'', JArray (replicate (nat \<bar>i\<bar>) JNull))]"

fun dec_int :: "json \<Rightarrow> int option" where
  "dec_int (JObject [(s, JArray xs)]) = Some (if s = ''neg'' then - int (length xs) else int (length xs))"
| "dec_int _ = None"

lemma dec_enc_int [simp]: "dec_int (enc_int i) = Some i"
  by (simp add: enc_int_def)

fun enc_opt :: "('a \<Rightarrow> json) \<Rightarrow> 'a option \<Rightarrow> json" where
  "enc_opt f None = JNull"
| "enc_opt f (Some x) = JArray [f x]"

fun dec_opt :: "(json \<Rightarrow> 'a option) \<Rightarrow> json \<Rightarrow> 'a option option" where
  "dec_opt f JNull = Some None"
| "dec_opt f (JArray [j]) = map_option Some (f j)"
| "dec_opt f _ = None"

lemma dec_enc_opt [simp]: "(\<And>x. g (f x) = Some x) \<Longrightarrow> dec_opt g (enc_opt f v) = Some v"
  by (cases v) simp_all

fun dec_string :: "json \<Rightarrow> string option" where
  "dec_string (JString s) = Some s"
| "dec_string _ = None"

fun dec_bool :: "json \<Rightarrow> bool option" where
  "dec_bool (JBool b) = Some b"
| "dec_bool _ = None"

definition enc_time :: "Timestamp \<Rightarrow> json" where
  "enc_time ts = JArray [enc_int (ts_Seconds ts), enc_int (ts_Nanos ts)]"

fun dec_time :: "json \<Rightarrow> Timestamp option" where
  "dec_time (JArray [a, b]) =
     (case (dec_int a, dec_int b) of
        (Some s, Some n) \<Rightarrow> Some \<lparr>ts_Seconds = s, ts_Nanos = n\<rparr>
      | _ \<Rightarrow> None)"
| "dec_time _ = None"

lemma dec_enc_time [simp]: "dec_time (enc_time ts) = Some ts"
  by (simp add: enc_time_def)

fun enc_scalar :: "scalar \<Rightarrow> json" where
  "enc_scalar (VInt32 i) = JArray [enc_int i]"
| "enc_scalar (VDouble i) = enc_int i"
| "enc_scalar (VBool b) = JBool b"
| "enc_scalar (VString s) = JString s"

fun dec_scalar :: "json \<Rightarrow> scalar option" where
  "dec_scalar (JArray [j]) = map_option VInt32 (dec_int j)"
| "dec_scalar (JBool b) = Some (VBool b)"
| "dec_scalar (JString s) = Some (VString s)"
| "dec_scalar (JObject kvs) = map_option VDouble (dec_int (JObject kvs))"
| "dec_scalar _ = None"

lemma dec_enc_scalar [simp]: "dec_scalar (enc_scalar v) = Some v"
proof (cases v)
  case (VDouble i)
  then have "dec_scalar (enc_scalar v) = map_option VDouble (dec_int (enc_int i))"
    by (simp add: enc_int_def)
  with VDouble show ?thesis by simp
qed simp_all

fun enc_type :: "setting_type \<Rightarrow> json" where
  "enc_type Int32Setting = JString ''i''"
| "enc_type BoolSetting = JString ''b''"
| "enc_type DoubleSetting = JString ''d''"
| "enc_type StringSetting = JString ''s''"

definition dec_type :: "json \<Rightarrow> setting_type option" where
  "dec_type j =
     (if j = JString ''i'' then Some Int32Setting else if j = JString ''b'' then Some BoolSetting
      else if j = JString ''d'' then Some DoubleSetting else if j = JString ''s'' then Some StringSetting
      else None)"

lemma dec_enc_type [simp]: "dec_type (enc_type t) = Some t"
  by (cases t) (simp_all add: dec_type_def)

definition enc_setting :: "setting \<Rightarrow> json" where
  "enc_setting s =
     JArray [enc_type (set_FullName s), enc_opt enc_scalar (set_Value s), enc_opt JBool (set_Changed s),
             enc_opt enc_time (set_ModifiedAt s)]"

fun dec_setting :: "json \<Rightarrow> setting option" where
  "dec_setting (JArray [a, b, c, d]) =
     (case (dec_type a, dec_opt dec_scalar b, dec_opt dec_bool c, dec_opt dec_time d) of
        (Some t, Some v, Some ch, Some m) \<Rightarrow>
          Some \<lparr>set_FullName = t, set_Value = v, set_Changed = ch, set_ModifiedAt = m\<rparr>
      | _ \<Rightarrow> None)"
| "dec_setting _ = None"

lemma dec_enc_setting [simp]: "dec_setting (enc_setting s) = Some s"
  by (simp add: enc_setting_def)

fun dec_fields :: "(string \<times> json) list \<Rightarrow> settings_msg option" where
  "dec_fields [] = Some []"
| "dec_fields ((k, j) # kvs) =
     (case (dec_setting j, dec_fields kvs) of (Some s, Some m) \<Rightarrow> Some ((k, s) # m) | _ \<Rightarrow> None)"

lemma dec_enc_fields [simp]: "dec_fields (map (\<lambda>(k, s). (k, enc_setting s)) m) = Some m"
  by (induction m) auto

definition enc_settings :: "settings_msg \<Rightarrow> goerr + json" where
  "enc_settings m = Inr (JObject (map (\<lambda>(k, s). (k, enc_setting s)) m))"

fun dec_settings :: "json \<Rightarrow> goerr + settings_msg" where
  "dec_settings (JObject kvs) =
     (case dec_fields kvs of Some m \<Rightarrow> Inr m | None \<Rightarrow> Inl (NewError ''proto: syntax error''))"
| "dec_settings _ = Inl (NewError ''proto: syntax error'')"

definition enc_episode :: "SyncPlaylistEpisode \<Rightarrow> json" where
  "enc_episode ep =
     JArray [JString (spe_Episode ep), JString (spe_Podcast ep), enc_opt enc_int (spe_Added ep),
             enc_opt enc_time (spe_Published ep), enc_opt JString (spe_Title ep), enc_opt JString (spe_Url ep),
             enc_opt JString (spe_PodcastSlug ep), enc_opt JString (spe_EpisodeSlug ep)]"

fun dec_episode :: "json \<Rightarrow> SyncPlaylistEpisode option" where
  "dec_episode (JArray [a, b, c, d, f, g, h, i]) =
     (case (dec_string a, dec_string b, dec_opt dec_int c, dec_opt dec_time d,
            dec_opt dec_string f, dec_opt dec_string g, dec_opt dec_string h, dec_opt dec_string i) of
        (Some ep, Some p, Some ad, Some pb, Some t, Some u, Some ps, Some es) \<Rightarrow>
          Some \<lparr>spe_Episode = ep, spe_Podcast = p, spe_Added = ad, spe_Published = pb, spe_Title = t,
                spe_Url = u, spe_PodcastSlug = ps, spe_EpisodeSlug = es\<rparr>
      | _ \<Rightarrow> None)"
| "dec_episode _ = None"

lemma dec_enc_episode [simp]: "dec_episode (enc_episode ep) = Some ep"
  by (simp add: enc_episode_def)

subsection \<open>The environment and the store\<close>

definition demo_env :: env where
  "demo_env =
     \<lparr>pg_fault = Map.empty,
      pg_uuid = (\<lambda>s. if s = '''' then None else Some (map to_lower_char s)),
      pg_time = (\<lambda>t. t - t mod 1000),
      pg_jsonb = id,
      marshal_episode = (\<lambda>ep. Inr (enc_episode ep)),
      unmarshal_episode = dec_episode,
      marshal_settings = enc_settings,
      unmarshal_settings = (\<lambda>d. dec_settings),
      url_Parse = (\<lambda>s. None),
      url_String = url_Path\<rparr>"

lemma to_lower_char_idem [simp]: "to_lower_char (to_lower_char c) = to_lower_char c"
  by (auto simp: Let_def)

lemma demo_env_healthy: "healthy demo_env"
  by (simp add: healthy_def demo_env_def)

lemma demo_env_ok: "env_ok demo_env"
  unfolding env_ok_def
proof (intro conjI allI impI)
  fix d m j
  assume "settings_ok d m" "marshal_settings demo_env m = Inr j"
  then have "j = JObject (map (\<lambda>(k, s). (k, enc_setting s)) m)"
    by (simp add: demo_env_def enc_settings_def)
  then show "pg_jsonb demo_env j \<noteq> JNull" "pg_jsonb demo_env j = JObject [] \<Longrightarrow> m = []"
    "\<exists>m'. unmarshal_settings demo_env d (pg_jsonb demo_env j) = Inr m' \<and> settings_ok d m' \<and> map_of m' = map_of m"
    using \<open>settings_ok d m\<close> by (simp_all add: demo_env_def)
qed (auto simp: demo_env_def comp_def simp del: to_lower_char.simps split: if_splits)

definition demo_user :: "int \<Rightarrow> User" where
  "demo_user i =
     \<lparr>u_ID = i, u_Uuid = ''u'', u_Email = ''a@b.c'', u_PasswordHash = '''', u_Scope = ''mobile'', u_CreatedAt = 0,
      u_UpdatedAt = 0, u_DeletedAt = None, u_SyncLastModified = 100, u_UpNextModified = 40,
      u_HistoryModified = 50, u_HistoryClearedAtMs = 0, u_MarketingOptIn = False\<rparr>"

definition empty_store :: store where
  "empty_store =
     \<lparr>st_users = [], st_user_podcasts = [], st_user_episodes = [], st_folders = [], st_playlists = [],
      st_bookmarks = [], st_devices = [], st_up_next = [], st_history = [], st_settings = [],
      st_milestones = [], st_podcasts = [], st_refresh_tokens = [], st_reset_codes = []\<rparr>"

definition demo_store :: store where
  "demo_store = empty_store\<lparr>st_users := [demo_user 1, demo_user 2]\<rparr>"

definition demo_clock :: "int \<Rightarrow> clock" where
  "demo_clock now = \<lparr>ck_ms = (\<lambda>_. now), ck_ns = (\<lambda>_. now * 1000000), ck_db = now * 1000000\<rparr>"

end
