(* ===== verification/Sync_Theorems.thy ===== *)
theory Sync_Theorems
  imports Sync_System Example_Env
begin

section \<open>Correctness of the incremental sync protocol\<close>

text \<open>
  The properties of \<^verbatim>\<open>syncsvc.Engine\<close> that its clients rely on, each with an example on the
  concrete environment where it has hypotheses.
\<close>

subsection \<open>Helper facts\<close>

lemma ApplyUpdate_Inr:
  assumes "ApplyUpdate e ck uid req st = (Inr (resp, unknown), st')"
  shows "apply_update_tx e ck uid req st = Inr ((resp, unknown), st')"
  using assms by (simp add: ApplyUpdate_def engine_call_Inr)

lemma set_token:
  "v \<in> set (update_where (\<lambda>u. u_ID u = uid) (\<lambda>u. u\<lparr>u_SyncLastModified := t\<rparr>) us) \<Longrightarrow> u_ID v = uid \<Longrightarrow>
   u_SyncLastModified v = t"
  unfolding set_update_where by (elim UnE imageE) simp_all

lemma update_token:
  assumes "apply_update_tx e ck uid req st = Inr ((resp, unknown), st')" and "room st"
  obtains user where "user \<in> set (st_users st)" "u_ID user = uid"
    "u_SyncLastModified user < resp_LastModified resp" "\<exists>u \<in> set (st_users st'). u_ID u = uid"
    "\<And>u. u \<in> set (st_users st') \<Longrightarrow> u_ID u = uid \<Longrightarrow> u_SyncLastModified u = resp_LastModified resp"
    "resp_Records resp =
       map (sy_record e) (filter (\<lambda>r. sy_owner r = uid \<and> req_LastModified req < sy_stamp r \<and>
         sy_stamp r \<le> resp_LastModified resp) (synced_list st'))"
proof (rule apply_update_tx_cases [OF assms(1)])
  fix user st1
  assume u: "u_ID user = uid" "user \<in> set (st_users st)"
    "resp_LastModified resp = NextToken (ck_ms ck 0) (u_SyncLastModified user)"
    "st' = st1\<lparr>st_users := update_where (\<lambda>u. u_ID u = uid)
             (\<lambda>u. u\<lparr>u_SyncLastModified := resp_LastModified resp\<rparr>) (st_users st)\<rparr>"
    "resp_Records resp =
       map (sy_record e) (filter (\<lambda>r. sy_owner r = uid \<and> req_LastModified req < sy_stamp r \<and>
         sy_stamp r \<le> resp_LastModified resp) (synced_list st'))"
  show thesis
  proof (rule that [OF u(2,1)])
    show "u_SyncLastModified user < resp_LastModified resp"
      using next_token [OF assms(2) u(2)] u(3) by simp
    show "\<exists>u \<in> set (st_users st'). u_ID u = uid"
      using u(1,2,4) by (intro bexI [of _ "user\<lparr>u_SyncLastModified := resp_LastModified resp\<rparr>"]) (auto simp: tbl_simps)
    show "u_SyncLastModified v = resp_LastModified resp" if "v \<in> set (st_users st')" "u_ID v = uid" for v
      using that u(4) by (simp add: set_token)
  qed (rule u(5))
qed

lemma update_fresh:
  assumes "apply_update_tx e ck uid req st = Inr ((resp, unknown), st')" and "room st"
  shows "fresh_since (resp_LastModified resp) uid st' st'"
proof (rule update_token [OF assms])
  fix user
  assume "\<And>u. u \<in> set (st_users st') \<Longrightarrow> u_ID u = uid \<Longrightarrow> u_SyncLastModified u = resp_LastModified resp"
  then show ?thesis by (auto simp: fresh_since_def)
qed

text \<open>Under the invariant the answer has every row of the user stamped after the request's token.\<close>

lemma update_complete:
  assumes "apply_update_tx e ck uid req st = Inr ((resp, unknown), st')" and "room st" and "sync_inv st'"
    and "r \<in> synced_rows st'" and "sy_owner r = uid" and "req_LastModified req < sy_stamp r"
  shows "sy_record e r \<in> set (resp_Records resp)"
proof (rule update_token [OF assms(1,2)])
  fix user
  assume u: "\<exists>u \<in> set (st_users st'). u_ID u = uid"
    "\<And>u. u \<in> set (st_users st') \<Longrightarrow> u_ID u = uid \<Longrightarrow> u_SyncLastModified u = resp_LastModified resp"
    "resp_Records resp =
       map (sy_record e) (filter (\<lambda>r. sy_owner r = uid \<and> req_LastModified req < sy_stamp r \<and>
         sy_stamp r \<le> resp_LastModified resp) (synced_list st'))"
  then have "sy_stamp r \<le> resp_LastModified resp"
    using assms(3-5) unfolding sync_inv_def by metis
  then show ?thesis using u(3) assms(4-6) by auto
qed

subsection \<open>The protocol\<close>

text \<open>
   C1. No lost update.  A device receives the answer \<open>resp\<close>, any number of requests of
  any users and devices follow, and the device syncs again presenting the token of that
  answer.  Then every row of its user that is not the one the device was told about
  is in the new answer, and every row the first answer knew still exists (deletion is a
  flag, never a missing row).
\<close>

theorem no_lost_update:
  assumes "sync_inv st0" and "room st0" and "room st2"
    and "ApplyUpdate e ck uid req st0 = (Inr (resp, unknown), st1)"
    and "sync_steps st1 st2"
    and "ApplyUpdate e2 ck2 uid req2 st2 = (Inr (resp2, unknown2), st3)"
    and "req_LastModified req2 = resp_LastModified resp"
  shows "(\<forall>r \<in> synced_rows st3. sy_owner r = uid \<longrightarrow>
            r \<in> synced_rows st1 \<or> sy_record e2 r \<in> set (resp_Records resp2)) \<and>
         (\<forall>r1 \<in> synced_rows st1. sy_owner r1 = uid \<longrightarrow> (\<exists>r3 \<in> synced_rows st3. sy_key r3 = sy_key r1))"
proof -
  note tx = ApplyUpdate_Inr [OF assms(4)] and tx2 = ApplyUpdate_Inr [OF assms(6)]
  have step1: "sync_step uid st0 st1" and step2: "sync_step uid st2 st3"
    by (rule sync_step.update [OF assms(4,2)], rule sync_step.update [OF assms(6,3)])
  have inv: "sync_inv st3"
    using step_inv [OF step1 assms(1)] steps_inv [OF assms(5)] step_inv [OF step2] by blast
  have fresh: "fresh_since (resp_LastModified resp) uid st1 st3"
    by (rule step_fresh [OF step2 steps_fresh [OF assms(5) update_fresh [OF tx assms(2)]]])
  then show ?thesis
    using update_complete [OF tx2 assms(3) inv] assms(7) unfolding fresh_since_def by metis
qed

text \<open>
  A concrete run: device A syncs a folder at time 200; device B, whose request meets a clock
  that has gone back to 150, syncs a second folder; A syncs again at time 190.
\<close>

definition demo_folder :: "string \<Rightarrow> string \<Rightarrow> Record" where
  "demo_folder uuid name =
     Record_Folder \<lparr>sfo_FolderUuid = uuid, sfo_IsDeleted = False, sfo_Name = name, sfo_Color = 3,
       sfo_SortPosition = 0, sfo_PodcastsSortType = 1,
       sfo_DateAdded = Some \<lparr>ts_Seconds = 7, ts_Nanos = 5\<rparr>\<rparr>"

definition demo_run1 :: "(SyncUpdateResponse \<times> string set) result \<times> store" where
  "demo_run1 =
     ApplyUpdate demo_env (demo_clock 200) 1
       \<lparr>req_LastModified = 0, req_Records = [demo_folder ''F1'' ''News'']\<rparr> demo_store"

definition demo_run2 :: "(SyncUpdateResponse \<times> string set) result \<times> store" where
  "demo_run2 =
     ApplyUpdate demo_env (demo_clock 150) 1
       \<lparr>req_LastModified = 0, req_Records = [demo_folder ''F2'' ''Music'']\<rparr> (snd demo_run1)"

definition demo_run3 :: "(SyncUpdateResponse \<times> string set) result \<times> store" where
  "demo_run3 =
     ApplyUpdate demo_env (demo_clock 190) 1 \<lparr>req_LastModified = 200, req_Records = []\<rparr> (snd demo_run2)"

lemma demo_runs:
  "demo_run1 = (Inr (\<lparr>resp_LastModified = 200, resp_Records = resp_Records (fst (projr (fst demo_run1)))\<rparr>, {}), snd demo_run1)"
  "demo_run2 = (Inr (fst (projr (fst demo_run2)), {}), snd demo_run2)"
  "demo_run3 = (Inr (fst (projr (fst demo_run3)), {}), snd demo_run3)"
  by code_simp+

lemma demo_store_ok: "sync_inv demo_store" "room demo_store"
  by (simp_all add: sync_inv_def room_def demo_store_def empty_store_def demo_user_def tables_keyed_def keyed_def
      synced_list_def is_int64_def)

lemma demo_room: "room (snd demo_run1)" "room (snd demo_run2)"
  by code_simp+

definition demo_row :: synced where
  "demo_row =
     SFolder \<lparr>fo_UserID = 1, fo_FolderUuid = ''f2'', fo_Name = ''Music'', fo_Color = 3, fo_SortPosition = 0,
       fo_PodcastsSortType = 1, fo_DateAdded = Some 7000000000, fo_IsDeleted = False, fo_ModifiedAt = 201\<rparr>"

theorem no_lost_update_witness:
  "demo_row \<in> synced_rows (snd demo_run3) \<and> demo_row \<notin> synced_rows (snd demo_run1) \<and>
   sy_record demo_env demo_row \<in> set (resp_Records (fst (projr (fst demo_run3))))"
proof -
  have steps: "sync_steps (snd demo_run1) (snd demo_run2)"
    using sync_steps.more [OF sync_steps.none sync_step.update
        [OF demo_run2_def [symmetric, THEN trans, OF demo_runs(2)] demo_room(1)]] .
  have "demo_row \<in> synced_rows (snd demo_run3)" "demo_row \<notin> synced_rows (snd demo_run1)" "sy_owner demo_row = 1"
    by code_simp+
  then show ?thesis
    using no_lost_update [OF demo_store_ok demo_room(2) demo_run1_def [symmetric, THEN trans, OF demo_runs(1)] steps
        demo_run3_def [symmetric, THEN trans, OF demo_runs(3)]]
    by auto
qed

text \<open>
   C2. The answer of a successful update.  Its token is greater than the user's token
  before the call and is the user's token after it, and its records are exactly the
  user's rows stamped after the request's \<^verbatim>\<open>lastModified\<close> and up to the new token, in
  the order folders, podcasts, episodes, playlists, bookmarks.
\<close>

theorem update_exact_delta:
  assumes "ApplyUpdate e ck uid req st = (Inr (resp, unknown), st')" and "room st"
  shows "(\<exists>user \<in> set (st_users st). u_ID user = uid \<and> u_SyncLastModified user < resp_LastModified resp) \<and>
         (\<forall>u \<in> set (st_users st'). u_ID u = uid \<longrightarrow> u_SyncLastModified u = resp_LastModified resp) \<and>
         resp_Records resp =
           map (sy_record e) (filter (\<lambda>r. sy_owner r = uid \<and> req_LastModified req < sy_stamp r \<and>
             sy_stamp r \<le> resp_LastModified resp) (synced_list st'))"
  by (rule update_token [OF ApplyUpdate_Inr [OF assms(1)] assms(2)]) blast

theorem update_exact_delta_witness:
  "resp_Records (fst (projr (fst demo_run3))) =
     map (sy_record demo_env) (filter (\<lambda>r. sy_owner r = 1 \<and> 200 < sy_stamp r \<and>
       sy_stamp r \<le> resp_LastModified (fst (projr (fst demo_run3)))) (synced_list (snd demo_run3)))"
  using update_exact_delta [OF demo_run3_def [symmetric, THEN trans, OF demo_runs(3)] demo_room(2)] by simp

text \<open>
  C3.  The invariant of the store holds after any sequence of requests: primary keys are
  unique in all tables and no row of a user is stamped beyond the user's sync token.
\<close>

theorem sync_invariant:
  assumes "sync_inv st" and "sync_steps st st'"
  shows "sync_inv st'"
  using assms(2,1) by (rule steps_inv)

theorem sync_invariant_witness: "sync_inv (snd demo_run1) \<and> snd demo_run1 \<noteq> demo_store"
proof
  show "sync_inv (snd demo_run1)"
    using sync_invariant [OF demo_store_ok(1) sync_steps.more [OF sync_steps.none sync_step.update
        [OF demo_run1_def [symmetric, THEN trans, OF demo_runs(1)] demo_store_ok(2)]]] .
  show "snd demo_run1 \<noteq> demo_store" by code_simp
qed

text \<open>
  C4.  A request of one user changes nothing that belongs to another: every table
  restricted to the other user's rows is the same list of rows before and after.
\<close>

theorem users_isolated:
  assumes "sync_step uid st st'" and "uid' \<noteq> uid"
  shows "user_view uid' st' = user_view uid' st"
  using assms by (rule step_isolated)

theorem users_isolated_witness: "user_view 2 (snd demo_run1) = user_view 2 demo_store"
  using users_isolated [OF sync_step.update [OF demo_run1_def [symmetric, THEN trans, OF demo_runs(1)] demo_store_ok(2)]]
  by simp

text \<open>
  C5.  A request that fails leaves the store as it was, whatever the failure, and the
  client sees one of four answers: not found, conflict, the masked internal error, or
  the message that the episode is missing.  No text of a database error reaches it.
\<close>

theorem failure_is_atomic_and_masked:
  assumes "ApplyUpdate e ck uid req st = (Inl err, st') \<or> SyncUpNext e ck uid ureq st = (Inl err, st') \<or>
           SyncHistory e ck uid hreq st = (Inl err, st') \<or> UpdateSettings e ck uid sreq st = (Inl err, st') \<or>
           UpdateEpisode e ck uid ereq st = (Inl err, st') \<or> UpdateEpisodeStar e ck uid streq st = (Inl err, st')"
  shows "st' = st \<and>
         writeError ext_text err \<in>
           {writeJSON 404 NullBody, writeJSON 409 (ErrorResult [''Record duplication detected'']), masked_500,
            sendJSON 400 (ServiceError ''invalid operation'' '''' '''' ''episode uuid is required'')}"
proof -
  have "st' = st \<and> ((\<exists>o' cause. err = E_op o' Database cause) \<or>
          (\<exists>o'. err = E_msg o' Invalid ''episode uuid is required''))"
    using assms
    by (auto simp: ApplyUpdate_def SyncUpNext_def SyncHistory_def UpdateSettings_def UpdateEpisode_def
        UpdateEpisodeStar_def dest!: engine_call_Inl split: if_splits)
  then show ?thesis by (auto simp: writeError_Database writeError_Invalid)
qed

text \<open>An update of a user that does not exist.\<close>

theorem failure_is_atomic_and_masked_witness:
  "\<exists>err. ApplyUpdate demo_env (demo_clock 200) 3 \<lparr>req_LastModified = 0, req_Records = []\<rparr> demo_store = (Inl err, demo_store) \<and>
         writeError (\<lambda>_. ''secret'') err = writeJSON 404 NullBody"
proof -
  let ?req = "\<lparr>req_LastModified = 0, req_Records = []\<rparr>"
  let ?run = "ApplyUpdate demo_env (demo_clock 200) 3 ?req demo_store"
  have run: "?run = (Inl (projl (fst ?run)), snd ?run)" by code_simp
  have "snd ?run = demo_store"
    using failure_is_atomic_and_masked [of demo_env "demo_clock 200" 3 ?req demo_store "projl (fst ?run)" "snd ?run"] run
    by blast
  moreover have "writeError (\<lambda>_. ''secret'') (projl (fst ?run)) = writeJSON 404 NullBody" by code_simp
  ultimately show ?thesis using run by metis
qed

end
