(* ===== verification/Sync_Merge.thy ===== *)
theory Sync_Merge
  imports Sync_Delta Example_Env
begin

section \<open>What the record merges compute\<close>

text \<open>
  The merges of \<^verbatim>\<open>src/syncsvc/engine.go\<close> field by field.  The six stamped fields of an episode
  and three of a bookmark are last-writer-wins registers, by interpretation of the locale
  \<open>lww_register\<close>; the excerpt window of a bookmark and the partial update of a
  subscription have their own rules.
\<close>

definition proposal_of :: "'v option \<Rightarrow> int option \<Rightarrow> 'v stamped option" where
  "proposal_of v t = (case (v, t) of (Some v, Some t) \<Rightarrow> Some (t, v) | _ \<Rightarrow> None)"

lemma lww_proposal_of:
  "lww (proposal_of v t) (Some (t0, v0)) =
     (if v \<noteq> None \<and> modifiedAfter t t0 then Some (GetValue z t, GetValue y v) else Some (t0, v0))"
  by (auto simp: proposal_of_def modifiedAfter_def split: option.splits)

subsection \<open>Episodes\<close>

lemma modifiedAfter_None [simp]: "\<not> modifiedAfter None t"
  by (simp add: modifiedAfter_def)

lemmas merge_episode_push =
    let_push [of ue_PlayingStatus] if_distrib [of ue_PlayingStatus]
    let_push [of ue_PlayingStatusModified] if_distrib [of ue_PlayingStatusModified]
    let_push [of ue_PlayedUpTo] if_distrib [of ue_PlayedUpTo]
    let_push [of ue_PlayedUpToModified] if_distrib [of ue_PlayedUpToModified]
    let_push [of ue_Starred] if_distrib [of ue_Starred]
    let_push [of ue_StarredModified] if_distrib [of ue_StarredModified]
    let_push [of ue_IsDeleted] if_distrib [of ue_IsDeleted]
    let_push [of ue_IsDeletedModified] if_distrib [of ue_IsDeletedModified]
    let_push [of ue_Duration] if_distrib [of ue_Duration]
    let_push [of ue_DurationModified] if_distrib [of ue_DurationModified]
    let_push [of ue_DeselectedChapters] if_distrib [of ue_DeselectedChapters]
    let_push [of ue_DeselectedChaptersModified] if_distrib [of ue_DeselectedChaptersModified]
    let_push [of ue_UserID] if_distrib [of ue_UserID]
    let_push [of ue_EpisodeUuid] if_distrib [of ue_EpisodeUuid]
    let_push [of ue_PodcastUuid] if_distrib [of ue_PodcastUuid]
    let_push [of ue_ModifiedAt] if_distrib [of ue_ModifiedAt]

lemma merge_episode_sel:
  "ue_PlayingStatus (merge_episode_fields rec r) =
     (if sep_PlayingStatus rec \<noteq> None \<and> modifiedAfter (sep_PlayingStatusModified rec) (ue_PlayingStatusModified r)
      then GetValue 0 (sep_PlayingStatus rec) else ue_PlayingStatus r)"
  "ue_PlayingStatusModified (merge_episode_fields rec r) =
     (if sep_PlayingStatus rec \<noteq> None \<and> modifiedAfter (sep_PlayingStatusModified rec) (ue_PlayingStatusModified r)
      then GetValue 0 (sep_PlayingStatusModified rec) else ue_PlayingStatusModified r)"
  "ue_PlayedUpTo (merge_episode_fields rec r) =
     (if sep_PlayedUpTo rec \<noteq> None \<and> modifiedAfter (sep_PlayedUpToModified rec) (ue_PlayedUpToModified r)
      then GetValue 0 (sep_PlayedUpTo rec) else ue_PlayedUpTo r)"
  "ue_PlayedUpToModified (merge_episode_fields rec r) =
     (if sep_PlayedUpTo rec \<noteq> None \<and> modifiedAfter (sep_PlayedUpToModified rec) (ue_PlayedUpToModified r)
      then GetValue 0 (sep_PlayedUpToModified rec) else ue_PlayedUpToModified r)"
  "ue_Starred (merge_episode_fields rec r) =
     (if sep_Starred rec \<noteq> None \<and> modifiedAfter (sep_StarredModified rec) (ue_StarredModified r)
      then GetValue False (sep_Starred rec) else ue_Starred r)"
  "ue_StarredModified (merge_episode_fields rec r) =
     (if sep_Starred rec \<noteq> None \<and> modifiedAfter (sep_StarredModified rec) (ue_StarredModified r)
      then GetValue 0 (sep_StarredModified rec) else ue_StarredModified r)"
  "ue_IsDeleted (merge_episode_fields rec r) =
     (if sep_IsDeleted rec \<noteq> None \<and> modifiedAfter (sep_IsDeletedModified rec) (ue_IsDeletedModified r)
      then GetValue False (sep_IsDeleted rec) else ue_IsDeleted r)"
  "ue_IsDeletedModified (merge_episode_fields rec r) =
     (if sep_IsDeleted rec \<noteq> None \<and> modifiedAfter (sep_IsDeletedModified rec) (ue_IsDeletedModified r)
      then GetValue 0 (sep_IsDeletedModified rec) else ue_IsDeletedModified r)"
  "ue_Duration (merge_episode_fields rec r) =
     (if sep_Duration rec \<noteq> None \<and> modifiedAfter (sep_DurationModified rec) (ue_DurationModified r)
      then GetValue 0 (sep_Duration rec) else ue_Duration r)"
  "ue_DurationModified (merge_episode_fields rec r) =
     (if sep_Duration rec \<noteq> None \<and> modifiedAfter (sep_DurationModified rec) (ue_DurationModified r)
      then GetValue 0 (sep_DurationModified rec) else ue_DurationModified r)"
  "ue_DeselectedChapters (merge_episode_fields rec r) =
     (if modifiedAfter (sep_DeselectedChaptersModified rec) (ue_DeselectedChaptersModified r)
      then sep_DeselectedChapters rec else ue_DeselectedChapters r)"
  "ue_DeselectedChaptersModified (merge_episode_fields rec r) =
     (if modifiedAfter (sep_DeselectedChaptersModified rec) (ue_DeselectedChaptersModified r)
      then GetValue 0 (sep_DeselectedChaptersModified rec) else ue_DeselectedChaptersModified r)"
  by (simp_all add: merge_episode_fields_def merge_episode_push cong: if_cong)

lemma merge_episode_other [simp]:
  "ue_UserID (merge_episode_fields rec r) = ue_UserID r"
  "ue_EpisodeUuid (merge_episode_fields rec r) = ue_EpisodeUuid r"
  "ue_PodcastUuid (merge_episode_fields rec r) = ue_PodcastUuid r"
  "ue_ModifiedAt (merge_episode_fields rec r) = ue_ModifiedAt r"
  by (simp_all add: merge_episode_fields_def merge_episode_push cong: if_cong)

interpretation ep_status: lww_register
  "\<lambda>r. Some (ue_PlayingStatusModified r, ue_PlayingStatus r)"
  "\<lambda>rec. proposal_of (sep_PlayingStatus rec) (sep_PlayingStatusModified rec)" merge_episode_fields
  by unfold_locales
    (simp add: merge_episode_sel lww_proposal_of [where z = 0 and y = 0])

interpretation ep_played: lww_register
  "\<lambda>r. Some (ue_PlayedUpToModified r, ue_PlayedUpTo r)"
  "\<lambda>rec. proposal_of (sep_PlayedUpTo rec) (sep_PlayedUpToModified rec)" merge_episode_fields
  by unfold_locales
    (simp add: merge_episode_sel lww_proposal_of [where z = 0 and y = 0])

interpretation ep_starred: lww_register
  "\<lambda>r. Some (ue_StarredModified r, ue_Starred r)"
  "\<lambda>rec. proposal_of (sep_Starred rec) (sep_StarredModified rec)" merge_episode_fields
  by unfold_locales
    (simp add: merge_episode_sel lww_proposal_of [where z = 0 and y = False])

interpretation ep_deleted: lww_register
  "\<lambda>r. Some (ue_IsDeletedModified r, ue_IsDeleted r)"
  "\<lambda>rec. proposal_of (sep_IsDeleted rec) (sep_IsDeletedModified rec)" merge_episode_fields
  by unfold_locales
    (simp add: merge_episode_sel lww_proposal_of [where z = 0 and y = False])

interpretation ep_duration: lww_register
  "\<lambda>r. Some (ue_DurationModified r, ue_Duration r)"
  "\<lambda>rec. proposal_of (sep_Duration rec) (sep_DurationModified rec)" merge_episode_fields
  by unfold_locales
    (simp add: merge_episode_sel lww_proposal_of [where z = 0 and y = 0])

interpretation ep_chapters: lww_register
  "\<lambda>r. Some (ue_DeselectedChaptersModified r, ue_DeselectedChapters r)"
  "\<lambda>rec. proposal_of (Some (sep_DeselectedChapters rec)) (sep_DeselectedChaptersModified rec)" merge_episode_fields
  by unfold_locales
    (simp add: merge_episode_sel lww_proposal_of [where z = 0 and y = "[]"])

text \<open>The six registers of a row and of a record, side by side.\<close>

type_synonym episode_view =
  "int stamped option \<times> int stamped option \<times> bool stamped option \<times> bool stamped option \<times>
   int stamped option \<times> string stamped option"

definition episode_view :: "UserEpisode \<Rightarrow> episode_view" where
  "episode_view r =
     (Some (ue_PlayingStatusModified r, ue_PlayingStatus r), Some (ue_PlayedUpToModified r, ue_PlayedUpTo r),
      Some (ue_StarredModified r, ue_Starred r), Some (ue_IsDeletedModified r, ue_IsDeleted r),
      Some (ue_DurationModified r, ue_Duration r),
      Some (ue_DeselectedChaptersModified r, ue_DeselectedChapters r))"

definition episode_proposals :: "SyncUserEpisode \<Rightarrow> episode_view" where
  "episode_proposals rec =
     (proposal_of (sep_PlayingStatus rec) (sep_PlayingStatusModified rec),
      proposal_of (sep_PlayedUpTo rec) (sep_PlayedUpToModified rec),
      proposal_of (sep_Starred rec) (sep_StarredModified rec),
      proposal_of (sep_IsDeleted rec) (sep_IsDeletedModified rec),
      proposal_of (sep_Duration rec) (sep_DurationModified rec),
      proposal_of (Some (sep_DeselectedChapters rec)) (sep_DeselectedChaptersModified rec))"

fun lww6 :: "episode_view \<Rightarrow> episode_view \<Rightarrow> episode_view" where
  "lww6 (a, b, c, d, f, g) (a', b', c', d', f', g') = (lww a a', lww b b', lww c c', lww d d', lww f f', lww g g')"

lemma merge_episode_view: "episode_view (merge_episode_fields rec r) = lww6 (episode_proposals rec) (episode_view r)"
  unfolding episode_view_def episode_proposals_def lww6.simps
  by (simp only: ep_status.cur_merge ep_played.cur_merge ep_starred.cur_merge ep_deleted.cur_merge
      ep_duration.cur_merge ep_chapters.cur_merge)

lemma episode_view_frame [simp]:
  "episode_view (r\<lparr>ue_UserID := uid\<rparr>) = episode_view r"
  "episode_view (r\<lparr>ue_EpisodeUuid := u\<rparr>) = episode_view r"
  "episode_view (r\<lparr>ue_PodcastUuid := pod\<rparr>) = episode_view r"
  "episode_view (r\<lparr>ue_ModifiedAt := t\<rparr>) = episode_view r"
  by (simp_all add: episode_view_def)

lemma episode_row_eqI:
  assumes "episode_view r = episode_view r'" and "ue_UserID r = ue_UserID r'" and "ue_EpisodeUuid r = ue_EpisodeUuid r'"
    and "ue_PodcastUuid r = ue_PodcastUuid r'" and "ue_ModifiedAt r = ue_ModifiedAt r'"
  shows "r = r'"
  using assms by (simp add: episode_view_def)


lemma merge_fold_other:
  "ue_UserID (fold merge_episode_fields recs r) = ue_UserID r \<and>
   ue_EpisodeUuid (fold merge_episode_fields recs r) = ue_EpisodeUuid r \<and>
   ue_PodcastUuid (fold merge_episode_fields recs r) = ue_PodcastUuid r \<and>
   ue_ModifiedAt (fold merge_episode_fields recs r) = ue_ModifiedAt r"
  by (induction recs arbitrary: r) simp_all

lemma applyEpisodeRecord_row:
  assumes "healthy e" and "pg_uuid e '''' = None"
    and "pg_uuid e (sep_Uuid rec) = Some u" and "pg_uuid e (sep_PodcastUuid rec) = Some pod"
    and "old = (case episode_row st uid u of Some r \<Rightarrow> r | None \<Rightarrow> new_episode uid u)"
  shows "\<exists>st'. applyEpisodeRecord e uid token rec st = Inr st' \<and>
           episode_row st' uid u =
             Some ((merge_episode_fields rec old)\<lparr>ue_UserID := uid, ue_EpisodeUuid := u,
                     ue_PodcastUuid := pod, ue_ModifiedAt := token\<rparr>)"
proof -
  have ne: "sep_Uuid rec \<noteq> ''''" "sep_PodcastUuid rec \<noteq> ''''" using assms(2-4) by auto
  define found where "found = (case episode_row st uid u of Some r \<Rightarrow> r | None \<Rightarrow> new_episode uid (sep_Uuid rec))"
  define p where "p = (merge_episode_fields rec found)\<lparr>ue_UserID := uid, ue_EpisodeUuid := sep_Uuid rec,
    ue_ModifiedAt := token, ue_PodcastUuid := sep_PodcastUuid rec\<rparr>"
  have "episode_view (merge_episode_fields rec found) = episode_view (merge_episode_fields rec old)"
    unfolding merge_episode_view found_def assms(5)
    by (simp add: episode_view_def new_episode_def split: option.split)
  then have "p\<lparr>ue_EpisodeUuid := u, ue_PodcastUuid := pod\<rparr> =
      (merge_episode_fields rec old)\<lparr>ue_UserID := uid, ue_EpisodeUuid := u, ue_PodcastUuid := pod, ue_ModifiedAt := token\<rparr>"
    unfolding p_def by (intro episode_row_eqI) simp_all
  moreover have "applyEpisodeRecord e uid token rec st = UpsertUserEpisode e p st"
    using assms(1,3) ne
    by (simp add: applyEpisodeRecord_def GetUserEpisode_row or_no_rows_def p_def found_def Let_def
        upsertParamsFromRow_def split: option.split)
  moreover have "\<exists>st'. UpsertUserEpisode e p st = Inr st' \<and>
      episode_row st' uid u = Some (p\<lparr>ue_EpisodeUuid := u, ue_PodcastUuid := pod\<rparr>)"
    using UpsertUserEpisode_row [OF assms(1), of p u pod st] assms(3,4) by (simp add: p_def)
  ultimately show ?thesis by simp
qed

text \<open>
  C6.  Applying an episode record always succeeds when its identifiers are uuids, stamps
  the row with the token, and joins each of the six fields of the stored row (or of a
  fresh row with playing status 1) with the record's proposal: the newer stamp wins and
  the stored value wins a tie.
\<close>

theorem episode_record_is_lww_join:
  assumes "healthy e" and "env_ok e"
    and "pg_uuid e (sep_Uuid rec) = Some u" and "pg_uuid e (sep_PodcastUuid rec) = Some pod"
  shows "\<exists>st' row. applyEpisodeRecord e uid token rec st = Inr st' \<and> episode_row st' uid u = Some row \<and>
           ue_ModifiedAt row = token \<and> ue_PodcastUuid row = pod \<and>
           episode_view row =
             lww6 (episode_proposals rec)
               (episode_view (case episode_row st uid u of Some r \<Rightarrow> r | None \<Rightarrow> new_episode uid u))"
proof -
  have "pg_uuid e '''' = None" using assms(2) by (simp add: env_ok_def)
  from applyEpisodeRecord_row [OF assms(1) this assms(3,4) refl, of uid token st] show ?thesis
    unfolding merge_episode_view [symmetric] by auto
qed

definition demo_episode :: "int \<Rightarrow> int \<Rightarrow> bool \<Rightarrow> int \<Rightarrow> SyncUserEpisode" where
  "demo_episode pos tpos star tstar =
     \<lparr>sep_Uuid = ''E1'', sep_PodcastUuid = ''P1'', sep_IsDeleted = None, sep_IsDeletedModified = None,
      sep_Duration = None, sep_DurationModified = None, sep_PlayingStatus = None,
      sep_PlayingStatusModified = None, sep_PlayedUpTo = Some pos, sep_PlayedUpToModified = Some tpos,
      sep_Starred = Some star, sep_StarredModified = Some tstar, sep_DeselectedChapters = '''',
      sep_DeselectedChaptersModified = None\<rparr>"

theorem episode_record_is_lww_join_witness:
  "\<exists>st' row. applyEpisodeRecord demo_env 1 200 (demo_episode 30 7 True 9) demo_store = Inr st' \<and>
     episode_row st' 1 ''e1'' = Some row \<and> ue_PlayedUpTo row = 30 \<and> ue_Starred row"
proof -
  have "pg_uuid demo_env (sep_Uuid (demo_episode 30 7 True 9)) = Some ''e1''"
    "pg_uuid demo_env (sep_PodcastUuid (demo_episode 30 7 True 9)) = Some ''p1''"
    by code_simp+
  from episode_record_is_lww_join [OF demo_env_healthy demo_env_ok this, of 1 200 demo_store]
  show ?thesis
    by (auto simp: episode_view_def episode_proposals_def proposal_of_def demo_episode_def new_episode_def
        episode_row_def demo_store_def empty_store_def)
qed







subsection \<open>Bookmarks\<close>

lemmas merge_bookmark_push =
    let_push [of bm_Title] if_distrib [of bm_Title]
    let_push [of bm_TitleModified] if_distrib [of bm_TitleModified]
    let_push [of bm_IsDeleted] if_distrib [of bm_IsDeleted]
    let_push [of bm_IsDeletedModified] if_distrib [of bm_IsDeletedModified]
    let_push [of bm_Tags] if_distrib [of bm_Tags]
    let_push [of bm_TagsModified] if_distrib [of bm_TagsModified]
    let_push [of bm_PodcastUuid] if_distrib [of bm_PodcastUuid]
    let_push [of bm_EpisodeUuid] if_distrib [of bm_EpisodeUuid]
    let_push [of bm_TimeSecs] if_distrib [of bm_TimeSecs]
    let_push [of bm_CreatedAt] if_distrib [of bm_CreatedAt]
    let_push [of bm_Excerpt] if_distrib [of bm_Excerpt]
    let_push [of bm_EndTimeSecs] if_distrib [of bm_EndTimeSecs]
    let_push [of bm_TrimModified] if_distrib [of bm_TrimModified]

lemma merge_bookmark_sel:
  "bm_Title (merge_bookmark_fields rec r) =
     (if sbm_Title rec \<noteq> None \<and> modifiedAfter (sbm_TitleModified rec) (bm_TitleModified r)
      then GetValue [] (sbm_Title rec) else bm_Title r)"
  "bm_TitleModified (merge_bookmark_fields rec r) =
     (if sbm_Title rec \<noteq> None \<and> modifiedAfter (sbm_TitleModified rec) (bm_TitleModified r)
      then GetValue 0 (sbm_TitleModified rec) else bm_TitleModified r)"
  "bm_IsDeleted (merge_bookmark_fields rec r) =
     (if sbm_IsDeleted rec \<noteq> None \<and> modifiedAfter (sbm_IsDeletedModified rec) (bm_IsDeletedModified r)
      then GetValue False (sbm_IsDeleted rec) else bm_IsDeleted r)"
  "bm_IsDeletedModified (merge_bookmark_fields rec r) =
     (if sbm_IsDeleted rec \<noteq> None \<and> modifiedAfter (sbm_IsDeletedModified rec) (bm_IsDeletedModified r)
      then GetValue 0 (sbm_IsDeletedModified rec) else bm_IsDeletedModified r)"
  "bm_Tags (merge_bookmark_fields rec r) =
     (if modifiedAfter (sbm_TagsModified rec) (bm_TagsModified r) then Some (nil_slice (sbm_Tags rec))
      else Some (nil_slice (bm_Tags r)))"
  "bm_TagsModified (merge_bookmark_fields rec r) =
     (if modifiedAfter (sbm_TagsModified rec) (bm_TagsModified r) then GetValue 0 (sbm_TagsModified rec)
      else bm_TagsModified r)"
  by (simp_all add: merge_bookmark_fields_def merge_bookmark_push nil_slice_def
      split: option.split cong: if_cong)

lemma merge_bookmark_other [simp]:
  "bm_PodcastUuid (merge_bookmark_fields rec r) = bm_PodcastUuid r"
  "bm_EpisodeUuid (merge_bookmark_fields rec r) = bm_EpisodeUuid r"
  "bm_TimeSecs (merge_bookmark_fields rec r) = bm_TimeSecs r"
  "bm_CreatedAt (merge_bookmark_fields rec r) = bm_CreatedAt r"
  by (simp_all add: merge_bookmark_fields_def merge_bookmark_push nil_slice_def
      split: option.split cong: if_cong)

interpretation bm_title: lww_register
  "\<lambda>r. Some (bm_TitleModified r, bm_Title r)"
  "\<lambda>rec. proposal_of (sbm_Title rec) (sbm_TitleModified rec)" merge_bookmark_fields
  by unfold_locales
    (simp add: merge_bookmark_sel lww_proposal_of [where z = 0 and y = "[]"])

interpretation bm_deleted: lww_register
  "\<lambda>r. Some (bm_IsDeletedModified r, bm_IsDeleted r)"
  "\<lambda>rec. proposal_of (sbm_IsDeleted rec) (sbm_IsDeletedModified rec)" merge_bookmark_fields
  by unfold_locales
    (simp add: merge_bookmark_sel lww_proposal_of [where z = 0 and y = False])

text \<open>Tags are compared as sets of strings on the wire: nil and empty are the same.\<close>

interpretation bm_tags: lww_register
  "\<lambda>r. Some (bm_TagsModified r, nil_slice (bm_Tags r))"
  "\<lambda>rec. proposal_of (Some (nil_slice (sbm_Tags rec))) (sbm_TagsModified rec)" merge_bookmark_fields
  by unfold_locales
    (simp add: merge_bookmark_sel lww_proposal_of [where z = 0 and y = "[]"] nil_slice_def)

text \<open>The highlight window: excerpt, end time and trim stamp.\<close>

definition bm_window :: "Bookmark \<Rightarrow> string \<times> int \<times> int" where
  "bm_window r = (bm_Excerpt r, bm_EndTimeSecs r, bm_TrimModified r)"

lemma merge_window:
  "bm_window (merge_bookmark_fields rec r) =
     (if modifiedAfter (sbm_TrimModified rec) (bm_TrimModified r)
      then (GetValue [] (sbm_Excerpt rec), GetValue 0 (sbm_EndTime rec), GetValue 0 (sbm_TrimModified rec))
      else if sbm_TrimModified rec = None \<and> bm_TrimModified r = 0 \<and> bm_Excerpt r = [] \<and>
              GetValue [] (sbm_Excerpt rec) \<noteq> []
      then (GetValue [] (sbm_Excerpt rec), GetValue 0 (sbm_EndTime rec), bm_TrimModified r)
      else bm_window r)"
  by (simp add: bm_window_def merge_bookmark_fields_def merge_bookmark_push cong: if_cong)

lemma merge_bookmark_fold_other:
  "bm_PodcastUuid (fold merge_bookmark_fields recs r) = bm_PodcastUuid r \<and>
   bm_EpisodeUuid (fold merge_bookmark_fields recs r) = bm_EpisodeUuid r \<and>
   bm_TimeSecs (fold merge_bookmark_fields recs r) = bm_TimeSecs r \<and>
   bm_CreatedAt (fold merge_bookmark_fields recs r) = bm_CreatedAt r"
  by (induction recs arbitrary: r) simp_all

text \<open>
   A bookmark after any run of records: podcast, episode, position and creation time
  are those of the first record; title, deletion flag and tags are each the last-writer-wins
  join of the stored value and all the proposals of the run, where a title or a flag without
  a stamp proposes nothing and an absent tag list with a stamp proposes the empty one.
\<close>

theorem bookmark_run_is_lww_join:
  "bm_PodcastUuid (fold merge_bookmark_fields recs r) = bm_PodcastUuid r \<and>
   bm_EpisodeUuid (fold merge_bookmark_fields recs r) = bm_EpisodeUuid r \<and>
   bm_TimeSecs (fold merge_bookmark_fields recs r) = bm_TimeSecs r \<and>
   bm_CreatedAt (fold merge_bookmark_fields recs r) = bm_CreatedAt r \<and>
   (let r' = fold merge_bookmark_fields recs r
    in Some (bm_TitleModified r', bm_Title r') =
         fold lww (map (\<lambda>rec. proposal_of (sbm_Title rec) (sbm_TitleModified rec)) recs)
           (Some (bm_TitleModified r, bm_Title r)) \<and>
       Some (bm_IsDeletedModified r', bm_IsDeleted r') =
         fold lww (map (\<lambda>rec. proposal_of (sbm_IsDeleted rec) (sbm_IsDeletedModified rec)) recs)
           (Some (bm_IsDeletedModified r, bm_IsDeleted r)) \<and>
       Some (bm_TagsModified r', nil_slice (bm_Tags r')) =
         fold lww (map (\<lambda>rec. proposal_of (Some (nil_slice (sbm_Tags rec))) (sbm_TagsModified rec)) recs)
           (Some (bm_TagsModified r, nil_slice (bm_Tags r))))"
  unfolding Let_def bm_title.cur_fold bm_deleted.cur_fold bm_tags.cur_fold
  by (simp add: merge_bookmark_fold_other)

text \<open>
   Trims and enrichment in any order.  Once a user trim with a positive stamp has been
  applied, replaying any records without a trim stamp leaves the window as the trim set
  it, and of two trims the newer decides in either order.
\<close>

theorem bookmark_trim_is_final:
  assumes "sbm_TrimModified trim = Some t" and "bm_TrimModified r < t" and "0 < t"
    and "\<forall>rec \<in> set machine. sbm_TrimModified rec = None"
    and "sbm_TrimModified older = Some t'" and "t' < t"
  shows "bm_window (fold merge_bookmark_fields machine (merge_bookmark_fields trim r)) =
           (GetValue [] (sbm_Excerpt trim), GetValue 0 (sbm_EndTime trim), t) \<and>
         bm_window (merge_bookmark_fields older (merge_bookmark_fields trim r)) =
           bm_window (merge_bookmark_fields trim (merge_bookmark_fields older r))"
proof
  let ?w = "(GetValue [] (sbm_Excerpt trim), GetValue 0 (sbm_EndTime trim), t)"
  have start: "bm_window (merge_bookmark_fields trim r) = ?w"
    using assms(1,2) by (simp add: merge_window modifiedAfter_def)
  have "bm_window s = ?w \<Longrightarrow> bm_window (fold merge_bookmark_fields machine s) = ?w" for s
    using assms(4)
  proof (induction machine arbitrary: s)
    case Nil
    then show ?case by simp
  next
    case (Cons rec machine)
    have "bm_TrimModified s = t" using Cons.prems(1) by (simp add: bm_window_def)
    with Cons.prems assms(3) have "bm_window (merge_bookmark_fields rec s) = ?w"
      by (simp add: merge_window modifiedAfter_def)
    with Cons show ?case by simp
  qed
  with start show "bm_window (fold merge_bookmark_fields machine (merge_bookmark_fields trim r)) = ?w" by blast
  have trim1: "bm_TrimModified (merge_bookmark_fields trim r) = t" using start by (simp add: bm_window_def)
  have "bm_TrimModified (merge_bookmark_fields older r) < t"
    using merge_window [of older r] assms(2,5,6) by (auto simp: bm_window_def split: if_splits)
  then have "bm_window (merge_bookmark_fields trim (merge_bookmark_fields older r)) = ?w"
    using assms(1) by (simp add: merge_window modifiedAfter_def)
  moreover have "bm_window (merge_bookmark_fields older (merge_bookmark_fields trim r)) = ?w"
    using start trim1 assms(5,6) by (simp add: merge_window [of older] modifiedAfter_def)
  ultimately show "bm_window (merge_bookmark_fields older (merge_bookmark_fields trim r)) =
      bm_window (merge_bookmark_fields trim (merge_bookmark_fields older r))" by simp
qed

definition demo_bookmark :: "string option \<Rightarrow> int option \<Rightarrow> SyncUserBookmark" where
  "demo_bookmark excerpt trim =
     \<lparr>sbm_BookmarkUuid = ''b1'', sbm_PodcastUuid = ''p1'', sbm_EpisodeUuid = ''e1'', sbm_CreatedAt = None,
      sbm_Time = Some 12, sbm_Title = None, sbm_TitleModified = None, sbm_IsDeleted = None,
      sbm_IsDeletedModified = None, sbm_AiTitle = None, sbm_AiTitleModified = None, sbm_AiSummary = None,
      sbm_AiSummaryModified = None, sbm_Excerpt = excerpt, sbm_EndTime = Some 5, sbm_TrimModified = trim,
      sbm_Tags = None, sbm_TagsModified = None\<rparr>"

theorem bookmark_trim_is_final_witness:
  "bm_window (fold merge_bookmark_fields [demo_bookmark (Some ''machine'') None]
     (merge_bookmark_fields (demo_bookmark (Some ''mine'') (Some 9)) (new_bookmark 0 1 (demo_bookmark None None)))) =
   (''mine'', 5, 9)"
  using bookmark_trim_is_final [of "demo_bookmark (Some ''mine'') (Some 9)" 9
      "new_bookmark 0 1 (demo_bookmark None None)" "[demo_bookmark (Some ''machine'') None]"
      "demo_bookmark None (Some 3)" 3]
  by (simp add: demo_bookmark_def new_bookmark_def)

end
