(* ===== verification/Sync_Records.thy ===== *)
theory Sync_Records
  imports Sync_Delta Example_Env
begin

section \<open>Subscriptions, playlists, folders and milestones\<close>

text \<open>
  The records of \<^verbatim>\<open>src/syncsvc/engine.go\<close> that are not field-wise stamped: a subscription is
  updated partially, its settings key by key; a playlist and a folder are replaced as a
  whole; listening milestones are inserted once.
\<close>

subsection \<open>Per-podcast settings\<close>

lemma MergePodcastSettings_Inr:
  assumes "MergePodcastSettings e raw (Some fs) = Inr out"
  obtains stored j where "empty_json raw \<and> stored = [] \<or> \<not> empty_json raw \<and>
      unmarshal_settings e PodcastSettings_fields (the raw) = Inr stored"
    "marshal_settings e (fold merge_setting fs stored) = Inr j" "out = Some j"
  using assms by (auto simp: MergePodcastSettings_def res_simps Let_def split: if_splits sum.splits)

subsection \<open>Subscriptions\<close>

definition podcast_row :: "store \<Rightarrow> int \<Rightarrow> string \<Rightarrow> UserPodcast option" where
  "podcast_row st uid uuid = find (\<lambda>r. up_key r = (uid, uuid)) (st_user_podcasts st)"

definition kept :: "(UserPodcast \<Rightarrow> 'a) \<Rightarrow> 'a \<Rightarrow> UserPodcast option \<Rightarrow> 'a" where
  "kept f z old = (case old of None \<Rightarrow> z | Some r \<Rightarrow> f r)"

lemma podcast_params_fields:
  "up_IsDeleted (podcast_params e uid token rec old) = GetValue (kept up_IsDeleted False old) (sp_IsDeleted rec)"
  "up_Subscribed (podcast_params e uid token rec old) =
     (sp_IsDeleted rec \<noteq> Some True \<and> GetValue (kept up_Subscribed True old) (sp_Subscribed rec))"
  "up_AutoStartFrom (podcast_params e uid token rec old) =
     (if sp_AutoStartFrom rec \<noteq> None then sp_AutoStartFrom rec else kept up_AutoStartFrom None old)"
  "up_AutoSkipLast (podcast_params e uid token rec old) =
     (if sp_AutoSkipLast rec \<noteq> None then sp_AutoSkipLast rec else kept up_AutoSkipLast None old)"
  "up_EpisodesSortOrder (podcast_params e uid token rec old) =
     (if sp_EpisodesSortOrder rec \<noteq> None then sp_EpisodesSortOrder rec else kept up_EpisodesSortOrder None old)"
  "up_SortPosition (podcast_params e uid token rec old) =
     (if sp_SortPosition rec \<noteq> None then sp_SortPosition rec else kept up_SortPosition None old)"
  "up_FolderUuid (podcast_params e uid token rec old) =
     (if sp_FolderUuid rec \<noteq> None then sp_FolderUuid rec else kept up_FolderUuid None old)"
  "up_Settings (podcast_params e uid token rec old) = kept up_Settings (Some (JObject [])) old"
  "up_SyncedTitle (podcast_params e uid token rec old) =
     (if GetValue [] (sp_Title rec) \<noteq> [] then GetValue [] (sp_Title rec) else kept up_SyncedTitle [] old)"
  by (cases old; simp add: podcast_params_def podcast_base_def Let_def kept_def)+

lemma merged_podcast_fields:
  assumes "merged_podcast e rec p = Inr p'"
  shows "\<exists>s. p' = p\<lparr>up_Settings := s\<rparr> \<and>
           (case sp_Settings rec of None \<Rightarrow> s = up_Settings p
            | Some fs \<Rightarrow> MergePodcastSettings e (up_Settings p) (Some fs) = Inr s)"
proof (cases "sp_Settings rec")
  case None
  with assms show ?thesis by (intro exI [of _ "up_Settings p"]) (simp add: merged_podcast_def)
next
  case (Some fs)
  with assms show ?thesis by (auto simp: merged_podcast_def res_simps)
qed

lemma UpsertUserPodcast_row:
  assumes "UpsertUserPodcast e p st = Inr st'" and "pg_uuid e (up_PodcastUuid p) = Some u"
  shows "\<exists>folder settings.
    cast_uuid_null e (up_FolderUuid p) = Inr folder \<and> up_Settings p = Some settings \<and>
    podcast_row st' (up_UserID p) u =
      Some (let old = podcast_row st (up_UserID p) u in
        p\<lparr>up_PodcastUuid := u, up_FolderUuid := folder, up_NotifyEnabled := kept up_NotifyEnabled False old,
          up_DateAdded := map_option (pg_time e) (up_DateAdded p), up_Settings := Some (pg_jsonb e settings),
          up_SyncedTitle := (if up_SyncedTitle p \<noteq> [] then up_SyncedTitle p else kept up_SyncedTitle [] old),
          up_SyncedFeedUrl := (if up_SyncedFeedUrl p \<noteq> [] then up_SyncedFeedUrl p else kept up_SyncedFeedUrl [] old)\<rparr>)"
proof -
  obtain folder settings where fs: "cast_uuid_null e (up_FolderUuid p) = Inr folder" "up_Settings p = Some settings"
    using assms by (auto simp: UpsertUserPodcast_def Let_def rbind_Inr_iff stmt_Inr not_null_Inr)
  define new where "new = p\<lparr>up_PodcastUuid := u, up_FolderUuid := folder, up_NotifyEnabled := False,
    up_DateAdded := map_option (pg_time e) (up_DateAdded p), up_Settings := Some (pg_jsonb e settings)\<rparr>"
  define upd where "upd = (\<lambda>old :: UserPodcast. new\<lparr>up_NotifyEnabled := up_NotifyEnabled old,
    up_SyncedTitle := (if up_SyncedTitle new \<noteq> '''' then up_SyncedTitle new else up_SyncedTitle old),
    up_SyncedFeedUrl := (if up_SyncedFeedUrl new \<noteq> '''' then up_SyncedFeedUrl new else up_SyncedFeedUrl old)\<rparr>)"
  have st': "st' = st\<lparr>st_user_podcasts := upsert_row up_key new upd (st_user_podcasts st)\<rparr>"
    using assms fs
    by (auto simp: UpsertUserPodcast_def Let_def stmt_Inr cast_uuid_def not_null_def new_def upd_def
        cong: if_cong)
  have "up_key (upd x) = up_key new" for x by (simp add: upd_def up_key_def)
  then have "podcast_row st' (up_UserID p) u =
      Some (case podcast_row st (up_UserID p) u of None \<Rightarrow> new | Some x \<Rightarrow> upd x)"
    unfolding st' by (simp add: podcast_row_def upsert_find) (simp add: up_key_def new_def)
  then show ?thesis
    using fs by (auto simp: Let_def kept_def new_def upd_def split: option.split)
qed

lemma unknown_feed_Some:
  assumes "unknown_feed e rec p st = Inr (Some url)" and "healthy e"
  shows "up_Subscribed p \<and> \<not> up_IsDeleted p \<and> url = CanonicalFeedURL e (GetValue [] (sp_FeedUrl rec)) \<and>
         (\<forall>c \<in> set (st_podcasts st). pc_FeedUrl c \<noteq> url \<and> pg_uuid e (sp_Uuid rec) \<noteq> Some (pc_Uuid c))"
  using assms
  by (auto simp: unknown_feed_def Let_def res_simps or_no_rows_def GetPodcastByUUID_def GetPodcastByFeedURL_def
      select_one_def cast_uuid_def find_None_not split: if_splits sum.splits option.splits)

text \<open>
   A subscription record updates only what it carries.  After it the row of its podcast
  is stamped with the token; the deletion flag, and each option (start offset, end offset,
  episode order, list position), is the record's when present and the stored one otherwise;
  deleting also unsubscribes; a non-empty title replaces the stored one; the notification
  flag is never touched; without settings the stored settings stay.  A feed is reported as
  unknown only for a live subscription whose podcast and feed the catalog lacks.
\<close>

theorem podcast_record_partial_update:
  assumes "applyPodcastRecord e uid token rec (st, unknown) = Inr (st', unknown')"
    and "pg_uuid e (sp_Uuid rec) = Some u" and "sp_Uuid rec \<noteq> []" and "healthy e"
  shows "\<exists>row. podcast_row st' uid u = Some row \<and>
    (let old = podcast_row st uid u in
       up_ModifiedAt row = token \<and>
       up_IsDeleted row = GetValue (kept up_IsDeleted False old) (sp_IsDeleted rec) \<and>
       up_Subscribed row =
         (sp_IsDeleted rec \<noteq> Some True \<and> GetValue (kept up_Subscribed True old) (sp_Subscribed rec)) \<and>
       up_AutoStartFrom row =
         (if sp_AutoStartFrom rec \<noteq> None then sp_AutoStartFrom rec else kept up_AutoStartFrom None old) \<and>
       up_AutoSkipLast row =
         (if sp_AutoSkipLast rec \<noteq> None then sp_AutoSkipLast rec else kept up_AutoSkipLast None old) \<and>
       up_EpisodesSortOrder row =
         (if sp_EpisodesSortOrder rec \<noteq> None then sp_EpisodesSortOrder rec
          else kept up_EpisodesSortOrder None old) \<and>
       up_SortPosition row =
         (if sp_SortPosition rec \<noteq> None then sp_SortPosition rec else kept up_SortPosition None old) \<and>
       up_SyncedTitle row =
         (if GetValue [] (sp_Title rec) \<noteq> [] then GetValue [] (sp_Title rec) else kept up_SyncedTitle [] old) \<and>
       up_NotifyEnabled row = kept up_NotifyEnabled False old \<and>
       (sp_Settings rec = None \<longrightarrow>
          up_Settings row = map_option (pg_jsonb e) (kept up_Settings (Some (JObject [])) old)) \<and>
       (\<forall>url \<in> unknown' - unknown. up_Subscribed row \<and> \<not> up_IsDeleted row \<and>
          (\<forall>c \<in> set (st_podcasts st). pc_FeedUrl c \<noteq> url \<and> pc_Uuid c \<noteq> u)))"
proof -
  define old where "old = podcast_row st uid u"
  define p where "p = podcast_params e uid token rec old"
  have found: "or_no_rows (GetUserPodcast e uid (sp_Uuid rec) st) = Inr ex \<Longrightarrow> ex = old" for ex
    using assms(2,4)
    by (auto simp: or_no_rows_def GetUserPodcast_def cast_uuid_def select_one_def old_def podcast_row_def
        split: option.splits sum.splits if_splits)
  obtain url p' where u: "unknown_feed e rec p st = Inr url" and m: "merged_podcast e rec p = Inr p'"
    and ups: "UpsertUserPodcast e p' st = Inr st'"
    and unk: "unknown' = (case url of None \<Rightarrow> unknown | Some x \<Rightarrow> insert x unknown)"
    using assms(1,3) found by (auto simp: applyPodcastRecord_def res_simps Let_def p_def)
  obtain s where s: "p' = p\<lparr>up_Settings := s\<rparr>" "sp_Settings rec = None \<Longrightarrow> s = up_Settings p"
    using merged_podcast_fields [OF m] by (auto split: option.splits)
  have own: "up_PodcastUuid p' = sp_Uuid rec" "up_UserID p' = uid" "up_ModifiedAt p' = token"
    using s(1) by (simp_all add: p_def)
  obtain row where row: "podcast_row st' uid u = Some row" "up_ModifiedAt row = token"
    "up_IsDeleted row = up_IsDeleted p" "up_Subscribed row = up_Subscribed p"
    "up_AutoStartFrom row = up_AutoStartFrom p" "up_AutoSkipLast row = up_AutoSkipLast p"
    "up_EpisodesSortOrder row = up_EpisodesSortOrder p" "up_SortPosition row = up_SortPosition p"
    "up_NotifyEnabled row = kept up_NotifyEnabled False old"
    "up_SyncedTitle row = (if up_SyncedTitle p \<noteq> [] then up_SyncedTitle p else kept up_SyncedTitle [] old)"
    "up_Settings row = map_option (pg_jsonb e) s"
    using UpsertUserPodcast_row [OF ups] assms(2) own s(1) by (auto simp: Let_def old_def)
  have "\<forall>x \<in> unknown' - unknown. up_Subscribed row \<and> \<not> up_IsDeleted row \<and>
          (\<forall>c \<in> set (st_podcasts st). pc_FeedUrl c \<noteq> x \<and> pc_Uuid c \<noteq> u)"
    using u unk row(3,4) assms(2,4) by (cases url) (auto dest: unknown_feed_Some)
  then show ?thesis
    using row s(2) unfolding old_def [symmetric] Let_def p_def podcast_params_fields
    by (intro exI [of _ row]) auto
qed

definition demo_subscription :: "bool option \<Rightarrow> settings_msg option \<Rightarrow> SyncUserPodcast" where
  "demo_subscription deleted fs =
     \<lparr>sp_Uuid = ''P1'', sp_IsDeleted = deleted, sp_Subscribed = None, sp_AutoStartFrom = None,
      sp_EpisodesSortOrder = None, sp_AutoSkipLast = Some 5, sp_FolderUuid = None, sp_SortPosition = None,
      sp_DateAdded = None, sp_Settings = fs, sp_FeedUrl = None, sp_Title = Some ''A show''\<rparr>"

theorem podcast_record_partial_update_witness:
  "\<exists>row. podcast_row (fst (projr (applyPodcastRecord demo_env 1 200 (demo_subscription (Some True) None) (demo_store, {}))))
     1 ''p1'' = Some row \<and> up_AutoSkipLast row = Some 5 \<and> \<not> up_Subscribed row"
proof -
  let ?run = "applyPodcastRecord demo_env 1 200 (demo_subscription (Some True) None) (demo_store, {})"
  have "?run = Inr (fst (projr ?run), snd (projr ?run))" by code_simp
  moreover have "pg_uuid demo_env (sp_Uuid (demo_subscription (Some True) None)) = Some ''p1''" by code_simp
  ultimately show ?thesis
    using podcast_record_partial_update [of demo_env 1 200 "demo_subscription (Some True) None" demo_store "{}"
        "fst (projr ?run)" "snd (projr ?run)" "''p1''"] demo_env_healthy
    by (auto simp: Let_def demo_subscription_def)
qed

text \<open>
   The settings of a subscription are merged key by key.  When the merged document is
  stored and read back, every key has the newer of the stored and the incoming version, the
  stored one on a tie, and keys of only one side are kept.
\<close>

theorem podcast_settings_merge:
  assumes "env_ok e" and "settings_ok PodcastSettings_fields (decodePodcastSettings e raw)"
    and "settings_ok PodcastSettings_fields fs" and "MergePodcastSettings e raw (Some fs) = Inr (Some j)"
  shows "settings_ok PodcastSettings_fields (decodePodcastSettings e (Some (pg_jsonb e j))) \<and>
         map_of (decodePodcastSettings e (Some (pg_jsonb e j))) k =
           newer_setting (map_of fs k) (map_of (decodePodcastSettings e raw) k)"
proof (rule MergePodcastSettings_Inr [OF assms(4)])
  fix stored j'
  assume s: "empty_json raw \<and> stored = [] \<or> \<not> empty_json raw \<and>
      unmarshal_settings e PodcastSettings_fields (the raw) = Inr stored"
    and m: "marshal_settings e (fold merge_setting fs stored) = Inr j'" "Some j = Some j'"
  from s have "decodePodcastSettings e raw = stored" by (auto simp: decodePodcastSettings_def)
  with assms have "settings_ok PodcastSettings_fields (fold merge_setting fs stored)" by (intro merge_fold_ok) simp_all
  from settings_stored_read [OF assms(1) this m(1)] obtain m' where
    "decodePodcastSettings e (Some (pg_jsonb e j)) = m'" "settings_ok PodcastSettings_fields m'"
    "map_of m' = map_of (fold merge_setting fs stored)"
    using m(2) by (auto simp: decodePodcastSettings_def split: if_splits)
  moreover have "distinct (map fst fs)" using assms(3) by (simp add: settings_ok_def)
  ultimately show ?thesis
    using \<open>decodePodcastSettings e raw = stored\<close> by (simp add: merge_fold_map_of)
qed

definition demo_setting :: "int \<Rightarrow> bool \<Rightarrow> setting" where
  "demo_setting t b =
     \<lparr>set_FullName = BoolSetting, set_Value = Some (VBool b), set_Changed = None,
      set_ModifiedAt = Some \<lparr>ts_Seconds = t, ts_Nanos = 0\<rparr>\<rparr>"

theorem podcast_settings_merge_witness:
  "map_of (decodePodcastSettings demo_env (Some (pg_jsonb demo_env (the (projr (MergePodcastSettings demo_env
     (Some (JObject [(''auto_archive'', enc_setting (demo_setting 3 True))]))
     (Some [(''auto_archive'', demo_setting 4 False)]))))))) ''auto_archive'' = Some (demo_setting 4 False)"
proof -
  let ?raw = "Some (JObject [(''auto_archive'', enc_setting (demo_setting 3 True))])"
  let ?fs = "[(''auto_archive'', demo_setting 4 False)]"
  let ?out = "MergePodcastSettings demo_env ?raw (Some ?fs)"
  have run: "?out = Inr (Some (the (projr ?out)))" by code_simp
  have stored: "decodePodcastSettings demo_env ?raw = [(''auto_archive'', demo_setting 3 True)]" by code_simp
  have ok: "settings_ok PodcastSettings_fields (decodePodcastSettings demo_env ?raw)" "settings_ok PodcastSettings_fields ?fs"
    by code_simp+
  have "newer_setting (Some (demo_setting 4 False)) (Some (demo_setting 3 True)) = Some (demo_setting 4 False)"
    by code_simp
  then show ?thesis
    using podcast_settings_merge [OF demo_env_ok ok run, of "''auto_archive''"] unfolding stored by simp
qed

subsection \<open>Playlists and folders\<close>

lemma applyPlaylistRecord_row:
  assumes "env_ok e" and "healthy e" and "pg_uuid e (spl_Uuid pl) = Some u"
    and "encodePlaylistEpisodes e (spl_Episodes pl) = Inr raw"
  shows "\<exists>st' row. applyPlaylistRecord e uid token pl st = Inr st' \<and>
           find (\<lambda>r. pl_key r = (uid, u)) (st_playlists st') = Some row \<and> pl_ModifiedAt row = token \<and>
           playlistToProto e row =
             pl\<lparr>spl_Uuid := u, spl_IsDeleted := Some (GetValue False (spl_IsDeleted pl)),
                spl_Title := Some (GetValue [] (spl_Title pl)),
                spl_CustomQuery := Some (GetValue [] (spl_CustomQuery pl))\<rparr>"
proof -
  have ne: "spl_Uuid pl \<noteq> []" using assms(1,3) by (auto simp: env_ok_def)
  obtain j where j: "raw = Some j" using assms(4) by (auto simp: encodePlaylistEpisodes_def res_simps)
  define row where "row = (playlist_params uid token pl raw)\<lparr>pl_Uuid := u, pl_Episodes := Some (pg_jsonb e j)\<rparr>"
  have "applyPlaylistRecord e uid token pl st =
          Inr (st\<lparr>st_playlists := upsert_row pl_key row (\<lambda>_. row) (st_playlists st)\<rparr>)"
    using assms(2-4) ne j
    by (simp add: applyPlaylistRecord_def UpsertPlaylist_def cast_uuid_def not_null_def Let_def row_def playlist_params_def)
  moreover have "pl_key row = (uid, u)" "pl_ModifiedAt row = token"
    by (simp_all add: row_def pl_key_def playlist_params_def)
  moreover have "playlistToProto e row =
      pl\<lparr>spl_Uuid := u, spl_IsDeleted := Some (GetValue False (spl_IsDeleted pl)),
         spl_Title := Some (GetValue [] (spl_Title pl)), spl_CustomQuery := Some (GetValue [] (spl_CustomQuery pl))\<rparr>"
    using playlist_episodes_roundtrip [OF assms(1)] assms(4) j
    by (simp add: playlistToProto_def row_def playlist_params_def nil_slice_def)
  ultimately show ?thesis
    by (simp add: upsert_find [of pl_key row "\<lambda>_. row"] split: option.split)
qed

lemma applyFolderRecord_row:
  assumes "env_ok e" and "healthy e" and "pg_uuid e (sfo_FolderUuid fo) = Some f"
  shows "\<exists>st' row. applyFolderRecord e uid token fo st = Inr st' \<and>
           find (\<lambda>r. fo_key r = (uid, f)) (st_folders st') = Some row \<and> fo_ModifiedAt row = token \<and>
           folderToProto row =
             fo\<lparr>sfo_FolderUuid := f,
                sfo_DateAdded := map_option (\<lambda>ts. timestamppb_New (pg_time e (AsTime ts))) (sfo_DateAdded fo)\<rparr>"
proof -
  have ne: "sfo_FolderUuid fo \<noteq> []" using assms(1,3) by (auto simp: env_ok_def)
  define row where "row = (folder_params uid token fo)\<lparr>fo_FolderUuid := f,
    fo_DateAdded := map_option (pg_time e) (timePtrFromProto (sfo_DateAdded fo))\<rparr>"
  have "applyFolderRecord e uid token fo st =
          Inr (st\<lparr>st_folders := upsert_row fo_key row (\<lambda>_. row) (st_folders st)\<rparr>)"
    using assms(2,3) ne by (simp add: applyFolderRecord_def UpsertFolder_def cast_uuid_def Let_def row_def folder_params_def)
  moreover have "fo_key row = (uid, f)" "fo_ModifiedAt row = token"
    by (simp_all add: row_def fo_key_def folder_params_def)
  moreover have "folderToProto row = fo\<lparr>sfo_FolderUuid := f,
      sfo_DateAdded := map_option (\<lambda>ts. timestamppb_New (pg_time e (AsTime ts))) (sfo_DateAdded fo)\<rparr>"
    by (simp add: folderToProto_def row_def folder_params_def timePtrFromProto_def protoFromTimePtr_def split: option.split)
  ultimately show ?thesis
    by (simp add: upsert_find [of fo_key row "\<lambda>_. row"] split: option.split)
qed

text \<open>
   Playlists and folders come back as they were sent.  A record whose identifier is a
  uuid is stored, and the stored row is echoed to every device as the record itself, with
  the identifier in canonical form, absent title, query and flag of a playlist as the empty
  ones, and the date of a folder at the precision of the database.
\<close>

theorem playlist_and_folder_echo:
  assumes "env_ok e" and "healthy e" and "pg_uuid e (spl_Uuid pl) = Some u" and "pg_uuid e (sfo_FolderUuid fo) = Some f"
    and "encodePlaylistEpisodes e (spl_Episodes pl) = Inr raw"
  shows "(\<exists>st' row. applyPlaylistRecord e uid token pl st = Inr st' \<and>
            find (\<lambda>r. pl_key r = (uid, u)) (st_playlists st') = Some row \<and> pl_ModifiedAt row = token \<and>
            playlistToProto e row =
              pl\<lparr>spl_Uuid := u, spl_IsDeleted := Some (GetValue False (spl_IsDeleted pl)),
                 spl_Title := Some (GetValue [] (spl_Title pl)),
                 spl_CustomQuery := Some (GetValue [] (spl_CustomQuery pl))\<rparr>) \<and>
         (\<exists>st' row. applyFolderRecord e uid token fo st = Inr st' \<and>
            find (\<lambda>r. fo_key r = (uid, f)) (st_folders st') = Some row \<and> fo_ModifiedAt row = token \<and>
            folderToProto row =
              fo\<lparr>sfo_FolderUuid := f,
                 sfo_DateAdded := map_option (\<lambda>ts. timestamppb_New (pg_time e (AsTime ts))) (sfo_DateAdded fo)\<rparr>)"
  using applyPlaylistRecord_row [OF assms(1-3,5)] applyFolderRecord_row [OF assms(1,2,4)] by blast

definition demo_playlist :: SyncUserPlaylist where
  "demo_playlist =
     \<lparr>spl_Uuid = ''L1'', spl_IsDeleted = None, spl_Title = Some ''Commute'', spl_AllPodcasts = None,
      spl_PodcastUuids = None, spl_EpisodeUuids = None, spl_AudioVideo = None, spl_NotDownloaded = None,
      spl_Downloaded = None, spl_Downloading = None, spl_Finished = None, spl_PartiallyPlayed = None,
      spl_Unplayed = None, spl_Starred = None, spl_Manual = Some True, spl_SortPosition = Some 2,
      spl_SortType = None, spl_IconId = None, spl_FilterHours = None, spl_OriginalUuid = ''L1'',
      spl_FilterDuration = None, spl_LongerThan = None, spl_ShorterThan = None, spl_EpisodeOrder = [''e1''],
      spl_Episodes = [\<lparr>spe_Episode = ''e1'', spe_Podcast = ''p1'', spe_Added = Some 3, spe_Published = None,
        spe_Title = Some ''One'', spe_Url = None, spe_PodcastSlug = None, spe_EpisodeSlug = None\<rparr>],
      spl_ShowArchived = None, spl_CustomQuery = None\<rparr>"

definition demo_folder_record :: SyncUserFolder where
  "demo_folder_record =
     \<lparr>sfo_FolderUuid = ''F1'', sfo_IsDeleted = False, sfo_Name = ''News'', sfo_Color = 3, sfo_SortPosition = 0,
      sfo_PodcastsSortType = 1, sfo_DateAdded = None\<rparr>"

theorem playlist_and_folder_echo_witness:
  "\<exists>st' row. applyPlaylistRecord demo_env 1 200 demo_playlist demo_store = Inr st' \<and>
     find (\<lambda>r. pl_key r = (1, ''l1'')) (st_playlists st') = Some row \<and>
     spl_Episodes (playlistToProto demo_env row) = spl_Episodes demo_playlist"
proof -
  let ?raw = "encodePlaylistEpisodes demo_env (spl_Episodes demo_playlist)"
  have "pg_uuid demo_env (spl_Uuid demo_playlist) = Some ''l1''" "?raw = Inr (projr ?raw)"
    "pg_uuid demo_env (sfo_FolderUuid demo_folder_record) = Some ''f1''"
    by code_simp+
  then show ?thesis
    using playlist_and_folder_echo [OF demo_env_ok demo_env_healthy, of demo_playlist "''l1''" demo_folder_record
        "''f1''" "projr ?raw" 1 200 demo_store]
    by auto
qed

subsection \<open>Milestones\<close>

text \<open>The kinds and tiers a user's listening totals reach.\<close>

definition crossed :: "int \<Rightarrow> store \<Rightarrow> (int \<times> int) set" where
  "crossed uid st =
     (let rows = filter (\<lambda>r. ue_UserID r = uid) (st_user_episodes st)
      in {(1, t) | t. t \<in> set milestoneTiers \<and> t * 3600 \<le> sum_list (map listened rows)} \<union>
         {(2, t) | t. t \<in> set milestoneTiers \<and> t \<le> int (length (filter (\<lambda>r. ue_PlayingStatus r = 3) rows))})"

lemma insert_new_fold:
  "set t \<subseteq> set (fold (insert_new key) rs t) \<and>
   key ` set (fold (insert_new key) rs t) = key ` set t \<union> key ` set rs \<and>
   set (fold (insert_new key) rs t) \<subseteq> set t \<union> set rs"
proof (induction rs arbitrary: t)
  case Nil
  then show ?case by simp
next
  case (Cons r rs)
  from Cons [of "insert_new key r t"] show ?case by (auto simp: insert_new_def split: if_splits)
qed

lemma insert_new_fold_known: "key ` set rs \<subseteq> key ` set t \<Longrightarrow> fold (insert_new key) rs t = t"
  by (induction rs) (auto simp: insert_new_def)

definition milestone_rows :: "instant \<Rightarrow> int \<Rightarrow> int \<Rightarrow> int \<Rightarrow> int list \<Rightarrow> SocialMilestone list" where
  "milestone_rows at uid hours episodes tiers =
     concat (map (\<lambda>t. (if t \<le> hours then [\<lparr>ms_UserID = uid, ms_Kind = 1, ms_Tier = t, ms_CrossedAt = at\<rparr>] else []) @
       (if t \<le> episodes then [\<lparr>ms_UserID = uid, ms_Kind = 2, ms_Tier = t, ms_CrossedAt = at\<rparr>] else [])) tiers)"

lemma milestone_fold:
  assumes "healthy e" and "\<forall>t \<in> set tiers. 0 \<le> t \<and> t < 2 ^ 31"
  shows "rfold (milestone_tier e now uid existing hours episodes) tiers st =
    Inr (st\<lparr>st_milestones := fold (insert_new ms_key)
      (milestone_rows (if existing = 0 then now - eight_days else now) uid hours episodes tiers) (st_milestones st)\<rparr>)"
  using assms(2)
proof (induction tiers arbitrary: st)
  case Nil
  then show ?case by (simp add: milestone_rows_def)
next
  case (Cons t tiers)
  then have "int32 t = t" by (intro int32_self) simp_all
  with Cons assms(1) show ?case
    by (simp add: milestone_tier_def insert_milestone_def InsertMilestone_def InsertMilestoneBackdated_def
        milestoneKindHours_def milestoneKindEpisodes_def milestone_rows_def)
qed

lemma milestone_rows_keys:
  "ms_key ` set (milestone_rows at uid hours episodes tiers) =
     {(uid, 1, t) | t. t \<in> set tiers \<and> t \<le> hours} \<union> {(uid, 2, t) | t. t \<in> set tiers \<and> t \<le> episodes}"
  by (induction tiers) (auto simp: milestone_rows_def ms_key_def)

lemma milestone_rows_at:
  "r \<in> set (milestone_rows at uid hours episodes tiers) \<Longrightarrow> ms_UserID r = uid \<and> ms_CrossedAt r = at"
  by (auto simp: milestone_rows_def split: if_splits)

lemma hours_reached: "0 < t \<Longrightarrow> t \<le> go_div secs 3600 \<longleftrightarrow> t * 3600 \<le> secs"
  using go_div_neg [of secs 3600] by (cases "0 \<le> secs") (auto simp: go_div_nonneg)

lemma tiers_positive: "\<forall>t \<in> set milestoneTiers. 0 < t \<and> t < 2 ^ 31"
  by (simp add: milestoneTiers_def)

text \<open>A detection inserts the crossed tiers, all with one date.\<close>

lemma detectMilestones_Inr:
  assumes "healthy e" and "detectMilestones e now uid st = Inr st'"
  obtains rows where "st' = st\<lparr>st_milestones := fold (insert_new ms_key) rows (st_milestones st)\<rparr>"
    "ms_key ` set rows = {(uid, k, t) | k t. (k, t) \<in> crossed uid st}"
    "\<And>r. r \<in> set rows \<Longrightarrow> ms_UserID r = uid \<and>
       ms_CrossedAt r = (if \<exists>m \<in> set (st_milestones st). ms_UserID m = uid then now else now - eight_days)"
    "\<exists>totals. GetListeningTotals e uid st = Inr totals"
proof -
  define existing where "existing = int (length (filter (\<lambda>r. ms_UserID r = uid) (st_milestones st)))"
  obtain totals where totals: "GetListeningTotals e uid st = Inr totals"
    using assms(2) by (auto simp: detectMilestones_def res_simps)
  define eps where "eps = filter (\<lambda>r. ue_UserID r = uid) (st_user_episodes st)"
  have t: "lt_ListenedSeconds totals = sum_list (map listened eps)"
    "lt_EpisodesFinished totals = int (length (filter (\<lambda>r. ue_PlayingStatus r = 3) eps))"
    using totals by (auto simp: GetListeningTotals_def Let_def res_simps cast_bigint_def cast_int_def eps_def split: if_splits)
  define rows where "rows = milestone_rows (if existing = 0 then now - eight_days else now) uid
    (go_div (lt_ListenedSeconds totals) 3600) (lt_EpisodesFinished totals) milestoneTiers"
  show thesis
  proof (rule that)
    show "st' = st\<lparr>st_milestones := fold (insert_new ms_key) rows (st_milestones st)\<rparr>"
      using assms totals tiers_positive
      by (simp add: detectMilestones_def CountMilestonesForUser_def milestone_fold rows_def existing_def less_imp_le)
    show "ms_key ` set rows = {(uid, k, t) | k t. (k, t) \<in> crossed uid st}"
      using tiers_positive unfolding rows_def milestone_rows_keys crossed_def Let_def eps_def [symmetric] t
      by (auto simp: hours_reached)
    have "existing = 0 \<longleftrightarrow> \<not> (\<exists>m \<in> set (st_milestones st). ms_UserID m = uid)"
      by (auto simp: existing_def filter_empty_conv)
    then show "ms_UserID r = uid \<and>
        ms_CrossedAt r = (if \<exists>m \<in> set (st_milestones st). ms_UserID m = uid then now else now - eight_days)"
      if "r \<in> set rows" for r
      using milestone_rows_at [OF that [unfolded rows_def]] by auto
  qed (use totals in blast)
qed

lemma crossed_milestones [simp]: "crossed uid (st\<lparr>st_milestones := t\<rparr>) = crossed uid st"
  by (simp add: crossed_def)

text \<open>
   Milestones are exactly the tiers that the listening totals reach, each recorded
  once.  A detection adds the crossed tiers that were missing and keeps every earlier row
  with its date; the rows it adds are dated eight days back when they are the user's first
  ones, and now otherwise; a second detection changes nothing.
\<close>

theorem milestones_exact:
  assumes "healthy e" and "detectMilestones e now uid st = Inr st'"
  shows "(\<forall>k t. (uid, k, t) \<in> ms_key ` set (st_milestones st') \<longleftrightarrow>
            (uid, k, t) \<in> ms_key ` set (st_milestones st) \<or> (k, t) \<in> crossed uid st) \<and>
         set (st_milestones st) \<subseteq> set (st_milestones st') \<and>
         (\<forall>r \<in> set (st_milestones st') - set (st_milestones st). ms_UserID r = uid \<and>
            ms_CrossedAt r = (if \<exists>m \<in> set (st_milestones st). ms_UserID m = uid then now else now - eight_days)) \<and>
         detectMilestones e now' uid st' = Inr st'"
proof (rule detectMilestones_Inr [OF assms])
  fix rows
  assume st': "st' = st\<lparr>st_milestones := fold (insert_new ms_key) rows (st_milestones st)\<rparr>"
    and keys: "ms_key ` set rows = {(uid, k, t) | k t. (k, t) \<in> crossed uid st}"
    and at: "\<And>r. r \<in> set rows \<Longrightarrow> ms_UserID r = uid \<and>
      ms_CrossedAt r = (if \<exists>m \<in> set (st_milestones st). ms_UserID m = uid then now else now - eight_days)"
    and totals: "\<exists>totals. GetListeningTotals e uid st = Inr totals"
  note fold = insert_new_fold [of "st_milestones st" ms_key rows]
  have "\<exists>st''. detectMilestones e now' uid st' = Inr st''"
    using totals assms(1) tiers_positive
    by (auto simp: st' detectMilestones_def CountMilestonesForUser_def milestone_fold less_imp_le GetListeningTotals_def)
  then obtain st'' where again: "detectMilestones e now' uid st' = Inr st''" ..
  have "st'' = st'"
  proof (rule detectMilestones_Inr [OF assms(1) again])
    fix rows'
    assume "st'' = st'\<lparr>st_milestones := fold (insert_new ms_key) rows' (st_milestones st')\<rparr>"
      and "ms_key ` set rows' = {(uid, k, t) | k t. (k, t) \<in> crossed uid st'}"
    with fold keys show ?thesis by (simp add: insert_new_fold_known st')
  qed
  moreover have "\<forall>r \<in> set (st_milestones st') - set (st_milestones st). ms_UserID r = uid \<and>
      ms_CrossedAt r = (if \<exists>m \<in> set (st_milestones st). ms_UserID m = uid then now else now - eight_days)"
  proof
    fix r
    assume "r \<in> set (st_milestones st') - set (st_milestones st)"
    with fold have "r \<in> set rows" by (auto simp: st')
    then show "ms_UserID r = uid \<and>
        ms_CrossedAt r = (if \<exists>m \<in> set (st_milestones st). ms_UserID m = uid then now else now - eight_days)"
      by (rule at)
  qed
  moreover have "\<forall>k t. (uid, k, t) \<in> ms_key ` set (st_milestones st') \<longleftrightarrow>
      (uid, k, t) \<in> ms_key ` set (st_milestones st) \<or> (k, t) \<in> crossed uid st"
    using fold keys by (simp add: st')
  moreover have "set (st_milestones st) \<subseteq> set (st_milestones st')" using fold by (simp add: st')
  ultimately show ?thesis using again by (intro conjI) simp_all
qed

text \<open>Forty thousand seconds listened, one episode finished: the ten-hour tier.\<close>

definition milestone_store :: store where
  "milestone_store =
     demo_store\<lparr>st_user_episodes :=
       [(new_episode 1 ''e1'')\<lparr>ue_PlayedUpTo := 40000, ue_PlayingStatus := 3, ue_PodcastUuid := ''p1''\<rparr>]\<rparr>"

theorem milestones_exact_witness:
  "(1, 1, 10) \<in> ms_key ` set (st_milestones (projr (detectMilestones demo_env 500 1 milestone_store))) \<and>
   (1, 1, 50) \<notin> ms_key ` set (st_milestones (projr (detectMilestones demo_env 500 1 milestone_store)))"
proof -
  let ?run = "detectMilestones demo_env 500 1 milestone_store"
  have "?run = Inr (projr ?run)" by code_simp
  moreover have "(1, 10) \<in> crossed 1 milestone_store" "(1, 50) \<notin> crossed 1 milestone_store"
    "st_milestones milestone_store = []"
    by (simp_all add: crossed_def milestoneTiers_def listened_def milestone_store_def demo_store_def empty_store_def
        new_episode_def)
  ultimately show ?thesis
    using milestones_exact [OF demo_env_healthy, of 500 1 milestone_store "projr ?run" 600] by simp
qed

end
