(* ===== verification/Sync_Lists.thy ===== *)
theory Sync_Lists
  imports Sync_UpNext Sync_History Sync_Updates Example_Env
begin

section \<open>What the Up Next and history endpoints promise\<close>

text \<open>
  End-to-end statements on \<^verbatim>\<open>SyncUpNext\<close> and \<^verbatim>\<open>SyncHistory\<close>: the queue that a request computes is
  the queue that is stored and answered; the history of a user is the newest hundred of the
  merged items.
\<close>

subsection \<open>Up Next\<close>

text \<open>
  C8.  The queue after one change.  Removing drops the episode; playing now, next or last
  puts it first, second (first in an empty queue) or last after dropping an earlier
  occurrence, and keeps the order of the rest; replacing takes the named episodes only; any
  other action, and playing an episode without identifier, leaves the queue.  The in-place
  edits of the code compute the same lists, and no change but a replacement can make an
  episode occur twice.
\<close>

theorem up_next_change_effect:
  "applyUpNextChange uid change queue =
     (let rest = filter (\<lambda>x. un_EpisodeUuid x \<noteq> ch_Uuid change) queue; item = change_item uid change in
      if ch_Action change = 5 then
        map (replacement_item uid) (filter (\<lambda>ep. uer_Uuid ep \<noteq> []) (ch_Episodes change))
      else if ch_Action change = 4 then rest
      else if ch_Uuid change = [] then queue
      else if ch_Action change = 1 then item # rest
      else if ch_Action change = 2 then take 1 rest @ item # drop 1 rest
      else if ch_Action change = 3 then rest @ [item]
      else queue) \<and>
   (ch_Action change \<noteq> 5 \<longrightarrow> distinct (map un_EpisodeUuid queue) \<longrightarrow>
      distinct (map un_EpisodeUuid (applyUpNextChange uid change queue)))"
proof
  show "ch_Action change \<noteq> 5 \<longrightarrow> distinct (map un_EpisodeUuid queue) \<longrightarrow>
      distinct (map un_EpisodeUuid (applyUpNextChange uid change queue))"
    using applyUpNextChange_distinct [of change queue uid] by (simp add: action_defs)
qed (use applyUpNextChange_cases [OF refl, of change uid queue] in
  \<open>auto simp: Let_def action_defs applyUpNextChange_def removeFromQueue_eq\<close>)

definition demo_item :: "string \<Rightarrow> UpNextItem" where
  "demo_item uuid = zero_item\<lparr>un_UserID := 1, un_EpisodeUuid := uuid, un_PodcastUuid := ''p1''\<rparr>"

definition demo_change :: "int \<Rightarrow> string \<Rightarrow> int \<Rightarrow> UpNextChange" where
  "demo_change action uuid modified =
     \<lparr>ch_Uuid = uuid, ch_Action = action, ch_Modified = modified, ch_Title = '''', ch_Url = '''', ch_Podcast = ''p1'',
      ch_Episodes = [], ch_Published = None\<rparr>"

theorem up_next_change_effect_witness:
  "map un_EpisodeUuid (applyUpNextChange 1 (demo_change 2 ''c'' 9) (map demo_item [''a'', ''b'', ''c''])) =
     [''a'', ''c'', ''b''] \<and>
   distinct (map un_EpisodeUuid (applyUpNextChange 1 (demo_change 2 ''c'' 9) (map demo_item [''a'', ''b'', ''c''])))"
  using up_next_change_effect [of 1 "demo_change 2 ''c'' 9" "map demo_item [''a'', ''b'', ''c'']"]
  by (simp add: demo_change_def demo_item_def zero_item_def change_item_def Let_def)

text \<open>An item as the answer shows it after it was stored.\<close>

definition echoed_item :: "env \<Rightarrow> UpNextItem \<Rightarrow> UpNextEpisodeResponse" where
  "echoed_item e item =
     \<lparr>uep_Title = un_Title item, uep_Url = un_Url item, uep_Podcast = un_PodcastUuid item,
      uep_Uuid = the (pg_uuid e (un_EpisodeUuid item)),
      uep_Published = protoFromTimePtr (map_option (pg_time e) (un_Published item))\<rparr>"

lemma map_stored_item:
  "map upnext_episode (map (stored_item e now uid) (enumerate n queue)) = map (echoed_item e) queue"
  by (induction queue arbitrary: n) (simp_all add: stored_item_def upnext_episode_def echoed_item_def)

lemma user_row_stable:
  assumes "GetUserForUpdate e uid st = Inr user" and "healthy e"
    and "\<And>u. u_ID (f u) = u_ID u" and "\<And>u. u_DeletedAt (f u) = u_DeletedAt u"
  shows "GetUserForUpdate e uid (st'\<lparr>st_users := update_where (\<lambda>u. u_ID u = uid) f (st_users st)\<rparr>) = Inr (f user)"
proof -
  have "find (\<lambda>u. u_ID u = uid \<and> u_DeletedAt u = None) us = Some user \<Longrightarrow>
        find (\<lambda>u. u_ID u = uid \<and> u_DeletedAt u = None) (update_where (\<lambda>u. u_ID u = uid) f us) = Some (f user)" for us
    using assms(3,4) by (induction us) (auto simp: update_where_def split: if_splits)
  with assms(1,2) show ?thesis by (simp add: GetUserForUpdate_def select_one_Inr)
qed

lemma up_next_tx_changes:
  assumes "healthy e" and "GetUserForUpdate e uid st = Inr user" and "GetUpNextItems e uid st = Inr queue"
    and "unr_Changes req = Some changes" and "changes \<noteq> []" and "\<not> unr_ShowPlayStatus req"
    and "target = apply_changes uid changes queue"
    and "queue_ok e target" and "length target < 2 ^ 31"
    and "token = NextToken (ck_ms ck 0) (u_UpNextModified user)"
  shows "\<exists>st'. up_next_tx e ck uid req st =
           Inr (\<lparr>unp_ServerModified = token, unp_Episodes = map (echoed_item e) target, unp_EpisodeSync = []\<rparr>, st') \<and>
         GetUserForUpdate e uid st' = Inr (user\<lparr>u_UpNextModified := token\<rparr>) \<and>
         GetUpNextItems e uid st' = Inr (map (stored_item e (ck_db ck) uid) (enumerate 0 target))"
proof -
  define st1 where "st1 = st\<lparr>st_up_next := delete_where (\<lambda>r. un_UserID r = uid) (st_up_next st)
    @ map (stored_item e (ck_db ck) uid) (enumerate 0 target)\<rparr>"
  define st' where "st' = st1\<lparr>st_users := update_where (\<lambda>u. u_ID u = uid) (\<lambda>u. u\<lparr>u_UpNextModified := token\<rparr>) (st_users st)\<rparr>"
  have rw: "rewriteUpNextQueue e (ck_db ck) uid target st = Inr st1"
    using rewrite_eq [OF assms(1,8)] by (simp add: st1_def)
  have "GetUpNextItems e uid st1 = Inr (map (stored_item e (ck_db ck) uid) (enumerate 0 target))"
    by (rule rewrite_read [OF assms(1,8,9) rw])
  then have read: "GetUpNextItems e uid st' = Inr (map (stored_item e (ck_db ck) uid) (enumerate 0 target))"
    by (simp add: st'_def GetUpNextItems_def)
  have "SetUserUpNextModified e uid token st1 = Inr st'"
    using assms(1) by (simp add: SetUserUpNextModified_def st'_def st1_def)
  then have "up_next_tx e ck uid req st =
      Inr (\<lparr>unp_ServerModified = token, unp_Episodes = map (echoed_item e) target, unp_EpisodeSync = []\<rparr>, st')"
    using assms rw read by (simp add: up_next_tx_def Let_def map_stored_item del: map_map)
  moreover have "GetUserForUpdate e uid st' = Inr (user\<lparr>u_UpNextModified := token\<rparr>)"
    unfolding st'_def by (rule user_row_stable [OF assms(2,1)]) simp_all
  ultimately show ?thesis using read by blast
qed

text \<open>
  C9.  A sync of the queue succeeds when the resulting episodes are distinct uuids.  The
  answer is the result of applying the changes in the order of their time stamps (in the
  order of the request where these are equal) to the stored queue, with a new server stamp;
  the stored positions are consecutive from zero, and every later request without changes
  gets the same queue and the same stamp.
\<close>

theorem up_next_round_trip:
  assumes "healthy e" and "GetUserForUpdate e uid st = Inr user" and "GetUpNextItems e uid st = Inr queue"
    and "unr_Changes req = Some changes" and "changes \<noteq> []" and "\<not> unr_ShowPlayStatus req"
    and "target = fold (applyUpNextChange uid) (sort_key ch_Modified changes) queue"
    and "queue_ok e target" and "length target < 2 ^ 31"
  shows "\<exists>st' stored.
    SyncUpNext e ck uid req st =
      (Inr \<lparr>unp_ServerModified = NextToken (ck_ms ck 0) (u_UpNextModified user),
            unp_Episodes = map (echoed_item e) target, unp_EpisodeSync = []\<rparr>, st') \<and>
    GetUpNextItems e uid st' = Inr stored \<and> map un_Position stored = map int [0..<length target] \<and>
    SyncUpNext e ck' uid \<lparr>unr_Changes = None, unr_ShowPlayStatus = False\<rparr> st' =
      (Inr \<lparr>unp_ServerModified = NextToken (ck_ms ck 0) (u_UpNextModified user),
            unp_Episodes = map (echoed_item e) target, unp_EpisodeSync = []\<rparr>, st')"
proof -
  define token where "token = NextToken (ck_ms ck 0) (u_UpNextModified user)"
  define stored where "stored = map (stored_item e (ck_db ck) uid) (enumerate 0 target)"
  define resp where "resp = \<lparr>unp_ServerModified = token, unp_Episodes = map (echoed_item e) target, unp_EpisodeSync = []\<rparr>"
  have fault: "pg_fault e x = None" for x using assms(1) by (simp add: healthy_def)
  obtain st' where tx: "up_next_tx e ck uid req st = Inr (resp, st')"
      "GetUserForUpdate e uid st' = Inr (user\<lparr>u_UpNextModified := token\<rparr>)"
      "GetUpNextItems e uid st' = Inr stored"
    using up_next_tx_changes [OF assms(1-6) assms(7) [folded apply_changes_def] assms(8,9) token_def]
    by (auto simp: stored_def resp_def)
  have "up_next_tx e ck' uid \<lparr>unr_Changes = None, unr_ShowPlayStatus = False\<rparr> st' = Inr (resp, st')"
    using tx(2,3) by (simp add: up_next_tx_def Let_def stored_def map_stored_item resp_def del: map_map)
  moreover have "map un_Position stored = map int [0..<length target]"
    using assms(9) by (intro nth_equalityI) (auto simp: stored_def stored_item_def nth_enumerate_eq int32_self)
  ultimately show ?thesis
    unfolding token_def [symmetric] resp_def [symmetric]
    using tx by (intro exI [of _ st'] exI [of _ stored]) (simp add: SyncUpNext_def engine_call_Inr fault)
qed

definition demo_queue_request :: "UpNextChange list \<Rightarrow> UpNextSyncRequest" where
  "demo_queue_request changes = \<lparr>unr_Changes = Some changes, unr_ShowPlayStatus = False\<rparr>"

text \<open>Two changes out of order: the later one by its stamp goes in front.\<close>

theorem up_next_round_trip_witness:
  "\<exists>st'. SyncUpNext demo_env (demo_clock 200) 1 (demo_queue_request [demo_change 1 ''B'' 7, demo_change 1 ''A'' 5]) demo_store =
     (Inr \<lparr>unp_ServerModified = 200,
           unp_Episodes = map (echoed_item demo_env) [change_item 1 (demo_change 1 ''B'' 7), change_item 1 (demo_change 1 ''A'' 5)],
           unp_EpisodeSync = []\<rparr>, st')"
proof -
  let ?req = "demo_queue_request [demo_change 1 ''B'' 7, demo_change 1 ''A'' 5]"
  let ?target = "[change_item 1 (demo_change 1 ''B'' 7), change_item 1 (demo_change 1 ''A'' 5)]"
  have h: "GetUserForUpdate demo_env 1 demo_store = Inr (demo_user 1)" "GetUpNextItems demo_env 1 demo_store = Inr []"
    "?target = fold (applyUpNextChange 1) (sort_key ch_Modified [demo_change 1 ''B'' 7, demo_change 1 ''A'' 5]) []"
    "queue_ok demo_env ?target" "NextToken (ck_ms (demo_clock 200) 0) (u_UpNextModified (demo_user 1)) = 200"
    by code_simp+
  have req: "unr_Changes ?req = Some [demo_change 1 ''B'' 7, demo_change 1 ''A'' 5]"
    "[demo_change 1 ''B'' 7, demo_change 1 ''A'' 5] \<noteq> []" "\<not> unr_ShowPlayStatus ?req" "length ?target < 2 ^ 31"
    by (simp_all add: demo_queue_request_def)
  show ?thesis
    using up_next_round_trip [OF demo_env_healthy h(1,2) req(1-3) h(3,4) req(4), of "demo_clock 200"]
    unfolding h(5) by blast
qed

lemma insert_conflict:
  assumes "healthy e" and "\<forall>item \<in> set queue. pg_uuid e (un_EpisodeUuid item) \<noteq> None"
    and "\<not> distinct (map (\<lambda>item. pg_uuid e (un_EpisodeUuid item)) queue) \<or>
         (\<exists>item \<in> set queue. (uid, the (pg_uuid e (un_EpisodeUuid item))) \<in> un_key ` set (st_up_next st))"
  shows "rfold (\<lambda>(i, item). InsertUpNextItem e now (item\<lparr>un_UserID := uid, un_Position := int32 (int i)\<rparr>))
           (enumerate n queue) st = Inl (PgError ''23505'' ''up_next_items_pkey'')"
  using assms(2,3)
proof (induction queue arbitrary: n st)
  case Nil
  then show ?case by simp
next
  case (Cons item queue)
  obtain u where u: "pg_uuid e (un_EpisodeUuid item) = Some u" using Cons.prems(1) by auto
  show ?case
  proof (cases "(uid, u) \<in> un_key ` set (st_up_next st)")
    case True
    with assms(1) u show ?thesis
      by (simp add: InsertUpNextItem_def cast_uuid_def insert_row_def un_key_def)
  next
    case False
    define st1 where "st1 = st\<lparr>st_up_next := st_up_next st @ [stored_item e now uid (n, item)]\<rparr>"
    have "InsertUpNextItem e now (item\<lparr>un_UserID := uid, un_Position := int32 (int n)\<rparr>) st = Inr st1"
      using assms(1) u False
      by (simp add: InsertUpNextItem_def cast_uuid_def insert_row_def un_key_def stored_item_def st1_def)
    moreover have keys: "un_key ` set (st_up_next st1) = insert (uid, u) (un_key ` set (st_up_next st))"
      using u by (simp add: st1_def un_key_def stored_item_def)
    have "\<not> distinct (map (\<lambda>item. pg_uuid e (un_EpisodeUuid item)) queue) \<or>
        (\<exists>x \<in> set queue. pg_uuid e (un_EpisodeUuid x) = Some u) \<or>
        (\<exists>x \<in> set queue. (uid, the (pg_uuid e (un_EpisodeUuid x))) \<in> un_key ` set (st_up_next st))"
      using Cons.prems(2) u False by auto
    then have "\<not> distinct (map (\<lambda>item. pg_uuid e (un_EpisodeUuid item)) queue) \<or>
        (\<exists>item \<in> set queue. (uid, the (pg_uuid e (un_EpisodeUuid item))) \<in> un_key ` set (st_up_next st1))"
      unfolding keys by (metis insertCI option.sel)
    ultimately show ?thesis using Cons.IH [of st1 "Suc n"] Cons.prems(1) by simp
  qed
qed

text \<open>
   A queue that would hold an episode twice is refused as a whole.  A replacement may
  name an episode twice (also in two spellings of one uuid); then the request fails, the
  stored queue stays, and the client gets the status 409.
\<close>

theorem up_next_duplicate_conflict:
  assumes "healthy e" and "GetUserForUpdate e uid st = Inr user" and "GetUpNextItems e uid st = Inr queue"
    and "unr_Changes req = Some changes" and "changes \<noteq> []"
    and "target = fold (applyUpNextChange uid) (sort_key ch_Modified changes) queue"
    and "\<forall>item \<in> set target. pg_uuid e (un_EpisodeUuid item) \<noteq> None" and "\<not> queue_ok e target"
  shows "\<exists>err. SyncUpNext e ck uid req st = (Inl err, st) \<and>
           writeError ext_text err = writeJSON 409 (ErrorResult [''Record duplication detected''])"
proof -
  have dup: "\<not> distinct (map (\<lambda>item. pg_uuid e (un_EpisodeUuid item)) target)"
    using assms(7,8) by (auto simp: queue_ok_def)
  have "rewriteUpNextQueue e (ck_db ck) uid target st = Inl (PgError ''23505'' ''up_next_items_pkey'')"
    using insert_conflict [OF assms(1,7) disjI1 [OF dup]] assms(1)
    by (simp add: rewriteUpNextQueue_def DeleteAllUpNextItems_def)
  then have "up_next_tx e ck uid req st = Inl (PgError ''23505'' ''up_next_items_pkey'')"
    using assms(2-6) by (simp add: up_next_tx_def Let_def apply_changes_def)
  then have "SyncUpNext e ck uid req st =
      (Inl (E_op ''syncsvc/Engine.SyncUpNext'' Database (PgError ''23505'' ''up_next_items_pkey'')), st)"
    using assms(1) by (simp add: SyncUpNext_def engine_call_def InTx_healthy)
  then show ?thesis by (simp add: writeError_Database Is_ErrNoRows_def is_duplicate_def As_PgError_def)
qed

definition demo_replace :: UpNextChange where
  "demo_replace =
     (demo_change 5 '''' 5)\<lparr>ch_Episodes :=
        [\<lparr>uer_Uuid = ''A'', uer_Title = '''', uer_Url = '''', uer_Podcast = '''', uer_Published = None\<rparr>,
         \<lparr>uer_Uuid = ''a'', uer_Title = '''', uer_Url = '''', uer_Podcast = '''', uer_Published = None\<rparr>]\<rparr>"

theorem up_next_duplicate_conflict_witness:
  "\<exists>err. SyncUpNext demo_env (demo_clock 200) 1 (demo_queue_request [demo_replace]) demo_store = (Inl err, demo_store) \<and>
     writeError (\<lambda>_. '''') err = writeJSON 409 (ErrorResult [''Record duplication detected''])"
proof -
  let ?target = "fold (applyUpNextChange 1) (sort_key ch_Modified [demo_replace]) []"
  have "GetUserForUpdate demo_env 1 demo_store = Inr (demo_user 1)" "GetUpNextItems demo_env 1 demo_store = Inr []"
    "\<forall>item \<in> set ?target. pg_uuid demo_env (un_EpisodeUuid item) \<noteq> None" "\<not> queue_ok demo_env ?target"
    by code_simp+
  then show ?thesis
    using up_next_duplicate_conflict [OF demo_env_healthy, of 1 demo_store "demo_user 1" "[]"
        "demo_queue_request [demo_replace]" "[demo_replace]" ?target "demo_clock 200" "\<lambda>_. ''''"]
    by (simp add: demo_queue_request_def)
qed

subsection \<open>History\<close>

lemma SyncHistory_Inr:
  "SyncHistory e ck uid changes st = (Inr resp, st') \<Longrightarrow> history_tx e ck uid changes st = Inr (resp, st')"
  by (simp add: SyncHistory_def engine_call_Inr)

lemma history_keyed_after:
  assumes "history_tx e ck uid changes st = Inr (resp, st')" and "changes \<noteq> []" and "keyed hi_key (st_history st)"
  obtains user st1 lastCleared where
    "user \<in> set (st_users st)" "u_ID user = uid"
    "rfold (history_change e ck uid (u_HistoryModified user)) (enumerate 0 changes)
       (st, u_HistoryClearedAtMs user) = Inr (st1, lastCleared)"
    "hr_LastCleared resp = lastCleared" "keyed hi_key (st_history st1)" "keyed hi_key (st_history st')"
    "{r \<in> set (st_history st'). hi_UserID r = uid} = set (recent_history uid 100 (st_history st1))"
    "hr_Changes resp = map history_response_change (recent_history uid 100 (st_history st'))"
proof (rule history_tx_cases [OF assms(1,2)])
  fix user st1 lastCleared
  assume h: "user \<in> set (st_users st)" "u_ID user = uid"
    "rfold (history_change e ck uid (u_HistoryModified user)) (enumerate 0 changes)
       (st, u_HistoryClearedAtMs user) = Inr (st1, lastCleared)"
    "hr_LastCleared resp = lastCleared"
    "st_history st' = delete_where (\<lambda>r. hi_UserID r = uid \<and>
       hi_EpisodeUuid r \<notin> hi_EpisodeUuid ` set (recent_history uid maxHistoryItems (st_history st1))) (st_history st1)"
    "hr_Changes resp = map history_response_change (recent_history uid maxHistoryItems (st_history st'))"
  have k: "keyed hi_key (st_history st1)"
    using history_loop_frame [OF h(3)] assms(3) by (simp add: history_frame_def)
  show thesis
  proof (rule that [OF h(1-4) k])
    show "keyed hi_key (st_history st')" unfolding h(5) by (rule keyed_delete) (rule k)
    show "{r \<in> set (st_history st'). hi_UserID r = uid} = set (recent_history uid 100 (st_history st1))"
      unfolding h(5) maxHistoryItems_def by (rule trim_rows) (rule k)
    show "hr_Changes resp = map history_response_change (recent_history uid 100 (st_history st'))"
      using h(6) by (simp add: maxHistoryItems_def)
  qed
qed

lemma recent_history_all:
  assumes "keyed hi_key t" and "card {r \<in> set t. hi_UserID r = uid} \<le> n"
  shows "set (recent_history uid n t) = {r \<in> set t. hi_UserID r = uid}"
proof -
  have "distinct t" using assms(1) by (simp add: keyed_def distinct_map)
  then have "length (filter (\<lambda>r. hi_UserID r = uid) t) = card {r \<in> set t. hi_UserID r = uid}"
    by (metis distinct_card distinct_filter set_filter)
  with assms(2) show ?thesis by (simp add: recent_history_def)
qed

text \<open>
  C10.  Bounded history.  After a request with changes the user has at most one hundred
  items; the answer lists exactly the items that are stored, newest first, and every item
  that the trim dropped is no newer than any item that stayed.
\<close>

theorem history_bounded_newest_first:
  assumes "SyncHistory e ck uid changes st = (Inr resp, st')" and "changes \<noteq> []" and "keyed hi_key (st_history st)"
  shows "card {r \<in> set (st_history st'). hi_UserID r = uid} \<le> 100 \<and>
         set (hr_Changes resp) = history_response_change ` {r \<in> set (st_history st'). hi_UserID r = uid} \<and>
         sorted (map (\<lambda>c. - hc_ModifiedAt c) (hr_Changes resp)) \<and>
         (\<exists>user st1. user \<in> set (st_users st) \<and>
            rfold (history_change e ck uid (u_HistoryModified user)) (enumerate 0 changes)
              (st, u_HistoryClearedAtMs user) = Inr (st1, hr_LastCleared resp) \<and>
            {r \<in> set (st_history st'). hi_UserID r = uid} \<subseteq> set (st_history st1) \<and>
            (\<forall>r \<in> set (st_history st1) - set (st_history st'). hi_UserID r = uid \<longrightarrow>
               (\<forall>x \<in> set (st_history st'). hi_UserID x = uid \<longrightarrow> hi_ModifiedAt r \<le> hi_ModifiedAt x)))"
proof (rule history_keyed_after [OF SyncHistory_Inr [OF assms(1)] assms(2,3)])
  fix user st1 lastCleared
  assume h: "user \<in> set (st_users st)" "u_ID user = uid"
    "rfold (history_change e ck uid (u_HistoryModified user)) (enumerate 0 changes)
       (st, u_HistoryClearedAtMs user) = Inr (st1, lastCleared)"
    "hr_LastCleared resp = lastCleared"
    and k: "keyed hi_key (st_history st1)" "keyed hi_key (st_history st')"
    and rows: "{r \<in> set (st_history st'). hi_UserID r = uid} = set (recent_history uid 100 (st_history st1))"
    and ans: "hr_Changes resp = map history_response_change (recent_history uid 100 (st_history st'))"
  let ?own = "{r \<in> set (st_history st'). hi_UserID r = uid}"
  have card: "card ?own \<le> 100"
    unfolding rows using recent_history_length [of uid 100 "st_history st1"] by (metis card_length le_trans)
  moreover have "set (hr_Changes resp) = history_response_change ` ?own"
    using recent_history_all [OF k(2) card] by (simp add: ans)
  moreover have "map (\<lambda>c. - hc_ModifiedAt c) (hr_Changes resp) =
      map (\<lambda>r. - hi_ModifiedAt r) (recent_history uid 100 (st_history st'))"
    by (simp add: ans history_response_change_def)
  then have "sorted (map (\<lambda>c. - hc_ModifiedAt c) (hr_Changes resp))"
    using recent_history_sorted [of uid 100 "st_history st'"] by simp
  moreover have "?own \<subseteq> set (st_history st1)"
    unfolding rows using recent_history_subset by blast
  moreover have "\<forall>r \<in> set (st_history st1) - set (st_history st'). hi_UserID r = uid \<longrightarrow>
      (\<forall>x \<in> set (st_history st'). hi_UserID x = uid \<longrightarrow> hi_ModifiedAt r \<le> hi_ModifiedAt x)"
    using rows recent_history_newest [of _ "st_history st1" uid 100] by blast
  ultimately show ?thesis using h by blast
qed

definition demo_history :: "int \<Rightarrow> string \<Rightarrow> int \<Rightarrow> HistoryChange" where
  "demo_history action ep modified =
     \<lparr>hc_Action = action, hc_Podcast = ''p1'', hc_Episode = ep, hc_ModifiedAt = modified, hc_Title = ''t'', hc_Url = '''',
      hc_Published = None\<rparr>"

abbreviation demo_history_run :: "HistoryResponse result \<times> store" where
  "demo_history_run \<equiv>
     SyncHistory demo_env (demo_clock 200) 1 [demo_history 1 ''A'' 5, demo_history 1 ''B'' 7, demo_history 2 ''A'' 6] demo_store"

lemma demo_history_ok: "demo_history_run = (Inr (projr (fst demo_history_run)), snd demo_history_run)"
  by code_simp

lemma demo_history_keyed: "keyed hi_key (st_history demo_store)"
  by (simp add: demo_store_def empty_store_def)

theorem history_bounded_newest_first_witness:
  "sorted (map (\<lambda>c. - hc_ModifiedAt c) (hr_Changes (projr (fst demo_history_run)))) \<and>
   length (hr_Changes (projr (fst demo_history_run))) = 2"
proof
  show "sorted (map (\<lambda>c. - hc_ModifiedAt c) (hr_Changes (projr (fst demo_history_run))))"
    using history_bounded_newest_first [OF demo_history_ok _ demo_history_keyed] by simp
  show "length (hr_Changes (projr (fst demo_history_run))) = 2" by code_simp
qed

text \<open>
   Every history item is a last-writer-wins register.  After a request without a
  clear-all, whether an item of the user is listed and whether it is a tombstone follow
  from the join of its stored stamp with the stamps of all additions and deletions of the
  request, whatever their order in it; the rows that stay are the newest hundred of the
  table so joined.
\<close>

theorem history_items_join:
  assumes "SyncHistory e ck uid changes st = (Inr resp, st')" and "changes \<noteq> []" and "keyed hi_key (st_history st)"
    and "\<forall>c \<in> set changes. hc_Action c \<noteq> historyActionClearAll"
  shows "\<exists>user t ops. user \<in> set (st_users st) \<and> u_ID user = uid \<and>
           ops = List.map_filter (history_op_of e ck uid (u_HistoryModified user)) (enumerate 0 changes) \<and>
           (\<forall>k. history_cur k t = fold lww (map (history_proposal k) ops) (history_cur k (st_history st))) \<and>
           {r \<in> set (st_history st'). hi_UserID r = uid} = set (recent_history uid 100 t) \<and>
           hr_LastCleared resp = u_HistoryClearedAtMs user"
proof (rule history_keyed_after [OF SyncHistory_Inr [OF assms(1)] assms(2,3)])
  fix user st1 lastCleared
  assume h: "user \<in> set (st_users st)" "u_ID user = uid"
    and loop: "rfold (history_change e ck uid (u_HistoryModified user)) (enumerate 0 changes)
       (st, u_HistoryClearedAtMs user) = Inr (st1, lastCleared)"
    and rows: "hr_LastCleared resp = lastCleared"
      "{r \<in> set (st_history st'). hi_UserID r = uid} = set (recent_history uid 100 (st_history st1))"
  let ?ops = "List.map_filter (history_op_of e ck uid (u_HistoryModified user)) (enumerate 0 changes)"
  have "\<forall>ic \<in> set (enumerate 0 changes). hc_Action (snd ic) \<noteq> historyActionClearAll"
    using assms(4) by (auto simp: in_set_enumerate_eq)
  from history_loop_ops [OF loop this]
  have "st_history st1 = fold history_apply ?ops (st_history st)" "lastCleared = u_HistoryClearedAtMs user" by simp_all
  then show ?thesis
    using h rows history_item.cur_fold by (intro exI [of _ user] exI [of _ "st_history st1"] exI [of _ ?ops]) simp
qed

theorem history_items_join_witness:
  "\<exists>t. history_cur (1, ''a'') t = Some (6, True) \<and>
     {r \<in> set (st_history (snd demo_history_run)). hi_UserID r = 1} = set (recent_history 1 100 t)"
proof -
  have "\<forall>c \<in> set [demo_history 1 ''A'' 5, demo_history 1 ''B'' 7, demo_history 2 ''A'' 6]. hc_Action c \<noteq> historyActionClearAll"
    by code_simp
  from history_items_join [OF demo_history_ok _ demo_history_keyed this] obtain user t ops where
    u: "user \<in> set (st_users demo_store)" "u_ID user = 1"
    and t: "ops = List.map_filter (history_op_of demo_env (demo_clock 200) 1 (u_HistoryModified user))
        (enumerate 0 [demo_history 1 ''A'' 5, demo_history 1 ''B'' 7, demo_history 2 ''A'' 6])"
      "history_cur (1, ''a'') t = fold lww (map (history_proposal (1, ''a'')) ops) (history_cur (1, ''a'') (st_history demo_store))"
      "{r \<in> set (st_history (snd demo_history_run)). hi_UserID r = 1} = set (recent_history 1 100 t)"
    by blast
  have "user = demo_user 1" using u by (auto simp: demo_store_def demo_user_def)
  have "fold lww (map (history_proposal (1, ''a'')) (List.map_filter (history_op_of demo_env (demo_clock 200) 1
      (u_HistoryModified (demo_user 1))) (enumerate 0 [demo_history 1 ''A'' 5, demo_history 1 ''B'' 7, demo_history 2 ''A'' 6])))
      (history_cur (1, ''a'') (st_history demo_store)) = Some (6, True)"
    by code_simp
  then have "history_cur (1, ''a'') t = Some (6, True)" unfolding t(1,2) \<open>user = demo_user 1\<close> .
  with t(3) show ?thesis by blast
qed

text \<open>
   Clearing the history.  A request that ends with a clear-all stamped \<open>m\<close> leaves no
  item of the user that is as old as \<open>m\<close>, and \<open>m\<close> is stored and answered as the time of
  the last clearing; a clear-all with stamp zero uses a fresh server stamp instead.
\<close>

theorem history_clear_all:
  assumes "SyncHistory e ck uid (changes @ [c]) st = (Inr resp, st')" and "keyed hi_key (st_history st)"
    and "hc_Action c = historyActionClearAll"
  shows "\<exists>user. user \<in> set (st_users st) \<and> u_ID user = uid \<and>
           hr_LastCleared resp = (if hc_ModifiedAt c = 0 then NextToken (ck_ms ck (length changes)) (u_HistoryModified user)
                                  else hc_ModifiedAt c) \<and>
           (\<forall>r \<in> set (st_history st'). hi_UserID r = uid \<longrightarrow> hr_LastCleared resp < hi_ModifiedAt r)"
proof (rule history_keyed_after [OF SyncHistory_Inr [OF assms(1)] _ assms(2)])
  fix user st1 lastCleared
  assume h: "user \<in> set (st_users st)" "u_ID user = uid"
    and loop: "rfold (history_change e ck uid (u_HistoryModified user)) (enumerate 0 (changes @ [c]))
       (st, u_HistoryClearedAtMs user) = Inr (st1, lastCleared)"
    and rows: "hr_LastCleared resp = lastCleared"
      "{r \<in> set (st_history st'). hi_UserID r = uid} = set (recent_history uid 100 (st_history st1))"
  let ?m = "if hc_ModifiedAt c = 0 then NextToken (ck_ms ck (length changes)) (u_HistoryModified user) else hc_ModifiedAt c"
  obtain s0 where "history_change e ck uid (u_HistoryModified user) (length changes, c) s0 = Inr (st1, lastCleared)"
    using loop by (auto simp: enumerate_append_eq rfold_append rbind_Inr_iff)
  then have last: "lastCleared = ?m" "st_history st1 = delete_where (\<lambda>r. hi_UserID r = uid \<and> hi_ModifiedAt r \<le> ?m) (st_history (fst s0))"
    using assms(3)
    by (auto simp: history_change_def Let_def history_actions rbind_Inr_iff DeleteHistoryBefore_def stmt_Inr split: prod.splits)
  have "\<forall>r \<in> set (st_history st'). hi_UserID r = uid \<longrightarrow> lastCleared < hi_ModifiedAt r"
    using rows(2) recent_history_subset [of uid 100 "st_history st1"] last by (auto simp: tbl_simps)
  then show ?thesis using h rows(1) last(1) by auto
qed simp

abbreviation demo_clear_run :: "HistoryResponse result \<times> store" where
  "demo_clear_run \<equiv>
     SyncHistory demo_env (demo_clock 200) 1
       ([demo_history 1 ''A'' 5, demo_history 1 ''B'' 7] @ [demo_history 3 '''' 6]) demo_store"

theorem history_clear_all_witness:
  "hr_LastCleared (projr (fst demo_clear_run)) = 6 \<and>
   {r \<in> set (st_history (snd demo_clear_run)). hi_UserID r = 1 \<and> hi_ModifiedAt r \<le> 6} = {}"
proof -
  have run: "demo_clear_run = (Inr (projr (fst demo_clear_run)), snd demo_clear_run)" by code_simp
  have "hc_Action (demo_history 3 '''' 6) = historyActionClearAll" by code_simp
  note cleared = history_clear_all [OF run demo_history_keyed this]
  have "hc_ModifiedAt (demo_history 3 '''' 6) = 6" by (simp add: demo_history_def)
  with cleared show ?thesis by auto
qed

end
