(* ===== verification/Sync_Requests.thy ===== *)
theory Sync_Requests
  imports Sync_Updates Sync_Merge Sync_Records
begin

section \<open>What the settings and episode endpoints promise\<close>

text \<open>
  End-to-end statements on \<^verbatim>\<open>UpdateSettings\<close>, \<^verbatim>\<open>UpdateEpisode\<close> and \<^verbatim>\<open>UpdateEpisodeStar\<close> of
  \<^verbatim>\<open>src/syncsvc/updates.go\<close>: what is answered, what is stored, and how a real-time update
  and the batched records of other devices combine.
\<close>

subsection \<open>Settings\<close>

text \<open>The settings a user has stored, as the code reads them.\<close>

definition stored_settings :: "env \<Rightarrow> int \<Rightarrow> store \<Rightarrow> settings_msg result" where
  "stored_settings e uid st =
     rbind (or_no_rows (GetUserSettings e uid st)) (\<lambda>row.
       decodeStoredSettings e (case row of None \<Rightarrow> None | Some r \<Rightarrow> us_Settings r))"

text \<open>One key after a request: a legacy value of the right type, or the newer version.\<close>

definition requested_setting ::
  "NamedSettingsRequest \<Rightarrow> int \<Rightarrow> settings_msg \<Rightarrow> string \<Rightarrow> setting option" where
  "requested_setting req token stored k =
     (case map_of (case nsr_Settings req of None \<Rightarrow> [] | Some fs \<Rightarrow> fs) k of
        Some v \<Rightarrow>
          if map_of ChangeableSettings_fields k = Some (scalar_type v) then Some (legacy_setting v token)
          else newer_setting (map_of (case nsr_ChangedSettings req of None \<Rightarrow> [] | Some fs \<Rightarrow> fs) k) (map_of stored k)
      | None \<Rightarrow> newer_setting (map_of (case nsr_ChangedSettings req of None \<Rightarrow> [] | Some fs \<Rightarrow> fs) k) (map_of stored k))"

definition request_ok :: "NamedSettingsRequest \<Rightarrow> bool" where
  "request_ok req \<longleftrightarrow>
     settings_ok ChangeableSettings_fields (case nsr_ChangedSettings req of None \<Rightarrow> [] | Some fs \<Rightarrow> fs) \<and>
     distinct (map fst (case nsr_Settings req of None \<Rightarrow> [] | Some fs \<Rightarrow> fs))"

lemma merged_settings:
  assumes "request_ok req" and "settings_ok ChangeableSettings_fields stored"
    and "MergeChangedSettings stored (nsr_ChangedSettings req) = (m1, c1)"
    and "ApplyLegacySettings m1 (nsr_Settings req) token = (m, c2)"
  shows "settings_ok ChangeableSettings_fields m" and "map_of m k = requested_setting req token stored k"
proof -
  let ?fs = "case nsr_ChangedSettings req of None \<Rightarrow> [] | Some fs \<Rightarrow> fs"
  have m1: "m1 = fold merge_setting ?fs stored"
    using MergeChangedSettings_fst [of stored "nsr_ChangedSettings req"] assms(3) by simp
  then have ok1: "settings_ok ChangeableSettings_fields m1"
    using assms(1,2) by (simp add: request_ok_def merge_fold_ok)
  then show "settings_ok ChangeableSettings_fields m"
    using ApplyLegacySettings_ok [of m1 "nsr_Settings req" token] assms(4) by simp
  have "distinct (map fst ?fs)" using assms(1) by (simp add: request_ok_def settings_ok_def)
  then have k1: "map_of m1 k = newer_setting (map_of ?fs k) (map_of stored k)" for k
    unfolding m1 by (rule merge_fold_map_of)
  have "m = fst (ApplyLegacySettings m1 (nsr_Settings req) token)" using assms(4) by simp
  then show "map_of m k = requested_setting req token stored k"
    using assms(1) legacy_fold [of _ token m1 False k] k1 [of k]
    by (auto simp: ApplyLegacySettings_def requested_setting_def request_ok_def split: option.splits)
qed

lemma legacy_fold_unchanged: "\<not> snd (fold (apply_legacy now) fs s) \<Longrightarrow> fold (apply_legacy now) fs s = s"
proof (induction fs arbitrary: s)
  case Nil
  then show ?case by simp
next
  case (Cons f fs)
  then have tail: "fold (apply_legacy now) fs (apply_legacy now f s) = apply_legacy now f s" by simp
  with Cons.prems have "\<not> snd (apply_legacy now f s)" by simp
  then have "apply_legacy now f s = s"
    by (cases f; cases s) (auto split: option.splits if_splits)
  with tail show ?case by simp
qed

lemma legacy_unchanged: "\<not> snd (ApplyLegacySettings m l now) \<Longrightarrow> fst (ApplyLegacySettings m l now) = m"
  using legacy_fold_unchanged by (fastforce simp: ApplyLegacySettings_def split: option.splits)

lemma changed_iff:
  assumes "request_ok req"
  shows "snd (MergeChangedSettings m (nsr_ChangedSettings req)) \<longleftrightarrow>
         map_of (fst (MergeChangedSettings m (nsr_ChangedSettings req))) \<noteq> map_of m"
  using assms MergeChangedSettings_changed [of "the (nsr_ChangedSettings req)" m]
  by (cases "nsr_ChangedSettings req")
    (simp_all add: MergeChangedSettings_fst request_ok_def settings_ok_def, simp add: MergeChangedSettings_def)

lemma stored_settings_written:
  assumes "env_ok e" and "healthy e" and "settings_ok ChangeableSettings_fields m"
    and "encodeStoredSettings e m = Inr raw"
    and "UpsertUserSettings e \<lparr>us_UserID = uid, us_Settings = raw, us_ModifiedAt = token\<rparr> st = Inr st1"
    and "SetUserSyncLastModified e uid token st1 = Inr st'"
  shows "\<exists>m'. stored_settings e uid st' = Inr m' \<and> map_of m' = map_of m"
proof -
  obtain j where j: "marshal_settings e m = Inr j" "raw = Some j"
    using assms(4) by (auto simp: encodeStoredSettings_def split: sum.splits)
  define row where "row = \<lparr>us_UserID = uid, us_Settings = Some (pg_jsonb e j), us_ModifiedAt = token\<rparr>"
  have "st_settings st' = upsert_row us_UserID row (\<lambda>_. row) (st_settings st)"
    using assms(2,5,6) j
    by (auto simp: UpsertUserSettings_def SetUserSyncLastModified_def not_null_def Let_def row_def)
  then have "GetUserSettings e uid st' = Inr row"
    using assms(2) upsert_find [of us_UserID row "\<lambda>_. row" uid "st_settings st"]
    by (simp add: GetUserSettings_def select_one_def row_def split: option.split)
  moreover obtain m' where "if empty_json (Some (pg_jsonb e j)) then m' = []
      else unmarshal_settings e ChangeableSettings_fields (pg_jsonb e j) = Inr m'" "map_of m' = map_of m"
    using settings_stored_read [OF assms(1,3) j(1)] by blast
  ultimately show ?thesis
    by (auto simp: stored_settings_def or_no_rows_def decodeStoredSettings_def row_def split: if_splits)
qed

text \<open>
   The settings endpoint.  Every key of the answer is the newer of the stored and the
  submitted version, or the legacy value under the new token where one of the right type is
  given; what the next request reads is what was answered; and a request that changes no
  key writes nothing, not even a new sync token.
\<close>

theorem settings_answer_is_stored:
  assumes "env_ok e" and "healthy e" and "UpdateSettings e ck uid req st = (Inr resp, st')" and "request_ok req"
    and "stored_settings e uid st = Inr stored" and "settings_ok ChangeableSettings_fields stored"
  shows "\<exists>token m'. (\<exists>user \<in> set (st_users st). u_ID user = uid \<and>
             token = NextToken (ck_ms ck 0) (u_SyncLastModified user)) \<and>
           (\<forall>k. map_of resp k = requested_setting req token stored k) \<and>
           stored_settings e uid st' = Inr m' \<and> map_of m' = map_of resp \<and>
           (nsr_Settings req = None \<longrightarrow> map_of resp = map_of stored \<longrightarrow> st' = st)"
proof -
  have "settings_tx e ck uid req st = Inr (resp, st')"
    using assms(3) by (simp add: UpdateSettings_def engine_call_Inr)
  then show ?thesis
  proof (rule settings_tx_cases)
    fix user row stored' token m1 c1 m c2
    assume user: "GetUserForUpdate e uid st = Inr user" "token = NextToken (ck_ms ck 0) (u_SyncLastModified user)"
      and row: "or_no_rows (GetUserSettings e uid st) = Inr row"
        "decodeStoredSettings e (case row of None \<Rightarrow> None | Some r \<Rightarrow> us_Settings r) = Inr stored'"
      and mm: "MergeChangedSettings stored' (nsr_ChangedSettings req) = (m1, c1)"
        "ApplyLegacySettings m1 (nsr_Settings req) token = (m, c2)"
      and resp: "resp = BuildNamedSettingsResponse m"
      and upd: "c1 \<or> c2 \<Longrightarrow> \<exists>raw st1. encodeStoredSettings e m = Inr raw \<and>
        UpsertUserSettings e \<lparr>us_UserID = uid, us_Settings = raw, us_ModifiedAt = token\<rparr> st = Inr st1 \<and>
        SetUserSyncLastModified e uid token st1 = Inr st'"
      and same: "\<not> c1 \<Longrightarrow> \<not> c2 \<Longrightarrow> st' = st"
    have [simp]: "stored' = stored" using row assms(5) by (simp add: stored_settings_def)
    note m = merged_settings [OF assms(4,6) mm [simplified]]
    have resp_m: "map_of resp = map_of m" unfolding resp by (rule response_complete) (rule m(1))
    have unchanged: "m = stored" if "\<not> c1" "\<not> c2"
      using that mm MergeChangedSettings_unchanged [of stored "nsr_ChangedSettings req"] legacy_unchanged [of m1 "nsr_Settings req" token]
      by simp
    have "\<exists>m'. stored_settings e uid st' = Inr m' \<and> map_of m' = map_of resp"
    proof (cases "c1 \<or> c2")
      case True
      then show ?thesis
        using upd stored_settings_written [OF assms(1,2) m(1)] resp_m by fastforce
    next
      case False
      then show ?thesis using same unchanged assms(5) resp_m by auto
    qed
    moreover have "st' = st" if "nsr_Settings req = None" "map_of resp = map_of stored"
    proof -
      have "\<not> c2" "m = m1" using that(1) mm(2) by (auto simp: ApplyLegacySettings_def)
      moreover have "\<not> c1"
        using changed_iff [OF assms(4), of stored] mm(1) resp_m that(2) \<open>m = m1\<close> by simp
      ultimately show ?thesis using same by blast
    qed
    moreover have "user \<in> set (st_users st) \<and> u_ID user = uid" using GetUserForUpdate_user [OF user(1)] by simp
    ultimately show ?thesis using user(2) m(2) resp_m by (intro exI [of _ token]) auto
  qed
qed

definition demo_settings_request :: NamedSettingsRequest where
  "demo_settings_request =
     \<lparr>nsr_Settings = None,
      nsr_ChangedSettings = Some [(''volume_boost'', demo_setting 4 True)]\<rparr>"

theorem settings_answer_is_stored_witness:
  "\<exists>m'. stored_settings demo_env 1 (snd (UpdateSettings demo_env (demo_clock 200) 1 demo_settings_request demo_store)) = Inr m' \<and>
     map_of m' ''volume_boost'' = Some (demo_setting 4 True)"
proof -
  let ?run = "UpdateSettings demo_env (demo_clock 200) 1 demo_settings_request demo_store"
  have run: "?run = (Inr (projr (fst ?run)), snd ?run)" by code_simp
  have ok: "request_ok demo_settings_request" by code_simp
  have stored: "stored_settings demo_env 1 demo_store = Inr []" by code_simp
  have nil: "settings_ok ChangeableSettings_fields []" by (simp add: settings_ok_def)
  have key: "requested_setting demo_settings_request t [] ''volume_boost'' = Some (demo_setting 4 True)" for t
    by (simp add: requested_setting_def demo_settings_request_def newer_setting_def)
  from settings_answer_is_stored [OF demo_env_ok demo_env_healthy run ok stored nil] key show ?thesis by metis
qed

subsection \<open>Real-time episode updates\<close>

lemma episode_update_params_fields:
  "ue_EpisodeUuid (episode_update_params token req r) = ue_EpisodeUuid r"
  "ue_PodcastUuid (episode_update_params token req r) = (if uq_Podcast req \<noteq> [] then uq_Podcast req else ue_PodcastUuid r)"
  "ue_PlayedUpTo (episode_update_params token req r) = GetValue (ue_PlayedUpTo r) (uq_Position req)"
  "ue_PlayedUpToModified (episode_update_params token req r) =
     (if uq_Position req = None then ue_PlayedUpToModified r else token)"
  "ue_PlayingStatus (episode_update_params token req r) = (if uq_Status req \<noteq> 0 then uq_Status req else ue_PlayingStatus r)"
  "ue_PlayingStatusModified (episode_update_params token req r) =
     (if uq_Status req \<noteq> 0 then token else ue_PlayingStatusModified r)"
  "ue_Duration (episode_update_params token req r) = (if uq_Duration req \<noteq> 0 then uq_Duration req else ue_Duration r)"
  "ue_DurationModified (episode_update_params token req r) = (if uq_Duration req \<noteq> 0 then token else ue_DurationModified r)"
  "ue_Starred (episode_update_params token req r) = ue_Starred r"
  "ue_StarredModified (episode_update_params token req r) = ue_StarredModified r"
  by (simp_all add: episode_update_params_def upsertParamsFromRow_def Let_def split: option.split)

lemma found_episode:
  assumes "healthy e" and "pg_uuid e s = Some u" and "env_ok e"
    and "old = (case episode_row st uid u of Some r \<Rightarrow> r | None \<Rightarrow> new_episode uid s)"
  shows "or_no_rows (GetUserEpisode e uid s st) = Inr (episode_row st uid u)"
    and "ue_UserID old = uid" and "pg_uuid e (ue_EpisodeUuid old) = Some u"
proof -
  show "or_no_rows (GetUserEpisode e uid s st) = Inr (episode_row st uid u)"
    using GetUserEpisode_row [OF assms(1,2), of uid st] by (auto simp: or_no_rows_def split: option.split)
  have "pg_uuid e u = Some u" using assms(2,3) by (auto simp: env_ok_def)
  then show "ue_UserID old = uid" "pg_uuid e (ue_EpisodeUuid old) = Some u"
    using assms(2,4)
    by (auto simp: episode_row_def ue_key_def new_episode_def dest: find_Some_mem split: option.splits)
qed

text \<open>The update as one step: the row written, and the token stored.\<close>

lemma update_episode_row:
  assumes "healthy e" and "env_ok e" and "GetUserForUpdate e uid st = Inr user"
    and "pg_uuid e (uq_Uuid req) = Some u" and "pg_uuid e (uq_Podcast req) = Some pod"
    and "token = NextToken (ck_ms ck 0) (u_SyncLastModified user)"
    and "old = (case episode_row st uid u of Some r \<Rightarrow> r | None \<Rightarrow> new_episode uid (uq_Uuid req))"
  shows "\<exists>st'. UpdateEpisode e ck uid req st = (Inr (), st') \<and>
           episode_row st' uid u = Some ((episode_update_params token req old)\<lparr>ue_EpisodeUuid := u, ue_PodcastUuid := pod\<rparr>)"
proof -
  let ?p = "episode_update_params token req old"
  have ne: "uq_Uuid req \<noteq> []" "uq_Podcast req \<noteq> []" using assms(2,4,5) by (auto simp: env_ok_def)
  note found = found_episode [OF assms(1,4,2,7)]
  have p: "ue_UserID ?p = uid" "pg_uuid e (ue_EpisodeUuid ?p) = Some u" "pg_uuid e (ue_PodcastUuid ?p) = Some pod"
    "ue_PodcastUuid ?p \<noteq> []"
    using found(2,3) ne assms(5) by (simp_all add: episode_update_params_fields)
  obtain st1 where st1: "UpsertUserEpisode e ?p st = Inr st1"
      "episode_row st1 uid u = Some (?p\<lparr>ue_EpisodeUuid := u, ue_PodcastUuid := pod\<rparr>)"
    using UpsertUserEpisode_row [OF assms(1) p(2,3)] p(1) by auto
  define st' where "st' = st1\<lparr>st_users := update_where (\<lambda>u. u_ID u = uid) (\<lambda>u. u\<lparr>u_SyncLastModified := token\<rparr>) (st_users st1)\<rparr>"
  have "update_episode_tx e ck uid req st = Inr ((), st')"
    using assms(1,3) found(1) st1(1) p(4)
    unfolding assms(6) [symmetric] update_episode_tx_def Let_def
    by (simp add: assms(6) [symmetric] assms(7) [symmetric] SetUserSyncLastModified_def st'_def)
  moreover have "episode_row st' uid u = episode_row st1 uid u" by (simp add: st'_def episode_row_def)
  ultimately show ?thesis
    using st1(2) ne assms(1) by (auto simp: UpdateEpisode_def engine_call_def InTx_healthy)
qed

lemma lww_stale: "\<forall>p \<in> set ps. older_eq p c \<Longrightarrow> fold lww ps c = c"
  by (induction ps) (auto simp: lww_absorb)

text \<open>
   A real-time position update succeeds for uuids; it writes exactly the fields that
  the request carries, each under the new sync token, keeps the rest of the row, and no
  batched record whose position stamp is not beyond that token can undo the position.
\<close>

theorem realtime_update_wins:
  assumes "healthy e" and "env_ok e" and "GetUserForUpdate e uid st = Inr user"
    and "pg_uuid e (uq_Uuid req) = Some u" and "pg_uuid e (uq_Podcast req) = Some pod" and "uq_Position req = Some pos"
    and "token = NextToken (ck_ms ck 0) (u_SyncLastModified user)"
    and "old = (case episode_row st uid u of Some r \<Rightarrow> r | None \<Rightarrow> new_episode uid (uq_Uuid req))"
    and "\<forall>rec \<in> set recs. \<forall>t. sep_PlayedUpToModified rec = Some t \<longrightarrow> t \<le> token"
  shows "\<exists>st' row. UpdateEpisode e ck uid req st = (Inr (), st') \<and> episode_row st' uid u = Some row \<and>
           ue_ModifiedAt row = token \<and> ue_PodcastUuid row = pod \<and>
           ue_PlayingStatus row = (if uq_Status req \<noteq> 0 then uq_Status req else ue_PlayingStatus old) \<and>
           ue_Duration row = (if uq_Duration req \<noteq> 0 then uq_Duration req else ue_Duration old) \<and>
           ue_Starred row = ue_Starred old \<and> ue_StarredModified row = ue_StarredModified old \<and>
           ue_PlayedUpTo (fold merge_episode_fields recs row) = pos \<and>
           ue_PlayedUpToModified (fold merge_episode_fields recs row) = token"
proof -
  define row where "row = (episode_update_params token req old)\<lparr>ue_EpisodeUuid := u, ue_PodcastUuid := pod\<rparr>"
  obtain st' where st': "UpdateEpisode e ck uid req st = (Inr (), st')" "episode_row st' uid u = Some row"
    using update_episode_row [OF assms(1-5,7,8)] by (auto simp: row_def)
  have cur: "ue_PlayedUpToModified row = token" "ue_PlayedUpTo row = pos"
    using assms(6) by (simp_all add: row_def episode_update_params_fields)
  have "\<forall>p \<in> set (map (\<lambda>rec. proposal_of (sep_PlayedUpTo rec) (sep_PlayedUpToModified rec)) recs).
      older_eq p (Some (ue_PlayedUpToModified row, ue_PlayedUpTo row))"
    using assms(9) cur by (auto simp: proposal_of_def split: option.split)
  then have "Some (ue_PlayedUpToModified (fold merge_episode_fields recs row), ue_PlayedUpTo (fold merge_episode_fields recs row)) =
      Some (token, pos)"
    using ep_played.cur_fold [of recs row] cur by (simp add: lww_stale)
  then show ?thesis
    using st' by (intro exI [of _ st'] exI [of _ row]) (simp add: row_def episode_update_params_fields)
qed

definition demo_position :: UpdateEpisodeRequest where
  "demo_position = \<lparr>uq_Uuid = ''E1'', uq_Podcast = ''P1'', uq_Position = Some 77, uq_Status = 2, uq_Duration = 0\<rparr>"

theorem realtime_update_wins_witness:
  "\<exists>st' row. UpdateEpisode demo_env (demo_clock 200) 1 demo_position demo_store = (Inr (), st') \<and>
     episode_row st' 1 ''e1'' = Some row \<and>
     ue_PlayedUpTo (fold merge_episode_fields [demo_episode 30 7 True 9] row) = 77"
proof -
  have u: "pg_uuid demo_env (uq_Uuid demo_position) = Some ''e1''" "pg_uuid demo_env (uq_Podcast demo_position) = Some ''p1''"
    "GetUserForUpdate demo_env 1 demo_store = Inr (demo_user 1)" "uq_Position demo_position = Some 77"
    "NextToken (ck_ms (demo_clock 200) 0) (u_SyncLastModified (demo_user 1)) = 200"
    by code_simp+
  have "\<forall>rec \<in> set [demo_episode 30 7 True 9]. \<forall>t. sep_PlayedUpToModified rec = Some t \<longrightarrow> t \<le> 200"
    by (simp add: demo_episode_def)
  from realtime_update_wins [OF demo_env_healthy demo_env_ok u(3,1,2,4) u(5) [symmetric] refl this]
  show ?thesis by blast
qed

text \<open>
   An update that names no podcast for an episode the server has never seen.  The
  position endpoint ignores it: the store stays and the client gets success.  The star
  endpoint passes the empty podcast to the database, which rejects it as a uuid: the store
  stays, and the client gets the internal error.
\<close>

theorem star_without_podcast_fails:
  assumes "healthy e" and "env_ok e" and "GetUserForUpdate e uid st = Inr user"
    and "pg_uuid e uuid = Some u" and "episode_row st uid u = None"
  shows "UpdateEpisode e ck uid \<lparr>uq_Uuid = uuid, uq_Podcast = [], uq_Position = pos, uq_Status = s, uq_Duration = d\<rparr> st =
           (Inr (), st) \<and>
         (\<exists>err. UpdateEpisodeStar e ck uid \<lparr>usq_Uuid = uuid, usq_Podcast = [], usq_Star = b\<rparr> st = (Inl err, st) \<and>
            writeError ext_text err = masked_500)"
proof
  have ne: "uuid \<noteq> []" and none: "pg_uuid e [] = None" using assms(2,4) by (auto simp: env_ok_def)
  note found = found_episode [OF assms(1,4,2) refl, of uid st]
  let ?req = "\<lparr>uq_Uuid = uuid, uq_Podcast = [], uq_Position = pos, uq_Status = s, uq_Duration = d\<rparr>"
  have "ue_PodcastUuid (episode_update_params t ?req (new_episode uid uuid)) = []" for t
    by (simp add: episode_update_params_fields new_episode_def)
  then have "update_episode_tx e ck uid ?req st = Inr ((), st)"
    using assms(3,5) found(1) by (simp add: update_episode_tx_def)
  then show "UpdateEpisode e ck uid ?req st = (Inr (), st)"
    using ne assms(1) by (simp add: UpdateEpisode_def engine_call_def InTx_healthy)
  let ?star = "\<lparr>usq_Uuid = uuid, usq_Podcast = [], usq_Star = b\<rparr>"
  have "ue_PodcastUuid (star_update_params t ?star (new_episode uid uuid)) = []"
    "ue_EpisodeUuid (star_update_params t ?star (new_episode uid uuid)) = uuid" for t
    by (simp_all add: star_update_params_def upsertParamsFromRow_def new_episode_def)
  then have "UpsertUserEpisode e (star_update_params t ?star (new_episode uid uuid)) st = Inl (PgError ''22P02'' [])" for t
    using assms(1,4) none by (simp add: UpsertUserEpisode_def cast_uuid_def)
  then have "update_star_tx e ck uid ?star st = Inl (PgError ''22P02'' [])"
    using assms(3,5) found(1) by (simp add: update_star_tx_def)
  then show "\<exists>err. UpdateEpisodeStar e ck uid ?star st = (Inl err, st) \<and> writeError ext_text err = masked_500"
    using ne assms(1) by (simp add: UpdateEpisodeStar_def engine_call_def InTx_healthy writeError_Database)
qed

theorem star_without_podcast_fails_witness:
  "\<exists>err. UpdateEpisodeStar demo_env (demo_clock 200) 1 \<lparr>usq_Uuid = ''E1'', usq_Podcast = [], usq_Star = True\<rparr> demo_store =
     (Inl err, demo_store) \<and> writeError (\<lambda>_. ''secret'') err = masked_500"
proof -
  have h: "GetUserForUpdate demo_env 1 demo_store = Inr (demo_user 1)" "pg_uuid demo_env ''E1'' = Some ''e1''"
    "episode_row demo_store 1 ''e1'' = None"
    by code_simp+
  from star_without_podcast_fails [OF demo_env_healthy demo_env_ok h] show ?thesis by blast
qed

end
