(* ===== verification/Auth_Tokens.thy ===== *)
theory Auth_Tokens
  imports Errs
begin

section \<open>Passwords, access tokens and refresh tokens\<close>

text \<open>
  The package \<^verbatim>\<open>src/auth\<close>.  Byte slices are lists of natural numbers below 256; the URL-safe
  base64 alphabet without padding and the hex digits are modelled in full.  The record
  \<open>auth_lib\<close> holds what the package takes from elsewhere: the digest, bcrypt, the JWT
  library with its check of signature, method and expiry, and the mail address parser.
\<close>

subsection \<open>The libraries\<close>

record accessClaims =
  cl_Subject :: string
  cl_Email :: string
  cl_Scope :: string
  cl_IssuedAt :: int
  cl_ExpiresAt :: int

record auth_lib =
  al_sha256 :: "string \<Rightarrow> nat list"
  al_bcrypt :: "string \<Rightarrow> goerr + string"
  al_bcrypt_match :: "string \<Rightarrow> string \<Rightarrow> bool"
  al_jwt_sign :: "string \<Rightarrow> accessClaims \<Rightarrow> goerr + string"
  al_jwt_parse :: "string \<Rightarrow> int \<Rightarrow> string \<Rightarrow> accessClaims option"
  al_mail_valid :: "string \<Rightarrow> bool"
  al_ToLower :: "string \<Rightarrow> string"
  al_citext :: "string \<Rightarrow> string"

record AuthConfiguration =
  ac_JWTSecret :: string
  ac_AccessTokenTTL :: int
  ac_RefreshTokenTTL :: int

text \<open>
  What the libraries document: a digest has thirty-two bytes; bcrypt accepts the password
  it hashed; a token signed with a secret parses under that secret, to the claims it was
  signed with, as long as it has not expired (\<^verbatim>\<open>NumericDate\<close> has whole seconds).
\<close>

definition auth_lib_ok :: "auth_lib \<Rightarrow> bool" where
  "auth_lib_ok l \<longleftrightarrow>
     (\<forall>s. length (al_sha256 l s) = 32 \<and> (\<forall>b \<in> set (al_sha256 l s). b < 256)) \<and>
     (\<forall>p h. al_bcrypt l p = Inr h \<longrightarrow> al_bcrypt_match l h p) \<and>
     (\<forall>k c t now. al_jwt_sign l k c = Inr t \<longrightarrow>
        al_jwt_parse l k now t = (if now < cl_ExpiresAt c * 1000000000 then Some c else None))"

subsection \<open>Encodings\<close>

definition base64url_alphabet :: string where
  "base64url_alphabet = ''ABCDEFGHIJKLMNOPQRSTUVWXYZabcdefghijklmnopqrstuvwxyz0123456789-_''"

definition b64_char :: "nat \<Rightarrow> char" where
  "b64_char n = base64url_alphabet ! n"

definition b64_digit :: "char \<Rightarrow> nat option" where
  "b64_digit c = find (\<lambda>i. base64url_alphabet ! i = c) [0..<64]"

text \<open>\<^verbatim>\<open>base64.RawURLEncoding.EncodeToString\<close>\<close>

fun b64_encode :: "nat list \<Rightarrow> string" where
  "b64_encode (a # b # c # bs) =
     b64_char (a div 4) # b64_char (a mod 4 * 16 + b div 16) # b64_char (b mod 16 * 4 + c div 64)
     # b64_char (c mod 64) # b64_encode bs"
| "b64_encode [a, b] = [b64_char (a div 4), b64_char (a mod 4 * 16 + b div 16), b64_char (b mod 16 * 4)]"
| "b64_encode [a] = [b64_char (a div 4), b64_char (a mod 4 * 16)]"
| "b64_encode [] = []"

text \<open>
  \<^verbatim>\<open>DecodeString\<close> on digits: a single digit at the end is an error, the unused low bits of
  the last digit are ignored.  Carriage returns and line feeds are skipped everywhere.
\<close>

fun b64_bytes :: "nat list \<Rightarrow> nat list option" where
  "b64_bytes (w # x # y # z # ds) =
     map_option (\<lambda>bs. (w * 4 + x div 16) # (x mod 16 * 16 + y div 4) # (y mod 4 * 64 + z) # bs) (b64_bytes ds)"
| "b64_bytes [w, x, y] = Some [w * 4 + x div 16, x mod 16 * 16 + y div 4]"
| "b64_bytes [w, x] = Some [w * 4 + x div 16]"
| "b64_bytes [w] = None"
| "b64_bytes [] = Some []"

fun those_digits :: "string \<Rightarrow> nat list option" where
  "those_digits [] = Some []"
| "those_digits (c # cs) =
     (case (b64_digit c, those_digits cs) of (Some d, Some ds) \<Rightarrow> Some (d # ds) | _ \<Rightarrow> None)"

definition b64_decode :: "string \<Rightarrow> nat list option" where
  "b64_decode s =
     (case those_digits (filter (\<lambda>c. c \<noteq> CHR 0x0A \<and> c \<noteq> CHR 0x0D) s) of None \<Rightarrow> None | Some ds \<Rightarrow> b64_bytes ds)"

definition hex_digit :: "nat \<Rightarrow> char" where
  "hex_digit n = ''0123456789abcdef'' ! n"

text \<open>\<^verbatim>\<open>hex.EncodeToString\<close>\<close>

definition hex_encode :: "nat list \<Rightarrow> string" where
  "hex_encode bs = concat (map (\<lambda>b. [hex_digit (b div 16), hex_digit (b mod 16)]) bs)"

subsection \<open>Refresh tokens\<close>

definition HashRefreshToken :: "auth_lib \<Rightarrow> string \<Rightarrow> string" where
  "HashRefreshToken l token = hex_encode (al_sha256 l token)"

text \<open>\<open>entropy\<close> is what \<^verbatim>\<open>rand.Read\<close> returns for a slice of thirty-two bytes.\<close>

definition NewRefreshToken :: "auth_lib \<Rightarrow> goerr + nat list \<Rightarrow> goerr + string \<times> string" where
  "NewRefreshToken l entropy =
     (case entropy of
        Inl err \<Rightarrow> Inl (E_op ''auth/NewRefreshToken'' Internal err)
      | Inr raw \<Rightarrow> let token = b64_encode raw in Inr (token, HashRefreshToken l token))"

definition ValidRefreshToken :: "string \<Rightarrow> bool" where
  "ValidRefreshToken token = (case b64_decode token of None \<Rightarrow> False | Some raw \<Rightarrow> length raw = 32)"

subsection \<open>Passwords\<close>

definition HashPassword :: "auth_lib \<Rightarrow> string \<Rightarrow> goerr + string" where
  "HashPassword l password =
     (case al_bcrypt l password of
        Inl err \<Rightarrow> Inl (E_op ''auth/HashPassword'' Internal err)
      | Inr hash \<Rightarrow> Inr hash)"

definition CheckPassword :: "auth_lib \<Rightarrow> string \<Rightarrow> string \<Rightarrow> bool" where
  "CheckPassword l hash password = al_bcrypt_match l hash password"

subsection \<open>Access tokens\<close>

record auth_User =
  au_UUID :: string
  au_Email :: string
  au_Scope :: string

text \<open>\<^verbatim>\<open>jwt.NewNumericDate\<close> truncates to seconds; the lifetime is given in whole seconds.\<close>

definition MintAccessToken ::
  "auth_lib \<Rightarrow> AuthConfiguration \<Rightarrow> int \<Rightarrow> string \<Rightarrow> string \<Rightarrow> string \<Rightarrow> goerr + string \<times> int" where
  "MintAccessToken l cfg now uuid email scope =
     (let claims =
        \<lparr>cl_Subject = uuid, cl_Email = email, cl_Scope = scope,
         cl_IssuedAt = now div 1000000000,
         cl_ExpiresAt = (now + ac_AccessTokenTTL cfg) div 1000000000\<rparr>
      in case al_jwt_sign l (ac_JWTSecret cfg) claims of
           Inl err \<Rightarrow> Inl (E_op ''auth/MintAccessToken'' Internal err)
         | Inr token \<Rightarrow> Inr (token, int32 (go_div (ac_AccessTokenTTL cfg) 1000000000)))"

definition invalid_token :: "string \<Rightarrow> goerr" where
  "invalid_token m =
     the (E [AOp ''auth/ValidateAccessToken'', AKind Unauthenticated, ACode ''token_invalid'', AString m])"

definition ValidateAccessToken :: "auth_lib \<Rightarrow> AuthConfiguration \<Rightarrow> int \<Rightarrow> string \<Rightarrow> goerr + auth_User" where
  "ValidateAccessToken l cfg now token =
     (case al_jwt_parse l (ac_JWTSecret cfg) now token of
        None \<Rightarrow> Inl (invalid_token ''invalid access token'')
      | Some claims \<Rightarrow>
          if cl_Subject claims = '''' then Inl (invalid_token ''token has no subject'')
          else Inr \<lparr>au_UUID = cl_Subject claims, au_Email = cl_Email claims, au_Scope = cl_Scope claims\<rparr>)"

subsection \<open>The middlewares\<close>

definition allowedScopes :: "string set" where
  "allowedScopes = {''mobile'', ''tv'', ''sonos''}"

definition extractToken :: "string \<Rightarrow> goerr + string" where
  "extractToken header =
     (if length header \<le> 7 \<or> map to_lower_char (take 7 header) \<noteq> ''bearer ''
      then Inl (NewError ''no bearer token provided'') else Inr (drop 7 header))"

definition userFromRequest :: "auth_lib \<Rightarrow> AuthConfiguration \<Rightarrow> int \<Rightarrow> string \<Rightarrow> goerr + auth_User" where
  "userFromRequest l cfg now header =
     rbind (extractToken header) (\<lambda>token.
     rbind (ValidateAccessToken l cfg now token) (\<lambda>user.
       if au_Scope user \<notin> allowedScopes then Inl (NewError ''token scope is not allowed'') else Inr user))"

text \<open>\<open>Inl\<close>: the status and the header of the refusal; \<open>Inr\<close>: the user the handler runs with.\<close>

definition TokenAuthMiddleware :: "auth_lib \<Rightarrow> AuthConfiguration \<Rightarrow> int \<Rightarrow> string \<Rightarrow> (int \<times> string) + auth_User" where
  "TokenAuthMiddleware l cfg now header =
     (case userFromRequest l cfg now header of
        Inl err \<Rightarrow> Inl (401, ''Bearer realm='' @ [CHR 0x22] @ ''pocketcasts'' @ [CHR 0x22])
      | Inr user \<Rightarrow> Inr user)"

definition OptionalTokenMiddleware :: "auth_lib \<Rightarrow> AuthConfiguration \<Rightarrow> int \<Rightarrow> string \<Rightarrow> auth_User option" where
  "OptionalTokenMiddleware l cfg now header =
     (case userFromRequest l cfg now header of Inl err \<Rightarrow> None | Inr user \<Rightarrow> Some user)"

subsection \<open>Round trips\<close>

lemma b64_digit_char:
  assumes "n < 64"
  shows "b64_digit (b64_char n) = Some n" and "b64_char n \<noteq> CHR 0x0A \<and> b64_char n \<noteq> CHR 0x0D"
proof -
  have "\<forall>n \<in> set [0..<64]. b64_digit (b64_char n) = Some n \<and> b64_char n \<noteq> CHR 0x0A \<and> b64_char n \<noteq> CHR 0x0D"
    by code_simp
  with assms show "b64_digit (b64_char n) = Some n" "b64_char n \<noteq> CHR 0x0A \<and> b64_char n \<noteq> CHR 0x0D" by auto
qed

fun b64_digits :: "nat list \<Rightarrow> nat list" where
  "b64_digits (a # b # c # bs) =
     (a div 4) # (a mod 4 * 16 + b div 16) # (b mod 16 * 4 + c div 64) # (c mod 64) # b64_digits bs"
| "b64_digits [a, b] = [a div 4, a mod 4 * 16 + b div 16, b mod 16 * 4]"
| "b64_digits [a] = [a div 4, a mod 4 * 16]"
| "b64_digits [] = []"

lemma b64_digits_range: "\<forall>b \<in> set bs. b < 256 \<Longrightarrow> \<forall>d \<in> set (b64_digits bs). d < 64"
  by (induction bs rule: b64_digits.induct) auto

lemma b64_encode_digits: "b64_encode bs = map b64_char (b64_digits bs)"
  by (induction bs rule: b64_digits.induct) simp_all

lemma those_digits_map: "\<forall>d \<in> set ds. d < 64 \<Longrightarrow> those_digits (map b64_char ds) = Some ds"
  by (induction ds) (simp_all add: b64_digit_char)

lemma b64_bytes_digits: "\<forall>b \<in> set bs. b < 256 \<Longrightarrow> b64_bytes (b64_digits bs) = Some bs"
proof (induction bs rule: b64_digits.induct)
  case (1 a b c bs)
  then have "b div 16 < 16" "c div 64 < 4" by (simp_all add: div_less_iff_less_mult)
  then have "a div 4 * 4 + (a mod 4 * 16 + b div 16) div 16 = a"
    "(a mod 4 * 16 + b div 16) mod 16 * 16 + (b mod 16 * 4 + c div 64) div 4 = b"
    "(b mod 16 * 4 + c div 64) mod 4 * 64 + c mod 64 = c"
    by simp_all
  with 1 show ?case by simp
next
  case (2 a b)
  then have "b div 16 < 16" by (simp add: div_less_iff_less_mult)
  then show ?case by simp
next
  case (3 a)
  then show ?case by simp
qed simp

lemma b64_roundtrip:
  assumes "\<forall>b \<in> set bs. b < 256"
  shows "b64_decode (b64_encode bs) = Some bs"
proof -
  note r = b64_digits_range [OF assms]
  have "filter (\<lambda>c. c \<noteq> CHR 0x0A \<and> c \<noteq> CHR 0x0D) (map b64_char (b64_digits bs)) = map b64_char (b64_digits bs)"
    using r by (auto simp: filter_id_conv b64_digit_char)
  then show ?thesis
    using r by (simp add: b64_decode_def b64_encode_digits those_digits_map b64_bytes_digits [OF assms])
qed

lemma b64_digits_length: "length (b64_digits bs) = (4 * length bs + 2) div 3"
  by (induction bs rule: b64_digits.induct) auto

text \<open>
   Refresh tokens are well formed: what \<^verbatim>\<open>NewRefreshToken\<close> makes of thirty-two random bytes
  is a string of forty-three characters from which decoding recovers these bytes, so the
  structural check accepts it, and it is stored under the hex digest of sixty-four characters.
\<close>

theorem refresh_token_roundtrip:
  assumes "auth_lib_ok l" and "length raw = 32" and "\<forall>b \<in> set raw. b < 256"
  shows "\<exists>token hash. NewRefreshToken l (Inr raw) = Inr (token, hash) \<and> b64_decode token = Some raw \<and>
           length token = 43 \<and> ValidRefreshToken token \<and> hash = HashRefreshToken l token \<and> length hash = 64"
proof -
  have "length (hex_encode bs) = 2 * length bs" for bs
    by (induction bs) (simp_all add: hex_encode_def)
  moreover have "length (al_sha256 l t) = 32" for t using assms(1) by (simp add: auth_lib_ok_def)
  ultimately show ?thesis
    using assms(2) b64_roundtrip [OF assms(3)]
    by (simp add: NewRefreshToken_def Let_def ValidRefreshToken_def HashRefreshToken_def b64_encode_digits b64_digits_length)
qed

text \<open>
  Libraries for the examples: a token lists subject, address and scope, and stands for one
  hour from time zero; a password hash is the reversed password.
\<close>

definition demo_sign :: "accessClaims \<Rightarrow> goerr + string" where
  "demo_sign c =
     (if CHR 0x00 \<notin> set (cl_Subject c) \<and> CHR 0x00 \<notin> set (cl_Email c) \<and> cl_IssuedAt c = 0 \<and> cl_ExpiresAt c = 3600
      then Inr (cl_Subject c @ CHR 0x00 # cl_Email c @ CHR 0x00 # cl_Scope c) else Inl (NewError ''unsupported''))"

definition demo_parse :: "int \<Rightarrow> string \<Rightarrow> accessClaims option" where
  "demo_parse now t =
     (let rest = tl (dropWhile (\<lambda>c. c \<noteq> CHR 0x00) t)
      in if now < 3600000000000
         then Some \<lparr>cl_Subject = takeWhile (\<lambda>c. c \<noteq> CHR 0x00) t, cl_Email = takeWhile (\<lambda>c. c \<noteq> CHR 0x00) rest,
                    cl_Scope = tl (dropWhile (\<lambda>c. c \<noteq> CHR 0x00) rest), cl_IssuedAt = 0, cl_ExpiresAt = 3600\<rparr>
         else None)"

definition demo_auth :: auth_lib where
  "demo_auth =
     \<lparr>al_sha256 = (\<lambda>s. take 32 (map of_char s @ replicate 32 0)),
      al_bcrypt = (\<lambda>p. Inr (rev p)),
      al_bcrypt_match = (\<lambda>h p. h = rev p),
      al_jwt_sign = (\<lambda>k. demo_sign),
      al_jwt_parse = (\<lambda>k. demo_parse),
      al_mail_valid = (\<lambda>s. CHR 0x40 \<in> set s),
      al_ToLower = map to_lower_char,
      al_citext = map to_lower_char\<rparr>"

lemma demo_jwt:
  assumes "demo_sign c = Inr t"
  shows "demo_parse now t = (if now < cl_ExpiresAt c * 1000000000 then Some c else None)"
proof -
  have c: "CHR 0x00 \<notin> set (cl_Subject c)" "CHR 0x00 \<notin> set (cl_Email c)" "cl_IssuedAt c = 0" "cl_ExpiresAt c = 3600"
    and t: "t = cl_Subject c @ CHR 0x00 # cl_Email c @ CHR 0x00 # cl_Scope c"
    using assms by (auto simp: demo_sign_def split: if_splits)
  have "takeWhile (\<lambda>x. x \<noteq> CHR 0x00) (s @ CHR 0x00 # r) = s \<and> dropWhile (\<lambda>x. x \<noteq> CHR 0x00) (s @ CHR 0x00 # r) = CHR 0x00 # r"
    if "CHR 0x00 \<notin> set s" for s r
    using that by (induction s) auto
  then show ?thesis using c by (simp add: t demo_parse_def Let_def)
qed

lemma demo_auth_ok: "auth_lib_ok demo_auth"
  unfolding auth_lib_ok_def
proof (intro conjI allI impI ballI)
  fix s b
  assume "b \<in> set (al_sha256 demo_auth s)"
  then have "b \<in> set (take 32 (map of_char s @ replicate 32 0))" by (simp add: demo_auth_def)
  then have "b \<in> set (map of_char s @ replicate 32 0)" by (rule in_set_takeD)
  then show "b < 256" by auto
qed (simp_all add: demo_auth_def demo_jwt)

theorem refresh_token_roundtrip_witness:
  "\<exists>token hash. NewRefreshToken demo_auth (Inr [0..<32]) = Inr (token, hash) \<and> ValidRefreshToken token"
  using refresh_token_roundtrip [OF demo_auth_ok, of "[0..<32]"] by auto

text \<open>
  C12.  An access token admits its user and nobody else until it expires: a token minted for
  a user with a scope of the client passes the middleware with that user before the end of
  its lifetime, is refused with 401 after it, and a token with any other scope is always
  refused.
\<close>

theorem access_token_admits_user:
  assumes "auth_lib_ok l" and "MintAccessToken l cfg issued uuid email scope = Inr (token, expiresIn)"
    and "uuid \<noteq> []"
  shows "TokenAuthMiddleware l cfg now (''Bearer '' @ token) =
           (if token \<noteq> [] \<and> now < (issued + ac_AccessTokenTTL cfg) div 1000000000 * 1000000000 \<and> scope \<in> allowedScopes
            then Inr \<lparr>au_UUID = uuid, au_Email = email, au_Scope = scope\<rparr>
            else Inl (401, ''Bearer realm='' @ [CHR 0x22] @ ''pocketcasts'' @ [CHR 0x22]))"
proof -
  have parse: "al_jwt_parse l (ac_JWTSecret cfg) now token =
      (if now < (issued + ac_AccessTokenTTL cfg) div 1000000000 * 1000000000
       then Some \<lparr>cl_Subject = uuid, cl_Email = email, cl_Scope = scope, cl_IssuedAt = issued div 1000000000,
                  cl_ExpiresAt = (issued + ac_AccessTokenTTL cfg) div 1000000000\<rparr> else None)"
    using assms(1,2) by (auto simp: MintAccessToken_def auth_lib_ok_def Let_def split: sum.splits)
  have "map to_lower_char ''Bearer '' = ''bearer ''" by code_simp
  then have "extractToken (''Bearer '' @ token) = (if token = [] then Inl (NewError ''no bearer token provided'') else Inr token)"
    by (simp add: extractToken_def del: to_lower_char.simps)
  then show ?thesis
    using assms(3) parse by (simp add: TokenAuthMiddleware_def userFromRequest_def ValidateAccessToken_def)
qed

definition demo_config :: AuthConfiguration where
  "demo_config = \<lparr>ac_JWTSecret = ''secret'', ac_AccessTokenTTL = 3600000000000, ac_RefreshTokenTTL = 7776000000000000\<rparr>"

theorem access_token_admits_user_witness:
  "TokenAuthMiddleware demo_auth demo_config 5000000000 (''Bearer '' @ ''u'' @ CHR 0x00 # ''a@b.c'' @ CHR 0x00 # ''mobile'') =
     Inr \<lparr>au_UUID = ''u'', au_Email = ''a@b.c'', au_Scope = ''mobile''\<rparr>"
proof -
  have "MintAccessToken demo_auth demo_config 0 ''u'' ''a@b.c'' ''mobile'' =
      Inr (''u'' @ CHR 0x00 # ''a@b.c'' @ CHR 0x00 # ''mobile'', 3600)" by code_simp
  from access_token_admits_user [OF demo_auth_ok this, of 5000000000] show ?thesis
    by (simp add: demo_config_def allowedScopes_def)
qed

end
