(* ===== verification/Account_Db.thy ===== *)
theory Account_Db
  imports Db_Store Auth_Tokens
begin

section \<open>Statements on users, refresh tokens and reset codes\<close>

text \<open>
  The statements of \<^verbatim>\<open>src/db/queries.sql.go\<close> that the account endpoints use, with the constraints
  of \<^verbatim>\<open>src/db/migrations\<close>: \<^verbatim>\<open>users.uuid\<close> and the address of the users that are not deleted are
  unique (an address is \<^verbatim>\<open>CITEXT\<close>: \<open>al_citext\<close> is its comparison form), the hash of a
  refresh token is unique, and a token refers to an existing user and token.  The identity of
  a new row is an argument.  An \<^verbatim>\<open>execrows\<close> statement returns the number of rows it changed.
\<close>

subsection \<open>Users\<close>

definition GetUserByEmail :: "env \<Rightarrow> auth_lib \<Rightarrow> string \<Rightarrow> store \<Rightarrow> User result" where
  "GetUserByEmail e l email st =
     stmt e ''GetUserByEmail''
       (select_one (\<lambda>u. al_citext l (u_Email u) = al_citext l email \<and> u_DeletedAt u = None) (st_users st))"

definition GetUserByUUID :: "env \<Rightarrow> string \<Rightarrow> store \<Rightarrow> User result" where
  "GetUserByUUID e uuid st =
     stmt e ''GetUserByUUID''
       (rbind (cast_uuid e uuid) (\<lambda>u. select_one (\<lambda>r. u_Uuid r = u \<and> u_DeletedAt r = None) (st_users st)))"

definition email_taken :: "auth_lib \<Rightarrow> string \<Rightarrow> User list \<Rightarrow> bool" where
  "email_taken l email users \<longleftrightarrow>
     (\<exists>u \<in> set users. u_DeletedAt u = None \<and> al_citext l (u_Email u) = al_citext l email)"

definition CreateUser ::
  "env \<Rightarrow> auth_lib \<Rightarrow> instant \<Rightarrow> int \<Rightarrow> string \<Rightarrow> string \<Rightarrow> string \<Rightarrow> string \<Rightarrow> store \<Rightarrow> (User \<times> store) result" where
  "CreateUser e l now new_id uuid email passwordHash scope st =
     stmt e ''CreateUser''
       (rbind (cast_uuid e uuid) (\<lambda>u.
          if \<exists>r \<in> set (st_users st). u_ID r = new_id then Inl (PgError ''23505'' ''users_pkey'')
          else if \<exists>r \<in> set (st_users st). u_Uuid r = u then Inl (PgError ''23505'' ''users_uuid_key'')
          else if email_taken l email (st_users st) then Inl (PgError ''23505'' ''users_active_email_unique'')
          else
            let user =
              \<lparr>u_ID = new_id, u_Uuid = u, u_Email = email, u_PasswordHash = passwordHash, u_Scope = scope,
               u_CreatedAt = now, u_UpdatedAt = now, u_DeletedAt = None, u_SyncLastModified = 0,
               u_UpNextModified = 0, u_HistoryModified = 0, u_HistoryClearedAtMs = 0, u_MarketingOptIn = False\<rparr>
            in Inr (user, st\<lparr>st_users := st_users st @ [user]\<rparr>)))"

definition live_user :: "int \<Rightarrow> User \<Rightarrow> bool" where
  "live_user uid u \<longleftrightarrow> u_ID u = uid \<and> u_DeletedAt u = None"

definition update_user :: "int \<Rightarrow> (User \<Rightarrow> User) \<Rightarrow> store \<Rightarrow> int \<times> store" where
  "update_user uid f st =
     (int (length (filter (live_user uid) (st_users st))),
      st\<lparr>st_users := update_where (live_user uid) f (st_users st)\<rparr>)"

definition UpdateUserEmail ::
  "env \<Rightarrow> auth_lib \<Rightarrow> instant \<Rightarrow> int \<Rightarrow> string \<Rightarrow> store \<Rightarrow> (int \<times> store) result" where
  "UpdateUserEmail e l now uid email st =
     stmt e ''UpdateUserEmail''
       (if (\<exists>u \<in> set (st_users st). live_user uid u) \<and>
           email_taken l email (filter (\<lambda>u. u_ID u \<noteq> uid) (st_users st))
        then Inl (PgError ''23505'' ''users_active_email_unique'')
        else Inr (update_user uid (\<lambda>u. u\<lparr>u_Email := email, u_UpdatedAt := now\<rparr>) st))"

definition UpdateUserPassword :: "env \<Rightarrow> instant \<Rightarrow> int \<Rightarrow> string \<Rightarrow> store \<Rightarrow> (int \<times> store) result" where
  "UpdateUserPassword e now uid hash st =
     stmt e ''UpdateUserPassword''
       (Inr (update_user uid (\<lambda>u. u\<lparr>u_PasswordHash := hash, u_UpdatedAt := now\<rparr>) st))"

definition SoftDeleteUser :: "env \<Rightarrow> instant \<Rightarrow> int \<Rightarrow> store \<Rightarrow> (int \<times> store) result" where
  "SoftDeleteUser e now uid st =
     stmt e ''SoftDeleteUser''
       (Inr (update_user uid (\<lambda>u. u\<lparr>u_DeletedAt := Some now, u_UpdatedAt := now\<rparr>) st))"

definition ClearPushStateForUser :: "env \<Rightarrow> int \<Rightarrow> store \<Rightarrow> store result" where
  "ClearPushStateForUser e uid st =
     stmt e ''ClearPushStateForUser''
       (Inr (st\<lparr>st_devices :=
          update_where (\<lambda>d. dv_UserID d = uid) (\<lambda>d. d\<lparr>dv_PushToken := '''', dv_PushOn := False\<rparr>) (st_devices st)\<rparr>))"

subsection \<open>Refresh tokens\<close>

text \<open>The row lock of \<^verbatim>\<open>FOR UPDATE\<close> makes two requests with one token run one after the other.\<close>

definition GetRefreshTokenByHash :: "env \<Rightarrow> string \<Rightarrow> store \<Rightarrow> RefreshToken result" where
  "GetRefreshTokenByHash e hash st =
     stmt e ''GetRefreshTokenByHash'' (select_one (\<lambda>t. rt_TokenHash t = hash) (st_refresh_tokens st))"

record CreateRefreshTokenParams =
  crt_UserID :: int
  crt_TokenHash :: string
  crt_Scope :: string
  crt_ExpiresAt :: instant
  crt_FamilyID :: string
  crt_DeviceID :: string
  crt_RotatedFromID :: "int option"

definition CreateRefreshToken ::
  "env \<Rightarrow> instant \<Rightarrow> int \<Rightarrow> CreateRefreshTokenParams \<Rightarrow> store \<Rightarrow> (RefreshToken \<times> store) result" where
  "CreateRefreshToken e now new_id p st =
     stmt e ''CreateRefreshToken''
       (rbind (cast_uuid e (crt_FamilyID p)) (\<lambda>family.
          if \<exists>t \<in> set (st_refresh_tokens st). rt_ID t = new_id then Inl (PgError ''23505'' ''refresh_tokens_pkey'')
          else if \<exists>t \<in> set (st_refresh_tokens st). rt_TokenHash t = crt_TokenHash p
          then Inl (PgError ''23505'' ''refresh_tokens_token_hash_key'')
          else if \<not> (\<exists>u \<in> set (st_users st). u_ID u = crt_UserID p)
          then Inl (PgError ''23503'' ''refresh_tokens_user_id_fkey'')
          else if (case crt_RotatedFromID p of None \<Rightarrow> False
                   | Some r \<Rightarrow> \<not> (\<exists>t \<in> set (st_refresh_tokens st). rt_ID t = r))
          then Inl (PgError ''23503'' ''refresh_tokens_rotated_from_id_fkey'')
          else
            let row =
              \<lparr>rt_ID = new_id, rt_UserID = crt_UserID p, rt_TokenHash = crt_TokenHash p, rt_Scope = crt_Scope p,
               rt_CreatedAt = now, rt_ExpiresAt = pg_time e (crt_ExpiresAt p), rt_RevokedAt = None,
               rt_FamilyID = family, rt_DeviceID = crt_DeviceID p, rt_RotatedFromID = crt_RotatedFromID p,
               rt_LastUsedAt = None\<rparr>
            in Inr (row, st\<lparr>st_refresh_tokens := st_refresh_tokens st @ [row]\<rparr>)))"

definition revoke_where :: "instant \<Rightarrow> (RefreshToken \<Rightarrow> bool) \<Rightarrow> store \<Rightarrow> store" where
  "revoke_where now P st =
     st\<lparr>st_refresh_tokens :=
       update_where (\<lambda>t. P t \<and> rt_RevokedAt t = None) (\<lambda>t. t\<lparr>rt_RevokedAt := Some now\<rparr>) (st_refresh_tokens st)\<rparr>"

definition RevokeRefreshToken :: "env \<Rightarrow> instant \<Rightarrow> string \<Rightarrow> store \<Rightarrow> (int \<times> store) result" where
  "RevokeRefreshToken e now hash st =
     stmt e ''RevokeRefreshToken''
       (Inr (int (length (filter (\<lambda>t. rt_TokenHash t = hash \<and> rt_RevokedAt t = None) (st_refresh_tokens st))),
             revoke_where now (\<lambda>t. rt_TokenHash t = hash) st))"

text \<open>\<^verbatim>\<open>COALESCE(revoked_at, now())\<close> keeps the time of an earlier revocation.\<close>

definition RevokeRefreshTokenFamily :: "env \<Rightarrow> instant \<Rightarrow> string \<Rightarrow> store \<Rightarrow> (int \<times> store) result" where
  "RevokeRefreshTokenFamily e now family st =
     stmt e ''RevokeRefreshTokenFamily''
       (rbind (cast_uuid e family) (\<lambda>f.
          Inr (int (length (filter (\<lambda>t. rt_FamilyID t = f) (st_refresh_tokens st))),
               revoke_where now (\<lambda>t. rt_FamilyID t = f) st)))"

definition RevokeAllRefreshTokens :: "env \<Rightarrow> instant \<Rightarrow> int \<Rightarrow> store \<Rightarrow> (int \<times> store) result" where
  "RevokeAllRefreshTokens e now uid st =
     stmt e ''RevokeAllRefreshTokens''
       (Inr (int (length (filter (\<lambda>t. rt_UserID t = uid \<and> rt_RevokedAt t = None) (st_refresh_tokens st))),
             revoke_where now (\<lambda>t. rt_UserID t = uid) st))"

subsection \<open>Reset codes\<close>

definition usable_code :: "instant \<Rightarrow> string \<Rightarrow> PasswordResetCode \<Rightarrow> bool" where
  "usable_code now hash c \<longleftrightarrow> prc_CodeHash c = hash \<and> prc_ConsumedAt c = None \<and> prc_ExpiresAt c > now"

definition ConsumePasswordResetCode :: "env \<Rightarrow> instant \<Rightarrow> string \<Rightarrow> store \<Rightarrow> (int \<times> store) result" where
  "ConsumePasswordResetCode e now hash st =
     stmt e ''ConsumePasswordResetCode''
       (rbind (select_one (usable_code now hash) (st_reset_codes st)) (\<lambda>c.
          Inr (prc_UserID c,
               st\<lparr>st_reset_codes :=
                 update_where (usable_code now hash) (\<lambda>c. c\<lparr>prc_ConsumedAt := Some now\<rparr>) (st_reset_codes st)\<rparr>)))"

definition CreatePasswordResetCode ::
  "env \<Rightarrow> instant \<Rightarrow> int \<Rightarrow> int \<Rightarrow> string \<Rightarrow> instant \<Rightarrow> store \<Rightarrow> (PasswordResetCode \<times> store) result" where
  "CreatePasswordResetCode e now new_id uid hash expires st =
     stmt e ''CreatePasswordResetCode''
       (if \<exists>c \<in> set (st_reset_codes st). prc_ID c = new_id then Inl (PgError ''23505'' ''password_reset_codes_pkey'')
        else if \<exists>c \<in> set (st_reset_codes st). prc_CodeHash c = hash
        then Inl (PgError ''23505'' ''password_reset_codes_code_hash_key'')
        else if \<not> (\<exists>u \<in> set (st_users st). u_ID u = uid)
        then Inl (PgError ''23503'' ''password_reset_codes_user_id_fkey'')
        else
          let row = \<lparr>prc_ID = new_id, prc_UserID = uid, prc_CodeHash = hash, prc_ExpiresAt = pg_time e expires,
                     prc_ConsumedAt = None, prc_CreatedAt = now\<rparr>
          in Inr (row, st\<lparr>st_reset_codes := st_reset_codes st @ [row]\<rparr>))"

subsection \<open>Live tokens\<close>

abbreviation live :: "RefreshToken \<Rightarrow> bool" where
  "live t \<equiv> rt_RevokedAt t = None"

lemma revoke_where_tokens [tbl_simps]:
  "set (st_refresh_tokens (revoke_where now P st)) =
     {t \<in> set (st_refresh_tokens st). \<not> (P t \<and> live t)} \<union>
     (\<lambda>t. t\<lparr>rt_RevokedAt := Some now\<rparr>) ` {t \<in> set (st_refresh_tokens st). P t \<and> live t}"
  by (auto simp: revoke_where_def tbl_simps)

lemma revoke_where_other [frame_simps]:
  "st_users (revoke_where now P st) = st_users st"
  "st_reset_codes (revoke_where now P st) = st_reset_codes st"
  by (simp_all add: revoke_where_def)

lemma update_user_other [frame_simps]:
  "st_refresh_tokens (snd (update_user uid f st)) = st_refresh_tokens st"
  "st_reset_codes (snd (update_user uid f st)) = st_reset_codes st"
  by (simp_all add: update_user_def)

lemma keyed_revoke: "keyed rt_TokenHash (st_refresh_tokens st) \<Longrightarrow> keyed rt_TokenHash (st_refresh_tokens (revoke_where now P st))"
  by (simp add: revoke_where_def keyed_update)

end
