(* ===== verification/Rate_Limit.thy ===== *)
theory Rate_Limit
  imports Errs
begin

section \<open>Rate limits\<close>

text \<open>
  \<^verbatim>\<open>src/handlers/distributed_limit.go\<close>: the fixed-window limit that all servers share through a
  Lua script on Redis, and \<^verbatim>\<open>src/middlewares/ratelimit.go\<close>: the client address and the
  per-process limiter.  Redis is the map of its keys to a counter with an optional expiry
  (milliseconds); a script runs at one instant.  The token bucket of
  \<^verbatim>\<open>golang.org/x/time/rate\<close> is a parameter.
\<close>

subsection \<open>The Redis commands of the script\<close>

type_synonym redis = "string \<rightharpoonup> int \<times> int option"

definition redis_live :: "int \<Rightarrow> redis \<Rightarrow> string \<Rightarrow> (int \<times> int option) option" where
  "redis_live now r key =
     (case r key of
        None \<Rightarrow> None
      | Some (n, None) \<Rightarrow> Some (n, None)
      | Some (n, Some expiry) \<Rightarrow> if now < expiry then Some (n, Some expiry) else None)"

definition redis_INCR :: "int \<Rightarrow> string \<Rightarrow> redis \<Rightarrow> int \<times> redis" where
  "redis_INCR now key r =
     (case redis_live now r key of
        None \<Rightarrow> (1, r(key \<mapsto> (1, None)))
      | Some (n, expiry) \<Rightarrow> (n + 1, r(key \<mapsto> (n + 1, expiry))))"

definition redis_PEXPIRE :: "int \<Rightarrow> string \<Rightarrow> int \<Rightarrow> redis \<Rightarrow> redis" where
  "redis_PEXPIRE now key ms r =
     (case redis_live now r key of None \<Rightarrow> r | Some (n, _) \<Rightarrow> r(key \<mapsto> (n, Some (now + ms))))"

definition redis_PTTL :: "int \<Rightarrow> string \<Rightarrow> redis \<Rightarrow> int" where
  "redis_PTTL now key r =
     (case redis_live now r key of None \<Rightarrow> -2 | Some (_, None) \<Rightarrow> -1 | Some (_, Some expiry) \<Rightarrow> expiry - now)"

subsection \<open>The distributed limit\<close>

definition distributedFixedWindowScript :: "int \<Rightarrow> string \<Rightarrow> int \<Rightarrow> int \<Rightarrow> redis \<Rightarrow> (int \<times> int) \<times> redis" where
  "distributedFixedWindowScript now key limit ms r =
     (let (current, r) = redis_INCR now key r;
          r = (if current = 1 then redis_PEXPIRE now key ms r else r);
          ttl = redis_PTTL now key r
      in if current > limit then ((0, ttl), r) else ((1, ttl), r))"

text \<open>
  A nil client is \<open>None\<close>; \<open>fault\<close> is the error the connection meets, if any.  Durations are
  nanoseconds.
\<close>

definition redisLimit ::
  "int \<Rightarrow> goerr option \<Rightarrow> string \<Rightarrow> int \<Rightarrow> int \<Rightarrow> redis option \<Rightarrow> (goerr + bool \<times> int) \<times> redis option" where
  "redisLimit now fault key limit window client =
     (case client of
        None \<Rightarrow> (Inl (NewError ''redis rate limiter unavailable''), None)
      | Some r \<Rightarrow>
          (case fault of
             Some err \<Rightarrow> (Inl err, Some r)
           | None \<Rightarrow>
               (case distributedFixedWindowScript now (''rate:'' @ key) limit (go_div window 1000000) r of
                  ((allowed, ttl), r') \<Rightarrow> (Inr (allowed = 1, ttl * 1000000), Some r'))))"

text \<open>The value of \<^verbatim>\<open>Retry-After\<close>.\<close>

definition retry_after :: "int \<Rightarrow> int" where
  "retry_after retry =
     (let seconds = go_div (retry + 1000000000 - 1) 1000000000 in if seconds < 1 then 1 else seconds)"

subsection \<open>The client address\<close>

definition LastIndexByte :: "string \<Rightarrow> char \<Rightarrow> nat option" where
  "LastIndexByte s c = find (\<lambda>i. s ! i = c) (rev [0..<length s])"

definition IndexByte :: "string \<Rightarrow> char \<Rightarrow> nat option" where
  "IndexByte s c = find (\<lambda>i. s ! i = c) [0..<length s]"

text \<open>\<^verbatim>\<open>net.SplitHostPort\<close>; \<open>None\<close> is its error.\<close>

definition SplitHostPort :: "string \<Rightarrow> (string \<times> string) option" where
  "SplitHostPort hostport =
     (case LastIndexByte hostport (CHR '':'') of
        None \<Rightarrow> None
      | Some i \<Rightarrow>
          (case (if hostport ! 0 = CHR ''['' then
                   (case IndexByte hostport (CHR '']'') of
                      None \<Rightarrow> None
                    | Some close \<Rightarrow>
                        if close + 1 = length hostport then None
                        else if close + 1 = i then Some (take (close - 1) (drop 1 hostport), 1, close + 1)
                        else None)
                 else
                   (if CHR '':'' \<in> set (take i hostport) then None else Some (take i hostport, 0, 0))) of
             None \<Rightarrow> None
           | Some (host, j, k) \<Rightarrow>
               if CHR ''['' \<in> set (drop j hostport) then None
               else if CHR '']'' \<in> set (drop k hostport) then None
               else Some (host, drop (i + 1) hostport)))"

definition ClientIP :: "string \<Rightarrow> string \<Rightarrow> bool \<Rightarrow> string" where
  "ClientIP forwardedFor remoteAddr trustProxy =
     (if trustProxy \<and> forwardedFor \<noteq> '''' then
        TrimSpace (case IndexByte forwardedFor (CHR '','') of None \<Rightarrow> forwardedFor | Some i \<Rightarrow> take i forwardedFor)
      else (case SplitHostPort remoteAddr of None \<Rightarrow> remoteAddr | Some (host, _) \<Rightarrow> host))"

subsection \<open>The per-process limiter\<close>

record 'l rateClient =
  rc_limiter :: 'l
  rc_lastSeen :: int

record 'l RateLimiter =
  rl_perMinute :: int
  rl_burst :: int
  rl_trustProxy :: bool
  rl_clients :: "(string \<times> 'l rateClient) list"

definition sweepThreshold :: nat where
  "sweepThreshold = 10000"

definition NewRateLimiter :: "int \<Rightarrow> bool \<Rightarrow> 'l RateLimiter option" where
  "NewRateLimiter perMinute trustProxy =
     (if perMinute \<le> 0 then None
      else Some \<lparr>rl_perMinute = perMinute, rl_burst = perMinute * 2, rl_trustProxy = trustProxy, rl_clients = []\<rparr>)"

text \<open>
  \<open>new_bucket perMinute burst\<close> is \<^verbatim>\<open>rate.NewLimiter\<close>, \<open>take_token now\<close> its \<^verbatim>\<open>Allow\<close>.  The Go map
  is the association list of its entries, keys unique.
\<close>

definition limiter_allow ::
  "(int \<Rightarrow> int \<Rightarrow> 'l) \<Rightarrow> (int \<Rightarrow> 'l \<Rightarrow> bool \<times> 'l) \<Rightarrow> int \<Rightarrow> string \<Rightarrow> 'l RateLimiter \<Rightarrow> bool \<times> 'l RateLimiter" where
  "limiter_allow new_bucket take_token now ip rl =
     (let (bucket, clients) =
        (case map_of (rl_clients rl) ip of
           Some c \<Rightarrow> (rc_limiter c, rl_clients rl)
         | None \<Rightarrow>
             (new_bucket (rl_perMinute rl) (rl_burst rl),
              if length (rl_clients rl) \<ge> sweepThreshold
              then filter (\<lambda>(k, v). \<not> now - rc_lastSeen v > 10 * 60 * 1000000000) (rl_clients rl)
              else rl_clients rl));
          (ok, bucket) = take_token now bucket
      in (ok, rl\<lparr>rl_clients :=
            (ip, \<lparr>rc_limiter = bucket, rc_lastSeen = now\<rparr>) # filter (\<lambda>(k, v). k \<noteq> ip) clients\<rparr>))"

datatype 'r limited = TooManyRequests | Passed 'r

definition RateLimiter_Handler ::
  "(int \<Rightarrow> int \<Rightarrow> 'l) \<Rightarrow> (int \<Rightarrow> 'l \<Rightarrow> bool \<times> 'l) \<Rightarrow> int \<Rightarrow> string \<Rightarrow> string \<Rightarrow> 'r \<Rightarrow>
   'l RateLimiter option \<Rightarrow> 'r limited \<times> 'l RateLimiter option" where
  "RateLimiter_Handler new_bucket take_token now xff remote next_reply rl =
     (case rl of
        None \<Rightarrow> (Passed next_reply, None)
      | Some l \<Rightarrow>
          (case limiter_allow new_bucket take_token now (ClientIP xff remote (rl_trustProxy l)) l of
             (ok, l') \<Rightarrow> (if ok then Passed next_reply else TooManyRequests, Some l')))"

subsection \<open>The window\<close>

lemma script_step:
  assumes "redis_live now r key = None \<and> n = 0 \<and> expiry = now + ms \<or> redis_live now r key = Some (n, Some expiry)"
    and "0 < ms" and "0 \<le> n" and "n \<noteq> 0 \<longleftrightarrow> redis_live now r key \<noteq> None"
  shows "\<exists>r'. distributedFixedWindowScript now key limit ms r =
           ((if n + 1 > limit then 0 else 1, expiry - now), r') \<and> r' key = Some (n + 1, Some expiry)"
proof (cases "redis_live now r key")
  case None
  with assms have "n = 0" "expiry = now + ms" by auto
  with None assms(2) show ?thesis
    by (auto simp: distributedFixedWindowScript_def redis_INCR_def redis_PEXPIRE_def redis_PTTL_def redis_live_def Let_def)
next
  case (Some x)
  with assms have x: "x = (n, Some expiry)" "n \<noteq> 0" by auto
  then have "now < expiry" using Some by (auto simp: redis_live_def split: option.splits if_splits prod.splits)
  with Some x assms(3) show ?thesis
    by (auto simp: distributedFixedWindowScript_def redis_INCR_def redis_PTTL_def redis_live_def Let_def)
qed

text \<open>The verdicts of a run of requests on one key at the given instants.\<close>

fun window_run :: "string \<Rightarrow> int \<Rightarrow> int \<Rightarrow> int list \<Rightarrow> redis \<Rightarrow> bool list" where
  "window_run key limit ms [] r = []"
| "window_run key limit ms (t # ts) r =
     (case distributedFixedWindowScript t key limit ms r of
        ((allowed, _), r') \<Rightarrow> (allowed = 1) # window_run key limit ms ts r')"

lemma window_run_open:
  assumes "r key = Some (n, Some expiry)" and "0 < n" and "\<forall>t \<in> set ts. t < expiry" and "0 < ms"
  shows "window_run key limit ms ts r = map (\<lambda>i. n + int i < limit) [0..<length ts]"
  using assms
proof (induction ts arbitrary: r n)
  case Nil
  then show ?case by simp
next
  case (Cons t ts)
  then have "redis_live t r key = Some (n, Some expiry)" by (simp add: redis_live_def)
  with Cons.prems obtain r' where r': "distributedFixedWindowScript t key limit ms r =
      ((if n + 1 > limit then 0 else 1, expiry - t), r')" "r' key = Some (n + 1, Some expiry)"
    using script_step [of t r key n expiry ms limit] by auto
  with Cons.IH [of r' "n + 1"] Cons.prems
  have "window_run key limit ms (t # ts) r =
      (n < limit) # map (\<lambda>i. n + 1 + int i < limit) [0..<length ts]"
    by simp
  also have "\<dots> = map (\<lambda>i. n + int i < limit) (0 # map Suc [0..<length ts])"
    by (simp add: comp_def add.assoc)
  also have "0 # map Suc [0..<length ts] = [0..<length (t # ts)]"
    by (simp add: map_Suc_upt upt_conv_Cons del: upt_Suc)
  finally show ?case .
qed

lemma count_below: "length (filter (\<lambda>i. int i < limit) [0..<n]) = min n (nat limit)"
  by (induction n) auto

lemma fixed_window_verdicts:
  assumes "redis_live t0 r key = None" and "0 < ms" and "\<forall>t \<in> set ts. t < t0 + ms"
  shows "window_run key limit ms (t0 # ts) r = map (\<lambda>i. int i < limit) [0..<Suc (length ts)]"
proof -
  obtain r' where r': "distributedFixedWindowScript t0 key limit ms r =
      ((if 1 > limit then 0 else 1, ms), r')" "r' key = Some (1, Some (t0 + ms))"
    using script_step [of t0 r key 0 "t0 + ms" ms limit] assms(1,2) by auto
  have "window_run key limit ms ts r' = map (\<lambda>i. 1 + int i < limit) [0..<length ts]"
    by (rule window_run_open [where expiry = "t0 + ms"]) (use r'(2) assms in auto)
  then have "window_run key limit ms (t0 # ts) r = map (\<lambda>i. int i < limit) (0 # map Suc [0..<length ts])"
    using r'(1) by (auto simp: comp_def)
  also have "0 # map Suc [0..<length ts] = [0..<Suc (length ts)]"
    by (simp add: map_Suc_upt upt_conv_Cons del: upt_Suc)
  finally show ?thesis .
qed

text \<open>
   C11. The shared rate limit.  From the first request on a key until its window of \<open>ms\<close>
  milliseconds ends, whichever servers the requests reach, the first \<open>limit\<close> of them are
  allowed and every later one is refused.
\<close>

theorem fixed_window_bound:
  assumes "redis_live t0 r key = None" and "0 < ms" and "\<forall>t \<in> set ts. t < t0 + ms"
  shows "window_run key limit ms (t0 # ts) r = map (\<lambda>i. int i < limit) [0..<Suc (length ts)] \<and>
         length (filter (\<lambda>ok. ok) (window_run key limit ms (t0 # ts) r)) = min (Suc (length ts)) (nat limit)"
  unfolding fixed_window_verdicts [OF assms] filter_map length_map comp_def count_below by simp

theorem fixed_window_bound_witness:
  "window_run ''rate:k'' 2 60000 [1000, 1500, 20000] Map.empty = [True, True, False]"
proof -
  have "redis_live 1000 Map.empty ''rate:k'' = None" by (simp add: redis_live_def)
  from fixed_window_bound [OF this, of 60000 "[1500, 20000]" 2] show ?thesis by (simp add: upt_rec)
qed

text \<open>
   The header \<^verbatim>\<open>Retry-After\<close> of a refused request is the smallest number of seconds, at
  least one, after which the window is over.
\<close>

theorem retry_after_exact:
  assumes "0 < ttl"
  shows "1 \<le> retry_after (ttl * 1000000) \<and> ttl \<le> retry_after (ttl * 1000000) * 1000 \<and>
         (retry_after (ttl * 1000000) - 1) * 1000 < ttl"
proof -
  have "0 \<le> ttl * 1000000 + 1000000000 - 1" using assms by simp
  then have "go_div (ttl * 1000000 + 1000000000 - 1) 1000000000 = (ttl * 1000000 + 1000000000 - 1) div 1000000000"
    by (rule go_div_nonneg) simp
  moreover define q where "q = (ttl * 1000000 + 1000000000 - 1) div 1000000000"
  ultimately have r: "retry_after (ttl * 1000000) = (if q < 1 then 1 else q)"
    by (simp add: retry_after_def Let_def)
  define m where "m = (ttl * 1000000 + 1000000000 - 1) mod 1000000000"
  have "q * 1000000000 + m = ttl * 1000000 + 1000000000 - 1" unfolding q_def m_def by (rule div_mult_mod_eq)
  moreover have "0 \<le> m" "m < 1000000000" unfolding m_def by (rule pos_mod_sign pos_mod_bound, simp)+
  ultimately have "ttl \<le> q * 1000" "q * 1000 - 1000 < ttl" by linarith+
  with r assms show ?thesis by auto
qed

theorem retry_after_exact_witness: "retry_after (1500 * 1000000) = 2"
  using retry_after_exact [of 1500] by simp

end
