(* ===== verification/Account.thy ===== *)
theory Account
  imports Account_Db Rate_Limit
begin

section \<open>The account endpoints\<close>

text \<open>
  \<^verbatim>\<open>src/handlers/account.go\<close>: login, registration, refresh, revocation, password reset and the
  changes of an authenticated user.  A handler maps the decoded request (\<open>None\<close> when decoding
  failed) and the state, the database and the Redis of the rate limit, to the reply and the
  new state.  Readings of the clock, new uuids, random bytes and the identities of new rows
  come with the request context \<open>rq\<close>.
\<close>

subsection \<open>Requests and replies\<close>

record rq =
  rq_now :: "nat \<Rightarrow> int"
  rq_db :: "nat \<Rightarrow> int"
  rq_uuid :: "nat \<Rightarrow> string"
  rq_entropy :: "goerr + nat list"
  rq_user_id :: int
  rq_token_id :: int
  rq_remote :: string
  rq_forwarded :: string
  rq_trust :: bool
  rq_redis_fault :: "nat \<Rightarrow> goerr option"

record UserLoginRequest =
  ulr_Email :: string
  ulr_Password :: string
  ulr_Scope :: string
  ulr_Dt :: string
  ulr_Device :: string
  ulr_V :: string
  ulr_M :: string
  ulr_Av :: string
  ulr_F :: string
  ulr_L :: string
  ulr_C :: string

record UserLoginResponse =
  ulp_Token :: string
  ulp_Uuid :: string
  ulp_Email :: string
  ulp_RefreshToken :: string
  ulp_ExpiresIn :: int

record RegisterRequest =
  rgr_Email :: string
  rgr_Password :: string
  rgr_Scope :: string
  rgr_Device :: string

record RegisterResponse =
  rgp_Success :: "bool option"
  rgp_Message :: string
  rgp_Token :: string
  rgp_Uuid :: string
  rgp_Errors :: "string list"
  rgp_RefreshToken :: string
  rgp_ExpiresIn :: int

record UserTokenRequest =
  utr_Code :: string
  utr_GrantType :: string
  utr_RefreshToken :: string
  utr_Scope :: string
  utr_DeviceCode :: string
  utr_Device :: string

record TokenLoginResponse =
  tlp_Email :: string
  tlp_Uuid :: string
  tlp_IsNew :: bool
  tlp_AccessToken :: string
  tlp_TokenType :: string
  tlp_ExpiresIn :: int
  tlp_RefreshToken :: string

record UserResetPasswordRequest =
  urp_ResetPasswordToken :: string
  urp_Password :: string
  urp_Scope :: string
  urp_Device :: string
  urp_Email :: string

record UserChangeEmailRequest =
  uce_Email :: string
  uce_Password :: string
  uce_Scope :: string

record UserChangePasswordRequest =
  ucp_OldPassword :: string
  ucp_NewPassword :: string
  ucp_Scope :: string

record UserChangeResponse =
  ucr_Success :: "bool option"
  ucr_Message :: string
  ucr_MessageId :: string

text \<open>
  A reply: a bare status, the client error envelope of \<^verbatim>\<open>pcerrors.Write\<close>, a protobuf message,
  what \<^verbatim>\<open>writeError\<close> writes, or the refusal of the rate limit with its \<^verbatim>\<open>Retry-After\<close>.
\<close>

datatype 'm reply =
    WriteHeader int
  | PcError int string string
  | Proto int 'm
  | HttpError http_response
  | RateLimited int

record account_state =
  as_store :: store
  as_redis :: "redis option"

subsection \<open>Helpers\<close>

definition minPasswordLength :: nat where "minPasswordLength = 12"
definition maxPasswordBytes :: nat where "maxPasswordBytes = 72"

definition validDeviceID :: "string \<Rightarrow> bool" where
  "validDeviceID device = (let device = TrimSpace device in device \<noteq> '''' \<and> length device \<le> 256)"

definition validNewPassword :: "string \<Rightarrow> bool" where
  "validNewPassword password \<longleftrightarrow> length password \<ge> minPasswordLength \<and> length password \<le> maxPasswordBytes"

definition scopeOrMobile :: "string \<Rightarrow> string" where
  "scopeOrMobile scope = (if scope = '''' then ''mobile'' else scope)"

definition changeFailure :: "string \<Rightarrow> string \<Rightarrow> UserChangeResponse" where
  "changeFailure messageID message = \<lparr>ucr_Success = Some False, ucr_Message = message, ucr_MessageId = messageID\<rparr>"

definition changeSuccess :: UserChangeResponse where
  "changeSuccess = \<lparr>ucr_Success = Some True, ucr_Message = '''', ucr_MessageId = ''''\<rparr>"

subsection \<open>The credential limit\<close>

definition credential_checks :: "auth_lib \<Rightarrow> rq \<Rightarrow> string \<Rightarrow> (string \<times> int) list" where
  "credential_checks l rq identifier =
     [(''credential:ip:'' @ ClientIP (rq_forwarded rq) (rq_remote rq) (rq_trust rq), 10),
      (''credential:identifier:'' @ hex_encode (al_sha256 l (al_ToLower l (TrimSpace identifier))), 5)]"

fun credential_loop :: "rq \<Rightarrow> nat \<Rightarrow> (string \<times> int) list \<Rightarrow> redis option \<Rightarrow> 'm reply option \<times> redis option" where
  "credential_loop rq i [] r = (None, r)"
| "credential_loop rq i ((key, limit) # checks) r =
     (case redisLimit (go_div (rq_now rq i) 1000000) (rq_redis_fault rq i) key limit 60000000000 r of
        (Inl err, r') \<Rightarrow> (Some (WriteHeader 503), r')
      | (Inr (allowed, retry), r') \<Rightarrow>
          if allowed then credential_loop rq (i + 1) checks r' else (Some (RateLimited (retry_after retry)), r'))"

definition allowCredentialRequest :: "auth_lib \<Rightarrow> rq \<Rightarrow> string \<Rightarrow> redis option \<Rightarrow> 'm reply option \<times> redis option" where
  "allowCredentialRequest l rq identifier r = credential_loop rq 0 (credential_checks l rq identifier) r"

text \<open>The shape of the credential endpoints: the limit first, then the work on the database.\<close>

definition limited ::
  "auth_lib \<Rightarrow> rq \<Rightarrow> string \<Rightarrow> (store \<Rightarrow> 'm reply \<times> store) \<Rightarrow> account_state \<Rightarrow> 'm reply \<times> account_state" where
  "limited l rq identifier work s =
     (case allowCredentialRequest l rq identifier (as_redis s) of
        (Some rep, r) \<Rightarrow> (rep, s\<lparr>as_redis := r\<rparr>)
      | (None, r) \<Rightarrow>
          (case work (as_store s) of (rep, st) \<Rightarrow> (rep, \<lparr>as_store = st, as_redis = r\<rparr>)))"

subsection \<open>Issuing and rotating refresh tokens\<close>

definition issueRefreshToken ::
  "env \<Rightarrow> auth_lib \<Rightarrow> AuthConfiguration \<Rightarrow> rq \<Rightarrow> int \<Rightarrow> int \<Rightarrow> int \<Rightarrow> string \<Rightarrow> string \<Rightarrow> string \<Rightarrow> int option \<Rightarrow>
   store \<Rightarrow> (string \<times> store) result" where
  "issueRefreshToken e l cfg rq now dbnow userID scope device family rotatedFrom st =
     rbind (NewRefreshToken l (rq_entropy rq)) (\<lambda>(token, hash).
     rbind (CreateRefreshToken e dbnow (rq_token_id rq)
              \<lparr>crt_UserID = userID, crt_TokenHash = hash, crt_Scope = scope,
               crt_ExpiresAt = now + ac_RefreshTokenTTL cfg, crt_FamilyID = family, crt_DeviceID = device,
               crt_RotatedFromID = rotatedFrom\<rparr> st) (\<lambda>(row, st).
       Inr (token, st)))"

text \<open>
  The error of the family revocation is dropped by the code; a statement that fails aborts
  its transaction, and the commit that follows reports that.
\<close>

definition commit_rollback :: goerr where
  "commit_rollback = NewError ''commit unexpectedly resulted in rollback''"

definition rotateRefreshToken ::
  "env \<Rightarrow> auth_lib \<Rightarrow> AuthConfiguration \<Rightarrow> rq \<Rightarrow> RefreshToken \<Rightarrow> int \<Rightarrow> store \<Rightarrow> string result \<times> store" where
  "rotateRefreshToken e l cfg rq old userID st =
     (case RevokeRefreshToken e (rq_db rq 0) (rt_TokenHash old) st of
        Inl err \<Rightarrow> (Inl err, st)
      | Inr (revoked, st1) \<Rightarrow>
          if revoked \<noteq> 1 then
            (case RevokeRefreshTokenFamily e (rq_db rq 0) (rt_FamilyID old) st1 of
               Inl _ \<Rightarrow> (Inl commit_rollback, st1)
             | Inr (_, st2) \<Rightarrow> (Inl ErrNoRows, st2))
          else
            (case issueRefreshToken e l cfg rq (rq_now rq 4) (rq_db rq 0) userID (rt_Scope old) (rt_DeviceID old)
                    (rt_FamilyID old) (Some (rt_ID old)) st1 of
               Inl err \<Rightarrow> (Inl err, st1)
             | Inr (token, st2) \<Rightarrow> (Inr token, st2)))"

subsection \<open>Login and registration\<close>

definition login_work ::
  "env \<Rightarrow> (goerr \<Rightarrow> string) \<Rightarrow> auth_lib \<Rightarrow> AuthConfiguration \<Rightarrow> rq \<Rightarrow> UserLoginRequest \<Rightarrow> store \<Rightarrow>
   UserLoginResponse reply \<times> store" where
  "login_work e ext_text l cfg rq req st =
     (if ulr_Email req = '''' then (PcError 400 ''login_email_blank'' ''email is required'', st)
      else if ulr_Password req = '''' then (PcError 400 ''login_password_blank'' ''password is required'', st)
      else if \<not> validDeviceID (ulr_Device req) then (PcError 400 ''invalid_grant'' ''device is required'', st)
      else
        (case GetUserByEmail e l (ulr_Email req) st of
           Inl err \<Rightarrow>
             if Is_ErrNoRows err then (PcError 401 ''login_email_not_found'' ''email not found'', st)
             else (HttpError (writeError ext_text err), st)
         | Inr user \<Rightarrow>
             if \<not> CheckPassword l (u_PasswordHash user) (ulr_Password req)
             then (PcError 401 ''login_password_incorrect'' ''incorrect password'', st)
             else
               let scope = scopeOrMobile (ulr_Scope req)
               in (case MintAccessToken l cfg (rq_now rq 2) (u_Uuid user) (u_Email user) scope of
                     Inl err \<Rightarrow> (HttpError (writeError ext_text err), st)
                   | Inr (token, expiresIn) \<Rightarrow>
                       (case issueRefreshToken e l cfg rq (rq_now rq 3) (rq_db rq 1) (u_ID user) scope (ulr_Device req)
                               (rq_uuid rq 0) None st of
                          Inl err \<Rightarrow> (HttpError (writeError ext_text err), st)
                        | Inr (refreshToken, st') \<Rightarrow>
                            (Proto 200 \<lparr>ulp_Token = token, ulp_Uuid = u_Uuid user, ulp_Email = u_Email user,
                               ulp_RefreshToken = refreshToken, ulp_ExpiresIn = expiresIn\<rparr>, st')))))"

definition PostUserLogin ::
  "env \<Rightarrow> (goerr \<Rightarrow> string) \<Rightarrow> auth_lib \<Rightarrow> AuthConfiguration \<Rightarrow> rq \<Rightarrow> UserLoginRequest option \<Rightarrow> account_state \<Rightarrow>
   UserLoginResponse reply \<times> account_state" where
  "PostUserLogin e ext_text l cfg rq req s =
     (case req of
        None \<Rightarrow> (PcError 400 ''invalid_grant'' ''invalid request'', s)
      | Some req \<Rightarrow> limited l rq (ulr_Email req) (login_work e ext_text l cfg rq req) s)"

definition register_tx ::
  "env \<Rightarrow> auth_lib \<Rightarrow> AuthConfiguration \<Rightarrow> rq \<Rightarrow> RegisterRequest \<Rightarrow> string \<Rightarrow> store \<Rightarrow> ((User \<times> string) \<times> store) result" where
  "register_tx e l cfg rq req hash st =
     (let scope = scopeOrMobile (rgr_Scope req)
      in rbind (CreateUser e l (rq_db rq 0) (rq_user_id rq) (rq_uuid rq 0) (rgr_Email req) hash scope st) (\<lambda>(user, st).
         rbind (issueRefreshToken e l cfg rq (rq_now rq 2) (rq_db rq 0) (u_ID user) scope (rgr_Device req)
                  (rq_uuid rq 1) None st) (\<lambda>(refreshToken, st).
           Inr ((user, refreshToken), st))))"

definition register_work ::
  "env \<Rightarrow> (goerr \<Rightarrow> string) \<Rightarrow> auth_lib \<Rightarrow> AuthConfiguration \<Rightarrow> rq \<Rightarrow> RegisterRequest \<Rightarrow> store \<Rightarrow>
   RegisterResponse reply \<times> store" where
  "register_work e ext_text l cfg rq req st =
     (if rgr_Email req = '''' then (PcError 400 ''login_email_blank'' ''email is required'', st)
      else if \<not> al_mail_valid l (rgr_Email req) then (PcError 400 ''login_email_invalid'' ''email is invalid'', st)
      else if rgr_Password req = '''' then (PcError 400 ''login_password_blank'' ''password is required'', st)
      else if \<not> validDeviceID (rgr_Device req)
      then (PcError 400 ''login_user_register_failed'' ''device is required'', st)
      else if length (rgr_Password req) < minPasswordLength
      then (PcError 400 ''login_password_invalid'' ''password is too short'', st)
      else if length (rgr_Password req) > maxPasswordBytes
      then (PcError 400 ''login_password_invalid'' ''password is too long'', st)
      else
        (case HashPassword l (rgr_Password req) of
           Inl err \<Rightarrow> (HttpError (writeError ext_text err), st)
         | Inr hash \<Rightarrow>
             (case InTx e (register_tx e l cfg rq req hash) st of
                (Inl err, st') \<Rightarrow>
                  (if is_duplicate err then PcError 409 ''login_email_taken'' ''email already in use''
                   else HttpError (writeError ext_text err), st')
              | (Inr (user, refreshToken), st') \<Rightarrow>
                  (case MintAccessToken l cfg (rq_now rq 3) (u_Uuid user) (u_Email user) (scopeOrMobile (rgr_Scope req)) of
                     Inl err \<Rightarrow> (HttpError (writeError ext_text err), st')
                   | Inr (token, expiresIn) \<Rightarrow>
                       (Proto 200 \<lparr>rgp_Success = Some True, rgp_Message = '''', rgp_Token = token,
                          rgp_Uuid = u_Uuid user, rgp_Errors = [],
                          rgp_RefreshToken = refreshToken, rgp_ExpiresIn = expiresIn\<rparr>, st')))))"

definition PostUserRegister ::
  "env \<Rightarrow> (goerr \<Rightarrow> string) \<Rightarrow> auth_lib \<Rightarrow> AuthConfiguration \<Rightarrow> rq \<Rightarrow> RegisterRequest option \<Rightarrow> account_state \<Rightarrow>
   RegisterResponse reply \<times> account_state" where
  "PostUserRegister e ext_text l cfg rq req s =
     (case req of
        None \<Rightarrow> (PcError 400 ''login_user_register_failed'' ''invalid request'', s)
      | Some req \<Rightarrow> limited l rq (rgr_Email req) (register_work e ext_text l cfg rq req) s)"

subsection \<open>Refresh and revocation\<close>

text \<open>\<open>None\<close> stands for the flag \<^verbatim>\<open>invalidGrant\<close>.\<close>

definition token_tx ::
  "env \<Rightarrow> auth_lib \<Rightarrow> AuthConfiguration \<Rightarrow> rq \<Rightarrow> UserTokenRequest \<Rightarrow> store \<Rightarrow> (TokenLoginResponse option \<times> store) result" where
  "token_tx e l cfg rq req st =
     rbind (GetRefreshTokenByHash e (HashRefreshToken l (utr_RefreshToken req)) st) (\<lambda>stored.
       if rt_RevokedAt stored \<noteq> None then
         rbind (RevokeRefreshTokenFamily e (rq_db rq 0) (rt_FamilyID stored) st) (\<lambda>(_, st). Inr (None, st))
       else if rq_now rq 2 > rt_ExpiresAt stored then Inr (None, st)
       else if rt_DeviceID stored \<noteq> utr_Device req then
         rbind (RevokeRefreshTokenFamily e (rq_db rq 0) (rt_FamilyID stored) st) (\<lambda>(_, st). Inr (None, st))
       else
         rbind (GetUserByID e (rt_UserID stored) st) (\<lambda>user.
         rbind (MintAccessToken l cfg (rq_now rq 3) (u_Uuid user) (u_Email user) (rt_Scope stored)) (\<lambda>(accessToken, expiresIn).
           case rotateRefreshToken e l cfg rq stored (u_ID user) st of
             (Inl err, st) \<Rightarrow> if Is_ErrNoRows err then Inr (None, st) else Inl err
           | (Inr newRefresh, st) \<Rightarrow>
               Inr (Some \<lparr>tlp_Email = u_Email user, tlp_Uuid = u_Uuid user, tlp_IsNew = False,
                      tlp_AccessToken = accessToken, tlp_TokenType = ''Bearer'', tlp_ExpiresIn = expiresIn,
                      tlp_RefreshToken = newRefresh\<rparr>, st))))"

definition refresh_invalid :: "'m reply" where
  "refresh_invalid = PcError 400 ''invalid_grant'' ''refresh token is invalid or expired''"

definition token_work ::
  "env \<Rightarrow> (goerr \<Rightarrow> string) \<Rightarrow> auth_lib \<Rightarrow> AuthConfiguration \<Rightarrow> rq \<Rightarrow> UserTokenRequest \<Rightarrow> store \<Rightarrow>
   TokenLoginResponse reply \<times> store" where
  "token_work e ext_text l cfg rq req st =
     (if utr_GrantType req \<noteq> ''refresh_token'' \<or> \<not> ValidRefreshToken (utr_RefreshToken req) \<or>
         \<not> validDeviceID (utr_Device req)
      then (PcError 400 ''invalid_grant'' ''unsupported grant type'', st)
      else
        (case InTx e (token_tx e l cfg rq req) st of
           (Inl err, st') \<Rightarrow>
             (if Is_ErrNoRows err then refresh_invalid else HttpError (writeError ext_text err), st')
         | (Inr None, st') \<Rightarrow> (refresh_invalid, st')
         | (Inr (Some response), st') \<Rightarrow> (Proto 200 response, st')))"

definition PostUserToken ::
  "env \<Rightarrow> (goerr \<Rightarrow> string) \<Rightarrow> auth_lib \<Rightarrow> AuthConfiguration \<Rightarrow> rq \<Rightarrow> UserTokenRequest option \<Rightarrow> account_state \<Rightarrow>
   TokenLoginResponse reply \<times> account_state" where
  "PostUserToken e ext_text l cfg rq req s =
     (case req of
        None \<Rightarrow> (PcError 400 ''invalid_grant'' ''invalid request'', s)
      | Some req \<Rightarrow> limited l rq (HashRefreshToken l (utr_RefreshToken req)) (token_work e ext_text l cfg rq req) s)"

definition revoke_tx :: "env \<Rightarrow> auth_lib \<Rightarrow> rq \<Rightarrow> string \<Rightarrow> store \<Rightarrow> (unit \<times> store) result" where
  "revoke_tx e l rq token st =
     (case GetRefreshTokenByHash e (HashRefreshToken l token) st of
        Inl err \<Rightarrow> if Is_ErrNoRows err then Inr ((), st) else Inl err
      | Inr stored \<Rightarrow>
          rbind (RevokeRefreshTokenFamily e (rq_db rq 0) (rt_FamilyID stored) st) (\<lambda>(_, st). Inr ((), st)))"

definition PostUserTokenRevoke ::
  "env \<Rightarrow> (goerr \<Rightarrow> string) \<Rightarrow> auth_lib \<Rightarrow> rq \<Rightarrow> string option \<Rightarrow> account_state \<Rightarrow> unit reply \<times> account_state" where
  "PostUserTokenRevoke e ext_text l rq req s =
     (case req of
        None \<Rightarrow> (WriteHeader 400, s)
      | Some token \<Rightarrow>
          if \<not> ValidRefreshToken token then (WriteHeader 400, s)
          else limited l rq (HashRefreshToken l token)
            (\<lambda>st. case InTx e (revoke_tx e l rq token) st of
                    (Inl err, st') \<Rightarrow> (HttpError (writeError ext_text err), st')
                  | (Inr (), st') \<Rightarrow> (WriteHeader 200, st')) s)"

subsection \<open>Password reset\<close>

definition reset_tx ::
  "env \<Rightarrow> auth_lib \<Rightarrow> rq \<Rightarrow> UserResetPasswordRequest \<Rightarrow> string \<Rightarrow> store \<Rightarrow> (unit \<times> store) result" where
  "reset_tx e l rq req hash st =
     rbind (GetUserByEmail e l (TrimSpace (urp_Email req)) st) (\<lambda>user.
     rbind (ConsumePasswordResetCode e (rq_db rq 0) (HashRefreshToken l (urp_ResetPasswordToken req)) st) (\<lambda>(userID, st).
       if userID \<noteq> u_ID user then Inl ErrNoRows
       else
         rbind (UpdateUserPassword e (rq_db rq 0) userID hash st) (\<lambda>(_, st).
         rbind (RevokeAllRefreshTokens e (rq_db rq 0) userID st) (\<lambda>(_, st). Inr ((), st)))))"

definition reset_work ::
  "env \<Rightarrow> (goerr \<Rightarrow> string) \<Rightarrow> auth_lib \<Rightarrow> rq \<Rightarrow> UserResetPasswordRequest \<Rightarrow> store \<Rightarrow> UserChangeResponse reply \<times> store" where
  "reset_work e ext_text l rq req st =
     (case HashPassword l (urp_Password req) of
        Inl err \<Rightarrow> (HttpError (writeError ext_text err), st)
      | Inr hash \<Rightarrow>
          (case InTx e (reset_tx e l rq req hash) st of
             (Inl err, st') \<Rightarrow>
               (if Is_ErrNoRows err then PcError 400 ''invalid_grant'' ''reset code is invalid or expired''
                else HttpError (writeError ext_text err), st')
           | (Inr (), st') \<Rightarrow> (Proto 200 changeSuccess, st')))"

definition PostResetPassword ::
  "env \<Rightarrow> (goerr \<Rightarrow> string) \<Rightarrow> auth_lib \<Rightarrow> rq \<Rightarrow> UserResetPasswordRequest option \<Rightarrow> account_state \<Rightarrow>
   UserChangeResponse reply \<times> account_state" where
  "PostResetPassword e ext_text l rq req s =
     (case req of
        None \<Rightarrow> (PcError 400 ''login_password_invalid'' ''invalid reset request'', s)
      | Some req \<Rightarrow>
          if \<not> validNewPassword (urp_Password req) \<or> urp_ResetPasswordToken req = '''' \<or>
             \<not> validDeviceID (urp_Device req) \<or> TrimSpace (urp_Email req) = ''''
          then (PcError 400 ''login_password_invalid'' ''invalid reset request'', s)
          else limited l rq (urp_Email req) (reset_work e ext_text l rq req) s)"

subsection \<open>Changes of the authenticated user\<close>

text \<open>\<open>Inl\<close> is the reply \<^verbatim>\<open>currentDbUser\<close> has written.\<close>

definition currentDbUser :: "env \<Rightarrow> (goerr \<Rightarrow> string) \<Rightarrow> auth_User option \<Rightarrow> store \<Rightarrow> 'm reply + User" where
  "currentDbUser e ext_text ctxUser st =
     (case ctxUser of
        None \<Rightarrow> Inl (WriteHeader 401)
      | Some cu \<Rightarrow>
          (case GetUserByUUID e (au_UUID cu) st of
             Inl err \<Rightarrow> if Is_ErrNoRows err then Inl (WriteHeader 401) else Inl (HttpError (writeError ext_text err))
           | Inr user \<Rightarrow> Inr user))"

definition PostChangeEmail ::
  "env \<Rightarrow> (goerr \<Rightarrow> string) \<Rightarrow> auth_lib \<Rightarrow> rq \<Rightarrow> auth_User option \<Rightarrow> UserChangeEmailRequest option \<Rightarrow> store \<Rightarrow>
   UserChangeResponse reply \<times> store" where
  "PostChangeEmail e ext_text l rq ctxUser req st =
     (case req of
        None \<Rightarrow> (PcError 400 ''login_email_invalid'' ''invalid request'', st)
      | Some req \<Rightarrow>
          (case currentDbUser e ext_text ctxUser st of
             Inl rep \<Rightarrow> (rep, st)
           | Inr user \<Rightarrow>
               if \<not> al_mail_valid l (uce_Email req)
               then (Proto 200 (changeFailure ''login_email_invalid'' ''email is invalid''), st)
               else if \<not> CheckPassword l (u_PasswordHash user) (uce_Password req)
               then (Proto 200 (changeFailure ''login_password_incorrect'' ''incorrect password''), st)
               else
                 (case UpdateUserEmail e l (rq_db rq 1) (u_ID user) (uce_Email req) st of
                    Inl err \<Rightarrow>
                      (if is_duplicate err then Proto 200 (changeFailure ''login_email_taken'' ''email already in use'')
                       else HttpError (writeError ext_text err), st)
                  | Inr (_, st') \<Rightarrow> (Proto 200 changeSuccess, st'))))"

text \<open>The two statements are not in one transaction.\<close>

definition PostChangePassword ::
  "env \<Rightarrow> (goerr \<Rightarrow> string) \<Rightarrow> auth_lib \<Rightarrow> rq \<Rightarrow> auth_User option \<Rightarrow> UserChangePasswordRequest option \<Rightarrow> store \<Rightarrow>
   UserChangeResponse reply \<times> store" where
  "PostChangePassword e ext_text l rq ctxUser req st =
     (case req of
        None \<Rightarrow> (PcError 400 ''login_password_invalid'' ''invalid request'', st)
      | Some req \<Rightarrow>
          (case currentDbUser e ext_text ctxUser st of
             Inl rep \<Rightarrow> (rep, st)
           | Inr user \<Rightarrow>
               if \<not> CheckPassword l (u_PasswordHash user) (ucp_OldPassword req)
               then (Proto 200 (changeFailure ''login_password_incorrect'' ''incorrect password''), st)
               else if length (ucp_NewPassword req) < minPasswordLength
               then (Proto 200 (changeFailure ''login_password_invalid'' ''password is too short''), st)
               else if length (ucp_NewPassword req) > maxPasswordBytes
               then (Proto 200 (changeFailure ''login_password_invalid'' ''password is too long''), st)
               else
                 (case HashPassword l (ucp_NewPassword req) of
                    Inl err \<Rightarrow> (HttpError (writeError ext_text err), st)
                  | Inr hash \<Rightarrow>
                      (case UpdateUserPassword e (rq_db rq 1) (u_ID user) hash st of
                         Inl err \<Rightarrow> (HttpError (writeError ext_text err), st)
                       | Inr (_, st1) \<Rightarrow>
                           (case RevokeAllRefreshTokens e (rq_db rq 2) (u_ID user) st1 of
                              Inl err \<Rightarrow> (HttpError (writeError ext_text err), st1)
                            | Inr (_, st2) \<Rightarrow> (Proto 200 changeSuccess, st2))))))"


subsection \<open>Reset codes\<close>

text \<open>
  \<^verbatim>\<open>PostAdminPasswordReset\<close> of \<^verbatim>\<open>src/handlers/admin.go\<close> issues a code of twelve random bytes for fifteen minutes.
  \<open>refused\<close> is the status with which the checks of the administrator's session and form refuse the request;
  the answer is plain text, and its audit entry goes to a table of the administration.
\<close>

definition PostAdminPasswordReset ::
  "env \<Rightarrow> (goerr \<Rightarrow> string) \<Rightarrow> auth_lib \<Rightarrow> rq \<Rightarrow> int \<Rightarrow> nat list \<Rightarrow> int option \<Rightarrow> string \<Rightarrow> store \<Rightarrow> string reply \<times> store" where
  "PostAdminPasswordReset e ext_text l rq new_id raw refused email st =
     (case refused of
        Some status \<Rightarrow> (WriteHeader status, st)
      | None \<Rightarrow>
          (case GetUserByEmail e l (TrimSpace email) st of
             Inl err \<Rightarrow> (if Is_ErrNoRows err then WriteHeader 404 else HttpError (writeError ext_text err), st)
           | Inr user \<Rightarrow>
               (let code = b64_encode raw
                in case CreatePasswordResetCode e (rq_db rq 0) new_id (u_ID user) (HashRefreshToken l code)
                          (rq_now rq 0 + 15 * 60 * 1000000000) st of
                     Inl err \<Rightarrow> (HttpError (writeError ext_text err), st)
                   | Inr (_, st') \<Rightarrow> (Proto 200 (''Reset code (expires in 15 minutes): '' @ code), st'))))"

end
