(* ===== verification/Account_Sessions.thy ===== *)
theory Account_Sessions
  imports Account Example_Env
begin

section \<open>Sessions: what the refresh tokens stand for\<close>

text \<open>
  A login or a registration opens a session: a family of refresh tokens bound to a user, a
  device and a scope.  A refresh replaces the live token of the family, and a theft signal, a
  revocation, a reset or a change of the password ends it.  \<open>token_change\<close> names the effects
  that the handlers of \<^verbatim>\<open>src/handlers/account.go\<close> have on the table of tokens, and
  \<open>session_step\<close> is the abstract machine they implement: sessions are opened once and, once
  ended, never come back.
\<close>

subsection \<open>The invariant of the tokens\<close>

abbreviation revoked :: "instant \<Rightarrow> RefreshToken \<Rightarrow> RefreshToken" where
  "revoked now t \<equiv> t\<lparr>rt_RevokedAt := Some now\<rparr>"

abbreviation revoke_rows :: "instant \<Rightarrow> (RefreshToken \<Rightarrow> bool) \<Rightarrow> RefreshToken list \<Rightarrow> RefreshToken list" where
  "revoke_rows now P ts \<equiv> update_where (\<lambda>t. P t \<and> live t) (revoked now) ts"

definition binding :: "RefreshToken \<Rightarrow> int \<times> string \<times> string" where
  "binding t = (rt_UserID t, rt_DeviceID t, rt_Scope t)"

definition tokens_ok :: "(string \<Rightarrow> string option) \<Rightarrow> RefreshToken list \<Rightarrow> bool" where
  "tokens_ok cu ts \<longleftrightarrow>
     keyed rt_TokenHash ts \<and>
     (\<forall>t \<in> set ts. cu (rt_FamilyID t) = Some (rt_FamilyID t)) \<and>
     (\<forall>t \<in> set ts. \<forall>t' \<in> set ts. rt_FamilyID t = rt_FamilyID t' \<longrightarrow>
        binding t = binding t' \<and> (live t \<and> live t' \<longrightarrow> t = t'))"

inductive token_change :: "(string \<Rightarrow> string option) \<Rightarrow> RefreshToken list \<Rightarrow> RefreshToken list \<Rightarrow> bool"
  for cu :: "string \<Rightarrow> string option" where
  keep: "token_change cu ts ts"
| issue: "token_change cu ts (ts @ [t])"
    if "live t" "cu (rt_FamilyID t) = Some (rt_FamilyID t)" "rt_TokenHash t \<notin> rt_TokenHash ` set ts"
      "rt_FamilyID t \<notin> rt_FamilyID ` set ts"
| end_family: "token_change cu ts (revoke_rows now (\<lambda>t. rt_FamilyID t = f) ts)"
| end_user: "token_change cu ts (revoke_rows now (\<lambda>t. rt_UserID t = uid) ts)"
| rotate: "token_change cu ts (revoke_rows now (\<lambda>t. rt_TokenHash t = rt_TokenHash old) ts @ [t])"
    if "old \<in> set ts" "live old" "live t" "rt_FamilyID t = rt_FamilyID old" "binding t = binding old"
      "rt_TokenHash t \<notin> rt_TokenHash ` set ts"

lemma binding_revoked [simp]: "binding (revoked now t) = binding t"
  by (simp add: binding_def)

lemma tokens_ok_same:
  "tokens_ok cu ts \<Longrightarrow> t \<in> set ts \<Longrightarrow> t' \<in> set ts \<Longrightarrow> rt_FamilyID t = rt_FamilyID t' \<Longrightarrow> binding t = binding t'"
  "tokens_ok cu ts \<Longrightarrow> t \<in> set ts \<Longrightarrow> t' \<in> set ts \<Longrightarrow> rt_FamilyID t = rt_FamilyID t' \<Longrightarrow> live t \<Longrightarrow> live t' \<Longrightarrow> t = t'"
  unfolding tokens_ok_def by blast+

lemma tokens_ok_keyed: "tokens_ok cu ts \<Longrightarrow> keyed rt_TokenHash ts"
  by (simp add: tokens_ok_def)

lemma tokens_ok_canonical: "tokens_ok cu ts \<Longrightarrow> t \<in> set ts \<Longrightarrow> cu (rt_FamilyID t) = Some (rt_FamilyID t)"
  unfolding tokens_ok_def by blast

lemma keyed_revoke_rows: "keyed rt_TokenHash ts \<Longrightarrow> keyed rt_TokenHash (revoke_rows now P ts)"
  by (simp add: keyed_update)

lemma hashes_revoke_rows: "rt_TokenHash ` set (revoke_rows now P ts) = rt_TokenHash ` set ts"
proof -
  have "map rt_TokenHash (revoke_rows now P ts) = map rt_TokenHash ts"
    by (simp add: update_where_def)
  then show ?thesis by (metis list.set_map)
qed

text \<open>Every row after a revocation comes from a row of the same hash, family and binding.\<close>

lemma revoke_rows_origin:
  assumes "t \<in> set (revoke_rows now P ts)"
  obtains s where "s \<in> set ts" "rt_TokenHash t = rt_TokenHash s" "rt_FamilyID t = rt_FamilyID s"
    "binding t = binding s" "live t \<longrightarrow> t = s \<and> \<not> P s"
proof -
  from assms obtain s where "s \<in> set ts" "t = (if P s \<and> live s then revoked now s else s)"
    by (auto simp: update_where_def)
  then show thesis by (intro that [of s]) auto
qed

lemma tokens_ok_revoke:
  assumes "tokens_ok cu ts"
  shows "tokens_ok cu (revoke_rows now P ts)"
  unfolding tokens_ok_def
proof (intro conjI ballI impI)
  show "keyed rt_TokenHash (revoke_rows now P ts)"
    using assms by (simp add: tokens_ok_def keyed_revoke_rows)
next
  fix t assume "t \<in> set (revoke_rows now P ts)"
  then obtain s where "s \<in> set ts" "rt_TokenHash t = rt_TokenHash s" "rt_FamilyID t = rt_FamilyID s" "binding t = binding s"
    "live t \<longrightarrow> t = s \<and> \<not> P s"
    by (rule revoke_rows_origin)
  from tokens_ok_canonical [OF assms this(1)] this(3) show "cu (rt_FamilyID t) = Some (rt_FamilyID t)" by simp
next
  fix t t'
  assume m: "t \<in> set (revoke_rows now P ts)" "t' \<in> set (revoke_rows now P ts)" and f: "rt_FamilyID t = rt_FamilyID t'"
  from m(1) obtain s where s: "s \<in> set ts" "rt_TokenHash t = rt_TokenHash s" "rt_FamilyID t = rt_FamilyID s" "binding t = binding s"
    "live t \<longrightarrow> t = s \<and> \<not> P s"
    by (rule revoke_rows_origin)
  from m(2) obtain s' where s': "s' \<in> set ts" "rt_TokenHash t' = rt_TokenHash s'" "rt_FamilyID t' = rt_FamilyID s'" "binding t' = binding s'"
    "live t' \<longrightarrow> t' = s' \<and> \<not> P s'"
    by (rule revoke_rows_origin)
  from f s(3) s'(3) have g: "rt_FamilyID s = rt_FamilyID s'" by simp
  show "binding t = binding t'"
    using tokens_ok_same(1) [OF assms s(1) s'(1) g] s(4) s'(4) by simp
  show "t = t'" if "live t \<and> live t'"
    using that tokens_ok_same(2) [OF assms s(1) s'(1) g] s(5) s'(5) by metis
qed

lemma tokens_ok_append:
  assumes ok: "tokens_ok cu ts" and t: "cu (rt_FamilyID t) = Some (rt_FamilyID t)"
    and fresh: "rt_TokenHash t \<notin> rt_TokenHash ` set ts"
    and old: "\<And>t'. t' \<in> set ts \<Longrightarrow> rt_FamilyID t' = rt_FamilyID t \<Longrightarrow> binding t' = binding t \<and> \<not> live t'"
  shows "tokens_ok cu (ts @ [t])"
  unfolding tokens_ok_def
proof (intro conjI ballI impI)
  show "keyed rt_TokenHash (ts @ [t])"
    using ok fresh by (simp add: tokens_ok_def keyed_def)
next
  fix a assume "a \<in> set (ts @ [t])"
  then show "cu (rt_FamilyID a) = Some (rt_FamilyID a)"
    using ok t by (auto simp: tokens_ok_def)
next
  fix a b
  assume m: "a \<in> set (ts @ [t])" "b \<in> set (ts @ [t])" and f: "rt_FamilyID a = rt_FamilyID b"
  consider "a \<in> set ts" "b \<in> set ts" | "a = t" "b = t" | "a \<in> set ts" "b = t" | "a = t" "b \<in> set ts"
    using m by auto
  then have "binding a = binding b \<and> (live a \<and> live b \<longrightarrow> a = b)"
  proof cases
    case 1
    then show ?thesis using tokens_ok_same [OF ok _ _ f] by blast
  next
    case 3
    then show ?thesis using old [of a] f by auto
  next
    case 4
    then show ?thesis using old [of b] f by auto
  qed simp
  then show "binding a = binding b" and "live a \<and> live b \<Longrightarrow> a = b" by blast+
qed

lemma token_change_ok: "token_change cu ts ts' \<Longrightarrow> tokens_ok cu ts \<Longrightarrow> tokens_ok cu ts'"
proof (induction rule: token_change.induct)
  case (issue t ts)
  then have "\<nexists>t'. t' \<in> set ts \<and> rt_FamilyID t' = rt_FamilyID t" by (metis image_eqI)
  with issue show ?case by (intro tokens_ok_append) blast+
next
  case (rotate old ts t now)
  let ?ts = "revoke_rows now (\<lambda>t. rt_TokenHash t = rt_TokenHash old) ts"
  show ?case
  proof (rule tokens_ok_append)
    show "tokens_ok cu ?ts" using rotate.prems by (rule tokens_ok_revoke)
    show "cu (rt_FamilyID t) = Some (rt_FamilyID t)"
      using tokens_ok_canonical [OF rotate.prems rotate.hyps(1)] rotate.hyps(4) by simp
    show "rt_TokenHash t \<notin> rt_TokenHash ` set ?ts"
      using rotate.hyps by (simp add: hashes_revoke_rows)
    show "binding t' = binding t \<and> \<not> live t'" if "t' \<in> set ?ts" "rt_FamilyID t' = rt_FamilyID t" for t'
    proof -
      from that(1) obtain s where s: "s \<in> set ts" "rt_TokenHash t' = rt_TokenHash s" "rt_FamilyID t' = rt_FamilyID s" "binding t' = binding s"
    "live t' \<longrightarrow> t' = s \<and> \<not> rt_TokenHash s = rt_TokenHash old"
        by (rule revoke_rows_origin)
      with that(2) rotate.hyps(4) have "rt_FamilyID s = rt_FamilyID old" by simp
      from tokens_ok_same [OF rotate.prems s(1) rotate.hyps(1) this] rotate.hyps(2,5) s(4,5)
      show ?thesis by metis
    qed
  qed
qed (simp_all add: tokens_ok_revoke)

subsection \<open>The abstract machine\<close>

record session =
  se_user :: int
  se_device :: string
  se_scope :: string
  se_active :: bool

text \<open>The families of the table as sessions, and the steps of the machine.\<close>

definition family :: "string \<Rightarrow> RefreshToken list \<Rightarrow> RefreshToken list" where
  "family f ts = filter (\<lambda>t. rt_FamilyID t = f) ts"

definition sessions :: "RefreshToken list \<Rightarrow> string \<rightharpoonup> session" where
  "sessions ts f =
     (case family f ts of
        [] \<Rightarrow> None
      | t # ts' \<Rightarrow> Some \<lparr>se_user = rt_UserID t, se_device = rt_DeviceID t, se_scope = rt_Scope t,
                   se_active = list_ex live (t # ts')\<rparr>)"

definition end_sessions :: "(session \<Rightarrow> string \<Rightarrow> bool) \<Rightarrow> (string \<rightharpoonup> session) \<Rightarrow> (string \<rightharpoonup> session)" where
  "end_sessions P m f = map_option (\<lambda>s. if P s f then s\<lparr>se_active := False\<rparr> else s) (m f)"

inductive session_step :: "(string \<rightharpoonup> session) \<Rightarrow> (string \<rightharpoonup> session) \<Rightarrow> bool" where
  unchanged: "session_step m m"
| opened: "m f = None \<Longrightarrow> se_active s \<Longrightarrow> session_step m (m(f \<mapsto> s))"
| ended: "session_step m (end_sessions (\<lambda>s g. g = f) m)"
| signed_out: "session_step m (end_sessions (\<lambda>s g. se_user s = uid) m)"

lemma family_append: "family f (ts @ [t]) = family f ts @ (if rt_FamilyID t = f then [t] else [])"
  by (simp add: family_def)

lemma family_revoke: "family f (revoke_rows now P ts) = revoke_rows now P (family f ts)"
  by (induction ts) (simp_all add: family_def update_where_def)

lemma family_Nil: "family f ts = [] \<longleftrightarrow> f \<notin> rt_FamilyID ` set ts"
  by (induction ts) (auto simp: family_def)

lemma sessions_None: "sessions ts f = None \<longleftrightarrow> f \<notin> rt_FamilyID ` set ts"
  by (simp add: sessions_def family_Nil [symmetric] split: list.split)

text \<open>In a table that satisfies the invariant a session reads its binding off any token of the family.\<close>

lemma sessions_Some:
  assumes "tokens_ok cu ts" and "t \<in> set ts"
  shows "sessions ts (rt_FamilyID t) =
           Some \<lparr>se_user = rt_UserID t, se_device = rt_DeviceID t, se_scope = rt_Scope t,
                 se_active = (\<exists>s \<in> set ts. rt_FamilyID s = rt_FamilyID t \<and> live s)\<rparr>"
proof -
  have "family (rt_FamilyID t) ts \<noteq> []" using assms(2) by (auto simp: family_Nil)
  then obtain s ss where s: "family (rt_FamilyID t) ts = s # ss" by (cases "family (rt_FamilyID t) ts") auto
  then have "s \<in> set (family (rt_FamilyID t) ts)" by simp
  then have "s \<in> set ts" "rt_FamilyID s = rt_FamilyID t" by (simp_all add: family_def)
  from tokens_ok_same(1) [OF assms(1) this(1) assms(2) this(2)]
  have b: "rt_UserID s = rt_UserID t" "rt_DeviceID s = rt_DeviceID t" "rt_Scope s = rt_Scope t"
    by (simp_all add: binding_def)
  have a: "list_ex live (family (rt_FamilyID t) ts) \<longleftrightarrow> (\<exists>s \<in> set ts. rt_FamilyID s = rt_FamilyID t \<and> live s)"
    by (auto simp: list_ex_iff family_def)
  show ?thesis unfolding sessions_def a [symmetric] using s b by simp
qed

lemma sessions_revoke:
  assumes ok: "tokens_ok cu ts"
    and PQ: "\<And>t s. t \<in> set ts \<Longrightarrow> se_user s = rt_UserID t \<Longrightarrow> P t \<longleftrightarrow> Q s (rt_FamilyID t)"
  shows "sessions (revoke_rows now P ts) = end_sessions Q (sessions ts)"
proof
  fix f
  let ?ts = "revoke_rows now P ts"
  have fams: "rt_FamilyID ` set ?ts = rt_FamilyID ` set ts"
  proof -
    have "map rt_FamilyID ?ts = map rt_FamilyID ts" by (simp add: update_where_def)
    then show ?thesis by (metis list.set_map)
  qed
  show "sessions ?ts f = end_sessions Q (sessions ts) f"
  proof (cases "f \<in> rt_FamilyID ` set ts")
    case False
    then have "sessions ?ts f = None" "sessions ts f = None" by (simp_all add: sessions_None fams)
    then show ?thesis by (simp add: end_sessions_def)
  next
    case True
    then have "f \<in> rt_FamilyID ` set ?ts" by (simp only: fams)
    then obtain t where t: "f = rt_FamilyID t" "t \<in> set ?ts" by (rule imageE)
    from t(2) obtain s where s: "s \<in> set ts" "rt_TokenHash t = rt_TokenHash s" "rt_FamilyID t = rt_FamilyID s" "binding t = binding s"
    "live t \<longrightarrow> t = s \<and> \<not> P s"
      by (rule revoke_rows_origin)
    have live: "(\<exists>s' \<in> set ?ts. rt_FamilyID s' = f \<and> live s') \<longleftrightarrow>
                (\<exists>s' \<in> set ts. rt_FamilyID s' = f \<and> live s' \<and> \<not> P s')"
      by (fastforce simp: update_where_def)
    have same: "P s' \<longleftrightarrow> Q \<lparr>se_user = rt_UserID s, se_device = rt_DeviceID s, se_scope = rt_Scope s, se_active = b\<rparr> f"
      if "s' \<in> set ts" "rt_FamilyID s' = f" for s' b
      using PQ [OF that(1)] tokens_ok_same(1) [OF ok that(1) s(1)] that(2) t(1) s(3) by (auto simp: binding_def)
    show ?thesis
      using sessions_Some [OF tokens_ok_revoke [OF ok] t(2)] sessions_Some [OF ok s(1)] s(3,4) t(1) live same
      by (auto simp: end_sessions_def binding_def)
  qed
qed

lemma sessions_append:
  assumes "tokens_ok cu (ts @ [t])" and "live t"
  shows "sessions (ts @ [t]) =
           (sessions ts)(rt_FamilyID t \<mapsto>
              \<lparr>se_user = rt_UserID t, se_device = rt_DeviceID t, se_scope = rt_Scope t, se_active = True\<rparr>)"
proof
  fix f
  show "sessions (ts @ [t]) f =
          ((sessions ts)(rt_FamilyID t \<mapsto>
             \<lparr>se_user = rt_UserID t, se_device = rt_DeviceID t, se_scope = rt_Scope t, se_active = True\<rparr>)) f"
  proof (cases "f = rt_FamilyID t")
    case True
    then show ?thesis using sessions_Some [OF assms(1), of t] assms(2) by auto
  next
    case False
    then show ?thesis by (simp add: sessions_def family_append)
  qed
qed

text \<open>The refinement: what happens to the table is a step of the machine.\<close>

lemma token_change_session_step:
  assumes "token_change cu ts ts'" and ok: "tokens_ok cu ts"
  shows "session_step (sessions ts) (sessions ts')"
  using assms(1)
proof cases
  case keep
  then show ?thesis by (simp add: session_step.unchanged)
next
  case (issue t)
  then have "tokens_ok cu ts'" using token_change_ok [OF assms] by simp
  then show ?thesis
    using issue by (simp add: sessions_append session_step.opened sessions_None)
next
  case (end_family now f)
  then have "sessions ts' = end_sessions (\<lambda>s g. g = f) (sessions ts)"
    using sessions_revoke [OF ok] by simp
  then show ?thesis by (simp add: session_step.ended)
next
  case (end_user now uid)
  then have "sessions ts' = end_sessions (\<lambda>s g. se_user s = uid) (sessions ts)"
    using sessions_revoke [OF ok, of "\<lambda>t. rt_UserID t = uid"] by simp
  then show ?thesis by (simp add: session_step.signed_out)
next
  case (rotate old t now)
  then have ok': "tokens_ok cu ts'" using token_change_ok [OF assms] by simp
  let ?ts = "revoke_rows now (\<lambda>t. rt_TokenHash t = rt_TokenHash old) ts"
  have "sessions ts' f = sessions ts f" for f
  proof (cases "f = rt_FamilyID old")
    case True
    have "sessions ts (rt_FamilyID old) = Some \<lparr>se_user = rt_UserID old, se_device = rt_DeviceID old,
            se_scope = rt_Scope old, se_active = True\<rparr>"
      using sessions_Some [OF ok rotate(2)] rotate(2,3) by auto
    moreover have "sessions ts' (rt_FamilyID old) = Some \<lparr>se_user = rt_UserID old, se_device = rt_DeviceID old,
            se_scope = rt_Scope old, se_active = True\<rparr>"
      using sessions_append [of cu ?ts t] ok' rotate by (simp add: binding_def)
    ultimately show ?thesis using True by simp
  next
    case False
    have "revoke_rows now (\<lambda>t. rt_TokenHash t = rt_TokenHash old) (family f ts) = family f ts"
    proof -
      have "\<not> (rt_TokenHash t = rt_TokenHash old \<and> live t)" if "t \<in> set (family f ts)" for t
        using that False keyed_inj [of rt_TokenHash ts t old] ok rotate(2) by (auto simp: family_def tokens_ok_def)
      then show ?thesis by (simp add: update_where_def map_idI)
    qed
    then show ?thesis
      using False rotate(1,5) by (simp add: sessions_def family_append family_revoke)
  qed
  then have "sessions ts' = sessions ts" by (rule ext)
  then show ?thesis by (simp add: session_step.unchanged)
qed

text \<open>What has ended stays ended, with the binding it had.\<close>

lemma session_step_ended:
  "session_step m m' \<Longrightarrow> m f = Some s \<Longrightarrow> \<not> se_active s \<Longrightarrow> m' f = Some s"
  by (induction rule: session_step.induct) (auto simp: end_sessions_def)

subsection \<open>The invariant of the users\<close>

definition users_ok :: "auth_lib \<Rightarrow> User list \<Rightarrow> bool" where
  "users_ok l us \<longleftrightarrow>
     keyed u_ID us \<and> keyed u_Uuid us \<and>
     (\<forall>u \<in> set us. \<forall>v \<in> set us. u_DeletedAt u = None \<and> u_DeletedAt v = None \<and>
        al_citext l (u_Email u) = al_citext l (u_Email v) \<longrightarrow> u = v)"

inductive user_change :: "auth_lib \<Rightarrow> User list \<Rightarrow> User list \<Rightarrow> bool" for l :: auth_lib where
  keep_users: "user_change l us us"
| create: "user_change l us (us @ [u])"
    if "u_ID u \<notin> u_ID ` set us" "u_Uuid u \<notin> u_Uuid ` set us" "\<not> email_taken l (u_Email u) us"
| set_email: "user_change l us (update_where (live_user uid) (\<lambda>u. u\<lparr>u_Email := email, u_UpdatedAt := now\<rparr>) us)"
    if "\<not> (\<exists>u \<in> set us. live_user uid u) \<or> \<not> email_taken l email (filter (\<lambda>u. u_ID u \<noteq> uid) us)"
| set_password: "user_change l us (update_where (live_user uid) (\<lambda>u. u\<lparr>u_PasswordHash := hash, u_UpdatedAt := now\<rparr>) us)"
| remove: "user_change l us (update_where (live_user uid) (\<lambda>u. u\<lparr>u_DeletedAt := Some now, u_UpdatedAt := now\<rparr>) us)"

lemma users_ok_update:
  assumes ok: "users_ok l us" and key: "\<And>u. u_ID (f u) = u_ID u \<and> u_Uuid (f u) = u_Uuid u \<and> u_DeletedAt (f u) = u_DeletedAt u"
    and email: "\<And>u v. u \<in> set us \<Longrightarrow> v \<in> set us \<Longrightarrow> live_user uid u \<Longrightarrow> u_DeletedAt v = None \<Longrightarrow> u_ID v \<noteq> uid \<Longrightarrow>
          al_citext l (u_Email (f u)) \<noteq> al_citext l (u_Email v)"
  shows "users_ok l (update_where (live_user uid) f us)"
  unfolding users_ok_def
proof (intro conjI ballI impI)
  show "keyed u_ID (update_where (live_user uid) f us)" "keyed u_Uuid (update_where (live_user uid) f us)"
    using ok key by (simp_all add: users_ok_def keyed_update)
next
  fix u v
  assume m: "u \<in> set (update_where (live_user uid) f us)" "v \<in> set (update_where (live_user uid) f us)"
    and same: "u_DeletedAt u = None \<and> u_DeletedAt v = None \<and> al_citext l (u_Email u) = al_citext l (u_Email v)"
  from m obtain a b where ab: "a \<in> set us" "u = (if live_user uid a then f a else a)"
      "b \<in> set us" "v = (if live_user uid b then f b else b)"
    by (auto simp: update_where_def)
  have del: "u_DeletedAt a = None" "u_DeletedAt b = None"
    using same ab key [of a] key [of b] by (auto split: if_splits)
  have "a = b"
  proof (cases "live_user uid a"; cases "live_user uid b")
    assume "live_user uid a" "live_user uid b"
    then show ?thesis using ok ab keyed_inj [of u_ID us a b] by (simp add: users_ok_def live_user_def)
  next
    assume "live_user uid a" "\<not> live_user uid b"
    then show ?thesis using email [of a b] ab del same by (simp add: live_user_def)
  next
    assume "\<not> live_user uid a" "live_user uid b"
    then show ?thesis using email [of b a] ab del same by (simp add: live_user_def)
  next
    assume "\<not> live_user uid a" "\<not> live_user uid b"
    then have "u = a" "v = b" using ab by simp_all
    then show ?thesis using ok ab(1,3) same unfolding users_ok_def by blast
  qed
  with ab show "u = v" by simp
qed

lemma users_ok_append:
  assumes ok: "users_ok l us" and u: "u_ID u \<notin> u_ID ` set us" "u_Uuid u \<notin> u_Uuid ` set us" "\<not> email_taken l (u_Email u) us"
  shows "users_ok l (us @ [u])"
  unfolding users_ok_def
proof (intro conjI ballI impI)
  show "keyed u_ID (us @ [u])" "keyed u_Uuid (us @ [u])"
    using ok u by (simp_all add: users_ok_def keyed_def)
next
  fix a b
  assume m: "a \<in> set (us @ [u])" "b \<in> set (us @ [u])"
    and same: "u_DeletedAt a = None \<and> u_DeletedAt b = None \<and> al_citext l (u_Email a) = al_citext l (u_Email b)"
  from m consider "a \<in> set us" "b \<in> set us" | "a = u" "b = u" | "a \<in> set us" "b = u" | "a = u" "b \<in> set us"
    by auto
  then show "a = b"
  proof cases
    case 1
    with ok same show ?thesis unfolding users_ok_def by blast
  qed (use same u(3) in \<open>auto simp: email_taken_def\<close>)
qed

lemma user_change_ok: "user_change l us us' \<Longrightarrow> users_ok l us \<Longrightarrow> users_ok l us'"
proof (induction rule: user_change.induct)
  case (create u us)
  then show ?case by (intro users_ok_append)
next
  case (set_email us uid email now)
  show ?case
  proof (rule users_ok_update [OF set_email.prems])
    fix u v
    assume "u \<in> set us" "v \<in> set us" "live_user uid u" "u_DeletedAt v = None" "u_ID v \<noteq> uid"
    moreover from this set_email.hyps have "\<not> email_taken l email (filter (\<lambda>u. u_ID u \<noteq> uid) us)" by blast
    ultimately show "al_citext l (u_Email (u\<lparr>u_Email := email, u_UpdatedAt := now\<rparr>)) \<noteq> al_citext l (u_Email v)"
      by (auto simp: email_taken_def)
  qed simp
next
  case (set_password us uid now hash)
  show ?case
  proof (rule users_ok_update [OF set_password.prems])
    fix u v
    assume uv: "u \<in> set us" "v \<in> set us" "live_user uid u" "u_DeletedAt v = None" "u_ID v \<noteq> uid"
    then have "u_DeletedAt u = None \<and> u \<noteq> v" by (auto simp: live_user_def)
    with uv set_password.prems
    have "al_citext l (u_Email u) \<noteq> al_citext l (u_Email v)" unfolding users_ok_def by blast
    then show "al_citext l (u_Email (u\<lparr>u_PasswordHash := hash, u_UpdatedAt := now\<rparr>)) \<noteq> al_citext l (u_Email v)" by simp
  qed simp
next
  case (remove us uid now)
  let ?us = "update_where (live_user uid) (\<lambda>u. u\<lparr>u_DeletedAt := Some now, u_UpdatedAt := now\<rparr>) us"
  have "u \<in> set us" if "u \<in> set ?us" "u_DeletedAt u = None" for u
    using that by (auto simp: update_where_def split: if_splits)
  moreover have "keyed u_ID ?us" "keyed u_Uuid ?us" using remove by (simp_all add: users_ok_def keyed_update)
  ultimately show ?case using remove unfolding users_ok_def by blast
qed simp

subsection \<open>Reset codes\<close>

text \<open>A code is issued once, under a hash that no earlier code has, and is used up when it is consumed.\<close>

definition codes_ok :: "PasswordResetCode list \<Rightarrow> bool" where
  "codes_ok cs \<longleftrightarrow> keyed prc_CodeHash cs"

inductive code_change :: "PasswordResetCode list \<Rightarrow> PasswordResetCode list \<Rightarrow> bool" where
  keep_codes: "code_change cs cs"
| issue_code: "code_change cs (cs @ [c])" if "prc_CodeHash c \<notin> prc_CodeHash ` set cs"
| consume: "code_change cs (update_where (usable_code now hash) (\<lambda>c. c\<lparr>prc_ConsumedAt := Some now\<rparr>) cs)"

lemma code_change_ok: "code_change cs cs' \<Longrightarrow> codes_ok cs \<Longrightarrow> codes_ok cs'"
  by (induction rule: code_change.induct) (auto simp: codes_ok_def keyed_update, auto simp: keyed_def)

definition used_up :: "string \<Rightarrow> PasswordResetCode list \<Rightarrow> bool" where
  "used_up hash cs \<longleftrightarrow> hash \<in> prc_CodeHash ` set cs \<and> (\<forall>c \<in> set cs. prc_CodeHash c = hash \<longrightarrow> prc_ConsumedAt c \<noteq> None)"

lemma hashes_consume: "prc_CodeHash ` set (update_where P (\<lambda>c. c\<lparr>prc_ConsumedAt := t\<rparr>) cs) = prc_CodeHash ` set cs"
proof -
  have "map prc_CodeHash (update_where P (\<lambda>c. c\<lparr>prc_ConsumedAt := t\<rparr>) cs) = map prc_CodeHash cs"
    by (simp add: update_where_def)
  then show ?thesis by (metis list.set_map)
qed

lemma used_up_unusable: "used_up hash cs \<Longrightarrow> c \<in> set cs \<Longrightarrow> \<not> usable_code now hash c"
  by (auto simp: used_up_def usable_code_def)

text \<open>What is used up stays used up: its row keeps the hash from being issued again.\<close>

lemma code_change_used_up: "code_change cs cs' \<Longrightarrow> used_up hash cs \<Longrightarrow> used_up hash cs'"
proof (induction rule: code_change.induct)
  case (issue_code c cs)
  then show ?case by (auto simp: used_up_def)
next
  case (consume cs now h)
  then show ?case unfolding used_up_def hashes_consume by (auto simp: update_where_def)
qed simp

lemma consumed_used_up:
  assumes "codes_ok cs" and "c \<in> set cs" "usable_code now hash c"
  shows "used_up hash (update_where (usable_code now hash) (\<lambda>c. c\<lparr>prc_ConsumedAt := Some now\<rparr>) cs)"
proof -
  have "c' = c" if "c' \<in> set cs" "prc_CodeHash c' = hash" for c'
    using that assms keyed_inj [of prc_CodeHash cs c' c] by (auto simp: codes_ok_def usable_code_def)
  then show ?thesis using assms(2,3) unfolding used_up_def hashes_consume by (auto simp: update_where_def usable_code_def)
qed

end
