(* ===== verification/Social_Db.thy ===== *)
theory Social_Db
  imports Account_Db
begin

section \<open>Statements on the social tables\<close>

text \<open>
  The rows of \<^verbatim>\<open>src/db/models.go\<close> for handles, profiles, blocks and mutes, follows, reports, avatars,
  reviews, shares, comments, lists and groups, and the statements of \<^verbatim>\<open>src/db/queries.sql.go\<close> that
  the profile, graph, report and erasure endpoints use, with the constraints of
  \<^verbatim>\<open>src/db/migrations\<close>.  Handles are \<^verbatim>\<open>CITEXT\<close>.  Deleting a list or a group deletes what refers
  to it (\<^verbatim>\<open>ON DELETE CASCADE\<close>); a post whose parent is deleted loses the reference
  (\<^verbatim>\<open>ON DELETE SET NULL\<close>).
\<close>

subsection \<open>Rows\<close>

record SocialHandle =
  sh_Handle :: string
  sh_UserID :: "int option"
  sh_Status :: int
  sh_ClaimedAt :: instant
  sh_ReleasedAt :: "instant option"

record SocialProfile =
  sp_UserID :: int
  sp_Handle :: string
  sp_DisplayName :: string
  sp_Bio :: string
  sp_TermsVersion :: int
  sp_AvatarVisibility :: int
  sp_BioVisibility :: int
  sp_FollowedShowsVisibility :: int
  sp_TopPodcastsVisibility :: int
  sp_StatsVisibility :: int
  sp_HistoryVisibility :: int
  sp_PresenceVisibility :: int
  sp_CreatedAt :: instant
  sp_UpdatedAt :: instant
  sp_RequireFollowApproval :: bool
  sp_RepliesSeenAt :: instant
  sp_SocialPushDisabled :: int
  sp_HideFromDiscovery :: bool
  sp_DigestSentAt :: "instant option"
  sp_Curator :: bool
  sp_DigestClaimedAt :: "instant option"
  sp_AvatarUrl :: string

record SocialRelationship =
  sr_UserID :: int
  sr_TargetUserID :: int
  sr_Kind :: int
  sr_CreatedAt :: instant

record SocialFollow =
  sf_FollowerUserID :: int
  sf_FolloweeUserID :: int
  sf_Status :: int
  sf_CreatedAt :: instant
  sf_ApprovedAt :: "instant option"

record ModerationReport =
  mr_ID :: int
  mr_TargetUserID :: int
  mr_ReporterUserID :: "int option"
  mr_Source :: string
  mr_Reason :: int
  mr_Context :: string
  mr_State :: string
  mr_CreatedAt :: instant
  mr_TargetType :: string
  mr_ContentRef :: string

record SocialAvatar =
  sa_UserID :: int
  sa_CapabilityHash :: string
  sa_Version :: string
  sa_ObjectKey :: string
  sa_ContentHash :: string
  sa_CreatedAt :: instant
  sa_DeletedAt :: "instant option"

record ObjectDeleteOutbox =
  od_ID :: int
  od_ObjectKey :: string
  od_Reason :: string
  od_Attempts :: int
  od_AvailableAt :: instant
  od_CompletedAt :: "instant option"
  od_CreatedAt :: instant

record PodcastReview =
  pr_UserID :: int
  pr_PodcastUuid :: string
  pr_Text :: string
  pr_CreatedAt :: instant
  pr_UpdatedAt :: instant

record SharedItem =
  si_ID :: int
  si_SenderUserID :: int
  si_RecipientUserID :: int
  si_EpisodeUuid :: string
  si_PodcastUuid :: string
  si_EpisodeTitle :: string
  si_PodcastTitle :: string
  si_Note :: string
  si_TimestampSeconds :: int
  si_CreatedAt :: instant
  si_ReadAt :: "instant option"

record EpisodeComment =
  ec_ID :: int
  ec_EpisodeUuid :: string
  ec_PodcastUuid :: string
  ec_EpisodeTitle :: string
  ec_PodcastTitle :: string
  ec_UserID :: "int option"
  ec_ParentID :: "int option"
  ec_RootID :: "int option"
  ec_Text :: string
  ec_TimestampSeconds :: "int option"
  ec_CreatedAt :: instant
  ec_EditedAt :: "instant option"
  ec_RemovedAt :: "instant option"
  ec_Quote :: string
  ec_QuoteSource :: int
  ec_QuoteSegment :: int

record SocialList =
  sl_ID :: int
  sl_OwnerUserID :: int
  sl_Title :: string
  sl_Description :: string
  sl_Visibility :: int
  sl_CreatedAt :: instant
  sl_UpdatedAt :: instant

record SocialListEntry =
  le_ListID :: int
  le_EpisodeUuid :: string
  le_PodcastUuid :: string
  le_EpisodeTitle :: string
  le_PodcastTitle :: string
  le_Position :: int
  le_AddedBy :: "int option"
  le_AddedAt :: instant

record SocialListMember =
  lm_ListID :: int
  lm_UserID :: int
  lm_Role :: int
  lm_CreatedAt :: instant

record SocialGroup =
  sg_ID :: int
  sg_OwnerUserID :: int
  sg_Title :: string
  sg_Description :: string
  sg_Visibility :: int
  sg_PodcastUuid :: string
  sg_PodcastTitle :: string
  sg_CreatedAt :: instant
  sg_UpdatedAt :: instant

record SocialGroupMember =
  gm_GroupID :: int
  gm_UserID :: int
  gm_Role :: int
  gm_InvitedBy :: "int option"
  gm_NotifyPosts :: bool
  gm_CreatedAt :: instant

record SocialGroupPost =
  gp_ID :: int
  gp_GroupID :: int
  gp_UserID :: "int option"
  gp_ParentID :: "int option"
  gp_RootID :: "int option"
  gp_Text :: string
  gp_EpisodeUuid :: string
  gp_PodcastUuid :: string
  gp_EpisodeTitle :: string
  gp_PodcastTitle :: string
  gp_ListID :: int
  gp_ListTitle :: string
  gp_CreatedAt :: instant
  gp_EditedAt :: "instant option"
  gp_RemovedAt :: "instant option"

record social_db =
  sd_core :: store
  sd_handles :: "SocialHandle list"
  sd_profiles :: "SocialProfile list"
  sd_relationships :: "SocialRelationship list"
  sd_follows :: "SocialFollow list"
  sd_reports :: "ModerationReport list"
  sd_avatars :: "SocialAvatar list"
  sd_outbox :: "ObjectDeleteOutbox list"
  sd_reviews :: "PodcastReview list"
  sd_shared_items :: "SharedItem list"
  sd_comments :: "EpisodeComment list"
  sd_lists :: "SocialList list"
  sd_list_entries :: "SocialListEntry list"
  sd_list_members :: "SocialListMember list"
  sd_groups :: "SocialGroup list"
  sd_group_members :: "SocialGroupMember list"
  sd_group_posts :: "SocialGroupPost list"

text \<open>A statement on the core tables, run on the whole database.\<close>

definition on_core :: "(store \<Rightarrow> ('a \<times> store) result) \<Rightarrow> social_db \<Rightarrow> ('a \<times> social_db) result" where
  "on_core f d = rbind (f (sd_core d)) (\<lambda>(x, st). Inr (x, d\<lparr>sd_core := st\<rparr>))"

subsection \<open>Handles and profiles\<close>

definition user_exists :: "int \<Rightarrow> social_db \<Rightarrow> bool" where
  "user_exists uid d \<longleftrightarrow> (\<exists>u \<in> set (st_users (sd_core d)). u_ID u = uid)"

text \<open>The pattern \<^verbatim>\<open>^[a-z0-9_]{3,30}$\<close>, of the check constraint and of \<^verbatim>\<open>handlePattern\<close>.\<close>

definition handle_char :: "char \<Rightarrow> bool" where
  "handle_char c \<longleftrightarrow> (let n = of_char c :: nat in 97 \<le> n \<and> n \<le> 122 \<or> 48 \<le> n \<and> n \<le> 57 \<or> n = 95)"

definition handlePattern :: "string \<Rightarrow> bool" where
  "handlePattern s \<longleftrightarrow> 3 \<le> length s \<and> length s \<le> 30 \<and> list_all handle_char s"

definition GetHandleStatus :: "env \<Rightarrow> auth_lib \<Rightarrow> string \<Rightarrow> social_db \<Rightarrow> SocialHandle result" where
  "GetHandleStatus e l handle d =
     stmt e ''GetHandleStatus'' (select_one (\<lambda>h. al_citext l (sh_Handle h) = al_citext l handle) (sd_handles d))"

definition ClaimHandle :: "env \<Rightarrow> auth_lib \<Rightarrow> instant \<Rightarrow> string \<Rightarrow> int \<Rightarrow> social_db \<Rightarrow> social_db result" where
  "ClaimHandle e l now handle uid d =
     stmt e ''ClaimHandle''
       (if \<not> handlePattern handle then Inl (PgError ''23514'' ''social_handles_handle_check'')
        else if \<exists>h \<in> set (sd_handles d). al_citext l (sh_Handle h) = al_citext l handle
        then Inl (PgError ''23505'' ''social_handles_pkey'')
        else if \<exists>h \<in> set (sd_handles d). sh_UserID h = Some uid then Inl (PgError ''23505'' ''social_handles_user_id_key'')
        else if \<not> user_exists uid d then Inl (PgError ''23503'' ''social_handles_user_id_fkey'')
        else Inr (d\<lparr>sd_handles := sd_handles d @
               [\<lparr>sh_Handle = handle, sh_UserID = Some uid, sh_Status = 0, sh_ClaimedAt = now, sh_ReleasedAt = None\<rparr>]\<rparr>))"

text \<open>The profiles refer to handle and owner, so a handle in use cannot lose its owner.\<close>

definition TombstoneHandle :: "env \<Rightarrow> auth_lib \<Rightarrow> instant \<Rightarrow> int \<Rightarrow> social_db \<Rightarrow> (int \<times> social_db) result" where
  "TombstoneHandle e l now uid d =
     stmt e ''TombstoneHandle''
       (let P = (\<lambda>h. sh_UserID h = Some uid \<and> sh_Status h = 0)
        in if \<exists>h \<in> set (sd_handles d). P h \<and>
                (\<exists>p \<in> set (sd_profiles d). sp_UserID p = uid \<and> al_citext l (sp_Handle p) = al_citext l (sh_Handle h))
           then Inl (PgError ''23503'' ''social_profiles_handle_owner_fk'')
           else Inr (int (length (filter P (sd_handles d))),
                     d\<lparr>sd_handles := update_where P
                         (\<lambda>h. h\<lparr>sh_Status := 1, sh_UserID := None, sh_ReleasedAt := Some now\<rparr>) (sd_handles d)\<rparr>))"

definition new_profile :: "instant \<Rightarrow> int \<Rightarrow> string \<Rightarrow> string \<Rightarrow> int \<Rightarrow> SocialProfile" where
  "new_profile now uid handle name terms =
     \<lparr>sp_UserID = uid, sp_Handle = handle, sp_DisplayName = name, sp_Bio = '''', sp_TermsVersion = terms,
      sp_AvatarVisibility = 1, sp_BioVisibility = 1, sp_FollowedShowsVisibility = 1, sp_TopPodcastsVisibility = 1,
      sp_StatsVisibility = 1, sp_HistoryVisibility = 1, sp_PresenceVisibility = 1, sp_CreatedAt = now, sp_UpdatedAt = now,
      sp_RequireFollowApproval = False, sp_RepliesSeenAt = now, sp_SocialPushDisabled = 0, sp_HideFromDiscovery = False,
      sp_DigestSentAt = None, sp_Curator = False, sp_DigestClaimedAt = None, sp_AvatarUrl = ''''\<rparr>"

definition CreateSocialProfile ::
  "env \<Rightarrow> auth_lib \<Rightarrow> instant \<Rightarrow> int \<Rightarrow> string \<Rightarrow> string \<Rightarrow> int \<Rightarrow> social_db \<Rightarrow> (SocialProfile \<times> social_db) result" where
  "CreateSocialProfile e l now uid handle name terms d =
     stmt e ''CreateSocialProfile''
       (if \<exists>p \<in> set (sd_profiles d). sp_UserID p = uid then Inl (PgError ''23505'' ''social_profiles_pkey'')
        else if \<not> (\<exists>h \<in> set (sd_handles d). al_citext l (sh_Handle h) = al_citext l handle \<and> sh_UserID h = Some uid)
        then Inl (PgError ''23503'' ''social_profiles_handle_owner_fk'')
        else let p = new_profile now uid handle name terms
             in Inr (p, d\<lparr>sd_profiles := sd_profiles d @ [p]\<rparr>))"

definition GetSocialProfileByUserID :: "env \<Rightarrow> int \<Rightarrow> social_db \<Rightarrow> SocialProfile result" where
  "GetSocialProfileByUserID e uid d =
     stmt e ''GetSocialProfileByUserID'' (select_one (\<lambda>p. sp_UserID p = uid) (sd_profiles d))"

definition GetSocialProfileByHandle :: "env \<Rightarrow> auth_lib \<Rightarrow> string \<Rightarrow> social_db \<Rightarrow> SocialProfile result" where
  "GetSocialProfileByHandle e l handle d =
     stmt e ''GetSocialProfileByHandle'' (select_one (\<lambda>p. al_citext l (sp_Handle p) = al_citext l handle) (sd_profiles d))"

record UpdateSocialProfileParams =
  usp_UserID :: int
  usp_DisplayName :: string
  usp_Bio :: string
  usp_AvatarVisibility :: int
  usp_BioVisibility :: int
  usp_FollowedShowsVisibility :: int
  usp_TopPodcastsVisibility :: int
  usp_StatsVisibility :: int
  usp_HistoryVisibility :: int
  usp_PresenceVisibility :: int
  usp_RequireFollowApproval :: bool
  usp_SocialPushDisabled :: int
  usp_HideFromDiscovery :: bool

definition updated_profile :: "instant \<Rightarrow> UpdateSocialProfileParams \<Rightarrow> SocialProfile \<Rightarrow> SocialProfile" where
  "updated_profile now a p =
     p\<lparr>sp_DisplayName := usp_DisplayName a, sp_Bio := usp_Bio a, sp_AvatarVisibility := usp_AvatarVisibility a,
       sp_BioVisibility := usp_BioVisibility a, sp_FollowedShowsVisibility := usp_FollowedShowsVisibility a,
       sp_TopPodcastsVisibility := usp_TopPodcastsVisibility a, sp_StatsVisibility := usp_StatsVisibility a,
       sp_HistoryVisibility := usp_HistoryVisibility a, sp_PresenceVisibility := usp_PresenceVisibility a,
       sp_RequireFollowApproval := usp_RequireFollowApproval a, sp_SocialPushDisabled := usp_SocialPushDisabled a,
       sp_HideFromDiscovery := usp_HideFromDiscovery a, sp_UpdatedAt := now\<rparr>"

definition UpdateSocialProfile ::
  "env \<Rightarrow> instant \<Rightarrow> UpdateSocialProfileParams \<Rightarrow> social_db \<Rightarrow> (SocialProfile \<times> social_db) result" where
  "UpdateSocialProfile e now a d =
     stmt e ''UpdateSocialProfile''
       (rbind (select_one (\<lambda>p. sp_UserID p = usp_UserID a) (sd_profiles d)) (\<lambda>p.
          Inr (updated_profile now a p,
               d\<lparr>sd_profiles := update_where (\<lambda>p. sp_UserID p = usp_UserID a) (updated_profile now a) (sd_profiles d)\<rparr>)))"

definition DeleteSocialProfile :: "env \<Rightarrow> int \<Rightarrow> social_db \<Rightarrow> (int \<times> social_db) result" where
  "DeleteSocialProfile e uid d =
     stmt e ''DeleteSocialProfile''
       (Inr (int (length (filter (\<lambda>p. sp_UserID p = uid) (sd_profiles d))),
             d\<lparr>sd_profiles := delete_where (\<lambda>p. sp_UserID p = uid) (sd_profiles d)\<rparr>))"

subsection \<open>Blocks, mutes and follows\<close>

definition blocked_either :: "int \<Rightarrow> int \<Rightarrow> SocialRelationship list \<Rightarrow> bool" where
  "blocked_either a b rs \<longleftrightarrow>
     (\<exists>r \<in> set rs. sr_Kind r = 0 \<and>
        (sr_UserID r = a \<and> sr_TargetUserID r = b \<or> sr_UserID r = b \<and> sr_TargetUserID r = a))"

definition IsBlockedEither :: "env \<Rightarrow> int \<Rightarrow> int \<Rightarrow> social_db \<Rightarrow> bool result" where
  "IsBlockedEither e a b d = stmt e ''IsBlockedEither'' (Inr (blocked_either a b (sd_relationships d)))"

definition HasSocialRelationship :: "env \<Rightarrow> int \<Rightarrow> int \<Rightarrow> int \<Rightarrow> social_db \<Rightarrow> bool result" where
  "HasSocialRelationship e a b k d =
     stmt e ''HasSocialRelationship''
       (Inr (\<exists>r \<in> set (sd_relationships d). sr_UserID r = a \<and> sr_TargetUserID r = b \<and> sr_Kind r = k))"

abbreviation sr_key :: "SocialRelationship \<Rightarrow> int \<times> int \<times> int" where
  "sr_key r \<equiv> (sr_UserID r, sr_TargetUserID r, sr_Kind r)"

definition UpsertSocialRelationship :: "env \<Rightarrow> instant \<Rightarrow> int \<Rightarrow> int \<Rightarrow> int \<Rightarrow> social_db \<Rightarrow> social_db result" where
  "UpsertSocialRelationship e now a b k d =
     stmt e ''UpsertSocialRelationship''
       (if \<not> user_exists a d \<or> \<not> user_exists b d then Inl (PgError ''23503'' ''social_relationships_user_id_fkey'')
        else Inr (d\<lparr>sd_relationships := insert_new sr_key
               \<lparr>sr_UserID = a, sr_TargetUserID = b, sr_Kind = k, sr_CreatedAt = now\<rparr> (sd_relationships d)\<rparr>))"

definition DeleteSocialRelationship :: "env \<Rightarrow> int \<Rightarrow> int \<Rightarrow> int \<Rightarrow> social_db \<Rightarrow> (int \<times> social_db) result" where
  "DeleteSocialRelationship e a b k d =
     stmt e ''DeleteSocialRelationship''
       (Inr (int (length (filter (\<lambda>r. sr_key r = (a, b, k)) (sd_relationships d))),
             d\<lparr>sd_relationships := delete_where (\<lambda>r. sr_key r = (a, b, k)) (sd_relationships d)\<rparr>))"

definition DeleteRelationshipsForUser :: "env \<Rightarrow> int \<Rightarrow> social_db \<Rightarrow> social_db result" where
  "DeleteRelationshipsForUser e uid d =
     stmt e ''DeleteRelationshipsForUser''
       (Inr (d\<lparr>sd_relationships :=
          delete_where (\<lambda>r. sr_UserID r = uid \<or> sr_TargetUserID r = uid) (sd_relationships d)\<rparr>))"

abbreviation sf_key :: "SocialFollow \<Rightarrow> int \<times> int" where
  "sf_key f \<equiv> (sf_FollowerUserID f, sf_FolloweeUserID f)"

definition UpsertFollow :: "env \<Rightarrow> instant \<Rightarrow> int \<Rightarrow> int \<Rightarrow> int \<Rightarrow> social_db \<Rightarrow> (int \<times> social_db) result" where
  "UpsertFollow e now a b status d =
     stmt e ''UpsertFollow''
       (if \<not> user_exists a d \<or> \<not> user_exists b d then Inl (PgError ''23503'' ''social_follows_follower_user_id_fkey'')
        else if \<exists>f \<in> set (sd_follows d). sf_key f = (a, b) then Inr (0, d)
        else Inr (1, d\<lparr>sd_follows := sd_follows d @
               [\<lparr>sf_FollowerUserID = a, sf_FolloweeUserID = b, sf_Status = status, sf_CreatedAt = now,
                 sf_ApprovedAt = (if status = 1 then Some now else None)\<rparr>]\<rparr>))"

definition GetFollowState :: "env \<Rightarrow> int \<Rightarrow> int \<Rightarrow> social_db \<Rightarrow> int result" where
  "GetFollowState e a b d =
     stmt e ''GetFollowState''
       (rbind (select_one (\<lambda>f. sf_key f = (a, b)) (sd_follows d)) (\<lambda>f. Inr (sf_Status f)))"

definition ApproveFollow :: "env \<Rightarrow> instant \<Rightarrow> int \<Rightarrow> int \<Rightarrow> social_db \<Rightarrow> (int \<times> social_db) result" where
  "ApproveFollow e now a b d =
     stmt e ''ApproveFollow''
       (let P = (\<lambda>f. sf_key f = (a, b) \<and> sf_Status f = 0)
        in Inr (int (length (filter P (sd_follows d))),
                d\<lparr>sd_follows := update_where P (\<lambda>f. f\<lparr>sf_Status := 1, sf_ApprovedAt := Some now\<rparr>) (sd_follows d)\<rparr>))"

definition DeleteFollow :: "env \<Rightarrow> int \<Rightarrow> int \<Rightarrow> social_db \<Rightarrow> (int \<times> social_db) result" where
  "DeleteFollow e a b d =
     stmt e ''DeleteFollow''
       (Inr (int (length (filter (\<lambda>f. sf_key f = (a, b)) (sd_follows d))),
             d\<lparr>sd_follows := delete_where (\<lambda>f. sf_key f = (a, b)) (sd_follows d)\<rparr>))"

definition DeleteFollowsForUser :: "env \<Rightarrow> int \<Rightarrow> social_db \<Rightarrow> social_db result" where
  "DeleteFollowsForUser e uid d =
     stmt e ''DeleteFollowsForUser''
       (Inr (d\<lparr>sd_follows :=
          delete_where (\<lambda>f. sf_FollowerUserID f = uid \<or> sf_FolloweeUserID f = uid) (sd_follows d)\<rparr>))"

record FollowRow =
  fr_UserUuid :: string
  fr_Handle :: string
  fr_DisplayName :: string
  fr_Status :: int

text \<open>
  The join of follows with users and profiles: the ids are unique, so there is at most one
  partner of each kind.  \<open>other\<close> selects the side of the edge that is shown.
\<close>

definition join_follow :: "(SocialFollow \<Rightarrow> int) \<Rightarrow> social_db \<Rightarrow> SocialFollow \<Rightarrow> FollowRow option" where
  "join_follow other d f =
     (case (find (\<lambda>u. u_ID u = other f) (st_users (sd_core d)), find (\<lambda>p. sp_UserID p = other f) (sd_profiles d)) of
        (Some u, Some p) \<Rightarrow>
          Some \<lparr>fr_UserUuid = u_Uuid u, fr_Handle = sp_Handle p, fr_DisplayName = sp_DisplayName p, fr_Status = sf_Status f\<rparr>
      | _ \<Rightarrow> None)"

definition follow_page :: "(SocialFollow \<Rightarrow> int) \<Rightarrow> (SocialFollow \<Rightarrow> bool) \<Rightarrow> int \<Rightarrow> int \<Rightarrow> social_db \<Rightarrow> FollowRow list" where
  "follow_page other P limit offset d =
     take (nat limit) (drop (nat offset)
       (List.map_filter (join_follow other d) (sort_key (\<lambda>f. - sf_CreatedAt f) (filter P (sd_follows d)))))"

definition GetFollowers :: "env \<Rightarrow> int \<Rightarrow> int \<Rightarrow> int \<Rightarrow> social_db \<Rightarrow> FollowRow list result" where
  "GetFollowers e uid limit offset d =
     stmt e ''GetFollowers''
       (Inr (follow_page sf_FollowerUserID (\<lambda>f. sf_FolloweeUserID f = uid \<and> sf_Status f = 1) limit offset d))"

definition GetFollowing :: "env \<Rightarrow> int \<Rightarrow> int \<Rightarrow> int \<Rightarrow> social_db \<Rightarrow> FollowRow list result" where
  "GetFollowing e uid limit offset d =
     stmt e ''GetFollowing'' (Inr (follow_page sf_FolloweeUserID (\<lambda>f. sf_FollowerUserID f = uid) limit offset d))"

definition GetPendingFollowRequests :: "env \<Rightarrow> int \<Rightarrow> int \<Rightarrow> int \<Rightarrow> social_db \<Rightarrow> FollowRow list result" where
  "GetPendingFollowRequests e uid limit offset d =
     stmt e ''GetPendingFollowRequests''
       (Inr (follow_page sf_FollowerUserID (\<lambda>f. sf_FolloweeUserID f = uid \<and> sf_Status f = 0) limit offset d))"

definition CountFollowers :: "env \<Rightarrow> int \<Rightarrow> social_db \<Rightarrow> int result" where
  "CountFollowers e uid d =
     stmt e ''CountFollowers''
       (Inr (int (length (filter (\<lambda>f. sf_FolloweeUserID f = uid \<and> sf_Status f = 1) (sd_follows d)))))"

definition CountFollowing :: "env \<Rightarrow> int \<Rightarrow> social_db \<Rightarrow> int result" where
  "CountFollowing e uid d =
     stmt e ''CountFollowing'' (Inr (int (length (filter (\<lambda>f. sf_FollowerUserID f = uid) (sd_follows d)))))"

definition CountPendingFollowRequests :: "env \<Rightarrow> int \<Rightarrow> social_db \<Rightarrow> int result" where
  "CountPendingFollowRequests e uid d =
     stmt e ''CountPendingFollowRequests''
       (Inr (int (length (filter (\<lambda>f. sf_FolloweeUserID f = uid \<and> sf_Status f = 0) (sd_follows d)))))"

subsection \<open>Reports\<close>

text \<open>An advisory lock: the reports of one user are written one after the other.\<close>

definition LockRateLimitBucket :: "env \<Rightarrow> string \<Rightarrow> unit result" where
  "LockRateLimitBucket e key = stmt e ''LockRateLimitBucket'' (Inr ())"

definition CountRecentModerationReportsByReporter :: "env \<Rightarrow> int \<Rightarrow> instant \<Rightarrow> social_db \<Rightarrow> int result" where
  "CountRecentModerationReportsByReporter e uid since d =
     stmt e ''CountRecentModerationReportsByReporter''
       (Inr (int (length (filter (\<lambda>r. mr_ReporterUserID r = Some uid \<and> mr_CreatedAt r > pg_time e since) (sd_reports d)))))"

record InsertModerationReportParams =
  imr_TargetUserID :: int
  imr_ReporterUserID :: "int option"
  imr_Source :: string
  imr_Reason :: int
  imr_Context :: string
  imr_TargetType :: string
  imr_ContentRef :: string

definition InsertModerationReport ::
  "env \<Rightarrow> instant \<Rightarrow> int \<Rightarrow> InsertModerationReportParams \<Rightarrow> social_db \<Rightarrow> social_db result" where
  "InsertModerationReport e now new_id a d =
     stmt e ''InsertModerationReport''
       (if \<not> ((if imr_Source a = ''community_flag'' then 1 else 0) \<le> imr_Reason a \<and> imr_Reason a \<le> 6)
        then Inl (PgError ''23514'' ''moderation_reports_reason_check'')
        else if \<exists>r \<in> set (sd_reports d). mr_ID r = new_id then Inl (PgError ''23505'' ''moderation_reports_pkey'')
        else if \<not> user_exists (imr_TargetUserID a) d \<or>
                (case imr_ReporterUserID a of None \<Rightarrow> False | Some r \<Rightarrow> \<not> user_exists r d)
        then Inl (PgError ''23503'' ''moderation_reports_target_user_id_fkey'')
        else Inr (d\<lparr>sd_reports := sd_reports d @
               [\<lparr>mr_ID = new_id, mr_TargetUserID = imr_TargetUserID a, mr_ReporterUserID = imr_ReporterUserID a,
                 mr_Source = imr_Source a, mr_Reason = imr_Reason a, mr_Context = imr_Context a, mr_State = ''open'',
                 mr_CreatedAt = now, mr_TargetType = imr_TargetType a, mr_ContentRef = imr_ContentRef a\<rparr>]\<rparr>))"

subsection \<open>Erasure\<close>

definition DeleteSocialAvatar :: "env \<Rightarrow> instant \<Rightarrow> int \<Rightarrow> social_db \<Rightarrow> (string \<times> social_db) result" where
  "DeleteSocialAvatar e now uid d =
     stmt e ''DeleteSocialAvatar''
       (let P = (\<lambda>a. sa_UserID a = uid \<and> sa_DeletedAt a = None)
        in rbind (select_one P (sd_avatars d)) (\<lambda>a.
             Inr (sa_ObjectKey a, d\<lparr>sd_avatars := update_where P (\<lambda>a. a\<lparr>sa_DeletedAt := Some now\<rparr>) (sd_avatars d)\<rparr>)))"

definition EnqueueObjectDelete :: "env \<Rightarrow> instant \<Rightarrow> int \<Rightarrow> string \<Rightarrow> string \<Rightarrow> social_db \<Rightarrow> social_db result" where
  "EnqueueObjectDelete e now new_id key reason d =
     stmt e ''EnqueueObjectDelete''
       (if \<exists>o' \<in> set (sd_outbox d). od_ObjectKey o' = key then Inr d
        else if \<exists>o' \<in> set (sd_outbox d). od_ID o' = new_id then Inl (PgError ''23505'' ''object_delete_outbox_pkey'')
        else Inr (d\<lparr>sd_outbox := sd_outbox d @
               [\<lparr>od_ID = new_id, od_ObjectKey = key, od_Reason = reason, od_Attempts = 0, od_AvailableAt = now,
                 od_CompletedAt = None, od_CreatedAt = now\<rparr>]\<rparr>))"

definition DeleteReviewsForUser :: "env \<Rightarrow> int \<Rightarrow> social_db \<Rightarrow> social_db result" where
  "DeleteReviewsForUser e uid d =
     stmt e ''DeleteReviewsForUser'' (Inr (d\<lparr>sd_reviews := delete_where (\<lambda>r. pr_UserID r = uid) (sd_reviews d)\<rparr>))"

definition DeleteSharedItemsForUser :: "env \<Rightarrow> int \<Rightarrow> social_db \<Rightarrow> social_db result" where
  "DeleteSharedItemsForUser e uid d =
     stmt e ''DeleteSharedItemsForUser''
       (Inr (d\<lparr>sd_shared_items :=
          delete_where (\<lambda>i. si_SenderUserID i = uid \<or> si_RecipientUserID i = uid) (sd_shared_items d)\<rparr>))"

definition wipe_comment :: "instant \<Rightarrow> EpisodeComment \<Rightarrow> EpisodeComment" where
  "wipe_comment now c =
     c\<lparr>ec_Text := '''', ec_Quote := '''', ec_QuoteSource := 0, ec_QuoteSegment := 0, ec_TimestampSeconds := None,
       ec_UserID := None, ec_EditedAt := None, ec_RemovedAt := Some now\<rparr>"

definition TombstoneCommentsForUser :: "env \<Rightarrow> instant \<Rightarrow> int \<Rightarrow> social_db \<Rightarrow> social_db result" where
  "TombstoneCommentsForUser e now uid d =
     stmt e ''TombstoneCommentsForUser''
       (Inr (d\<lparr>sd_comments :=
          update_where (\<lambda>c. ec_UserID c = Some uid \<and> ec_RemovedAt c = None) (wipe_comment now) (sd_comments d)\<rparr>))"

definition delete_lists :: "(SocialList \<Rightarrow> bool) \<Rightarrow> social_db \<Rightarrow> social_db" where
  "delete_lists P d =
     (let gone = sl_ID ` set (filter P (sd_lists d))
      in d\<lparr>sd_lists := delete_where P (sd_lists d),
           sd_list_entries := delete_where (\<lambda>x. le_ListID x \<in> gone) (sd_list_entries d),
           sd_list_members := delete_where (\<lambda>m. lm_ListID m \<in> gone) (sd_list_members d)\<rparr>)"

definition DeleteSocialListsForOwner :: "env \<Rightarrow> int \<Rightarrow> social_db \<Rightarrow> social_db result" where
  "DeleteSocialListsForOwner e uid d =
     stmt e ''DeleteSocialListsForOwner'' (Inr (delete_lists (\<lambda>l. sl_OwnerUserID l = uid) d))"

definition DeleteSocialListMembershipsForUser :: "env \<Rightarrow> int \<Rightarrow> social_db \<Rightarrow> social_db result" where
  "DeleteSocialListMembershipsForUser e uid d =
     stmt e ''DeleteSocialListMembershipsForUser''
       (Inr (d\<lparr>sd_list_members := delete_where (\<lambda>m. lm_UserID m = uid) (sd_list_members d)\<rparr>))"

definition ClearSocialListAttributionForUser :: "env \<Rightarrow> int \<Rightarrow> social_db \<Rightarrow> social_db result" where
  "ClearSocialListAttributionForUser e uid d =
     stmt e ''ClearSocialListAttributionForUser''
       (Inr (d\<lparr>sd_list_entries :=
          update_where (\<lambda>x. le_AddedBy x = Some uid) (\<lambda>x. x\<lparr>le_AddedBy := None\<rparr>) (sd_list_entries d)\<rparr>))"

definition wipe_post :: "instant \<Rightarrow> SocialGroupPost \<Rightarrow> SocialGroupPost" where
  "wipe_post now p =
     p\<lparr>gp_Text := '''', gp_UserID := None, gp_EditedAt := None, gp_RemovedAt := Some now, gp_EpisodeUuid := '''',
       gp_PodcastUuid := '''', gp_EpisodeTitle := '''', gp_PodcastTitle := '''', gp_ListID := 0, gp_ListTitle := ''''\<rparr>"

definition TombstoneGroupPostsForUser :: "env \<Rightarrow> instant \<Rightarrow> int \<Rightarrow> social_db \<Rightarrow> social_db result" where
  "TombstoneGroupPostsForUser e now uid d =
     stmt e ''TombstoneGroupPostsForUser''
       (Inr (d\<lparr>sd_group_posts :=
          update_where (\<lambda>p. gp_UserID p = Some uid \<and> gp_RemovedAt p = None) (wipe_post now) (sd_group_posts d)\<rparr>))"

definition GetOwnedPublicGroupIDs :: "env \<Rightarrow> int \<Rightarrow> social_db \<Rightarrow> int list result" where
  "GetOwnedPublicGroupIDs e uid d =
     stmt e ''GetOwnedPublicGroupIDs''
       (Inr (map sg_ID (filter (\<lambda>g. sg_OwnerUserID g = uid \<and> sg_Visibility g = 2) (sd_groups d))))"

definition FindGroupSuccessor :: "env \<Rightarrow> int \<Rightarrow> int \<Rightarrow> social_db \<Rightarrow> int result" where
  "FindGroupSuccessor e gid uid d =
     stmt e ''FindGroupSuccessor''
       (case sort_key gm_CreatedAt (filter (\<lambda>m. gm_GroupID m = gid \<and> gm_Role m = 1 \<and> gm_UserID m \<noteq> uid) (sd_group_members d)) of
          [] \<Rightarrow> Inl ErrNoRows
        | m # _ \<Rightarrow> Inr (gm_UserID m))"

definition delete_groups :: "(SocialGroup \<Rightarrow> bool) \<Rightarrow> social_db \<Rightarrow> social_db" where
  "delete_groups P d =
     (let gone = sg_ID ` set (filter P (sd_groups d));
          posts = Some ` gp_ID ` set (filter (\<lambda>p. gp_GroupID p \<in> gone) (sd_group_posts d))
      in d\<lparr>sd_groups := delete_where P (sd_groups d),
           sd_group_members := delete_where (\<lambda>m. gm_GroupID m \<in> gone) (sd_group_members d),
           sd_group_posts :=
             map (\<lambda>p. p\<lparr>gp_ParentID := (if gp_ParentID p \<in> posts then None else gp_ParentID p),
                       gp_RootID := (if gp_RootID p \<in> posts then None else gp_RootID p)\<rparr>)
               (delete_where (\<lambda>p. gp_GroupID p \<in> gone) (sd_group_posts d))\<rparr>)"

definition DeleteSocialGroupByID :: "env \<Rightarrow> int \<Rightarrow> social_db \<Rightarrow> social_db result" where
  "DeleteSocialGroupByID e gid d = stmt e ''DeleteSocialGroupByID'' (Inr (delete_groups (\<lambda>g. sg_ID g = gid) d))"

definition TransferGroupOwner :: "env \<Rightarrow> instant \<Rightarrow> int \<Rightarrow> int \<Rightarrow> social_db \<Rightarrow> social_db result" where
  "TransferGroupOwner e now gid owner d =
     stmt e ''TransferGroupOwner''
       (if (\<exists>g \<in> set (sd_groups d). sg_ID g = gid) \<and> \<not> user_exists owner d
        then Inl (PgError ''23503'' ''social_groups_owner_user_id_fkey'')
        else Inr (d\<lparr>sd_groups :=
               update_where (\<lambda>g. sg_ID g = gid) (\<lambda>g. g\<lparr>sg_OwnerUserID := owner, sg_UpdatedAt := now\<rparr>) (sd_groups d)\<rparr>))"

definition PromoteGroupMemberToOwner :: "env \<Rightarrow> int \<Rightarrow> int \<Rightarrow> social_db \<Rightarrow> social_db result" where
  "PromoteGroupMemberToOwner e gid uid d =
     stmt e ''PromoteGroupMemberToOwner''
       (Inr (d\<lparr>sd_group_members :=
          update_where (\<lambda>m. gm_GroupID m = gid \<and> gm_UserID m = uid) (\<lambda>m. m\<lparr>gm_Role := 2\<rparr>) (sd_group_members d)\<rparr>))"

definition DeleteOwnedPrivateGroups :: "env \<Rightarrow> int \<Rightarrow> social_db \<Rightarrow> social_db result" where
  "DeleteOwnedPrivateGroups e uid d =
     stmt e ''DeleteOwnedPrivateGroups'' (Inr (delete_groups (\<lambda>g. sg_OwnerUserID g = uid \<and> sg_Visibility g = 1) d))"

definition DeleteGroupMembershipsForUser :: "env \<Rightarrow> int \<Rightarrow> social_db \<Rightarrow> social_db result" where
  "DeleteGroupMembershipsForUser e uid d =
     stmt e ''DeleteGroupMembershipsForUser''
       (Inr (d\<lparr>sd_group_members := delete_where (\<lambda>m. gm_UserID m = uid) (sd_group_members d)\<rparr>))"

definition ClearGroupInviteAttributionForUser :: "env \<Rightarrow> int \<Rightarrow> social_db \<Rightarrow> social_db result" where
  "ClearGroupInviteAttributionForUser e uid d =
     stmt e ''ClearGroupInviteAttributionForUser''
       (Inr (d\<lparr>sd_group_members :=
          update_where (\<lambda>m. gm_InvitedBy m = Some uid) (\<lambda>m. m\<lparr>gm_InvitedBy := None\<rparr>) (sd_group_members d)\<rparr>))"

definition DeleteMilestonesForUser :: "env \<Rightarrow> int \<Rightarrow> social_db \<Rightarrow> social_db result" where
  "DeleteMilestonesForUser e uid d =
     stmt e ''DeleteMilestonesForUser''
       (Inr (d\<lparr>sd_core := (sd_core d)\<lparr>st_milestones := delete_where (\<lambda>m. ms_UserID m = uid) (st_milestones (sd_core d))\<rparr>\<rparr>))"

end
