(* ===== verification/Go_Utf8.thy ===== *)
theory Go_Utf8
  imports Go_Prelude
begin

section \<open>Runes of a byte string\<close>

text \<open>
  \<^verbatim>\<open>unicode/utf8\<close> of Go: \<^verbatim>\<open>DecodeRuneInString\<close> with its table of first bytes, the ranges a
  second byte may have, and \<^verbatim>\<open>RuneError\<close> of width one for a byte that starts no rune; the
  conversion \<^verbatim>\<open>[]rune(s)\<close>, \<^verbatim>\<open>RuneCountInString\<close>, \<^verbatim>\<open>ValidString\<close>, and the conversion of runes
  back to a string.
\<close>

type_synonym rune = nat

definition RuneError :: rune where
  "RuneError = 0xFFFD"

abbreviation byte :: "char \<Rightarrow> nat" where
  "byte c \<equiv> of_char c"

definition continuation :: "nat \<Rightarrow> bool" where
  "continuation b \<longleftrightarrow> 0x80 \<le> b \<and> b \<le> 0xBF"

definition second_byte :: "nat \<Rightarrow> nat \<Rightarrow> bool" where
  "second_byte b0 b1 \<longleftrightarrow>
     (if b0 = 0xE0 then 0xA0 \<le> b1 \<and> b1 \<le> 0xBF
      else if b0 = 0xED then 0x80 \<le> b1 \<and> b1 \<le> 0x9F
      else if b0 = 0xF0 then 0x90 \<le> b1 \<and> b1 \<le> 0xBF
      else if b0 = 0xF4 then 0x80 \<le> b1 \<and> b1 \<le> 0x8F
      else continuation b1)"

text \<open>The rune at the start of a nonempty string and its width; the flag tells a proper encoding.\<close>

fun decode_rune :: "string \<Rightarrow> bool \<times> rune \<times> nat" where
  "decode_rune [] = (False, RuneError, 1)"
| "decode_rune (c # cs) =
     (let b0 = byte c
      in if b0 < 0x80 then (True, b0, 1)
         else if 0xC2 \<le> b0 \<and> b0 \<le> 0xDF then
           (case cs of
              c1 # _ \<Rightarrow>
                if continuation (byte c1) then (True, b0 mod 32 * 64 + byte c1 mod 64, 2) else (False, RuneError, 1)
            | _ \<Rightarrow> (False, RuneError, 1))
         else if 0xE0 \<le> b0 \<and> b0 \<le> 0xEF then
           (case cs of
              c1 # c2 # _ \<Rightarrow>
                if second_byte b0 (byte c1) \<and> continuation (byte c2)
                then (True, b0 mod 16 * 4096 + byte c1 mod 64 * 64 + byte c2 mod 64, 3) else (False, RuneError, 1)
            | _ \<Rightarrow> (False, RuneError, 1))
         else if 0xF0 \<le> b0 \<and> b0 \<le> 0xF4 then
           (case cs of
              c1 # c2 # c3 # _ \<Rightarrow>
                if second_byte b0 (byte c1) \<and> continuation (byte c2) \<and> continuation (byte c3)
                then (True, b0 mod 8 * 262144 + byte c1 mod 64 * 4096 + byte c2 mod 64 * 64 + byte c3 mod 64, 4)
                else (False, RuneError, 1)
            | _ \<Rightarrow> (False, RuneError, 1))
         else (False, RuneError, 1))"

lemma decode_rune_width: "snd (snd (decode_rune s)) \<ge> 1"
  by (cases s) (auto simp: Let_def split: list.split)

function decode_string :: "string \<Rightarrow> (bool \<times> rune) list" where
  "decode_string [] = []"
| "decode_string (c # cs) =
     (fst (decode_rune (c # cs)), fst (snd (decode_rune (c # cs)))) #
     decode_string (drop (snd (snd (decode_rune (c # cs)))) (c # cs))"
  by pat_completeness auto

termination
proof (relation "measure length")
  show "(drop (snd (snd (decode_rune (c # cs)))) (c # cs), c # cs) \<in> measure length" for c :: char and cs
    using decode_rune_width [of "c # cs"] by (simp del: decode_rune.simps)
qed simp

definition runes :: "string \<Rightarrow> rune list" where
  "runes s = map snd (decode_string s)"

definition RuneCountInString :: "string \<Rightarrow> nat" where
  "RuneCountInString s = length (decode_string s)"

definition ValidString :: "string \<Rightarrow> bool" where
  "ValidString s \<longleftrightarrow> list_all fst (decode_string s)"

definition encode_rune :: "rune \<Rightarrow> string" where
  "encode_rune r =
     (let r = (if r > 0x10FFFF \<or> 0xD800 \<le> r \<and> r \<le> 0xDFFF then RuneError else r)
      in if r < 0x80 then [char_of r]
         else if r < 0x800 then [char_of (0xC0 + r div 64), char_of (0x80 + r mod 64)]
         else if r < 0x10000
         then [char_of (0xE0 + r div 4096), char_of (0x80 + r div 64 mod 64), char_of (0x80 + r mod 64)]
         else [char_of (0xF0 + r div 262144), char_of (0x80 + r div 4096 mod 64), char_of (0x80 + r div 64 mod 64),
               char_of (0x80 + r mod 64)])"

definition string_of_runes :: "rune list \<Rightarrow> string" where
  "string_of_runes rs = concat (map encode_rune rs)"

subsection \<open>Round trip\<close>

text \<open>A proper encoding is what \<open>encode_rune\<close> makes of its rune.\<close>

lemma byte_inj: "char_of (byte c) = c"
  by simp

lemma mod_offset: "x < k \<Longrightarrow> (n * k + x) mod k = x" for x k n :: nat
  by simp

lemma continuation_digit:
  assumes "continuation b"
  obtains y where "b = 0x80 + y" "y < 64" "b mod 64 = y"
proof -
  from assms obtain y where y: "b = 0x80 + y" by (auto simp: continuation_def le_iff_add)
  with assms have "y < 64" by (simp add: continuation_def)
  moreover from y this have "b mod 64 = y" using mod_offset [of y 64 2] by simp
  ultimately show thesis using y that by blast
qed

text \<open>The payload of a first byte.\<close>

lemma lead_two: "0xC2 \<le> b \<Longrightarrow> b \<le> 0xDF \<Longrightarrow> b = 0xC0 + b mod 32 \<and> 2 \<le> b mod 32" for b :: nat
proof -
  assume "0xC2 \<le> b" "b \<le> 0xDF"
  then obtain x where "b = 0xC0 + x" "2 \<le> x" "x < 32" by (auto simp: le_iff_add)
  then show ?thesis using mod_offset [of x 32 6] by simp
qed

lemma lead_three: "0xE0 \<le> b \<Longrightarrow> b \<le> 0xEF \<Longrightarrow> b = 0xE0 + b mod 16" for b :: nat
proof -
  assume "0xE0 \<le> b" "b \<le> 0xEF"
  then obtain x where "b = 0xE0 + x" "x < 16" by (auto simp: le_iff_add)
  then show ?thesis using mod_offset [of x 16 14] by simp
qed

lemma lead_four: "0xF0 \<le> b \<Longrightarrow> b \<le> 0xF4 \<Longrightarrow> b = 0xF0 + b mod 8 \<and> b mod 8 < 5" for b :: nat
proof -
  assume "0xF0 \<le> b" "b \<le> 0xF4"
  then obtain x where "b = 0xF0 + x" "x < 5" by (auto simp: le_iff_add)
  then show ?thesis using mod_offset [of x 8 30] by simp
qed

lemma second_continuation: "second_byte b0 b1 \<Longrightarrow> continuation b1"
  by (auto simp: second_byte_def continuation_def split: if_splits)

lemma encode_two:
  assumes "2 \<le> x" "x < 32" "y < 64"
  shows "encode_rune (x * 64 + y) = [char_of (0xC0 + x), char_of (0x80 + y)]"
  using assms by (simp add: encode_rune_def Let_def)

lemma digit64: "z < 64 \<Longrightarrow> (a * 64 + z) div 64 = a" "z < 64 \<Longrightarrow> (a * 64 + z) mod 64 = z" for a z :: nat
  by simp_all

lemma div64: "r div 4096 = r div 64 div 64" "r div 262144 = r div 64 div 64 div 64" for r :: nat
  by (simp_all add: div_mult2_eq [symmetric])

lemma encode_rune_three:
  "0x800 \<le> r \<Longrightarrow> r < 0x10000 \<Longrightarrow> \<not> (0xD800 \<le> r \<and> r \<le> 0xDFFF) \<Longrightarrow>
   encode_rune r = [char_of (0xE0 + r div 4096), char_of (0x80 + r div 64 mod 64), char_of (0x80 + r mod 64)]"
  by (auto simp: encode_rune_def Let_def)

lemma encode_rune_four:
  "0x10000 \<le> r \<Longrightarrow> r \<le> 0x10FFFF \<Longrightarrow>
   encode_rune r = [char_of (0xF0 + r div 262144), char_of (0x80 + r div 4096 mod 64), char_of (0x80 + r div 64 mod 64),
     char_of (0x80 + r mod 64)]"
  by (auto simp: encode_rune_def Let_def)

lemma encode_three:
  assumes "x < 16" "y < 64" "z < 64" "x = 0 \<longrightarrow> 32 \<le> y" "x = 13 \<longrightarrow> y < 32"
  shows "encode_rune (x * 4096 + y * 64 + z) = [char_of (0xE0 + x), char_of (0x80 + y), char_of (0x80 + z)]"
proof -
  let ?r = "(x * 64 + y) * 64 + z"
  have r: "x * 4096 + y * 64 + z = ?r" by simp
  have d: "?r div 4096 = x" "?r div 64 mod 64 = y" "?r mod 64 = z"
    using assms unfolding div64 by (simp_all only: digit64)
  consider "x = 0" | "0 < x" "x < 13" | "x = 13" | "13 < x" by linarith
  then have n: "\<not> (0xD800 \<le> ?r \<and> ?r \<le> 0xDFFF)" "0x800 \<le> ?r"
    by cases (use assms in auto)
  have "?r < 0x10000" using assms by auto
  from encode_rune_three [OF n(2) this n(1)] show ?thesis unfolding r d .
qed

lemma encode_four:
  assumes "x < 5" "y < 64" "z < 64" "w < 64" "x = 0 \<longrightarrow> 16 \<le> y" "x = 4 \<longrightarrow> y < 16"
  shows "encode_rune (x * 262144 + y * 4096 + z * 64 + w) =
           [char_of (0xF0 + x), char_of (0x80 + y), char_of (0x80 + z), char_of (0x80 + w)]"
proof -
  let ?r = "((x * 64 + y) * 64 + z) * 64 + w"
  have r: "x * 262144 + y * 4096 + z * 64 + w = ?r" by simp
  have d: "?r div 262144 = x" "?r div 4096 mod 64 = y" "?r div 64 mod 64 = z" "?r mod 64 = w"
    using assms unfolding div64 by (simp_all only: digit64)
  have "0x10000 \<le> ?r" using assms by (cases "x = 0") auto
  moreover have "?r \<le> 0x10FFFF" using assms by (cases "x = 4") auto
  ultimately have "encode_rune ?r = [char_of (0xF0 + ?r div 262144), char_of (0x80 + ?r div 4096 mod 64),
      char_of (0x80 + ?r div 64 mod 64), char_of (0x80 + ?r mod 64)]" by (rule encode_rune_four)
  then show ?thesis unfolding r d .
qed

lemma encode_decode:
  assumes "decode_rune s = (True, r, w)"
  shows "encode_rune r = take w s"
proof (cases s)
  case Nil
  with assms show ?thesis by simp
next
  case (Cons c cs)
  let ?b = "byte c :: nat"
  consider (one) "?b < 0x80" | (two) "0xC2 \<le> ?b" "?b \<le> 0xDF" | (three) "0xE0 \<le> ?b" "?b \<le> 0xEF"
    | (four) "0xF0 \<le> ?b" "?b \<le> 0xF4" | (bad) "0x80 \<le> ?b" "?b < 0xC2 \<or> 0xF4 < ?b" by linarith
  then show ?thesis
  proof cases
    case one
    with assms Cons show ?thesis by (auto simp: encode_rune_def)
  next
    case two
    with assms Cons obtain c1 cs' where cs: "cs = c1 # cs'" "continuation (byte c1)" "w = 2" "r = ?b mod 32 * 64 + byte c1 mod 64"
      by (auto simp: Let_def split: list.splits if_splits)
    from cs(2) obtain y where y: "byte c1 = 0x80 + y" "y < 64" "byte c1 mod 64 = y" by (rule continuation_digit)
    have x: "?b = 0xC0 + ?b mod 32" "2 \<le> ?b mod 32" using lead_two [OF two] by simp_all
    have "encode_rune r = [char_of (0xC0 + ?b mod 32), char_of (0x80 + y)]"
      unfolding cs(4) y(3) using x(2) y(2) by (intro encode_two) simp_all
    then show ?thesis using Cons cs x(1) y(1) by (metis byte_inj numeral_2_eq_2 take0 take_Suc_Cons)
  next
    case three
    with assms Cons obtain c1 c2 cs' where cs: "cs = c1 # c2 # cs'" "second_byte ?b (byte c1)" "continuation (byte c2)" "w = 3"
        "r = ?b mod 16 * 4096 + byte c1 mod 64 * 64 + byte c2 mod 64"
      by (auto simp: Let_def split: list.splits if_splits)
    from second_continuation [OF cs(2)] obtain y where y: "byte c1 = 0x80 + y" "y < 64" "byte c1 mod 64 = y" by (rule continuation_digit)
    from cs(3) obtain z where z: "byte c2 = 0x80 + z" "z < 64" "byte c2 mod 64 = z" by (rule continuation_digit)
    have x: "?b = 0xE0 + ?b mod 16" using lead_three [OF three] .
    have "?b mod 16 = 0 \<longrightarrow> 32 \<le> y" "?b mod 16 = 13 \<longrightarrow> y < 32"
      using cs(2) y(1) x by (auto simp: second_byte_def)
    then have "encode_rune r = [char_of (0xE0 + ?b mod 16), char_of (0x80 + y), char_of (0x80 + z)]"
      unfolding cs(5) y(3) z(3) using y(2) z(2) by (intro encode_three) simp_all
    moreover have "char_of (0xE0 + ?b mod 16) = c" "char_of (0x80 + y) = c1" "char_of (0x80 + z) = c2"
      using x y(1) z(1) byte_inj by metis+
    ultimately show ?thesis using Cons cs(1,4) by simp
  next
    case four
    with assms Cons obtain c1 c2 c3 cs' where cs: "cs = c1 # c2 # c3 # cs'" "second_byte ?b (byte c1)" "continuation (byte c2)"
        "continuation (byte c3)" "w = 4"
        "r = ?b mod 8 * 262144 + byte c1 mod 64 * 4096 + byte c2 mod 64 * 64 + byte c3 mod 64"
      by (auto simp: Let_def split: list.splits if_splits)
    from second_continuation [OF cs(2)] obtain y where y: "byte c1 = 0x80 + y" "y < 64" "byte c1 mod 64 = y" by (rule continuation_digit)
    from cs(3) obtain z where z: "byte c2 = 0x80 + z" "z < 64" "byte c2 mod 64 = z" by (rule continuation_digit)
    from cs(4) obtain v where v: "byte c3 = 0x80 + v" "v < 64" "byte c3 mod 64 = v" by (rule continuation_digit)
    have x: "?b = 0xF0 + ?b mod 8" "?b mod 8 < 5" using lead_four [OF four] by simp_all
    have "?b mod 8 = 0 \<longrightarrow> 16 \<le> y" "?b mod 8 = 4 \<longrightarrow> y < 16"
      using cs(2) y(1) x(1) by (auto simp: second_byte_def)
    then have "encode_rune r = [char_of (0xF0 + ?b mod 8), char_of (0x80 + y), char_of (0x80 + z), char_of (0x80 + v)]"
      unfolding cs(6) y(3) z(3) v(3) using x(2) y(2) z(2) v(2) by (intro encode_four) simp_all
    moreover have "char_of (0xF0 + ?b mod 8) = c" "char_of (0x80 + y) = c1" "char_of (0x80 + z) = c2" "char_of (0x80 + v) = c3"
      using x(1) y(1) z(1) v(1) byte_inj by metis+
    ultimately show ?thesis using Cons cs(1,5) by simp
  next
    case bad
    with assms Cons show ?thesis by (auto simp: Let_def)
  qed
qed

text \<open>The runes of a valid string spell it.\<close>

lemma string_of_runes_valid: "ValidString s \<Longrightarrow> string_of_runes (runes s) = s"
proof (induction s rule: decode_string.induct)
  case 1
  then show ?case by (simp add: string_of_runes_def runes_def)
next
  case (2 c cs)
  obtain ok r w where d: "decode_rune (c # cs) = (ok, r, w)" by (metis prod_cases3)
  with 2(2) have ok: "ok" "ValidString (drop w (c # cs))" by (simp_all add: ValidString_def del: decode_rune.simps)
  then have "encode_rune r = take w (c # cs)" using encode_decode d by simp
  moreover have "string_of_runes (runes (drop w (c # cs))) = drop w (c # cs)" using 2(1) d ok(2) by simp
  ultimately show ?case
    using d by (simp add: string_of_runes_def runes_def append_take_drop_id del: decode_rune.simps)
qed

end
