(* ===== verification/Text_Filter.thy ===== *)
theory Text_Filter
  imports Go_Utf8 Errs
begin

section \<open>The text filter\<close>

text \<open>
  \<^verbatim>\<open>src/moderation/textfilter.go\<close>: the checks on names, bios and other texts before they become
  visible, and \<^verbatim>\<open>truncateRunes\<close> of \<^verbatim>\<open>src/handlers/inbox.go\<close>.  \<open>None\<close> is the nil error.  The blocklist,
  a variable of the package, and \<^verbatim>\<open>strings.ToLower\<close> are parameters.
\<close>

definition MaxDisplayNameLen :: nat where "MaxDisplayNameLen = 60"
definition MaxBioLen :: nat where "MaxBioLen = 500"

datatype filter_error = ErrEmpty | ErrTooLong | ErrBadRunes | ErrBlocked | ErrLineBreak

fun filter_message :: "filter_error \<Rightarrow> string" where
  "filter_message ErrEmpty = ''must not be empty''"
| "filter_message ErrTooLong = ''too long''"
| "filter_message ErrBadRunes = ''contains control characters or invalid UTF-8''"
| "filter_message ErrBlocked = ''contains disallowed content''"
| "filter_message ErrLineBreak = ''must be a single line''"

text \<open>\<^verbatim>\<open>unicode.IsControl\<close>: the runes of category Cc.\<close>

definition IsControl :: "rune \<Rightarrow> bool" where
  "IsControl r \<longleftrightarrow> r \<le> 0x1F \<or> 0x7F \<le> r \<and> r \<le> 0x9F"

definition isDangerousFormatRune :: "rune \<Rightarrow> bool" where
  "isDangerousFormatRune r \<longleftrightarrow>
     r \<in> {0x00AD, 0x061C, 0x200B, 0x200E, 0x200F, 0x202A, 0x202B, 0x202C, 0x202D, 0x202E,
          0x2060, 0x2061, 0x2062, 0x2063, 0x2064, 0x2066, 0x2067, 0x2068, 0x2069, 0xFEFF, 0xFFF9, 0xFFFA, 0xFFFB}"

fun check_runes :: "rune list \<Rightarrow> filter_error option" where
  "check_runes [] = None"
| "check_runes (r # rs) =
     (if r = 0x0A \<or> r = 0x0D \<or> r = 0x09 then check_runes rs
      else if IsControl r then Some ErrBadRunes
      else if isDangerousFormatRune r then Some ErrBadRunes
      else check_runes rs)"

definition Contains :: "string \<Rightarrow> string \<Rightarrow> bool" where
  "Contains s p = list_ex (\<lambda>i. HasPrefix (drop i s) p) [0..<length s + 1]"

fun check_blocklist :: "string \<Rightarrow> string list \<Rightarrow> filter_error option" where
  "check_blocklist lower [] = None"
| "check_blocklist lower (blocked # bs) =
     (if blocked \<noteq> '''' \<and> Contains lower blocked then Some ErrBlocked else check_blocklist lower bs)"

definition CheckText :: "(string \<Rightarrow> string) \<Rightarrow> string list \<Rightarrow> string \<Rightarrow> filter_error option" where
  "CheckText lower blocklist s =
     (if \<not> ValidString s then Some ErrBadRunes
      else case check_runes (runes s) of
             Some err \<Rightarrow> Some err
           | None \<Rightarrow> check_blocklist (lower s) blocklist)"

definition CheckDisplayName :: "(string \<Rightarrow> string) \<Rightarrow> string list \<Rightarrow> string \<Rightarrow> filter_error option" where
  "CheckDisplayName lower blocklist s =
     (let trimmed = TrimSpace s
      in if trimmed = '''' then Some ErrEmpty
         else if RuneCountInString trimmed > MaxDisplayNameLen then Some ErrTooLong
         else if list_ex (\<lambda>c. c = CHR 0x0A \<or> c = CHR 0x0D) trimmed then Some ErrLineBreak
         else CheckText lower blocklist trimmed)"

definition CheckBio :: "(string \<Rightarrow> string) \<Rightarrow> string list \<Rightarrow> string \<Rightarrow> filter_error option" where
  "CheckBio lower blocklist s =
     (if RuneCountInString s > MaxBioLen then Some ErrTooLong else CheckText lower blocklist s)"

definition truncateRunes :: "string \<Rightarrow> nat \<Rightarrow> string" where
  "truncateRunes s maxRunes =
     (if RuneCountInString s \<le> maxRunes then s else string_of_runes (take maxRunes (runes s)))"

subsection \<open>What is accepted\<close>

definition plain_rune :: "rune \<Rightarrow> bool" where
  "plain_rune r \<longleftrightarrow> (r \<in> {0x09, 0x0A, 0x0D} \<or> \<not> IsControl r) \<and> \<not> isDangerousFormatRune r"

lemma check_runes_None: "check_runes rs = None \<longleftrightarrow> list_all plain_rune rs"
  by (induction rs) (auto simp: plain_rune_def isDangerousFormatRune_def)

lemma check_blocklist_None:
  "check_blocklist s bs = None \<longleftrightarrow> \<not> (\<exists>b \<in> set bs. b \<noteq> '''' \<and> Contains s b)"
  by (induction bs) auto

lemma Contains_iff: "Contains s p \<longleftrightarrow> (\<exists>a b. s = a @ p @ b)"
proof
  assume "Contains s p"
  then obtain i where "take (length p) (drop i s) = p"
    by (auto simp: Contains_def list_ex_iff HasPrefix_def)
  then have "s = take i s @ p @ drop (length p) (drop i s)"
    by (metis append_take_drop_id)
  then show "\<exists>a b. s = a @ p @ b" by blast
next
  assume "\<exists>a b. s = a @ p @ b"
  then obtain a b where "s = a @ p @ b" by blast
  then show "Contains s p"
    by (auto simp: Contains_def list_ex_iff HasPrefix_def intro!: bexI [of _ "length a"])
qed

lemma CheckText_None:
  "CheckText lower bl s = None \<longleftrightarrow>
     ValidString s \<and> list_all plain_rune (runes s) \<and> \<not> (\<exists>b \<in> set bl. b \<noteq> '''' \<and> Contains (lower s) b)"
  unfolding CheckText_def check_runes_None [symmetric] check_blocklist_None [symmetric]
  by (cases "check_runes (runes s)") simp_all

text \<open>
   The filter accepts a name exactly when the trimmed name is the encoding of one to sixty
  runes that are no line breaks, no control characters but the tabulator and no invisible or
  direction-changing format characters, and its lower-case form contains no word of the
  blocklist.  What passes is stored as it is: the runes that were checked spell the name.
\<close>

theorem display_name_filter:
  "CheckDisplayName lower bl s = None \<longleftrightarrow>
     ValidString (TrimSpace s) \<and> string_of_runes (runes (TrimSpace s)) = TrimSpace s \<and>
     1 \<le> length (runes (TrimSpace s)) \<and> length (runes (TrimSpace s)) \<le> 60 \<and> list_all plain_rune (runes (TrimSpace s)) \<and>
     CHR 0x0A \<notin> set (TrimSpace s) \<and> CHR 0x0D \<notin> set (TrimSpace s) \<and>
     {b \<in> set bl. b \<noteq> '''' \<and> (\<exists>x y. lower (TrimSpace s) = x @ b @ y)} = {}"
proof -
  let ?t = "TrimSpace s"
  have len: "length (runes ?t) = RuneCountInString ?t" by (simp add: runes_def RuneCountInString_def)
  have nonempty: "?t \<noteq> [] \<longleftrightarrow> 1 \<le> RuneCountInString ?t"
    by (cases ?t) (simp_all add: RuneCountInString_def)
  have breaks: "list_ex (\<lambda>c. c = CHR 0x0A \<or> c = CHR 0x0D) ?t \<longleftrightarrow> CHR 0x0A \<in> set ?t \<or> CHR 0x0D \<in> set ?t"
    by (auto simp: list_ex_iff)
  have words: "(\<exists>b \<in> set bl. b \<noteq> '''' \<and> Contains (lower ?t) b) \<longleftrightarrow>
      {b \<in> set bl. b \<noteq> '''' \<and> (\<exists>x y. lower ?t = x @ b @ y)} \<noteq> {}"
    unfolding Contains_iff by blast
  have "CheckDisplayName lower bl s = None \<longleftrightarrow>
      ?t \<noteq> [] \<and> RuneCountInString ?t \<le> 60 \<and> \<not> list_ex (\<lambda>c. c = CHR 0x0A \<or> c = CHR 0x0D) ?t \<and>
      CheckText lower bl ?t = None"
    by (simp add: CheckDisplayName_def Let_def MaxDisplayNameLen_def not_le)
  then show ?thesis
    unfolding nonempty breaks CheckText_None words len [symmetric]
    using string_of_runes_valid [of ?t] by argo
qed

end
