(* ===== verification/Social.thy ===== *)
theory Social
  imports Social_Db Account Text_Filter
begin

section \<open>Social identity and the follow graph\<close>

text \<open>
  \<^verbatim>\<open>src/handlers/social.go\<close> (handles, joining, the own profile, blocks and mutes, reports, erasure),
  \<^verbatim>\<open>src/handlers/graph.go\<close> (follows) and \<^verbatim>\<open>PostDeleteAccount\<close> of \<^verbatim>\<open>src/handlers/account.go\<close>.  A handler
  maps the decoded request and the database to the reply and the new database; the handlers of
  the graph also return the pushes they hand to the notifier.  \<open>sctx\<close> is the context of a
  request: the database environment, the libraries, the clocks, the identity of a new row, the
  blocklist, whether a notifier is installed, and the authenticated user.
\<close>

subsection \<open>Requests and replies\<close>

record sctx =
  sx_env :: env
  sx_text :: "goerr \<Rightarrow> string"
  sx_lib :: auth_lib
  sx_blocklist :: "string list"
  sx_db :: "nat \<Rightarrow> instant"
  sx_now :: int
  sx_id :: int
  sx_push :: bool
  sx_user :: "auth_User option"

record HandleAvailabilityResponse =
  har_Status :: int
  har_NormalizedHandle :: string

record JoinRequest =
  jr_Handle :: string
  jr_DisplayName :: string
  jr_AcceptedTermsVersion :: int

record pb_SocialProfile =
  psp_UserId :: string
  psp_Handle :: string
  psp_DisplayName :: string
  psp_Bio :: string
  psp_AvatarUrl :: string
  psp_CreatedAt :: instant
  psp_TermsVersion :: int
  psp_AvatarVisibility :: int
  psp_BioVisibility :: int
  psp_FollowedShowsVisibility :: int
  psp_TopPodcastsVisibility :: int
  psp_StatsVisibility :: int
  psp_HistoryVisibility :: int
  psp_PresenceVisibility :: int
  psp_RequireFollowApproval :: bool
  psp_SocialPushDisabled :: int
  psp_HideFromDiscovery :: bool
  psp_Curator :: bool

record ProfileUpdateRequest =
  pur_DisplayName :: string
  pur_Bio :: string
  pur_AvatarVisibility :: int
  pur_BioVisibility :: int
  pur_FollowedShowsVisibility :: int
  pur_TopPodcastsVisibility :: int
  pur_StatsVisibility :: int
  pur_HistoryVisibility :: int
  pur_PresenceVisibility :: int
  pur_RequireFollowApproval :: bool
  pur_SocialPushDisabled :: int
  pur_HideFromDiscovery :: bool

record FollowListRequest =
  flr_Followers :: bool
  flr_Limit :: int
  flr_Offset :: int

record FollowEntry =
  fe_Handle :: string
  fe_DisplayName :: string
  fe_UserId :: string
  fe_State :: int

record FollowListResponse =
  flp_Entries :: "FollowEntry list"
  flp_Total :: int

record ReportRequest =
  rr_TargetUserId :: string
  rr_Reason :: int
  rr_Context :: string
  rr_TargetType :: string
  rr_ContentRef :: string

record social_push =
  pu_Target :: int
  pu_Type :: int
  pu_Handle :: string
  pu_DisplayName :: string

abbreviation access_denied :: "int \<Rightarrow> string \<Rightarrow> 'm reply" where
  "access_denied status msg \<equiv> PcError status ''access_denied'' msg"

definition write_error :: "sctx \<Rightarrow> goerr \<Rightarrow> 'm reply" where
  "write_error x err = HttpError (writeError (sx_text x) err)"

text \<open>The common shape of a failed lookup: a bare status on \<^verbatim>\<open>pgx.ErrNoRows\<close>, else \<^verbatim>\<open>writeError\<close>.\<close>

definition not_found :: "sctx \<Rightarrow> goerr \<Rightarrow> 'm reply" where
  "not_found x err = (if Is_ErrNoRows err then WriteHeader 404 else write_error x err)"

definition social_user :: "sctx \<Rightarrow> social_db \<Rightarrow> 'm reply + User" where
  "social_user x d = currentDbUser (sx_env x) (sx_text x) (sx_user x) (sd_core d)"

subsection \<open>Handles\<close>

definition normalizeHandle :: "auth_lib \<Rightarrow> string \<Rightarrow> string" where
  "normalizeHandle l raw =
     (let s = TrimSpace raw in al_ToLower l (if HasPrefix s ''@'' then drop 1 s else s))"

definition handleStatusActive :: int where "handleStatusActive = 0"
definition handleStatusTombstoned :: int where "handleStatusTombstoned = 1"
definition handleStatusReserved :: int where "handleStatusReserved = 2"

definition PostSocialHandleAvailability :: "sctx \<Rightarrow> string option \<Rightarrow> social_db \<Rightarrow> HandleAvailabilityResponse reply" where
  "PostSocialHandleAvailability x req d =
     (case req of
        None \<Rightarrow> access_denied 400 ''invalid request''
      | Some raw \<Rightarrow>
          let handle = normalizeHandle (sx_lib x) raw;
              resp = (\<lambda>status. Proto 200 \<lparr>har_Status = status, har_NormalizedHandle = handle\<rparr>)
          in if \<not> handlePattern handle then resp 5
             else (case GetHandleStatus (sx_env x) (sx_lib x) handle d of
                     Inl err \<Rightarrow> if Is_ErrNoRows err then resp 1 else write_error x err
                   | Inr row \<Rightarrow>
                       if sh_Status row = handleStatusTombstoned then resp 4
                       else if sh_Status row = handleStatusReserved then resp 3
                       else resp 2))"

definition profileToProto :: "SocialProfile \<Rightarrow> string \<Rightarrow> pb_SocialProfile" where
  "profileToProto row userUuid =
     \<lparr>psp_UserId = userUuid, psp_Handle = sp_Handle row, psp_DisplayName = sp_DisplayName row, psp_Bio = sp_Bio row,
      psp_AvatarUrl = sp_AvatarUrl row, psp_CreatedAt = sp_CreatedAt row, psp_TermsVersion = sp_TermsVersion row,
      psp_AvatarVisibility = sp_AvatarVisibility row, psp_BioVisibility = sp_BioVisibility row,
      psp_FollowedShowsVisibility = sp_FollowedShowsVisibility row, psp_TopPodcastsVisibility = sp_TopPodcastsVisibility row,
      psp_StatsVisibility = sp_StatsVisibility row, psp_HistoryVisibility = sp_HistoryVisibility row,
      psp_PresenceVisibility = sp_PresenceVisibility row, psp_RequireFollowApproval = sp_RequireFollowApproval row,
      psp_SocialPushDisabled = sp_SocialPushDisabled row, psp_HideFromDiscovery = sp_HideFromDiscovery row,
      psp_Curator = sp_Curator row\<rparr>"

definition join_tx :: "sctx \<Rightarrow> int \<Rightarrow> string \<Rightarrow> string \<Rightarrow> int \<Rightarrow> social_db \<Rightarrow> (SocialProfile \<times> social_db) result" where
  "join_tx x uid handle name terms d =
     rbind (ClaimHandle (sx_env x) (sx_lib x) (sx_db x 0) handle uid d) (\<lambda>d.
       CreateSocialProfile (sx_env x) (sx_lib x) (sx_db x 0) uid handle name terms d)"

definition PostSocialJoin :: "sctx \<Rightarrow> JoinRequest option \<Rightarrow> social_db \<Rightarrow> pb_SocialProfile reply \<times> social_db" where
  "PostSocialJoin x req d =
     (case req of
        None \<Rightarrow> (access_denied 400 ''invalid request'', d)
      | Some req \<Rightarrow>
          let handle = normalizeHandle (sx_lib x) (jr_Handle req); displayName = TrimSpace (jr_DisplayName req)
          in if \<not> handlePattern handle then (access_denied 400 ''invalid handle'', d)
             else if jr_AcceptedTermsVersion req \<le> 0 then (access_denied 400 ''terms must be accepted'', d)
             else (case CheckDisplayName (al_ToLower (sx_lib x)) (sx_blocklist x) displayName of
                     Some err \<Rightarrow> (access_denied 400 (''display name rejected: '' @ filter_message err), d)
                   | None \<Rightarrow>
                       (case social_user x d of
                          Inl rep \<Rightarrow> (rep, d)
                        | Inr user \<Rightarrow>
                            (case GetSocialProfileByUserID (sx_env x) (u_ID user) d of
                               Inr _ \<Rightarrow> (access_denied 409 ''already joined'', d)
                             | Inl err \<Rightarrow>
                                 if \<not> Is_ErrNoRows err then (write_error x err, d)
                                 else (case InTx (sx_env x)
                                              (join_tx x (u_ID user) handle displayName (jr_AcceptedTermsVersion req)) d of
                                         (Inl err, d') \<Rightarrow>
                                           (if is_duplicate err then access_denied 409 ''handle unavailable''
                                            else write_error x err, d')
                                       | (Inr profile, d') \<Rightarrow> (Proto 200 (profileToProto profile (u_Uuid user)), d'))))))"

subsection \<open>The own profile\<close>

definition PostSocialProfileGet :: "sctx \<Rightarrow> unit option \<Rightarrow> social_db \<Rightarrow> pb_SocialProfile reply" where
  "PostSocialProfileGet x req d =
     (case req of
        None \<Rightarrow> access_denied 400 ''invalid request''
      | Some _ \<Rightarrow>
          (case social_user x d of
             Inl rep \<Rightarrow> rep
           | Inr user \<Rightarrow>
               (case GetSocialProfileByUserID (sx_env x) (u_ID user) d of
                  Inl err \<Rightarrow> not_found x err
                | Inr profile \<Rightarrow> Proto 200 (profileToProto profile (u_Uuid user)))))"

definition visibilityToStored :: "int \<Rightarrow> int" where
  "visibilityToStored v = (if v = 2 \<or> v = 3 then v else 1)"

definition PostSocialProfileUpdate ::
  "sctx \<Rightarrow> ProfileUpdateRequest option \<Rightarrow> social_db \<Rightarrow> pb_SocialProfile reply \<times> social_db" where
  "PostSocialProfileUpdate x req d =
     (case req of
        None \<Rightarrow> (access_denied 400 ''invalid request'', d)
      | Some req \<Rightarrow>
          let displayName = TrimSpace (pur_DisplayName req)
          in case CheckDisplayName (al_ToLower (sx_lib x)) (sx_blocklist x) displayName of
               Some err \<Rightarrow> (access_denied 400 (''display name rejected: '' @ filter_message err), d)
             | None \<Rightarrow>
                 (case CheckBio (al_ToLower (sx_lib x)) (sx_blocklist x) (pur_Bio req) of
                    Some err \<Rightarrow> (access_denied 400 (''bio rejected: '' @ filter_message err), d)
                  | None \<Rightarrow>
                      (case social_user x d of
                         Inl rep \<Rightarrow> (rep, d)
                       | Inr user \<Rightarrow>
                           (case UpdateSocialProfile (sx_env x) (sx_db x 1)
                                   \<lparr>usp_UserID = u_ID user, usp_DisplayName = displayName, usp_Bio = pur_Bio req,
                                    usp_AvatarVisibility = visibilityToStored (pur_AvatarVisibility req),
                                    usp_BioVisibility = visibilityToStored (pur_BioVisibility req),
                                    usp_FollowedShowsVisibility = visibilityToStored (pur_FollowedShowsVisibility req),
                                    usp_TopPodcastsVisibility = visibilityToStored (pur_TopPodcastsVisibility req),
                                    usp_StatsVisibility = visibilityToStored (pur_StatsVisibility req),
                                    usp_HistoryVisibility = visibilityToStored (pur_HistoryVisibility req),
                                    usp_PresenceVisibility = visibilityToStored (pur_PresenceVisibility req),
                                    usp_RequireFollowApproval = pur_RequireFollowApproval req,
                                    usp_SocialPushDisabled = pur_SocialPushDisabled req,
                                    usp_HideFromDiscovery = pur_HideFromDiscovery req\<rparr> d of
                              Inl err \<Rightarrow> (not_found x err, d)
                            | Inr (profile, d') \<Rightarrow> (Proto 200 (profileToProto profile (u_Uuid user)), d')))))"

subsection \<open>Blocks and mutes\<close>

definition relationshipBlock :: int where "relationshipBlock = 0"
definition relationshipMute :: int where "relationshipMute = 1"

definition hex_char :: "char \<Rightarrow> bool" where
  "hex_char c \<longleftrightarrow> (let n = of_char c :: nat in 48 \<le> n \<and> n \<le> 57 \<or> 97 \<le> n \<and> n \<le> 102 \<or> 65 \<le> n \<and> n \<le> 70)"

definition uuidPattern :: "string \<Rightarrow> bool" where
  "uuidPattern s \<longleftrightarrow>
     length s = 36 \<and> list_all (\<lambda>(i, c). if i \<in> {8, 13, 18, 23} then c = CHR ''-'' else hex_char c) (zip [0..<36] s)"

definition relationship_work :: "sctx \<Rightarrow> int \<Rightarrow> int \<Rightarrow> int \<Rightarrow> bool \<Rightarrow> social_db \<Rightarrow> goerr option \<times> social_db" where
  "relationship_work x uid target kind add d =
     (if add then
        (case UpsertSocialRelationship (sx_env x) (sx_db x 2) uid target kind d of
           Inl err \<Rightarrow> (Some err, d)
         | Inr d1 \<Rightarrow>
             if kind = relationshipBlock then
               (case DeleteFollow (sx_env x) uid target d1 of
                  Inl err \<Rightarrow> (Some err, d1)
                | Inr (_, d2) \<Rightarrow>
                    (case DeleteFollow (sx_env x) target uid d2 of
                       Inl err \<Rightarrow> (Some err, d2)
                     | Inr (_, d3) \<Rightarrow> (None, d3)))
             else (None, d1))
      else
        (case DeleteSocialRelationship (sx_env x) uid target kind d of
           Inl err \<Rightarrow> (Some err, d)
         | Inr (_, d1) \<Rightarrow> (None, d1)))"

definition setRelationship :: "sctx \<Rightarrow> int \<Rightarrow> bool \<Rightarrow> string option \<Rightarrow> social_db \<Rightarrow> bool reply \<times> social_db" where
  "setRelationship x kind add req d =
     (case req of
        None \<Rightarrow> (access_denied 400 ''invalid request'', d)
      | Some targetUserId \<Rightarrow>
          if \<not> uuidPattern targetUserId then (access_denied 400 ''invalid request'', d)
          else (case social_user x d of
                  Inl rep \<Rightarrow> (rep, d)
                | Inr user \<Rightarrow>
                    (case GetUserByUUID (sx_env x) (al_ToLower (sx_lib x) targetUserId) (sd_core d) of
                       Inl err \<Rightarrow> (not_found x err, d)
                     | Inr target \<Rightarrow>
                         if u_ID target = u_ID user then (access_denied 400 ''cannot target yourself'', d)
                         else (case relationship_work x (u_ID user) (u_ID target) kind add d of
                                 (Some err, d') \<Rightarrow> (write_error x err, d')
                               | (None, d') \<Rightarrow> (Proto 200 True, d')))))"

definition PostSocialBlock :: "sctx \<Rightarrow> string option \<Rightarrow> social_db \<Rightarrow> bool reply \<times> social_db" where
  "PostSocialBlock x = setRelationship x relationshipBlock True"

definition PostSocialUnblock :: "sctx \<Rightarrow> string option \<Rightarrow> social_db \<Rightarrow> bool reply \<times> social_db" where
  "PostSocialUnblock x = setRelationship x relationshipBlock False"

definition PostSocialMute :: "sctx \<Rightarrow> string option \<Rightarrow> social_db \<Rightarrow> bool reply \<times> social_db" where
  "PostSocialMute x = setRelationship x relationshipMute True"

definition PostSocialUnmute :: "sctx \<Rightarrow> string option \<Rightarrow> social_db \<Rightarrow> bool reply \<times> social_db" where
  "PostSocialUnmute x = setRelationship x relationshipMute False"

subsection \<open>The follow graph\<close>

definition followStatusPending :: int where "followStatusPending = 0"
definition followStatusActive :: int where "followStatusActive = 1"
definition maxFollowPageSize :: int where "maxFollowPageSize = 100"

definition SocialPushFollowRequest :: int where "SocialPushFollowRequest = 1"
definition SocialPushFollowApproved :: int where "SocialPushFollowApproved = 2"
definition SocialPushNewFollower :: int where "SocialPushNewFollower = 3"

definition requireJoined :: "sctx \<Rightarrow> social_db \<Rightarrow> 'm reply + User \<times> SocialProfile" where
  "requireJoined x d =
     (case social_user x d of
        Inl rep \<Rightarrow> Inl rep
      | Inr user \<Rightarrow>
          (case GetSocialProfileByUserID (sx_env x) (u_ID user) d of
             Inl err \<Rightarrow> Inl (if Is_ErrNoRows err then access_denied 403 ''join required'' else write_error x err)
           | Inr profile \<Rightarrow> Inr (user, profile)))"

definition resolveFollowTarget :: "sctx \<Rightarrow> int \<Rightarrow> string \<Rightarrow> social_db \<Rightarrow> 'm reply + SocialProfile" where
  "resolveFollowTarget x callerID rawHandle d =
     (case GetSocialProfileByHandle (sx_env x) (sx_lib x) (normalizeHandle (sx_lib x) rawHandle) d of
        Inl err \<Rightarrow> Inl (not_found x err)
      | Inr target \<Rightarrow>
          if sp_UserID target = callerID then Inl (access_denied 400 ''cannot target yourself'')
          else (case IsBlockedEither (sx_env x) callerID (sp_UserID target) d of
                  Inl err \<Rightarrow> Inl (write_error x err)
                | Inr blocked \<Rightarrow> if blocked then Inl (WriteHeader 404) else Inr target))"

definition mutedBy :: "sctx \<Rightarrow> int \<Rightarrow> int \<Rightarrow> social_db \<Rightarrow> bool" where
  "mutedBy x owner actor d =
     (case HasSocialRelationship (sx_env x) owner actor relationshipMute d of Inl _ \<Rightarrow> False | Inr muted \<Rightarrow> muted)"

definition notifySocial :: "sctx \<Rightarrow> int \<Rightarrow> int \<Rightarrow> SocialProfile \<Rightarrow> social_push list" where
  "notifySocial x target pushType actor =
     (if sx_push x
      then [\<lparr>pu_Target = target, pu_Type = pushType, pu_Handle = sp_Handle actor, pu_DisplayName = sp_DisplayName actor\<rparr>]
      else [])"

text \<open>
  \<^verbatim>\<open>PostFollow\<close> runs outside a transaction.  Its two parts, up to the check of the target and
  from the insert on, are separate: other requests may run in between.
\<close>

definition follow_check :: "sctx \<Rightarrow> string \<Rightarrow> social_db \<Rightarrow> 'm reply + User \<times> SocialProfile \<times> SocialProfile" where
  "follow_check x handle d =
     (case requireJoined x d of
        Inl rep \<Rightarrow> Inl rep
      | Inr (user, profile) \<Rightarrow>
          (case resolveFollowTarget x (u_ID user) handle d of
             Inl rep \<Rightarrow> Inl rep
           | Inr target \<Rightarrow> Inr (user, profile, target)))"

definition follow_commit ::
  "sctx \<Rightarrow> User \<Rightarrow> SocialProfile \<Rightarrow> SocialProfile \<Rightarrow> social_db \<Rightarrow> int reply \<times> social_db \<times> social_push list" where
  "follow_commit x user profile target d =
     (let status = (if sp_RequireFollowApproval target then followStatusPending else followStatusActive)
      in case UpsertFollow (sx_env x) (sx_db x 4) (u_ID user) (sp_UserID target) status d of
           Inl err \<Rightarrow> (write_error x err, d, [])
         | Inr (inserted, d1) \<Rightarrow>
             (case GetFollowState (sx_env x) (u_ID user) (sp_UserID target) d1 of
                Inl err \<Rightarrow> (write_error x err, d1, [])
              | Inr stored \<Rightarrow>
                  let (state, pushType) =
                    (if stored = followStatusActive then (2, SocialPushNewFollower) else (1, SocialPushFollowRequest))
                  in (Proto 200 state, d1,
                      if inserted > 0 \<and> \<not> mutedBy x (sp_UserID target) (u_ID user) d1
                      then notifySocial x (sp_UserID target) pushType profile else [])))"

definition PostFollow :: "sctx \<Rightarrow> string option \<Rightarrow> social_db \<Rightarrow> int reply \<times> social_db \<times> social_push list" where
  "PostFollow x req d =
     (case req of
        None \<Rightarrow> (access_denied 400 ''invalid request'', d, [])
      | Some handle \<Rightarrow>
          (case follow_check x handle d of
             Inl rep \<Rightarrow> (rep, d, [])
           | Inr (user, profile, target) \<Rightarrow> follow_commit x user profile target d))"

definition PostUnfollow :: "sctx \<Rightarrow> string option \<Rightarrow> social_db \<Rightarrow> bool reply \<times> social_db" where
  "PostUnfollow x req d =
     (case req of
        None \<Rightarrow> (access_denied 400 ''invalid request'', d)
      | Some handle \<Rightarrow>
          (case requireJoined x d of
             Inl rep \<Rightarrow> (rep, d)
           | Inr (user, _) \<Rightarrow>
               (case GetSocialProfileByHandle (sx_env x) (sx_lib x) (normalizeHandle (sx_lib x) handle) d of
                  Inl err \<Rightarrow> (not_found x err, d)
                | Inr target \<Rightarrow>
                    (case DeleteFollow (sx_env x) (u_ID user) (sp_UserID target) d of
                       Inl err \<Rightarrow> (write_error x err, d)
                     | Inr (_, d') \<Rightarrow> (Proto 200 True, d')))))"

definition followEntry :: "FollowRow \<Rightarrow> FollowEntry" where
  "followEntry row =
     \<lparr>fe_Handle = fr_Handle row, fe_DisplayName = fr_DisplayName row, fe_UserId = fr_UserUuid row,
      fe_State = (if fr_Status row = followStatusActive then 2 else 1)\<rparr>"

definition follow_limit :: "int \<Rightarrow> int" where
  "follow_limit limit = (if limit \<le> 0 \<or> limit > maxFollowPageSize then maxFollowPageSize else limit)"

definition follow_answer :: "sctx \<Rightarrow> FollowRow list result \<Rightarrow> int result \<Rightarrow> FollowListResponse reply" where
  "follow_answer x rows count =
     (case rows of
        Inl err \<Rightarrow> write_error x err
      | Inr rows \<Rightarrow>
          (case count of
             Inl err \<Rightarrow> write_error x err
           | Inr n \<Rightarrow> Proto 200 \<lparr>flp_Entries = map followEntry rows, flp_Total = n\<rparr>))"

definition PostFollowList :: "sctx \<Rightarrow> FollowListRequest option \<Rightarrow> social_db \<Rightarrow> FollowListResponse reply" where
  "PostFollowList x req d =
     (case req of
        None \<Rightarrow> access_denied 400 ''invalid request''
      | Some req \<Rightarrow>
          let limit = follow_limit (flr_Limit req); offset = max (flr_Offset req) 0
          in case requireJoined x d of
               Inl rep \<Rightarrow> rep
             | Inr (user, _) \<Rightarrow>
                 if flr_Followers req
                 then follow_answer x (GetFollowers (sx_env x) (u_ID user) limit offset d) (CountFollowers (sx_env x) (u_ID user) d)
                 else follow_answer x (GetFollowing (sx_env x) (u_ID user) limit offset d) (CountFollowing (sx_env x) (u_ID user) d))"

definition PostFollowRequests :: "sctx \<Rightarrow> (int \<times> int) option \<Rightarrow> social_db \<Rightarrow> FollowListResponse reply" where
  "PostFollowRequests x req d =
     (case req of
        None \<Rightarrow> access_denied 400 ''invalid request''
      | Some (limit, offset) \<Rightarrow>
          (case requireJoined x d of
             Inl rep \<Rightarrow> rep
           | Inr (user, _) \<Rightarrow>
               follow_answer x (GetPendingFollowRequests (sx_env x) (u_ID user) (follow_limit limit) (max offset 0) d)
                 (CountPendingFollowRequests (sx_env x) (u_ID user) d)))"

definition PostFollowApprove :: "sctx \<Rightarrow> (string \<times> bool) option \<Rightarrow> social_db \<Rightarrow> bool reply \<times> social_db \<times> social_push list" where
  "PostFollowApprove x req d =
     (case req of
        None \<Rightarrow> (access_denied 400 ''invalid request'', d, [])
      | Some (requesterHandle, accept) \<Rightarrow>
          (case requireJoined x d of
             Inl rep \<Rightarrow> (rep, d, [])
           | Inr (user, profile) \<Rightarrow>
               (case GetSocialProfileByHandle (sx_env x) (sx_lib x) (normalizeHandle (sx_lib x) requesterHandle) d of
                  Inl err \<Rightarrow> (not_found x err, d, [])
                | Inr requester \<Rightarrow>
                    (case (if accept then ApproveFollow (sx_env x) (sx_db x 3) (sp_UserID requester) (u_ID user) d
                           else DeleteFollow (sx_env x) (sp_UserID requester) (u_ID user) d) of
                       Inl err \<Rightarrow> (write_error x err, d, [])
                     | Inr (affected, d') \<Rightarrow>
                         (Proto 200 True, d',
                          if accept \<and> affected > 0
                          then notifySocial x (sp_UserID requester) SocialPushFollowApproved profile else [])))))"

subsection \<open>Reports\<close>

definition moderationReportsPerDay :: int where "moderationReportsPerDay = 20"
definition maxReportContextLen :: nat where "maxReportContextLen = 1000"

definition errModerationReportRateLimited :: goerr where
  "errModerationReportRateLimited = NewError ''moderation report rate limit exceeded''"

definition day_ns :: int where "day_ns = 24 * 3600 * 1000000000"

text \<open>\<^verbatim>\<open>strconv.FormatInt\<close> to base ten.\<close>

fun decimal :: "nat \<Rightarrow> string" where
  "decimal n = (if n < 10 then [char_of (48 + n)] else decimal (n div 10) @ [char_of (48 + n mod 10)])"

declare decimal.simps [simp del]

definition FormatInt :: "int \<Rightarrow> string" where
  "FormatInt i = (if i < 0 then ''-'' @ decimal (nat (- i)) else decimal (nat i))"

definition report_quota_tx ::
  "sctx \<Rightarrow> int \<Rightarrow> (social_db \<Rightarrow> social_db result) \<Rightarrow> social_db \<Rightarrow> (unit \<times> social_db) result" where
  "report_quota_tx x userID insertfn d =
     rbind (LockRateLimitBucket (sx_env x) (''moderation-report:'' @ FormatInt userID)) (\<lambda>_.
     rbind (CountRecentModerationReportsByReporter (sx_env x) userID (sx_now x - day_ns) d) (\<lambda>count.
       if count \<ge> moderationReportsPerDay then Inl errModerationReportRateLimited
       else rbind (insertfn d) (\<lambda>d. Inr ((), d))))"

definition withModerationReportQuota ::
  "sctx \<Rightarrow> int \<Rightarrow> (social_db \<Rightarrow> social_db result) \<Rightarrow> social_db \<Rightarrow> unit result \<times> social_db" where
  "withModerationReportQuota x userID insertfn d = InTx (sx_env x) (report_quota_tx x userID insertfn) d"

definition PostSocialReport :: "sctx \<Rightarrow> ReportRequest option \<Rightarrow> social_db \<Rightarrow> bool reply \<times> social_db" where
  "PostSocialReport x req d =
     (case req of
        None \<Rightarrow> (access_denied 400 ''invalid request'', d)
      | Some req \<Rightarrow>
          if \<not> uuidPattern (rr_TargetUserId req) \<or> rr_Reason req < 1 \<or> rr_Reason req > 6
          then (access_denied 400 ''invalid request'', d)
          else (case social_user x d of
                  Inl rep \<Rightarrow> (rep, d)
                | Inr user \<Rightarrow>
                    (case GetUserByUUID (sx_env x) (al_ToLower (sx_lib x) (rr_TargetUserId req)) (sd_core d) of
                       Inl err \<Rightarrow> (not_found x err, d)
                     | Inr target \<Rightarrow>
                         if u_ID target = u_ID user then (access_denied 400 ''cannot target yourself'', d)
                         else
                           let context = (if length (rr_Context req) > maxReportContextLen
                                          then truncateRunes (rr_Context req) maxReportContextLen else rr_Context req);
                               targetType = (if rr_TargetType req = '''' then ''user'' else rr_TargetType req)
                           in case withModerationReportQuota x (u_ID user)
                                     (InsertModerationReport (sx_env x) (sx_db x 2) (sx_id x)
                                        \<lparr>imr_TargetUserID = u_ID target, imr_ReporterUserID = Some (u_ID user),
                                         imr_Source = ''community_flag'', imr_Reason = rr_Reason req, imr_Context = context,
                                         imr_TargetType = targetType, imr_ContentRef = rr_ContentRef req\<rparr>) d of
                                (Inl err, d') \<Rightarrow>
                                  (if errModerationReportRateLimited \<in> set (chain err)
                                   then PcError 429 ''rate_limited'' ''report rate limit exceeded''
                                   else write_error x err, d')
                              | (Inr _, d') \<Rightarrow> (Proto 200 True, d'))))"

subsection \<open>Erasure\<close>

fun pass_groups :: "sctx \<Rightarrow> int \<Rightarrow> int list \<Rightarrow> social_db \<Rightarrow> social_db result" where
  "pass_groups x userID [] d = Inr d"
| "pass_groups x userID (groupID # ids) d =
     (case FindGroupSuccessor (sx_env x) groupID userID d of
        Inl err \<Rightarrow>
          if \<not> Is_ErrNoRows err then Inl err
          else rbind (DeleteSocialGroupByID (sx_env x) groupID d) (pass_groups x userID ids)
      | Inr successor \<Rightarrow>
          rbind (TransferGroupOwner (sx_env x) (sx_db x 0) groupID successor d) (\<lambda>d.
          rbind (PromoteGroupMemberToOwner (sx_env x) groupID successor d) (pass_groups x userID ids)))"

definition erase_avatar :: "sctx \<Rightarrow> int \<Rightarrow> social_db \<Rightarrow> social_db result" where
  "erase_avatar x userID d =
     (case DeleteSocialAvatar (sx_env x) (sx_db x 0) userID d of
        Inr (objectKey, d1) \<Rightarrow> EnqueueObjectDelete (sx_env x) (sx_db x 0) (sx_id x) objectKey ''social_erasure'' d1
      | Inl err \<Rightarrow> if \<not> Is_ErrNoRows err then Inl err else Inr d)"

definition socialEraseWithQuerier :: "sctx \<Rightarrow> int \<Rightarrow> social_db \<Rightarrow> social_db result" where
  "socialEraseWithQuerier x userID d =
     (let e = sx_env x; now = sx_db x 0
      in rbind (erase_avatar x userID d) (\<lambda>d.
         rbind (DeleteSocialProfile e userID d) (\<lambda>(_, d).
         rbind (TombstoneHandle e (sx_lib x) now userID d) (\<lambda>(_, d).
         rbind (DeleteReviewsForUser e userID d) (\<lambda>d.
         rbind (DeleteSharedItemsForUser e userID d) (\<lambda>d.
         rbind (DeleteFollowsForUser e userID d) (\<lambda>d.
         rbind (TombstoneCommentsForUser e now userID d) (\<lambda>d.
         rbind (DeleteSocialListsForOwner e userID d) (\<lambda>d.
         rbind (DeleteSocialListMembershipsForUser e userID d) (\<lambda>d.
         rbind (ClearSocialListAttributionForUser e userID d) (\<lambda>d.
         rbind (TombstoneGroupPostsForUser e now userID d) (\<lambda>d.
         rbind (GetOwnedPublicGroupIDs e userID d) (\<lambda>publicGroups.
         rbind (pass_groups x userID publicGroups d) (\<lambda>d.
         rbind (DeleteOwnedPrivateGroups e userID d) (\<lambda>d.
         rbind (DeleteGroupMembershipsForUser e userID d) (\<lambda>d.
         rbind (ClearGroupInviteAttributionForUser e userID d) (\<lambda>d.
         rbind (DeleteMilestonesForUser e userID d) (\<lambda>d.
           DeleteRelationshipsForUser e userID d))))))))))))))))))"

definition socialErase :: "sctx \<Rightarrow> int \<Rightarrow> social_db \<Rightarrow> unit result \<times> social_db" where
  "socialErase x userID d =
     InTx (sx_env x) (\<lambda>d. rbind (socialEraseWithQuerier x userID d) (\<lambda>d. Inr ((), d))) d"

definition PostSocialErase :: "sctx \<Rightarrow> unit option \<Rightarrow> social_db \<Rightarrow> bool reply \<times> social_db" where
  "PostSocialErase x req d =
     (case req of
        None \<Rightarrow> (access_denied 400 ''invalid request'', d)
      | Some _ \<Rightarrow>
          (case social_user x d of
             Inl rep \<Rightarrow> (rep, d)
           | Inr user \<Rightarrow>
               (case socialErase x (u_ID user) d of
                  (Inl err, d') \<Rightarrow> (write_error x err, d')
                | (Inr _, d') \<Rightarrow> (Proto 200 True, d'))))"

definition delete_account_tx :: "sctx \<Rightarrow> int \<Rightarrow> social_db \<Rightarrow> (unit \<times> social_db) result" where
  "delete_account_tx x userID d =
     rbind (on_core (\<lambda>st. rbind (ClearPushStateForUser (sx_env x) userID st) (\<lambda>st. Inr ((), st))) d) (\<lambda>(_, d).
     rbind (socialEraseWithQuerier x userID d) (\<lambda>d.
     rbind (on_core (SoftDeleteUser (sx_env x) (sx_db x 0) userID) d) (\<lambda>(_, d).
     rbind (on_core (RevokeAllRefreshTokens (sx_env x) (sx_db x 0) userID) d) (\<lambda>(_, d). Inr ((), d)))))"

definition PostDeleteAccount :: "sctx \<Rightarrow> unit option \<Rightarrow> social_db \<Rightarrow> UserChangeResponse reply \<times> social_db" where
  "PostDeleteAccount x req d =
     (case req of
        None \<Rightarrow> (access_denied 400 ''invalid request'', d)
      | Some _ \<Rightarrow>
          (case social_user x d of
             Inl rep \<Rightarrow> (rep, d)
           | Inr user \<Rightarrow>
               (case InTx (sx_env x) (delete_account_tx x (u_ID user)) d of
                  (Inl err, d') \<Rightarrow> (write_error x err, d')
                | (Inr _, d') \<Rightarrow> (Proto 200 changeSuccess, d'))))"

end
