(* ===== verification/Social_Erasure.thy ===== *)
theory Social_Erasure
  imports Social Example_Env
begin

section \<open>Erasure of an account\<close>

text \<open>
  What \<^verbatim>\<open>socialEraseWithQuerier\<close> and \<^verbatim>\<open>PostDeleteAccount\<close> do to every table, and the theorem
  that nothing in the social tables refers to the account afterwards.
\<close>

subsection \<open>Groups pass on\<close>

text \<open>The fields that passing on groups does not touch.\<close>

definition outside_groups :: "social_db \<Rightarrow> social_db" where
  "outside_groups d = d\<lparr>sd_groups := [], sd_group_members := [], sd_group_posts := []\<rparr>"

lemma outside_groups_simps [simp]:
  "outside_groups (d\<lparr>sd_groups := a\<rparr>) = outside_groups d"
  "outside_groups (d\<lparr>sd_group_members := b\<rparr>) = outside_groups d"
  "outside_groups (delete_groups P d) = outside_groups d"
  by (simp_all add: outside_groups_def delete_groups_def Let_def)

lemma outside_groups_fields:
  assumes "outside_groups d' = outside_groups d"
  shows "sd_core d' = sd_core d" "sd_handles d' = sd_handles d" "sd_profiles d' = sd_profiles d"
    "sd_relationships d' = sd_relationships d" "sd_follows d' = sd_follows d" "sd_reports d' = sd_reports d"
    "sd_avatars d' = sd_avatars d" "sd_outbox d' = sd_outbox d" "sd_reviews d' = sd_reviews d"
    "sd_shared_items d' = sd_shared_items d" "sd_comments d' = sd_comments d" "sd_lists d' = sd_lists d"
    "sd_list_entries d' = sd_list_entries d" "sd_list_members d' = sd_list_members d"
  using arg_cong [OF assms, of sd_core] arg_cong [OF assms, of sd_handles] arg_cong [OF assms, of sd_profiles]
    arg_cong [OF assms, of sd_relationships] arg_cong [OF assms, of sd_follows] arg_cong [OF assms, of sd_reports]
    arg_cong [OF assms, of sd_avatars] arg_cong [OF assms, of sd_outbox] arg_cong [OF assms, of sd_reviews]
    arg_cong [OF assms, of sd_shared_items] arg_cong [OF assms, of sd_comments] arg_cong [OF assms, of sd_lists]
    arg_cong [OF assms, of sd_list_entries] arg_cong [OF assms, of sd_list_members]
  by (simp_all add: outside_groups_def)

lemma FindGroupSuccessor_other:
  assumes "FindGroupSuccessor e gid uid d = Inr s"
  shows "s \<noteq> uid"
proof -
  define c where "c = filter (\<lambda>m. gm_GroupID m = gid \<and> gm_Role m = 1 \<and> gm_UserID m \<noteq> uid) (sd_group_members d)"
  have c: "(case sort_key gm_CreatedAt c of [] \<Rightarrow> Inl ErrNoRows | m # _ \<Rightarrow> Inr (gm_UserID m)) = (Inr s :: int result)"
    using assms unfolding FindGroupSuccessor_def stmt_Inr c_def by (rule conjunct2)
  show ?thesis
  proof (cases "sort_key gm_CreatedAt c")
    case Nil
    with c show ?thesis by (simp only: list.case) simp
  next
    case (Cons m ms)
    then have "m \<in> set c" by (metis list.set_intros(1) set_sort)
    moreover from c Cons have "s = gm_UserID m" by (simp only: list.case) simp
    ultimately show ?thesis by (simp add: c_def)
  qed
qed

lemma delete_groups_posts: "gp_UserID ` set (sd_group_posts (delete_groups P d)) \<subseteq> gp_UserID ` set (sd_group_posts d)"
  by (auto simp: delete_groups_def Let_def tbl_simps)

lemma delete_groups_groups: "set (sd_groups (delete_groups P d)) = {g \<in> set (sd_groups d). \<not> P g}"
  by (simp add: delete_groups_def Let_def tbl_simps)

definition passed :: "instant \<Rightarrow> int \<Rightarrow> int \<Rightarrow> social_db \<Rightarrow> social_db" where
  "passed now i s d =
     d\<lparr>sd_groups := update_where (\<lambda>g. sg_ID g = i) (\<lambda>g. g\<lparr>sg_OwnerUserID := s, sg_UpdatedAt := now\<rparr>) (sd_groups d),
       sd_group_members := update_where (\<lambda>m. gm_GroupID m = i \<and> gm_UserID m = s) (\<lambda>m. m\<lparr>gm_Role := 2\<rparr>) (sd_group_members d)\<rparr>"

lemma pass_groups_Cons:
  assumes "pass_groups x uid (i # ids) d = Inr d'"
  obtains "pass_groups x uid ids (delete_groups (\<lambda>g. sg_ID g = i) d) = Inr d'"
  | s where "s \<noteq> uid" "pass_groups x uid ids (passed (sx_db x 0) i s d) = Inr d'"
proof (cases "FindGroupSuccessor (sx_env x) i uid d")
  case (Inl err)
  with assms have "pass_groups x uid ids (delete_groups (\<lambda>g. sg_ID g = i) d) = Inr d'"
    by (auto simp: res_simps DeleteSocialGroupByID_def split: if_splits)
  then show thesis by (rule that)
next
  case (Inr s)
  with assms have "pass_groups x uid ids (passed (sx_db x 0) i s d) = Inr d'"
    by (auto simp: res_simps TransferGroupOwner_def PromoteGroupMemberToOwner_def passed_def split: if_splits)
  then show thesis using FindGroupSuccessor_other [OF Inr] that by blast
qed

lemma passed_groups:
  "set (sd_groups (passed now i s d)) = {g \<in> set (sd_groups d). sg_ID g \<noteq> i} \<union>
     (\<lambda>g. g\<lparr>sg_OwnerUserID := s, sg_UpdatedAt := now\<rparr>) ` {g \<in> set (sd_groups d). sg_ID g = i}"
  by (simp add: passed_def tbl_simps)

lemma outside_passed [simp]: "outside_groups (passed now i s d) = outside_groups d" "sd_group_posts (passed now i s d) = sd_group_posts d"
  by (simp_all add: passed_def outside_groups_def)

definition owned_by :: "int \<Rightarrow> social_db \<Rightarrow> SocialGroup set" where
  "owned_by uid d = {g \<in> set (sd_groups d). sg_OwnerUserID g = uid}"

lemma owned_delete: "owned_by uid (delete_groups (\<lambda>g. sg_ID g = i) d) = {g \<in> owned_by uid d. sg_ID g \<noteq> i}"
  by (auto simp: owned_by_def delete_groups_groups)

lemma owned_passed: "s \<noteq> uid \<Longrightarrow> owned_by uid (passed now i s d) = {g \<in> owned_by uid d. sg_ID g \<noteq> i}"
  by (auto simp: owned_by_def passed_groups)

lemma pass_groups_Inr:
  assumes "pass_groups x uid ids d = Inr d'"
  shows "outside_groups d' = outside_groups d \<and>
         owned_by uid d' = {g \<in> owned_by uid d. sg_ID g \<notin> set ids} \<and>
         gp_UserID ` set (sd_group_posts d') \<subseteq> gp_UserID ` set (sd_group_posts d)"
  using assms
proof (induction ids arbitrary: d)
  case (Cons i ids)
  from Cons.prems show ?case
  proof (rule pass_groups_Cons)
    assume "pass_groups x uid ids (delete_groups (\<lambda>g. sg_ID g = i) d) = Inr d'"
    note ih = Cons.IH [OF this]
    then have "gp_UserID ` set (sd_group_posts d') \<subseteq> gp_UserID ` set (sd_group_posts d)"
      using delete_groups_posts subset_trans by blast
    with ih show ?thesis by (auto simp: owned_delete)
  next
    fix s
    assume "s \<noteq> uid" "pass_groups x uid ids (passed (sx_db x 0) i s d) = Inr d'"
    from Cons.IH [OF this(2)] this(1) show ?thesis by (auto simp: owned_passed)
  qed
qed simp

subsection \<open>The effect on every table\<close>

abbreviation tombstoned :: "instant \<Rightarrow> SocialHandle \<Rightarrow> SocialHandle" where
  "tombstoned now h \<equiv> h\<lparr>sh_Status := 1, sh_UserID := None, sh_ReleasedAt := Some now\<rparr>"

definition before_groups :: "auth_lib \<Rightarrow> instant \<Rightarrow> int \<Rightarrow> social_db \<Rightarrow> social_db" where
  "before_groups l now uid d =
     (let d1 = delete_lists (\<lambda>l. sl_OwnerUserID l = uid)
        (d\<lparr>sd_profiles := delete_where (\<lambda>p. sp_UserID p = uid) (sd_profiles d),
           sd_handles := update_where (\<lambda>h. sh_UserID h = Some uid \<and> sh_Status h = 0) (tombstoned now) (sd_handles d),
           sd_reviews := delete_where (\<lambda>r. pr_UserID r = uid) (sd_reviews d),
           sd_shared_items := delete_where (\<lambda>i. si_SenderUserID i = uid \<or> si_RecipientUserID i = uid) (sd_shared_items d),
           sd_follows := delete_where (\<lambda>f. sf_FollowerUserID f = uid \<or> sf_FolloweeUserID f = uid) (sd_follows d),
           sd_comments := update_where (\<lambda>c. ec_UserID c = Some uid \<and> ec_RemovedAt c = None) (wipe_comment now) (sd_comments d)\<rparr>)
      in d1\<lparr>sd_list_members := delete_where (\<lambda>m. lm_UserID m = uid) (sd_list_members d1),
            sd_list_entries := update_where (\<lambda>x. le_AddedBy x = Some uid) (\<lambda>x. x\<lparr>le_AddedBy := None\<rparr>) (sd_list_entries d1),
            sd_group_posts := update_where (\<lambda>p. gp_UserID p = Some uid \<and> gp_RemovedAt p = None) (wipe_post now) (sd_group_posts d1)\<rparr>)"

definition after_groups :: "int \<Rightarrow> social_db \<Rightarrow> social_db" where
  "after_groups uid d =
     (let d1 = delete_groups (\<lambda>g. sg_OwnerUserID g = uid \<and> sg_Visibility g = 1) d
      in d1\<lparr>sd_group_members :=
              update_where (\<lambda>m. gm_InvitedBy m = Some uid) (\<lambda>m. m\<lparr>gm_InvitedBy := None\<rparr>)
                (delete_where (\<lambda>m. gm_UserID m = uid) (sd_group_members d1)),
            sd_core := (sd_core d1)\<lparr>st_milestones := delete_where (\<lambda>m. ms_UserID m = uid) (st_milestones (sd_core d1))\<rparr>,
            sd_relationships := delete_where (\<lambda>r. sr_UserID r = uid \<or> sr_TargetUserID r = uid) (sd_relationships d1)\<rparr>)"

lemma social_erase_Inr:
  assumes "socialEraseWithQuerier x uid d = Inr d'"
  obtains d1 d2 where "erase_avatar x uid d = Inr d1"
    "pass_groups x uid (map sg_ID (filter (\<lambda>g. sg_OwnerUserID g = uid \<and> sg_Visibility g = 2) (sd_groups d1)))
       (before_groups (sx_lib x) (sx_db x 0) uid d1) = Inr d2"
    "d' = after_groups uid d2"
  using assms
  by (auto simp: socialEraseWithQuerier_def res_simps DeleteSocialProfile_def TombstoneHandle_def DeleteReviewsForUser_def
      DeleteSharedItemsForUser_def DeleteFollowsForUser_def TombstoneCommentsForUser_def DeleteSocialListsForOwner_def
      DeleteSocialListMembershipsForUser_def ClearSocialListAttributionForUser_def TombstoneGroupPostsForUser_def
      GetOwnedPublicGroupIDs_def DeleteOwnedPrivateGroups_def DeleteGroupMembershipsForUser_def
      ClearGroupInviteAttributionForUser_def DeleteMilestonesForUser_def DeleteRelationshipsForUser_def
      before_groups_def after_groups_def delete_lists_def delete_groups_def Let_def split: if_splits)

subsection \<open>Nothing refers to an erased account\<close>

definition refers :: "int \<Rightarrow> social_db \<Rightarrow> bool" where
  "refers uid d \<longleftrightarrow>
     uid \<in> sp_UserID ` set (sd_profiles d) \<or> Some uid \<in> sh_UserID ` set (sd_handles d) \<or>
     uid \<in> sr_UserID ` set (sd_relationships d) \<union> sr_TargetUserID ` set (sd_relationships d) \<or>
     uid \<in> sf_FollowerUserID ` set (sd_follows d) \<union> sf_FolloweeUserID ` set (sd_follows d) \<or>
     uid \<in> pr_UserID ` set (sd_reviews d) \<or>
     uid \<in> si_SenderUserID ` set (sd_shared_items d) \<union> si_RecipientUserID ` set (sd_shared_items d) \<or>
     Some uid \<in> ec_UserID ` set (sd_comments d) \<or>
     uid \<in> sl_OwnerUserID ` set (sd_lists d) \<or> uid \<in> lm_UserID ` set (sd_list_members d) \<or>
     Some uid \<in> le_AddedBy ` set (sd_list_entries d) \<or>
     uid \<in> sg_OwnerUserID ` set (sd_groups d) \<or> uid \<in> gm_UserID ` set (sd_group_members d) \<or>
     Some uid \<in> gm_InvitedBy ` set (sd_group_members d) \<or> Some uid \<in> gp_UserID ` set (sd_group_posts d) \<or>
     uid \<in> ms_UserID ` set (st_milestones (sd_core d)) \<or>
     uid \<in> sa_UserID ` {a \<in> set (sd_avatars d). sa_DeletedAt a = None}"

text \<open>
  What the handlers that write these tables keep: a removed comment or post has no author, a
  group is private (1) or public (2), and only an active handle has an owner.
\<close>

definition tables_ok :: "social_db \<Rightarrow> bool" where
  "tables_ok d \<longleftrightarrow>
     (\<forall>c \<in> set (sd_comments d). ec_RemovedAt c \<noteq> None \<longrightarrow> ec_UserID c = None) \<and>
     (\<forall>p \<in> set (sd_group_posts d). gp_RemovedAt p \<noteq> None \<longrightarrow> gp_UserID p = None) \<and>
     (\<forall>g \<in> set (sd_groups d). sg_Visibility g = 1 \<or> sg_Visibility g = 2) \<and>
     (\<forall>h \<in> set (sd_handles d). sh_UserID h \<noteq> None \<longrightarrow> sh_Status h = 0)"

text \<open>A failing database does not answer that there are no rows.\<close>

definition proper_faults :: "env \<Rightarrow> bool" where
  "proper_faults e \<longleftrightarrow> (\<forall>n err. pg_fault e n = Some err \<longrightarrow> \<not> Is_ErrNoRows err)"

lemma update_where_others:
  assumes "\<And>r. P r \<Longrightarrow> Q r \<and> Q (f r)"
  shows "filter (\<lambda>r. \<not> Q r) (update_where P f t) = filter (\<lambda>r. \<not> Q r) t"
  using assms by (induction t) (auto simp: update_where_def)

text \<open>An update that takes every row it selects out of the selection.\<close>

lemma update_where_cleared:
  assumes "\<And>r. P r \<Longrightarrow> \<not> P (f r)"
  shows "{r \<in> set (update_where P f t). P r} = {}"
  using assms by (induction t) (auto simp: update_where_def)

lemma update_where_reset:
  assumes "\<And>r. P r \<Longrightarrow> \<not> Q (f r)"
  shows "{r \<in> set (update_where P f t). P r \<and> Q r} = {}"
  using assms by (induction t) (auto simp: update_where_def)

lemma EnqueueObjectDelete_Inr:
  assumes "EnqueueObjectDelete e now i key reason d = Inr d'"
  shows "\<exists>outbox. d' = d\<lparr>sd_outbox := outbox\<rparr>"
proof (cases "\<exists>o' \<in> set (sd_outbox d). od_ObjectKey o' = key")
  case True
  with assms have "d' = d" by (simp add: EnqueueObjectDelete_def res_simps)
  then have "d' = d\<lparr>sd_outbox := sd_outbox d\<rparr>" by simp
  then show ?thesis by blast
next
  case False
  with assms show ?thesis by (auto simp: EnqueueObjectDelete_def res_simps split: if_splits)
qed

lemma erase_avatar_frame:
  assumes "erase_avatar x uid d = Inr d'"
  obtains avs outbox where "d' = d\<lparr>sd_avatars := avs, sd_outbox := outbox\<rparr>"
proof (cases "DeleteSocialAvatar (sx_env x) (sx_db x 0) uid d")
  case (Inl err)
  with assms have "d' = d" by (auto simp: erase_avatar_def split: if_splits)
  then have "d' = d\<lparr>sd_avatars := sd_avatars d, sd_outbox := sd_outbox d\<rparr>" by simp
  then show thesis by (rule that)
next
  case (Inr kd)
  obtain key d1 where kd: "kd = (key, d1)" by (cases kd)
  with Inr obtain avs where "d1 = d\<lparr>sd_avatars := avs\<rparr>" by (auto simp: DeleteSocialAvatar_def res_simps Let_def)
  moreover have "EnqueueObjectDelete (sx_env x) (sx_db x 0) (sx_id x) key ''social_erasure'' d1 = Inr d'"
    using assms Inr kd by (simp add: erase_avatar_def)
  ultimately obtain outbox where "d' = d\<lparr>sd_avatars := avs\<rparr>\<lparr>sd_outbox := outbox\<rparr>"
    using EnqueueObjectDelete_Inr by blast
  then show thesis by (rule that)
qed

lemma erase_avatar_Inr:
  assumes "erase_avatar x uid d = Inr d'" and "proper_faults (sx_env x)"
  obtains avs outbox where "d' = d\<lparr>sd_avatars := avs, sd_outbox := outbox\<rparr>"
    "uid \<notin> sa_UserID ` {a \<in> set avs. sa_DeletedAt a = None}"
    "{a \<in> set avs. sa_UserID a \<noteq> uid} = {a \<in> set (sd_avatars d). sa_UserID a \<noteq> uid}"
proof (cases "DeleteSocialAvatar (sx_env x) (sx_db x 0) uid d")
  case (Inl err)
  with assms have d': "d' = d" "Is_ErrNoRows err" by (auto simp: erase_avatar_def split: if_splits)
  then have none: "\<not> (\<exists>a \<in> set (sd_avatars d). sa_UserID a = uid \<and> sa_DeletedAt a = None)"
    using Inl assms(2)
    by (auto simp: DeleteSocialAvatar_def stmt_def proper_faults_def res_simps Let_def find_None_not split: option.splits)
  show thesis
  proof (rule that)
    show "d' = d\<lparr>sd_avatars := sd_avatars d, sd_outbox := sd_outbox d\<rparr>" by (simp add: d')
    show "uid \<notin> sa_UserID ` {a \<in> set (sd_avatars d). sa_DeletedAt a = None}" using none by blast
  qed simp
next
  case (Inr kd)
  then obtain avs where avs: "snd kd = d\<lparr>sd_avatars := avs\<rparr>"
     "avs = update_where (\<lambda>a. sa_UserID a = uid \<and> sa_DeletedAt a = None) (\<lambda>a. a\<lparr>sa_DeletedAt := Some (sx_db x 0)\<rparr>) (sd_avatars d)"
    by (auto simp: DeleteSocialAvatar_def res_simps Let_def)
  obtain key where "EnqueueObjectDelete (sx_env x) (sx_db x 0) (sx_id x) key ''social_erasure'' (snd kd) = Inr d'"
  proof -
    obtain key d1 where "kd = (key, d1)" by (cases kd)
    with assms(1) Inr have "EnqueueObjectDelete (sx_env x) (sx_db x 0) (sx_id x) key ''social_erasure'' (snd kd) = Inr d'"
      by (simp add: erase_avatar_def)
    then show thesis by (rule that)
  qed
  from EnqueueObjectDelete_Inr [OF this] obtain outbox where d': "d' = d\<lparr>sd_avatars := avs, sd_outbox := outbox\<rparr>"
    unfolding avs(1) by blast
  have "filter (\<lambda>a. sa_UserID a \<noteq> uid) avs = filter (\<lambda>a. sa_UserID a \<noteq> uid) (sd_avatars d)"
    unfolding avs(2) by (rule update_where_others) simp
  then have "set (filter (\<lambda>a. sa_UserID a \<noteq> uid) avs) = set (filter (\<lambda>a. sa_UserID a \<noteq> uid) (sd_avatars d))"
    by simp
  then have "{a \<in> set avs. sa_UserID a \<noteq> uid} = {a \<in> set (sd_avatars d). sa_UserID a \<noteq> uid}"
    unfolding set_filter .
  moreover have "uid \<notin> sa_UserID ` {a \<in> set avs. sa_DeletedAt a = None}"
  proof -
    have "{a \<in> set avs. sa_UserID a = uid \<and> sa_DeletedAt a = None} = {}"
      unfolding avs(2) by (rule update_where_cleared) simp
    then show ?thesis by blast
  qed
  ultimately show thesis using d' that by blast
qed

lemma before_groups_fields:
  "sd_groups (before_groups l now uid d) = sd_groups d" "sd_core (before_groups l now uid d) = sd_core d"
  "sd_relationships (before_groups l now uid d) = sd_relationships d" "sd_avatars (before_groups l now uid d) = sd_avatars d"
  "sd_reports (before_groups l now uid d) = sd_reports d"
  "sd_handles (before_groups l now uid d) =
     update_where (\<lambda>h. sh_UserID h = Some uid \<and> sh_Status h = 0) (tombstoned now) (sd_handles d)"
  "sd_profiles (before_groups l now uid d) = delete_where (\<lambda>p. sp_UserID p = uid) (sd_profiles d)"
  "sd_follows (before_groups l now uid d) =
     delete_where (\<lambda>f. sf_FollowerUserID f = uid \<or> sf_FolloweeUserID f = uid) (sd_follows d)"
  by (simp_all add: before_groups_def delete_lists_def Let_def)

lemma after_groups_fields:
  "sd_handles (after_groups uid d) = sd_handles d" "sd_profiles (after_groups uid d) = sd_profiles d"
  "sd_follows (after_groups uid d) = sd_follows d" "sd_avatars (after_groups uid d) = sd_avatars d"
  "sd_reviews (after_groups uid d) = sd_reviews d" "sd_shared_items (after_groups uid d) = sd_shared_items d"
  "sd_comments (after_groups uid d) = sd_comments d" "sd_lists (after_groups uid d) = sd_lists d"
  "sd_list_entries (after_groups uid d) = sd_list_entries d" "sd_list_members (after_groups uid d) = sd_list_members d"
  "sd_reports (after_groups uid d) = sd_reports d"
  "sd_relationships (after_groups uid d) = delete_where (\<lambda>r. sr_UserID r = uid \<or> sr_TargetUserID r = uid) (sd_relationships d)"
  "sd_core (after_groups uid d) =
     (sd_core d)\<lparr>st_milestones := delete_where (\<lambda>m. ms_UserID m = uid) (st_milestones (sd_core d))\<rparr>"
  "sd_groups (after_groups uid d) = delete_where (\<lambda>g. sg_OwnerUserID g = uid \<and> sg_Visibility g = 1) (sd_groups d)"
  by (simp_all add: after_groups_def delete_groups_def Let_def)

lemma after_groups_posts: "gp_UserID ` set (sd_group_posts (after_groups uid d)) \<subseteq> gp_UserID ` set (sd_group_posts d)"
  using delete_groups_posts [of "\<lambda>g. sg_OwnerUserID g = uid \<and> sg_Visibility g = 1" d]
  by (simp add: after_groups_def Let_def)

lemma before_groups_gone:
  assumes "tables_ok d"
  shows "Some uid \<notin> sh_UserID ` set (sd_handles (before_groups l now uid d))"
    "uid \<notin> sp_UserID ` set (sd_profiles (before_groups l now uid d))"
    "uid \<notin> sf_FollowerUserID ` set (sd_follows (before_groups l now uid d)) \<union> sf_FolloweeUserID ` set (sd_follows (before_groups l now uid d))"
    "uid \<notin> pr_UserID ` set (sd_reviews (before_groups l now uid d))"
    "uid \<notin> si_SenderUserID ` set (sd_shared_items (before_groups l now uid d)) \<union> si_RecipientUserID ` set (sd_shared_items (before_groups l now uid d))"
    "Some uid \<notin> ec_UserID ` set (sd_comments (before_groups l now uid d))"
    "uid \<notin> sl_OwnerUserID ` set (sd_lists (before_groups l now uid d))"
    "uid \<notin> lm_UserID ` set (sd_list_members (before_groups l now uid d))"
    "Some uid \<notin> le_AddedBy ` set (sd_list_entries (before_groups l now uid d))"
    "Some uid \<notin> gp_UserID ` set (sd_group_posts (before_groups l now uid d))"
  using assms
  by (fastforce simp: before_groups_def delete_lists_def Let_def tbl_simps tables_ok_def wipe_comment_def wipe_post_def)+

lemma social_erase_refers:
  assumes erase: "socialEraseWithQuerier x uid d = Inr d'" and ok: "tables_ok d" and faults: "proper_faults (sx_env x)"
  shows "\<not> refers uid d'"
  using erase
proof (rule social_erase_Inr)
  fix d1 d2
  assume av: "erase_avatar x uid d = Inr d1"
    and pass: "pass_groups x uid (map sg_ID (filter (\<lambda>g. sg_OwnerUserID g = uid \<and> sg_Visibility g = 2) (sd_groups d1)))
       (before_groups (sx_lib x) (sx_db x 0) uid d1) = Inr d2" and d': "d' = after_groups uid d2"
  let ?b = "before_groups (sx_lib x) (sx_db x 0) uid d1"
  from av faults obtain avs outbox where d1: "d1 = d\<lparr>sd_avatars := avs, sd_outbox := outbox\<rparr>"
    and avs: "uid \<notin> sa_UserID ` {a \<in> set avs. sa_DeletedAt a = None}"
    by (rule erase_avatar_Inr)
  have ok1: "tables_ok d1" using ok by (simp add: tables_ok_def d1)
  note p = pass_groups_Inr [OF pass]
  note o = outside_groups_fields [OF conjunct1 [OF p]]
  note gone = before_groups_gone [OF ok1, of uid "sx_lib x" "sx_db x 0"]
  have posts: "Some uid \<notin> gp_UserID ` set (sd_group_posts d')"
    using gone(10) p after_groups_posts [of uid d2] unfolding d' by blast
  have groups: "uid \<notin> sg_OwnerUserID ` set (sd_groups d')"
  proof
    assume "uid \<in> sg_OwnerUserID ` set (sd_groups d')"
    then obtain g where g: "g \<in> set (sd_groups d')" "sg_OwnerUserID g = uid" by blast
    then have "g \<in> owned_by uid d2" and vis: "sg_Visibility g \<noteq> 1"
      by (auto simp: d' after_groups_fields tbl_simps owned_by_def)
    then have "g \<in> set (sd_groups d1)" "sg_ID g \<notin> sg_ID ` {g \<in> set (sd_groups d1). sg_OwnerUserID g = uid \<and> sg_Visibility g = 2}"
      using p by (auto simp: owned_by_def before_groups_fields)
    moreover from this(1) vis ok1 have "sg_Visibility g = 2" by (auto simp: tables_ok_def)
    ultimately show False using g(2) by blast
  qed
  have members: "uid \<notin> gm_UserID ` set (sd_group_members d')" "Some uid \<notin> gm_InvitedBy ` set (sd_group_members d')"
    by (auto simp: d' after_groups_def Let_def tbl_simps)
  have mile: "uid \<notin> ms_UserID ` set (st_milestones (sd_core d'))"
    and rel: "uid \<notin> sr_UserID ` set (sd_relationships d') \<union> sr_TargetUserID ` set (sd_relationships d')"
    by (auto simp: d' after_groups_fields tbl_simps)
  have av': "uid \<notin> sa_UserID ` {a \<in> set (sd_avatars d'). sa_DeletedAt a = None}"
    using avs by (simp add: d' after_groups_fields o before_groups_fields d1)
  show ?thesis
    unfolding refers_def
    using gone(1-9) posts groups members mile rel av' by (simp add: d' after_groups_fields(1-11) o)
qed

lemma social_erase_kept:
  assumes "socialEraseWithQuerier x uid d = Inr d'"
  shows "map sh_Handle (sd_handles d') = map sh_Handle (sd_handles d)"
    "sd_profiles d' = delete_where (\<lambda>p. sp_UserID p = uid) (sd_profiles d)"
    "sd_core d' = (sd_core d)\<lparr>st_milestones := delete_where (\<lambda>m. ms_UserID m = uid) (st_milestones (sd_core d))\<rparr>"
    "sd_handles d' = update_where (\<lambda>h. sh_UserID h = Some uid \<and> sh_Status h = 0) (tombstoned (sx_db x 0)) (sd_handles d)"
    "sd_follows d' = delete_where (\<lambda>f. sf_FollowerUserID f = uid \<or> sf_FolloweeUserID f = uid) (sd_follows d)"
    "sd_relationships d' = delete_where (\<lambda>r. sr_UserID r = uid \<or> sr_TargetUserID r = uid) (sd_relationships d)"
    "sd_reports d' = sd_reports d"
proof -
  from assms obtain d1 d2 where av: "erase_avatar x uid d = Inr d1"
    and pass: "pass_groups x uid (map sg_ID (filter (\<lambda>g. sg_OwnerUserID g = uid \<and> sg_Visibility g = 2) (sd_groups d1)))
       (before_groups (sx_lib x) (sx_db x 0) uid d1) = Inr d2" and d': "d' = after_groups uid d2"
    by (rule social_erase_Inr)
  from av obtain avs outbox where d1: "d1 = d\<lparr>sd_avatars := avs, sd_outbox := outbox\<rparr>"
    by (rule erase_avatar_frame)
  note o = outside_groups_fields [OF conjunct1 [OF pass_groups_Inr [OF pass]]]
  show h: "sd_handles d' = update_where (\<lambda>h. sh_UserID h = Some uid \<and> sh_Status h = 0) (tombstoned (sx_db x 0)) (sd_handles d)"
    by (simp add: d' after_groups_fields(1) o before_groups_fields d1)
  show "map sh_Handle (sd_handles d') = map sh_Handle (sd_handles d)"
    by (simp add: h update_where_def)
  show "sd_profiles d' = delete_where (\<lambda>p. sp_UserID p = uid) (sd_profiles d)"
    "sd_core d' = (sd_core d)\<lparr>st_milestones := delete_where (\<lambda>m. ms_UserID m = uid) (st_milestones (sd_core d))\<rparr>"
    "sd_follows d' = delete_where (\<lambda>f. sf_FollowerUserID f = uid \<or> sf_FolloweeUserID f = uid) (sd_follows d)"
    "sd_relationships d' = delete_where (\<lambda>r. sr_UserID r = uid \<or> sr_TargetUserID r = uid) (sd_relationships d)"
    "sd_reports d' = sd_reports d"
    by (simp_all add: d' after_groups_fields(2,3,11,12,13) o before_groups_fields d1)
qed

lemma refers_core:
  "st_milestones (sd_core d') = st_milestones (sd_core d) \<Longrightarrow> d' = d\<lparr>sd_core := sd_core d'\<rparr> \<Longrightarrow> refers uid d' = refers uid d"
  by (cases d; cases d') (simp add: refers_def)

text \<open>The tables of the sync service and of the accounts after the deletion of an account.\<close>

definition removed_user :: "instant \<Rightarrow> User \<Rightarrow> User" where
  "removed_user now u = u\<lparr>u_DeletedAt := Some now, u_UpdatedAt := now\<rparr>"

definition without_account :: "instant \<Rightarrow> int \<Rightarrow> store \<Rightarrow> store" where
  "without_account now uid st =
     st\<lparr>st_milestones := delete_where (\<lambda>m. ms_UserID m = uid) (st_milestones st),
        st_devices := update_where (\<lambda>v. dv_UserID v = uid) (\<lambda>v. v\<lparr>dv_PushToken := '''', dv_PushOn := False\<rparr>) (st_devices st),
        st_users := update_where (live_user uid) (removed_user now) (st_users st),
        st_refresh_tokens := update_where (\<lambda>t. rt_UserID t = uid \<and> live t) (\<lambda>t. t\<lparr>rt_RevokedAt := Some now\<rparr>) (st_refresh_tokens st)\<rparr>"

lemma delete_account_core:
  assumes "delete_account_tx x uid d = Inr (u, d')"
  shows "sd_core d' = without_account (sx_db x 0) uid (sd_core d)"
    "\<exists>st d2 st'. socialEraseWithQuerier x uid (d\<lparr>sd_core := st\<rparr>) = Inr d2 \<and> d' = d2\<lparr>sd_core := st'\<rparr> \<and>
       st_milestones st' = st_milestones (sd_core d2)"
proof -
  define st1 where "st1 = (sd_core d)\<lparr>st_devices := update_where (\<lambda>v. dv_UserID v = uid) (\<lambda>v. v\<lparr>dv_PushToken := '''', dv_PushOn := False\<rparr>) (st_devices (sd_core d))\<rparr>"
  from assms obtain d2 st3 where er: "socialEraseWithQuerier x uid (d\<lparr>sd_core := st1\<rparr>) = Inr d2"
    and st3: "st3 = snd (update_user uid (removed_user (sx_db x 0)) (sd_core d2))"
    and d': "d' = d2\<lparr>sd_core := revoke_where (sx_db x 0) (\<lambda>t. rt_UserID t = uid) st3\<rparr>"
    by (auto simp: delete_account_tx_def on_core_def res_simps ClearPushStateForUser_def SoftDeleteUser_def
        RevokeAllRefreshTokens_def st1_def update_user_def removed_user_def [abs_def])
  show "sd_core d' = without_account (sx_db x 0) uid (sd_core d)"
    using social_erase_kept(3) [OF er]
    by (simp add: d' st3 update_user_def revoke_where_def without_account_def st1_def)
  show "\<exists>st d2 st'. socialEraseWithQuerier x uid (d\<lparr>sd_core := st\<rparr>) = Inr d2 \<and> d' = d2\<lparr>sd_core := st'\<rparr> \<and>
      st_milestones st' = st_milestones (sd_core d2)"
    using er by (intro exI [of _ st1] exI [of _ d2] exI [of _ "revoke_where (sx_db x 0) (\<lambda>t. rt_UserID t = uid) st3"])
      (simp add: d' st3 update_user_def revoke_where_def)
qed

lemma delete_account_Inr:
  assumes tx: "delete_account_tx x uid d = Inr (u, d')" and ok: "tables_ok d" and faults: "proper_faults (sx_env x)"
  shows "\<not> refers uid d'" "map sh_Handle (sd_handles d') = map sh_Handle (sd_handles d)"
    "{p \<in> set (sd_profiles d'). sp_UserID p \<noteq> uid} = {p \<in> set (sd_profiles d). sp_UserID p \<noteq> uid}"
    "sd_reports d' = sd_reports d"
proof -
  from delete_account_core(2) [OF tx] obtain st d2 st' where er: "socialEraseWithQuerier x uid (d\<lparr>sd_core := st\<rparr>) = Inr d2"
    and d': "d' = d2\<lparr>sd_core := st'\<rparr>" "st_milestones st' = st_milestones (sd_core d2)" by blast
  have "refers uid d' = refers uid d2" by (rule refers_core) (simp_all add: d')
  moreover have "tables_ok (d\<lparr>sd_core := st\<rparr>)" using ok by (simp add: tables_ok_def)
  ultimately show "\<not> refers uid d'" using social_erase_refers [OF er _ faults] by simp
  show "map sh_Handle (sd_handles d') = map sh_Handle (sd_handles d)"
    "{p \<in> set (sd_profiles d'). sp_UserID p \<noteq> uid} = {p \<in> set (sd_profiles d). sp_UserID p \<noteq> uid}"
    "sd_reports d' = sd_reports d"
    using social_erase_kept(1,2,7) [OF er] by (simp_all add: d' tbl_simps)
qed

lemma without_account_gone:
  "{r \<in> set (st_users (without_account now uid st)). live_user uid r} = {}"
  "{t \<in> set (st_refresh_tokens (without_account now uid st)). rt_UserID t = uid \<and> live t} = {}"
  "{v \<in> set (st_devices (without_account now uid st)). dv_UserID v = uid \<and> (dv_PushOn v \<or> dv_PushToken v \<noteq> '''')} = {}"
proof -
  have tables: "st_users (without_account now uid st) = update_where (live_user uid) (removed_user now) (st_users st)"
    "st_refresh_tokens (without_account now uid st) =
       update_where (\<lambda>t. rt_UserID t = uid \<and> live t) (\<lambda>t. t\<lparr>rt_RevokedAt := Some now\<rparr>) (st_refresh_tokens st)"
    "st_devices (without_account now uid st) =
       update_where (\<lambda>v. dv_UserID v = uid) (\<lambda>v. v\<lparr>dv_PushToken := '''', dv_PushOn := False\<rparr>) (st_devices st)"
    by (simp_all add: without_account_def)
  show "{r \<in> set (st_users (without_account now uid st)). live_user uid r} = {}"
    unfolding tables by (rule update_where_cleared) (simp add: live_user_def removed_user_def)
  show "{t \<in> set (st_refresh_tokens (without_account now uid st)). rt_UserID t = uid \<and> live t} = {}"
    unfolding tables by (rule update_where_cleared) simp
  show "{v \<in> set (st_devices (without_account now uid st)). dv_UserID v = uid \<and> (dv_PushOn v \<or> dv_PushToken v \<noteq> '''')} = {}"
    unfolding tables by (rule update_where_reset) simp
qed

text \<open>
  C20.  Deletion is atomic and thorough.  A deletion of an account either fails and changes nothing,
  or succeeds, and then no profile, handle, block or mute, follow, review, share, comment, list, list
  entry, list seat, group, membership, invitation, group post, milestone or visible avatar refers to
  the account.  The user is marked as deleted, the refresh tokens of the user are revoked and the
  devices of the user lose their push tokens; apart from these and the milestones the tables of
  accounts and sync rows are as before (\<open>without_account\<close>).  By design the rows of the sync service,
  the moderation reports and the marked row of a deleted avatar stay.  Profiles of other users are
  untouched, and every handle that ever existed stays in the table, so nobody can take it.
\<close>

theorem account_deletion_erases:
  assumes "tables_ok d" and "proper_faults (sx_env x)"
    and "social_user x d = (Inr user :: UserChangeResponse reply + User)"
  shows "\<exists>rep d'. PostDeleteAccount x (Some ()) d = (rep, d') \<and>
           (if rep = Proto 200 changeSuccess then
              \<not> refers (u_ID user) d' \<and> map sh_Handle (sd_handles d') = map sh_Handle (sd_handles d) \<and>
              {p \<in> set (sd_profiles d'). sp_UserID p \<noteq> u_ID user} = {p \<in> set (sd_profiles d). sp_UserID p \<noteq> u_ID user} \<and>
              sd_core d' = without_account (sx_db x 0) (u_ID user) (sd_core d) \<and> sd_reports d' = sd_reports d \<and>
              {r \<in> set (st_users (sd_core d')). live_user (u_ID user) r} = {} \<and>
              {t \<in> set (st_refresh_tokens (sd_core d')). rt_UserID t = u_ID user \<and> live t} = {} \<and>
              {v \<in> set (st_devices (sd_core d')). dv_UserID v = u_ID user \<and> (dv_PushOn v \<or> dv_PushToken v \<noteq> '''')} = {}
            else d' = d \<and> (\<exists>err. rep = write_error x err))"
proof -
  obtain r d' where tx: "InTx (sx_env x) (delete_account_tx x (u_ID user)) d = (r, d')" by fastforce
  show ?thesis
  proof (cases r)
    case (Inl err)
    with tx have "d' = d" by (auto dest: InTx_Inl)
    with Inl tx assms(3) show ?thesis by (auto simp: PostDeleteAccount_def write_error_def)
  next
    case (Inr u)
    with tx have "delete_account_tx x (u_ID user) d = Inr (u, d')" by (simp add: InTx_Inr)
    note del = delete_account_Inr [OF this assms(1,2)] delete_account_core(1) [OF this]
    have "PostDeleteAccount x (Some ()) d = (Proto 200 changeSuccess, d')"
      using Inr tx assms(3) by (simp add: PostDeleteAccount_def)
    then show ?thesis using del without_account_gone [of "sx_db x 0" "u_ID user" "sd_core d"]
      by (intro exI [of _ "Proto 200 changeSuccess"] exI [of _ d']) simp
  qed
qed

end
