(* ===== verification/Account_Theorems.thy ===== *)
theory Account_Theorems
  imports Account_Sessions Social_Erasure
begin

section \<open>Correctness of the account endpoints\<close>

text \<open>
  The handlers of \<^verbatim>\<open>src/handlers/account.go\<close> run one after the other on the database
  (\<open>account_step\<close>).  The lemmas give the effect of every handler on the users and on the
  refresh tokens; the theorems state the invariant, the refinement of the session machine,
  the rotation of refresh tokens, the end of a session whose token was stolen, and the
  password changes.
\<close>

subsection \<open>Statements\<close>

lemma CreateRefreshToken_Inr:
  assumes "CreateRefreshToken e now i p st = Inr (row, st')"
  obtains f where "pg_uuid e (crt_FamilyID p) = Some f"
    "row = \<lparr>rt_ID = i, rt_UserID = crt_UserID p, rt_TokenHash = crt_TokenHash p, rt_Scope = crt_Scope p,
            rt_CreatedAt = now, rt_ExpiresAt = pg_time e (crt_ExpiresAt p), rt_RevokedAt = None,
            rt_FamilyID = f, rt_DeviceID = crt_DeviceID p, rt_RotatedFromID = crt_RotatedFromID p,
            rt_LastUsedAt = None\<rparr>"
    "crt_TokenHash p \<notin> rt_TokenHash ` set (st_refresh_tokens st)"
    "st' = st\<lparr>st_refresh_tokens := st_refresh_tokens st @ [row]\<rparr>"
  using assms by (auto simp: CreateRefreshToken_def res_simps Let_def image_iff split: if_splits) metis

lemma issueRefreshToken_Inr:
  assumes "issueRefreshToken e l cfg rq now dbnow uid scope device fam from st = Inr (token, st')"
  obtains row where "st' = st\<lparr>st_refresh_tokens := st_refresh_tokens st @ [row]\<rparr>" "live row"
    "pg_uuid e fam = Some (rt_FamilyID row)" "binding row = (uid, device, scope)"
    "rt_TokenHash row = HashRefreshToken l token" "rt_TokenHash row \<notin> rt_TokenHash ` set (st_refresh_tokens st)"
    "rt_ExpiresAt row = pg_time e (now + ac_RefreshTokenTTL cfg)"
proof -
  from assms obtain hash p row where "CreateRefreshToken e dbnow (rq_token_id rq) p st = Inr (row, st')"
    and p: "crt_FamilyID p = fam" "crt_UserID p = uid" "crt_DeviceID p = device" "crt_Scope p = scope"
      "crt_TokenHash p = hash" "crt_ExpiresAt p = now + ac_RefreshTokenTTL cfg"
    and hash: "hash = HashRefreshToken l token"
    by (fastforce simp: issueRefreshToken_def res_simps NewRefreshToken_def Let_def split: sum.splits)
  from this(1) obtain f where "pg_uuid e (crt_FamilyID p) = Some f"
    "row = \<lparr>rt_ID = rq_token_id rq, rt_UserID = crt_UserID p, rt_TokenHash = crt_TokenHash p, rt_Scope = crt_Scope p,
            rt_CreatedAt = dbnow, rt_ExpiresAt = pg_time e (crt_ExpiresAt p), rt_RevokedAt = None,
            rt_FamilyID = f, rt_DeviceID = crt_DeviceID p, rt_RotatedFromID = crt_RotatedFromID p,
            rt_LastUsedAt = None\<rparr>"
    "crt_TokenHash p \<notin> rt_TokenHash ` set (st_refresh_tokens st)"
    "st' = st\<lparr>st_refresh_tokens := st_refresh_tokens st @ [row]\<rparr>"
    by (rule CreateRefreshToken_Inr)
  then show thesis using p hash by (intro that [of row]) (simp_all add: binding_def)
qed

subsection \<open>The effect of the handlers\<close>

text \<open>\<open>change\<close>: what a handler does to users, tokens and codes.\<close>

definition change :: "(string \<Rightarrow> string option) \<Rightarrow> auth_lib \<Rightarrow> store \<Rightarrow> store \<Rightarrow> bool" where
  "change cu l st st' \<longleftrightarrow>
     token_change cu (st_refresh_tokens st) (st_refresh_tokens st') \<and> user_change l (st_users st) (st_users st') \<and>
     code_change (st_reset_codes st) (st_reset_codes st')"

lemmas kept = token_change.keep user_change.keep_users code_change.keep_codes

lemma change_refl [simp, intro]: "change cu l st st"
  by (simp add: change_def kept)

lemma change_end_family: "change cu l st (revoke_where now (\<lambda>t. rt_FamilyID t = f) st)"
  by (simp add: change_def revoke_where_def token_change.end_family kept)

lemma InTx_change:
  assumes "InTx e fn st = (r, st')" and "\<And>x st'. fn st = Inr (x, st') \<Longrightarrow> change cu l st st'"
  shows "change cu l st st'"
  using assms by (auto simp: InTx_def split: option.splits sum.splits)

text \<open>A uuid that is new to the table of tokens.\<close>

definition new_family :: "(string \<Rightarrow> string option) \<Rightarrow> string \<Rightarrow> store \<Rightarrow> bool" where
  "new_family cu s st \<longleftrightarrow> (\<forall>f. cu s = Some f \<longrightarrow> cu f = Some f \<and> f \<notin> rt_FamilyID ` set (st_refresh_tokens st))"

lemma issue_change:
  assumes "issueRefreshToken e l cfg rq now dbnow uid scope device fam from st = Inr (token, st')"
    and "new_family (pg_uuid e) fam st"
  shows "token_change (pg_uuid e) (st_refresh_tokens st) (st_refresh_tokens st') \<and> st_users st' = st_users st \<and>
    st_reset_codes st' = st_reset_codes st"
  using assms(1)
proof (rule issueRefreshToken_Inr)
  fix row
  assume r: "st' = st\<lparr>st_refresh_tokens := st_refresh_tokens st @ [row]\<rparr>" "live row"
    "pg_uuid e fam = Some (rt_FamilyID row)" "rt_TokenHash row \<notin> rt_TokenHash ` set (st_refresh_tokens st)"
  with assms(2) have "pg_uuid e (rt_FamilyID row) = Some (rt_FamilyID row)"
    "rt_FamilyID row \<notin> rt_FamilyID ` set (st_refresh_tokens st)"
    by (simp_all add: new_family_def)
  with r show ?thesis by (simp add: token_change.issue)
qed

lemma login_change:
  assumes "login_work e ext_text l cfg rq req st = (rep, st')" and "new_family (pg_uuid e) (rq_uuid rq 0) st"
  shows "change (pg_uuid e) l st st'"
  using assms(1) issue_change [OF _ assms(2)]
  by (auto simp: login_work_def Let_def change_def kept split: if_splits sum.splits)

lemma register_change:
  assumes "register_work e ext_text l cfg rq req st = (rep, st')" and "new_family (pg_uuid e) (rq_uuid rq 1) st"
  shows "change (pg_uuid e) l st st'"
proof -
  have "change (pg_uuid e) l st st1" if tx: "register_tx e l cfg rq req hash st = Inr (x, st1)" for hash x st1
  proof -
    from tx obtain user st0 token where
      user: "CreateUser e l (rq_db rq 0) (rq_user_id rq) (rq_uuid rq 0) (rgr_Email req) hash (scopeOrMobile (rgr_Scope req)) st = Inr (user, st0)"
      and token: "issueRefreshToken e l cfg rq (rq_now rq 2) (rq_db rq 0) (u_ID user) (scopeOrMobile (rgr_Scope req)) (rgr_Device req) (rq_uuid rq 1) None st0 = Inr (token, st1)"
      by (fastforce simp: register_tx_def res_simps Let_def)
    from user have st0: "st0 = st\<lparr>st_users := st_users st @ [user]\<rparr>" "u_ID user \<notin> u_ID ` set (st_users st)"
      "u_Uuid user \<notin> u_Uuid ` set (st_users st)" "\<not> email_taken l (u_Email user) (st_users st)"
      by (auto simp: CreateUser_def res_simps Let_def image_iff split: if_splits)
    then have "new_family (pg_uuid e) (rq_uuid rq 1) st0" using assms(2) by (simp add: new_family_def)
    from issue_change [OF token this] st0 show ?thesis by (simp add: change_def user_change.create kept)
  qed
  then have "change (pg_uuid e) l st st1" if "InTx e (register_tx e l cfg rq req hash) st = (r, st1)" for hash r st1
    using that by (rule InTx_change [rotated])
  then show ?thesis
    using assms(1) by (auto simp: register_work_def split: if_splits sum.splits prod.splits)
qed

text \<open>A live token found under the transaction's row lock is revoked exactly once.\<close>

lemma rotate_Inr:
  assumes ok: "tokens_ok (pg_uuid e) (st_refresh_tokens st)" and old: "old \<in> set (st_refresh_tokens st)" "live old"
    and rot: "rotateRefreshToken e l cfg rq old uid st = (Inr token, st')"
  obtains row where
    "st_refresh_tokens st' =
       revoke_rows (rq_db rq 0) (\<lambda>t. rt_TokenHash t = rt_TokenHash old) (st_refresh_tokens st) @ [row]"
    "st_users st' = st_users st" "live row" "rt_FamilyID row = rt_FamilyID old"
    "binding row = (uid, rt_DeviceID old, rt_Scope old)"
    "rt_TokenHash row = HashRefreshToken l token" "rt_TokenHash row \<notin> rt_TokenHash ` set (st_refresh_tokens st)"
    "rt_ExpiresAt row = pg_time e (rq_now rq 4 + ac_RefreshTokenTTL cfg)" "st_reset_codes st' = st_reset_codes st"
proof -
  let ?st1 = "revoke_where (rq_db rq 0) (\<lambda>t. rt_TokenHash t = rt_TokenHash old) st"
  from rot have "issueRefreshToken e l cfg rq (rq_now rq 4) (rq_db rq 0) uid (rt_Scope old) (rt_DeviceID old)
      (rt_FamilyID old) (Some (rt_ID old)) ?st1 = Inr (token, st')"
    by (auto simp: rotateRefreshToken_def RevokeRefreshToken_def stmt_def split: sum.splits option.splits if_splits)
  then show thesis
  proof (rule issueRefreshToken_Inr)
    fix row
    assume r: "st' = ?st1\<lparr>st_refresh_tokens := st_refresh_tokens ?st1 @ [row]\<rparr>" "live row"
      "pg_uuid e (rt_FamilyID old) = Some (rt_FamilyID row)" "binding row = (uid, rt_DeviceID old, rt_Scope old)"
      "rt_TokenHash row = HashRefreshToken l token" "rt_TokenHash row \<notin> rt_TokenHash ` set (st_refresh_tokens ?st1)"
      "rt_ExpiresAt row = pg_time e (rq_now rq 4 + ac_RefreshTokenTTL cfg)"
    show thesis
    proof (rule that)
      show "rt_FamilyID row = rt_FamilyID old"
        using r(3) tokens_ok_canonical [OF ok old(1)] by simp
      show "rt_TokenHash row \<notin> rt_TokenHash ` set (st_refresh_tokens st)"
        using r(6) by (simp add: revoke_where_def hashes_revoke_rows)
    qed (use r in \<open>simp_all add: revoke_where_def\<close>)
  qed
qed

lemma one_live_row:
  assumes "keyed rt_TokenHash ts" and "old \<in> set ts" and "live old"
  shows "length (filter (\<lambda>t. rt_TokenHash t = rt_TokenHash old \<and> live t) ts) = 1"
proof -
  have "set (filter (\<lambda>t. rt_TokenHash t = rt_TokenHash old \<and> live t) ts) = {old}"
    using assms keyed_inj [OF assms(1)] by auto
  moreover have "distinct (filter (\<lambda>t. rt_TokenHash t = rt_TokenHash old \<and> live t) ts)"
    using assms(1) by (simp add: keyed_def distinct_map)
  ultimately show ?thesis using distinct_card by fastforce
qed

lemma rotate_Inl:
  assumes "tokens_ok (pg_uuid e) (st_refresh_tokens st)" and "old \<in> set (st_refresh_tokens st)" "live old"
    and "rotateRefreshToken e l cfg rq old uid st = (Inl err, st')" and "pg_fault e ''RevokeRefreshToken'' = None"
  shows "issueRefreshToken e l cfg rq (rq_now rq 4) (rq_db rq 0) uid (rt_Scope old) (rt_DeviceID old)
      (rt_FamilyID old) (Some (rt_ID old)) (revoke_where (rq_db rq 0) (\<lambda>t. rt_TokenHash t = rt_TokenHash old) st) = Inl err"
  using assms(4,5) one_live_row [OF tokens_ok_keyed [OF assms(1)] assms(2,3)]
  by (auto simp: rotateRefreshToken_def RevokeRefreshToken_def stmt_def split: sum.splits)

lemma revoke_hash_family:
  assumes ok: "tokens_ok cu ts" and old: "old \<in> set ts" "live old"
  shows "revoke_rows now (\<lambda>t. rt_TokenHash t = rt_TokenHash old) ts = revoke_rows now (\<lambda>t. rt_FamilyID t = rt_FamilyID old) ts"
proof -
  have "rt_TokenHash t = rt_TokenHash old \<and> live t \<longleftrightarrow> rt_FamilyID t = rt_FamilyID old \<and> live t" if "t \<in> set ts" for t
    using keyed_inj [OF tokens_ok_keyed [OF ok] that old(1)] tokens_ok_same(2) [OF ok that old(1)] old(2) by auto
  then show ?thesis by (simp add: update_where_def)
qed

lemma GetRefreshTokenByHash_Inr:
  "GetRefreshTokenByHash e hash st = Inr t \<Longrightarrow> t \<in> set (st_refresh_tokens st) \<and> rt_TokenHash t = hash"
  by (auto simp: GetRefreshTokenByHash_def res_simps dest: find_Some_mem)

lemma rotate_change:
  assumes ok: "tokens_ok (pg_uuid e) (st_refresh_tokens st)" and old: "old \<in> set (st_refresh_tokens st)" "live old"
    and rot: "rotateRefreshToken e l cfg rq old (rt_UserID old) st = (r, st')"
  shows "change (pg_uuid e) l st st'"
proof (cases r)
  case (Inr token)
  with rot have "rotateRefreshToken e l cfg rq old (rt_UserID old) st = (Inr token, st')" by simp
  from ok old this show ?thesis
  proof (rule rotate_Inr)
    fix row
    assume "st_refresh_tokens st' =
        revoke_rows (rq_db rq 0) (\<lambda>t. rt_TokenHash t = rt_TokenHash old) (st_refresh_tokens st) @ [row]"
      "st_users st' = st_users st" "live row" "rt_FamilyID row = rt_FamilyID old"
      "binding row = (rt_UserID old, rt_DeviceID old, rt_Scope old)"
      "rt_TokenHash row \<notin> rt_TokenHash ` set (st_refresh_tokens st)" "st_reset_codes st' = st_reset_codes st"
    then show ?thesis
      using old by (simp add: change_def kept token_change.rotate binding_def)
  qed
next
  case (Inl err)
  have "st' = st \<or> st' = revoke_where (rq_db rq 0) (\<lambda>t. rt_TokenHash t = rt_TokenHash old) st"
    using rot Inl one_live_row [OF tokens_ok_keyed [OF ok] old]
    by (auto simp: rotateRefreshToken_def RevokeRefreshToken_def stmt_def split: option.splits sum.splits)
  moreover have "revoke_where (rq_db rq 0) (\<lambda>t. rt_TokenHash t = rt_TokenHash old) st =
      revoke_where (rq_db rq 0) (\<lambda>t. rt_FamilyID t = rt_FamilyID old) st"
    using revoke_hash_family [OF ok old] by (simp add: revoke_where_def)
  ultimately show ?thesis using change_end_family by auto
qed

lemma family_change:
  "RevokeRefreshTokenFamily e now f st = Inr (n, st') \<Longrightarrow> change cu l st st'"
  by (auto simp: RevokeRefreshTokenFamily_def res_simps change_end_family)

lemma token_tx_change:
  assumes ok: "tokens_ok (pg_uuid e) (st_refresh_tokens st)" and tx: "token_tx e l cfg rq req st = Inr (x, st')"
  shows "change (pg_uuid e) l st st'"
proof -
  from tx obtain t where t: "GetRefreshTokenByHash e (HashRefreshToken l (utr_RefreshToken req)) st = Inr t"
    by (auto simp: token_tx_def res_simps)
  note mem = GetRefreshTokenByHash_Inr [OF t]
  have rot: "change (pg_uuid e) l st st1"
    if "live t" "GetUserByID e (rt_UserID t) st = Inr user" "rotateRefreshToken e l cfg rq t (u_ID user) st = (r, st1)" for user r st1
  proof -
    from that(2) have "u_ID user = rt_UserID t"
      by (auto simp: GetUserByID_def res_simps dest: find_Some_mem)
    with that(1,3) mem show ?thesis using rotate_change [OF ok] by metis
  qed
  consider "\<not> live t \<or> \<not> rq_now rq 2 > rt_ExpiresAt t \<and> rt_DeviceID t \<noteq> utr_Device req"
    | "live t" "rq_now rq 2 > rt_ExpiresAt t"
    | "live t" "\<not> rq_now rq 2 > rt_ExpiresAt t" "rt_DeviceID t = utr_Device req" by blast
  then show ?thesis
  proof cases
    case 1
    with tx t obtain n where "RevokeRefreshTokenFamily e (rq_db rq 0) (rt_FamilyID t) st = Inr (n, st')"
      by (cases "live t") (auto simp: token_tx_def res_simps)
    then show ?thesis by (rule family_change)
  next
    case 2
    with tx t show ?thesis by (simp add: token_tx_def)
  next
    case 3
    with tx t obtain user access where user: "GetUserByID e (rt_UserID t) st = Inr user"
      "MintAccessToken l cfg (rq_now rq 3) (u_Uuid user) (u_Email user) (rt_Scope t) = Inr access"
      by (auto simp: token_tx_def rbind_Inr_iff)
    obtain r st1 where r: "rotateRefreshToken e l cfg rq t (u_ID user) st = (r, st1)" by fastforce
    have "st' = st1"
      using tx t 3 user r by (auto simp: token_tx_def split: sum.splits if_splits prod.splits)
    with rot [OF 3(1) user(1) r] show ?thesis by simp
  qed
qed

lemma token_change_work:
  assumes "tokens_ok (pg_uuid e) (st_refresh_tokens st)" and "token_work e ext_text l cfg rq req st = (rep, st')"
  shows "change (pg_uuid e) l st st'"
proof -
  have "change (pg_uuid e) l st st1" if "InTx e (token_tx e l cfg rq req) st = (r, st1)" for r st1
    using that token_tx_change [OF assms(1)] by (rule InTx_change)
  then show ?thesis
    using assms(2) by (auto simp: token_work_def split: if_splits sum.splits option.splits prod.splits)
qed

lemma revoke_change:
  assumes "revoke_tx e l rq token st = Inr (x, st')"
  shows "change cu l st st'"
  using assms by (auto simp: revoke_tx_def res_simps split: sum.splits if_splits dest: family_change)

lemma password_change:
  assumes "UpdateUserPassword e now uid hash st = Inr (n, st1)"
  shows "change cu l st st1" and "RevokeAllRefreshTokens e now' uid' st1 = Inr (m, st2) \<Longrightarrow> change cu l st st2"
    and "st_reset_codes st1 = st_reset_codes st"
  using assms
  by (auto simp: UpdateUserPassword_def RevokeAllRefreshTokens_def res_simps update_user_def revoke_where_def change_def
      intro: token_change.intros user_change.intros code_change.intros)

lemma reset_change:
  assumes "reset_tx e l rq req hash st = Inr (x, st')"
  shows "change cu l st st'"
proof -
  from assms obtain st0 uid n st1 m where
    c: "ConsumePasswordResetCode e (rq_db rq 0) (HashRefreshToken l (urp_ResetPasswordToken req)) st = Inr (uid, st0)"
    and p: "UpdateUserPassword e (rq_db rq 0) uid hash st0 = Inr (n, st1)"
    and r: "RevokeAllRefreshTokens e (rq_db rq 0) uid st1 = Inr (m, st')"
    by (auto simp: reset_tx_def res_simps split: if_splits)
  from c have "st_users st0 = st_users st" "st_refresh_tokens st0 = st_refresh_tokens st"
    and "code_change (st_reset_codes st) (st_reset_codes st0)"
    by (auto simp: ConsumePasswordResetCode_def res_simps code_change.consume)
  moreover have "st_reset_codes st' = st_reset_codes st0"
    using r password_change(3) [OF p] by (auto simp: RevokeAllRefreshTokens_def res_simps frame_simps)
  ultimately show ?thesis using password_change(2) [OF p r] by (simp add: change_def)
qed

lemma admin_change: "change cu l st (snd (PostAdminPasswordReset e ext_text l rq i raw refused email st))"
  by (auto simp: PostAdminPasswordReset_def CreatePasswordResetCode_def Let_def res_simps change_def kept image_iff
      intro!: code_change.issue_code split: option.split sum.split prod.split if_splits)

lemma delete_change: "change cu l (sd_core d) (sd_core (snd (PostDeleteAccount x req d)))"
proof -
  have "change cu l (sd_core d) (sd_core d1)" if "delete_account_tx x uid d = Inr (u, d1)" for uid u d1
    unfolding delete_account_core(1) [OF that]
    by (simp add: without_account_def removed_user_def [abs_def] change_def token_change.end_user user_change.remove kept)
  then have "change cu l (sd_core d) (sd_core d1)" if "InTx (sx_env x) (delete_account_tx x uid) d = (r, d1)" for uid r d1
    using that by (cases r) (auto simp: InTx_Inr dest: InTx_Inl)
  then show ?thesis
    by (auto simp: PostDeleteAccount_def split: option.split sum.split prod.split)
qed

subsection \<open>Runs\<close>

text \<open>
  The requests of a run, the deletion of an account and the administrator's issue of a reset code
  among them.  They share the canonical form \<open>cu\<close> of the uuid type and the
  libraries \<open>l\<close>; the faults of the database, the clocks and the random values are each
  request's own.  \<^verbatim>\<open>uuid.NewString\<close> gives a login a family that no earlier token has.  The deletion
  works on all tables; those outside the accounts are any.
\<close>

inductive account_step :: "(string \<Rightarrow> string option) \<Rightarrow> auth_lib \<Rightarrow> account_state \<Rightarrow> account_state \<Rightarrow> bool"
  for cu :: "string \<Rightarrow> string option" and l :: auth_lib where
  login: "account_step cu l s (snd (PostUserLogin e ext_text l cfg rq req s))"
    if "pg_uuid e = cu" "new_family cu (rq_uuid rq 0) (as_store s)"
| register: "account_step cu l s (snd (PostUserRegister e ext_text l cfg rq req s))"
    if "pg_uuid e = cu" "new_family cu (rq_uuid rq 1) (as_store s)"
| token: "account_step cu l s (snd (PostUserToken e ext_text l cfg rq req s))"
    if "pg_uuid e = cu"
| revoke: "account_step cu l s (snd (PostUserTokenRevoke e ext_text l rq req s))"
    if "pg_uuid e = cu"
| reset: "account_step cu l s (snd (PostResetPassword e ext_text l rq req s))"
    if "pg_uuid e = cu"
| change_email: "account_step cu l s (s\<lparr>as_store := snd (PostChangeEmail e ext_text l rq user req (as_store s))\<rparr>)"
    if "pg_uuid e = cu"
| change_password: "account_step cu l s (s\<lparr>as_store := snd (PostChangePassword e ext_text l rq user req (as_store s))\<rparr>)"
    if "pg_uuid e = cu"
| delete_account: "account_step cu l s (s\<lparr>as_store := sd_core (snd (PostDeleteAccount x req d))\<rparr>)"
    if "pg_uuid (sx_env x) = cu" "sd_core d = as_store s"
| issue_reset: "account_step cu l s (s\<lparr>as_store := snd (PostAdminPasswordReset e ext_text l rq i raw refused email (as_store s))\<rparr>)"
    if "pg_uuid e = cu"

definition account_ok :: "(string \<Rightarrow> string option) \<Rightarrow> auth_lib \<Rightarrow> account_state \<Rightarrow> bool" where
  "account_ok cu l s \<longleftrightarrow>
     tokens_ok cu (st_refresh_tokens (as_store s)) \<and> users_ok l (st_users (as_store s)) \<and> codes_ok (st_reset_codes (as_store s))"

lemma limited_change:
  assumes "\<And>rep st'. work (as_store s) = (rep, st') \<Longrightarrow> change cu l (as_store s) st'"
  shows "change cu l (as_store s) (as_store (snd (limited l' rq i work s)))"
  using assms by (auto simp: limited_def split: prod.splits option.splits)

lemma revoke_work_change:
  "change cu l (as_store s) (as_store (snd (limited l' rq i
     (\<lambda>st. case InTx e (revoke_tx e l rq token) st of
             (Inl err, st') \<Rightarrow> (f err, st')
           | (Inr (), st') \<Rightarrow> (g, st')) s)))"
proof (rule limited_change)
  fix rep st'
  assume w: "(case InTx e (revoke_tx e l rq token) (as_store s) of
          (Inl err, st') \<Rightarrow> (f err, st') | (Inr (), st') \<Rightarrow> (g, st')) = (rep, st')"
  obtain r st1 where i: "InTx e (revoke_tx e l rq token) (as_store s) = (r, st1)" by fastforce
  with w have "st' = st1" by (cases r) (auto split: unit.splits)
  with InTx_change [OF i revoke_change] show "change cu l (as_store s) st'" by simp
qed

lemma reset_work_change:
  assumes w: "reset_work e ext_text l rq req st = (rep, st')"
  shows "change cu l st st'"
proof (cases "HashPassword l (urp_Password req)")
  case (Inl err)
  with w show ?thesis by (simp add: reset_work_def)
next
  case (Inr hash)
  obtain r st1 where i: "InTx e (reset_tx e l rq req hash) st = (r, st1)" by fastforce
  with w Inr have "st' = st1" by (cases r) (auto simp: reset_work_def split: unit.splits)
  with InTx_change [OF i reset_change] show ?thesis by simp
qed

lemma email_change: "UpdateUserEmail e l now uid email st = Inr (n, st') \<Longrightarrow> change cu l st st'"
  by (auto simp: UpdateUserEmail_def res_simps update_user_def change_def
      intro!: kept(1,3) user_change.set_email split: if_splits)

lemma PostChangeEmail_change: "change cu l st (snd (PostChangeEmail e ext_text l rq user req st))"
  by (simp add: PostChangeEmail_def email_change split: option.split sum.split prod.split)

lemma PostChangePassword_change: "change cu l st (snd (PostChangePassword e ext_text l rq user req st))"
  by (auto simp: PostChangePassword_def split: option.split sum.split dest: password_change)

lemma account_step_change:
  assumes "account_step cu l s s'" and "account_ok cu l s"
  shows "change cu l (as_store s) (as_store s')"
  using assms
proof (induction rule: account_step.induct)
  case (login e rq s ext_text cfg req)
  then show ?case
    by (auto simp: PostUserLogin_def split: option.split intro!: limited_change dest: login_change)
next
  case (register e rq s ext_text cfg req)
  then show ?case
    by (auto simp: PostUserRegister_def split: option.split intro!: limited_change dest: register_change)
next
  case (token e s ext_text cfg rq req)
  then show ?case
    by (auto simp: PostUserToken_def account_ok_def split: option.split intro!: limited_change dest: token_change_work)
next
  case (revoke e s ext_text rq req)
  show ?case
  proof (cases req)
    case (Some token)
    then show ?thesis by (simp add: PostUserTokenRevoke_def revoke_work_change)
  qed (simp add: PostUserTokenRevoke_def)
next
  case (reset e s ext_text rq req)
  then show ?case
    by (simp add: PostResetPassword_def reset_work_change limited_change split: option.split)
next
  case (delete_account x d s req)
  then show ?case using delete_change [of cu l d x req] by simp
qed (simp_all add: PostChangeEmail_change PostChangePassword_change admin_change)

lemma account_step_ok: "account_step cu l s s' \<Longrightarrow> account_ok cu l s \<Longrightarrow> account_ok cu l s'"
  using account_step_change [of cu l s s'] unfolding account_ok_def change_def
  by (blast intro: token_change_ok user_change_ok code_change_ok)

lemma account_step_session:
  "account_step cu l s s' \<Longrightarrow> account_ok cu l s \<Longrightarrow>
   session_step (sessions (st_refresh_tokens (as_store s))) (sessions (st_refresh_tokens (as_store s')))"
  using account_step_change [of cu l s s'] unfolding account_ok_def change_def
  by (blast intro: token_change_session_step)

lemma account_run_ok: "(account_step cu l)\<^sup>*\<^sup>* s s' \<Longrightarrow> account_ok cu l s \<Longrightarrow> account_ok cu l s'"
  by (induction rule: rtranclp_induct) (auto intro: account_step_ok)

lemma account_run_session:
  assumes "(account_step cu l)\<^sup>*\<^sup>* s s'" and "account_ok cu l s"
  shows "session_step\<^sup>*\<^sup>* (sessions (st_refresh_tokens (as_store s))) (sessions (st_refresh_tokens (as_store s')))"
  using assms
proof (induction rule: rtranclp_induct)
  case (step y z)
  then have "session_step (sessions (st_refresh_tokens (as_store y))) (sessions (st_refresh_tokens (as_store z)))"
    using account_step_session account_run_ok by blast
  then show ?case using step.IH [OF step.prems] by (rule rtranclp.rtrancl_into_rtrancl [rotated])
qed simp

lemma account_run_used_up:
  assumes "(account_step cu l)\<^sup>*\<^sup>* s s'" and "account_ok cu l s" and "used_up hash (st_reset_codes (as_store s))"
  shows "used_up hash (st_reset_codes (as_store s'))"
  using assms
proof (induction rule: rtranclp_induct)
  case (step y z)
  then have "account_ok cu l y" using account_run_ok by blast
  with step show ?case using account_step_change [of cu l y z] code_change_used_up by (auto simp: change_def)
qed simp

lemma session_run_ended:
  "session_step\<^sup>*\<^sup>* m m' \<Longrightarrow> m f = Some s \<Longrightarrow> \<not> se_active s \<Longrightarrow> m' f = Some s"
  by (induction rule: rtranclp_induct) (auto dest: session_step_ended)

subsection \<open>Theorems\<close>


text \<open>
  C14.  The account endpoints implement the machine of sessions: on the sessions that the table
  of tokens stands for, every request leaves all sessions as they are, opens one under a new
  name, or ends some.  No request reopens a session or gives it another user, device or scope.
\<close>

theorem account_refines_sessions:
  assumes "account_step cu l s s'" and "account_ok cu l s"
  shows "session_step (sessions (st_refresh_tokens (as_store s))) (sessions (st_refresh_tokens (as_store s')))"
  using assms by (rule account_step_session)

lemma GetRefreshTokenByHash_mem:
  assumes "tokens_ok cu (st_refresh_tokens st)" and "t \<in> set (st_refresh_tokens st)"
  shows "GetRefreshTokenByHash e (rt_TokenHash t) st = stmt e ''GetRefreshTokenByHash'' (Inr t)"
proof -
  have "find (\<lambda>s. rt_TokenHash s = rt_TokenHash t) (st_refresh_tokens st) = Some t"
    using keyed_find [OF tokens_ok_keyed [OF assms(1)]] assms(2) by simp
  then show ?thesis by (simp add: GetRefreshTokenByHash_def select_one_def)
qed

lemma PostUserToken_allowed:
  assumes "allowCredentialRequest l rq (HashRefreshToken l (utr_RefreshToken req)) (as_redis s) = (None :: TokenLoginResponse reply option, r)"
  shows "PostUserToken e ext_text l cfg rq (Some req) s =
           (fst (token_work e ext_text l cfg rq req (as_store s)),
            \<lparr>as_store = snd (token_work e ext_text l cfg rq req (as_store s)), as_redis = r\<rparr>)"
  using assms by (simp add: PostUserToken_def limited_def split: prod.split)

lemma RevokeRefreshTokenFamily_healthy:
  assumes "healthy e" and "tokens_ok (pg_uuid e) (st_refresh_tokens st)" and "t \<in> set (st_refresh_tokens st)"
  shows "\<exists>n. RevokeRefreshTokenFamily e now (rt_FamilyID t) st = Inr (n, revoke_where now (\<lambda>s. rt_FamilyID s = rt_FamilyID t) st)"
  using assms(1) tokens_ok_canonical [OF assms(2,3)] by (simp add: RevokeRefreshTokenFamily_def cast_uuid_def)

lemma token_work_theft:
  assumes "healthy e" and ok: "tokens_ok (pg_uuid e) (st_refresh_tokens st)"
    and t: "t \<in> set (st_refresh_tokens st)" "rt_TokenHash t = HashRefreshToken l (utr_RefreshToken req)"
    and theft: "\<not> live t \<or> rq_now rq 2 \<le> rt_ExpiresAt t \<and> rt_DeviceID t \<noteq> utr_Device req"
    and req: "utr_GrantType req = ''refresh_token''" "ValidRefreshToken (utr_RefreshToken req)" "validDeviceID (utr_Device req)"
  shows "token_work e ext_text l cfg rq req st =
           (refresh_invalid, revoke_where (rq_db rq 0) (\<lambda>s. rt_FamilyID s = rt_FamilyID t) st)"
proof -
  from RevokeRefreshTokenFamily_healthy [OF assms(1) ok t(1), of "rq_db rq 0"] obtain n where
    n: "RevokeRefreshTokenFamily e (rq_db rq 0) (rt_FamilyID t) st =
          Inr (n, revoke_where (rq_db rq 0) (\<lambda>s. rt_FamilyID s = rt_FamilyID t) st)" by blast
  have "GetRefreshTokenByHash e (HashRefreshToken l (utr_RefreshToken req)) st = Inr t"
    using GetRefreshTokenByHash_mem [OF ok t(1)] assms(1) t(2) by simp
  then have "token_tx e l cfg rq req st = Inr (None, revoke_where (rq_db rq 0) (\<lambda>s. rt_FamilyID s = rt_FamilyID t) st)"
    using theft n by (auto simp: token_tx_def)
  then show ?thesis using req assms(1) by (simp add: token_work_def InTx_healthy)
qed

text \<open>A revoked token never gets a new one.\<close>

lemma token_work_dead:
  assumes ok: "tokens_ok (pg_uuid e) (st_refresh_tokens st)"
    and t: "t \<in> set (st_refresh_tokens st)" "rt_TokenHash t = HashRefreshToken l (utr_RefreshToken req)" "\<not> live t"
  shows "fst (token_work e ext_text l cfg rq req st) \<noteq> Proto c m"
proof -
  have "token_tx e l cfg rq req st \<noteq> Inr (Some x, st')" for x st'
    using GetRefreshTokenByHash_mem [OF ok t(1)] t(2,3)
    by (auto simp: token_tx_def stmt_def rbind_Inr_iff split: option.splits)
  then have "InTx e (token_tx e l cfg rq req) st \<noteq> (Inr (Some x), st')" for x st'
    by (simp add: InTx_Inr)
  then show ?thesis
    by (auto simp: token_work_def refresh_invalid_def split: prod.splits sum.splits option.splits)
qed

lemma PostUserToken_dead:
  assumes "tokens_ok (pg_uuid e) (st_refresh_tokens (as_store s))"
    and "t \<in> set (st_refresh_tokens (as_store s))" "rt_TokenHash t = HashRefreshToken l (utr_RefreshToken req)" "\<not> live t"
  shows "fst (PostUserToken e ext_text l cfg rq (Some req) s) \<noteq> Proto c m"
proof -
  have "rep \<noteq> Proto c m" if "allowCredentialRequest l rq i r = (Some rep, r')" for rep :: "TokenLoginResponse reply" and i r r'
  proof -
    have "credential_loop rq n cs r = (Some rep, r') \<Longrightarrow> rep \<noteq> Proto c m" for n cs r
      by (induction cs arbitrary: n r) (auto split: prod.splits sum.splits if_splits)
    with that show ?thesis by (simp add: allowCredentialRequest_def)
  qed
  then show ?thesis
    using token_work_dead [OF assms, of ext_text cfg rq c m]
    by (auto simp: PostUserToken_def limited_def split: prod.splits option.splits)
qed

text \<open>
   C15. A stolen token ends its session for good.  When a refresh token is presented that has
  been replaced, or that is bound to another device, the answer is \<^verbatim>\<open>invalid_grant\<close>, and
  after any further requests no token of the session is live and none of them is exchanged
  for new tokens.
\<close>

theorem stolen_token_ends_session:
  assumes "account_ok (pg_uuid e) l s" and "healthy e"
    and "t \<in> set (st_refresh_tokens (as_store s))" "rt_TokenHash t = HashRefreshToken l (utr_RefreshToken req)"
    and "\<not> live t \<or> rq_now rq 2 \<le> rt_ExpiresAt t \<and> rt_DeviceID t \<noteq> utr_Device req"
    and "utr_GrantType req = ''refresh_token''" "ValidRefreshToken (utr_RefreshToken req)" "validDeviceID (utr_Device req)"
    and "allowCredentialRequest l rq (HashRefreshToken l (utr_RefreshToken req)) (as_redis s) = (None :: TokenLoginResponse reply option, r)"
    and "(account_step (pg_uuid e) l)\<^sup>*\<^sup>* (snd (PostUserToken e ext_text l cfg rq (Some req) s)) s2"
    and "t2 \<in> set (st_refresh_tokens (as_store s2))" "rt_FamilyID t2 = rt_FamilyID t"
    and "rt_TokenHash t2 = HashRefreshToken l (utr_RefreshToken req2)" and "pg_uuid e2 = pg_uuid e"
  shows "fst (PostUserToken e ext_text l cfg rq (Some req) s) = refresh_invalid \<and> \<not> live t2 \<and>
         (\<nexists>c m. fst (PostUserToken e2 ext_text2 l cfg2 rq2 (Some req2) s2) = Proto c m)"
proof -
  let ?s1 = "snd (PostUserToken e ext_text l cfg rq (Some req) s)"
  have ok: "tokens_ok (pg_uuid e) (st_refresh_tokens (as_store s))" using assms(1) by (simp add: account_ok_def)
  note work = token_work_theft [OF assms(2) ok assms(3-8)]
  have rep: "fst (PostUserToken e ext_text l cfg rq (Some req) s) = refresh_invalid"
    and s1: "as_store ?s1 = revoke_where (rq_db rq 0) (\<lambda>s. rt_FamilyID s = rt_FamilyID t) (as_store s)"
    using PostUserToken_allowed [OF assms(9)] work by simp_all
  have ok1: "account_ok (pg_uuid e) l ?s1"
    by (rule account_step_ok [OF account_step.token assms(1)]) simp
  have ok2: "account_ok (pg_uuid e) l s2" using assms(10) ok1 by (rule account_run_ok)
  have "sessions (st_refresh_tokens (as_store ?s1)) =
      end_sessions (\<lambda>s f. f = rt_FamilyID t) (sessions (st_refresh_tokens (as_store s)))"
    using sessions_revoke [OF ok] s1 by (simp add: revoke_where_def)
  then obtain x where "sessions (st_refresh_tokens (as_store ?s1)) (rt_FamilyID t) = Some x" "\<not> se_active x"
    using sessions_Some [OF ok assms(3)] by (auto simp: end_sessions_def)
  with account_run_session [OF assms(10) ok1]
  have "sessions (st_refresh_tokens (as_store s2)) (rt_FamilyID t2) = Some x" "\<not> se_active x"
    using assms(12) by (auto dest: session_run_ended)
  then have "\<not> live t2"
    using sessions_Some [of "pg_uuid e" "st_refresh_tokens (as_store s2)" t2] ok2 assms(11)
    by (auto simp: account_ok_def)
  then show ?thesis
    using rep PostUserToken_dead [of e2 s2 t2] ok2 assms(11,13,14) by (simp add: account_ok_def)
qed

lemma token_work_rotates:
  assumes "healthy e" and ok: "tokens_ok (pg_uuid e) (st_refresh_tokens st)"
    and t: "t \<in> set (st_refresh_tokens st)" "rt_TokenHash t = HashRefreshToken l (utr_RefreshToken req)" "live t"
      "rq_now rq 2 \<le> rt_ExpiresAt t" "rt_DeviceID t = utr_Device req"
    and req: "utr_GrantType req = ''refresh_token''" "ValidRefreshToken (utr_RefreshToken req)" "validDeviceID (utr_Device req)"
    and user: "find (\<lambda>u. u_ID u = rt_UserID t \<and> u_DeletedAt u = None) (st_users st) = Some user"
    and mint: "MintAccessToken l cfg (rq_now rq 3) (u_Uuid user) (u_Email user) (rt_Scope t) = Inr (access, expires)"
    and raw: "rq_entropy rq = Inr raw" "HashRefreshToken l (b64_encode raw) \<notin> rt_TokenHash ` set (st_refresh_tokens st)"
      "rq_token_id rq \<notin> rt_ID ` set (st_refresh_tokens st)"
  shows "\<exists>st' new. token_work e ext_text l cfg rq req st =
           (Proto 200 \<lparr>tlp_Email = u_Email user, tlp_Uuid = u_Uuid user, tlp_IsNew = False, tlp_AccessToken = access,
              tlp_TokenType = ''Bearer'', tlp_ExpiresIn = expires, tlp_RefreshToken = b64_encode raw\<rparr>, st') \<and>
         st_refresh_tokens st' =
           revoke_rows (rq_db rq 0) (\<lambda>s. rt_TokenHash s = rt_TokenHash t) (st_refresh_tokens st) @ [new] \<and>
         live new \<and> rt_TokenHash new = HashRefreshToken l (b64_encode raw) \<and> rt_FamilyID new = rt_FamilyID t \<and>
         binding new = binding t \<and> rt_ExpiresAt new = pg_time e (rq_now rq 4 + ac_RefreshTokenTTL cfg)"
proof -
  let ?rev = "revoke_where (rq_db rq 0) (\<lambda>s. rt_TokenHash s = rt_TokenHash t) st"
  from find_Some_mem [OF user] have u: "user \<in> set (st_users st)" "u_ID user = rt_UserID t" by simp_all
  have get: "GetRefreshTokenByHash e (HashRefreshToken l (utr_RefreshToken req)) st = Inr t"
    using GetRefreshTokenByHash_mem [OF ok t(1)] assms(1) t(2) by simp
  have ids: "rt_ID ` set (st_refresh_tokens ?rev) = rt_ID ` set (st_refresh_tokens st)"
  proof -
    have "map rt_ID (st_refresh_tokens ?rev) = map rt_ID (st_refresh_tokens st)"
      by (simp add: revoke_where_def update_where_def)
    then show ?thesis by (metis list.set_map)
  qed
  have hashes: "rt_TokenHash ` set (st_refresh_tokens ?rev) = rt_TokenHash ` set (st_refresh_tokens st)"
    by (simp add: revoke_where_def hashes_revoke_rows)
  have "\<exists>st'. issueRefreshToken e l cfg rq (rq_now rq 4) (rq_db rq 0) (rt_UserID t) (rt_Scope t) (rt_DeviceID t)
      (rt_FamilyID t) (Some (rt_ID t)) ?rev = Inr (b64_encode raw, st')"
  proof -
    have "\<not> (\<exists>s \<in> set (st_refresh_tokens ?rev). rt_ID s = rq_token_id rq)" using raw(3) ids by (metis imageI)
    moreover have "\<not> (\<exists>s \<in> set (st_refresh_tokens ?rev). rt_TokenHash s = HashRefreshToken l (b64_encode raw))"
      using raw(2) hashes by (metis imageI)
    moreover have "\<exists>s \<in> set (st_refresh_tokens ?rev). rt_ID s = rt_ID t"
    proof -
      have "rt_ID t \<in> rt_ID ` set (st_refresh_tokens ?rev)" unfolding ids using t(1) by (rule imageI)
      then obtain s where "rt_ID t = rt_ID s" "s \<in> set (st_refresh_tokens ?rev)" by (rule imageE)
      then show ?thesis by (intro bexI [of _ s]) simp_all
    qed
    moreover have "\<exists>x \<in> set (st_users ?rev). u_ID x = rt_UserID t" using u by (auto simp: frame_simps)
    ultimately
    show ?thesis
      using assms(1) raw(1) tokens_ok_canonical [OF ok t(1)]
      by (simp add: issueRefreshToken_def NewRefreshToken_def CreateRefreshToken_def cast_uuid_def Let_def)
  qed
  then obtain st' where "rotateRefreshToken e l cfg rq t (rt_UserID t) st = (Inr (b64_encode raw), st')"
    using one_live_row [OF tokens_ok_keyed [OF ok] t(1,3)] assms(1)
    by (auto simp: rotateRefreshToken_def RevokeRefreshToken_def)
  note rot = this
  have "token_work e ext_text l cfg rq req st =
     (Proto 200 \<lparr>tlp_Email = u_Email user, tlp_Uuid = u_Uuid user, tlp_IsNew = False, tlp_AccessToken = access,
        tlp_TokenType = ''Bearer'', tlp_ExpiresIn = expires, tlp_RefreshToken = b64_encode raw\<rparr>, st')"
    using req assms(1) get t(3-5) user mint rot u(2)
    by (simp add: token_work_def InTx_healthy token_tx_def GetUserByID_def select_one_def)
  then show ?thesis
    by (rule_tac rotate_Inr [OF ok t(1,3) rot]) (auto simp: binding_def)
qed

text \<open>
   Refresh rotates.  A live and unexpired token presented with the device it is bound to is
  answered with an access token of its user and a new refresh token; afterwards the presented
  token is revoked, and the new one is the only live token of the same session, with the same
  user, device and scope, and the tokens of other sessions are as before.
\<close>

theorem refresh_rotates:
  assumes "healthy e" and "account_ok (pg_uuid e) l s"
    and "t \<in> set (st_refresh_tokens (as_store s))" "rt_TokenHash t = HashRefreshToken l (utr_RefreshToken req)" "live t"
      "rq_now rq 2 \<le> rt_ExpiresAt t" "rt_DeviceID t = utr_Device req"
    and "utr_GrantType req = ''refresh_token''" "ValidRefreshToken (utr_RefreshToken req)" "validDeviceID (utr_Device req)"
    and "find (\<lambda>u. u_ID u = rt_UserID t \<and> u_DeletedAt u = None) (st_users (as_store s)) = Some user"
    and "MintAccessToken l cfg (rq_now rq 3) (u_Uuid user) (u_Email user) (rt_Scope t) = Inr (access, expires)"
    and "rq_entropy rq = Inr raw" "HashRefreshToken l (b64_encode raw) \<notin> rt_TokenHash ` set (st_refresh_tokens (as_store s))"
      "rq_token_id rq \<notin> rt_ID ` set (st_refresh_tokens (as_store s))"
    and "allowCredentialRequest l rq (HashRefreshToken l (utr_RefreshToken req)) (as_redis s) = (None :: TokenLoginResponse reply option, r)"
  shows "\<exists>s' new. PostUserToken e ext_text l cfg rq (Some req) s =
           (Proto 200 \<lparr>tlp_Email = u_Email user, tlp_Uuid = u_Uuid user, tlp_IsNew = False, tlp_AccessToken = access,
              tlp_TokenType = ''Bearer'', tlp_ExpiresIn = expires, tlp_RefreshToken = b64_encode raw\<rparr>, s') \<and>
         rt_TokenHash new = HashRefreshToken l (b64_encode raw) \<and> binding new = binding t \<and>
         rt_ExpiresAt new = pg_time e (rq_now rq 4 + ac_RefreshTokenTTL cfg) \<and>
         {x \<in> set (st_refresh_tokens (as_store s')). rt_FamilyID x = rt_FamilyID t \<and> live x} = {new} \<and>
         t\<lparr>rt_RevokedAt := Some (rq_db rq 0)\<rparr> \<in> set (st_refresh_tokens (as_store s')) \<and>
         {x \<in> set (st_refresh_tokens (as_store s')). rt_FamilyID x \<noteq> rt_FamilyID t} =
           {x \<in> set (st_refresh_tokens (as_store s)). rt_FamilyID x \<noteq> rt_FamilyID t}"
proof -
  let ?ts = "st_refresh_tokens (as_store s)"
  let ?revoked = "revoke_rows (rq_db rq 0) (\<lambda>s. rt_TokenHash s = rt_TokenHash t) ?ts"
  have ok: "tokens_ok (pg_uuid e) ?ts" using assms(2) by (simp add: account_ok_def)
  from token_work_rotates [OF assms(1) ok assms(3-15), of ext_text] obtain st' new where
    w: "token_work e ext_text l cfg rq req (as_store s) =
         (Proto 200 \<lparr>tlp_Email = u_Email user, tlp_Uuid = u_Uuid user, tlp_IsNew = False, tlp_AccessToken = access,
            tlp_TokenType = ''Bearer'', tlp_ExpiresIn = expires, tlp_RefreshToken = b64_encode raw\<rparr>, st')"
    and st': "st_refresh_tokens st' = ?revoked @ [new]"
    and new: "live new" "rt_TokenHash new = HashRefreshToken l (b64_encode raw)" "rt_FamilyID new = rt_FamilyID t"
      "binding new = binding t" "rt_ExpiresAt new = pg_time e (rq_now rq 4 + ac_RefreshTokenTTL cfg)" by blast
  have revoked: "?revoked = revoke_rows (rq_db rq 0) (\<lambda>s. rt_FamilyID s = rt_FamilyID t) ?ts"
    by (rule revoke_hash_family [OF ok assms(3,5)])
  have "{x \<in> set ?revoked. rt_FamilyID x = rt_FamilyID t \<and> live x} = {}"
    "{x \<in> set ?revoked. rt_FamilyID x \<noteq> rt_FamilyID t} = {x \<in> set ?ts. rt_FamilyID x \<noteq> rt_FamilyID t}"
    unfolding revoked by (auto simp: set_update_where)
  moreover have "t\<lparr>rt_RevokedAt := Some (rq_db rq 0)\<rparr> \<in> set ?revoked"
    using assms(3,5) by (auto simp: set_update_where)
  ultimately show ?thesis
    using w PostUserToken_allowed [OF assms(16)] st' new by (intro exI [of _ "snd (PostUserToken e ext_text l cfg rq (Some req) s)"] exI [of _ new]) auto
qed

lemma reset_tx_Inr:
  assumes "reset_tx e l rq req hash st = Inr (x, st')"
  obtains user c where "user \<in> set (st_users st)" "u_DeletedAt user = None"
    "al_citext l (u_Email user) = al_citext l (TrimSpace (urp_Email req))"
    "c \<in> set (st_reset_codes st)" "usable_code (rq_db rq 0) (HashRefreshToken l (urp_ResetPasswordToken req)) c"
    "prc_UserID c = u_ID user"
    "st_users st' = update_where (live_user (u_ID user)) (\<lambda>u. u\<lparr>u_PasswordHash := hash, u_UpdatedAt := rq_db rq 0\<rparr>) (st_users st)"
    "st_refresh_tokens st' = revoke_rows (rq_db rq 0) (\<lambda>t. rt_UserID t = u_ID user) (st_refresh_tokens st)"
    "st_reset_codes st' = update_where (usable_code (rq_db rq 0) (HashRefreshToken l (urp_ResetPasswordToken req)))
        (\<lambda>c. c\<lparr>prc_ConsumedAt := Some (rq_db rq 0)\<rparr>) (st_reset_codes st)"
proof -
  from assms obtain user c where
    "find (\<lambda>u. al_citext l (u_Email u) = al_citext l (TrimSpace (urp_Email req)) \<and> u_DeletedAt u = None) (st_users st) = Some user"
    "find (usable_code (rq_db rq 0) (HashRefreshToken l (urp_ResetPasswordToken req))) (st_reset_codes st) = Some c"
    and c: "prc_UserID c = u_ID user"
    and st': "st' = revoke_where (rq_db rq 0) (\<lambda>t. rt_UserID t = u_ID user)
      (snd (update_user (u_ID user) (\<lambda>u. u\<lparr>u_PasswordHash := hash, u_UpdatedAt := rq_db rq 0\<rparr>)
        (st\<lparr>st_reset_codes := update_where (usable_code (rq_db rq 0) (HashRefreshToken l (urp_ResetPasswordToken req)))
          (\<lambda>c. c\<lparr>prc_ConsumedAt := Some (rq_db rq 0)\<rparr>) (st_reset_codes st)\<rparr>)))"
    by (auto simp: reset_tx_def res_simps GetUserByEmail_def ConsumePasswordResetCode_def UpdateUserPassword_def
        RevokeAllRefreshTokens_def update_user_def split: if_splits)
  from find_Some_mem [OF this(1)] find_Some_mem [OF this(2)] c show thesis
    by (intro that [of user c]) (simp_all add: st' frame_simps update_user_def revoke_where_def)
qed

lemma limited_proto:
  assumes "limited l rq i work s = (Proto c m, s')"
  shows "work (as_store s) = (Proto c m, as_store s')"
proof -
  have "credential_loop rq n cs r = (Some rep, r') \<Longrightarrow> rep \<noteq> Proto c m" for n cs r rep r'
    by (induction cs arbitrary: n r) (auto split: prod.splits sum.splits if_splits)
  then show ?thesis
    using assms by (auto simp: limited_def allowCredentialRequest_def split: prod.splits option.splits)
qed

lemma PostResetPassword_success:
  assumes "PostResetPassword e ext_text l rq (Some req) s = (Proto c m, s')"
  obtains hash x where "HashPassword l (urp_Password req) = Inr hash" "reset_tx e l rq req hash (as_store s) = Inr (x, as_store s')"
    "m = changeSuccess" "c = 200"
proof -
  from assms have "limited l rq (urp_Email req) (reset_work e ext_text l rq req) s = (Proto c m, s')"
    by (auto simp: PostResetPassword_def split: if_splits)
  then have "reset_work e ext_text l rq req (as_store s) = (Proto c m, as_store s')" by (rule limited_proto)
  then show thesis
    by (auto simp: reset_work_def InTx_Inr split: sum.splits prod.splits if_splits unit.splits intro: that)
qed

text \<open>
  C16.  A password reset needs a code and uses it up.  An answered success means that the request
  carried a code that was stored, unused, unexpired and issued to the user of the address;
  afterwards this user's password is the new one, every refresh token of the user is revoked
  while the tokens of other users are as before, and no request gets a success with the
  same code again, whatever account requests come in between, the issue of further codes included.
\<close>

theorem reset_needs_code_once:
  assumes "auth_lib_ok l" and "account_ok (pg_uuid e) l s"
    and "PostResetPassword e ext_text l rq (Some req) s = (Proto c m, s')"
  shows "\<exists>user code. user \<in> set (st_users (as_store s)) \<and> u_DeletedAt user = None \<and>
           al_citext l (u_Email user) = al_citext l (TrimSpace (urp_Email req)) \<and>
           code \<in> set (st_reset_codes (as_store s)) \<and> prc_UserID code = u_ID user \<and>
           usable_code (rq_db rq 0) (HashRefreshToken l (urp_ResetPasswordToken req)) code \<and>
           {u \<in> set (st_users (as_store s')). live_user (u_ID user) u \<and> \<not> CheckPassword l (u_PasswordHash u) (urp_Password req)} = {} \<and>
           {t \<in> set (st_refresh_tokens (as_store s')). rt_UserID t = u_ID user \<and> live t} = {} \<and>
           {t \<in> set (st_refresh_tokens (as_store s')). rt_UserID t \<noteq> u_ID user} =
             {t \<in> set (st_refresh_tokens (as_store s)). rt_UserID t \<noteq> u_ID user} \<and>
           {(s2, c2, m2). \<exists>e2 ext2 rq2 req2 s3. (account_step (pg_uuid e) l)\<^sup>*\<^sup>* s' s2 \<and>
              urp_ResetPasswordToken req2 = urp_ResetPasswordToken req \<and>
              PostResetPassword e2 ext2 l rq2 (Some req2) s2 = (Proto c2 m2, s3)} = {}"
  using assms(3)
proof (rule PostResetPassword_success)
  fix hash x
  assume hash: "HashPassword l (urp_Password req) = Inr hash" and tx: "reset_tx e l rq req hash (as_store s) = Inr (x, as_store s')"
  let ?h = "HashRefreshToken l (urp_ResetPasswordToken req)"
  have check: "CheckPassword l hash (urp_Password req)"
    using hash assms(1) by (auto simp: HashPassword_def CheckPassword_def auth_lib_ok_def split: sum.splits)
  from tx show ?thesis
  proof (rule reset_tx_Inr)
    fix user code
    assume u: "user \<in> set (st_users (as_store s))" "u_DeletedAt user = None"
      "al_citext l (u_Email user) = al_citext l (TrimSpace (urp_Email req))"
      "code \<in> set (st_reset_codes (as_store s))" "usable_code (rq_db rq 0) ?h code" "prc_UserID code = u_ID user"
      and us: "st_users (as_store s') = update_where (live_user (u_ID user)) (\<lambda>u. u\<lparr>u_PasswordHash := hash, u_UpdatedAt := rq_db rq 0\<rparr>) (st_users (as_store s))"
      and ts: "st_refresh_tokens (as_store s') = revoke_rows (rq_db rq 0) (\<lambda>t. rt_UserID t = u_ID user) (st_refresh_tokens (as_store s))"
      and cs: "st_reset_codes (as_store s') = update_where (usable_code (rq_db rq 0) ?h) (\<lambda>c. c\<lparr>prc_ConsumedAt := Some (rq_db rq 0)\<rparr>) (st_reset_codes (as_store s))"
    have ok: "account_ok (pg_uuid e) l s'"
      using account_step_ok [OF account_step.reset [OF refl] assms(2), of ext_text rq "Some req"] assms(3) by simp
    have "used_up ?h (st_reset_codes (as_store s'))"
      unfolding cs using assms(2) u(4,5) by (intro consumed_used_up) (simp_all add: account_ok_def)
    note used = account_run_used_up [OF _ ok this]
    have again: False
      if "(account_step (pg_uuid e) l)\<^sup>*\<^sup>* s' s2" "urp_ResetPasswordToken req2 = urp_ResetPasswordToken req"
        "PostResetPassword e2 ext2 l rq2 (Some req2) s2 = (Proto c2 m2, s3)" for e2 ext2 rq2 req2 s2 s3 c2 m2
      using that(2,3) used_up_unusable [OF used [OF that(1)]] by (elim PostResetPassword_success reset_tx_Inr) simp
    have "{u \<in> set (st_users (as_store s')). live_user (u_ID user) u \<and> \<not> CheckPassword l (u_PasswordHash u) (urp_Password req)} = {}"
      using check by (auto simp: us set_update_where)
    moreover have "{t \<in> set (st_refresh_tokens (as_store s')). rt_UserID t = u_ID user \<and> live t} = {}"
      "{t \<in> set (st_refresh_tokens (as_store s')). rt_UserID t \<noteq> u_ID user} =
         {t \<in> set (st_refresh_tokens (as_store s)). rt_UserID t \<noteq> u_ID user}"
      by (auto simp: ts set_update_where)
    ultimately show ?thesis using u again by blast
  qed
qed

text \<open>
   A change of the password is two separate statements, not a transaction.  When the second
  one fails the request is answered with an error, the new password is stored all the same,
  and every refresh token of the user is still live.  When none fails, the tokens of the user are revoked.
\<close>

theorem change_password_two_steps:
  assumes "auth_lib_ok l" and "pg_fault e = (\<lambda>n. if n = ''RevokeAllRefreshTokens'' then fault else None)"
    and "pg_uuid e (au_UUID cu) = Some u" "find (\<lambda>r. u_Uuid r = u \<and> u_DeletedAt r = None) (st_users st) = Some user"
    and "CheckPassword l (u_PasswordHash user) (ucp_OldPassword req)" "validNewPassword (ucp_NewPassword req)"
    and "HashPassword l (ucp_NewPassword req) = Inr hash"
  shows "\<exists>st'. PostChangePassword e ext_text l rq (Some cu) (Some req) st =
           ((case fault of None \<Rightarrow> Proto 200 changeSuccess | Some err \<Rightarrow> HttpError (writeError ext_text err)), st') \<and>
         {r \<in> set (st_users st'). live_user (u_ID user) r \<and> \<not> CheckPassword l (u_PasswordHash r) (ucp_NewPassword req)} = {} \<and>
         st_refresh_tokens st' =
           (if fault = None then revoke_rows (rq_db rq 2) (\<lambda>t. rt_UserID t = u_ID user) (st_refresh_tokens st)
            else st_refresh_tokens st)"
proof -
  have check: "CheckPassword l hash (ucp_NewPassword req)"
    using assms(1,7) by (auto simp: HashPassword_def CheckPassword_def auth_lib_ok_def split: sum.splits)
  define st1 where "st1 = snd (update_user (u_ID user) (\<lambda>u. u\<lparr>u_PasswordHash := hash, u_UpdatedAt := rq_db rq 1\<rparr>) st)"
  have users: "{r \<in> set (st_users st1). live_user (u_ID user) r \<and> \<not> CheckPassword l (u_PasswordHash r) (ucp_NewPassword req)} = {}"
    using check by (auto simp: st1_def update_user_def set_update_where)
  have tokens: "st_refresh_tokens st1 = st_refresh_tokens st" by (simp add: st1_def frame_simps)
  have cur: "currentDbUser e ext_text (Some cu) st = (Inr user :: UserChangeResponse reply + User)"
    using assms(2-4) by (simp add: currentDbUser_def GetUserByUUID_def stmt_def cast_uuid_def select_one_def)
  have upd: "\<exists>n. UpdateUserPassword e (rq_db rq 1) (u_ID user) hash st = Inr (n, st1)"
    using assms(2) by (simp add: UpdateUserPassword_def stmt_def st1_def update_user_def)
  have rev: "RevokeAllRefreshTokens e (rq_db rq 2) (u_ID user) st1 =
      (case fault of None \<Rightarrow> Inr (int (length (filter (\<lambda>t. rt_UserID t = u_ID user \<and> live t) (st_refresh_tokens st1))),
                              revoke_where (rq_db rq 2) (\<lambda>t. rt_UserID t = u_ID user) st1)
       | Some err \<Rightarrow> Inl err)"
    using assms(2) by (simp add: RevokeAllRefreshTokens_def stmt_def split: option.split)
  show ?thesis
  proof (cases fault)
    case None
    then show ?thesis
      using cur upd rev assms(5-7) users tokens
      by (auto simp: PostChangePassword_def validNewPassword_def frame_simps) (simp_all add: revoke_where_def)
  next
    case (Some err)
    then show ?thesis
      using cur upd rev assms(5-7) users tokens by (auto simp: PostChangePassword_def validNewPassword_def)
  qed
qed

subsection \<open>Examples\<close>

text \<open>One user with a password, a live session on a phone, and a reset code.\<close>

definition demo_raw :: "nat \<Rightarrow> nat list" where
  "demo_raw n = replicate 32 n"

definition demo_hash :: "nat \<Rightarrow> string" where
  "demo_hash n = HashRefreshToken demo_auth (b64_encode (demo_raw n))"

definition demo_token :: RefreshToken where
  "demo_token =
     \<lparr>rt_ID = 1, rt_UserID = 1, rt_TokenHash = demo_hash 1, rt_Scope = ''mobile'', rt_CreatedAt = 0, rt_ExpiresAt = 9000,
      rt_RevokedAt = None, rt_FamilyID = ''f'', rt_DeviceID = ''phone'', rt_RotatedFromID = None, rt_LastUsedAt = None\<rparr>"

definition demo_code :: PasswordResetCode where
  "demo_code =
     \<lparr>prc_ID = 1, prc_UserID = 1, prc_CodeHash = HashRefreshToken demo_auth ''code'', prc_ExpiresAt = 9000,
      prc_ConsumedAt = None, prc_CreatedAt = 0\<rparr>"

definition demo_account :: account_state where
  "demo_account =
     \<lparr>as_store = empty_store\<lparr>st_users := [(demo_user 1)\<lparr>u_PasswordHash := rev ''old password 1''\<rparr>],
        st_refresh_tokens := [demo_token], st_reset_codes := [demo_code]\<rparr>,
      as_redis = Some Map.empty\<rparr>"

definition demo_rq :: rq where
  "demo_rq =
     \<lparr>rq_now = (\<lambda>_. 0), rq_db = (\<lambda>_. 5), rq_uuid = (\<lambda>n. if n = 0 then ''g'' else ''h''), rq_entropy = Inr (demo_raw 2),
      rq_user_id = 2, rq_token_id = 2, rq_remote = ''1.2.3.4:5'', rq_forwarded = '''', rq_trust = False,
      rq_redis_fault = (\<lambda>_. None)\<rparr>"

definition demo_refresh :: "nat \<Rightarrow> string \<Rightarrow> UserTokenRequest" where
  "demo_refresh n device =
     \<lparr>utr_Code = '''', utr_GrantType = ''refresh_token'', utr_RefreshToken = b64_encode (demo_raw n), utr_Scope = '''',
      utr_DeviceCode = '''', utr_Device = device\<rparr>"

lemma demo_account_ok: "account_ok (pg_uuid demo_env) demo_auth demo_account"
  by (simp add: account_ok_def tokens_ok_def users_ok_def codes_ok_def keyed_def demo_account_def demo_token_def demo_env_def)

text \<open>A login on a tablet, and the deletion of the account after it.\<close>

definition demo_login :: UserLoginRequest where
  "demo_login =
     \<lparr>ulr_Email = ''a@b.c'', ulr_Password = ''old password 1'', ulr_Scope = ''mobile'', ulr_Dt = '''', ulr_Device = ''tablet'',
      ulr_V = '''', ulr_M = '''', ulr_Av = '''', ulr_F = '''', ulr_L = '''', ulr_C = ''''\<rparr>"

definition demo_logged_in :: account_state where
  "demo_logged_in = snd (PostUserLogin demo_env (\<lambda>_. '''') demo_auth demo_config demo_rq (Some demo_login) demo_account)"




lemma demo_login_step: "account_step (pg_uuid demo_env) demo_auth demo_account demo_logged_in"
  unfolding demo_logged_in_def
  by (rule account_step.login)
     (auto simp: new_family_def demo_rq_def demo_account_def demo_token_def demo_env_def)



lemma demo_logged_in_sessions:
  "sessions (st_refresh_tokens (as_store demo_account)) ''g'' = None"
  "sessions (st_refresh_tokens (as_store demo_logged_in)) ''g'' =
     Some \<lparr>se_user = 1, se_device = ''tablet'', se_scope = ''mobile'', se_active = True\<rparr>"
  by code_simp+


lemma demo_valid_device: "validDeviceID ''phone''" "validDeviceID ''tablet''"
  by code_simp+

lemma demo_valid_token: "ValidRefreshToken (b64_encode (demo_raw 1))"
  by code_simp

lemma demo_allowed:
  "fst (allowCredentialRequest demo_auth demo_rq (demo_hash 1) (as_redis demo_account)) = (None :: TokenLoginResponse reply option)"
  by code_simp

lemma demo_allowed_pair:
  "\<exists>r. allowCredentialRequest demo_auth demo_rq (demo_hash 1) (as_redis demo_account) = (None :: TokenLoginResponse reply option, r)"
  using demo_allowed by (metis prod.collapse)


theorem account_refines_sessions_witness:
  "session_step (sessions (st_refresh_tokens (as_store demo_account))) (sessions (st_refresh_tokens (as_store demo_logged_in))) \<and>
   sessions (st_refresh_tokens (as_store demo_account)) ''g'' = None \<and>
   sessions (st_refresh_tokens (as_store demo_logged_in)) ''g'' =
     Some \<lparr>se_user = 1, se_device = ''tablet'', se_scope = ''mobile'', se_active = True\<rparr>"
  using account_refines_sessions [OF demo_login_step demo_account_ok] demo_logged_in_sessions by blast

lemma demo_theft_state:
  "as_store (snd (PostUserToken demo_env (\<lambda>_. '''') demo_auth demo_config demo_rq (Some (demo_refresh 1 ''tablet'')) demo_account)) =
     revoke_where 5 (\<lambda>s. rt_FamilyID s = ''f'') (as_store demo_account)"
proof -
  obtain r where r: "allowCredentialRequest demo_auth demo_rq (demo_hash 1) (as_redis demo_account) = (None :: TokenLoginResponse reply option, r)"
    using demo_allowed_pair by blast
  have ok: "tokens_ok (pg_uuid demo_env) (st_refresh_tokens (as_store demo_account))"
    using demo_account_ok by (simp add: account_ok_def)
  have mem: "demo_token \<in> set (st_refresh_tokens (as_store demo_account))" by (simp add: demo_account_def)
  have "snd (token_work demo_env (\<lambda>_. '''') demo_auth demo_config demo_rq (demo_refresh 1 ''tablet'') (as_store demo_account)) =
      revoke_where 5 (\<lambda>s. rt_FamilyID s = ''f'') (as_store demo_account)"
    using token_work_theft [OF demo_env_healthy ok mem, of demo_auth "demo_refresh 1 ''tablet''" demo_rq] demo_valid_device demo_valid_token
    by (simp add: demo_token_def demo_refresh_def demo_rq_def demo_hash_def)
  then show ?thesis
    using PostUserToken_allowed [of demo_auth demo_rq "demo_refresh 1 ''tablet''" demo_account r] r
    by (simp add: demo_refresh_def demo_hash_def)
qed

theorem stolen_token_ends_session_witness:
  "fst (PostUserToken demo_env (\<lambda>_. '''') demo_auth demo_config demo_rq (Some (demo_refresh 1 ''tablet'')) demo_account) = refresh_invalid \<and>
   (\<nexists>c m. fst (PostUserToken demo_env (\<lambda>_. '''') demo_auth demo_config demo_rq (Some (demo_refresh 1 ''phone''))
      (snd (PostUserToken demo_env (\<lambda>_. '''') demo_auth demo_config demo_rq (Some (demo_refresh 1 ''tablet'')) demo_account))) = Proto c m)"
proof -
  obtain r where r: "allowCredentialRequest demo_auth demo_rq (demo_hash 1) (as_redis demo_account) = (None :: TokenLoginResponse reply option, r)"
    using demo_allowed_pair by blast
  have mem: "demo_token \<in> set (st_refresh_tokens (as_store demo_account))" by (simp add: demo_account_def)
  have mem2: "revoked 5 demo_token \<in> set (st_refresh_tokens (as_store
      (snd (PostUserToken demo_env (\<lambda>_. '''') demo_auth demo_config demo_rq (Some (demo_refresh 1 ''tablet'')) demo_account))))"
    unfolding demo_theft_state by (simp add: revoke_where_def update_where_def demo_account_def) (simp add: demo_token_def)
  have "fst (PostUserToken demo_env (\<lambda>_. '''') demo_auth demo_config demo_rq (Some (demo_refresh 1 ''tablet'')) demo_account) = refresh_invalid \<and>
    \<not> live (revoked 5 demo_token) \<and>
    (\<nexists>c m. fst (PostUserToken demo_env (\<lambda>_. '''') demo_auth demo_config demo_rq (Some (demo_refresh 1 ''phone''))
      (snd (PostUserToken demo_env (\<lambda>_. '''') demo_auth demo_config demo_rq (Some (demo_refresh 1 ''tablet'')) demo_account))) = Proto c m)"
    by (rule stolen_token_ends_session [OF demo_account_ok demo_env_healthy mem _ _ _ _ _ _ rtranclp.rtrancl_refl mem2])
       (use r demo_valid_device demo_valid_token in \<open>simp_all add: demo_refresh_def demo_hash_def demo_token_def demo_rq_def\<close>)
  then show ?thesis by blast
qed

theorem refresh_rotates_witness:
  "\<exists>m s'. PostUserToken demo_env (\<lambda>_. '''') demo_auth demo_config demo_rq (Some (demo_refresh 1 ''phone'')) demo_account =
     (Proto 200 m, s') \<and> tlp_RefreshToken m = b64_encode (demo_raw 2)"
proof -
  obtain r where r: "allowCredentialRequest demo_auth demo_rq (demo_hash 1) (as_redis demo_account) = (None :: TokenLoginResponse reply option, r)"
    using demo_allowed_pair by blast
  have mem: "demo_token \<in> set (st_refresh_tokens (as_store demo_account))" by (simp add: demo_account_def)
  have mint: "MintAccessToken demo_auth demo_config 0 ''u'' ''a@b.c'' ''mobile'' =
      Inr (''u'' @ CHR 0x00 # ''a@b.c'' @ CHR 0x00 # ''mobile'', 3600)" by code_simp
  have fresh: "demo_hash 2 \<noteq> demo_hash 1" by code_simp
  have user: "find (\<lambda>u. u_ID u = rt_UserID demo_token \<and> u_DeletedAt u = None) (st_users (as_store demo_account)) =
      Some ((demo_user 1)\<lparr>u_PasswordHash := rev ''old password 1''\<rparr>)"
    by (simp add: demo_account_def demo_token_def demo_user_def)
  have *: "live demo_token" "rq_now demo_rq 2 \<le> rt_ExpiresAt demo_token" "rt_DeviceID demo_token = ''phone''"
    "rt_TokenHash demo_token = demo_hash 1" "rt_Scope demo_token = ''mobile''" "rt_ID demo_token = 1"
    by (simp_all add: demo_token_def demo_rq_def)
  have set: "set (st_refresh_tokens (as_store demo_account)) = {demo_token}" by (simp add: demo_account_def)
  show ?thesis
    using refresh_rotates [OF demo_env_healthy demo_account_ok mem, of "demo_refresh 1 ''phone''" demo_rq
        "(demo_user 1)\<lparr>u_PasswordHash := rev ''old password 1''\<rparr>" demo_config _ _ "demo_raw 2" r "\<lambda>_. ''''", OF _ *(1,2)]
      * user mint fresh r demo_valid_device demo_valid_token unfolding set
    by (fastforce simp: demo_refresh_def demo_hash_def demo_user_def demo_rq_def)
qed

definition demo_reset :: UserResetPasswordRequest where
  "demo_reset =
     \<lparr>urp_ResetPasswordToken = ''code'', urp_Password = ''new password 2'', urp_Scope = '''', urp_Device = ''phone'',
      urp_Email = '' A@b.c''\<rparr>"

lemma demo_reset_run:
  "fst (PostResetPassword demo_env (\<lambda>_. '''') demo_auth demo_rq (Some demo_reset) demo_account) = Proto 200 changeSuccess"
  by code_simp

definition demo_reissued :: account_state where
  "demo_reissued =
     (let s = snd (PostResetPassword demo_env (\<lambda>_. '''') demo_auth demo_rq (Some demo_reset) demo_account)
      in s\<lparr>as_store := snd (PostAdminPasswordReset demo_env (\<lambda>_. '''') demo_auth demo_rq 2 (replicate 12 9) None ''a@b.c'' (as_store s))\<rparr>)"

lemma demo_reissued_codes: "map prc_ConsumedAt (st_reset_codes (as_store demo_reissued)) = [Some 5, None]"
  by code_simp

theorem reset_needs_code_once_witness:
  "{t \<in> set (st_refresh_tokens (as_store
      (snd (PostResetPassword demo_env (\<lambda>_. '''') demo_auth demo_rq (Some demo_reset) demo_account)))). rt_UserID t = 1 \<and> live t} = {} \<and>
   map prc_ConsumedAt (st_reset_codes (as_store demo_reissued)) = [Some 5, None] \<and>
   (\<nexists>c m. fst (PostResetPassword demo_env (\<lambda>_. '''') demo_auth demo_rq (Some demo_reset) demo_reissued) = Proto c m)"
proof -
  let ?s = "snd (PostResetPassword demo_env (\<lambda>_. '''') demo_auth demo_rq (Some demo_reset) demo_account)"
  have "PostResetPassword demo_env (\<lambda>_. '''') demo_auth demo_rq (Some demo_reset) demo_account = (Proto 200 changeSuccess, ?s)"
    using demo_reset_run by (metis prod.collapse)
  note once = reset_needs_code_once [OF demo_auth_ok demo_account_ok this]
  from once obtain user where
    "user \<in> set (st_users (as_store demo_account))" "{t \<in> set (st_refresh_tokens (as_store ?s)). rt_UserID t = u_ID user \<and> live t} = {}"
    by blast
  moreover from this(1) have "u_ID user = 1" by (simp add: demo_account_def demo_user_def)
  moreover have "account_step (pg_uuid demo_env) demo_auth ?s demo_reissued"
    unfolding demo_reissued_def Let_def by (rule account_step.issue_reset) simp
  with once have "PostResetPassword demo_env (\<lambda>_. '''') demo_auth demo_rq (Some demo_reset) demo_reissued \<noteq> (Proto c m, s3)" for c m s3
    by blast
  then have "\<nexists>c m. fst (PostResetPassword demo_env (\<lambda>_. '''') demo_auth demo_rq (Some demo_reset) demo_reissued) = Proto c m"
    by (metis prod.collapse)
  ultimately show ?thesis using demo_reissued_codes by simp
qed

theorem change_password_two_steps_witness:
  "\<exists>st'. PostChangePassword (demo_env\<lparr>pg_fault := \<lambda>n. if n = ''RevokeAllRefreshTokens'' then Some (NewError ''down'') else None\<rparr>)
     (\<lambda>_. '''') demo_auth demo_rq (Some \<lparr>au_UUID = ''u'', au_Email = ''a@b.c'', au_Scope = ''mobile''\<rparr>)
     (Some \<lparr>ucp_OldPassword = ''old password 1'', ucp_NewPassword = ''new password 2'', ucp_Scope = ''''\<rparr>)
     (as_store demo_account) = (HttpError (writeError (\<lambda>_. '''') (NewError ''down'')), st') \<and>
   st_refresh_tokens st' = [demo_token]"
proof -
  let ?e = "demo_env\<lparr>pg_fault := \<lambda>n. if n = ''RevokeAllRefreshTokens'' then Some (NewError ''down'') else None\<rparr>"
  let ?u = "(demo_user 1)\<lparr>u_PasswordHash := rev ''old password 1''\<rparr>"
  have "pg_uuid ?e ''u'' = Some ''u''" by code_simp
  moreover have "find (\<lambda>r. u_Uuid r = ''u'' \<and> u_DeletedAt r = None) (st_users (as_store demo_account)) = Some ?u"
    by (simp add: demo_account_def demo_user_def)
  moreover have "CheckPassword demo_auth (u_PasswordHash ?u) ''old password 1''" "validNewPassword ''new password 2''"
    "HashPassword demo_auth ''new password 2'' = Inr (rev ''new password 2'')" by code_simp+
  moreover have "st_refresh_tokens (as_store demo_account) = [demo_token]" by (simp add: demo_account_def)
  ultimately show ?thesis
    using change_password_two_steps [of demo_auth ?e "Some (NewError ''down'')"
        "\<lparr>au_UUID = ''u'', au_Email = ''a@b.c'', au_Scope = ''mobile''\<rparr>" "''u''" "as_store demo_account" ?u
        "\<lparr>ucp_OldPassword = ''old password 1'', ucp_NewPassword = ''new password 2'', ucp_Scope = ''''\<rparr>"
        "rev ''new password 2''" "\<lambda>_. ''''" demo_rq] demo_auth_ok by auto
qed

end
