(* ===== verification/Group_Db.thy ===== *)
theory Group_Db
  imports Social_Db "HOL-Library.Product_Lexorder"
begin

section \<open>Statements on groups, members and posts\<close>

text \<open>
  The statements of \<^verbatim>\<open>src/db/queries.sql.go\<close> that \<^verbatim>\<open>src/handlers/groups.go\<close> and
  \<^verbatim>\<open>src/handlers/groupposts.go\<close> use, on the group tables of \<open>social_db\<close>.  A nil viewer is \<open>None\<close>.
  An \<^verbatim>\<open>ORDER BY\<close> of several columns sorts by the key of the columns (\<^verbatim>\<open>DESC\<close> negates, and puts nulls
  first), and rows that agree on it stay in the order of the table.
\<close>

subsection \<open>Groups\<close>

definition int16 :: "int \<Rightarrow> int" where
  "int16 x = signed_take_bit 15 x"

record CreateSocialGroupParams =
  csg_OwnerUserID :: int
  csg_Title :: string
  csg_Description :: string
  csg_Visibility :: int
  csg_PodcastUuid :: string
  csg_PodcastTitle :: string

definition CreateSocialGroup ::
  "env \<Rightarrow> instant \<Rightarrow> int \<Rightarrow> CreateSocialGroupParams \<Rightarrow> social_db \<Rightarrow> ((int \<times> instant) \<times> social_db) result" where
  "CreateSocialGroup e now new_id a d =
     stmt e ''CreateSocialGroup''
       (if \<exists>g \<in> set (sd_groups d). sg_ID g = new_id then Inl (PgError ''23505'' ''social_groups_pkey'')
        else if \<not> user_exists (csg_OwnerUserID a) d then Inl (PgError ''23503'' ''social_groups_owner_user_id_fkey'')
        else Inr ((new_id, now), d\<lparr>sd_groups := sd_groups d @
               [\<lparr>sg_ID = new_id, sg_OwnerUserID = csg_OwnerUserID a, sg_Title = csg_Title a,
                 sg_Description = csg_Description a, sg_Visibility = csg_Visibility a, sg_PodcastUuid = csg_PodcastUuid a,
                 sg_PodcastTitle = csg_PodcastTitle a, sg_CreatedAt = now, sg_UpdatedAt = now\<rparr>]\<rparr>))"

record GroupRow =
  gr_ID :: int
  gr_OwnerUserID :: int
  gr_Title :: string
  gr_Description :: string
  gr_Visibility :: int
  gr_PodcastUuid :: string
  gr_PodcastTitle :: string
  gr_CreatedAt :: instant
  gr_OwnerHandle :: string
  gr_OwnerDisplayName :: string
  gr_MemberCount :: int
  gr_YourRole :: int
  gr_NotifyPosts :: bool

abbreviation gm_key :: "SocialGroupMember \<Rightarrow> int \<times> int" where
  "gm_key m \<equiv> (gm_GroupID m, gm_UserID m)"

definition member_count :: "int \<Rightarrow> social_db \<Rightarrow> int" where
  "member_count gid d = int (length (filter (\<lambda>c. gm_GroupID c = gid \<and> gm_Role c \<in> {1, 2}) (sd_group_members d)))"

text \<open>The row of a group joined with the profile of its owner and one member row, if any.\<close>

definition group_row :: "social_db \<Rightarrow> SocialGroup \<Rightarrow> SocialProfile \<Rightarrow> SocialGroupMember option \<Rightarrow> GroupRow" where
  "group_row d g sp my =
     \<lparr>gr_ID = sg_ID g, gr_OwnerUserID = sg_OwnerUserID g, gr_Title = sg_Title g, gr_Description = sg_Description g,
      gr_Visibility = sg_Visibility g, gr_PodcastUuid = sg_PodcastUuid g, gr_PodcastTitle = sg_PodcastTitle g,
      gr_CreatedAt = sg_CreatedAt g, gr_OwnerHandle = sp_Handle sp, gr_OwnerDisplayName = sp_DisplayName sp,
      gr_MemberCount = member_count (sg_ID g) d,
      gr_YourRole = (case my of None \<Rightarrow> 0 | Some m \<Rightarrow> gm_Role m),
      gr_NotifyPosts = (case my of None \<Rightarrow> False | Some m \<Rightarrow> gm_NotifyPosts m)\<rparr>"

definition profile_of :: "int \<Rightarrow> social_db \<Rightarrow> SocialProfile option" where
  "profile_of uid d = find (\<lambda>p. sp_UserID p = uid) (sd_profiles d)"

definition member_of :: "int \<Rightarrow> int \<Rightarrow> social_db \<Rightarrow> SocialGroupMember option" where
  "member_of gid uid d = find (\<lambda>m. gm_key m = (gid, uid)) (sd_group_members d)"

definition GetSocialGroup :: "env \<Rightarrow> int \<Rightarrow> int option \<Rightarrow> social_db \<Rightarrow> GroupRow result" where
  "GetSocialGroup e gid viewer d =
     stmt e ''GetSocialGroup''
       (rbind (select_one (\<lambda>g. sg_ID g = gid \<and> profile_of (sg_OwnerUserID g) d \<noteq> None) (sd_groups d)) (\<lambda>g.
          case profile_of (sg_OwnerUserID g) d of
            None \<Rightarrow> Inl ErrNoRows
          | Some sp \<Rightarrow>
              Inr (group_row d g sp (case viewer of None \<Rightarrow> None | Some v \<Rightarrow> member_of (sg_ID g) v d))))"

definition UpdateSocialGroup ::
  "env \<Rightarrow> instant \<Rightarrow> int \<Rightarrow> int \<Rightarrow> string \<Rightarrow> string \<Rightarrow> int \<Rightarrow> social_db \<Rightarrow> (int \<times> social_db) result" where
  "UpdateSocialGroup e now gid owner title description vis d =
     stmt e ''UpdateSocialGroup''
       (let P = (\<lambda>g. sg_ID g = gid \<and> sg_OwnerUserID g = owner)
        in Inr (int (length (filter P (sd_groups d))),
                d\<lparr>sd_groups := update_where P
                    (\<lambda>g. g\<lparr>sg_Title := title, sg_Description := description, sg_Visibility := vis, sg_UpdatedAt := now\<rparr>)
                    (sd_groups d)\<rparr>))"

definition DeleteSocialGroup :: "env \<Rightarrow> int \<Rightarrow> int \<Rightarrow> social_db \<Rightarrow> (int \<times> social_db) result" where
  "DeleteSocialGroup e gid owner d =
     stmt e ''DeleteSocialGroup''
       (let P = (\<lambda>g. sg_ID g = gid \<and> sg_OwnerUserID g = owner)
        in Inr (int (length (filter P (sd_groups d))), delete_groups P d))"

definition join_group :: "social_db \<Rightarrow> SocialGroupMember option \<Rightarrow> SocialGroup \<Rightarrow> GroupRow option" where
  "join_group d my g = map_option (\<lambda>sp. group_row d g sp my) (profile_of (sg_OwnerUserID g) d)"

definition GetGroupsForUser :: "env \<Rightarrow> int \<Rightarrow> int list \<Rightarrow> social_db \<Rightarrow> GroupRow list result" where
  "GetGroupsForUser e uid roles d =
     stmt e ''GetGroupsForUser''
       (Inr (sort_key (\<lambda>r. - gr_CreatedAt r)
          (List.map_filter
             (\<lambda>m. case find (\<lambda>g. sg_ID g = gm_GroupID m) (sd_groups d) of
                    None \<Rightarrow> None
                  | Some g \<Rightarrow> join_group d (Some m) g)
             (filter (\<lambda>m. gm_UserID m = uid \<and> gm_Role m \<in> set roles) (sd_group_members d)))))"

definition DiscoverGroups :: "env \<Rightarrow> int \<Rightarrow> string option \<Rightarrow> int option \<Rightarrow> social_db \<Rightarrow> GroupRow list result" where
  "DiscoverGroups e limit podcast viewer d =
     stmt e ''DiscoverGroups''
       (Inr (take (nat limit) (sort_key (\<lambda>r. (- gr_MemberCount r, - gr_CreatedAt r))
          (List.map_filter (join_group d None)
             (filter (\<lambda>g. sg_Visibility g = 2 \<and> (case podcast of None \<Rightarrow> True | Some p \<Rightarrow> sg_PodcastUuid g = p) \<and>
                          (case viewer of None \<Rightarrow> True
                           | Some v \<Rightarrow> \<not> blocked_either v (sg_OwnerUserID g) (sd_relationships d)))
               (sd_groups d))))))"

subsection \<open>Members\<close>

text \<open>A ban is only ever replaced by a ban.\<close>

definition UpsertGroupMember :: "env \<Rightarrow> instant \<Rightarrow> int \<Rightarrow> int \<Rightarrow> int \<Rightarrow> int option \<Rightarrow> social_db \<Rightarrow> social_db result" where
  "UpsertGroupMember e now gid uid role invitedBy d =
     stmt e ''UpsertGroupMember''
       (if member_of gid uid d \<noteq> None
        then Inr (d\<lparr>sd_group_members :=
               update_where (\<lambda>m. gm_key m = (gid, uid) \<and> (gm_Role m \<noteq> 4 \<or> role = 4)) (\<lambda>m. m\<lparr>gm_Role := role\<rparr>)
                 (sd_group_members d)\<rparr>)
        else if \<not> (\<exists>g \<in> set (sd_groups d). sg_ID g = gid)
        then Inl (PgError ''23503'' ''social_group_members_group_id_fkey'')
        else if \<not> user_exists uid d then Inl (PgError ''23503'' ''social_group_members_user_id_fkey'')
        else if (case invitedBy of None \<Rightarrow> False | Some i \<Rightarrow> \<not> user_exists i d)
        then Inl (PgError ''23503'' ''social_group_members_invited_by_fkey'')
        else Inr (d\<lparr>sd_group_members := sd_group_members d @
               [\<lparr>gm_GroupID = gid, gm_UserID = uid, gm_Role = role, gm_InvitedBy = invitedBy, gm_NotifyPosts = False,
                 gm_CreatedAt = now\<rparr>]\<rparr>))"

definition GetGroupMember :: "env \<Rightarrow> int \<Rightarrow> int \<Rightarrow> social_db \<Rightarrow> SocialGroupMember result" where
  "GetGroupMember e gid uid d =
     stmt e ''GetGroupMember'' (select_one (\<lambda>m. gm_key m = (gid, uid)) (sd_group_members d))"

definition DeleteGroupMember :: "env \<Rightarrow> int \<Rightarrow> int \<Rightarrow> social_db \<Rightarrow> (int \<times> social_db) result" where
  "DeleteGroupMember e gid uid d =
     stmt e ''DeleteGroupMember''
       (Inr (int (length (filter (\<lambda>m. gm_key m = (gid, uid)) (sd_group_members d))),
             d\<lparr>sd_group_members := delete_where (\<lambda>m. gm_key m = (gid, uid)) (sd_group_members d)\<rparr>))"

definition SetGroupMemberNotify :: "env \<Rightarrow> int \<Rightarrow> int \<Rightarrow> bool \<Rightarrow> social_db \<Rightarrow> (int \<times> social_db) result" where
  "SetGroupMemberNotify e gid uid enabled d =
     stmt e ''SetGroupMemberNotify''
       (let P = (\<lambda>m. gm_key m = (gid, uid) \<and> gm_Role m \<in> {1, 2})
        in Inr (int (length (filter P (sd_group_members d))),
                d\<lparr>sd_group_members := update_where P (\<lambda>m. m\<lparr>gm_NotifyPosts := enabled\<rparr>) (sd_group_members d)\<rparr>))"

record GroupMemberRow =
  mrow_Handle :: string
  mrow_DisplayName :: string
  mrow_Role :: int
  mrow_CreatedAt :: instant

definition GetGroupMembers :: "env \<Rightarrow> int \<Rightarrow> int \<Rightarrow> int \<Rightarrow> int option \<Rightarrow> social_db \<Rightarrow> GroupMemberRow list result" where
  "GetGroupMembers e gid limit offset viewer d =
     stmt e ''GetGroupMembers''
       (Inr (take (nat limit) (drop (nat offset) (sort_key mrow_CreatedAt
          (List.map_filter
             (\<lambda>m. map_option
                    (\<lambda>sp. \<lparr>mrow_Handle = sp_Handle sp, mrow_DisplayName = sp_DisplayName sp, mrow_Role = gm_Role m,
                           mrow_CreatedAt = gm_CreatedAt m\<rparr>)
                    (profile_of (gm_UserID m) d))
             (filter (\<lambda>m. gm_GroupID m = gid \<and> gm_Role m \<in> {1, 2} \<and>
                          (case viewer of None \<Rightarrow> True
                           | Some v \<Rightarrow> \<not> blocked_either v (gm_UserID m) (sd_relationships d)))
               (sd_group_members d)))))))"

definition CountGroupMembers :: "env \<Rightarrow> int \<Rightarrow> social_db \<Rightarrow> int result" where
  "CountGroupMembers e gid d = stmt e ''CountGroupMembers'' (Inr (member_count gid d))"

definition has_mute :: "int \<Rightarrow> int \<Rightarrow> SocialRelationship list \<Rightarrow> bool" where
  "has_mute owner actor rs \<longleftrightarrow> (\<exists>r \<in> set rs. sr_Kind r = 1 \<and> sr_UserID r = owner \<and> sr_TargetUserID r = actor)"

definition GetGroupNotifyTargets :: "env \<Rightarrow> int \<Rightarrow> int \<Rightarrow> social_db \<Rightarrow> int list result" where
  "GetGroupNotifyTargets e gid actor d =
     stmt e ''GetGroupNotifyTargets''
       (Inr (map gm_UserID
          (filter (\<lambda>m. gm_GroupID m = gid \<and> gm_Role m \<in> {1, 2} \<and> gm_NotifyPosts m \<and> gm_UserID m \<noteq> actor \<and>
                       \<not> blocked_either actor (gm_UserID m) (sd_relationships d) \<and>
                       \<not> has_mute (gm_UserID m) actor (sd_relationships d))
            (sd_group_members d))))"

subsection \<open>Posts\<close>

definition GetGroupPostByID :: "env \<Rightarrow> int \<Rightarrow> social_db \<Rightarrow> (SocialGroupPost \<times> bool) result" where
  "GetGroupPostByID e pid d =
     stmt e ''GetGroupPostByID''
       (rbind (select_one (\<lambda>p. gp_ID p = pid) (sd_group_posts d)) (\<lambda>p.
          Inr (p, \<exists>r \<in> set (sd_group_posts d). gp_ParentID r = Some (gp_ID p))))"

record InsertGroupPostParams =
  igp_GroupID :: int
  igp_UserID :: "int option"
  igp_Text :: string
  igp_EpisodeUuid :: string
  igp_PodcastUuid :: string
  igp_EpisodeTitle :: string
  igp_PodcastTitle :: string
  igp_ListID :: int
  igp_ListTitle :: string
  igp_ParentID :: "int option"
  igp_RootID :: "int option"

definition new_post :: "instant \<Rightarrow> int \<Rightarrow> InsertGroupPostParams \<Rightarrow> SocialGroupPost" where
  "new_post now new_id a =
     \<lparr>gp_ID = new_id, gp_GroupID = igp_GroupID a, gp_UserID = igp_UserID a, gp_ParentID = igp_ParentID a,
      gp_RootID = igp_RootID a, gp_Text = igp_Text a, gp_EpisodeUuid = igp_EpisodeUuid a,
      gp_PodcastUuid = igp_PodcastUuid a, gp_EpisodeTitle = igp_EpisodeTitle a, gp_PodcastTitle = igp_PodcastTitle a,
      gp_ListID = igp_ListID a, gp_ListTitle = igp_ListTitle a, gp_CreatedAt = now, gp_EditedAt = None,
      gp_RemovedAt = None\<rparr>"

definition post_exists :: "int option \<Rightarrow> social_db \<Rightarrow> bool" where
  "post_exists ref d \<longleftrightarrow> (case ref of None \<Rightarrow> True | Some i \<Rightarrow> \<exists>p \<in> set (sd_group_posts d). gp_ID p = i)"

definition InsertGroupPost ::
  "env \<Rightarrow> instant \<Rightarrow> int \<Rightarrow> InsertGroupPostParams \<Rightarrow> social_db \<Rightarrow> ((int \<times> instant) \<times> social_db) result" where
  "InsertGroupPost e now new_id a d =
     stmt e ''InsertGroupPost''
       (if \<exists>p \<in> set (sd_group_posts d). gp_ID p = new_id then Inl (PgError ''23505'' ''social_group_posts_pkey'')
        else if \<not> (\<exists>g \<in> set (sd_groups d). sg_ID g = igp_GroupID a)
        then Inl (PgError ''23503'' ''social_group_posts_group_id_fkey'')
        else if (case igp_UserID a of None \<Rightarrow> False | Some u \<Rightarrow> \<not> user_exists u d)
        then Inl (PgError ''23503'' ''social_group_posts_user_id_fkey'')
        else if \<not> post_exists (igp_ParentID a) d then Inl (PgError ''23503'' ''social_group_posts_parent_fk'')
        else if \<not> post_exists (igp_RootID a) d then Inl (PgError ''23503'' ''social_group_posts_root_fk'')
        else Inr ((new_id, now), d\<lparr>sd_group_posts := sd_group_posts d @ [new_post now new_id a]\<rparr>))"

text \<open>A viewer does not see an author on either side of a block, nor one the viewer has muted.\<close>

definition hidden_author :: "int option \<Rightarrow> int option \<Rightarrow> SocialRelationship list \<Rightarrow> bool" where
  "hidden_author viewer author rs \<longleftrightarrow>
     (case (viewer, author) of
        (Some v, Some a) \<Rightarrow> blocked_either v a rs \<or> has_mute v a rs
      | _ \<Rightarrow> False)"

record GroupPostRow =
  gpr_post :: SocialGroupPost
  gpr_AuthorUuid :: "string option"
  gpr_Handle :: "string option"
  gpr_DisplayName :: "string option"
  gpr_ReplyCount :: int

definition group_post_row :: "social_db \<Rightarrow> int option \<Rightarrow> SocialGroupPost \<Rightarrow> GroupPostRow" where
  "group_post_row d viewer p =
     (let author = (case gp_UserID p of None \<Rightarrow> None | Some a \<Rightarrow> find (\<lambda>u. u_ID u = a) (st_users (sd_core d)));
          prof = (case gp_UserID p of None \<Rightarrow> None | Some a \<Rightarrow> profile_of a d)
      in \<lparr>gpr_post = p, gpr_AuthorUuid = map_option u_Uuid author, gpr_Handle = map_option sp_Handle prof,
          gpr_DisplayName = map_option sp_DisplayName prof,
          gpr_ReplyCount = int (length (filter
            (\<lambda>r. gp_ParentID r = Some (gp_ID p) \<and> \<not> hidden_author viewer (gp_UserID r) (sd_relationships d))
            (sd_group_posts d)))\<rparr>)"

definition on_group_page :: "int \<Rightarrow> int option \<Rightarrow> int option \<Rightarrow> social_db \<Rightarrow> SocialGroupPost \<Rightarrow> bool" where
  "on_group_page gid parent viewer d p \<longleftrightarrow>
     gp_GroupID p = gid \<and> gp_ParentID p = parent \<and> \<not> hidden_author viewer (gp_UserID p) (sd_relationships d)"

definition GetGroupPosts ::
  "env \<Rightarrow> int \<Rightarrow> int option \<Rightarrow> int option \<Rightarrow> int \<Rightarrow> int \<Rightarrow> social_db \<Rightarrow> GroupPostRow list result" where
  "GetGroupPosts e gid parent viewer limit offset d =
     stmt e ''GetGroupPosts''
       (Inr (map (group_post_row d viewer) (take (nat limit) (drop (nat offset)
          (sort_key (\<lambda>p. (if gp_ParentID p = None then - gp_CreatedAt p else gp_CreatedAt p, gp_ID p))
             (filter (on_group_page gid parent viewer d) (sd_group_posts d)))))))"

definition CountGroupPosts :: "env \<Rightarrow> int \<Rightarrow> int option \<Rightarrow> int option \<Rightarrow> social_db \<Rightarrow> int result" where
  "CountGroupPosts e gid parent viewer d =
     stmt e ''CountGroupPosts'' (Inr (int (length (filter (on_group_page gid parent viewer d) (sd_group_posts d)))))"

definition EditGroupPost :: "env \<Rightarrow> instant \<Rightarrow> int \<Rightarrow> int \<Rightarrow> string \<Rightarrow> social_db \<Rightarrow> (int \<times> social_db) result" where
  "EditGroupPost e now pid uid text d =
     stmt e ''EditGroupPost''
       (let P = (\<lambda>p. gp_ID p = pid \<and> gp_UserID p = Some uid \<and> gp_RemovedAt p = None)
        in Inr (int (length (filter P (sd_group_posts d))),
                d\<lparr>sd_group_posts := update_where P (\<lambda>p. p\<lparr>gp_Text := text, gp_EditedAt := Some now\<rparr>) (sd_group_posts d)\<rparr>))"

definition TombstoneGroupPost :: "env \<Rightarrow> instant \<Rightarrow> int \<Rightarrow> int \<Rightarrow> social_db \<Rightarrow> (int \<times> social_db) result" where
  "TombstoneGroupPost e now pid uid d =
     stmt e ''TombstoneGroupPost''
       (let P = (\<lambda>p. gp_ID p = pid \<and> gp_UserID p = Some uid \<and> gp_RemovedAt p = None)
        in Inr (int (length (filter P (sd_group_posts d))),
                d\<lparr>sd_group_posts := update_where P (wipe_post now) (sd_group_posts d)\<rparr>))"

definition TombstoneGroupPostAsOwner :: "env \<Rightarrow> instant \<Rightarrow> int \<Rightarrow> int \<Rightarrow> social_db \<Rightarrow> (int \<times> social_db) result" where
  "TombstoneGroupPostAsOwner e now pid owner d =
     stmt e ''TombstoneGroupPostAsOwner''
       (let P = (\<lambda>p. gp_ID p = pid \<and> gp_RemovedAt p = None \<and>
                     (\<exists>g \<in> set (sd_groups d). sg_ID g = gp_GroupID p \<and> sg_OwnerUserID g = owner))
        in Inr (int (length (filter P (sd_group_posts d))),
                d\<lparr>sd_group_posts := update_where P (wipe_post now) (sd_group_posts d)\<rparr>))"

end
