(* ===== verification/Social_Groups.thy ===== *)
theory Social_Groups
  imports Group_Db Social
begin

section \<open>Groups and their posts\<close>

text \<open>
  \<^verbatim>\<open>src/handlers/groups.go\<close> and \<^verbatim>\<open>src/handlers/groupposts.go\<close>: groups, membership, invitations, and the
  posts of a group.  As in \<open>Social\<close>, a handler maps the decoded request (\<open>None\<close> when
  \<^verbatim>\<open>bindProto\<close> fails) and the database to the reply and the new database.  Pushes carry the
  identities a client needs for its deep link.
\<close>

subsection \<open>Requests and replies\<close>

definition groupTitleMaxLen :: nat where "groupTitleMaxLen = 100"
definition groupDescMaxLen :: nat where "groupDescMaxLen = 500"
definition groupPostMaxLen :: nat where "groupPostMaxLen = 2000"
definition groupPrivateCap :: int where "groupPrivateCap = 100"
definition maxGroupPageSize :: int where "maxGroupPageSize = 50"
definition groupPostEditGrace :: int where "groupPostEditGrace = 5 * 60 * 1000000000"
definition maxUuidFieldLen :: nat where "maxUuidFieldLen = 64"
definition maxTitleLen :: nat where "maxTitleLen = 300"

definition groupRoleMember :: int where "groupRoleMember = 1"
definition groupRoleOwner :: int where "groupRoleOwner = 2"
definition groupRoleInvited :: int where "groupRoleInvited = 3"
definition groupRoleBanned :: int where "groupRoleBanned = 4"
definition groupVisPrivate :: int where "groupVisPrivate = 1"
definition groupVisPublic :: int where "groupVisPublic = 2"

lemmas group_consts =
  groupRoleMember_def groupRoleOwner_def groupRoleInvited_def groupRoleBanned_def groupVisPrivate_def groupVisPublic_def

record GroupCreateRequest =
  gcr_Title :: string
  gcr_Description :: string
  gcr_Visibility :: int
  gcr_PodcastUuid :: string
  gcr_PodcastTitle :: string

record GroupUpdateRequest =
  gur_Id :: int
  gur_Title :: string
  gur_Description :: string
  gur_Visibility :: int

record pb_SocialGroup =
  psg_Id :: int
  psg_OwnerHandle :: string
  psg_OwnerDisplayName :: string
  psg_Title :: string
  psg_Description :: string
  psg_Visibility :: int
  psg_PodcastUuid :: string
  psg_PodcastTitle :: string
  psg_MemberCount :: int
  psg_YourRole :: int
  psg_NotifyPosts :: bool
  psg_CreatedAt :: instant

record data_push =
  dp_Target :: int
  dp_Type :: int
  dp_Handle :: string
  dp_DisplayName :: string
  dp_Data :: "(string \<times> string) list"

definition SocialPushCommentReply :: int where "SocialPushCommentReply = 5"
definition SocialPushGroupInvite :: int where "SocialPushGroupInvite = 7"
definition SocialPushGroupPost :: int where "SocialPushGroupPost = 8"

definition notifyData :: "sctx \<Rightarrow> int \<Rightarrow> int \<Rightarrow> string \<Rightarrow> string \<Rightarrow> (string \<times> string) list \<Rightarrow> data_push list" where
  "notifyData x target pushType handle name extra =
     (if sx_push x
      then [\<lparr>dp_Target = target, dp_Type = pushType, dp_Handle = handle, dp_DisplayName = name, dp_Data = extra\<rparr>]
      else [])"

text \<open>\<^verbatim>\<open>optionalViewerID\<close> and \<^verbatim>\<open>viewerRef\<close> of \<^verbatim>\<open>src/handlers/comments.go\<close>.\<close>

definition optionalViewerID :: "sctx \<Rightarrow> social_db \<Rightarrow> int" where
  "optionalViewerID x d =
     (case sx_user x of
        None \<Rightarrow> 0
      | Some cu \<Rightarrow> (case GetUserByUUID (sx_env x) (au_UUID cu) (sd_core d) of Inl _ \<Rightarrow> 0 | Inr viewer \<Rightarrow> u_ID viewer))"

definition viewerRef :: "int \<Rightarrow> int option" where
  "viewerRef i = (if i = 0 then None else Some i)"

definition group_gone :: "'m reply" where
  "group_gone = access_denied 404 ''group not found''"

subsection \<open>Groups\<close>

text \<open>The checks of title, visibility and description that creation and update share.\<close>

definition group_texts :: "sctx \<Rightarrow> string \<Rightarrow> string \<Rightarrow> 'm reply option" where
  "group_texts x title description =
     (if CheckDisplayName (al_ToLower (sx_lib x)) (sx_blocklist x) title \<noteq> None
      then Some (access_denied 422 ''title rejected'')
      else if CheckBio (al_ToLower (sx_lib x)) (sx_blocklist x) description \<noteq> None
      then Some (access_denied 422 ''description rejected'')
      else None)"

definition create_group_tx ::
  "sctx \<Rightarrow> int \<Rightarrow> CreateSocialGroupParams \<Rightarrow> social_db \<Rightarrow> ((int \<times> instant) \<times> social_db) result" where
  "create_group_tx x uid a d =
     rbind (CreateSocialGroup (sx_env x) (sx_db x 0) (sx_id x) a d) (\<lambda>(created, d).
     rbind (UpsertGroupMember (sx_env x) (sx_db x 0) (fst created) uid groupRoleOwner None d) (\<lambda>d. Inr (created, d)))"

definition PostGroupCreate :: "sctx \<Rightarrow> GroupCreateRequest option \<Rightarrow> social_db \<Rightarrow> pb_SocialGroup reply \<times> social_db" where
  "PostGroupCreate x req d =
     (case req of
        None \<Rightarrow> (access_denied 400 ''invalid request'', d)
      | Some req \<Rightarrow>
          if gcr_Title req = '''' then (access_denied 400 ''invalid request'', d)
          else
            let vis = int16 (gcr_Visibility req)
            in if vis \<noteq> groupVisPrivate \<and> vis \<noteq> groupVisPublic then (access_denied 400 ''invalid visibility'', d)
               else if gcr_PodcastUuid req \<noteq> '''' \<and> \<not> uuidPattern (gcr_PodcastUuid req)
               then (access_denied 400 ''invalid podcast'', d)
               else (case group_texts x (gcr_Title req) (gcr_Description req) of
                       Some rep \<Rightarrow> (rep, d)
                     | None \<Rightarrow>
                         (case requireJoined x d of
                            Inl rep \<Rightarrow> (rep, d)
                          | Inr (user, profile) \<Rightarrow>
                              let title = truncateRunes (gcr_Title req) groupTitleMaxLen;
                                  description = truncateRunes (gcr_Description req) groupDescMaxLen;
                                  podcastTitle = truncateRunes (gcr_PodcastTitle req) maxTitleLen
                              in (case InTx (sx_env x) (create_group_tx x (u_ID user)
                                         \<lparr>csg_OwnerUserID = u_ID user, csg_Title = title, csg_Description = description,
                                          csg_Visibility = vis, csg_PodcastUuid = gcr_PodcastUuid req,
                                          csg_PodcastTitle = podcastTitle\<rparr>) d of
                                    (Inl err, d') \<Rightarrow> (write_error x err, d')
                                  | (Inr (i, at), d') \<Rightarrow>
                                      (Proto 200 \<lparr>psg_Id = i, psg_OwnerHandle = sp_Handle profile,
                                         psg_OwnerDisplayName = sp_DisplayName profile, psg_Title = title,
                                         psg_Description = description, psg_Visibility = vis,
                                         psg_PodcastUuid = gcr_PodcastUuid req, psg_PodcastTitle = podcastTitle,
                                         psg_MemberCount = 1, psg_YourRole = groupRoleOwner, psg_NotifyPosts = False,
                                         psg_CreatedAt = at\<rparr>, d')))))"

definition PostGroupUpdate :: "sctx \<Rightarrow> GroupUpdateRequest option \<Rightarrow> social_db \<Rightarrow> bool reply \<times> social_db" where
  "PostGroupUpdate x req d =
     (case req of
        None \<Rightarrow> (access_denied 400 ''invalid request'', d)
      | Some req \<Rightarrow>
          if gur_Id req \<le> 0 \<or> gur_Title req = '''' then (access_denied 400 ''invalid request'', d)
          else
            let vis = int16 (gur_Visibility req)
            in if vis \<noteq> groupVisPrivate \<and> vis \<noteq> groupVisPublic then (access_denied 400 ''invalid visibility'', d)
               else (case group_texts x (gur_Title req) (gur_Description req) of
                       Some rep \<Rightarrow> (rep, d)
                     | None \<Rightarrow>
                         (case requireJoined x d of
                            Inl rep \<Rightarrow> (rep, d)
                          | Inr (user, _) \<Rightarrow>
                              (case GetSocialGroup (sx_env x) (gur_Id req) (Some (u_ID user)) d of
                                 Inl _ \<Rightarrow> (group_gone, d)
                               | Inr current \<Rightarrow>
                                   if gr_Visibility current = groupVisPrivate \<and> vis = groupVisPublic
                                   then (access_denied 409 ''a private group cannot be made public'', d)
                                   else (case UpdateSocialGroup (sx_env x) (sx_db x 0) (gur_Id req) (u_ID user)
                                                (truncateRunes (gur_Title req) groupTitleMaxLen)
                                                (truncateRunes (gur_Description req) groupDescMaxLen) vis d of
                                           Inl err \<Rightarrow> (write_error x err, d)
                                         | Inr (affected, d') \<Rightarrow>
                                             (if affected = 0 then group_gone else Proto 200 True, d'))))))"

definition PostGroupDelete :: "sctx \<Rightarrow> int option \<Rightarrow> social_db \<Rightarrow> bool reply \<times> social_db" where
  "PostGroupDelete x req d =
     (case req of
        None \<Rightarrow> (access_denied 400 ''invalid request'', d)
      | Some gid \<Rightarrow>
          if gid \<le> 0 then (access_denied 400 ''invalid request'', d)
          else (case requireJoined x d of
                  Inl rep \<Rightarrow> (rep, d)
                | Inr (user, _) \<Rightarrow>
                    (case DeleteSocialGroup (sx_env x) gid (u_ID user) d of
                       Inl err \<Rightarrow> (write_error x err, d)
                     | Inr (affected, d') \<Rightarrow> (if affected = 0 then group_gone else Proto 200 True, d'))))"

text \<open>\<^verbatim>\<open>memberGroupToProto\<close>, \<^verbatim>\<open>discoverGroupToProto\<close> and the group of a page of posts.\<close>

definition memberGroupToProto :: "GroupRow \<Rightarrow> pb_SocialGroup" where
  "memberGroupToProto g =
     \<lparr>psg_Id = gr_ID g, psg_OwnerHandle = gr_OwnerHandle g, psg_OwnerDisplayName = gr_OwnerDisplayName g,
      psg_Title = gr_Title g, psg_Description = gr_Description g, psg_Visibility = gr_Visibility g,
      psg_PodcastUuid = gr_PodcastUuid g, psg_PodcastTitle = gr_PodcastTitle g, psg_MemberCount = gr_MemberCount g,
      psg_YourRole = gr_YourRole g, psg_NotifyPosts = gr_NotifyPosts g, psg_CreatedAt = gr_CreatedAt g\<rparr>"

definition discoverGroupToProto :: "GroupRow \<Rightarrow> pb_SocialGroup" where
  "discoverGroupToProto g =
     \<lparr>psg_Id = gr_ID g, psg_OwnerHandle = gr_OwnerHandle g, psg_OwnerDisplayName = gr_OwnerDisplayName g,
      psg_Title = gr_Title g, psg_Description = gr_Description g, psg_Visibility = gr_Visibility g,
      psg_PodcastUuid = gr_PodcastUuid g, psg_PodcastTitle = gr_PodcastTitle g, psg_MemberCount = gr_MemberCount g,
      psg_YourRole = 0, psg_NotifyPosts = False, psg_CreatedAt = gr_CreatedAt g\<rparr>"

definition PostGroups :: "sctx \<Rightarrow> social_db \<Rightarrow> (pb_SocialGroup list \<times> pb_SocialGroup list) reply" where
  "PostGroups x d =
     (case requireJoined x d of
        Inl rep \<Rightarrow> rep
      | Inr (user, _) \<Rightarrow>
          (case GetGroupsForUser (sx_env x) (u_ID user) [groupRoleMember, groupRoleOwner] d of
             Inl err \<Rightarrow> write_error x err
           | Inr mine \<Rightarrow>
               (case GetGroupsForUser (sx_env x) (u_ID user) [groupRoleInvited] d of
                  Inl err \<Rightarrow> write_error x err
                | Inr invited \<Rightarrow> Proto 200 (map memberGroupToProto mine, map memberGroupToProto invited))))"

definition PostGroupDiscover :: "sctx \<Rightarrow> int option \<Rightarrow> social_db \<Rightarrow> pb_SocialGroup list reply" where
  "PostGroupDiscover x req d =
     (case req of
        None \<Rightarrow> access_denied 400 ''invalid request''
      | Some limit \<Rightarrow>
          (case requireJoined x d of
             Inl rep \<Rightarrow> rep
           | Inr (user, _) \<Rightarrow>
               (case DiscoverGroups (sx_env x) (if limit \<le> 0 \<or> limit > 20 then 20 else limit) None (Some (u_ID user)) d of
                  Inl err \<Rightarrow> write_error x err
                | Inr rows \<Rightarrow> Proto 200 (map discoverGroupToProto rows))))"

definition PostGroupsForPodcast :: "sctx \<Rightarrow> string option \<Rightarrow> social_db \<Rightarrow> pb_SocialGroup list reply" where
  "PostGroupsForPodcast x req d =
     (case req of
        None \<Rightarrow> access_denied 400 ''invalid request''
      | Some podcast \<Rightarrow>
          if \<not> uuidPattern podcast then access_denied 400 ''invalid request''
          else (case DiscoverGroups (sx_env x) 20 (Some podcast) (viewerRef (optionalViewerID x d)) d of
                  Inl err \<Rightarrow> write_error x err
                | Inr rows \<Rightarrow> Proto 200 (map discoverGroupToProto rows)))"

subsection \<open>Membership\<close>

text \<open>The role column is a \<^verbatim>\<open>SMALLINT\<close>, so the conversion \<^verbatim>\<open>int16(group.YourRole)\<close> keeps its value.\<close>

definition PostGroupJoin :: "sctx \<Rightarrow> int option \<Rightarrow> social_db \<Rightarrow> bool reply \<times> social_db" where
  "PostGroupJoin x req d =
     (case req of
        None \<Rightarrow> (access_denied 400 ''invalid request'', d)
      | Some gid \<Rightarrow>
          if gid \<le> 0 then (access_denied 400 ''invalid request'', d)
          else (case requireJoined x d of
                  Inl rep \<Rightarrow> (rep, d)
                | Inr (user, _) \<Rightarrow>
                    (case GetSocialGroup (sx_env x) gid (Some (u_ID user)) d of
                       Inl _ \<Rightarrow> (group_gone, d)
                     | Inr grp \<Rightarrow>
                         if gr_Visibility grp \<noteq> groupVisPublic then (group_gone, d)
                         else if gr_YourRole grp = groupRoleBanned then (access_denied 403 ''cannot join this group'', d)
                         else if gr_YourRole grp = groupRoleMember \<or> gr_YourRole grp = groupRoleOwner then (Proto 200 True, d)
                         else (case UpsertGroupMember (sx_env x) (sx_db x 0) gid (u_ID user) groupRoleMember None d of
                                 Inl err \<Rightarrow> (write_error x err, d)
                               | Inr d' \<Rightarrow> (Proto 200 True, d')))))"

definition PostGroupLeave :: "sctx \<Rightarrow> int option \<Rightarrow> social_db \<Rightarrow> bool reply \<times> social_db" where
  "PostGroupLeave x req d =
     (case req of
        None \<Rightarrow> (access_denied 400 ''invalid request'', d)
      | Some gid \<Rightarrow>
          if gid \<le> 0 then (access_denied 400 ''invalid request'', d)
          else (case requireJoined x d of
                  Inl rep \<Rightarrow> (rep, d)
                | Inr (user, _) \<Rightarrow>
                    (case GetGroupMember (sx_env x) gid (u_ID user) d of
                       Inl _ \<Rightarrow> (group_gone, d)
                     | Inr member \<Rightarrow>
                         if gm_Role member = groupRoleBanned then (group_gone, d)
                         else if gm_Role member = groupRoleOwner
                         then (access_denied 400 ''owners delete their group instead'', d)
                         else (case DeleteGroupMember (sx_env x) gid (u_ID user) d of
                                 Inl err \<Rightarrow> (write_error x err, d)
                               | Inr (_, d') \<Rightarrow> (Proto 200 True, d')))))"

text \<open>The end of an invitation: the caller is a member, the group has room, the target is visible.\<close>

definition invite_target ::
  "sctx \<Rightarrow> User \<Rightarrow> SocialProfile \<Rightarrow> int \<Rightarrow> SocialProfile \<Rightarrow> social_db \<Rightarrow> bool reply \<times> social_db \<times> data_push list" where
  "invite_target x user profile gid target d =
     (case GetGroupMember (sx_env x) gid (sp_UserID target) d of
        Inr existing \<Rightarrow>
          (if gm_Role existing = groupRoleBanned then access_denied 404 ''profile not found'' else Proto 200 True, d, [])
      | Inl err \<Rightarrow>
          if \<not> Is_ErrNoRows err then (write_error x err, d, [])
          else (case UpsertGroupMember (sx_env x) (sx_db x 0) gid (sp_UserID target) groupRoleInvited (Some (u_ID user)) d of
                  Inl err \<Rightarrow> (write_error x err, d, [])
                | Inr d' \<Rightarrow>
                    (Proto 200 True, d',
                     if \<not> mutedBy x (sp_UserID target) (u_ID user) d'
                     then notifyData x (sp_UserID target) SocialPushGroupInvite (sp_Handle profile) (sp_DisplayName profile)
                            [(''group_id'', FormatInt gid)]
                     else [])))"

definition PostGroupInvite ::
  "sctx \<Rightarrow> (int \<times> string) option \<Rightarrow> social_db \<Rightarrow> bool reply \<times> social_db \<times> data_push list" where
  "PostGroupInvite x req d =
     (case req of
        None \<Rightarrow> (access_denied 400 ''invalid request'', d, [])
      | Some (gid, handle) \<Rightarrow>
          if gid \<le> 0 \<or> handle = '''' then (access_denied 400 ''invalid request'', d, [])
          else (case requireJoined x d of
                  Inl rep \<Rightarrow> (rep, d, [])
                | Inr (user, profile) \<Rightarrow>
                    (case GetGroupMember (sx_env x) gid (u_ID user) d of
                       Inl _ \<Rightarrow> (group_gone, d, [])
                     | Inr member \<Rightarrow>
                         if gm_Role member \<noteq> groupRoleMember \<and> gm_Role member \<noteq> groupRoleOwner then (group_gone, d, [])
                         else (case GetSocialGroup (sx_env x) gid (Some (u_ID user)) d of
                                 Inl err \<Rightarrow> (write_error x err, d, [])
                               | Inr grp \<Rightarrow>
                                   if gr_Visibility grp = groupVisPrivate \<and> gr_MemberCount grp \<ge> groupPrivateCap
                                   then (access_denied 409 ''group is full'', d, [])
                                   else (case resolveFollowTarget x (u_ID user) handle d of
                                           Inl rep \<Rightarrow> (rep, d, [])
                                         | Inr target \<Rightarrow> invite_target x user profile gid target d)))))"

definition PostGroupInviteRespond :: "sctx \<Rightarrow> (int \<times> bool) option \<Rightarrow> social_db \<Rightarrow> bool reply \<times> social_db" where
  "PostGroupInviteRespond x req d =
     (case req of
        None \<Rightarrow> (access_denied 400 ''invalid request'', d)
      | Some (gid, accept) \<Rightarrow>
          if gid \<le> 0 then (access_denied 400 ''invalid request'', d)
          else (case requireJoined x d of
                  Inl rep \<Rightarrow> (rep, d)
                | Inr (user, _) \<Rightarrow>
                    (case GetGroupMember (sx_env x) gid (u_ID user) d of
                       Inl _ \<Rightarrow> (access_denied 404 ''invite not found'', d)
                     | Inr member \<Rightarrow>
                         if gm_Role member \<noteq> groupRoleInvited then (access_denied 404 ''invite not found'', d)
                         else if accept then
                           (case GetSocialGroup (sx_env x) gid (Some (u_ID user)) d of
                              Inl err \<Rightarrow> (write_error x err, d)
                            | Inr grp \<Rightarrow>
                                if gr_Visibility grp = groupVisPrivate \<and> gr_MemberCount grp \<ge> groupPrivateCap
                                then (access_denied 409 ''group is full'', d)
                                else (case UpsertGroupMember (sx_env x) (sx_db x 0) gid (u_ID user) groupRoleMember None d of
                                        Inl err \<Rightarrow> (write_error x err, d)
                                      | Inr d' \<Rightarrow> (Proto 200 True, d')))
                         else (case DeleteGroupMember (sx_env x) gid (u_ID user) d of
                                 Inl err \<Rightarrow> (write_error x err, d)
                               | Inr (_, d') \<Rightarrow> (Proto 200 True, d')))))"

definition PostGroupKick :: "sctx \<Rightarrow> (int \<times> string \<times> bool) option \<Rightarrow> social_db \<Rightarrow> bool reply \<times> social_db" where
  "PostGroupKick x req d =
     (case req of
        None \<Rightarrow> (access_denied 400 ''invalid request'', d)
      | Some (gid, handle, ban) \<Rightarrow>
          if gid \<le> 0 \<or> handle = '''' then (access_denied 400 ''invalid request'', d)
          else (case requireJoined x d of
                  Inl rep \<Rightarrow> (rep, d)
                | Inr (user, _) \<Rightarrow>
                    (case GetGroupMember (sx_env x) gid (u_ID user) d of
                       Inl _ \<Rightarrow> (group_gone, d)
                     | Inr member \<Rightarrow>
                         if gm_Role member \<noteq> groupRoleOwner then (group_gone, d)
                         else (case GetSocialProfileByHandle (sx_env x) (sx_lib x) (normalizeHandle (sx_lib x) handle) d of
                                 Inl _ \<Rightarrow> (access_denied 404 ''member not found'', d)
                               | Inr target \<Rightarrow>
                                   if sp_UserID target = u_ID user then (access_denied 404 ''member not found'', d)
                                   else if ban then
                                     (case UpsertGroupMember (sx_env x) (sx_db x 0) gid (sp_UserID target) groupRoleBanned None d of
                                        Inl err \<Rightarrow> (write_error x err, d)
                                      | Inr d' \<Rightarrow> (Proto 200 True, d'))
                                   else
                                     (case DeleteGroupMember (sx_env x) gid (sp_UserID target) d of
                                        Inl err \<Rightarrow> (write_error x err, d)
                                      | Inr (_, d') \<Rightarrow> (Proto 200 True, d'))))))"

definition PostGroupAlert :: "sctx \<Rightarrow> (int \<times> bool) option \<Rightarrow> social_db \<Rightarrow> bool reply \<times> social_db" where
  "PostGroupAlert x req d =
     (case req of
        None \<Rightarrow> (access_denied 400 ''invalid request'', d)
      | Some (gid, enabled) \<Rightarrow>
          if gid \<le> 0 then (access_denied 400 ''invalid request'', d)
          else (case requireJoined x d of
                  Inl rep \<Rightarrow> (rep, d)
                | Inr (user, _) \<Rightarrow>
                    (case SetGroupMemberNotify (sx_env x) gid (u_ID user) enabled d of
                       Inl err \<Rightarrow> (write_error x err, d)
                     | Inr (affected, d') \<Rightarrow> (if affected = 0 then group_gone else Proto 200 True, d'))))"

text \<open>Who may read a group: everyone a public one, the members a private one.\<close>

definition group_readable :: "GroupRow \<Rightarrow> bool" where
  "group_readable g \<longleftrightarrow>
     gr_Visibility g = groupVisPublic \<or> gr_YourRole g = groupRoleMember \<or> gr_YourRole g = groupRoleOwner"

definition group_limit :: "int \<Rightarrow> int" where
  "group_limit limit = (if limit \<le> 0 \<or> limit > maxGroupPageSize then maxGroupPageSize else limit)"

record GroupMembersRequest =
  gmr_GroupId :: int
  gmr_Limit :: int
  gmr_Offset :: int

definition PostGroupMembers :: "sctx \<Rightarrow> GroupMembersRequest option \<Rightarrow> social_db \<Rightarrow> (GroupMemberRow list \<times> int) reply" where
  "PostGroupMembers x req d =
     (case req of
        None \<Rightarrow> access_denied 400 ''invalid request''
      | Some req \<Rightarrow>
          if gmr_GroupId req \<le> 0 then access_denied 400 ''invalid request''
          else (case requireJoined x d of
                  Inl rep \<Rightarrow> rep
                | Inr (user, _) \<Rightarrow>
                    (case GetSocialGroup (sx_env x) (gmr_GroupId req) (Some (u_ID user)) d of
                       Inl _ \<Rightarrow> group_gone
                     | Inr grp \<Rightarrow>
                         if \<not> group_readable grp then group_gone
                         else (case GetGroupMembers (sx_env x) (gmr_GroupId req) (group_limit (gmr_Limit req))
                                      (max (gmr_Offset req) 0) (Some (u_ID user)) d of
                                 Inl err \<Rightarrow> write_error x err
                               | Inr rows \<Rightarrow>
                                   (case CountGroupMembers (sx_env x) (gmr_GroupId req) d of
                                      Inl err \<Rightarrow> write_error x err
                                    | Inr n \<Rightarrow> Proto 200 (rows, int32 n))))))"

subsection \<open>Posts\<close>

record GroupPostRequest =
  gpq_GroupId :: int
  gpq_ParentId :: int
  gpq_Text :: string
  gpq_EpisodeUuid :: string
  gpq_PodcastUuid :: string
  gpq_EpisodeTitle :: string
  gpq_PodcastTitle :: string
  gpq_ListId :: int
  gpq_ListTitle :: string

record pb_GroupPost =
  pgp_Id :: int
  pgp_GroupId :: int
  pgp_ParentId :: int
  pgp_UserId :: string
  pgp_Handle :: string
  pgp_DisplayName :: string
  pgp_Text :: string
  pgp_EpisodeUuid :: string
  pgp_PodcastUuid :: string
  pgp_EpisodeTitle :: string
  pgp_PodcastTitle :: string
  pgp_ListId :: int
  pgp_ListTitle :: string
  pgp_CreatedAt :: instant
  pgp_Edited :: bool
  pgp_Removed :: bool
  pgp_ReplyCount :: int

record GroupPostFanoutPayload =
  gfp_GroupID :: int
  gfp_PostID :: int
  gfp_ActorUserID :: int
  gfp_ActorHandle :: string
  gfp_ActorDisplayName :: string

text \<open>
  What a submission hands on: the push to the author of the parent, and the fan-out of a post at
  the top level.  \<open>parent_of\<close> is the lookup of the parent: nothing for a top-level post, else the
  parent's id, its thread's root and the author to notify.
\<close>

definition post_gone :: "'m reply" where
  "post_gone = access_denied 404 ''post not found''"

record parent_ref =
  pre_ParentID :: "int option"
  pre_RootID :: "int option"
  pre_Author :: "int option"

definition parent_of :: "sctx \<Rightarrow> int \<Rightarrow> int \<Rightarrow> int \<Rightarrow> social_db \<Rightarrow> 'm reply + parent_ref" where
  "parent_of x uid gid pid d =
     (if pid > 0 then
        (case GetGroupPostByID (sx_env x) pid d of
           Inl _ \<Rightarrow> Inl post_gone
         | Inr (parent, _) \<Rightarrow>
             if gp_GroupID parent \<noteq> gid \<or> gp_RemovedAt parent \<noteq> None then Inl post_gone
             else
               let root = (case gp_RootID parent of None \<Rightarrow> gp_ID parent | Some r \<Rightarrow> r);
                   ref = (\<lambda>author. \<lparr>pre_ParentID = Some (gp_ID parent), pre_RootID = Some root, pre_Author = author\<rparr>)
               in (case gp_UserID parent of
                     None \<Rightarrow> Inr (ref None)
                   | Some author \<Rightarrow>
                       if author = uid then Inr (ref None)
                       else (case IsBlockedEither (sx_env x) uid author d of
                               Inl err \<Rightarrow> Inl (write_error x err)
                             | Inr blocked \<Rightarrow> if blocked then Inl post_gone else Inr (ref (Some author)))))
      else Inr \<lparr>pre_ParentID = None, pre_RootID = None, pre_Author = None\<rparr>)"

definition post_texts :: "sctx \<Rightarrow> string \<Rightarrow> 'm reply option" where
  "post_texts x text =
     (if length text > groupPostMaxLen then Some (access_denied 400 ''post too long'')
      else if CheckText (al_ToLower (sx_lib x)) (sx_blocklist x) text \<noteq> None
      then Some (access_denied 422 ''post rejected'')
      else None)"

definition post_params :: "int \<Rightarrow> GroupPostRequest \<Rightarrow> parent_ref \<Rightarrow> InsertGroupPostParams" where
  "post_params uid req p =
     \<lparr>igp_GroupID = gpq_GroupId req, igp_UserID = Some uid, igp_Text = gpq_Text req, igp_EpisodeUuid = gpq_EpisodeUuid req,
      igp_PodcastUuid = truncateRunes (gpq_PodcastUuid req) maxUuidFieldLen,
      igp_EpisodeTitle = truncateRunes (gpq_EpisodeTitle req) maxTitleLen,
      igp_PodcastTitle = truncateRunes (gpq_PodcastTitle req) maxTitleLen, igp_ListID = gpq_ListId req,
      igp_ListTitle = truncateRunes (gpq_ListTitle req) maxTitleLen, igp_ParentID = pre_ParentID p,
      igp_RootID = pre_RootID p\<rparr>"

definition PostGroupPostSubmit ::
  "sctx \<Rightarrow> GroupPostRequest option \<Rightarrow> social_db \<Rightarrow>
   pb_GroupPost reply \<times> social_db \<times> data_push list \<times> GroupPostFanoutPayload option" where
  "PostGroupPostSubmit x req d =
     (case req of
        None \<Rightarrow> (access_denied 400 ''invalid request'', d, [], None)
      | Some req \<Rightarrow>
          if gpq_GroupId req \<le> 0 \<or> gpq_Text req = '''' then (access_denied 400 ''invalid request'', d, [], None)
          else (case post_texts x (gpq_Text req) of
                  Some rep \<Rightarrow> (rep, d, [], None)
                | None \<Rightarrow>
                    if gpq_EpisodeUuid req \<noteq> '''' \<and> length (gpq_EpisodeUuid req) > maxUuidFieldLen
                    then (access_denied 400 ''invalid episode'', d, [], None)
                    else (case requireJoined x d of
                            Inl rep \<Rightarrow> (rep, d, [], None)
                          | Inr (user, profile) \<Rightarrow>
                              (case GetGroupMember (sx_env x) (gpq_GroupId req) (u_ID user) d of
                                 Inl _ \<Rightarrow> (group_gone, d, [], None)
                               | Inr member \<Rightarrow>
                                   if gm_Role member \<noteq> groupRoleMember \<and> gm_Role member \<noteq> groupRoleOwner
                                   then (group_gone, d, [], None)
                                   else (case parent_of x (u_ID user) (gpq_GroupId req) (gpq_ParentId req) d of
                                           Inl rep \<Rightarrow> (rep, d, [], None)
                                         | Inr p \<Rightarrow>
                                             let a = post_params (u_ID user) req p
                                             in (case InsertGroupPost (sx_env x) (sx_db x 0) (sx_id x) a d of
                                                   Inl err \<Rightarrow> (write_error x err, d, [], None)
                                                 | Inr ((i, at), d') \<Rightarrow>
                                                     (Proto 200 \<lparr>pgp_Id = i, pgp_GroupId = gpq_GroupId req,
                                                        pgp_ParentId = gpq_ParentId req, pgp_UserId = u_Uuid user,
                                                        pgp_Handle = sp_Handle profile,
                                                        pgp_DisplayName = sp_DisplayName profile, pgp_Text = gpq_Text req,
                                                        pgp_EpisodeUuid = igp_EpisodeUuid a,
                                                        pgp_PodcastUuid = igp_PodcastUuid a,
                                                        pgp_EpisodeTitle = igp_EpisodeTitle a,
                                                        pgp_PodcastTitle = igp_PodcastTitle a,
                                                        pgp_ListId = igp_ListID a, pgp_ListTitle = igp_ListTitle a,
                                                        pgp_CreatedAt = at, pgp_Edited = False, pgp_Removed = False,
                                                        pgp_ReplyCount = 0\<rparr>, d',
                                                      (case pre_Author p of
                                                         None \<Rightarrow> []
                                                       | Some author \<Rightarrow>
                                                           if mutedBy x author (u_ID user) d' then []
                                                           else notifyData x author SocialPushCommentReply
                                                                  (sp_Handle profile) (sp_DisplayName profile)
                                                                  [(''group_id'', FormatInt (gpq_GroupId req)),
                                                                   (''post_id'', FormatInt i)]),
                                                      if gpq_ParentId req = 0
                                                      then Some \<lparr>gfp_GroupID = gpq_GroupId req, gfp_PostID = i,
                                                             gfp_ActorUserID = u_ID user,
                                                             gfp_ActorHandle = sp_Handle profile,
                                                             gfp_ActorDisplayName = sp_DisplayName profile\<rparr>
                                                      else None)))))))"

text \<open>
  The fan-out of \<^verbatim>\<open>dispatchGroupPostFanout\<close> without a queue, once it has a slot: it runs later, on the
  database of that moment.
\<close>

definition group_fanout :: "sctx \<Rightarrow> GroupPostFanoutPayload \<Rightarrow> social_db \<Rightarrow> data_push list" where
  "group_fanout x p d =
     (case GetGroupNotifyTargets (sx_env x) (gfp_GroupID p) (gfp_ActorUserID p) d of
        Inl _ \<Rightarrow> []
      | Inr targets \<Rightarrow>
          concat (map (\<lambda>target. notifyData x target SocialPushGroupPost (gfp_ActorHandle p) (gfp_ActorDisplayName p)
                         [(''group_id'', FormatInt (gfp_GroupID p)), (''post_id'', FormatInt (gfp_PostID p))]) targets))"

record GroupPostsRequest =
  gps_GroupId :: int
  gps_ParentId :: int
  gps_Limit :: int
  gps_Offset :: int

record GroupPostsResponse =
  gpp_Group :: "pb_SocialGroup option"
  gpp_Posts :: "pb_GroupPost list"
  gpp_Total :: int

text \<open>A tombstone ships neither text nor author nor attachments.\<close>

definition postToProto :: "int \<Rightarrow> GroupPostRow \<Rightarrow> pb_GroupPost" where
  "postToProto gid row =
     (let p = gpr_post row; live = gp_RemovedAt p = None; opt = (\<lambda>v. case v of None \<Rightarrow> '''' | Some s \<Rightarrow> s)
      in \<lparr>pgp_Id = gp_ID p, pgp_GroupId = gid,
          pgp_ParentId = (case gp_ParentID p of None \<Rightarrow> 0 | Some q \<Rightarrow> q),
          pgp_UserId = (if live then opt (gpr_AuthorUuid row) else ''''),
          pgp_Handle = (if live then opt (gpr_Handle row) else ''''),
          pgp_DisplayName = (if live then opt (gpr_DisplayName row) else ''''),
          pgp_Text = (if live then gp_Text p else ''''),
          pgp_EpisodeUuid = (if live then gp_EpisodeUuid p else ''''),
          pgp_PodcastUuid = (if live then gp_PodcastUuid p else ''''),
          pgp_EpisodeTitle = (if live then gp_EpisodeTitle p else ''''),
          pgp_PodcastTitle = (if live then gp_PodcastTitle p else ''''),
          pgp_ListId = (if live then gp_ListID p else 0), pgp_ListTitle = (if live then gp_ListTitle p else ''''),
          pgp_CreatedAt = gp_CreatedAt p, pgp_Edited = (gp_EditedAt p \<noteq> None), pgp_Removed = (gp_RemovedAt p \<noteq> None),
          pgp_ReplyCount = gpr_ReplyCount row\<rparr>)"

definition PostGroupPosts :: "sctx \<Rightarrow> GroupPostsRequest option \<Rightarrow> social_db \<Rightarrow> GroupPostsResponse reply" where
  "PostGroupPosts x req d =
     (case req of
        None \<Rightarrow> access_denied 400 ''invalid request''
      | Some req \<Rightarrow>
          if gps_GroupId req \<le> 0 then access_denied 400 ''invalid request''
          else
            let viewer = viewerRef (optionalViewerID x d)
            in case GetSocialGroup (sx_env x) (gps_GroupId req) viewer d of
                 Inl _ \<Rightarrow> group_gone
               | Inr grp \<Rightarrow>
                   if \<not> group_readable grp then group_gone
                   else
                     let parent = (if gps_ParentId req > 0 then Some (gps_ParentId req) else None)
                     in (case GetGroupPosts (sx_env x) (gps_GroupId req) parent viewer (group_limit (gps_Limit req))
                                (max (gps_Offset req) 0) d of
                           Inl err \<Rightarrow> write_error x err
                         | Inr rows \<Rightarrow>
                             (case CountGroupPosts (sx_env x) (gps_GroupId req) parent viewer d of
                                Inl err \<Rightarrow> write_error x err
                              | Inr n \<Rightarrow>
                                  Proto 200 \<lparr>gpp_Group = (if gps_ParentId req = 0 then Some (memberGroupToProto grp) else None),
                                    gpp_Posts = map (postToProto (gps_GroupId req)) rows, gpp_Total = int32 n\<rparr>)))"

definition PostGroupPostEdit :: "sctx \<Rightarrow> (int \<times> string) option \<Rightarrow> social_db \<Rightarrow> bool reply \<times> social_db" where
  "PostGroupPostEdit x req d =
     (case req of
        None \<Rightarrow> (access_denied 400 ''invalid request'', d)
      | Some (pid, text) \<Rightarrow>
          if pid \<le> 0 \<or> text = '''' then (access_denied 400 ''invalid request'', d)
          else (case post_texts x text of
                  Some rep \<Rightarrow> (rep, d)
                | None \<Rightarrow>
                    (case requireJoined x d of
                       Inl rep \<Rightarrow> (rep, d)
                     | Inr (user, _) \<Rightarrow>
                         (case GetGroupPostByID (sx_env x) pid d of
                            Inl _ \<Rightarrow> (post_gone, d)
                          | Inr (post, hasReplies) \<Rightarrow>
                              if gp_RemovedAt post \<noteq> None \<or> gp_UserID post \<noteq> Some (u_ID user) then (post_gone, d)
                              else if hasReplies \<or> sx_now x - gp_CreatedAt post > groupPostEditGrace
                              then (access_denied 409 ''edit window closed'', d)
                              else (case EditGroupPost (sx_env x) (sx_db x 0) pid (u_ID user) text d of
                                      Inl err \<Rightarrow> (write_error x err, d)
                                    | Inr (_, d') \<Rightarrow> (Proto 200 True, d'))))))"

definition tombstone_work :: "sctx \<Rightarrow> int \<Rightarrow> int \<Rightarrow> social_db \<Rightarrow> (int \<times> social_db) result" where
  "tombstone_work x uid pid d =
     rbind (TombstoneGroupPost (sx_env x) (sx_db x 0) pid uid d) (\<lambda>(affected, d).
       if affected = 0 then TombstoneGroupPostAsOwner (sx_env x) (sx_db x 0) pid uid d else Inr (affected, d))"

definition PostGroupPostDelete :: "sctx \<Rightarrow> int option \<Rightarrow> social_db \<Rightarrow> bool reply \<times> social_db" where
  "PostGroupPostDelete x req d =
     (case req of
        None \<Rightarrow> (access_denied 400 ''invalid request'', d)
      | Some pid \<Rightarrow>
          if pid \<le> 0 then (access_denied 400 ''invalid request'', d)
          else (case requireJoined x d of
                  Inl rep \<Rightarrow> (rep, d)
                | Inr (user, _) \<Rightarrow>
                    (case tombstone_work x (u_ID user) pid d of
                       Inl err \<Rightarrow> (write_error x err, d)
                     | Inr (affected, d') \<Rightarrow> (if affected = 0 then post_gone else Proto 200 True, d'))))"

end
