(* ===== verification/Social_Runs.thy ===== *)
theory Social_Runs
  imports Social_Erasure
begin

section \<open>Runs of the social endpoints and the effect of every request\<close>

text \<open>
  \<open>social_exec x a d\<close> is the database after the request \<open>a\<close> in the context \<open>x\<close>, for every
  handler of \<^verbatim>\<open>src/handlers/social.go\<close> and \<^verbatim>\<open>src/handlers/graph.go\<close> that writes, and for the
  deletion of the account; \<open>social_run\<close> executes a list of requests.  The lemmas say, once per
  table, which requests change it and how; the properties rest on them.
\<close>

subsection \<open>Requests\<close>

datatype social_act =
    Join "JoinRequest option"
  | EditProfile "ProfileUpdateRequest option"
  | Block "string option"
  | Unblock "string option"
  | Mute "string option"
  | Unmute "string option"
  | Follow "string option"
  | Unfollow "string option"
  | Approve "(string \<times> bool) option"
  | Report "ReportRequest option"
  | Erase "unit option"
  | DeleteAccount "unit option"

fun social_exec :: "sctx \<Rightarrow> social_act \<Rightarrow> social_db \<Rightarrow> social_db" where
  "social_exec x (Join req) d = snd (PostSocialJoin x req d)"
| "social_exec x (EditProfile req) d = snd (PostSocialProfileUpdate x req d)"
| "social_exec x (Block req) d = snd (PostSocialBlock x req d)"
| "social_exec x (Unblock req) d = snd (PostSocialUnblock x req d)"
| "social_exec x (Mute req) d = snd (PostSocialMute x req d)"
| "social_exec x (Unmute req) d = snd (PostSocialUnmute x req d)"
| "social_exec x (Follow req) d = fst (snd (PostFollow x req d))"
| "social_exec x (Unfollow req) d = snd (PostUnfollow x req d)"
| "social_exec x (Approve req) d = fst (snd (PostFollowApprove x req d))"
| "social_exec x (Report req) d = snd (PostSocialReport x req d)"
| "social_exec x (Erase req) d = snd (PostSocialErase x req d)"
| "social_exec x (DeleteAccount req) d = snd (PostDeleteAccount x req d)"

fun social_run :: "(sctx \<times> social_act) list \<Rightarrow> social_db \<Rightarrow> social_db" where
  "social_run [] d = d"
| "social_run ((x, a) # as) d = social_run as (social_exec x a d)"

lemma social_run_append: "social_run (as @ bs) d = social_run bs (social_run as d)"
  by (induction as d rule: social_run.induct) simp_all

text \<open>The authenticated user of a request, and the user with the profile it needs.\<close>

definition caller :: "sctx \<Rightarrow> social_db \<Rightarrow> User option" where
  "caller x d =
     (case sx_user x of
        None \<Rightarrow> None
      | Some cu \<Rightarrow> (case GetUserByUUID (sx_env x) (au_UUID cu) (sd_core d) of Inl _ \<Rightarrow> None | Inr u \<Rightarrow> Some u))"

lemma caller_core: "sd_core d' = sd_core d \<Longrightarrow> caller x d' = caller x d"
  by (cases "sx_user x") (simp_all add: caller_def)

lemma social_user_Inr [res_simps]: "social_user x d = Inr u \<longleftrightarrow> caller x d = Some u"
  by (auto simp: social_user_def currentDbUser_def caller_def split: option.split sum.split)

lemma social_user_None: "caller x d = None \<Longrightarrow> \<exists>rep. social_user x d = Inl rep"
  by (auto simp: social_user_def currentDbUser_def caller_def split: option.splits sum.splits)

lemma requireJoined_Inr [res_simps]:
  "requireJoined x d = (Inr (u, p) :: 'm reply + User \<times> SocialProfile) \<longleftrightarrow>
     caller x d = Some u \<and> GetSocialProfileByUserID (sx_env x) (u_ID u) d = Inr p"
proof (cases "caller x d")
  case None
  then obtain rep where "social_user x d = (Inl rep :: 'm reply + User)" using social_user_None by blast
  with None show ?thesis by (simp add: requireJoined_def)
next
  case (Some v)
  then have "social_user x d = (Inr v :: 'm reply + User)" by (simp add: social_user_Inr)
  with Some show ?thesis by (auto simp: requireJoined_def split: sum.split)
qed

lemma resolveFollowTarget_Inr [res_simps]:
  "resolveFollowTarget x i h d = Inr t \<longleftrightarrow>
     GetSocialProfileByHandle (sx_env x) (sx_lib x) (normalizeHandle (sx_lib x) h) d = Inr t \<and> sp_UserID t \<noteq> i \<and>
     IsBlockedEither (sx_env x) i (sp_UserID t) d = Inr False"
  by (auto simp: resolveFollowTarget_def split: sum.split)

lemma follow_check_Inr [res_simps]:
  "follow_check x h d = (Inr (u, p, t) :: 'm reply + User \<times> SocialProfile \<times> SocialProfile) \<longleftrightarrow>
     caller x d = Some u \<and> GetSocialProfileByUserID (sx_env x) (u_ID u) d = Inr p \<and>
     GetSocialProfileByHandle (sx_env x) (sx_lib x) (normalizeHandle (sx_lib x) h) d = Inr t \<and> sp_UserID t \<noteq> u_ID u \<and>
     IsBlockedEither (sx_env x) (u_ID u) (sp_UserID t) d = Inr False"
proof -
  have "follow_check x h d = (Inr (u, p, t) :: 'm reply + User \<times> SocialProfile \<times> SocialProfile) \<longleftrightarrow>
     requireJoined x d = (Inr (u, p) :: 'm reply + User \<times> SocialProfile) \<and>
     resolveFollowTarget x (u_ID u) h d = (Inr t :: 'm reply + SocialProfile)"
    unfolding follow_check_def
    by (cases "requireJoined x d :: 'm reply + User \<times> SocialProfile") (auto split: sum.splits prod.splits)
  then show ?thesis by (simp add: requireJoined_Inr resolveFollowTarget_Inr)
qed

subsection \<open>Joining and editing the profile\<close>

definition claimed :: "auth_lib \<Rightarrow> instant \<Rightarrow> string \<Rightarrow> int \<Rightarrow> SocialHandle list \<Rightarrow> SocialHandle list \<Rightarrow> bool" where
  "claimed l now h uid hs hs' \<longleftrightarrow>
     hs' = hs @ [\<lparr>sh_Handle = h, sh_UserID = Some uid, sh_Status = 0, sh_ClaimedAt = now, sh_ReleasedAt = None\<rparr>] \<and>
     al_citext l h \<notin> (\<lambda>r. al_citext l (sh_Handle r)) ` set hs"

definition joined :: "auth_lib \<Rightarrow> instant \<Rightarrow> social_db \<Rightarrow> social_db \<Rightarrow> bool" where
  "joined l now d d' \<longleftrightarrow>
     (\<exists>h uid p. claimed l now h uid (sd_handles d) (sd_handles d') \<and> handlePattern h \<and>
        d' = d\<lparr>sd_handles := sd_handles d', sd_profiles := sd_profiles d @ [p]\<rparr> \<and>
        sp_UserID p = uid \<and> sp_Handle p = h \<and> uid \<notin> sp_UserID ` set (sd_profiles d) \<and>
        Some uid \<notin> sh_UserID ` set (sd_handles d))"

lemma joined_tables:
  assumes "joined l now d d'"
  shows "sd_follows d' = sd_follows d" "sd_relationships d' = sd_relationships d"
proof -
  from assms obtain p where e: "d' = d\<lparr>sd_handles := sd_handles d', sd_profiles := sd_profiles d @ [p]\<rparr>"
    unfolding joined_def by blast
  show "sd_follows d' = sd_follows d" using arg_cong [OF e, of sd_follows] by simp
  show "sd_relationships d' = sd_relationships d" using arg_cong [OF e, of sd_relationships] by simp
qed

lemma join_tx_Inr:
  assumes "join_tx x uid h name terms d = Inr (q, d')"
  shows "joined (sx_lib x) (sx_db x 0) d d'"
proof -
  let ?h = "\<lparr>sh_Handle = h, sh_UserID = Some uid, sh_Status = 0, sh_ClaimedAt = sx_db x 0, sh_ReleasedAt = None\<rparr>"
  from assms have "handlePattern h" "\<forall>r \<in> set (sd_handles d). al_citext (sx_lib x) (sh_Handle r) \<noteq> al_citext (sx_lib x) h"
    "\<forall>r \<in> set (sd_handles d). sh_UserID r \<noteq> Some uid" "\<forall>p \<in> set (sd_profiles d). sp_UserID p \<noteq> uid"
    and d': "d' = d\<lparr>sd_handles := sd_handles d @ [?h], sd_profiles := sd_profiles d @ [new_profile (sx_db x 0) uid h name terms]\<rparr>"
    by (auto simp: join_tx_def ClaimHandle_def CreateSocialProfile_def res_simps Let_def split: if_splits)
  then show ?thesis
    unfolding joined_def claimed_def
    by (intro exI [of _ h] exI [of _ uid] exI [of _ "new_profile (sx_db x 0) uid h name terms"]) (auto simp: new_profile_def)
qed

lemma join_effect: "snd (PostSocialJoin x req d) = d \<or> joined (sx_lib x) (sx_db x 0) d (snd (PostSocialJoin x req d))"
proof -
  have "d1 = d \<or> joined (sx_lib x) (sx_db x 0) d d1"
    if "InTx (sx_env x) (join_tx x uid h name terms) d = (r, d1)" for r d1 uid h name terms
    using that InTx_Inl [of "sx_env x" "join_tx x uid h name terms" d] join_tx_Inr [of x uid h name terms d]
    by (cases r) (auto simp: InTx_Inr)
  then show ?thesis
    by (auto simp: PostSocialJoin_def Let_def split: option.splits if_splits sum.splits prod.splits)
qed

lemma profile_effect:
  "\<exists>ps. snd (PostSocialProfileUpdate x req d) = d\<lparr>sd_profiles := ps\<rparr> \<and> map sp_UserID ps = map sp_UserID (sd_profiles d) \<and>
     map sp_Handle ps = map sp_Handle (sd_profiles d)"
proof -
  have same: "\<exists>ps. d = d\<lparr>sd_profiles := ps\<rparr> \<and> map sp_UserID ps = map sp_UserID (sd_profiles d) \<and> map sp_Handle ps = map sp_Handle (sd_profiles d)"
    by (rule exI [of _ "sd_profiles d"]) simp
  have upd: "\<exists>ps. d1 = d\<lparr>sd_profiles := ps\<rparr> \<and> map sp_UserID ps = map sp_UserID (sd_profiles d) \<and> map sp_Handle ps = map sp_Handle (sd_profiles d)"
    if "UpdateSocialProfile e now a d = Inr (p, d1)" for e now a p d1
    using that by (auto simp: UpdateSocialProfile_def res_simps update_where_def updated_profile_def)
  show ?thesis
    using same upd by (auto simp: PostSocialProfileUpdate_def Let_def split: option.splits sum.splits)
qed

subsection \<open>Relationships and follows\<close>

abbreviation related :: "instant \<Rightarrow> int \<Rightarrow> int \<Rightarrow> int \<Rightarrow> SocialRelationship list \<Rightarrow> SocialRelationship list" where
  "related now a b kind \<equiv> insert_new sr_key \<lparr>sr_UserID = a, sr_TargetUserID = b, sr_Kind = kind, sr_CreatedAt = now\<rparr>"

abbreviation unfollowed :: "int \<Rightarrow> int \<Rightarrow> SocialFollow list \<Rightarrow> SocialFollow list" where
  "unfollowed a b \<equiv> delete_where (\<lambda>f. sf_key f = (a, b))"

lemma relationship_work_add:
  assumes "relationship_work x a b kind True d = (err, d1)"
  obtains "d1 = d"
  | "d1 = d\<lparr>sd_relationships := related (sx_db x 2) a b kind (sd_relationships d)\<rparr>" "kind = relationshipBlock \<longrightarrow> \<not> healthy (sx_env x)"
  | "d1 = d\<lparr>sd_relationships := related (sx_db x 2) a b kind (sd_relationships d), sd_follows := unfollowed a b (sd_follows d)\<rparr>"
    "\<not> healthy (sx_env x)"
  | "d1 = d\<lparr>sd_relationships := related (sx_db x 2) a b kind (sd_relationships d),
       sd_follows := unfollowed b a (unfollowed a b (sd_follows d))\<rparr>"
proof (cases "UpsertSocialRelationship (sx_env x) (sx_db x 2) a b kind d")
  case (Inl e)
  with assms that(1) show thesis by (simp add: relationship_work_def)
next
  case (Inr d2)
  then have d2: "d2 = d\<lparr>sd_relationships := related (sx_db x 2) a b kind (sd_relationships d)\<rparr>"
    by (simp add: UpsertSocialRelationship_def res_simps split: if_splits)
  show thesis
  proof (cases "kind = relationshipBlock")
    case False
    with assms Inr d2 that(2) show thesis by (simp add: relationship_work_def)
  next
    case True
    show thesis
    proof (cases "DeleteFollow (sx_env x) a b d2")
      case (Inl e)
      then have "\<not> healthy (sx_env x)" by (auto simp: DeleteFollow_def)
      with assms Inr d2 True Inl that(2) show thesis by (simp add: relationship_work_def)
    next
      case (Inr r)
      then have r: "snd r = d2\<lparr>sd_follows := unfollowed a b (sd_follows d)\<rparr>"
        by (auto simp: DeleteFollow_def res_simps d2)
      show thesis
      proof (cases "DeleteFollow (sx_env x) b a (snd r)")
        case (Inl e)
        then have "\<not> healthy (sx_env x)" by (auto simp: DeleteFollow_def)
        with assms Inr \<open>UpsertSocialRelationship _ _ _ _ _ _ = _\<close> d2 r True Inl that(3) show thesis
          by (simp add: relationship_work_def split: prod.splits)
      next
        case (Inr r')
        then have "snd r' = d2\<lparr>sd_follows := unfollowed b a (unfollowed a b (sd_follows d))\<rparr>"
          by (auto simp: DeleteFollow_def res_simps r)
        with assms \<open>DeleteFollow (sx_env x) a b d2 = _\<close> \<open>UpsertSocialRelationship _ _ _ _ _ _ = _\<close> d2 True Inr that(4) show thesis
          by (simp add: relationship_work_def split: prod.splits)
      qed
    qed
  qed
qed

lemma relationship_work_remove:
  assumes "relationship_work x a b kind False d = (err, d1)"
  obtains "d1 = d" | "d1 = d\<lparr>sd_relationships := delete_where (\<lambda>r. sr_key r = (a, b, kind)) (sd_relationships d)\<rparr>"
  using assms by (auto simp: relationship_work_def DeleteSocialRelationship_def res_simps split: sum.splits)

lemma setRelationship_state:
  "snd (setRelationship x kind add req d) = d \<or>
   (\<exists>u t err. relationship_work x (u_ID u) t kind add d = (err, snd (setRelationship x kind add req d)) \<and>
      caller x d = Some u \<and> t \<noteq> u_ID u)"
  by (auto simp: setRelationship_def social_user_Inr split: option.split sum.split prod.split)

text \<open>
  \<open>rel_change\<close> collects what the four endpoints may do.  The last conjunct: a block that is added
  leaves no follow between the two users, if the database does not fail in between.
\<close>

definition rel_change :: "sctx \<Rightarrow> int \<Rightarrow> bool \<Rightarrow> social_db \<Rightarrow> social_db \<Rightarrow> bool" where
  "rel_change x kind add d d' \<longleftrightarrow>
     d' = d\<lparr>sd_relationships := sd_relationships d', sd_follows := sd_follows d'\<rparr> \<and>
     set (sd_follows d') \<subseteq> set (sd_follows d) \<and>
     (\<forall>r \<in> set (sd_relationships d') - set (sd_relationships d). add \<and> sr_Kind r = kind \<and>
        (\<exists>u. caller x d = Some u \<and> sr_UserID r = u_ID u \<and> sr_TargetUserID r \<noteq> u_ID u) \<and>
        (kind = relationshipBlock \<longrightarrow> healthy (sx_env x) \<longrightarrow>
           (\<forall>f \<in> set (sd_follows d'). sf_key f \<noteq> (sr_UserID r, sr_TargetUserID r) \<and>
              sf_key f \<noteq> (sr_TargetUserID r, sr_UserID r))))"

lemma rel_change_refl [simp]: "rel_change x kind add d d"
  by (simp add: rel_change_def)

lemma related_new: "r \<in> set (related now a b kind rs) - set rs \<Longrightarrow> r = \<lparr>sr_UserID = a, sr_TargetUserID = b, sr_Kind = kind, sr_CreatedAt = now\<rparr>"
  by (auto simp: insert_new_def split: if_splits)

lemma relationship_effect: "rel_change x kind add d (snd (setRelationship x kind add req d))"
proof -
  have "rel_change x kind add d d1"
    if w: "relationship_work x (u_ID u) t kind add d = (err, d1)" and u: "caller x d = Some u" "t \<noteq> u_ID u" for u t err d1
  proof (cases add)
    case False
    with w have "relationship_work x (u_ID u) t kind False d = (err, d1)" by simp
    then show ?thesis by (rule relationship_work_remove) (auto simp: rel_change_def tbl_simps)
  next
    case True
    with w have "relationship_work x (u_ID u) t kind True d = (err, d1)" by simp
    then show ?thesis
      by (rule relationship_work_add) (use u True in \<open>auto simp: rel_change_def tbl_simps dest!: related_new\<close>)
  qed
  with setRelationship_state [of x kind add req d] show ?thesis by (metis rel_change_refl)
qed

lemma rel_change_fields:
  assumes "rel_change x kind add d d'"
  shows "sd_handles d' = sd_handles d" "sd_profiles d' = sd_profiles d" "sd_core d' = sd_core d"
proof -
  from assms have e: "d' = d\<lparr>sd_relationships := sd_relationships d', sd_follows := sd_follows d'\<rparr>"
    unfolding rel_change_def by (rule conjunct1)
  show "sd_handles d' = sd_handles d" using arg_cong [OF e, of sd_handles] by simp
  show "sd_profiles d' = sd_profiles d" using arg_cong [OF e, of sd_profiles] by simp
  show "sd_core d' = sd_core d" using arg_cong [OF e, of sd_core] by simp
qed

lemma rel_change_follows: "rel_change x kind add d d' \<Longrightarrow> f \<in> set (sd_follows d') \<Longrightarrow> f \<in> set (sd_follows d)"
  unfolding rel_change_def by blast

lemma rel_change_new:
  "rel_change x kind add d d' \<Longrightarrow> r \<in> set (sd_relationships d') \<Longrightarrow> r \<in> set (sd_relationships d) \<or> add \<and> sr_Kind r = kind"
  unfolding rel_change_def by blast

lemmas relationship_defs = PostSocialBlock_def PostSocialUnblock_def PostSocialMute_def PostSocialUnmute_def

lemmas relationship_fields = rel_change_fields [OF relationship_effect]

subsection \<open>Following, approving, reporting\<close>

lemma DeleteFollow_Inr: "DeleteFollow e a b d = Inr (n, d1) \<Longrightarrow> d1 = d\<lparr>sd_follows := unfollowed a b (sd_follows d)\<rparr>"
  by (auto simp: DeleteFollow_def res_simps)

lemma unfollow_state:
  assumes "PostUnfollow x req d = (rep, d1)"
  shows "d1 = d \<or> (\<exists>e a b n. DeleteFollow e a b d = Inr (n, d1))"
  using assms unfolding PostUnfollow_def by (auto split: option.splits sum.splits prod.splits)

lemma unfollow_effect:
  "snd (PostUnfollow x req d) = d \<or> (\<exists>a b. snd (PostUnfollow x req d) = d\<lparr>sd_follows := unfollowed a b (sd_follows d)\<rparr>)"
proof -
  obtain rep d1 where p: "PostUnfollow x req d = (rep, d1)" by (cases "PostUnfollow x req d")
  from unfollow_state [OF p] show ?thesis unfolding p snd_conv using DeleteFollow_Inr by blast
qed

abbreviation new_follow :: "instant \<Rightarrow> int \<Rightarrow> int \<Rightarrow> int \<Rightarrow> SocialFollow" where
  "new_follow now a b status \<equiv>
     \<lparr>sf_FollowerUserID = a, sf_FolloweeUserID = b, sf_Status = status, sf_CreatedAt = now,
      sf_ApprovedAt = (if status = 1 then Some now else None)\<rparr>"

abbreviation approved :: "instant \<Rightarrow> int \<Rightarrow> int \<Rightarrow> SocialFollow list \<Rightarrow> SocialFollow list" where
  "approved now a b \<equiv>
     update_where (\<lambda>f. sf_key f = (a, b) \<and> sf_Status f = 0) (\<lambda>f. f\<lparr>sf_Status := 1, sf_ApprovedAt := Some now\<rparr>)"

lemma UpsertFollow_Inr:
  assumes "UpsertFollow e now a b status d = Inr (n, d1)"
  shows "d1 = d \<or> d1 = d\<lparr>sd_follows := sd_follows d @ [new_follow now a b status]\<rparr> \<and> (a, b) \<notin> sf_key ` set (sd_follows d)"
  using assms by (auto simp: UpsertFollow_def res_simps split: if_splits)

lemma follow_commit_state:
  assumes "follow_commit x user profile target d = (rep, d1, pushes)"
  shows "d1 = d \<or>
   (\<exists>n. UpsertFollow (sx_env x) (sx_db x 4) (u_ID user) (sp_UserID target)
      (if sp_RequireFollowApproval target then followStatusPending else followStatusActive) d = Inr (n, d1))"
  using assms unfolding follow_commit_def Let_def by (auto split: sum.splits prod.splits)

text \<open>
  \<open>may_follow x h u t d\<close>: the checks of \<^verbatim>\<open>PostFollow\<close> pass, for the caller \<open>u\<close> and the profile
  \<open>t\<close> with handle \<open>h\<close>.
\<close>

definition may_follow :: "sctx \<Rightarrow> string \<Rightarrow> User \<Rightarrow> SocialProfile \<Rightarrow> social_db \<Rightarrow> bool" where
  "may_follow x h u t d \<longleftrightarrow>
     caller x d = Some u \<and> u_ID u \<in> sp_UserID ` set (sd_profiles d) \<and> t \<in> set (sd_profiles d) \<and>
     al_citext (sx_lib x) (sp_Handle t) = al_citext (sx_lib x) (normalizeHandle (sx_lib x) h) \<and> sp_UserID t \<noteq> u_ID u \<and>
     \<not> blocked_either (u_ID u) (sp_UserID t) (sd_relationships d)"

lemma profile_by_user:
  assumes "GetSocialProfileByUserID e i d = Inr p"
  shows "i \<in> sp_UserID ` set (sd_profiles d)" "sp_UserID p = i"
  using assms by (auto simp: GetSocialProfileByUserID_def res_simps dest!: find_Some_mem)

lemma profile_by_handle:
  assumes "GetSocialProfileByHandle e l h d = Inr p"
  shows "p \<in> set (sd_profiles d)" "al_citext l (sp_Handle p) = al_citext l h"
  using assms by (auto simp: GetSocialProfileByHandle_def res_simps dest!: find_Some_mem)

lemma follow_check_may:
  assumes "follow_check x h d = (Inr (u, p, t) :: 'm reply + User \<times> SocialProfile \<times> SocialProfile)"
  shows "may_follow x h u t d"
  using assms profile_by_user(1) [of "sx_env x" "u_ID u" d p]
    profile_by_handle [of "sx_env x" "sx_lib x" "normalizeHandle (sx_lib x) h" d t]
  by (auto simp: may_follow_def follow_check_Inr IsBlockedEither_def res_simps)

lemma follow_effect:
  "fst (snd (PostFollow x req d)) = d \<or>
   (\<exists>h u t. req = Some h \<and> may_follow x h u t d \<and> (u_ID u, sp_UserID t) \<notin> sf_key ` set (sd_follows d) \<and>
      fst (snd (PostFollow x req d)) = d\<lparr>sd_follows := sd_follows d @
        [new_follow (sx_db x 4) (u_ID u) (sp_UserID t) (if sp_RequireFollowApproval t then 0 else 1)]\<rparr>)"
proof (cases req)
  case None
  then show ?thesis by (simp add: PostFollow_def)
next
  case (Some h)
  show ?thesis
  proof (cases "follow_check x h d :: int reply + User \<times> SocialProfile \<times> SocialProfile")
    case (Inl rep)
    with Some show ?thesis by (simp add: PostFollow_def)
  next
    case (Inr r)
    obtain u p t where r: "r = (u, p, t)" by (cases r)
    then have st: "fst (snd (PostFollow x req d)) = fst (snd (follow_commit x u p t d))"
      using Some Inr by (simp add: PostFollow_def)
    have "may_follow x h u t d" using follow_check_may Inr r by blast
    let ?d' = "d\<lparr>sd_follows := sd_follows d @
        [new_follow (sx_db x 4) (u_ID u) (sp_UserID t) (if sp_RequireFollowApproval t then 0 else 1)]\<rparr>"
    have "fst (snd (follow_commit x u p t d)) = d \<or>
        fst (snd (follow_commit x u p t d)) = ?d' \<and> (u_ID u, sp_UserID t) \<notin> sf_key ` set (sd_follows d)"
      using follow_commit_state [of x u p t d]
      by (cases "follow_commit x u p t d") (auto dest!: UpsertFollow_Inr simp: followStatusPending_def followStatusActive_def)
    then show ?thesis unfolding st using Some \<open>may_follow x h u t d\<close> by blast
  qed
qed

definition may_approve :: "sctx \<Rightarrow> string \<Rightarrow> User \<Rightarrow> SocialProfile \<Rightarrow> social_db \<Rightarrow> bool" where
  "may_approve x h u r d \<longleftrightarrow>
     caller x d = Some u \<and> u_ID u \<in> sp_UserID ` set (sd_profiles d) \<and> r \<in> set (sd_profiles d) \<and>
     al_citext (sx_lib x) (sp_Handle r) = al_citext (sx_lib x) (normalizeHandle (sx_lib x) h)"

lemma approve_effect:
  "fst (snd (PostFollowApprove x req d)) = d \<or>
   (\<exists>h accept u r. req = Some (h, accept) \<and> may_approve x h u r d \<and>
      fst (snd (PostFollowApprove x req d)) = d\<lparr>sd_follows :=
        (if accept then approved (sx_db x 3) (sp_UserID r) (u_ID u) (sd_follows d)
         else unfollowed (sp_UserID r) (u_ID u) (sd_follows d))\<rparr>)"
proof (cases req)
  case None
  then show ?thesis by (simp add: PostFollowApprove_def)
next
  case (Some ha)
  obtain h accept where ha: "ha = (h, accept)" by (cases ha)
  show ?thesis
  proof (cases "requireJoined x d :: bool reply + User \<times> SocialProfile")
    case (Inl rep)
    with Some ha show ?thesis by (simp add: PostFollowApprove_def)
  next
    case (Inr up)
    obtain u p where up: "up = (u, p)" by (cases up)
    note joined = Inr [unfolded up requireJoined_Inr]
    show ?thesis
    proof (cases "GetSocialProfileByHandle (sx_env x) (sx_lib x) (normalizeHandle (sx_lib x) h) d")
      case (Inl err)
      with Some ha Inr up show ?thesis by (simp add: PostFollowApprove_def)
    next
      case r: (Inr r)
      have "may_approve x h u r d"
        using joined profile_by_user(1) [of "sx_env x" "u_ID u" d p] profile_by_handle [OF r] by (auto simp: may_approve_def)
      define work where "work = (if accept then ApproveFollow (sx_env x) (sx_db x 3) (sp_UserID r) (u_ID u) d
           else DeleteFollow (sx_env x) (sp_UserID r) (u_ID u) d)"
      have st: "fst (snd (PostFollowApprove x req d)) = (case work of Inl err \<Rightarrow> d | Inr (n, d1) \<Rightarrow> d1)"
        unfolding PostFollowApprove_def Some option.case ha prod.case Inr sum.case up r work_def [symmetric]
        by (simp split: sum.split prod.split)
      show ?thesis
      proof (cases work)
        case (Inl err)
        with st show ?thesis by simp
      next
        case w: (Inr nd)
        then have "snd nd = d\<lparr>sd_follows :=
          (if accept then approved (sx_db x 3) (sp_UserID r) (u_ID u) (sd_follows d)
           else unfollowed (sp_UserID r) (u_ID u) (sd_follows d))\<rparr>"
          by (cases accept) (auto simp: work_def ApproveFollow_def DeleteFollow_def res_simps Let_def)
        with st w Some ha \<open>may_approve x h u r d\<close> show ?thesis
          by (intro disjI2 exI conjI) (auto split: prod.split)
      qed
    qed
  qed
qed

lemma report_tx_state:
  assumes "InTx e (report_quota_tx x u (InsertModerationReport e' now i a)) d = (r, d1)"
  shows "d1 = d \<or> (\<exists>rs. d1 = d\<lparr>sd_reports := rs\<rparr>)"
proof (cases r)
  case (Inl err)
  with assms show ?thesis by (auto dest: InTx_Inl)
next
  case (Inr v)
  with assms have "InsertModerationReport e' now i a d = Inr d1"
    by (auto simp: InTx_Inr report_quota_tx_def rbind_Inr_iff split: if_splits)
  then show ?thesis by (auto simp: InsertModerationReport_def res_simps split: if_splits)
qed

lemma report_state:
  assumes "PostSocialReport x req d = (rep, d1)"
  shows "d1 = d \<or> (\<exists>e' now i a u r. InTx (sx_env x) (report_quota_tx x u (InsertModerationReport e' now i a)) d = (r, d1))"
  using assms unfolding PostSocialReport_def withModerationReportQuota_def Let_def
  by (auto split: option.splits sum.splits prod.splits if_split_asm)

lemma report_effect: "\<exists>rs. snd (PostSocialReport x req d) = d\<lparr>sd_reports := rs\<rparr>"
proof -
  have same: "d = d\<lparr>sd_reports := sd_reports d\<rparr>" by simp
  obtain rep d1 where "PostSocialReport x req d = (rep, d1)" by (cases "PostSocialReport x req d")
  with report_state [of x req d rep d1] show ?thesis using report_tx_state same by (metis snd_conv)
qed

subsection \<open>Erasing\<close>

definition released :: "instant \<Rightarrow> int \<Rightarrow> SocialHandle list \<Rightarrow> SocialHandle list" where
  "released now uid = update_where (\<lambda>h. sh_UserID h = Some uid \<and> sh_Status h = 0) (tombstoned now)"

definition erased :: "instant \<Rightarrow> int \<Rightarrow> social_db \<Rightarrow> social_db \<Rightarrow> bool" where
  "erased now uid d d' \<longleftrightarrow>
     sd_handles d' = released now uid (sd_handles d) \<and>
     sd_profiles d' = delete_where (\<lambda>p. sp_UserID p = uid) (sd_profiles d) \<and>
     sd_follows d' = delete_where (\<lambda>f. sf_FollowerUserID f = uid \<or> sf_FolloweeUserID f = uid) (sd_follows d) \<and>
     sd_relationships d' = delete_where (\<lambda>r. sr_UserID r = uid \<or> sr_TargetUserID r = uid) (sd_relationships d)"

lemma erase_tx_erased:
  assumes "socialEraseWithQuerier x uid d1 = Inr d'" "proper_faults (sx_env x)" "sd_handles d1 = sd_handles d"
    "sd_profiles d1 = sd_profiles d" "sd_follows d1 = sd_follows d" "sd_relationships d1 = sd_relationships d"
  shows "erased (sx_db x 0) uid d d'"
  using social_erase_kept [OF assms(1)] assms(3-6) by (simp add: erased_def released_def)

lemma erase_effect:
  assumes "proper_faults (sx_env x)"
  shows "snd (PostSocialErase x req d) = d \<or>
    (\<exists>u. caller x d = Some u \<and> erased (sx_db x 0) (u_ID u) d (snd (PostSocialErase x req d)))"
proof -
  have "d1 = d \<or> erased (sx_db x 0) uid d d1" if "socialErase x uid d = (r, d1)" for uid r d1
    using that erase_tx_erased [of x uid d d1 d] assms
    by (cases r) (auto simp: socialErase_def InTx_Inr res_simps dest: InTx_Inl)
  then show ?thesis
    by (auto simp: PostSocialErase_def social_user_Inr split: option.split sum.split prod.split)
qed

lemma delete_effect:
  assumes "proper_faults (sx_env x)"
  shows "snd (PostDeleteAccount x req d) = d \<or>
    (\<exists>u. caller x d = Some u \<and> erased (sx_db x 0) (u_ID u) d (snd (PostDeleteAccount x req d)))"
proof -
  have tx: "erased (sx_db x 0) uid d d1" if "delete_account_tx x uid d = Inr (u, d1)" for uid u d1
  proof -
    from that obtain st d2 st' where er: "socialEraseWithQuerier x uid (d\<lparr>sd_core := st\<rparr>) = Inr d2" and d1: "d1 = d2\<lparr>sd_core := st'\<rparr>"
      by (auto simp: delete_account_tx_def on_core_def res_simps)
    have "erased (sx_db x 0) uid d d2" by (rule erase_tx_erased [OF er assms]) simp_all
    then show ?thesis by (simp add: erased_def d1)
  qed
  have "d1 = d \<or> erased (sx_db x 0) uid d d1" if "InTx (sx_env x) (delete_account_tx x uid) d = (r, d1)" for uid r d1
    using that tx by (cases r) (auto simp: InTx_Inr dest: InTx_Inl)
  then show ?thesis
    by (auto simp: PostDeleteAccount_def social_user_Inr split: option.split sum.split prod.split)
qed

subsection \<open>One request\<close>

text \<open>Which requests may change the handles, and how.\<close>

lemma exec_handles:
  assumes "proper_faults (sx_env x)"
  shows "sd_handles (social_exec x a d) = sd_handles d \<or>
    joined (sx_lib x) (sx_db x 0) d (social_exec x a d) \<or>
    (\<exists>u. caller x d = Some u \<and> sd_handles (social_exec x a d) = released (sx_db x 0) (u_ID u) (sd_handles d))"
proof (cases a)
  case (Join req)
  then show ?thesis using join_effect [of x req d] by auto
next
  case (EditProfile req)
  obtain ps where "snd (PostSocialProfileUpdate x req d) = d\<lparr>sd_profiles := ps\<rparr>" using profile_effect by blast
  then show ?thesis using EditProfile by simp
next
  case (Unfollow req)
  then show ?thesis using unfollow_effect [of x req d] by auto
next
  case (Follow req)
  then show ?thesis using follow_effect [of x req d] by auto
next
  case (Approve req)
  then show ?thesis using approve_effect [of x req d] by auto
next
  case (Report req)
  obtain rs where "snd (PostSocialReport x req d) = d\<lparr>sd_reports := rs\<rparr>" using report_effect by blast
  then show ?thesis using Report by simp
next
  case (Erase req)
  then show ?thesis using erase_effect [OF assms, of req d] by (auto simp: erased_def)
next
  case (DeleteAccount req)
  then show ?thesis using delete_effect [OF assms, of req d] by (auto simp: erased_def)
qed (simp_all add: relationship_defs relationship_fields)

text \<open>A follow is new or changed only by a follow request or by an approval.\<close>

lemma exec_follows:
  assumes "proper_faults (sx_env x)" and "f \<in> set (sd_follows (social_exec x a d))"
  shows "f \<in> set (sd_follows d) \<or>
    (\<exists>h u t. a = Follow (Some h) \<and> may_follow x h u t d \<and>
       f = new_follow (sx_db x 4) (u_ID u) (sp_UserID t) (if sp_RequireFollowApproval t then 0 else 1)) \<or>
    (\<exists>h u r f0. a = Approve (Some (h, True)) \<and> may_approve x h u r d \<and> f0 \<in> set (sd_follows d) \<and>
       sf_key f0 = (sp_UserID r, u_ID u) \<and> sf_Status f0 = 0 \<and> f = f0\<lparr>sf_Status := 1, sf_ApprovedAt := Some (sx_db x 3)\<rparr>)"
proof (cases a)
  case (Join req)
  then show ?thesis using join_effect [of x req d] assms(2) joined_tables(1) by auto
next
  case (EditProfile req)
  obtain ps where "snd (PostSocialProfileUpdate x req d) = d\<lparr>sd_profiles := ps\<rparr>" using profile_effect by blast
  then show ?thesis using EditProfile assms(2) by simp
next
  case (Unfollow req)
  then show ?thesis using unfollow_effect [of x req d] assms(2) by (auto simp: tbl_simps)
next
  case (Follow req)
  show ?thesis
    using follow_effect [of x req d]
  proof (elim disjE exE conjE)
    assume "fst (snd (PostFollow x req d)) = d"
    with Follow assms(2) show ?thesis by simp
  next
    fix h and u :: User and t :: SocialProfile
    let ?f = "new_follow (sx_db x 4) (u_ID u) (sp_UserID t) (if sp_RequireFollowApproval t then 0 else 1)"
    assume *: "req = Some h" "may_follow x h u t d" "fst (snd (PostFollow x req d)) = d\<lparr>sd_follows := sd_follows d @ [?f]\<rparr>"
    with Follow assms(2) have "f \<in> set (sd_follows d) \<or> f = ?f" by (simp split del: if_split) blast
    with Follow *(1,2) show ?thesis by blast
  qed
next
  case (Approve req)
  show ?thesis
    using approve_effect [of x req d]
  proof (elim disjE exE conjE)
    assume "fst (snd (PostFollowApprove x req d)) = d"
    with Approve assms(2) show ?thesis by simp
  next
    fix h accept and u :: User and r :: SocialProfile
    assume *: "req = Some (h, accept)" "may_approve x h u r d" "fst (snd (PostFollowApprove x req d)) = d\<lparr>sd_follows :=
        (if accept then approved (sx_db x 3) (sp_UserID r) (u_ID u) (sd_follows d)
         else unfollowed (sp_UserID r) (u_ID u) (sd_follows d))\<rparr>"
    with Approve assms(2) have "f \<in> set (if accept then approved (sx_db x 3) (sp_UserID r) (u_ID u) (sd_follows d)
         else unfollowed (sp_UserID r) (u_ID u) (sd_follows d))" by simp
    then show ?thesis using Approve *(1,2) by (cases accept) (auto simp: tbl_simps)
  qed
next
  case (Report req)
  obtain rs where "snd (PostSocialReport x req d) = d\<lparr>sd_reports := rs\<rparr>" using report_effect by blast
  then show ?thesis using Report assms(2) by simp
next
  case (Erase req)
  then show ?thesis using erase_effect [OF assms(1), of req d] assms(2) by (auto simp: erased_def tbl_simps)
next
  case (DeleteAccount req)
  then show ?thesis using delete_effect [OF assms(1), of req d] assms(2) by (auto simp: erased_def tbl_simps)
qed (use assms(2) in \<open>auto simp: relationship_defs dest: rel_change_follows [OF relationship_effect]\<close>)

text \<open>A block or a mute is new only by a request of its author.\<close>

lemma exec_relationships:
  assumes "proper_faults (sx_env x)" and "r \<in> set (sd_relationships (social_exec x a d))"
  shows "r \<in> set (sd_relationships d) \<or>
    (\<exists>req. a = Block req \<and> sr_Kind r = relationshipBlock) \<or> (\<exists>req. a = Mute req \<and> sr_Kind r = relationshipMute)"
proof (cases a)
  case (Join req)
  then show ?thesis using join_effect [of x req d] assms(2) joined_tables(2) by auto
next
  case (EditProfile req)
  obtain ps where "snd (PostSocialProfileUpdate x req d) = d\<lparr>sd_profiles := ps\<rparr>" using profile_effect by blast
  then show ?thesis using EditProfile assms(2) by simp
next
  case (Unfollow req)
  then show ?thesis using unfollow_effect [of x req d] assms(2) by auto
next
  case (Follow req)
  then show ?thesis using follow_effect [of x req d] assms(2) by (elim disjE exE conjE) auto
next
  case (Approve req)
  then show ?thesis using approve_effect [of x req d] assms(2) by (elim disjE exE conjE) auto
next
  case (Report req)
  obtain rs where "snd (PostSocialReport x req d) = d\<lparr>sd_reports := rs\<rparr>" using report_effect by blast
  then show ?thesis using Report assms(2) by simp
next
  case (Erase req)
  then show ?thesis using erase_effect [OF assms(1), of req d] assms(2) by (auto simp: erased_def tbl_simps)
next
  case (DeleteAccount req)
  then show ?thesis using delete_effect [OF assms(1), of req d] assms(2) by (auto simp: erased_def tbl_simps)
qed (use assms(2) in \<open>auto simp: relationship_defs dest: rel_change_new [OF relationship_effect]\<close>)

end
