(* ===== verification/Group_Runs.thy ===== *)
theory Group_Runs
  imports Social_Groups Social_Runs
begin

section \<open>Runs of the group endpoints and the effect of every request\<close>

text \<open>
  \<open>group_exec x a d\<close> is the database after the group request \<open>a\<close> in the context \<open>x\<close>.
  \<open>group_effect x a d d'\<close> is the step relation of the endpoints: one rule for every statement that
  a handler may reach, with the guards the handler has passed on the way.
  Its case rule carries the properties of groups.
\<close>

datatype group_act =
    CreateGroup "GroupCreateRequest option"
  | UpdateGroup "GroupUpdateRequest option"
  | DeleteGroup "int option"
  | JoinGroup "int option"
  | LeaveGroup "int option"
  | Invite "(int \<times> string) option"
  | Respond "(int \<times> bool) option"
  | Kick "(int \<times> string \<times> bool) option"
  | Alert "(int \<times> bool) option"
  | SubmitPost "GroupPostRequest option"
  | EditPost "(int \<times> string) option"
  | DeletePost "int option"

fun group_exec :: "sctx \<Rightarrow> group_act \<Rightarrow> social_db \<Rightarrow> social_db" where
  "group_exec x (CreateGroup req) d = snd (PostGroupCreate x req d)"
| "group_exec x (UpdateGroup req) d = snd (PostGroupUpdate x req d)"
| "group_exec x (DeleteGroup req) d = snd (PostGroupDelete x req d)"
| "group_exec x (JoinGroup req) d = snd (PostGroupJoin x req d)"
| "group_exec x (LeaveGroup req) d = snd (PostGroupLeave x req d)"
| "group_exec x (Invite req) d = fst (snd (PostGroupInvite x req d))"
| "group_exec x (Respond req) d = snd (PostGroupInviteRespond x req d)"
| "group_exec x (Kick req) d = snd (PostGroupKick x req d)"
| "group_exec x (Alert req) d = snd (PostGroupAlert x req d)"
| "group_exec x (SubmitPost req) d = fst (snd (PostGroupPostSubmit x req d))"
| "group_exec x (EditPost req) d = snd (PostGroupPostEdit x req d)"
| "group_exec x (DeletePost req) d = snd (PostGroupPostDelete x req d)"

fun group_run :: "(sctx \<times> group_act) list \<Rightarrow> social_db \<Rightarrow> social_db" where
  "group_run [] d = d"
| "group_run ((x, a) # as) d = group_run as (group_exec x a d)"

subsection \<open>The step relation\<close>

inductive group_effect :: "sctx \<Rightarrow> group_act \<Rightarrow> social_db \<Rightarrow> social_db \<Rightarrow> bool" where
  create: "group_effect x (CreateGroup req) d d'"
  if "caller x d = Some u" "CreateSocialGroup (sx_env x) (sx_db x 0) (sx_id x) p d = Inr (c, d0)"
    "csg_OwnerUserID p = u_ID u" "csg_Visibility p \<in> {1, 2}"
    "UpsertGroupMember (sx_env x) (sx_db x 0) (fst c) (u_ID u) 2 None d0 = Inr d'"
| update: "group_effect x (UpdateGroup req) d d'"
  if "caller x d = Some u" "GetSocialGroup (sx_env x) gid (Some (u_ID u)) d = Inr g" "vis \<in> {1, 2}"
    "\<not> (gr_Visibility g = 1 \<and> vis = 2)" "UpdateSocialGroup (sx_env x) (sx_db x 0) gid (u_ID u) t s vis d = Inr (n, d')"
| dissolve: "group_effect x (DeleteGroup (Some gid)) d d'"
  if "caller x d = Some u" "DeleteSocialGroup (sx_env x) gid (u_ID u) d = Inr (n, d')"
| join: "group_effect x (JoinGroup (Some gid)) d d'"
  if "caller x d = Some u" "GetSocialGroup (sx_env x) gid (Some (u_ID u)) d = Inr g" "gr_Visibility g = 2"
    "gr_YourRole g \<notin> {1, 2, 4}" "UpsertGroupMember (sx_env x) (sx_db x 0) gid (u_ID u) 1 None d = Inr d'"
| leave: "group_effect x (LeaveGroup (Some gid)) d d'"
  if "caller x d = Some u" "GetGroupMember (sx_env x) gid (u_ID u) d = Inr m" "gm_Role m \<notin> {2, 4}"
    "DeleteGroupMember (sx_env x) gid (u_ID u) d = Inr (n, d')"
| invite: "group_effect x (Invite (Some (gid, h))) d d'"
  if "caller x d = Some u" "GetGroupMember (sx_env x) gid (u_ID u) d = Inr m" "gm_Role m \<in> {1, 2}"
    "GetGroupMember (sx_env x) gid t d = Inl err" "Is_ErrNoRows err"
    "UpsertGroupMember (sx_env x) (sx_db x 0) gid t 3 (Some (u_ID u)) d = Inr d'"
| accept: "group_effect x (Respond (Some (gid, True))) d d'"
  if "caller x d = Some u" "GetGroupMember (sx_env x) gid (u_ID u) d = Inr m" "gm_Role m = 3"
    "GetSocialGroup (sx_env x) gid (Some (u_ID u)) d = Inr g" "\<not> (gr_Visibility g = 1 \<and> gr_MemberCount g \<ge> groupPrivateCap)"
    "UpsertGroupMember (sx_env x) (sx_db x 0) gid (u_ID u) 1 None d = Inr d'"
| decline: "group_effect x (Respond (Some (gid, False))) d d'"
  if "caller x d = Some u" "GetGroupMember (sx_env x) gid (u_ID u) d = Inr m" "gm_Role m = 3"
    "DeleteGroupMember (sx_env x) gid (u_ID u) d = Inr (n, d')"
| ban: "group_effect x (Kick (Some (gid, h, True))) d d'"
  if "caller x d = Some u" "GetGroupMember (sx_env x) gid (u_ID u) d = Inr m" "gm_Role m = 2" "t \<noteq> u_ID u"
    "UpsertGroupMember (sx_env x) (sx_db x 0) gid t 4 None d = Inr d'"
| kick: "group_effect x (Kick (Some (gid, h, False))) d d'"
  if "caller x d = Some u" "GetGroupMember (sx_env x) gid (u_ID u) d = Inr m" "gm_Role m = 2" "t \<noteq> u_ID u"
    "DeleteGroupMember (sx_env x) gid t d = Inr (n, d')"
| alert: "group_effect x (Alert (Some (gid, on))) d d'"
  if "caller x d = Some u" "SetGroupMemberNotify (sx_env x) gid (u_ID u) on d = Inr (n, d')"
| submit: "group_effect x (SubmitPost (Some req)) d d'"
  if "caller x d = Some u" "GetGroupMember (sx_env x) (gpq_GroupId req) (u_ID u) d = Inr m" "gm_Role m \<in> {1, 2}"
    "parent_of x (u_ID u) (gpq_GroupId req) (gpq_ParentId req) d = (Inr p :: pb_GroupPost reply + parent_ref)"
    "InsertGroupPost (sx_env x) (sx_db x 0) (sx_id x) (post_params (u_ID u) req p) d = Inr (c, d')"
| edit: "group_effect x (EditPost (Some (pid, text))) d d'"
  if "caller x d = Some u" "GetGroupPostByID (sx_env x) pid d = Inr (post, False)" "gp_RemovedAt post = None"
    "gp_UserID post = Some (u_ID u)" "sx_now x - gp_CreatedAt post \<le> groupPostEditGrace"
    "EditGroupPost (sx_env x) (sx_db x 0) pid (u_ID u) text d = Inr (n, d')"
| retract: "group_effect x (DeletePost (Some pid)) d d'"
  if "caller x d = Some u" "TombstoneGroupPost (sx_env x) (sx_db x 0) pid (u_ID u) d = Inr (n, d')"
| moderate: "group_effect x (DeletePost (Some pid)) d d'"
  if "caller x d = Some u" "TombstoneGroupPostAsOwner (sx_env x) (sx_db x 0) pid (u_ID u) d = Inr (n, d')"

lemma create_exec:
  assumes "PostGroupCreate x req d = (rep, d1)"
  shows "d1 = d \<or> group_effect x (CreateGroup req) d d1"
proof -
  have tx: "d1 = d \<or> group_effect x (CreateGroup req) d d1"
    if "caller x d = Some u" "csg_OwnerUserID p = u_ID u" "csg_Visibility p = 1 \<or> csg_Visibility p = 2"
      "InTx (sx_env x) (create_group_tx x (u_ID u) p) d = (r, d1)" for u p r
    using that InTx_Inl [of "sx_env x" "create_group_tx x (u_ID u) p" d]
    by (cases r) (auto simp: InTx_Inr create_group_tx_def res_simps groupRoleOwner_def intro: group_effect.create)
  show ?thesis
    using assms by (auto simp: PostGroupCreate_def Let_def requireJoined_Inr group_consts
        split: option.splits if_splits sum.splits prod.splits dest!: tx [rotated 3])
qed

lemma update_exec: "PostGroupUpdate x req d = (rep, d1) \<Longrightarrow> d1 = d \<or> group_effect x (UpdateGroup req) d d1"
  by (auto simp: PostGroupUpdate_def Let_def requireJoined_Inr group_consts
      split: option.splits if_splits sum.splits prod.splits intro: group_effect.update)

lemma dissolve_exec: "PostGroupDelete x req d = (rep, d1) \<Longrightarrow> d1 = d \<or> group_effect x (DeleteGroup req) d d1"
  by (auto simp: PostGroupDelete_def requireJoined_Inr
      split: option.splits if_splits sum.splits prod.splits intro: group_effect.dissolve)

lemma join_exec: "PostGroupJoin x req d = (rep, d1) \<Longrightarrow> d1 = d \<or> group_effect x (JoinGroup req) d d1"
  by (auto simp: PostGroupJoin_def requireJoined_Inr group_consts
      split: option.splits if_splits sum.splits prod.splits intro: group_effect.join)

lemma leave_exec: "PostGroupLeave x req d = (rep, d1) \<Longrightarrow> d1 = d \<or> group_effect x (LeaveGroup req) d d1"
  by (auto simp: PostGroupLeave_def requireJoined_Inr group_consts
      split: option.splits if_splits sum.splits prod.splits intro: group_effect.leave)

lemma invite_exec: "PostGroupInvite x req d = (rep, d1, ps) \<Longrightarrow> d1 = d \<or> group_effect x (Invite req) d d1"
  by (auto simp: PostGroupInvite_def invite_target_def requireJoined_Inr group_consts
      split: option.splits if_splits sum.splits prod.splits intro: group_effect.invite)

lemma respond_exec: "PostGroupInviteRespond x req d = (rep, d1) \<Longrightarrow> d1 = d \<or> group_effect x (Respond req) d d1"
  by (auto simp: PostGroupInviteRespond_def requireJoined_Inr group_consts
      split: option.splits if_splits sum.splits prod.splits intro: group_effect.accept group_effect.decline)

lemma kick_exec: "PostGroupKick x req d = (rep, d1) \<Longrightarrow> d1 = d \<or> group_effect x (Kick req) d d1"
  by (auto simp: PostGroupKick_def requireJoined_Inr group_consts
      split: option.splits if_splits sum.splits prod.splits intro: group_effect.ban group_effect.kick)

lemma alert_exec: "PostGroupAlert x req d = (rep, d1) \<Longrightarrow> d1 = d \<or> group_effect x (Alert req) d d1"
  by (auto simp: PostGroupAlert_def requireJoined_Inr
      split: option.splits if_splits sum.splits prod.splits intro: group_effect.alert)

lemma submit_exec: "PostGroupPostSubmit x req d = (rep, d1, ps, f) \<Longrightarrow> d1 = d \<or> group_effect x (SubmitPost req) d d1"
  by (auto simp: PostGroupPostSubmit_def Let_def requireJoined_Inr group_consts
      split: option.splits if_splits sum.splits prod.splits intro: group_effect.submit)

lemma edit_exec: "PostGroupPostEdit x req d = (rep, d1) \<Longrightarrow> d1 = d \<or> group_effect x (EditPost req) d d1"
  by (auto simp: PostGroupPostEdit_def requireJoined_Inr not_less
      split: option.splits if_splits sum.splits prod.splits intro: group_effect.edit)

lemma update_where_none: "filter P t = [] \<Longrightarrow> update_where P f t = t"
  by (induction t) (auto simp: update_where_def split: if_splits)

lemma tombstone_none: "TombstoneGroupPost e now pid u d = Inr (0, d') \<Longrightarrow> d' = d"
  by (auto simp: TombstoneGroupPost_def Let_def res_simps update_where_none)

lemma delete_exec:
  assumes "PostGroupPostDelete x req d = (rep, d1)"
  shows "d1 = d \<or> group_effect x (DeletePost req) d d1"
proof -
  have "group_effect x (DeletePost (Some pid)) d d'"
    if "caller x d = Some u" "tombstone_work x (u_ID u) pid d = Inr (n, d')" for u pid n d'
    using that
    by (auto simp: tombstone_work_def res_simps split: if_splits dest!: tombstone_none
        intro: group_effect.retract group_effect.moderate)
  with assms show ?thesis
    by (auto simp: PostGroupPostDelete_def requireJoined_Inr split: option.splits if_splits sum.splits prod.splits)
qed

theorem group_exec_effect: "group_exec x a d = d \<or> group_effect x a d (group_exec x a d)"
proof (cases a)
  case (CreateGroup req) show ?thesis unfolding CreateGroup using create_exec [OF surjective_pairing] by (simp only: group_exec.simps)
next
  case (UpdateGroup req) show ?thesis unfolding UpdateGroup using update_exec [OF surjective_pairing] by (simp only: group_exec.simps)
next
  case (DeleteGroup req) show ?thesis unfolding DeleteGroup using dissolve_exec [OF surjective_pairing] by (simp only: group_exec.simps)
next
  case (JoinGroup req) show ?thesis unfolding JoinGroup using join_exec [OF surjective_pairing] by (simp only: group_exec.simps)
next
  case (LeaveGroup req) show ?thesis unfolding LeaveGroup using leave_exec [OF surjective_pairing] by (simp only: group_exec.simps)
next
  case (Invite req)
  have "PostGroupInvite x req d = (fst (PostGroupInvite x req d), fst (snd (PostGroupInvite x req d)), snd (snd (PostGroupInvite x req d)))"
    by simp
  then show ?thesis unfolding Invite group_exec.simps by (rule invite_exec)
next
  case (Respond req) show ?thesis unfolding Respond using respond_exec [OF surjective_pairing] by (simp only: group_exec.simps)
next
  case (Kick req) show ?thesis unfolding Kick using kick_exec [OF surjective_pairing] by (simp only: group_exec.simps)
next
  case (Alert req) show ?thesis unfolding Alert using alert_exec [OF surjective_pairing] by (simp only: group_exec.simps)
next
  case (SubmitPost req)
  obtain rep d1 ps f where "PostGroupPostSubmit x req d = (rep, d1, ps, f)" by (metis prod_cases4)
  then show ?thesis unfolding SubmitPost using submit_exec by simp
next
  case (EditPost req) show ?thesis unfolding EditPost using edit_exec [OF surjective_pairing] by (simp only: group_exec.simps)
next
  case (DeletePost req) show ?thesis unfolding DeletePost using delete_exec [OF surjective_pairing] by (simp only: group_exec.simps)
qed

end
