(* ===== verification/Group_Theorems.thy ===== *)
theory Group_Theorems
  imports Group_Runs
begin

section \<open>Correctness of groups\<close>

text \<open>
  The integrity of the group tables, the life of a membership, what a private group shows to
  people outside it, and who may change a post.
\<close>

subsection \<open>The tables after a statement\<close>

lemma member_of_iff: "keyed gm_key (sd_group_members d) \<Longrightarrow>
    member_of g u d = Some m \<longleftrightarrow> m \<in> set (sd_group_members d) \<and> gm_key m = (g, u)"
  unfolding member_of_def by (rule keyed_find)

lemma member_of_key: "member_of g u d = Some m \<Longrightarrow> gm_GroupID m = g \<and> gm_UserID m = u"
  by (auto simp: member_of_def dest!: find_Some_mem)

text \<open>\<open>given m role\<close> is the row of a member after an upsert.\<close>

definition given :: "SocialGroupMember \<Rightarrow> int \<Rightarrow> SocialGroupMember" where
  "given m role = (if gm_Role m \<noteq> 4 \<or> role = 4 then m\<lparr>gm_Role := role\<rparr> else m)"

definition fresh_member :: "instant \<Rightarrow> int \<Rightarrow> int \<Rightarrow> int \<Rightarrow> int option \<Rightarrow> SocialGroupMember" where
  "fresh_member now gid uid role by =
     \<lparr>gm_GroupID = gid, gm_UserID = uid, gm_Role = role, gm_InvitedBy = by, gm_NotifyPosts = False, gm_CreatedAt = now\<rparr>"

lemma given_key [simp]: "gm_GroupID (given m r) = gm_GroupID m" "gm_UserID (given m r) = gm_UserID m"
  by (simp_all add: given_def)

lemma fresh_member_simps [simp]:
  "gm_GroupID (fresh_member now g u r b) = g" "gm_UserID (fresh_member now g u r b) = u"
  "gm_Role (fresh_member now g u r b) = r"
  by (simp_all add: fresh_member_def)

lemma upsert_eq:
  assumes "UpsertGroupMember e now gid uid role by d = Inr d'"
  shows "d' = d\<lparr>sd_group_members := upsert_row gm_key (fresh_member now gid uid role by) (\<lambda>m. given m role) (sd_group_members d)\<rparr>"
    and "member_of gid uid d = None \<longrightarrow> (\<exists>g \<in> set (sd_groups d). sg_ID g = gid)"
proof -
  have key: "(gid, uid) \<in> gm_key ` set (sd_group_members d) \<longleftrightarrow> member_of gid uid d \<noteq> None"
    unfolding member_of_def using find_key_None [of gm_key "(gid, uid)" "sd_group_members d"] by simp
  have "update_where (\<lambda>m. gm_key m = (gid, uid) \<and> (gm_Role m \<noteq> 4 \<or> role = 4)) (\<lambda>m. m\<lparr>gm_Role := role\<rparr>) t =
        update_where (\<lambda>m. gm_key m = (gid, uid)) (\<lambda>m. given m role) t" for t
    by (auto simp: update_where_def given_def)
  with assms key show "d' = d\<lparr>sd_group_members := upsert_row gm_key (fresh_member now gid uid role by) (\<lambda>m. given m role) (sd_group_members d)\<rparr>"
    by (auto simp: UpsertGroupMember_def res_simps upsert_row_def fresh_member_def split: if_splits)
  from assms show "member_of gid uid d = None \<longrightarrow> (\<exists>g \<in> set (sd_groups d). sg_ID g = gid)"
    by (auto simp: UpsertGroupMember_def res_simps split: if_splits)
qed

lemma upsert_member_of:
  assumes "UpsertGroupMember e now gid uid role by d = Inr d'"
  shows "member_of g u d' =
     (if (g, u) = (gid, uid)
      then Some (case member_of gid uid d of None \<Rightarrow> fresh_member now gid uid role by | Some m \<Rightarrow> given m role)
      else member_of g u d)"
  unfolding upsert_eq(1) [OF assms] member_of_def
  using upsert_find [of gm_key "fresh_member now gid uid role by" "\<lambda>m. given m role" "(g, u)" "sd_group_members d"]
  by auto

lemma delete_member_eq:
  "DeleteGroupMember e gid uid d = Inr (n, d') \<longleftrightarrow>
     pg_fault e ''DeleteGroupMember'' = None \<and> n = int (length (filter (\<lambda>m. gm_key m = (gid, uid)) (sd_group_members d))) \<and>
     d' = d\<lparr>sd_group_members := delete_where (\<lambda>m. gm_key m = (gid, uid)) (sd_group_members d)\<rparr>"
  by (auto simp: DeleteGroupMember_def stmt_def split: option.split)

lemma delete_member_of:
  assumes "DeleteGroupMember e gid uid d = Inr (n, d')"
  shows "member_of g u d' = (if (g, u) = (gid, uid) then None else member_of g u d)"
proof -
  have "find (\<lambda>m. gm_key m = (g, u)) (delete_where (\<lambda>m. gm_key m = (gid, uid)) t) =
      (if (g, u) = (gid, uid) then None else find (\<lambda>m. gm_key m = (g, u)) t)" for t
    by (induction t) (auto simp: delete_where_def)
  with assms show ?thesis by (simp add: delete_member_eq member_of_def)
qed

lemma alert_member_of:
  assumes "SetGroupMemberNotify e gid uid on d = Inr (n, d')"
  shows "map_option gm_Role (member_of g u d') = map_option gm_Role (member_of g u d)"
proof -
  have "map_option gm_Role (find (\<lambda>m. gm_key m = (g, u)) (update_where P (\<lambda>m. m\<lparr>gm_NotifyPosts := on\<rparr>) t)) =
      map_option gm_Role (find (\<lambda>m. gm_key m = (g, u)) t)" for t P
    by (induction t) (auto simp: update_where_def)
  with assms show ?thesis by (auto simp: SetGroupMemberNotify_def Let_def res_simps member_of_def)
qed

lemma dissolve_member_of:
  "member_of g u (delete_groups P d) = (if g \<in> sg_ID ` set (filter P (sd_groups d)) then None else member_of g u d)"
proof -
  have "find (\<lambda>m. gm_key m = (g, u)) (delete_where (\<lambda>m. gm_GroupID m \<in> G) t) =
      (if g \<in> G then None else find (\<lambda>m. gm_key m = (g, u)) t)" for t G
    by (induction t) (auto simp: delete_where_def)
  then show ?thesis by (simp add: delete_groups_def member_of_def Let_def)
qed

text \<open>What the statements leave alone: users, profiles and blocks always, and the tables they do not name.\<close>

definition same_rest :: "social_db \<Rightarrow> social_db \<Rightarrow> bool" where
  "same_rest d d' \<longleftrightarrow>
     sd_core d' = sd_core d \<and> sd_profiles d' = sd_profiles d \<and> sd_relationships d' = sd_relationships d"

lemma create_group_eq:
  "CreateSocialGroup e now i p d = Inr (c, d0) \<Longrightarrow>
     c = (i, now) \<and> i \<notin> sg_ID ` set (sd_groups d) \<and>
     (\<exists>g. d0 = d\<lparr>sd_groups := sd_groups d @ [g]\<rparr> \<and> sg_ID g = i \<and> sg_OwnerUserID g = csg_OwnerUserID p \<and>
        sg_Visibility g = csg_Visibility p)"
  by (auto simp: CreateSocialGroup_def res_simps split: if_splits)

lemma delete_groups_rest:
  "sd_core (delete_groups P d) = sd_core d" "sd_profiles (delete_groups P d) = sd_profiles d"
  "sd_relationships (delete_groups P d) = sd_relationships d"
  "sd_groups (delete_groups P d) = delete_where P (sd_groups d)"
  "sd_group_members (delete_groups P d) =
     delete_where (\<lambda>m. gm_GroupID m \<in> sg_ID ` set (filter P (sd_groups d))) (sd_group_members d)"
  by (simp_all add: delete_groups_def Let_def)

lemma group_effect_rest: "group_effect x a d d' \<Longrightarrow> same_rest d d'"
  by (cases rule: group_effect.cases)
    (auto simp: same_rest_def delete_groups_rest delete_member_eq UpdateSocialGroup_def DeleteSocialGroup_def
      SetGroupMemberNotify_def InsertGroupPost_def EditGroupPost_def TombstoneGroupPost_def TombstoneGroupPostAsOwner_def
      Let_def res_simps dest!: create_group_eq upsert_eq(1) split: if_splits)

lemma group_exec_rest: "same_rest d (group_exec x a d)"
  using group_exec_effect [of x a d] group_effect_rest [of x a d "group_exec x a d"] by (auto simp: same_rest_def)

lemma group_run_rest: "same_rest d (group_run as d)"
proof (induction as d rule: group_run.induct)
  case (2 x a as d)
  with group_exec_rest [of d x a] show ?case by (simp add: same_rest_def)
qed (simp add: same_rest_def)

subsection \<open>Integrity of groups and members\<close>

text \<open>
  Group ids and member keys are unique, a group is private or public, every member row belongs to
  a group and has one of the four roles, and the owner of a group is the one user with the role of owner.
\<close>

definition role_fits :: "SocialGroup list \<Rightarrow> int \<Rightarrow> int \<Rightarrow> int \<Rightarrow> bool" where
  "role_fits gs gid uid role \<longleftrightarrow> (\<exists>g \<in> set gs. sg_ID g = gid \<and> (role = 2 \<longleftrightarrow> uid = sg_OwnerUserID g))"

lemma role_fitsI: "g \<in> set gs \<Longrightarrow> sg_ID g = gid \<Longrightarrow> (role = 2 \<longleftrightarrow> uid = sg_OwnerUserID g) \<Longrightarrow> role_fits gs gid uid role"
  by (auto simp: role_fits_def)

definition members_ok :: "social_db \<Rightarrow> bool" where
  "members_ok d \<longleftrightarrow>
     keyed sg_ID (sd_groups d) \<and> keyed gm_key (sd_group_members d) \<and>
     (\<forall>g \<in> set (sd_groups d). sg_Visibility g \<in> {1, 2} \<and> member_of (sg_ID g) (sg_OwnerUserID g) d \<noteq> None) \<and>
     (\<forall>m \<in> set (sd_group_members d). gm_Role m \<in> {1, 2, 3, 4} \<and>
        role_fits (sd_groups d) (gm_GroupID m) (gm_UserID m) (gm_Role m))"

lemma members_okD:
  assumes "members_ok d" "member_of gid u d = Some m"
  shows "gm_Role m \<in> {1, 2, 3, 4}"
    and "g \<in> set (sd_groups d) \<Longrightarrow> sg_ID g = gid \<Longrightarrow> gm_Role m = 2 \<longleftrightarrow> u = sg_OwnerUserID g"
proof -
  have m: "m \<in> set (sd_group_members d)" "gm_key m = (gid, u)"
    using assms member_of_iff [of d gid u m] by (auto simp: members_ok_def)
  with assms(1) show "gm_Role m \<in> {1, 2, 3, 4}" unfolding members_ok_def by blast
  obtain g' where g': "g' \<in> set (sd_groups d)" "sg_ID g' = gid" "gm_Role m = 2 \<longleftrightarrow> u = sg_OwnerUserID g'"
    using assms(1) m unfolding members_ok_def role_fits_def by auto
  assume "g \<in> set (sd_groups d)" "sg_ID g = gid"
  with g' assms(1) have "g = g'" using keyed_inj [of sg_ID "sd_groups d" g g'] by (simp add: members_ok_def)
  with g'(3) show "gm_Role m = 2 \<longleftrightarrow> u = sg_OwnerUserID g" by simp
qed

lemma members_ok_group: "members_ok d \<Longrightarrow> member_of gid u d = Some m \<Longrightarrow> \<exists>g \<in> set (sd_groups d). sg_ID g = gid"
  using member_of_iff [of d gid u m] by (fastforce simp: members_ok_def role_fits_def)

lemma upsert_members:
  assumes "UpsertGroupMember e now gid uid role by d = Inr d'" "keyed gm_key (sd_group_members d)"
    and m: "m \<in> set (sd_group_members d')"
  shows "m \<in> set (sd_group_members d) \<or> m = fresh_member now gid uid role by \<and> member_of gid uid d = None \<or>
     (\<exists>y. member_of gid uid d = Some y \<and> m = given y role)"
proof -
  note d' = upsert_eq(1) [OF assms(1)]
  show ?thesis
  proof (cases "member_of gid uid d")
    case None
    then have "(gid, uid) \<notin> gm_key ` set (sd_group_members d)"
      unfolding member_of_def using find_key_None [of gm_key "(gid, uid)" "sd_group_members d"] by simp
    with m None show ?thesis by (auto simp: d' upsert_row_def)
  next
    case (Some z)
    then have "(gid, uid) \<in> gm_key ` set (sd_group_members d)"
      unfolding member_of_def using find_key_None [of gm_key "(gid, uid)" "sd_group_members d"] by auto
    with m have "m \<in> set (sd_group_members d) \<or> (\<exists>y \<in> set (sd_group_members d). gm_key y = (gid, uid) \<and> m = given y role)"
      by (auto simp: d' upsert_row_def tbl_simps)
    with member_of_iff [OF assms(2), of gid uid] show ?thesis by auto
  qed
qed

text \<open>An upsert that gives the role of owner to nobody else, and takes it from nobody, keeps the integrity.\<close>

lemma upsert_members_ok:
  assumes ok: "members_ok d" and up: "UpsertGroupMember e now gid uid role by d = Inr d'"
    and role: "role \<in> {1, 3, 4}" and guest: "\<And>g. g \<in> set (sd_groups d) \<Longrightarrow> sg_ID g = gid \<Longrightarrow> uid \<noteq> sg_OwnerUserID g"
  shows "members_ok d'"
  unfolding members_ok_def
proof (intro conjI ballI)
  note d' = upsert_eq(1) [OF up]
  have groups: "sd_groups d' = sd_groups d" using d' by simp
  show "keyed sg_ID (sd_groups d')" using ok by (simp add: groups members_ok_def)
  show "keyed gm_key (sd_group_members d')"
    using ok keyed_upsert [of gm_key "sd_group_members d" "fresh_member now gid uid role by" "\<lambda>m. given m role"]
    by (simp add: d' members_ok_def)
  fix g
  assume "g \<in> set (sd_groups d')"
  then have g: "g \<in> set (sd_groups d)" by (simp add: groups)
  with ok show "sg_Visibility g \<in> {1, 2}" by (simp add: members_ok_def)
  show "member_of (sg_ID g) (sg_OwnerUserID g) d' \<noteq> None"
    using ok g by (simp add: upsert_member_of [OF up] members_ok_def)
next
  note d' = upsert_eq(1) [OF up]
  have groups: "sd_groups d' = sd_groups d" using d' by simp
  have keyed: "keyed gm_key (sd_group_members d)" using ok by (simp add: members_ok_def)
  fix m
  assume "m \<in> set (sd_group_members d')"
  note origin = upsert_members [OF up keyed this]
  have "gm_Role m \<in> {1, 2, 3, 4} \<and> role_fits (sd_groups d) (gm_GroupID m) (gm_UserID m) (gm_Role m)"
    using origin
  proof (elim disjE exE conjE)
    assume "m \<in> set (sd_group_members d)"
    with ok show ?thesis by (simp add: members_ok_def)
  next
    assume m: "m = fresh_member now gid uid role by" "member_of gid uid d = None"
    then obtain g where g: "g \<in> set (sd_groups d)" "sg_ID g = gid" using upsert_eq(2) [OF up] by blast
    then have "uid \<noteq> sg_OwnerUserID g" by (rule guest)
    with m role g show ?thesis by (auto intro: role_fitsI [of g])
  next
    fix y
    assume y: "member_of gid uid d = Some y" "m = given y role"
    then obtain g where g: "g \<in> set (sd_groups d)" "sg_ID g = gid" using members_ok_group [OF ok] by blast
    then have "gm_Role y \<noteq> 2" "gm_Role y \<in> {1, 2, 3, 4}" using members_okD [OF ok y(1)] guest by auto
    then have "gm_Role m \<noteq> 2" "gm_Role m \<in> {1, 2, 3, 4}" using role by (auto simp: y(2) given_def)
    moreover have "gm_GroupID m = gid" "gm_UserID m = uid" using member_of_key [OF y(1)] by (simp_all add: y(2))
    moreover have "uid \<noteq> sg_OwnerUserID g" using g by (rule guest)
    ultimately show ?thesis using g by (auto intro: role_fitsI [of g])
  qed
  then show "gm_Role m \<in> {1, 2, 3, 4}" "role_fits (sd_groups d') (gm_GroupID m) (gm_UserID m) (gm_Role m)"
    by (simp_all only: groups)
qed

lemma members_ok_cong:
  "sd_groups d' = sd_groups d \<Longrightarrow> sd_group_members d' = sd_group_members d \<Longrightarrow> members_ok d' = members_ok d"
  by (simp add: members_ok_def member_of_def)

lemma delete_members_ok:
  assumes ok: "members_ok d" and del: "DeleteGroupMember e gid uid d = Inr (n, d')"
    and guest: "\<And>g. g \<in> set (sd_groups d) \<Longrightarrow> sg_ID g = gid \<Longrightarrow> uid \<noteq> sg_OwnerUserID g"
  shows "members_ok d'"
  unfolding members_ok_def
proof (intro conjI ballI)
  have d': "sd_groups d' = sd_groups d" "sd_group_members d' = delete_where (\<lambda>m. gm_key m = (gid, uid)) (sd_group_members d)"
    using del by (auto simp: delete_member_eq)
  show "keyed sg_ID (sd_groups d')" "keyed gm_key (sd_group_members d')" using ok by (auto simp: d' members_ok_def)
  fix g
  assume "g \<in> set (sd_groups d')"
  then have g: "g \<in> set (sd_groups d)" by (simp add: d')
  with ok show "sg_Visibility g \<in> {1, 2}" by (simp add: members_ok_def)
  show "member_of (sg_ID g) (sg_OwnerUserID g) d' \<noteq> None"
    using ok g guest [of g] by (auto simp: delete_member_of [OF del] members_ok_def)
next
  have d': "sd_groups d' = sd_groups d" "set (sd_group_members d') \<subseteq> set (sd_group_members d)"
    using del by (auto simp: delete_member_eq tbl_simps)
  fix m
  assume "m \<in> set (sd_group_members d')"
  with d' have "m \<in> set (sd_group_members d)" by blast
  with ok show "gm_Role m \<in> {1, 2, 3, 4}" "role_fits (sd_groups d') (gm_GroupID m) (gm_UserID m) (gm_Role m)"
    unfolding d'(1) members_ok_def by blast+
qed

lemma dissolve_members_ok:
  assumes ok: "members_ok d"
  shows "members_ok (delete_groups P d)"
  unfolding members_ok_def
proof (intro conjI ballI)
  let ?d = "delete_groups P d"
  have gone: "sg_ID g \<notin> sg_ID ` set (filter P (sd_groups d))" if "g \<in> set (sd_groups d)" "\<not> P g" for g
    using ok that by (auto simp: members_ok_def dest: keyed_inj)
  show "keyed sg_ID (sd_groups ?d)" "keyed gm_key (sd_group_members ?d)" using ok by (auto simp: delete_groups_rest members_ok_def)
  fix g
  assume "g \<in> set (sd_groups ?d)"
  then have g: "g \<in> set (sd_groups d)" "\<not> P g" by (simp_all add: delete_groups_rest tbl_simps)
  with ok show "sg_Visibility g \<in> {1, 2}" by (simp add: members_ok_def)
  show "member_of (sg_ID g) (sg_OwnerUserID g) ?d \<noteq> None"
    using ok g gone [OF g] by (simp add: dissolve_member_of members_ok_def)
next
  fix m
  assume "m \<in> set (sd_group_members (delete_groups P d))"
  then have m: "m \<in> set (sd_group_members d)" "gm_GroupID m \<notin> sg_ID ` set (filter P (sd_groups d))"
    by (auto simp: delete_groups_rest tbl_simps)
  with ok show "gm_Role m \<in> {1, 2, 3, 4}" by (simp add: members_ok_def)
  from ok m obtain g where g: "g \<in> set (sd_groups d)" "sg_ID g = gm_GroupID m" "gm_Role m = 2 \<longleftrightarrow> gm_UserID m = sg_OwnerUserID g"
    unfolding members_ok_def role_fits_def by blast
  with m(2) have "\<not> P g" by force
  with g show "role_fits (sd_groups (delete_groups P d)) (gm_GroupID m) (gm_UserID m) (gm_Role m)"
    by (intro role_fitsI [of g]) (simp_all add: delete_groups_rest tbl_simps)
qed

lemma update_group_ok:
  assumes ok: "members_ok d" and up: "UpdateSocialGroup e now gid owner t s vis d = Inr (n, d')" and vis: "vis \<in> {1, 2}"
  shows "members_ok d'"
proof -
  let ?P = "\<lambda>g. sg_ID g = gid \<and> sg_OwnerUserID g = owner"
  let ?f = "\<lambda>g. g\<lparr>sg_Title := t, sg_Description := s, sg_Visibility := vis, sg_UpdatedAt := now\<rparr>"
  from up have d': "d' = d\<lparr>sd_groups := update_where ?P ?f (sd_groups d)\<rparr>"
    by (auto simp: UpdateSocialGroup_def Let_def res_simps)
  have "keyed sg_ID (update_where ?P ?f (sd_groups d))"
    using ok keyed_update [of sg_ID "sd_groups d" ?P ?f] by (simp add: members_ok_def)
  moreover have "role_fits (update_where ?P ?f (sd_groups d)) i j b" if "role_fits (sd_groups d) i j b" for i j b
  proof -
    from that obtain g where "g \<in> set (sd_groups d)" "sg_ID g = i" "b = 2 \<longleftrightarrow> j = sg_OwnerUserID g" by (auto simp: role_fits_def)
    then show ?thesis by (intro role_fitsI [of "if ?P g then ?f g else g"]) (auto simp: update_where_def)
  qed
  ultimately show ?thesis
    using ok vis unfolding members_ok_def by (auto simp: d' member_of_def tbl_simps)
qed

lemma alert_members_ok:
  assumes ok: "members_ok d" and al: "SetGroupMemberNotify e gid uid on d = Inr (n, d')"
  shows "members_ok d'"
proof -
  let ?P = "\<lambda>m. gm_key m = (gid, uid) \<and> gm_Role m \<in> {1, 2}"
  have d': "d' = d\<lparr>sd_group_members := update_where ?P (\<lambda>m. m\<lparr>gm_NotifyPosts := on\<rparr>) (sd_group_members d)\<rparr>"
    using al by (auto simp: SetGroupMemberNotify_def Let_def res_simps)
  have "keyed gm_key (update_where ?P (\<lambda>m. m\<lparr>gm_NotifyPosts := on\<rparr>) (sd_group_members d))"
    using ok keyed_update [of gm_key "sd_group_members d" ?P "\<lambda>m. m\<lparr>gm_NotifyPosts := on\<rparr>"] by (simp add: members_ok_def)
  moreover have "member_of g u d' \<noteq> None" if "member_of g u d \<noteq> None" for g u
    using alert_member_of [OF al, of g u] that by (cases "member_of g u d'") auto
  ultimately show ?thesis
    using ok unfolding members_ok_def by (auto simp: d' tbl_simps)
qed

lemma create_members_ok:
  assumes ok: "members_ok d" and new: "CreateSocialGroup e now i p d = Inr (c, d0)" and vis: "csg_Visibility p \<in> {1, 2}"
    and up: "UpsertGroupMember e now (fst c) (csg_OwnerUserID p) 2 None d0 = Inr d'"
  shows "members_ok d'"
    and "member_of g u d' = (if (g, u) = (i, csg_OwnerUserID p) then Some (fresh_member now i (csg_OwnerUserID p) 2 None) else member_of g u d)"
    and "member_of i u d = None"
proof -
  from create_group_eq [OF new] obtain gr where c: "fst c = i" and new_id: "i \<notin> sg_ID ` set (sd_groups d)"
    and d0: "d0 = d\<lparr>sd_groups := sd_groups d @ [gr]\<rparr>"
    and gr: "sg_ID gr = i" "sg_OwnerUserID gr = csg_OwnerUserID p" "sg_Visibility gr = csg_Visibility p"
    by auto
  have none: "member_of i v d = None" for v
    using members_ok_group [OF ok, of i v] new_id by (cases "member_of i v d") auto
  then show "member_of i u d = None" .
  have mem0: "member_of g v d0 = member_of g v d" for g v by (simp add: d0 member_of_def)
  let ?m = "fresh_member now i (csg_OwnerUserID p) 2 None"
  have ms: "member_of g v d' = (if (g, v) = (i, csg_OwnerUserID p) then Some ?m else member_of g v d)" for g v
    using upsert_member_of [OF up, of g v] none by (simp add: mem0 c)
  then show "member_of g u d' = (if (g, u) = (i, csg_OwnerUserID p) then Some ?m else member_of g u d)" .
  have "(i, csg_OwnerUserID p) \<notin> gm_key ` set (sd_group_members d)"
    using none [of "csg_OwnerUserID p"] find_key_None [of gm_key "(i, csg_OwnerUserID p)" "sd_group_members d"]
    by (simp add: member_of_def)
  then have members: "sd_group_members d' = sd_group_members d @ [?m]" and groups: "sd_groups d' = sd_groups d @ [gr]"
    using upsert_eq(1) [OF up] by (simp_all add: d0 c upsert_row_def)
  show "members_ok d'"
    unfolding members_ok_def
  proof (intro conjI ballI)
    show "keyed sg_ID (sd_groups d')" using ok new_id by (simp add: groups gr keyed_def members_ok_def)
    show "keyed gm_key (sd_group_members d')"
      using ok \<open>(i, _) \<notin> _\<close> by (simp add: members keyed_def members_ok_def)
    fix g
    assume "g \<in> set (sd_groups d')"
    then have g: "g \<in> set (sd_groups d) \<or> g = gr" by (auto simp: groups)
    then show "sg_Visibility g \<in> {1, 2}" using ok vis gr(3) unfolding members_ok_def by metis
    show "member_of (sg_ID g) (sg_OwnerUserID g) d' \<noteq> None" using g ok by (auto simp: ms gr members_ok_def)
  next
    fix m
    assume "m \<in> set (sd_group_members d')"
    then have m: "m \<in> set (sd_group_members d) \<or> m = ?m" by (auto simp: members)
    then show "gm_Role m \<in> {1, 2, 3, 4}" using ok unfolding members_ok_def by auto
    show "role_fits (sd_groups d') (gm_GroupID m) (gm_UserID m) (gm_Role m)"
      using m
    proof
      assume "m \<in> set (sd_group_members d)"
      with ok have "role_fits (sd_groups d) (gm_GroupID m) (gm_UserID m) (gm_Role m)" by (simp add: members_ok_def)
      then show ?thesis by (auto simp: groups role_fits_def)
    next
      assume "m = ?m"
      then show ?thesis by (intro role_fitsI [of gr]) (auto simp: groups gr)
    qed
  qed
qed

subsection \<open>The life of a membership\<close>

text \<open>
  Abstractly every user has a standing in every group.  \<open>membership_step opn c\<close> is what the user \<open>c\<close> may
  do to the standings when the groups of \<open>opn\<close> are public.
\<close>

datatype standing = Outside | Member | Owner | Invited | Banned

definition role_standing :: "int \<Rightarrow> standing" where
  "role_standing r =
     (if r = 1 then Member else if r = 2 then Owner else if r = 3 then Invited else if r = 4 then Banned else Outside)"

definition standings :: "social_db \<Rightarrow> int \<Rightarrow> int \<Rightarrow> standing" where
  "standings d g u = (case member_of g u d of None \<Rightarrow> Outside | Some m \<Rightarrow> role_standing (gm_Role m))"

definition open_group :: "social_db \<Rightarrow> int \<Rightarrow> bool" where
  "open_group d g \<longleftrightarrow> (\<exists>r \<in> set (sd_groups d). sg_ID r = g \<and> sg_Visibility r = 2)"

inductive membership_step :: "(int \<Rightarrow> bool) \<Rightarrow> int \<Rightarrow> (int \<Rightarrow> int \<Rightarrow> standing) \<Rightarrow> (int \<Rightarrow> int \<Rightarrow> standing) \<Rightarrow> bool" where
  found: "membership_step opn c m (m(g := (m g)(c := Owner)))" if "\<And>v. m g v = Outside"
| enter: "membership_step opn c m (m(g := (m g)(c := Member)))" if "m g c \<in> {Outside, Invited}" "opn g"
| accept: "membership_step opn c m (m(g := (m g)(c := Member)))" if "m g c = Invited"
| quit: "membership_step opn c m (m(g := (m g)(c := Outside)))" if "m g c \<in> {Member, Invited}"
| call: "membership_step opn c m (m(g := (m g)(u := Invited)))" if "m g c \<in> {Member, Owner}" "m g u = Outside"
| expel: "membership_step opn c m (m(g := (m g)(u := Outside)))" if "m g c = Owner" "u \<noteq> c"
| exile: "membership_step opn c m (m(g := (m g)(u := Banned)))" if "m g c = Owner" "u \<noteq> c"
| disband: "membership_step opn c m (m(g := (\<lambda>_. Outside)))" if "m g c = Owner"

inductive_cases membership_stepE: "membership_step opn c m m'"

lemma role_standing_iff:
  "role_standing r = Member \<longleftrightarrow> r = 1" "role_standing r = Owner \<longleftrightarrow> r = 2" "role_standing r = Invited \<longleftrightarrow> r = 3"
  "role_standing r = Banned \<longleftrightarrow> r = 4"
  by (auto simp: role_standing_def)

lemma get_member: "GetGroupMember e g u d = Inr m \<Longrightarrow> member_of g u d = Some m"
  by (simp add: GetGroupMember_def res_simps member_of_def)

lemma get_no_member: "GetGroupMember e g u d = Inl err \<Longrightarrow> Is_ErrNoRows err \<Longrightarrow> proper_faults e \<Longrightarrow> member_of g u d = None"
  by (auto simp: GetGroupMember_def stmt_def res_simps member_of_def proper_faults_def split: option.splits)

lemma get_group:
  assumes "GetSocialGroup e gid (Some v) d = Inr r"
  obtains g where "g \<in> set (sd_groups d)" "sg_ID g = gid" "gr_Visibility r = sg_Visibility g"
    "gr_MemberCount r = member_count gid d"
    "gr_YourRole r = (case member_of gid v d of None \<Rightarrow> 0 | Some m \<Rightarrow> gm_Role m)"
  using assms by (auto simp: GetSocialGroup_def group_row_def res_simps dest!: find_Some_mem split: option.splits)

lemma standings_upsert:
  assumes "UpsertGroupMember e now gid uid role by d = Inr d'" "standings d gid uid \<noteq> Banned \<or> role = 4"
  shows "standings d' = (standings d)(gid := (standings d gid)(uid := role_standing role))"
  using assms(2)
  by (auto simp: fun_eq_iff standings_def upsert_member_of [OF assms(1)] given_def role_standing_iff split: option.split)

lemma standings_delete:
  "DeleteGroupMember e gid uid d = Inr (n, d') \<Longrightarrow> standings d' = (standings d)(gid := (standings d gid)(uid := Outside))"
  by (auto simp: fun_eq_iff standings_def delete_member_of)

lemma standings_alert:
  assumes "SetGroupMemberNotify e gid uid on d = Inr (n, d')"
  shows "standings d' = standings d"
proof (intro ext)
  fix g u
  show "standings d' g u = standings d g u"
    using alert_member_of [OF assms, of g u] by (auto simp: standings_def split: option.splits)
qed

lemma standings_cong: "sd_group_members d' = sd_group_members d \<Longrightarrow> standings d' = standings d"
  by (simp add: fun_eq_iff standings_def member_of_def)

lemma owner_standing:
  assumes "members_ok d" "g \<in> set (sd_groups d)"
  shows "standings d (sg_ID g) u = Owner \<longleftrightarrow> u = sg_OwnerUserID g"
proof (cases "member_of (sg_ID g) u d")
  case None
  with assms show ?thesis by (auto simp: standings_def members_ok_def)
next
  case (Some m)
  then show ?thesis using members_okD(2) [OF assms(1) Some assms(2)] by (simp add: standings_def role_standing_iff)
qed

lemma not_owner: "members_ok d \<Longrightarrow> standings d gid u \<noteq> Owner \<Longrightarrow> g \<in> set (sd_groups d) \<Longrightarrow> sg_ID g = gid \<Longrightarrow> u \<noteq> sg_OwnerUserID g"
  using owner_standing by blast

lemma one_owner: "members_ok d \<Longrightarrow> standings d gid u = Owner \<Longrightarrow> v \<noteq> u \<Longrightarrow> standings d gid v \<noteq> Owner"
proof -
  assume ok: "members_ok d" and u: "standings d gid u = Owner" and v: "v \<noteq> u"
  from u obtain m where "member_of gid u d = Some m" by (auto simp: standings_def split: option.splits)
  then obtain g where "g \<in> set (sd_groups d)" "sg_ID g = gid" using members_ok_group [OF ok] by blast
  with owner_standing [OF ok this(1)] u v show ?thesis by auto
qed

lemma group_posts_frame:
  "InsertGroupPost e now i p d = Inr (c, d') \<Longrightarrow> sd_groups d' = sd_groups d \<and> sd_group_members d' = sd_group_members d"
  "EditGroupPost e now pid u t d = Inr (n, d') \<Longrightarrow> sd_groups d' = sd_groups d \<and> sd_group_members d' = sd_group_members d"
  "TombstoneGroupPost e now pid u d = Inr (n, d') \<Longrightarrow> sd_groups d' = sd_groups d \<and> sd_group_members d' = sd_group_members d"
  "TombstoneGroupPostAsOwner e now pid u d = Inr (n, d') \<Longrightarrow> sd_groups d' = sd_groups d \<and> sd_group_members d' = sd_group_members d"
  by (auto simp: InsertGroupPost_def EditGroupPost_def TombstoneGroupPost_def TombstoneGroupPostAsOwner_def Let_def res_simps
      split: if_splits)

lemma update_frame: "UpdateSocialGroup e now gid u t s vis d = Inr (n, d') \<Longrightarrow> sd_group_members d' = sd_group_members d"
  by (auto simp: UpdateSocialGroup_def Let_def res_simps)

lemma unchanged_step:
  assumes "members_ok d" "sd_groups d' = sd_groups d \<and> sd_group_members d' = sd_group_members d"
  shows "members_ok d' \<and> (P \<or> standings d' = standings d)"
  using assms members_ok_cong [of d' d] standings_cong [of d' d] by simp

text \<open>One effective request: the integrity is kept and the standings make a step of the caller, if any.\<close>

lemma group_effect_step:
  assumes ok: "members_ok d" and eff: "group_effect x a d d'" and faults: "proper_faults (sx_env x)" and c: "caller x d = Some u"
  shows "members_ok d' \<and> (membership_step (open_group d) (u_ID u) (standings d) (standings d') \<or> standings d' = standings d)"
  using eff
proof (cases rule: group_effect.cases)
  case (create v p cc d0 req)
  with c have v: "v = u" by simp
  with create have up: "UpsertGroupMember (sx_env x) (sx_db x 0) (fst cc) (csg_OwnerUserID p) 2 None d0 = Inr d'" by simp
  note new = create_members_ok [OF ok create(3,5) up]
  let ?i = "sx_id x"
  have "standings d ?i w = Outside" for w using new(3) [of w] by (simp add: standings_def)
  moreover have "standings d' = (standings d)(?i := (standings d ?i)(u_ID u := Owner))"
    using new(2) create(4) v by (auto simp: fun_eq_iff standings_def role_standing_def)
  ultimately show ?thesis using new(1) by (simp add: membership_step.found)
next
  case (update v gid g vis t s n req)
  show ?thesis using standings_cong [OF update_frame [OF update(6)]] update_group_ok [OF ok update(6,4)] by simp
next
  case (dissolve v gid n)
  with c have d': "d' = delete_groups (\<lambda>g. sg_ID g = gid \<and> sg_OwnerUserID g = u_ID u) d"
    by (auto simp: DeleteSocialGroup_def Let_def res_simps)
  show ?thesis
  proof (cases "\<exists>g \<in> set (sd_groups d). sg_ID g = gid \<and> sg_OwnerUserID g = u_ID u")
    case True
    then have "standings d' = (standings d)(gid := (\<lambda>_. Outside))"
      by (auto simp: fun_eq_iff d' standings_def dissolve_member_of image_iff)
    moreover have "standings d gid (u_ID u) = Owner" using True owner_standing [OF ok] by auto
    ultimately show ?thesis using dissolve_members_ok [OF ok] membership_step.disband [of "standings d" gid "u_ID u"] by (simp add: d')
  next
    case False
    then have "standings d' = standings d" by (auto simp: fun_eq_iff d' standings_def dissolve_member_of image_iff)
    then show ?thesis using dissolve_members_ok [OF ok] by (simp add: d')
  qed
next
  case (join v gid g)
  with c have v: "v = u" by simp
  obtain gr where gr: "gr \<in> set (sd_groups d)" "sg_ID gr = gid" "gr_Visibility g = sg_Visibility gr"
    and "gr_YourRole g = (case member_of gid (u_ID u) d of None \<Rightarrow> 0 | Some m \<Rightarrow> gm_Role m)"
    using get_group [OF join(3) [unfolded v]] by metis
  then have opn: "open_group d gid" using join(4) by (auto simp: open_group_def)
  from \<open>gr_YourRole g = _\<close> join(5) have st: "standings d gid (u_ID u) \<in> {Outside, Invited}"
    by (auto simp: standings_def role_standing_def split: option.splits)
  then have "standings d gid (u_ID u) \<noteq> Owner" by auto
  with upsert_members_ok [OF ok join(6) [unfolded v] _ not_owner [OF ok]]
  have "members_ok d'" by simp
  moreover have "standings d' = (standings d)(gid := (standings d gid)(u_ID u := Member))"
    using standings_upsert [OF join(6) [unfolded v]] st by (auto simp: role_standing_def)
  ultimately show ?thesis using membership_step.enter [of "standings d" gid "u_ID u" "open_group d", OF st opn] by simp
next
  case (leave v gid m n)
  with c have v: "v = u" by simp
  have mem: "member_of gid (u_ID u) d = Some m" using leave(3) v by (simp add: get_member)
  with leave(4) members_okD(1) [OF ok mem] have st: "standings d gid (u_ID u) \<in> {Member, Invited}"
    by (auto simp: standings_def role_standing_def)
  then have "standings d gid (u_ID u) \<noteq> Owner" by auto
  with delete_members_ok [OF ok leave(5) [unfolded v] not_owner [OF ok]] have "members_ok d'" by blast
  then show ?thesis using membership_step.quit [of "standings d" gid "u_ID u", OF st] standings_delete [OF leave(5) [unfolded v]] by simp
next
  case (invite v gid m t err h)
  with c have v: "v = u" by simp
  have none: "member_of gid t d = None" using invite(5,6) faults by (rule get_no_member)
  then have out: "standings d gid t = Outside" by (simp add: standings_def)
  have mem: "member_of gid (u_ID u) d = Some m" using invite(3) v by (simp add: get_member)
  with invite(4) have st: "standings d gid (u_ID u) \<in> {Member, Owner}" by (auto simp: standings_def role_standing_def)
  have "standings d gid t \<noteq> Owner" using out by simp
  with upsert_members_ok [OF ok invite(7) _ not_owner [OF ok]] have "members_ok d'" by simp
  moreover have "standings d' = (standings d)(gid := (standings d gid)(t := Invited))"
    using standings_upsert [OF invite(7)] out by (simp add: role_standing_def)
  ultimately show ?thesis using membership_step.call [of "standings d" gid "u_ID u" t] st out by auto
next
  case (accept v gid m g)
  with c have v: "v = u" by simp
  have mem: "member_of gid (u_ID u) d = Some m" using accept(3) v by (simp add: get_member)
  with accept(4) have st: "standings d gid (u_ID u) = Invited"
    by (auto simp: standings_def role_standing_def)
  then have "standings d gid (u_ID u) \<noteq> Owner" by auto
  with upsert_members_ok [OF ok accept(7) [unfolded v] _ not_owner [OF ok]] have "members_ok d'" by simp
  moreover have "standings d' = (standings d)(gid := (standings d gid)(u_ID u := Member))"
    using standings_upsert [OF accept(7) [unfolded v]] st by (auto simp: role_standing_def)
  ultimately show ?thesis using membership_step.accept [of "standings d" gid "u_ID u", OF st] by simp
next
  case (decline v gid m n)
  with c have v: "v = u" by simp
  have mem: "member_of gid (u_ID u) d = Some m" using decline(3) v by (simp add: get_member)
  with decline(4) have st: "standings d gid (u_ID u) \<in> {Member, Invited}" by (auto simp: standings_def role_standing_def)
  then have "standings d gid (u_ID u) \<noteq> Owner" by auto
  with delete_members_ok [OF ok decline(5) [unfolded v] not_owner [OF ok]] have "members_ok d'" by blast
  then show ?thesis using membership_step.quit [of "standings d" gid "u_ID u", OF st] standings_delete [OF decline(5) [unfolded v]] by simp
next
  case (ban v gid m t h)
  with c have v: "v = u" by simp
  have mem: "member_of gid (u_ID u) d = Some m" using ban(3) v by (simp add: get_member)
  with ban(4) have st: "standings d gid (u_ID u) = Owner" by (simp add: standings_def role_standing_def)
  have t: "t \<noteq> u_ID u" using ban(5) v by simp
  with upsert_members_ok [OF ok ban(6) _ not_owner [OF ok]] one_owner [OF ok st t] have "members_ok d'" by simp
  moreover have "standings d' = (standings d)(gid := (standings d gid)(t := Banned))"
    using standings_upsert [OF ban(6)] by (simp add: role_standing_def)
  ultimately show ?thesis using membership_step.exile [of "standings d" gid "u_ID u" t, OF st t] by simp
next
  case (kick v gid m t n h)
  with c have v: "v = u" by simp
  have mem: "member_of gid (u_ID u) d = Some m" using kick(3) v by (simp add: get_member)
  with kick(4) have st: "standings d gid (u_ID u) = Owner" by (simp add: standings_def role_standing_def)
  have t: "t \<noteq> u_ID u" using kick(5) v by simp
  with delete_members_ok [OF ok kick(6) not_owner [OF ok]] one_owner [OF ok st t] have "members_ok d'" by blast
  then show ?thesis using membership_step.expel [of "standings d" gid "u_ID u" t, OF st t] standings_delete [OF kick(6)] by simp
next
  case (alert v gid on n)
  then show ?thesis using alert_members_ok [OF ok] standings_alert by blast
next
  case (submit v req m p cc)
  show ?thesis by (rule unchanged_step [OF ok group_posts_frame(1) [OF submit(6)]])
next
  case (edit v pid post body n)
  show ?thesis by (rule unchanged_step [OF ok group_posts_frame(2) [OF edit(7)]])
next
  case (retract v pid n)
  show ?thesis by (rule unchanged_step [OF ok group_posts_frame(3) [OF retract(3)]])
next
  case (moderate v pid n)
  show ?thesis by (rule unchanged_step [OF ok group_posts_frame(4) [OF moderate(3)]])
qed

subsection \<open>Threads\<close>

text \<open>
  Every post belongs to a group; a reply names its parent and the top-level post of the thread, both
  in the same group.
\<close>

definition threaded :: "SocialGroupPost list \<Rightarrow> SocialGroupPost \<Rightarrow> bool" where
  "threaded ps p \<longleftrightarrow>
     (case (gp_ParentID p, gp_RootID p) of
        (None, None) \<Rightarrow> True
      | (Some q, Some t) \<Rightarrow>
          (\<exists>r \<in> set ps. gp_ID r = q \<and> gp_GroupID r = gp_GroupID p \<and> gp_RootID r \<in> {None, Some t} \<and>
             (gp_RootID r = None \<longrightarrow> t = q)) \<and>
          (\<exists>r \<in> set ps. gp_ID r = t \<and> gp_GroupID r = gp_GroupID p \<and> gp_ParentID r = None)
      | _ \<Rightarrow> False)"

definition posts_ok :: "social_db \<Rightarrow> bool" where
  "posts_ok d \<longleftrightarrow>
     keyed gp_ID (sd_group_posts d) \<and>
     (\<forall>p \<in> set (sd_group_posts d). gp_GroupID p \<in> sg_ID ` set (sd_groups d) \<and> threaded (sd_group_posts d) p)"

text \<open>The columns that tie posts together.\<close>

definition post_links :: "SocialGroupPost \<Rightarrow> int \<times> int \<times> int option \<times> int option" where
  "post_links p = (gp_ID p, gp_GroupID p, gp_ParentID p, gp_RootID p)"

lemma threaded_links: "threaded ps p \<longleftrightarrow>
    (case post_links p of (_, g, None, None) \<Rightarrow> True
     | (_, g, Some q, Some t) \<Rightarrow>
         (\<exists>(i, h, _, s) \<in> post_links ` set ps. i = q \<and> h = g \<and> s \<in> {None, Some t} \<and> (s = None \<longrightarrow> t = q)) \<and>
         (\<exists>(i, h, pa, _) \<in> post_links ` set ps. i = t \<and> h = g \<and> pa = None)
     | _ \<Rightarrow> False)"
  by (auto simp: threaded_def post_links_def split: option.split)

lemma posts_ok_links:
  assumes "map post_links (sd_group_posts d') = map post_links (sd_group_posts d)" "sg_ID ` set (sd_groups d') = sg_ID ` set (sd_groups d)"
  shows "posts_ok d' = posts_ok d"
proof -
  have ids: "map gp_ID (sd_group_posts e) = map fst (map post_links (sd_group_posts e))" for e
    by (simp add: post_links_def)
  have links: "post_links ` set (sd_group_posts d') = post_links ` set (sd_group_posts d)"
    using arg_cong [OF assms(1), of set] by simp
  have iff: "(\<forall>p \<in> set (sd_group_posts e). gp_GroupID p \<in> G \<and> threaded ps p) \<longleftrightarrow>
      (\<forall>l \<in> post_links ` set (sd_group_posts e). fst (snd l) \<in> G \<and>
         (case l of (_, g, None, None) \<Rightarrow> True
          | (_, g, Some q, Some t) \<Rightarrow>
              (\<exists>(i, h, _, s) \<in> post_links ` set ps. i = q \<and> h = g \<and> s \<in> {None, Some t} \<and> (s = None \<longrightarrow> t = q)) \<and>
              (\<exists>(i, h, pa, _) \<in> post_links ` set ps. i = t \<and> h = g \<and> pa = None)
          | _ \<Rightarrow> False))" for e G ps
    unfolding threaded_links by (simp add: post_links_def)
  show ?thesis
    unfolding posts_ok_def iff keyed_def ids assms links ..
qed

lemma rewrite_links: "(\<And>p. post_links (f p) = post_links p) \<Longrightarrow> map post_links (update_where P f ps) = map post_links ps"
  by (simp add: update_where_def)

lemma edit_links:
  "EditGroupPost e now pid u t d = Inr (n, d') \<Longrightarrow> map post_links (sd_group_posts d') = map post_links (sd_group_posts d)"
  by (auto simp: EditGroupPost_def Let_def res_simps intro!: rewrite_links [simplified] simp: post_links_def)

lemma tombstone_links:
  "TombstoneGroupPost e now pid u d = Inr (n, d') \<Longrightarrow> map post_links (sd_group_posts d') = map post_links (sd_group_posts d)"
  "TombstoneGroupPostAsOwner e now pid u d = Inr (n, d') \<Longrightarrow> map post_links (sd_group_posts d') = map post_links (sd_group_posts d)"
  by (auto simp: TombstoneGroupPost_def TombstoneGroupPostAsOwner_def Let_def res_simps update_where_def post_links_def wipe_post_def)

lemma threaded_cases:
  assumes "threaded ps p"
  obtains "gp_ParentID p = None" "gp_RootID p = None"
  | r s where "gp_ParentID p = Some (gp_ID r)" "gp_RootID p = Some (gp_ID s)" "r \<in> set ps" "gp_GroupID r = gp_GroupID p"
      "s \<in> set ps" "gp_GroupID s = gp_GroupID p"
  using assms by (auto simp: threaded_def split: option.splits)

lemma dissolve_posts:
  assumes "posts_ok d"
  shows "sd_group_posts (delete_groups P d) =
     delete_where (\<lambda>p. gp_GroupID p \<in> sg_ID ` set (filter P (sd_groups d))) (sd_group_posts d)"
proof -
  let ?gone = "sg_ID ` set (filter P (sd_groups d))"
  let ?posts = "Some ` gp_ID ` set (filter (\<lambda>p. gp_GroupID p \<in> ?gone) (sd_group_posts d))"
  have "gp_ParentID p \<notin> ?posts \<and> gp_RootID p \<notin> ?posts" if p: "p \<in> set (sd_group_posts d)" "gp_GroupID p \<notin> ?gone" for p
  proof -
    have k: "keyed gp_ID (sd_group_posts d)" and th: "threaded (sd_group_posts d) p" using assms p by (simp_all add: posts_ok_def)
    have alien: "Some (gp_ID r) \<notin> ?posts" if "r \<in> set (sd_group_posts d)" "gp_GroupID r = gp_GroupID p" for r
    proof
      assume "Some (gp_ID r) \<in> ?posts"
      then obtain r' where "r' \<in> set (sd_group_posts d)" "gp_GroupID r' \<in> ?gone" "gp_ID r' = gp_ID r" by auto
      with keyed_inj [OF k that(1)] that(2) p(2) show False by metis
    qed
    from th show ?thesis
    proof (cases rule: threaded_cases)
      case 1
      show ?thesis unfolding 1 by blast
    next
      case (2 r s)
      show ?thesis unfolding 2(1,2) using alien [OF 2(3,4)] alien [OF 2(5,6)] by (rule conjI)
    qed
  qed
  then have "map (\<lambda>p. p\<lparr>gp_ParentID := (if gp_ParentID p \<in> ?posts then None else gp_ParentID p),
                       gp_RootID := (if gp_RootID p \<in> ?posts then None else gp_RootID p)\<rparr>)
               (delete_where (\<lambda>p. gp_GroupID p \<in> ?gone) (sd_group_posts d)) =
             delete_where (\<lambda>p. gp_GroupID p \<in> ?gone) (sd_group_posts d)"
    by (intro map_idI) (simp add: tbl_simps)
  then show ?thesis by (simp add: delete_groups_def Let_def)
qed

lemma dissolve_posts_ok:
  assumes "posts_ok d"
  shows "posts_ok (delete_groups P d)"
proof -
  let ?gone = "sg_ID ` set (filter P (sd_groups d))"
  note ps = dissolve_posts [OF assms, of P]
  have "keyed gp_ID (sd_group_posts (delete_groups P d))" using assms by (auto simp: ps posts_ok_def)
  moreover have "gp_GroupID p \<in> sg_ID ` set (sd_groups (delete_groups P d)) \<and> threaded (sd_group_posts (delete_groups P d)) p"
    if "p \<in> set (sd_group_posts (delete_groups P d))" for p
  proof
    from that have p: "p \<in> set (sd_group_posts d)" "gp_GroupID p \<notin> ?gone" by (simp_all add: ps tbl_simps)
    with assms obtain g where "g \<in> set (sd_groups d)" "sg_ID g = gp_GroupID p" by (auto simp: posts_ok_def)
    moreover with p(2) have "\<not> P g" by force
    ultimately show "gp_GroupID p \<in> sg_ID ` set (sd_groups (delete_groups P d))"
      by (auto simp: delete_groups_rest tbl_simps intro!: rev_image_eqI [of g])
    have keep: "r \<in> set (sd_group_posts (delete_groups P d))" if "r \<in> set (sd_group_posts d)" "gp_GroupID r = gp_GroupID p" for r
      using that p(2) by (simp add: ps tbl_simps)
    have "threaded (sd_group_posts d) p" using assms p by (simp add: posts_ok_def)
    then show "threaded (sd_group_posts (delete_groups P d)) p"
      using keep by (fastforce simp: threaded_def split: option.splits)
  qed
  ultimately show ?thesis by (simp add: posts_ok_def)
qed

lemma parent_of_Inr:
  assumes "parent_of x u gid pid d = Inr p"
  obtains "pre_ParentID p = None" "pre_RootID p = None"
  | r where "r \<in> set (sd_group_posts d)" "gp_GroupID r = gid" "pre_ParentID p = Some (gp_ID r)"
      "pre_RootID p = Some (case gp_RootID r of None \<Rightarrow> gp_ID r | Some t \<Rightarrow> t)"
  using assms
  by (auto simp: parent_of_def GetGroupPostByID_def Let_def res_simps dest!: find_Some_mem
      split: if_splits sum.splits prod.splits option.splits)

lemma submit_posts_ok:
  assumes ok: "posts_ok d" and par: "parent_of x u (gpq_GroupId req) (gpq_ParentId req) d = Inr p"
    and ins: "InsertGroupPost e now i (post_params u req p) d = Inr (c, d')"
  shows "posts_ok d'"
proof -
  let ?p = "new_post now i (post_params u req p)"
  from ins have d': "sd_groups d' = sd_groups d" "sd_group_posts d' = sd_group_posts d @ [?p]"
    and new: "i \<notin> gp_ID ` set (sd_group_posts d)" and grp: "gpq_GroupId req \<in> sg_ID ` set (sd_groups d)"
    by (auto simp: InsertGroupPost_def post_params_def res_simps split: if_splits intro: rev_image_eqI)
  have mono: "threaded (ps @ [r]) q" if "threaded ps q" for ps r q
    using that by (fastforce simp: threaded_def split: option.splits)
  have "threaded (sd_group_posts d @ [?p]) ?p"
    using par
  proof (cases rule: parent_of_Inr)
    case 1
    then show ?thesis by (simp add: threaded_def new_post_def post_params_def)
  next
    case (2 r)
    have "threaded (sd_group_posts d) r" using ok 2 by (simp add: posts_ok_def)
    with 2 show ?thesis
      by (cases "gp_ParentID r"; cases "gp_RootID r") (auto simp: threaded_def new_post_def post_params_def)
  qed
  moreover have "keyed gp_ID (sd_group_posts d @ [?p])" using ok new by (simp add: posts_ok_def keyed_def new_post_def)
  ultimately show ?thesis
    using ok grp mono by (auto simp: posts_ok_def d' new_post_def post_params_def)
qed

end
