(* ===== verification/Social_Theorems.thy ===== *)
theory Social_Theorems
  imports Social_Runs
begin

section \<open>Correctness of the social endpoints\<close>

text \<open>
  The life of a handle, what a block guarantees and what it does not when requests interleave,
  how a follow becomes active, and the limit on reports.
\<close>

subsection \<open>The life of a handle\<close>

text \<open>
  Abstractly a handle is free, owned by a user, retired, or reserved by the operator; a name
  means its \<^verbatim>\<open>CITEXT\<close> form.
\<close>

datatype handle_state = Free | Owned int | Retired | Reserved

definition row_state :: "SocialHandle \<Rightarrow> handle_state" where
  "row_state h =
     (case sh_UserID h of
        Some u \<Rightarrow> Owned u
      | None \<Rightarrow> if sh_Status h = handleStatusTombstoned then Retired else Reserved)"

definition handle_states :: "auth_lib \<Rightarrow> social_db \<Rightarrow> string \<Rightarrow> handle_state" where
  "handle_states l d k =
     (case find (\<lambda>h. al_citext l (sh_Handle h) = k) (sd_handles d) of None \<Rightarrow> Free | Some h \<Rightarrow> row_state h)"

inductive handle_step :: "(string \<Rightarrow> handle_state) \<Rightarrow> (string \<Rightarrow> handle_state) \<Rightarrow> bool" where
  claim: "handle_step m (m(k := Owned u))" if "m k = Free" "Owned u \<notin> range m"
| release: "handle_step m (m(k := Retired))" if "m k = Owned u"

text \<open>The constraints of the table: unique names, one handle for a user, and only an active handle has a user.\<close>

definition handles_ok :: "auth_lib \<Rightarrow> social_db \<Rightarrow> bool" where
  "handles_ok l d \<longleftrightarrow>
     keyed (\<lambda>h. al_citext l (sh_Handle h)) (sd_handles d) \<and>
     keyed sh_UserID (filter (\<lambda>h. sh_UserID h \<noteq> None) (sd_handles d)) \<and>
     (\<forall>h \<in> set (sd_handles d). (sh_UserID h \<noteq> None) = (sh_Status h = 0))"

lemma handles_ok_owner:
  assumes "handles_ok l d" "h \<in> set (sd_handles d)" "h' \<in> set (sd_handles d)" "sh_UserID h = Some u" "sh_UserID h' = Some u"
  shows "h = h'"
  using assms keyed_inj [of sh_UserID "filter (\<lambda>h. sh_UserID h \<noteq> None) (sd_handles d)" h h'] by (simp add: handles_ok_def)

lemma owned_iff:
  assumes "handles_ok l d"
  shows "Owned u \<in> range (handle_states l d) \<longleftrightarrow> Some u \<in> sh_UserID ` set (sd_handles d)"
proof
  assume "Owned u \<in> range (handle_states l d)"
  then obtain h k where "find (\<lambda>h. al_citext l (sh_Handle h) = k) (sd_handles d) = Some h" "row_state h = Owned u"
    by (auto simp: handle_states_def split: option.splits)
  then show "Some u \<in> sh_UserID ` set (sd_handles d)"
    by (auto simp: row_state_def dest!: find_Some_mem split: option.splits if_splits) (metis image_eqI)
next
  assume "Some u \<in> sh_UserID ` set (sd_handles d)"
  then obtain h where h: "h \<in> set (sd_handles d)" "sh_UserID h = Some u" by force
  with assms have "find (\<lambda>r. al_citext l (sh_Handle r) = al_citext l (sh_Handle h)) (sd_handles d) = Some h"
    by (simp add: handles_ok_def keyed_find)
  with h(2) have "handle_states l d (al_citext l (sh_Handle h)) = Owned u" by (simp add: handle_states_def row_state_def)
  then show "Owned u \<in> range (handle_states l d)" by (metis rangeI)
qed

lemma joined_handles:
  assumes ok: "handles_ok l d" and j: "joined l now d d'"
  shows "handles_ok l d'" "handle_step (handle_states l d) (handle_states l d')"
proof -
  from j obtain h u where c: "claimed l now h u (sd_handles d) (sd_handles d')" and u: "Some u \<notin> sh_UserID ` set (sd_handles d)"
    unfolding joined_def by blast
  let ?r = "\<lparr>sh_Handle = h, sh_UserID = Some u, sh_Status = 0, sh_ClaimedAt = now, sh_ReleasedAt = None\<rparr>"
  from c have hs: "sd_handles d' = sd_handles d @ [?r]" and new: "al_citext l h \<notin> (\<lambda>r. al_citext l (sh_Handle r)) ` set (sd_handles d)"
    by (auto simp: claimed_def)
  show "handles_ok l d'"
    using ok u new by (auto simp: handles_ok_def hs keyed_def image_iff)
  have "handle_states l d (al_citext l h) = Free"
    using new by (auto simp: handle_states_def image_iff split: option.split dest!: find_Some_mem)
  moreover have "handle_states l d' = (handle_states l d)(al_citext l h := Owned u)"
    using calculation by (auto simp: handle_states_def hs find_append row_state_def fun_eq_iff split: option.splits if_splits)
  moreover have "Owned u \<notin> range (handle_states l d)" using owned_iff [OF ok] u by blast
  ultimately show "handle_step (handle_states l d) (handle_states l d')" by (simp add: handle_step.claim)
qed

lemma released_find:
  "find (\<lambda>h. al_citext l (sh_Handle h) = k) (released now u hs) =
     map_option (\<lambda>h. if sh_UserID h = Some u \<and> sh_Status h = 0 then tombstoned now h else h)
       (find (\<lambda>h. al_citext l (sh_Handle h) = k) hs)"
  by (induction hs) (auto simp: released_def update_where_def)

lemma released_handles:
  assumes ok: "handles_ok l d" and r: "sd_handles d' = released now u (sd_handles d)"
  shows "handles_ok l d'" "handle_step\<^sup>=\<^sup>= (handle_states l d) (handle_states l d')"
proof -
  have map: "map (\<lambda>h. al_citext l (sh_Handle h)) (released now u (sd_handles d)) = map (\<lambda>h. al_citext l (sh_Handle h)) (sd_handles d)"
    by (simp add: released_def update_where_def)
  have kept: "filter (\<lambda>h. sh_UserID h \<noteq> None) (released now u hs) =
      filter (\<lambda>h. \<not> (sh_UserID h = Some u \<and> sh_Status h = 0)) (filter (\<lambda>h. sh_UserID h \<noteq> None) hs)" for hs
    by (induction hs) (auto simp: released_def update_where_def)
  show "handles_ok l d'"
    unfolding handles_ok_def
  proof (intro conjI)
    show "keyed (\<lambda>h. al_citext l (sh_Handle h)) (sd_handles d')" using ok by (simp add: r keyed_def map handles_ok_def)
    show "keyed sh_UserID (filter (\<lambda>h. sh_UserID h \<noteq> None) (sd_handles d'))"
      unfolding r kept by (rule keyed_filter) (use ok in \<open>simp only: handles_ok_def\<close>)
    show "\<forall>h \<in> set (sd_handles d'). (sh_UserID h \<noteq> None) = (sh_Status h = 0)"
      using ok by (auto simp: r released_def tbl_simps handles_ok_def)
  qed
  show "handle_step\<^sup>=\<^sup>= (handle_states l d) (handle_states l d')"
  proof (cases "Some u \<in> sh_UserID ` set (sd_handles d)")
    case False
    then have "released now u (sd_handles d) = sd_handles d"
      by (auto simp: released_def update_where_def image_iff intro!: map_idI)
    then have "handle_states l d' = handle_states l d" by (simp add: fun_eq_iff handle_states_def r)
    then show ?thesis by simp
  next
    case True
    then obtain h where h: "h \<in> set (sd_handles d)" "sh_UserID h = Some u" by force
    let ?k = "al_citext l (sh_Handle h)"
    from ok h have f: "find (\<lambda>r. al_citext l (sh_Handle r) = ?k) (sd_handles d) = Some h" and s: "sh_Status h = 0"
      by (auto simp: handles_ok_def keyed_find)
    then have "handle_states l d ?k = Owned u" using h by (simp add: handle_states_def row_state_def)
    moreover have "handle_states l d' j = ((handle_states l d)(?k := Retired)) j" for j
    proof (cases "j = ?k")
      case True
      then show ?thesis using f s h by (simp add: handle_states_def r released_find row_state_def handleStatusTombstoned_def)
    next
      case False
      have "sh_UserID g \<noteq> Some u" if "find (\<lambda>r. al_citext l (sh_Handle r) = j) (sd_handles d) = Some g" for g
        using that False handles_ok_owner [OF ok h(1) _ h(2), of g] by (auto dest!: find_Some_mem)
      with False show ?thesis
        by (auto simp: handle_states_def r released_find split: option.split)
    qed
    then have "handle_states l d' = (handle_states l d)(?k := Retired)" by blast
    ultimately show ?thesis by (simp add: handle_step.release)
  qed
qed

text \<open>
  C17.  Every run of the social endpoints refines the life cycle of handles: a free handle is
  claimed by a user that owns none, an owned handle is retired, and nothing else happens.  In
  particular a retired or reserved handle stays so for ever.
\<close>

theorem handle_lifecycle:
  assumes "handles_ok l d" and "\<forall>(x, a) \<in> set as. proper_faults (sx_env x) \<and> sx_lib x = l"
  shows "handles_ok l (social_run as d) \<and> handle_step\<^sup>*\<^sup>* (handle_states l d) (handle_states l (social_run as d)) \<and>
    (\<forall>k. handle_states l d k \<in> {Retired, Reserved} \<longrightarrow> handle_states l (social_run as d) k = handle_states l d k)"
proof -
  have run: "handles_ok l (social_run as d) \<and> handle_step\<^sup>*\<^sup>* (handle_states l d) (handle_states l (social_run as d))"
    using assms
  proof (induction as d rule: social_run.induct)
    case (2 x a as d)
    let ?d = "social_exec x a d"
    from "2.prems"(2) have x: "proper_faults (sx_env x)" "sx_lib x = l" by auto
    have "handles_ok l ?d \<and> handle_step\<^sup>*\<^sup>* (handle_states l d) (handle_states l ?d)"
      using exec_handles [OF x(1), of a d]
    proof (elim disjE exE conjE)
      assume "sd_handles ?d = sd_handles d"
      with "2.prems"(1) show ?thesis by (simp add: handles_ok_def handle_states_def [abs_def])
    next
      assume "joined (sx_lib x) (sx_db x 0) d ?d"
      with joined_handles [OF "2.prems"(1)] x(2) show ?thesis by blast
    next
      fix u assume "sd_handles ?d = released (sx_db x 0) (u_ID u) (sd_handles d)"
      from released_handles [OF "2.prems"(1) this] show ?thesis by auto
    qed
    with "2.IH" "2.prems"(2) show ?case by auto
  qed simp
  have "m' k = m k" if "handle_step\<^sup>*\<^sup>* m m'" "m k \<in> {Retired, Reserved}" for m m' k
    using that by (induction rule: rtranclp_induct) (auto elim!: handle_step.cases)
  with run show ?thesis by blast
qed

subsection \<open>Blocks sever follows\<close>

definition severed :: "social_db \<Rightarrow> bool" where
  "severed d \<longleftrightarrow> (\<forall>f \<in> set (sd_follows d). \<not> blocked_either (sf_FollowerUserID f) (sf_FolloweeUserID f) (sd_relationships d))"

lemma healthy_proper: "healthy e \<Longrightarrow> proper_faults e"
  by (simp add: healthy_def proper_faults_def)

lemma blocked_either_mono:
  assumes "blocked_either a b rs'" and "\<And>r. r \<in> set rs' \<Longrightarrow> sr_Kind r = 0 \<Longrightarrow> r \<in> set rs"
  shows "blocked_either a b rs"
  using assms by (auto simp: blocked_either_def)

lemma follow_keeps_relationships: "sd_relationships (fst (snd (PostFollow x req d))) = sd_relationships d"
  using follow_effect [of x req d] by (elim disjE exE conjE) simp_all

lemma rel_change_severs:
  assumes "rel_change x relationshipBlock True d d'" "healthy (sx_env x)" "r \<in> set (sd_relationships d')" "f \<in> set (sd_follows d')"
    and "sf_key f = (sr_UserID r, sr_TargetUserID r) \<or> sf_key f = (sr_TargetUserID r, sr_UserID r)"
  shows "r \<in> set (sd_relationships d)"
proof (rule ccontr)
  assume "r \<notin> set (sd_relationships d)"
  with assms(3) have "r \<in> set (sd_relationships d') - set (sd_relationships d)" by blast
  with assms(1,2,4) have "sf_key f \<noteq> (sr_UserID r, sr_TargetUserID r) \<and> sf_key f \<noteq> (sr_TargetUserID r, sr_UserID r)"
    unfolding rel_change_def by blast
  with assms(5) show False by blast
qed

lemma severed_block:
  assumes "severed d" "healthy (sx_env x)"
  shows "severed (snd (setRelationship x relationshipBlock True req d))"
  unfolding severed_def
proof
  let ?d = "snd (setRelationship x relationshipBlock True req d)"
  fix f assume f: "f \<in> set (sd_follows ?d)"
  have rc: "rel_change x relationshipBlock True d ?d" by (rule relationship_effect)
  show "\<not> blocked_either (sf_FollowerUserID f) (sf_FolloweeUserID f) (sd_relationships ?d)"
  proof
    assume b: "blocked_either (sf_FollowerUserID f) (sf_FolloweeUserID f) (sd_relationships ?d)"
    have "r \<in> set (sd_relationships d)"
      if "r \<in> set (sd_relationships ?d)" "sr_UserID r = sf_FollowerUserID f \<and> sr_TargetUserID r = sf_FolloweeUserID f \<or>
          sr_UserID r = sf_FolloweeUserID f \<and> sr_TargetUserID r = sf_FollowerUserID f" for r
      using rel_change_severs [OF rc assms(2) that(1) f] that(2) by auto
    with b have "blocked_either (sf_FollowerUserID f) (sf_FolloweeUserID f) (sd_relationships d)"
      unfolding blocked_either_def by blast
    with assms(1) rel_change_follows [OF rc f] show False by (simp add: severed_def)
  qed
qed

lemma severed_exec:
  assumes "severed d" and "healthy (sx_env x)"
  shows "severed (social_exec x a d)"
proof (cases "\<exists>req. a = Block req")
  case True
  then show ?thesis using severed_block [OF assms] by (auto simp: PostSocialBlock_def)
next
  case False
  note proper = healthy_proper [OF assms(2)]
  have old: "r \<in> set (sd_relationships d)" if "r \<in> set (sd_relationships (social_exec x a d))" "sr_Kind r = 0" for r
    using exec_relationships [OF proper that(1)] False that(2) by (auto simp: relationshipMute_def)
  show ?thesis
    unfolding severed_def
  proof
    fix f assume f: "f \<in> set (sd_follows (social_exec x a d))"
    have "\<not> blocked_either (sf_FollowerUserID f) (sf_FolloweeUserID f) (sd_relationships d)"
      using exec_follows [OF proper f]
    proof (elim disjE exE conjE)
      assume "f \<in> set (sd_follows d)"
      then show ?thesis using assms(1) by (simp add: severed_def)
    next
      fix h and u :: User and t :: SocialProfile
      assume "may_follow x h u t d" "f = new_follow (sx_db x 4) (u_ID u) (sp_UserID t) (if sp_RequireFollowApproval t then 0 else 1)"
      then show ?thesis by (simp add: may_follow_def)
    next
      fix h and u :: User and r :: SocialProfile and f0
      assume "f0 \<in> set (sd_follows d)" "f = f0\<lparr>sf_Status := 1, sf_ApprovedAt := Some (sx_db x 3)\<rparr>"
      then show ?thesis using assms(1) by (simp add: severed_def)
    qed
    then show "\<not> blocked_either (sf_FollowerUserID f) (sf_FolloweeUserID f) (sd_relationships (social_exec x a d))"
      using old blocked_either_mono by metis
  qed
qed

text \<open>
  C18.  A block severs the follow graph, for good: as long as requests run one after the other
  on a healthy database, no run of the social endpoints leaves a follow, active or pending,
  between two users one of whom has blocked the other.
\<close>

theorem blocks_sever_follows:
  assumes "severed d" and "\<forall>(x, a) \<in> set as. healthy (sx_env x)"
  shows "severed (social_run as d)"
  using assms
proof (induction as d rule: social_run.induct)
  case (2 x a as d)
  then show ?case using severed_exec [of d x a] by simp
qed simp

subsection \<open>How a follow becomes active\<close>

definition active :: "int \<Rightarrow> int \<Rightarrow> social_db \<Rightarrow> bool" where
  "active f t d \<longleftrightarrow> (\<exists>e \<in> set (sd_follows d). sf_key e = (f, t) \<and> sf_Status e = followStatusActive)"

definition pending :: "int \<Rightarrow> int \<Rightarrow> social_db \<Rightarrow> bool" where
  "pending f t d \<longleftrightarrow> (\<exists>e \<in> set (sd_follows d). sf_key e = (f, t) \<and> sf_Status e = followStatusPending)"

text \<open>The request lets \<open>f\<close> follow \<open>t\<close>: the target approves, or does not ask to.\<close>

definition grants :: "int \<Rightarrow> int \<Rightarrow> sctx \<Rightarrow> social_act \<Rightarrow> social_db \<Rightarrow> bool" where
  "grants f t x a d \<longleftrightarrow>
     (\<exists>h u p. a = Follow (Some h) \<and> may_follow x h u p d \<and> u_ID u = f \<and> sp_UserID p = t \<and> \<not> sp_RequireFollowApproval p) \<or>
     (\<exists>h u p. a = Approve (Some (h, True)) \<and> may_approve x h u p d \<and> u_ID u = t \<and> sp_UserID p = f \<and> pending f t d)"

lemma active_granted:
  assumes "proper_faults (sx_env x)" "active f t (social_exec x a d)" "\<not> active f t d"
  shows "grants f t x a d"
proof -
  from assms(2) obtain e where e: "e \<in> set (sd_follows (social_exec x a d))" "sf_key e = (f, t)" "sf_Status e = 1"
    by (auto simp: active_def followStatusActive_def)
  from exec_follows [OF assms(1) e(1)] show ?thesis
  proof (elim disjE exE conjE)
    assume "e \<in> set (sd_follows d)"
    with e(2,3) assms(3) show ?thesis by (auto simp: active_def followStatusActive_def)
  next
    fix h and u :: User and p :: SocialProfile
    assume "a = Follow (Some h)" "may_follow x h u p d"
      "e = new_follow (sx_db x 4) (u_ID u) (sp_UserID p) (if sp_RequireFollowApproval p then 0 else 1)"
    with e(2,3) show ?thesis by (auto simp: grants_def split: if_splits)
  next
    fix h and u :: User and p :: SocialProfile and f0
    assume "a = Approve (Some (h, True))" "may_approve x h u p d" "f0 \<in> set (sd_follows d)"
      "sf_key f0 = (sp_UserID p, u_ID u)" "sf_Status f0 = 0" "e = f0\<lparr>sf_Status := 1, sf_ApprovedAt := Some (sx_db x 3)\<rparr>"
    with e(2) show ?thesis by (auto simp: grants_def pending_def followStatusPending_def)
  qed
qed

text \<open>
  C39. Accountability of the follow graph.  When a follow is active at the end of a run that
  started without it, some request of the run granted it: the followee approved a pending
  request, or the follower asked while the followee's profile did not require approval and no
  block stood between them; and the follow has been active ever since that request.
\<close>

theorem follow_accountability:
  assumes "\<not> active f t d" and "active f t (social_run as d)" and "\<forall>(x, a) \<in> set as. proper_faults (sx_env x)"
  shows "\<exists>as1 x a as2. as = as1 @ (x, a) # as2 \<and> grants f t x a (social_run as1 d) \<and>
    (\<forall>k. active f t (social_run (take k as2) (social_exec x a (social_run as1 d))))"
  using assms(2,3)
proof (induction as rule: rev_induct)
  case Nil
  with assms(1) show ?case by simp
next
  case (snoc xa as)
  obtain x a where xa: "xa = (x, a)" by (cases xa)
  show ?case
  proof (cases "active f t (social_run as d)")
    case False
    have "grants f t x a (social_run as d)"
      using active_granted [OF _ _ False, of x a] snoc.prems by (simp add: social_run_append xa)
    moreover have "active f t (social_exec x a (social_run as d))" using snoc.prems(1) by (simp add: social_run_append xa)
    ultimately show ?thesis
      unfolding xa by (intro exI [of _ as] exI [of _ x] exI [of _ a] exI [of _ "[]"]) simp
  next
    case True
    with snoc obtain as1 y b as2 where as: "as = as1 @ (y, b) # as2" and g: "grants f t y b (social_run as1 d)"
      and since: "\<forall>k. active f t (social_run (take k as2) (social_exec y b (social_run as1 d)))" by auto
    have "active f t (social_run (take k (as2 @ [xa])) (social_exec y b (social_run as1 d)))" for k
    proof (cases "k \<le> length as2")
      case True
      with since show ?thesis by simp
    next
      case False
      with snoc.prems(1) show ?thesis by (simp add: as social_run_append)
    qed
    with g show ?thesis
      unfolding as by (intro exI [of _ as1] exI [of _ y] exI [of _ b] exI [of _ "as2 @ [xa]"]) simp
  qed
qed

subsection \<open>A blocked target looks like no target\<close>

definition without_profile :: "int \<Rightarrow> social_db \<Rightarrow> social_db" where
  "without_profile i d = d\<lparr>sd_profiles := delete_where (\<lambda>p. sp_UserID p = i) (sd_profiles d)\<rparr>"

lemma without_profile_core [simp]: "sd_core (without_profile i d) = sd_core d" "caller x (without_profile i d) = caller x d"
  by (simp add: without_profile_def) (rule caller_core, simp add: without_profile_def)

lemma find_delete_where: "find P (delete_where Q t) = find (\<lambda>x. \<not> Q x \<and> P x) t"
  by (simp add: delete_where_def find_filter)

text \<open>
  C19.  Blocking leaks nothing.  On a healthy database the answer to a follow request for a user
  who blocks the caller, or whom the caller blocks, is a bare 404, the answer the caller would
  get if that user had no profile at all; nothing is written and nobody is notified.
\<close>

theorem block_hides_target:
  assumes "healthy (sx_env x)" and "caller x d = Some u" and "u_ID u \<in> sp_UserID ` set (sd_profiles d)"
    and "keyed (\<lambda>p. al_citext (sx_lib x) (sp_Handle p)) (sd_profiles d)"
    and "t \<in> set (sd_profiles d)" and "al_citext (sx_lib x) (sp_Handle t) = al_citext (sx_lib x) (normalizeHandle (sx_lib x) h)"
    and "blocked_either (u_ID u) (sp_UserID t) (sd_relationships d)" and "sp_UserID t \<noteq> u_ID u"
  shows "PostFollow x (Some h) d = (WriteHeader 404, d, []) \<and>
    fst (PostFollow x (Some h) d) = fst (PostFollow x (Some h) (without_profile (sp_UserID t) d))"
proof -
  let ?k = "al_citext (sx_lib x) (normalizeHandle (sx_lib x) h)"
  obtain p where p: "find (\<lambda>p. sp_UserID p = u_ID u) (sd_profiles d) = Some p"
    using assms(3) by (cases "find (\<lambda>p. sp_UserID p = u_ID u) (sd_profiles d)") (auto simp: find_None_not)
  have t: "find (\<lambda>p. al_citext (sx_lib x) (sp_Handle p) = ?k) (sd_profiles d) = Some t"
    using assms(4-6) keyed_find [of "\<lambda>p. al_citext (sx_lib x) (sp_Handle p)"] by auto
  have user: "social_user x d' = (Inr u :: int reply + User)" if "caller x d' = Some u" for d'
    using that by (simp add: social_user_Inr)
  have joined: "requireJoined x d = (Inr (u, p) :: int reply + User \<times> SocialProfile)"
    using assms(1,2) p by (simp add: requireJoined_Inr GetSocialProfileByUserID_def res_simps)
  have "find (\<lambda>p. sp_UserID p = u_ID u) (delete_where (\<lambda>p. sp_UserID p = sp_UserID t) (sd_profiles d)) = Some p"
    using p assms(8) unfolding find_delete_where by (metis (mono_tags, lifting) find_cong)
  then have joined': "requireJoined x (without_profile (sp_UserID t) d) = (Inr (u, p) :: int reply + User \<times> SocialProfile)"
    using assms(1,2) without_profile_core(2) [of x "sp_UserID t" d]
    by (simp add: requireJoined_Inr GetSocialProfileByUserID_def res_simps) (simp add: without_profile_def)
  have "find (\<lambda>p. al_citext (sx_lib x) (sp_Handle p) = ?k) (delete_where (\<lambda>p. sp_UserID p = sp_UserID t) (sd_profiles d)) = None"
    using assms(4-6) keyed_inj [OF assms(4)] unfolding find_delete_where find_None_not by metis
  then have "resolveFollowTarget x (u_ID u) h (without_profile (sp_UserID t) d) = (Inl (WriteHeader 404) :: int reply + SocialProfile)"
    using assms(1) by (simp add: resolveFollowTarget_def GetSocialProfileByHandle_def select_one_def without_profile_def not_found_def Is_ErrNoRows_def)
  moreover have "resolveFollowTarget x (u_ID u) h d = (Inl (WriteHeader 404) :: int reply + SocialProfile)"
    using assms(1,7,8) t by (simp add: resolveFollowTarget_def GetSocialProfileByHandle_def select_one_def IsBlockedEither_def)
  ultimately show ?thesis
    using joined joined' by (simp add: PostFollow_def follow_check_def)
qed

subsection \<open>The check and the insert of a follow are not atomic\<close>

text \<open>
   \<^verbatim>\<open>PostFollow\<close> checks for a block and inserts the follow in separate statements outside a
  transaction.  A block that runs in between finds no follow to sever, succeeds, and the insert
  then succeeds too: a follow across a block remains, although C35 holds for whole requests.
\<close>

theorem follow_block_race:
  assumes "healthy (sx_env x)" and "healthy (sx_env y)"
    and "follow_check x h d = (Inr (u, p, t) :: int reply + User \<times> SocialProfile \<times> SocialProfile)"
    and "PostSocialBlock y req d = (Proto 200 True, d1)"
    and "blocked_either (u_ID u) (sp_UserID t) (sd_relationships d1)" and "user_exists (u_ID u) d" and "user_exists (sp_UserID t) d"
  shows "\<exists>s d2 pushes. follow_commit x u p t d1 = (Proto 200 s, d2, pushes) \<and>
    (u_ID u, sp_UserID t) \<in> sf_key ` set (sd_follows d2) \<and> blocked_either (u_ID u) (sp_UserID t) (sd_relationships d2) \<and> \<not> severed d2"
proof -
  have core: "sd_core d1 = sd_core d"
    using relationship_fields(3) [of x] assms(4) by (metis PostSocialBlock_def relationship_fields(3) snd_conv)
  define st where "st = (if sp_RequireFollowApproval t then followStatusPending else followStatusActive)"
  have "\<exists>r. UpsertFollow (sx_env x) (sx_db x 4) (u_ID u) (sp_UserID t) st d1 = Inr r"
    using assms(1,6,7) core by (simp add: UpsertFollow_def user_exists_def)
  then obtain n d2 where up: "UpsertFollow (sx_env x) (sx_db x 4) (u_ID u) (sp_UserID t) st d1 = Inr (n, d2)" by auto
  have key: "(u_ID u, sp_UserID t) \<in> sf_key ` set (sd_follows d2)" and rel: "sd_relationships d2 = sd_relationships d1"
    using up assms(1) by (force simp: UpsertFollow_def split: if_splits)+
  then obtain f where f: "f \<in> set (sd_follows d2)" "sf_key f = (u_ID u, sp_UserID t)" by force
  obtain v where "GetFollowState (sx_env x) (u_ID u) (sp_UserID t) d2 = Inr v"
    using assms(1) f
    by (cases "find (\<lambda>f. sf_key f = (u_ID u, sp_UserID t)) (sd_follows d2)") (auto simp: GetFollowState_def select_one_def find_None_not)
  with up have "\<exists>s pushes. follow_commit x u p t d1 = (Proto 200 s, d2, pushes)"
    by (auto simp: follow_commit_def Let_def st_def [symmetric] split: if_splits)
  moreover have "\<not> severed d2"
    using f assms(5) rel by (force simp: severed_def)
  ultimately show ?thesis using key rel assms(5) by auto
qed

subsection \<open>Reports are limited\<close>

definition recent_reports :: "sctx \<Rightarrow> int \<Rightarrow> social_db \<Rightarrow> nat" where
  "recent_reports x i d =
     length (filter (\<lambda>r. mr_ReporterUserID r = Some i \<and> mr_CreatedAt r > pg_time (sx_env x) (sx_now x - day_ns)) (sd_reports d))"

lemma report_cases:
  assumes "PostSocialReport x req d = (rep, d1)"
  shows "rep \<noteq> Proto 200 True \<and> d1 = d \<or>
    (\<exists>u a. rep = Proto 200 True \<and> caller x d = Some u \<and> imr_ReporterUserID a = Some (u_ID u) \<and>
       report_quota_tx x (u_ID u) (InsertModerationReport (sx_env x) (sx_db x 2) (sx_id x) a) d = Inr ((), d1))"
proof -
  have proto: "social_user x d' \<noteq> (Inl (Proto 200 True) :: bool reply + User)" for d'
    by (auto simp: social_user_def currentDbUser_def split: option.splits sum.splits if_splits)
  show ?thesis
    using assms unfolding PostSocialReport_def withModerationReportQuota_def Let_def
    by (auto simp: social_user_Inr InTx_Inr not_found_def write_error_def proto dest: InTx_Inl
        split: option.splits sum.splits prod.splits if_split_asm)
      (rule exI, rule conjI [rotated], assumption, simp)+
qed

text \<open>
   At most twenty reports a day.  A report is accepted only while the reporter has filed
  fewer than twenty in the last twenty-four hours, and then adds one row of the reporter; so no
  accepted report makes the number exceed twenty.  Every other report changes nothing, and a
  valid one that meets the limit is answered with 429.
\<close>

theorem report_quota:
  assumes "caller x d = Some u" and "PostSocialReport x (Some req) d = (rep, d')"
  shows "(rep = Proto 200 True \<longrightarrow>
            recent_reports x (u_ID u) d < 20 \<and> recent_reports x (u_ID u) d' \<le> 20 \<and>
            (\<exists>r. sd_reports d' = sd_reports d @ [r] \<and> mr_ReporterUserID r = Some (u_ID u))) \<and>
         (rep \<noteq> Proto 200 True \<longrightarrow> d' = d) \<and>
         (healthy (sx_env x) \<and> uuidPattern (rr_TargetUserId req) \<and> rr_Reason req \<in> {1..6} \<and>
          (\<exists>t. GetUserByUUID (sx_env x) (al_ToLower (sx_lib x) (rr_TargetUserId req)) (sd_core d) = Inr t \<and> u_ID t \<noteq> u_ID u) \<and>
          20 \<le> recent_reports x (u_ID u) d \<longrightarrow>
          rep = PcError 429 ''rate_limited'' ''report rate limit exceeded'')"
proof (intro conjI impI)
  assume "rep = Proto 200 True"
  with report_cases [OF assms(2)] assms(1) obtain a where a: "imr_ReporterUserID a = Some (u_ID u)"
    "report_quota_tx x (u_ID u) (InsertModerationReport (sx_env x) (sx_db x 2) (sx_id x) a) d = Inr ((), d')" by auto
  then have count: "recent_reports x (u_ID u) d < 20"
    and ins: "InsertModerationReport (sx_env x) (sx_db x 2) (sx_id x) a d = Inr d'"
    by (auto simp: report_quota_tx_def rbind_Inr_iff CountRecentModerationReportsByReporter_def stmt_Inr recent_reports_def
        moderationReportsPerDay_def split: if_split_asm)
  from ins a(1) obtain r where r: "sd_reports d' = sd_reports d @ [r]" "mr_ReporterUserID r = Some (u_ID u)"
    by (auto simp: InsertModerationReport_def res_simps split: if_split_asm)
  with count show "recent_reports x (u_ID u) d < 20" "recent_reports x (u_ID u) d' \<le> 20"
    "\<exists>r. sd_reports d' = sd_reports d @ [r] \<and> mr_ReporterUserID r = Some (u_ID u)"
    by (auto simp: recent_reports_def)
next
  assume "rep \<noteq> Proto 200 True"
  with report_cases [OF assms(2)] show "d' = d" by auto
next
  assume *: "healthy (sx_env x) \<and> uuidPattern (rr_TargetUserId req) \<and> rr_Reason req \<in> {1..6} \<and>
     (\<exists>t. GetUserByUUID (sx_env x) (al_ToLower (sx_lib x) (rr_TargetUserId req)) (sd_core d) = Inr t \<and> u_ID t \<noteq> u_ID u) \<and>
     20 \<le> recent_reports x (u_ID u) d"
  then have tx: "InTx (sx_env x) (report_quota_tx x (u_ID u) f) d = (Inl errModerationReportRateLimited, d)" for f
    by (simp add: InTx_healthy report_quota_tx_def LockRateLimitBucket_def CountRecentModerationReportsByReporter_def
        recent_reports_def moderationReportsPerDay_def)
  have user: "social_user x d = (Inr u :: bool reply + User)" using assms(1) by (simp add: social_user_Inr)
  have chain: "errModerationReportRateLimited \<in> set (chain errModerationReportRateLimited)"
    by (simp add: errModerationReportRateLimited_def)
  from * assms(2) user show "rep = PcError 429 ''rate_limited'' ''report rate limit exceeded''"
    unfolding PostSocialReport_def withModerationReportQuota_def Let_def
    by (auto simp: chain tx split: if_split_asm)
qed

subsection \<open>Examples\<close>

definition demo_uuid :: "char \<Rightarrow> string" where
  "demo_uuid c = ''00000000-0000-0000-0000-00000000000'' @ [c]"

definition demo_member :: "int \<Rightarrow> char \<Rightarrow> User" where
  "demo_member i c = (demo_user i)\<lparr>u_Uuid := demo_uuid c\<rparr>"

definition demo_handle :: "int \<Rightarrow> string \<Rightarrow> SocialHandle" where
  "demo_handle i h = \<lparr>sh_Handle = h, sh_UserID = Some i, sh_Status = 0, sh_ClaimedAt = 0, sh_ReleasedAt = None\<rparr>"

text \<open>Two members, \<^verbatim>\<open>ada\<close> and \<^verbatim>\<open>bob\<close>; \<open>demo_sx c\<close> is a request of the member whose id ends in \<open>c\<close>.\<close>

definition demo_social :: social_db where
  "demo_social =
     \<lparr>sd_core = empty_store\<lparr>st_users := [demo_member 1 CHR ''1'', demo_member 2 CHR ''2'']\<rparr>,
      sd_handles = [demo_handle 1 ''ada'', demo_handle 2 ''bob''],
      sd_profiles = [new_profile 0 1 ''ada'' ''Ada'' 1, new_profile 0 2 ''bob'' ''Bob'' 1],
      sd_relationships = [], sd_follows = [], sd_reports = [], sd_avatars = [], sd_outbox = [], sd_reviews = [],
      sd_shared_items = [], sd_comments = [], sd_lists = [], sd_list_entries = [], sd_list_members = [],
      sd_groups = [], sd_group_members = [], sd_group_posts = []\<rparr>"

definition demo_sx :: "char \<Rightarrow> sctx" where
  "demo_sx c =
     \<lparr>sx_env = demo_env, sx_text = (\<lambda>_. ''''), sx_lib = demo_auth, sx_blocklist = [], sx_db = (\<lambda>_. 5), sx_now = 10,
      sx_id = 1, sx_push = False, sx_user = Some \<lparr>au_UUID = demo_uuid c, au_Email = '''', au_Scope = ''mobile''\<rparr>\<rparr>"

lemma demo_sx_simps [simp]:
  "sx_env (demo_sx c) = demo_env" "sx_lib (demo_sx c) = demo_auth" "healthy (sx_env (demo_sx c))" "proper_faults (sx_env (demo_sx c))"
  "proper_faults demo_env" "healthy demo_env"
  using demo_env_healthy by (simp_all add: demo_sx_def healthy_proper)

lemma demo_caller: "caller (demo_sx CHR ''1'') demo_social = Some (demo_member 1 CHR ''1'')"
  "caller (demo_sx CHR ''2'') demo_social = Some (demo_member 2 CHR ''2'')"
  by code_simp+

abbreviation follows_bob :: social_act where "follows_bob \<equiv> Follow (Some ''bob'')"

lemma demo_follow: "active 1 2 (social_run [(demo_sx CHR ''1'', follows_bob)] demo_social)"
  by code_simp

lemma demo_start: "\<not> active 1 2 demo_social" "severed demo_social" "handles_ok demo_auth demo_social"
  by code_simp+

definition demo_blocked :: social_db where
  "demo_blocked = snd (PostSocialBlock (demo_sx CHR ''2'') (Some (demo_uuid CHR ''1'')) demo_social)"

lemma demo_blocked_facts:
  "caller (demo_sx CHR ''1'') demo_blocked = Some (demo_member 1 CHR ''1'')"
  "blocked_either 1 2 (sd_relationships demo_blocked)" "sd_profiles demo_blocked = sd_profiles demo_social"
  "PostSocialBlock (demo_sx CHR ''2'') (Some (demo_uuid CHR ''1'')) demo_social = (Proto 200 True, demo_blocked)"
  by code_simp+

lemma demo_check:
  "follow_check (demo_sx CHR ''1'') ''bob'' demo_social =
     (Inr (demo_member 1 CHR ''1'', new_profile 0 1 ''ada'' ''Ada'' 1, new_profile 0 2 ''bob'' ''Bob'' 1)
        :: int reply + User \<times> SocialProfile \<times> SocialProfile)"
  by code_simp

definition demo_report :: ReportRequest where
  "demo_report = \<lparr>rr_TargetUserId = demo_uuid CHR ''2'', rr_Reason = 1, rr_Context = '''', rr_TargetType = '''', rr_ContentRef = ''''\<rparr>"

lemma demo_report_accepted: "fst (PostSocialReport (demo_sx CHR ''1'') (Some demo_report) demo_social) = Proto 200 True"
  by code_simp

lemma handle_lifecycle_witness:
  "handles_ok demo_auth (social_run [(demo_sx CHR ''1'', Erase (Some ()))] demo_social)"
  using handle_lifecycle [OF demo_start(3), of "[(demo_sx CHR ''1'', Erase (Some ()))]"] by simp

lemma blocks_sever_follows_witness:
  "severed (social_run [(demo_sx CHR ''1'', follows_bob), (demo_sx CHR ''2'', Block (Some (demo_uuid CHR ''1'')))] demo_social)"
  by (rule blocks_sever_follows [OF demo_start(2)]) simp

lemma block_hides_target_witness:
  "PostFollow (demo_sx CHR ''1'') (Some ''bob'') demo_blocked = (WriteHeader 404, demo_blocked, [])"
proof -
  have "1 \<in> sp_UserID ` set (sd_profiles demo_blocked)" "new_profile 0 2 ''bob'' ''Bob'' 1 \<in> set (sd_profiles demo_blocked)"
    "keyed (\<lambda>p. al_citext demo_auth (sp_Handle p)) (sd_profiles demo_blocked)"
    "al_citext demo_auth ''bob'' = al_citext demo_auth (normalizeHandle demo_auth ''bob'')"
    unfolding demo_blocked_facts(3) by code_simp+
  then show ?thesis
    using block_hides_target [of "demo_sx CHR ''1''" demo_blocked "demo_member 1 CHR ''1''" "new_profile 0 2 ''bob'' ''Bob'' 1" "''bob''"]
      demo_blocked_facts(1,2)
    by (simp add: demo_member_def demo_user_def new_profile_def)
qed

lemma follow_accountability_witness:
  "\<exists>as1 x a as2. [(demo_sx CHR ''1'', follows_bob)] = as1 @ (x, a) # as2 \<and> grants 1 2 x a (social_run as1 demo_social)"
  using follow_accountability [OF demo_start(1) demo_follow] by fastforce

lemma follow_block_race_witness:
  "\<exists>s d2 pushes. follow_commit (demo_sx CHR ''1'') (demo_member 1 CHR ''1'') (new_profile 0 1 ''ada'' ''Ada'' 1)
      (new_profile 0 2 ''bob'' ''Bob'' 1) demo_blocked = (Proto 200 s, d2, pushes) \<and> \<not> severed d2"
proof -
  have "user_exists 1 demo_social" "user_exists 2 demo_social" by code_simp+
  then show ?thesis
    using follow_block_race [OF demo_sx_simps(3,3) demo_check demo_blocked_facts(4)] demo_blocked_facts(2)
    by (simp add: demo_member_def demo_user_def new_profile_def) blast
qed

lemma report_quota_witness:
  "recent_reports (demo_sx CHR ''1'') 1 (snd (PostSocialReport (demo_sx CHR ''1'') (Some demo_report) demo_social)) \<le> 20"
  using report_quota [OF demo_caller(1) prod.collapse [symmetric], of demo_report] demo_report_accepted
  by (simp add: demo_member_def demo_user_def)

text \<open>Ada, who follows Bob, deletes the account: nothing refers to her any more, and her handle stays taken.\<close>

definition demo_followed :: social_db where
  "demo_followed = social_run [(demo_sx CHR ''1'', follows_bob)] demo_social"

lemma demo_deletion:
  "fst (PostDeleteAccount (demo_sx CHR ''1'') (Some ()) demo_followed) = Proto 200 changeSuccess"
  "tables_ok demo_followed" "refers 1 demo_followed" "map sh_Handle (sd_handles demo_followed) = [''ada'', ''bob'']"
  by code_simp+

lemma account_deletion_erases_witness:
  "refers 1 demo_followed \<and>
   (\<exists>d'. PostDeleteAccount (demo_sx CHR ''1'') (Some ()) demo_followed = (Proto 200 changeSuccess, d') \<and>
      \<not> refers 1 d' \<and> map sh_Handle (sd_handles d') = [''ada'', ''bob''])"
proof -
  have "social_user (demo_sx CHR ''1'') demo_followed = (Inr (demo_member 1 CHR ''1'') :: UserChangeResponse reply + User)"
    by code_simp
  from account_deletion_erases [OF demo_deletion(2) demo_sx_simps(4) this] show ?thesis
    using demo_deletion by (auto simp: demo_member_def demo_user_def)
qed

end
