(* ===== verification/Group_Safety.thy ===== *)
theory Group_Safety
  imports Group_Theorems Social_Theorems
begin

section \<open>Properties of groups\<close>

text \<open>
  The properties of \<^verbatim>\<open>src/handlers/groups.go\<close> and \<^verbatim>\<open>src/handlers/groupposts.go\<close>, each over every
  request or run of requests, and a small group on which they are applied.
\<close>

subsection \<open>Integrity along runs\<close>

lemma posts_ok_grow:
  "posts_ok d \<Longrightarrow> sd_group_posts d' = sd_group_posts d \<Longrightarrow> sg_ID ` set (sd_groups d) \<subseteq> sg_ID ` set (sd_groups d') \<Longrightarrow> posts_ok d'"
  by (auto simp: posts_ok_def)

lemma upsert_posts_frame:
  "UpsertGroupMember e now g u r by d = Inr d' \<Longrightarrow> sd_groups d' = sd_groups d \<and> sd_group_posts d' = sd_group_posts d"
  by (drule upsert_eq(1)) simp

lemma delete_posts_frame:
  "DeleteGroupMember e g u d = Inr (n, d') \<Longrightarrow> sd_groups d' = sd_groups d \<and> sd_group_posts d' = sd_group_posts d"
  by (simp add: delete_member_eq)

lemma alert_posts_frame:
  "SetGroupMemberNotify e g u on d = Inr (n, d') \<Longrightarrow> sd_groups d' = sd_groups d \<and> sd_group_posts d' = sd_group_posts d"
  by (auto simp: SetGroupMemberNotify_def Let_def res_simps)

lemma update_where_keys: "(\<And>r. key (f r) = key r) \<Longrightarrow> key ` set (update_where P f t) = key ` set t"
  by (induction t) (auto simp: update_where_def)

lemma update_posts_frame:
  assumes "UpdateSocialGroup e now gid u t s vis d = Inr (n, d')"
  shows "sd_group_posts d' = sd_group_posts d" "sg_ID ` set (sd_groups d') = sg_ID ` set (sd_groups d)"
proof -
  let ?f = "\<lambda>g. g\<lparr>sg_Title := t, sg_Description := s, sg_Visibility := vis, sg_UpdatedAt := now\<rparr>"
  have d': "d' = d\<lparr>sd_groups := update_where (\<lambda>g. sg_ID g = gid \<and> sg_OwnerUserID g = u) ?f (sd_groups d)\<rparr>"
    using assms by (auto simp: UpdateSocialGroup_def Let_def res_simps)
  show "sd_group_posts d' = sd_group_posts d" by (simp add: d')
  show "sg_ID ` set (sd_groups d') = sg_ID ` set (sd_groups d)"
    using update_where_keys [of sg_ID ?f] by (simp add: d')
qed

lemma posts_ok_frame:
  "posts_ok d \<Longrightarrow> sd_groups d' = sd_groups d \<and> sd_group_posts d' = sd_group_posts d \<Longrightarrow> posts_ok d'"
  by (simp add: posts_ok_def)

lemma group_effect_posts:
  assumes ok: "posts_ok d" and eff: "group_effect x a d d'"
  shows "posts_ok d'"
  using eff
proof (cases rule: group_effect.cases)
  case (create u p c d0 req)
  from create_group_eq [OF create(3)] upsert_posts_frame [OF create(6)]
  have "sd_group_posts d' = sd_group_posts d" "sg_ID ` set (sd_groups d) \<subseteq> sg_ID ` set (sd_groups d')" by auto
  then show ?thesis by (rule posts_ok_grow [OF ok])
next
  case (update u gid g vis t s n req)
  from update_posts_frame [OF update(6)] posts_ok_grow [OF ok, of d'] show ?thesis by simp
next
  case (dissolve u gid n)
  then show ?thesis using dissolve_posts_ok [OF ok] by (auto simp: DeleteSocialGroup_def Let_def res_simps)
next
  case (join u gid g)
  show ?thesis by (rule posts_ok_frame [OF ok upsert_posts_frame [OF join(6)]])
next
  case (leave u gid m n)
  show ?thesis by (rule posts_ok_frame [OF ok delete_posts_frame [OF leave(5)]])
next
  case (invite u gid m t err h)
  show ?thesis by (rule posts_ok_frame [OF ok upsert_posts_frame [OF invite(7)]])
next
  case (accept u gid m g)
  show ?thesis by (rule posts_ok_frame [OF ok upsert_posts_frame [OF accept(7)]])
next
  case (decline u gid m n)
  show ?thesis by (rule posts_ok_frame [OF ok delete_posts_frame [OF decline(5)]])
next
  case (ban u gid m t h)
  show ?thesis by (rule posts_ok_frame [OF ok upsert_posts_frame [OF ban(6)]])
next
  case (kick u gid m t n h)
  show ?thesis by (rule posts_ok_frame [OF ok delete_posts_frame [OF kick(6)]])
next
  case (alert u gid on n)
  show ?thesis by (rule posts_ok_frame [OF ok alert_posts_frame [OF alert(3)]])
next
  case (submit u req m p c)
  show ?thesis by (rule submit_posts_ok [OF ok submit(5,6)])
next
  case (edit u pid post body n)
  from posts_ok_links [OF edit_links [OF edit(7)]] group_posts_frame(2) [OF edit(7)] ok show ?thesis by simp
next
  case (retract u pid n)
  from posts_ok_links [OF tombstone_links(1) [OF retract(3)]] group_posts_frame(3) [OF retract(3)] ok show ?thesis by simp
next
  case (moderate u pid n)
  from posts_ok_links [OF tombstone_links(2) [OF moderate(3)]] group_posts_frame(4) [OF moderate(3)] ok show ?thesis by simp
qed

lemma group_effect_caller: "group_effect x a d d' \<Longrightarrow> \<exists>u. caller x d = Some u"
  by (cases rule: group_effect.cases) auto

lemma group_exec_posts: "posts_ok d \<Longrightarrow> posts_ok (group_exec x a d)"
  using group_exec_effect [of x a d] group_effect_posts by metis

lemma group_exec_step:
  assumes "members_ok d" "proper_faults (sx_env x)"
  shows "members_ok (group_exec x a d)"
    and "standings (group_exec x a d) = standings d \<or>
      (\<exists>u. caller x d = Some u \<and> membership_step (open_group d) (u_ID u) (standings d) (standings (group_exec x a d)))"
proof -
  have "members_ok (group_exec x a d) \<and> (standings (group_exec x a d) = standings d \<or>
      (\<exists>u. caller x d = Some u \<and> membership_step (open_group d) (u_ID u) (standings d) (standings (group_exec x a d))))"
  proof (cases "group_exec x a d = d")
    case True
    with assms show ?thesis by simp
  next
    case False
    then have eff: "group_effect x a d (group_exec x a d)" using group_exec_effect by blast
    then obtain u where "caller x d = Some u" using group_effect_caller by blast
    with group_effect_step [OF assms(1) eff assms(2) this] show ?thesis by blast
  qed
  then show "members_ok (group_exec x a d)"
    "standings (group_exec x a d) = standings d \<or>
      (\<exists>u. caller x d = Some u \<and> membership_step (open_group d) (u_ID u) (standings d) (standings (group_exec x a d)))"
    by blast+
qed

text \<open>
  C21. Integrity of groups: whatever requests reach the group endpoints, group ids and memberships
  stay unique, a group is private or public, every member row has one of the four roles and belongs
  to a group, the owner is the one user with the role of owner, and every reply hangs off a
  post and a top-level post of the same group.
\<close>

theorem groups_invariant:
  assumes "members_ok d" "posts_ok d" and "\<forall>(x, a) \<in> set as. proper_faults (sx_env x)"
  shows "members_ok (group_run as d) \<and> posts_ok (group_run as d)"
  using assms
proof (induction as d rule: group_run.induct)
  case (1 d)
  then show ?case by simp
next
  case (2 x a as d)
  then show ?case using group_exec_step(1) [of d x a] group_exec_posts [of d x a] by auto
qed

text \<open>
  C22. The life of a membership: in a database that satisfies the invariant, a group request leaves
  all standings as they are or makes one step of the machine of standings as its caller.  The caller
  founds a group, enters a public group as an outsider, accepts an invitation, leaves as a member or
  declines, invites an outsider as a member or owner, removes or bans another user as the owner, or
  dissolves the group as the owner.  Nobody enters a private group without an invitation.
\<close>

theorem membership_lifecycle:
  assumes "members_ok d" and "proper_faults (sx_env x)"
  shows "standings (group_exec x a d) = standings d \<or>
    (\<exists>u. caller x d = Some u \<and>
       membership_step (open_group d) (u_ID u) (standings d) (standings (group_exec x a d)))"
  using assms by (rule group_exec_step(2))

text \<open>Only the owner lifts a ban, and the role of owner is never passed on by these requests.\<close>

lemma ban_step:
  assumes "membership_step opn c m m'" "m g u = Banned" "m g c \<noteq> Owner"
  shows "m' g u = Banned" "m' g v = Owner \<Longrightarrow> m g v = Owner"
proof -
  show "m' g u = Banned" using assms by (cases rule: membership_step.cases) auto
  assume "m' g v = Owner"
  with assms show "m g v = Owner" by (cases rule: membership_step.cases) (auto split: if_splits)
qed

text \<open>
  C23. A ban holds against the group endpoints: a banned user stays banned along every run of requests
  to them in which the owner of the group sends none, whoever joins, invites, leaves or posts in
  between.  Outside these endpoints the banned user has a way out, see \<open>ban_lifted_by_erasure\<close>.
\<close>

theorem ban_holds:
  assumes "members_ok d" and "\<forall>(x, a) \<in> set as. proper_faults (sx_env x)" and "standings d g u = Banned"
    and "\<forall>(x, a) \<in> set as. \<forall>c. caller x d = Some c \<longrightarrow> standings d g (u_ID c) \<noteq> Owner"
  shows "standings (group_run as d) g u = Banned"
  using assms
proof (induction as d rule: group_run.induct)
  case (1 d)
  then show ?case by simp
next
  case (2 x a as d)
  let ?d = "group_exec x a d"
  have f: "proper_faults (sx_env x)" using 2 by simp
  have callers: "caller y ?d = caller y d" for y
    using group_exec_rest [of d x a] caller_core unfolding same_rest_def by blast
  have step: "standings ?d g u = Banned \<and> (\<forall>v. standings ?d g v = Owner \<longrightarrow> standings d g v = Owner)"
    using group_exec_step(2) [OF 2(2) f, of a]
  proof (elim disjE exE conjE)
    assume "standings ?d = standings d"
    with 2(4) show ?thesis by simp
  next
    fix c
    assume c: "caller x d = Some c" "membership_step (open_group d) (u_ID c) (standings d) (standings ?d)"
    with 2(5) have "standings d g (u_ID c) \<noteq> Owner" by auto
    with ban_step [OF c(2) 2(4)] show ?thesis by blast
  qed
  have guests: "\<forall>(y, b) \<in> set as. \<forall>c. caller y ?d = Some c \<longrightarrow> standings ?d g (u_ID c) \<noteq> Owner"
  proof clarify
    fix y b c
    assume "(y, b) \<in> set as" "caller y ?d = Some c" "standings ?d g (u_ID c) = Owner"
    then have "caller y d = Some c" "standings d g (u_ID c) = Owner" using callers step by auto
    with \<open>(y, b) \<in> set as\<close> 2(5) show False by auto
  qed
  have "\<forall>(y, b) \<in> set as. proper_faults (sx_env y)" using 2(3) by simp
  from 2(1) [OF group_exec_step(1) [OF 2(2) f] this conjunct1 [OF step] guests] show ?case by simp
qed

subsection \<open>Private groups\<close>

lemma public_step:
  assumes ok: "members_ok d" and eff: "group_effect x a d d'" and g: "g \<in> set (sd_groups d)" "sg_Visibility g = 1"
    and g': "g' \<in> set (sd_groups d')" "sg_ID g' = sg_ID g"
  shows "sg_Visibility g' = 1"
proof -
  have uniq: "g' = g" if "g' \<in> set (sd_groups d)"
    using ok that g g' keyed_inj [of sg_ID "sd_groups d" g' g] by (simp add: members_ok_def)
  show ?thesis
    using eff
  proof (cases rule: group_effect.cases)
    case (create u p c d0 req)
    obtain r where new: "sx_id x \<notin> sg_ID ` set (sd_groups d)" and r: "sd_groups d' = sd_groups d @ [r]" "sg_ID r = sx_id x"
      using create_group_eq [OF create(3)] upsert_posts_frame [OF create(6)] by auto
    have "sg_ID g \<noteq> sx_id x" using new g(1) by (metis imageI)
    with g' r have "g' \<in> set (sd_groups d)" by auto
    with uniq g(2) show ?thesis by simp
  next
    case (update u gid r vis t s n req)
    obtain gr where gr: "gr \<in> set (sd_groups d)" "sg_ID gr = gid" "gr_Visibility r = sg_Visibility gr"
      using get_group [OF update(3)] by metis
    show ?thesis
    proof (cases "sg_ID g = gid")
      case True
      then have "gr = g" using ok gr g keyed_inj [of sg_ID "sd_groups d" gr g] by (simp add: members_ok_def)
      then have "vis = 1" using gr(3) g(2) update(4,5) by auto
      with update(6) g' uniq g(2) show ?thesis
        by (auto simp: UpdateSocialGroup_def Let_def res_simps tbl_simps)
    next
      case False
      with update(6) g' uniq g(2) show ?thesis
        by (auto simp: UpdateSocialGroup_def Let_def res_simps tbl_simps)
    qed
  next
    case (dissolve u gid n)
    then have "g' \<in> set (sd_groups d)" using g'(1) by (auto simp: DeleteSocialGroup_def Let_def res_simps delete_groups_rest tbl_simps)
    with uniq g show ?thesis by simp
  next
    case (join u gid r)
    from upsert_posts_frame [OF join(6)] uniq g g' show ?thesis by simp
  next
    case (leave u gid m n)
    from delete_posts_frame [OF leave(5)] uniq g g' show ?thesis by simp
  next
    case (invite u gid m t err h)
    from upsert_posts_frame [OF invite(7)] uniq g g' show ?thesis by simp
  next
    case (accept u gid m r)
    from upsert_posts_frame [OF accept(7)] uniq g g' show ?thesis by simp
  next
    case (decline u gid m n)
    from delete_posts_frame [OF decline(5)] uniq g g' show ?thesis by simp
  next
    case (ban u gid m t h)
    from upsert_posts_frame [OF ban(6)] uniq g g' show ?thesis by simp
  next
    case (kick u gid m t n h)
    from delete_posts_frame [OF kick(6)] uniq g g' show ?thesis by simp
  next
    case (alert u gid on n)
    from alert_posts_frame [OF alert(3)] uniq g g' show ?thesis by simp
  next
    case (submit u req m p c)
    from group_posts_frame(1) [OF submit(6)] uniq g g' show ?thesis by simp
  next
    case (edit u pid post body n)
    from group_posts_frame(2) [OF edit(7)] uniq g g' show ?thesis by simp
  next
    case (retract u pid n)
    from group_posts_frame(3) [OF retract(3)] uniq g g' show ?thesis by simp
  next
    case (moderate u pid n)
    from group_posts_frame(4) [OF moderate(3)] uniq g g' show ?thesis by simp
  qed
qed

text \<open>
  A private group stays private: no request to the group endpoints, the owner's included,
  makes it public.
\<close>

theorem private_stays_private:
  assumes "members_ok d" "g \<in> set (sd_groups d)" "sg_Visibility g = 1"
    and "g' \<in> set (sd_groups (group_exec x a d))" "sg_ID g' = sg_ID g"
  shows "sg_Visibility g' = 1"
proof (cases "group_exec x a d = d")
  case True
  then have "g' = g" using assms keyed_inj [of sg_ID "sd_groups d" g' g] by (simp add: members_ok_def)
  with assms show ?thesis by simp
next
  case False
  with group_exec_effect [of x a d] public_step [OF assms(1) _ assms(2-5)] show ?thesis by blast
qed

subsection \<open>What outsiders of a private group see\<close>

text \<open>\<open>without g d\<close> is the database without the group \<open>g\<close>, its members and its posts.\<close>

definition without :: "int \<Rightarrow> social_db \<Rightarrow> social_db" where
  "without g d = delete_groups (\<lambda>r. sg_ID r = g) d"

definition outsider :: "sctx \<Rightarrow> int \<Rightarrow> social_db \<Rightarrow> bool" where
  "outsider x g d \<longleftrightarrow> (\<forall>c. caller x d = Some c \<longrightarrow> standings d g (u_ID c) \<in> {Outside, Banned})"

definition private_group :: "int \<Rightarrow> social_db \<Rightarrow> bool" where
  "private_group g d \<longleftrightarrow> (\<exists>r \<in> set (sd_groups d). sg_ID r = g) \<and> (\<forall>r \<in> set (sd_groups d). sg_ID r = g \<longrightarrow> sg_Visibility r = 1)"

lemma without_rest:
  "sd_core (without g d) = sd_core d" "sd_profiles (without g d) = sd_profiles d" "sd_relationships (without g d) = sd_relationships d"
  "sd_groups (without g d) = delete_where (\<lambda>r. sg_ID r = g) (sd_groups d)"
  by (simp_all add: without_def delete_groups_rest)

lemma without_members:
  assumes "private_group g d"
  shows "sd_group_members (without g d) = delete_where (\<lambda>m. gm_GroupID m = g) (sd_group_members d)"
proof -
  have "sg_ID ` set (filter (\<lambda>r. sg_ID r = g) (sd_groups d)) = {g}" using assms by (auto simp: private_group_def)
  then show ?thesis by (simp add: without_def delete_groups_rest)
qed

lemma without_requireJoined: "requireJoined x (without g d) = requireJoined x d"
  unfolding requireJoined_def social_user_def GetSocialProfileByUserID_def without_rest ..

lemma without_viewer: "optionalViewerID x (without g d) = optionalViewerID x d"
  unfolding optionalViewerID_def without_rest ..

lemma without_none: "find (\<lambda>r. f r = g \<and> Q r) (delete_where (\<lambda>r. f r = g) t) = None"
  by (induction t) (auto simp: delete_where_def)

lemma without_GetSocialGroup: "\<exists>err. GetSocialGroup e g v (without g d) = Inl err"
proof -
  have "select_one (\<lambda>r. sg_ID r = g \<and> profile_of (sg_OwnerUserID r) (without g d) \<noteq> None) (sd_groups (without g d)) = Inl ErrNoRows"
    unfolding select_one_def without_rest(4) without_none by simp
  then show ?thesis unfolding GetSocialGroup_def stmt_def by (auto split: option.split)
qed

lemma without_GetGroupMember: "private_group g d \<Longrightarrow> \<exists>err. GetGroupMember e g u (without g d) = Inl err"
  unfolding GetGroupMember_def stmt_def select_one_def by (simp add: without_members without_none split: option.split)

lemma outsider_role:
  assumes "members_ok d" "outsider x g d" "caller x d = Some c" "GetGroupMember e g (u_ID c) d = Inr m"
  shows "gm_Role m = 4"
  using assms get_member [OF assms(4)] members_okD(1) [OF assms(1), of g "u_ID c" m]
  by (auto simp: outsider_def standings_def role_standing_def split: if_splits)

text \<open>An outsider's view of the group row: if it can be fetched, it is private and gives no readable role.\<close>

lemma outsider_group:
  assumes "members_ok d" "outsider x g d" "private_group g d" "caller x d = Some c"
    and "GetSocialGroup e g (Some (u_ID c)) d = Inr r"
  shows "gr_Visibility r = 1" "gr_YourRole r \<in> {0, 4}"
proof -
  from get_group [OF assms(5)] obtain gr where gr: "gr \<in> set (sd_groups d)" "sg_ID gr = g" "gr_Visibility r = sg_Visibility gr"
    "gr_YourRole r = (case member_of g (u_ID c) d of None \<Rightarrow> 0 | Some m \<Rightarrow> gm_Role m)" by metis
  with assms(3) show "gr_Visibility r = 1" by (simp add: private_group_def)
  show "gr_YourRole r \<in> {0, 4}"
    using gr(4) assms(2,4) members_okD(1) [OF assms(1), of g "u_ID c"]
    by (auto simp: outsider_def standings_def role_standing_def split: option.splits if_splits)
qed

lemma viewer_cases: "viewerRef (optionalViewerID x d) = None \<or> (\<exists>c. caller x d = Some c \<and> viewerRef (optionalViewerID x d) = Some (u_ID c))"
  by (auto simp: viewerRef_def optionalViewerID_def caller_def split: option.split sum.split)

lemma anonymous_group:
  assumes "private_group g d" "GetSocialGroup e g None d = Inr r"
  shows "gr_Visibility r = 1" "gr_YourRole r = 0"
  using assms
  by (auto simp: GetSocialGroup_def group_row_def private_group_def res_simps dest!: find_Some_mem split: option.splits)

lemma outsider_reads:
  assumes "members_ok d" "outsider x g d" "private_group g d"
  shows "PostGroupPosts x (Some \<lparr>gps_GroupId = g, gps_ParentId = p, gps_Limit = l, gps_Offset = off\<rparr>) d =
      PostGroupPosts x (Some \<lparr>gps_GroupId = g, gps_ParentId = p, gps_Limit = l, gps_Offset = off\<rparr>) (without g d)"
proof -
  obtain err where err: "GetSocialGroup (sx_env x) g (viewerRef (optionalViewerID x d)) (without g d) = Inl err"
    using without_GetSocialGroup by blast
  have "\<not> group_readable r" if "GetSocialGroup (sx_env x) g (viewerRef (optionalViewerID x d)) d = Inr r" for r
    using viewer_cases [of x d]
  proof (elim disjE exE conjE)
    assume "viewerRef (optionalViewerID x d) = None"
    with that anonymous_group [OF assms(3)] show ?thesis by (simp add: group_readable_def group_consts)
  next
    fix c
    assume "caller x d = Some c" "viewerRef (optionalViewerID x d) = Some (u_ID c)"
    with that outsider_group [OF assms] show ?thesis by (fastforce simp: group_readable_def group_consts)
  qed
  then show ?thesis
    by (auto simp: PostGroupPosts_def Let_def without_viewer err split: sum.split)
qed

lemma outsider_member:
  assumes "members_ok d" "outsider x g d" "caller x d = Some c"
  shows "(\<exists>err. GetGroupMember (sx_env x) g (u_ID c) d = Inl err) \<or> (\<exists>m. GetGroupMember (sx_env x) g (u_ID c) d = Inr m \<and> gm_Role m = 4)"
  using outsider_role [OF assms] by (cases "GetGroupMember (sx_env x) g (u_ID c) d") auto

lemma outsider_no_alert:
  assumes ok: "members_ok d" and out: "standings d g u \<in> {Outside, Banned}"
  shows "filter (\<lambda>m. gm_key m = (g, u) \<and> gm_Role m \<in> {1, 2}) (sd_group_members d) = []"
proof -
  have "gm_Role m \<notin> {1, 2}" if "m \<in> set (sd_group_members d)" "gm_key m = (g, u)" for m
  proof -
    have "member_of g u d = Some m" using that ok member_of_iff [of d g u m] by (simp add: members_ok_def)
    with out show ?thesis by (auto simp: standings_def role_standing_def)
  qed
  then show ?thesis by (auto simp: filter_empty_conv)
qed

text \<open>The requests that name the group: the reply is the one for a group that does not exist.\<close>

lemma outsider_requests:
  assumes ok: "members_ok d" and out: "outsider x g d" and priv: "private_group g d"
  shows "PostGroupMembers x (Some \<lparr>gmr_GroupId = g, gmr_Limit = l, gmr_Offset = off\<rparr>) d =
      PostGroupMembers x (Some \<lparr>gmr_GroupId = g, gmr_Limit = l, gmr_Offset = off\<rparr>) (without g d)"
    and "fst (PostGroupJoin x (Some g) d) = fst (PostGroupJoin x (Some g) (without g d))"
    and "fst (PostGroupLeave x (Some g) d) = fst (PostGroupLeave x (Some g) (without g d))"
    and "fst (PostGroupInvite x (Some (g, h)) d) = fst (PostGroupInvite x (Some (g, h)) (without g d))"
    and "fst (PostGroupInviteRespond x (Some (g, yes)) d) = fst (PostGroupInviteRespond x (Some (g, yes)) (without g d))"
    and "fst (PostGroupAlert x (Some (g, on)) d) = fst (PostGroupAlert x (Some (g, on)) (without g d))"
    and "gpq_GroupId req = g \<Longrightarrow> fst (PostGroupPostSubmit x (Some req) d) = fst (PostGroupPostSubmit x (Some req) (without g d))"
proof -
  have grp: "\<exists>err. GetSocialGroup (sx_env x) g v (without g d) = Inl err" for v by (rule without_GetSocialGroup)
  have mem: "\<exists>err. GetGroupMember (sx_env x) g u (without g d) = Inl err" for u by (rule without_GetGroupMember [OF priv])
  note who = outsider_member [OF ok out]
  show "PostGroupMembers x (Some \<lparr>gmr_GroupId = g, gmr_Limit = l, gmr_Offset = off\<rparr>) d =
      PostGroupMembers x (Some \<lparr>gmr_GroupId = g, gmr_Limit = l, gmr_Offset = off\<rparr>) (without g d)"
  proof (cases "requireJoined x d :: (GroupMemberRow list \<times> int) reply + User \<times> SocialProfile")
    case (Inl rep)
    then show ?thesis by (simp add: PostGroupMembers_def without_requireJoined)
  next
    case (Inr r)
    obtain u p where r: "r = (u, p)" by (cases r)
    with Inr have c: "caller x d = Some u" by (simp add: requireJoined_Inr)
    from grp obtain err where "GetSocialGroup (sx_env x) g (Some (u_ID u)) (without g d) = Inl err" by blast
    moreover have "\<not> group_readable q" if "GetSocialGroup (sx_env x) g (Some (u_ID u)) d = Inr q" for q
      using outsider_group [OF ok out priv c that] by (auto simp: group_readable_def group_consts)
    ultimately show ?thesis
      using Inr r
      by (cases "GetSocialGroup (sx_env x) g (Some (u_ID u)) d") (simp_all add: PostGroupMembers_def without_requireJoined)
  qed
  show "fst (PostGroupJoin x (Some g) d) = fst (PostGroupJoin x (Some g) (without g d))"
  proof (cases "requireJoined x d :: bool reply + User \<times> SocialProfile")
    case (Inl rep)
    then show ?thesis by (simp add: PostGroupJoin_def without_requireJoined)
  next
    case (Inr r)
    obtain u p where r: "r = (u, p)" by (cases r)
    with Inr have c: "caller x d = Some u" by (simp add: requireJoined_Inr)
    from grp obtain err where "GetSocialGroup (sx_env x) g (Some (u_ID u)) (without g d) = Inl err" by blast
    moreover have "gr_Visibility q \<noteq> groupVisPublic" if "GetSocialGroup (sx_env x) g (Some (u_ID u)) d = Inr q" for q
      using outsider_group(1) [OF ok out priv c that] by (simp add: group_consts)
    ultimately show ?thesis
      using Inr r
      by (cases "GetSocialGroup (sx_env x) g (Some (u_ID u)) d") (simp_all add: PostGroupJoin_def without_requireJoined)
  qed
  have named: "fst (PostGroupLeave x (Some g) d) = fst (PostGroupLeave x (Some g) (without g d)) \<and>
      fst (PostGroupInvite x (Some (g, h)) d) = fst (PostGroupInvite x (Some (g, h)) (without g d)) \<and>
      fst (PostGroupInviteRespond x (Some (g, yes)) d) = fst (PostGroupInviteRespond x (Some (g, yes)) (without g d)) \<and>
      fst (PostGroupAlert x (Some (g, on)) d) = fst (PostGroupAlert x (Some (g, on)) (without g d))"
  proof (cases "requireJoined x d :: bool reply + User \<times> SocialProfile")
    case (Inl rep)
    then show ?thesis
      by (simp add: PostGroupLeave_def PostGroupInvite_def PostGroupInviteRespond_def PostGroupAlert_def without_requireJoined)
  next
    case (Inr r)
    obtain u p where r: "r = (u, p)" by (cases r)
    with Inr have c: "caller x d = Some u" by (simp add: requireJoined_Inr)
    from mem obtain err where m: "GetGroupMember (sx_env x) g (u_ID u) (without g d) = Inl err" by blast
    have out': "standings d g (u_ID u) \<in> {Outside, Banned}" using out c by (simp add: outsider_def)
    have "filter (\<lambda>m. gm_key m = (g, u_ID u) \<and> gm_Role m \<in> {1, 2}) (sd_group_members (without g d)) = []"
      by (auto simp: without_members [OF priv] filter_empty_conv tbl_simps)
    then have "fst (PostGroupAlert x (Some (g, on)) d) = fst (PostGroupAlert x (Some (g, on)) (without g d))"
      using Inr r outsider_no_alert [OF ok out']
      by (simp add: PostGroupAlert_def SetGroupMemberNotify_def stmt_def Let_def without_requireJoined split: option.split sum.split)
    moreover have "fst (PostGroupLeave x (Some g) d) = fst (PostGroupLeave x (Some g) (without g d))"
      "fst (PostGroupInvite x (Some (g, h)) d) = fst (PostGroupInvite x (Some (g, h)) (without g d))"
      "fst (PostGroupInviteRespond x (Some (g, yes)) d) = fst (PostGroupInviteRespond x (Some (g, yes)) (without g d))"
      using who [OF c] m Inr r
      by (auto simp: PostGroupLeave_def PostGroupInvite_def PostGroupInviteRespond_def without_requireJoined group_consts)
    ultimately show ?thesis by blast
  qed
  from named show "fst (PostGroupLeave x (Some g) d) = fst (PostGroupLeave x (Some g) (without g d))"
    "fst (PostGroupInvite x (Some (g, h)) d) = fst (PostGroupInvite x (Some (g, h)) (without g d))"
    "fst (PostGroupInviteRespond x (Some (g, yes)) d) = fst (PostGroupInviteRespond x (Some (g, yes)) (without g d))"
    "fst (PostGroupAlert x (Some (g, on)) d) = fst (PostGroupAlert x (Some (g, on)) (without g d))"
    by blast+
  assume req: "gpq_GroupId req = g"
  show "fst (PostGroupPostSubmit x (Some req) d) = fst (PostGroupPostSubmit x (Some req) (without g d))"
  proof (cases "requireJoined x d :: pb_GroupPost reply + User \<times> SocialProfile")
    case (Inl rep)
    then show ?thesis by (simp add: PostGroupPostSubmit_def without_requireJoined split: option.split)
  next
    case (Inr r)
    obtain u p where r: "r = (u, p)" by (cases r)
    with Inr have c: "caller x d = Some u" by (simp add: requireJoined_Inr)
    from mem obtain err where m: "GetGroupMember (sx_env x) g (u_ID u) (without g d) = Inl err" by blast
    show ?thesis
      using who [OF c] m Inr r req
      by (auto simp: PostGroupPostSubmit_def without_requireJoined group_consts split: option.split)
  qed
qed

text \<open>The listings: the group and its invitations are on none of them.\<close>

lemma map_filter_eq: "(\<And>y. y \<in> set ys \<Longrightarrow> f y = h y) \<Longrightarrow> List.map_filter f ys = List.map_filter h ys"
  by (induction ys) (auto simp: List.map_filter_simps split: option.split)

lemma without_join_group:
  assumes "private_group g d" "sg_ID r \<noteq> g"
  shows "join_group (without g d) my r = join_group d my r"
proof -
  have "filter (\<lambda>c. gm_GroupID c = sg_ID r \<and> gm_Role c \<in> {1, 2}) (delete_where (\<lambda>m. gm_GroupID m = g) t) =
      filter (\<lambda>c. gm_GroupID c = sg_ID r \<and> gm_Role c \<in> {1, 2}) t" for t
    using assms(2) by (induction t) (auto simp: delete_where_def)
  then have "member_count (sg_ID r) (without g d) = member_count (sg_ID r) d"
    unfolding member_count_def without_members [OF assms(1)] by (rule arg_cong)
  then show ?thesis by (simp add: join_group_def profile_of_def without_rest group_row_def)
qed

lemma outsider_discover:
  assumes "private_group g d"
  shows "DiscoverGroups e l p v (without g d) = DiscoverGroups e l p v d"
proof -
  let ?P = "\<lambda>r. sg_Visibility r = 2 \<and> (case p of None \<Rightarrow> True | Some p \<Rightarrow> sg_PodcastUuid r = p) \<and>
    (case v of None \<Rightarrow> True | Some v \<Rightarrow> \<not> blocked_either v (sg_OwnerUserID r) (sd_relationships d))"
  have "\<forall>r \<in> set (sd_groups d). sg_Visibility r = 2 \<longrightarrow> sg_ID r \<noteq> g"
    using assms by (auto simp: private_group_def)
  then have "filter ?P (delete_where (\<lambda>r. sg_ID r = g) (sd_groups d)) = filter ?P (sd_groups d)"
    and "List.map_filter (join_group (without g d) None) (filter ?P (sd_groups d)) =
      List.map_filter (join_group d None) (filter ?P (sd_groups d))"
    by (auto simp: delete_where_def intro!: filter_cong map_filter_eq without_join_group [OF assms])
  then show ?thesis unfolding DiscoverGroups_def without_rest by (simp only:)
qed

lemma outsider_memberships:
  assumes ok: "members_ok d" and priv: "private_group g d" and out: "standings d g u \<in> {Outside, Banned}" and roles: "set roles \<subseteq> {1, 2, 3}"
  shows "GetGroupsForUser e u roles (without g d) = GetGroupsForUser e u roles d"
proof -
  let ?P = "\<lambda>m. gm_UserID m = u \<and> gm_Role m \<in> set roles"
  let ?f = "\<lambda>d m. case find (\<lambda>g. sg_ID g = gm_GroupID m) (sd_groups d) of None \<Rightarrow> None | Some g \<Rightarrow> join_group d (Some m) g"
  have alien: "gm_GroupID m \<noteq> g" if "m \<in> set (sd_group_members d)" "?P m" for m
  proof
    assume "gm_GroupID m = g"
    then have "member_of g u d = Some m" using that ok member_of_iff [of d g u m] by (simp add: members_ok_def)
    with out have "gm_Role m \<notin> {1, 2, 3}" by (auto simp: standings_def role_standing_def)
    with that roles show False by blast
  qed
  then have "filter ?P (delete_where (\<lambda>m. gm_GroupID m = g) (sd_group_members d)) = filter ?P (sd_group_members d)"
    by (auto simp: delete_where_def intro!: filter_cong)
  moreover have "?f (without g d) m = ?f d m" if "m \<in> set (filter ?P (sd_group_members d))" for m
  proof -
    have ne: "gm_GroupID m \<noteq> g" using alien that by simp
    then have same: "find (\<lambda>r. sg_ID r = gm_GroupID m) (delete_where (\<lambda>r. sg_ID r = g) t) = find (\<lambda>r. sg_ID r = gm_GroupID m) t" for t
      by (induction t) (auto simp: delete_where_def)
    show ?thesis
    proof (cases "find (\<lambda>r. sg_ID r = gm_GroupID m) (sd_groups d)")
      case None
      then show ?thesis by (simp add: without_rest same)
    next
      case (Some r)
      then have "sg_ID r \<noteq> g" using ne by (auto dest!: find_Some_mem)
      with Some show ?thesis by (simp add: without_rest same without_join_group [OF priv])
    qed
  qed
  then have "List.map_filter (?f (without g d)) (filter ?P (sd_group_members d)) = List.map_filter (?f d) (filter ?P (sd_group_members d))"
    by (intro map_filter_eq)
  ultimately show ?thesis
    unfolding GetGroupsForUser_def without_members [OF priv] by (simp only:)
qed

lemma outsider_listings:
  assumes ok: "members_ok d" and out: "outsider x g d" and priv: "private_group g d"
  shows "PostGroupDiscover x lim d = PostGroupDiscover x lim (without g d)"
    and "PostGroupsForPodcast x pod d = PostGroupsForPodcast x pod (without g d)"
    and "PostGroups x d = PostGroups x (without g d)"
proof -
  show "PostGroupDiscover x lim d = PostGroupDiscover x lim (without g d)"
    unfolding PostGroupDiscover_def without_requireJoined outsider_discover [OF priv] ..
  show "PostGroupsForPodcast x pod d = PostGroupsForPodcast x pod (without g d)"
    unfolding PostGroupsForPodcast_def without_viewer outsider_discover [OF priv] ..
  show "PostGroups x d = PostGroups x (without g d)"
  proof (cases "requireJoined x d :: (pb_SocialGroup list \<times> pb_SocialGroup list) reply + User \<times> SocialProfile")
    case (Inl rep)
    then show ?thesis by (simp add: PostGroups_def without_requireJoined)
  next
    case (Inr r)
    obtain u p where r: "r = (u, p)" by (cases r)
    with Inr have "standings d g (u_ID u) \<in> {Outside, Banned}" using out by (simp add: requireJoined_Inr outsider_def)
    then have "GetGroupsForUser (sx_env x) (u_ID u) [groupRoleMember, groupRoleOwner] (without g d) =
        GetGroupsForUser (sx_env x) (u_ID u) [groupRoleMember, groupRoleOwner] d"
      "GetGroupsForUser (sx_env x) (u_ID u) [groupRoleInvited] (without g d) = GetGroupsForUser (sx_env x) (u_ID u) [groupRoleInvited] d"
      by (auto intro!: outsider_memberships [OF ok priv] simp: group_consts)
    with Inr r show ?thesis by (simp add: PostGroups_def without_requireJoined split: sum.split)
  qed
qed

text \<open>
  C24. A private group cannot be told from a missing one: for an anonymous caller, an outsider or a
  banned user, the replies of the readers, of join, leave, invite, respond, alert and submit, and
  the listings are those of the database without the group, its members and its posts.
\<close>

theorem private_group_hidden:
  assumes "members_ok d" "outsider x g d" "private_group g d"
  shows "PostGroupPosts x (Some \<lparr>gps_GroupId = g, gps_ParentId = p, gps_Limit = l, gps_Offset = off\<rparr>) d =
      PostGroupPosts x (Some \<lparr>gps_GroupId = g, gps_ParentId = p, gps_Limit = l, gps_Offset = off\<rparr>) (without g d) \<and>
    PostGroupMembers x (Some \<lparr>gmr_GroupId = g, gmr_Limit = l, gmr_Offset = off\<rparr>) d =
      PostGroupMembers x (Some \<lparr>gmr_GroupId = g, gmr_Limit = l, gmr_Offset = off\<rparr>) (without g d) \<and>
    fst (PostGroupJoin x (Some g) d) = fst (PostGroupJoin x (Some g) (without g d)) \<and>
    fst (PostGroupLeave x (Some g) d) = fst (PostGroupLeave x (Some g) (without g d)) \<and>
    fst (PostGroupInvite x (Some (g, h)) d) = fst (PostGroupInvite x (Some (g, h)) (without g d)) \<and>
    fst (PostGroupInviteRespond x (Some (g, yes)) d) = fst (PostGroupInviteRespond x (Some (g, yes)) (without g d)) \<and>
    fst (PostGroupAlert x (Some (g, on)) d) = fst (PostGroupAlert x (Some (g, on)) (without g d)) \<and>
    fst (PostGroupPostSubmit x (Some (req\<lparr>gpq_GroupId := g\<rparr>)) d) =
      fst (PostGroupPostSubmit x (Some (req\<lparr>gpq_GroupId := g\<rparr>)) (without g d)) \<and>
    PostGroupDiscover x lim d = PostGroupDiscover x lim (without g d) \<and>
    PostGroupsForPodcast x pod d = PostGroupsForPodcast x pod (without g d) \<and>
    PostGroups x d = PostGroups x (without g d)"
  by (intro conjI outsider_reads [OF assms] outsider_requests [OF assms] outsider_listings [OF assms]) simp_all

text \<open>
  Updating is the exception: a stranger who tries to publish the group is told that it is private,
  because the check of the visibility runs before the check of the owner.
\<close>

lemma group_update_tells:
  assumes "private_group g d" "g > 0" "title \<noteq> ''''" "group_texts x title s = (None :: bool reply option)"
    and "requireJoined x d = (Inr (u, p) :: bool reply + User \<times> SocialProfile)"
    and "GetSocialGroup (sx_env x) g (Some (u_ID u)) d = Inr r"
  shows "fst (PostGroupUpdate x (Some \<lparr>gur_Id = g, gur_Title = title, gur_Description = s, gur_Visibility = 2\<rparr>) d) =
      access_denied 409 ''a private group cannot be made public''"
    and "fst (PostGroupUpdate x (Some \<lparr>gur_Id = g, gur_Title = title, gur_Description = s, gur_Visibility = 2\<rparr>) (without g d)) =
      group_gone"
proof -
  have two: "int16 2 = 2" by (simp add: int16_def signed_take_bit_int_eq_self)
  obtain gr where "gr \<in> set (sd_groups d)" "sg_ID gr = g" "gr_Visibility r = sg_Visibility gr" using get_group [OF assms(6)] by metis
  with assms(1) have "gr_Visibility r = 1" by (simp add: private_group_def)
  with assms two show "fst (PostGroupUpdate x (Some \<lparr>gur_Id = g, gur_Title = title, gur_Description = s, gur_Visibility = 2\<rparr>) d) =
      access_denied 409 ''a private group cannot be made public''"
    by (simp add: PostGroupUpdate_def group_consts)
  obtain err where "GetSocialGroup (sx_env x) g (Some (u_ID u)) (without g d) = Inl err" using without_GetSocialGroup by blast
  with assms two show "fst (PostGroupUpdate x (Some \<lparr>gur_Id = g, gur_Title = title, gur_Description = s, gur_Visibility = 2\<rparr>) (without g d)) =
      group_gone"
    by (simp add: PostGroupUpdate_def group_consts without_requireJoined)
qed

subsection \<open>Capacity\<close>

lemma count_update:
  assumes "keyed key t" "r \<in> set t" "key r = k" "\<not> Q r" "Q (f r)"
  shows "length (filter Q (update_where (\<lambda>x. key x = k) f t)) = Suc (length (filter Q t))"
  using assms
proof (induction t)
  case Nil
  then show ?case by simp
next
  case (Cons y t)
  show ?case
  proof (cases "y = r")
    case True
    have "\<forall>x \<in> set t. key x \<noteq> k" using Cons.prems(1,3) True by (auto simp: keyed_def image_iff)
    then have "update_where (\<lambda>x. key x = k) f t = t" by (auto simp: update_where_def intro!: map_idI)
    then show ?thesis using Cons.prems True by (simp add: update_where_def)
  next
    case False
    then have "key y \<noteq> k" using Cons.prems(1,2,3) by (auto simp: keyed_def)
    then show ?thesis using Cons False by (simp add: update_where_def keyed_def)
  qed
qed

lemma group_count: "GetSocialGroup e g (Some u) d = Inr r \<Longrightarrow> gr_MemberCount r = member_count g d"
  using get_group by metis

lemma requireJoined_Inl:
  "requireJoined x d = Inl rep \<Longrightarrow> rep = WriteHeader 401 \<or> (\<exists>h. rep = HttpError h) \<or> rep = access_denied 403 ''join required''"
  by (auto simp: requireJoined_def social_user_def currentDbUser_def write_error_def split: option.splits sum.splits if_splits)

text \<open>
  The capacity of a private group: an accepted invitation adds one member, and after it the
  group has at most 100; when the group is full the invitation stays open and the reply says so.
\<close>

theorem private_group_capacity:
  assumes "members_ok d" "private_group g d"
    and "PostGroupInviteRespond x (Some (g, True)) d = (rep, d')"
  shows "(rep = Proto 200 True \<longrightarrow> member_count g d' = member_count g d + 1 \<and> member_count g d' \<le> groupPrivateCap) \<and>
    (rep = access_denied 409 ''group is full'' \<longrightarrow> d' = d \<and> member_count g d \<ge> groupPrivateCap)"
proof -
  have acc: "member_count g d1 = member_count g d + 1 \<and> member_count g d1 \<le> groupPrivateCap"
    if m: "GetGroupMember (sx_env x) g u d = Inr m" "gm_Role m = groupRoleInvited"
      and r: "GetSocialGroup (sx_env x) g (Some u) d = Inr r" "\<not> (gr_Visibility r = groupVisPrivate \<and> gr_MemberCount r \<ge> groupPrivateCap)"
      and up: "UpsertGroupMember (sx_env x) (sx_db x 0) g u groupRoleMember None d = Inr d1" for u m r d1
  proof -
    have mem: "member_of g u d = Some m" using m(1) by (rule get_member)
    have k: "keyed gm_key (sd_group_members d)" using assms(1) by (simp add: members_ok_def)
    have in_tab: "m \<in> set (sd_group_members d)" "gm_key m = (g, u)" using mem member_of_iff [OF k] by auto
    have "sd_group_members d1 = update_where (\<lambda>m. gm_key m = (g, u)) (\<lambda>m. given m groupRoleMember) (sd_group_members d)"
      using upsert_eq(1) [OF up] in_tab by (auto simp: upsert_row_def image_iff)
    then have "member_count g d1 = member_count g d + 1"
      using count_update [OF k in_tab, of "\<lambda>c. gm_GroupID c = g \<and> gm_Role c \<in> {1, 2}" "\<lambda>m. given m groupRoleMember"] m(2) in_tab(2)
      by (simp add: member_count_def given_def group_consts)
    moreover have "gr_Visibility r = 1" "gr_MemberCount r = member_count g d"
      using get_group [OF r(1)] assms(2) by (metis private_group_def)+
    ultimately show ?thesis using r(2) by (simp add: group_consts)
  qed
  from assms(3) show ?thesis
    by (auto simp: PostGroupInviteRespond_def requireJoined_Inr write_error_def group_count
        split: if_splits sum.splits prod.splits dest: acc dest!: requireJoined_Inl)
qed

subsection \<open>Changes of a post\<close>

lemma keyed_update_row:
  assumes "keyed key t" "r \<in> set t" "r' \<in> set (update_where P f t)" "key r' = key r" and "\<And>x. key (f x) = key x"
  shows "r' = (if P r then f r else r)"
proof -
  from assms(3) obtain y where y: "y \<in> set t" "r' = (if P y then f y else y)" by (auto simp: update_where_def)
  then have "key y = key r" using assms(4,5) by (auto split: if_splits)
  then have "y = r" using keyed_inj [OF assms(1)] y(1) assms(2) by blast
  with y show ?thesis by simp
qed

lemma insert_post_row:
  "InsertGroupPost e now i q d = Inr (c, d') \<Longrightarrow>
     \<exists>r. sd_group_posts d' = sd_group_posts d @ [r] \<and> gp_ID r \<notin> gp_ID ` set (sd_group_posts d)"
  by (auto simp: InsertGroupPost_def res_simps new_post_def split: if_splits)

lemma post_rows:
  "EditGroupPost e now pid u s d = Inr (n, d') \<Longrightarrow> sd_group_posts d' =
     update_where (\<lambda>q. gp_ID q = pid \<and> gp_UserID q = Some u \<and> gp_RemovedAt q = None)
       (\<lambda>q. q\<lparr>gp_Text := s, gp_EditedAt := Some now\<rparr>) (sd_group_posts d)"
  "TombstoneGroupPost e now pid u d = Inr (n, d') \<Longrightarrow> sd_group_posts d' =
     update_where (\<lambda>q. gp_ID q = pid \<and> gp_UserID q = Some u \<and> gp_RemovedAt q = None) (wipe_post now) (sd_group_posts d)"
  "TombstoneGroupPostAsOwner e now pid u d = Inr (n, d') \<Longrightarrow> sd_group_posts d' =
     update_where (\<lambda>q. gp_ID q = pid \<and> gp_RemovedAt q = None \<and>
       (\<exists>g \<in> set (sd_groups d). sg_ID g = gp_GroupID q \<and> sg_OwnerUserID g = u)) (wipe_post now) (sd_group_posts d)"
  by (auto simp: EditGroupPost_def TombstoneGroupPost_def TombstoneGroupPostAsOwner_def Let_def res_simps)

text \<open>Requests that are not about posts leave no new or changed post.\<close>

lemma other_requests_keep_posts:
  assumes "posts_ok d" "group_effect x a d d'" "\<And>q. a \<noteq> SubmitPost q" "\<And>q. a \<noteq> EditPost q" "\<And>q. a \<noteq> DeletePost q"
  shows "set (sd_group_posts d') \<subseteq> set (sd_group_posts d)"
  using assms(2)
proof (cases rule: group_effect.cases)
  case (create u q c d0 req)
  from create_group_eq [OF create(3)] upsert_posts_frame [OF create(6)] show ?thesis by auto
next
  case (update u gid g vis t s n req)
  show ?thesis using update_posts_frame(1) [OF update(6)] by simp
next
  case (dissolve u gid n)
  then have "d' = delete_groups (\<lambda>g. sg_ID g = gid \<and> sg_OwnerUserID g = u_ID u) d"
    by (auto simp: DeleteSocialGroup_def Let_def res_simps)
  then show ?thesis using dissolve_posts [OF assms(1)] by (auto simp: tbl_simps)
qed (use assms(3-5) in \<open>auto dest: upsert_posts_frame delete_posts_frame alert_posts_frame\<close>)

lemma edited_post:
  assumes k: "keyed gp_ID (sd_group_posts d)" and p: "p \<in> set (sd_group_posts d)" "p' \<in> set (sd_group_posts d')" "gp_ID p' = gp_ID p" "p' \<noteq> p"
    and get: "GetGroupPostByID e pid d = Inr (post, False)" and edit: "EditGroupPost e now pid uid body d = Inr (n, d')"
  shows "post = p \<and> pid = gp_ID p \<and> gp_UserID p = Some uid \<and> gp_RemovedAt p = None \<and>
    \<not> (\<exists>r \<in> set (sd_group_posts d). gp_ParentID r = Some (gp_ID p)) \<and> p' = p\<lparr>gp_Text := body, gp_EditedAt := Some now\<rparr>"
proof -
  let ?P = "\<lambda>q. gp_ID q = pid \<and> gp_UserID q = Some uid \<and> gp_RemovedAt q = None"
  let ?f = "\<lambda>q. q\<lparr>gp_Text := body, gp_EditedAt := Some now\<rparr>"
  have "p' \<in> set (update_where ?P ?f (sd_group_posts d))" using p(2) by (simp only: post_rows(1) [OF edit])
  then have row: "p' = (if ?P p then ?f p else p)" by (rule keyed_update_row [OF k p(1) _ p(3)]) simp
  then have P: "?P p" using p(4) by (simp split: if_splits)
  have "find (\<lambda>q. gp_ID q = pid) (sd_group_posts d) = Some post" "\<not> (\<exists>r \<in> set (sd_group_posts d). gp_ParentID r = Some (gp_ID post))"
    using get by (auto simp: GetGroupPostByID_def res_simps)
  then have "post = p" "\<not> (\<exists>r \<in> set (sd_group_posts d). gp_ParentID r = Some (gp_ID p))"
    using keyed_find [OF k, of pid post] keyed_inj [OF k] p(1) P by metis+
  with P row show ?thesis by simp
qed

lemma wiped_post:
  assumes k: "keyed gp_ID (sd_group_posts d)" and p: "p \<in> set (sd_group_posts d)" "p' \<in> set (sd_group_posts d')" "gp_ID p' = gp_ID p" "p' \<noteq> p"
    and rows: "sd_group_posts d' = update_where P (wipe_post now) (sd_group_posts d)"
  shows "P p \<and> p' = wipe_post now p"
proof -
  have "p' \<in> set (update_where P (wipe_post now) (sd_group_posts d))" using p(2) by (simp only: rows)
  then have "p' = (if P p then wipe_post now p else p)"
    by (rule keyed_update_row [OF k p(1) _ p(3)]) (simp add: wipe_post_def)
  with p(4) show ?thesis by (simp split: if_splits)
qed

text \<open>
  C25. Who changes a post: only its author by an edit, within five minutes of posting and before any
  reply, or its author or the owner of the group by a deletion, which leaves a tombstone
  without text, author and attachments.  No other request alters a post that stays in the table.
\<close>

theorem post_changes:
  assumes "posts_ok d" "p \<in> set (sd_group_posts d)" "p' \<in> set (sd_group_posts (group_exec x a d))" "gp_ID p' = gp_ID p" "p' \<noteq> p"
  shows "\<exists>u. caller x d = Some u \<and>
    ((\<exists>s. a = EditPost (Some (gp_ID p, s)) \<and> gp_UserID p = Some (u_ID u) \<and> gp_RemovedAt p = None \<and>
        \<not> (\<exists>r \<in> set (sd_group_posts d). gp_ParentID r = Some (gp_ID p)) \<and> sx_now x - gp_CreatedAt p \<le> groupPostEditGrace \<and>
        p' = p\<lparr>gp_Text := s, gp_EditedAt := Some (sx_db x 0)\<rparr>) \<or>
     a = DeletePost (Some (gp_ID p)) \<and> gp_RemovedAt p = None \<and>
       (gp_UserID p = Some (u_ID u) \<or> (\<exists>g \<in> set (sd_groups d). sg_ID g = gp_GroupID p \<and> sg_OwnerUserID g = u_ID u)) \<and>
       p' = wipe_post (sx_db x 0) p)"
proof -
  let ?d = "group_exec x a d"
  have k: "keyed gp_ID (sd_group_posts d)" using assms(1) by (simp add: posts_ok_def)
  have moved: "p' \<notin> set (sd_group_posts d)" using keyed_inj [OF k assms(2)] assms(4,5) by metis
  then have "?d \<noteq> d" using assms(3) by auto
  then have eff: "group_effect x a d ?d" using group_exec_effect by blast
  show ?thesis
    using eff
  proof (cases rule: group_effect.cases)
    case (submit u req m q c)
    from insert_post_row [OF submit(6)] obtain r where "sd_group_posts ?d = sd_group_posts d @ [r]" "gp_ID r \<notin> gp_ID ` set (sd_group_posts d)"
      by blast
    moreover from this(2) have "gp_ID r \<noteq> gp_ID p" using assms(2) by (metis imageI)
    ultimately show ?thesis using assms(3,4) moved by auto
  next
    case (edit u pid post body n)
    from edited_post [OF k assms(2-5) edit(3,7)] edit show ?thesis by (intro exI [of _ u] conjI disjI1 exI [of _ body]) simp_all
  next
    case (retract u pid n)
    from wiped_post [OF k assms(2-5) post_rows(2) [OF retract(3)]] retract(1,2) show ?thesis by (intro exI [of _ u]) simp
  next
    case (moderate u pid n)
    from wiped_post [OF k assms(2-5) post_rows(3) [OF moderate(3)]] moderate(1,2) show ?thesis by (intro exI [of _ u]) simp
  qed (use other_requests_keep_posts [OF assms(1) eff] assms(3) moved in blast)+
qed

subsection \<open>An example\<close>

text \<open>Ada owns the private group 7 with one post; Bob has the given role in it, or none.\<close>

definition demo_circle :: "int option \<Rightarrow> social_db" where
  "demo_circle role = demo_social\<lparr>
     sd_groups := [\<lparr>sg_ID = 7, sg_OwnerUserID = 1, sg_Title = ''Circle'', sg_Description = '''', sg_Visibility = 1,
       sg_PodcastUuid = '''', sg_PodcastTitle = '''', sg_CreatedAt = 0, sg_UpdatedAt = 0\<rparr>],
     sd_group_members := fresh_member 0 7 1 2 None # (case role of None \<Rightarrow> [] | Some r \<Rightarrow> [fresh_member 0 7 2 r (Some 1)]),
     sd_group_posts := [\<lparr>gp_ID = 3, gp_GroupID = 7, gp_UserID = Some 1, gp_ParentID = None, gp_RootID = None, gp_Text = ''hello'',
       gp_EpisodeUuid = '''', gp_PodcastUuid = '''', gp_EpisodeTitle = '''', gp_PodcastTitle = '''', gp_ListID = 0,
       gp_ListTitle = '''', gp_CreatedAt = 0, gp_EditedAt = None, gp_RemovedAt = None\<rparr>]\<rparr>"

abbreviation ada :: sctx where "ada \<equiv> demo_sx CHR ''1''"
abbreviation bob :: sctx where "bob \<equiv> demo_sx CHR ''2''"

lemma demo_circle_ok: "members_ok (demo_circle (Some 4))" "members_ok (demo_circle (Some 3))" "members_ok (demo_circle None)"
  "posts_ok (demo_circle None)" "private_group 7 (demo_circle None)" "private_group 7 (demo_circle (Some 3))"
  by code_simp+

lemma demo_circle_callers:
  "caller ada (demo_circle r) = Some (demo_member 1 CHR ''1'')" "caller bob (demo_circle r) = Some (demo_member 2 CHR ''2'')"
  using demo_caller by (simp_all add: demo_circle_def caller_def demo_sx_def split: option.splits)

lemma demo_standings: "standings (demo_circle (Some 4)) 7 2 = Banned" "standings (demo_circle None) 7 2 = Outside"
  by code_simp+

lemma groups_invariant_witness:
  "members_ok (group_run [(ada, Invite (Some (7, ''bob''))), (bob, Respond (Some (7, True)))] (demo_circle None)) \<and>
   posts_ok (group_run [(ada, Invite (Some (7, ''bob''))), (bob, Respond (Some (7, True)))] (demo_circle None))"
  by (rule groups_invariant [OF demo_circle_ok(3,4)]) simp

lemma demo_invited: "standings (group_exec ada (Invite (Some (7, ''bob''))) (demo_circle None)) 7 2 = Invited"
  by code_simp

lemma membership_lifecycle_witness:
  "membership_step (open_group (demo_circle None)) 1 (standings (demo_circle None))
     (standings (group_exec ada (Invite (Some (7, ''bob''))) (demo_circle None))) \<and>
   standings (group_exec ada (Invite (Some (7, ''bob''))) (demo_circle None)) 7 2 = Invited"
  using membership_lifecycle [OF demo_circle_ok(3), of ada "Invite (Some (7, ''bob''))"] demo_invited demo_standings(2)
  by (auto simp: demo_circle_callers demo_member_def demo_user_def)

text \<open>The erasure of the social data deletes the memberships of the user, the row that holds the ban included.\<close>

lemma ban_lifted_by_erasure:
  "standings (demo_circle (Some 4)) 7 2 = Banned" "standings (social_exec bob (Erase (Some ())) (demo_circle (Some 4))) 7 2 = Outside"
  by code_simp+

lemma ban_holds_witness: "standings (group_run [(bob, JoinGroup (Some 7)), (bob, LeaveGroup (Some 7))] (demo_circle (Some 4))) 7 2 = Banned"
  by (rule ban_holds [OF demo_circle_ok(1) _ demo_standings(1)])
    (simp_all add: demo_circle_callers demo_standings demo_member_def demo_user_def)

lemma private_stays_private_witness:
  "\<exists>g \<in> set (sd_groups (group_exec ada (Invite (Some (7, ''bob''))) (demo_circle None))). sg_Visibility g = 1"
proof -
  let ?d = "group_exec ada (Invite (Some (7, ''bob''))) (demo_circle None)"
  have n: "length (sd_groups ?d) = 1" "sg_ID (hd (sd_groups ?d)) = 7" by code_simp+
  then have "hd (sd_groups ?d) \<in> set (sd_groups ?d)" by (intro hd_in_set) auto
  moreover have "hd (sd_groups (demo_circle None)) \<in> set (sd_groups (demo_circle None))"
    "sg_Visibility (hd (sd_groups (demo_circle None))) = 1" "sg_ID (hd (sd_groups (demo_circle None))) = 7"
    by (simp_all add: demo_circle_def)
  ultimately show ?thesis
    using private_stays_private [OF demo_circle_ok(3), of "hd (sd_groups (demo_circle None))" "hd (sd_groups ?d)" ada "Invite (Some (7, ''bob''))"] n
    by auto
qed

lemma private_group_hidden_witness: "PostGroupJoin bob (Some 7) (demo_circle None) = (group_gone, demo_circle None)"
proof -
  have "outsider bob 7 (demo_circle None)"
    by (simp add: outsider_def demo_circle_callers demo_standings demo_member_def demo_user_def)
  note hidden = private_group_hidden [OF demo_circle_ok(3) this demo_circle_ok(5)]
  have "fst (PostGroupJoin bob (Some 7) (without 7 (demo_circle None))) = group_gone" by code_simp
  moreover have "snd (PostGroupJoin bob (Some 7) (demo_circle None)) = demo_circle None" by code_simp
  ultimately show ?thesis using hidden by (simp add: prod_eq_iff)
qed

lemma private_group_capacity_witness: "member_count 7 (snd (PostGroupInviteRespond bob (Some (7, True)) (demo_circle (Some 3)))) = 2"
proof -
  obtain rep d' where e: "PostGroupInviteRespond bob (Some (7, True)) (demo_circle (Some 3)) = (rep, d')"
    by (cases "PostGroupInviteRespond bob (Some (7, True)) (demo_circle (Some 3))")
  have "fst (PostGroupInviteRespond bob (Some (7, True)) (demo_circle (Some 3))) = Proto 200 True" by code_simp
  then have "rep = Proto 200 True" by (simp add: e)
  moreover have "member_count 7 (demo_circle (Some 3)) = 1" by code_simp
  ultimately show ?thesis using private_group_capacity [OF demo_circle_ok(2,6) e] by (simp add: e)
qed

lemma post_changes_witness:
  "hd (sd_group_posts (group_exec ada (DeletePost (Some 3)) (demo_circle None))) =
     wipe_post (sx_db ada 0) (hd (sd_group_posts (demo_circle None)))"
proof -
  let ?a = "DeletePost (Some 3)" and ?d = "demo_circle None"
  let ?p = "hd (sd_group_posts ?d)" and ?q = "hd (sd_group_posts (group_exec ada ?a ?d))"
  have "?p \<in> set (sd_group_posts ?d)" "gp_Text ?p = ''hello''" "gp_ID ?p = 3" by (simp_all add: demo_circle_def)
  moreover have "length (sd_group_posts (group_exec ada ?a ?d)) = 1" "gp_ID ?q = 3" "gp_Text ?q = []" by code_simp+
  moreover from this(1) have "?q \<in> set (sd_group_posts (group_exec ada ?a ?d))" by (intro hd_in_set) auto
  moreover have "?q \<noteq> ?p" using calculation by auto
  ultimately show ?thesis using post_changes [OF demo_circle_ok(4), of ?p ?q ada ?a] by auto
qed

end
