(* ===== verification/List_Db.thy ===== *)
theory List_Db
  imports Group_Db
begin

section \<open>Statements on shared lists\<close>

text \<open>
  The statements of \<^verbatim>\<open>src/db/queries.sql.go\<close> on \<^verbatim>\<open>social_lists\<close>, their entries and members, for
  \<^verbatim>\<open>src/handlers/lists.go\<close>.  An entry is keyed by list and episode, a member by list and user.
\<close>

abbreviation le_key :: "SocialListEntry \<Rightarrow> int \<times> string" where
  "le_key x \<equiv> (le_ListID x, le_EpisodeUuid x)"

abbreviation lm_key :: "SocialListMember \<Rightarrow> int \<times> int" where
  "lm_key m \<equiv> (lm_ListID m, lm_UserID m)"

subsection \<open>Lists\<close>

definition CreateSocialList ::
  "env \<Rightarrow> instant \<Rightarrow> int \<Rightarrow> int \<Rightarrow> string \<Rightarrow> string \<Rightarrow> int \<Rightarrow> social_db \<Rightarrow> (SocialList \<times> social_db) result" where
  "CreateSocialList e now new_id owner title description vis d =
     stmt e ''CreateSocialList''
       (if \<exists>l \<in> set (sd_lists d). sl_ID l = new_id then Inl (PgError ''23505'' ''social_lists_pkey'')
        else if \<not> user_exists owner d then Inl (PgError ''23503'' ''social_lists_owner_user_id_fkey'')
        else let l = \<lparr>sl_ID = new_id, sl_OwnerUserID = owner, sl_Title = title, sl_Description = description,
                      sl_Visibility = vis, sl_CreatedAt = now, sl_UpdatedAt = now\<rparr>
             in Inr (l, d\<lparr>sd_lists := sd_lists d @ [l]\<rparr>))"

record ListRow =
  lr_list :: SocialList
  lr_OwnerHandle :: string
  lr_OwnerDisplayName :: string
  lr_EntryCount :: int

definition entry_count :: "int \<Rightarrow> social_db \<Rightarrow> int" where
  "entry_count lid d = int (length (filter (\<lambda>x. le_ListID x = lid) (sd_list_entries d)))"

definition list_row :: "social_db \<Rightarrow> SocialList \<Rightarrow> ListRow option" where
  "list_row d l =
     map_option
       (\<lambda>op. \<lparr>lr_list = l, lr_OwnerHandle = sp_Handle op, lr_OwnerDisplayName = sp_DisplayName op,
              lr_EntryCount = entry_count (sl_ID l) d\<rparr>)
       (profile_of (sl_OwnerUserID l) d)"

definition GetSocialList :: "env \<Rightarrow> int \<Rightarrow> social_db \<Rightarrow> ListRow result" where
  "GetSocialList e lid d =
     stmt e ''GetSocialList''
       (case List.map_filter (list_row d) (filter (\<lambda>l. sl_ID l = lid) (sd_lists d)) of
          [] \<Rightarrow> Inl ErrNoRows
        | r # _ \<Rightarrow> Inr r)"

definition UpdateSocialList ::
  "env \<Rightarrow> instant \<Rightarrow> int \<Rightarrow> int \<Rightarrow> string \<Rightarrow> string \<Rightarrow> int \<Rightarrow> social_db \<Rightarrow> (int \<times> social_db) result" where
  "UpdateSocialList e now lid owner title description vis d =
     stmt e ''UpdateSocialList''
       (let P = (\<lambda>l. sl_ID l = lid \<and> sl_OwnerUserID l = owner)
        in Inr (int (length (filter P (sd_lists d))),
                d\<lparr>sd_lists := update_where P
                    (\<lambda>l. l\<lparr>sl_Title := title, sl_Description := description, sl_Visibility := vis, sl_UpdatedAt := now\<rparr>)
                    (sd_lists d)\<rparr>))"

definition DeleteSocialList :: "env \<Rightarrow> int \<Rightarrow> int \<Rightarrow> social_db \<Rightarrow> (int \<times> social_db) result" where
  "DeleteSocialList e lid owner d =
     stmt e ''DeleteSocialList''
       (let P = (\<lambda>l. sl_ID l = lid \<and> sl_OwnerUserID l = owner)
        in Inr (int (length (filter P (sd_lists d))), delete_lists P d))"

definition TouchSocialList :: "env \<Rightarrow> instant \<Rightarrow> int \<Rightarrow> social_db \<Rightarrow> social_db result" where
  "TouchSocialList e now lid d =
     stmt e ''TouchSocialList''
       (Inr (d\<lparr>sd_lists := update_where (\<lambda>l. sl_ID l = lid) (\<lambda>l. l\<lparr>sl_UpdatedAt := now\<rparr>) (sd_lists d)\<rparr>))"

definition stored_list_role :: "int \<Rightarrow> int" where
  "stored_list_role role = (if role = 1 then 2 else if role = 2 then 3 else if role = 0 then 4 else 0)"

text \<open>\<^verbatim>\<open>your_role\<close> is null for a list without a row of the user, which the \<^verbatim>\<open>WHERE\<close> excludes.\<close>

definition GetSocialListsForUser :: "env \<Rightarrow> int \<Rightarrow> social_db \<Rightarrow> (ListRow \<times> int) list result" where
  "GetSocialListsForUser e uid d =
     stmt e ''GetSocialListsForUser''
       (Inr (sort_key (\<lambda>(r, _). - sl_UpdatedAt (lr_list r))
          (List.map_filter
             (\<lambda>l. case list_row d l of
                    None \<Rightarrow> None
                  | Some r \<Rightarrow>
                      if sl_OwnerUserID l = uid then Some (r, 1)
                      else (case find (\<lambda>m. lm_key m = (sl_ID l, uid)) (sd_list_members d) of
                              None \<Rightarrow> None
                            | Some m \<Rightarrow> Some (r, stored_list_role (lm_Role m))))
             (sd_lists d))))"

definition GetSocialListInvitesForUser :: "env \<Rightarrow> int \<Rightarrow> social_db \<Rightarrow> ListRow list result" where
  "GetSocialListInvitesForUser e uid d =
     stmt e ''GetSocialListInvitesForUser''
       (Inr (concat (map
          (\<lambda>m. List.map_filter (list_row d) (filter (\<lambda>l. sl_ID l = lm_ListID m) (sd_lists d)))
          (sort_key (\<lambda>m. - lm_CreatedAt m) (filter (\<lambda>m. lm_UserID m = uid \<and> lm_Role m = 0) (sd_list_members d))))))"

subsection \<open>Entries\<close>

record EntryRow =
  er_EpisodeUuid :: string
  er_PodcastUuid :: string
  er_EpisodeTitle :: string
  er_PodcastTitle :: string
  er_Position :: int
  er_AddedAt :: instant
  er_AddedByHandle :: string

definition GetSocialListEntries :: "env \<Rightarrow> int \<Rightarrow> int \<Rightarrow> int \<Rightarrow> social_db \<Rightarrow> EntryRow list result" where
  "GetSocialListEntries e lid limit offset d =
     stmt e ''GetSocialListEntries''
       (Inr (map
          (\<lambda>x. \<lparr>er_EpisodeUuid = le_EpisodeUuid x, er_PodcastUuid = le_PodcastUuid x,
                er_EpisodeTitle = le_EpisodeTitle x, er_PodcastTitle = le_PodcastTitle x, er_Position = le_Position x,
                er_AddedAt = le_AddedAt x,
                er_AddedByHandle = (case le_AddedBy x of
                    None \<Rightarrow> ''''
                  | Some u \<Rightarrow> (case profile_of u d of None \<Rightarrow> '''' | Some p \<Rightarrow> sp_Handle p))\<rparr>)
          (take (nat limit) (drop (nat offset)
             (sort_key (\<lambda>x. (le_Position x, le_AddedAt x)) (filter (\<lambda>x. le_ListID x = lid) (sd_list_entries d)))))))"

definition CountSocialListEntries :: "env \<Rightarrow> int \<Rightarrow> social_db \<Rightarrow> int result" where
  "CountSocialListEntries e lid d = stmt e ''CountSocialListEntries'' (Inr (entry_count lid d))"

definition MaxSocialListPosition :: "env \<Rightarrow> int \<Rightarrow> social_db \<Rightarrow> int result" where
  "MaxSocialListPosition e lid d =
     stmt e ''MaxSocialListPosition''
       (Inr (case filter (\<lambda>x. le_ListID x = lid) (sd_list_entries d) of
               [] \<Rightarrow> -1
             | x # xs \<Rightarrow> foldl max (le_Position x) (map le_Position xs)))"

record EntryParams =
  ep_EpisodeUuid :: string
  ep_PodcastUuid :: string
  ep_EpisodeTitle :: string
  ep_PodcastTitle :: string
  ep_Position :: int

definition new_entry :: "instant \<Rightarrow> int \<Rightarrow> int option \<Rightarrow> EntryParams \<Rightarrow> SocialListEntry" where
  "new_entry now lid by a =
     \<lparr>le_ListID = lid, le_EpisodeUuid = ep_EpisodeUuid a, le_PodcastUuid = ep_PodcastUuid a,
      le_EpisodeTitle = ep_EpisodeTitle a, le_PodcastTitle = ep_PodcastTitle a, le_Position = ep_Position a,
      le_AddedBy = by, le_AddedAt = now\<rparr>"

definition list_exists :: "int \<Rightarrow> social_db \<Rightarrow> bool" where
  "list_exists lid d \<longleftrightarrow> (\<exists>l \<in> set (sd_lists d). sl_ID l = lid)"

definition author_exists :: "int option \<Rightarrow> social_db \<Rightarrow> bool" where
  "author_exists by d \<longleftrightarrow> (case by of None \<Rightarrow> True | Some u \<Rightarrow> user_exists u d)"

definition UpsertSocialListEntry :: "env \<Rightarrow> instant \<Rightarrow> int \<Rightarrow> int option \<Rightarrow> EntryParams \<Rightarrow> social_db \<Rightarrow> social_db result" where
  "UpsertSocialListEntry e now lid by a d =
     stmt e ''UpsertSocialListEntry''
       (if (lid, ep_EpisodeUuid a) \<notin> le_key ` set (sd_list_entries d) \<and> (\<not> list_exists lid d \<or> \<not> author_exists by d)
        then Inl (PgError ''23503'' ''social_list_entries_list_id_fkey'')
        else Inr (d\<lparr>sd_list_entries :=
               upsert_row le_key (new_entry now lid by a) (\<lambda>x. x\<lparr>le_Position := ep_Position a\<rparr>) (sd_list_entries d)\<rparr>))"

text \<open>
  The batch insert.  A batch that names an episode twice would touch a row twice, which
  PostgreSQL refuses with 21000.
\<close>

definition UpsertSocialListEntries ::
  "env \<Rightarrow> instant \<Rightarrow> int \<Rightarrow> int option \<Rightarrow> EntryParams list \<Rightarrow> social_db \<Rightarrow> social_db result" where
  "UpsertSocialListEntries e now lid by as d =
     stmt e ''UpsertSocialListEntries''
       (if as = [] then Inr d
        else if \<not> distinct (map ep_EpisodeUuid as) then Inl (PgError ''21000'' '''')
        else if \<not> list_exists lid d \<or> \<not> author_exists by d
        then Inl (PgError ''23503'' ''social_list_entries_list_id_fkey'')
        else Inr (d\<lparr>sd_list_entries :=
               foldl (\<lambda>t a. upsert_row le_key (new_entry now lid by a)
                         (\<lambda>x. x\<lparr>le_PodcastUuid := ep_PodcastUuid a, le_EpisodeTitle := ep_EpisodeTitle a,
                               le_PodcastTitle := ep_PodcastTitle a, le_Position := ep_Position a, le_AddedBy := by,
                               le_AddedAt := now\<rparr>) t)
                 (sd_list_entries d) as\<rparr>))"

definition DeleteSocialListEntry :: "env \<Rightarrow> int \<Rightarrow> string \<Rightarrow> social_db \<Rightarrow> (int \<times> social_db) result" where
  "DeleteSocialListEntry e lid ep d =
     stmt e ''DeleteSocialListEntry''
       (Inr (int (length (filter (\<lambda>x. le_key x = (lid, ep)) (sd_list_entries d))),
             d\<lparr>sd_list_entries := delete_where (\<lambda>x. le_key x = (lid, ep)) (sd_list_entries d)\<rparr>))"

definition MoveSocialListEntry :: "env \<Rightarrow> int \<Rightarrow> string \<Rightarrow> int \<Rightarrow> social_db \<Rightarrow> (int \<times> social_db) result" where
  "MoveSocialListEntry e lid ep position d =
     stmt e ''MoveSocialListEntry''
       (Inr (int (length (filter (\<lambda>x. le_key x = (lid, ep)) (sd_list_entries d))),
             d\<lparr>sd_list_entries :=
                 update_where (\<lambda>x. le_key x = (lid, ep)) (\<lambda>x. x\<lparr>le_Position := position\<rparr>) (sd_list_entries d)\<rparr>))"

subsection \<open>Members\<close>

definition GetSocialListMember :: "env \<Rightarrow> int \<Rightarrow> int \<Rightarrow> social_db \<Rightarrow> int result" where
  "GetSocialListMember e lid uid d =
     stmt e ''GetSocialListMember''
       (rbind (select_one (\<lambda>m. lm_key m = (lid, uid)) (sd_list_members d)) (\<lambda>m. Inr (lm_Role m)))"

record ListMemberRow =
  lmr_UserID :: int
  lmr_Role :: int
  lmr_Handle :: string
  lmr_DisplayName :: string

definition GetSocialListMembers :: "env \<Rightarrow> int \<Rightarrow> social_db \<Rightarrow> ListMemberRow list result" where
  "GetSocialListMembers e lid d =
     stmt e ''GetSocialListMembers''
       (Inr (List.map_filter
          (\<lambda>m. map_option
                 (\<lambda>sp. \<lparr>lmr_UserID = lm_UserID m, lmr_Role = lm_Role m, lmr_Handle = sp_Handle sp,
                        lmr_DisplayName = sp_DisplayName sp\<rparr>)
                 (profile_of (lm_UserID m) d))
          (sort_key (\<lambda>m. (lm_Role m, lm_CreatedAt m)) (filter (\<lambda>m. lm_ListID m = lid) (sd_list_members d)))))"

definition UpsertSocialListMember :: "env \<Rightarrow> instant \<Rightarrow> int \<Rightarrow> int \<Rightarrow> int \<Rightarrow> social_db \<Rightarrow> social_db result" where
  "UpsertSocialListMember e now lid uid role d =
     stmt e ''UpsertSocialListMember''
       (if (lid, uid) \<notin> lm_key ` set (sd_list_members d) \<and> (\<not> list_exists lid d \<or> \<not> user_exists uid d)
        then Inl (PgError ''23503'' ''social_list_members_list_id_fkey'')
        else Inr (d\<lparr>sd_list_members :=
               upsert_row lm_key \<lparr>lm_ListID = lid, lm_UserID = uid, lm_Role = role, lm_CreatedAt = now\<rparr>
                 (\<lambda>m. m\<lparr>lm_Role := role\<rparr>) (sd_list_members d)\<rparr>))"

definition DeleteSocialListMember :: "env \<Rightarrow> int \<Rightarrow> int \<Rightarrow> social_db \<Rightarrow> (int \<times> social_db) result" where
  "DeleteSocialListMember e lid uid d =
     stmt e ''DeleteSocialListMember''
       (Inr (int (length (filter (\<lambda>m. lm_key m = (lid, uid)) (sd_list_members d))),
             d\<lparr>sd_list_members := delete_where (\<lambda>m. lm_key m = (lid, uid)) (sd_list_members d)\<rparr>))"

end
