(* ===== verification/Social_Lists.thy ===== *)
theory Social_Lists
  imports List_Db Social_Groups
begin

section \<open>Shared lists\<close>

text \<open>
  \<^verbatim>\<open>src/handlers/lists.go\<close>: lists of episodes with an owner, invited collaborators who edit the
  entries, and subscribers.  The handlers have the form of \<open>Social_Groups\<close>.
\<close>

subsection \<open>Requests and replies\<close>

definition listTitleMaxLength :: nat where "listTitleMaxLength = 200"
definition listDescriptionMaxLength :: nat where "listDescriptionMaxLength = 1000"
definition listEntriesMax :: nat where "listEntriesMax = 500"
definition listCollaboratorsMax :: nat where "listCollaboratorsMax = 20"
definition maxListEntryPageSize :: int where "maxListEntryPageSize = 100"

definition listRoleInvited :: int where "listRoleInvited = 0"
definition listRoleCollaborator :: int where "listRoleCollaborator = 1"
definition listRoleSubscriber :: int where "listRoleSubscriber = 2"

definition SHARED_LIST_ROLE_NONE :: int where "SHARED_LIST_ROLE_NONE = 0"
definition SHARED_LIST_ROLE_OWNER :: int where "SHARED_LIST_ROLE_OWNER = 1"
definition SHARED_LIST_ROLE_COLLABORATOR :: int where "SHARED_LIST_ROLE_COLLABORATOR = 2"
definition SHARED_LIST_ROLE_SUBSCRIBER :: int where "SHARED_LIST_ROLE_SUBSCRIBER = 3"
definition SHARED_LIST_ROLE_INVITED :: int where "SHARED_LIST_ROLE_INVITED = 4"

definition SHARED_LIST_OP_ADD :: int where "SHARED_LIST_OP_ADD = 1"
definition SHARED_LIST_OP_REMOVE :: int where "SHARED_LIST_OP_REMOVE = 2"
definition SHARED_LIST_OP_MOVE :: int where "SHARED_LIST_OP_MOVE = 3"

definition SocialPushListInvite :: int where "SocialPushListInvite = 6"

lemmas list_consts =
  listRoleInvited_def listRoleCollaborator_def listRoleSubscriber_def SHARED_LIST_ROLE_NONE_def
  SHARED_LIST_ROLE_OWNER_def SHARED_LIST_ROLE_COLLABORATOR_def SHARED_LIST_ROLE_SUBSCRIBER_def
  SHARED_LIST_ROLE_INVITED_def SHARED_LIST_OP_ADD_def SHARED_LIST_OP_REMOVE_def SHARED_LIST_OP_MOVE_def

record SharedListEntry =
  sle_EpisodeUuid :: string
  sle_PodcastUuid :: string
  sle_EpisodeTitle :: string
  sle_PodcastTitle :: string
  sle_Position :: int
  sle_AddedByHandle :: string
  sle_AddedAt :: instant

record SharedListMember =
  slm_Handle :: string
  slm_DisplayName :: string
  slm_Role :: int

record SharedList =
  psl_Id :: int
  psl_OwnerHandle :: string
  psl_OwnerDisplayName :: string
  psl_Title :: string
  psl_Description :: string
  psl_Visibility :: int
  psl_CreatedAt :: instant
  psl_UpdatedAt :: instant
  psl_EntryCount :: int
  psl_YourRole :: int
  psl_Members :: "SharedListMember list"

record SharedListCreateRequest =
  lcr_Title :: string
  lcr_Description :: string
  lcr_Visibility :: int
  lcr_Entries :: "SharedListEntry list"

record SharedListUpdateRequest =
  lur_ListId :: int
  lur_Title :: string
  lur_Description :: string
  lur_Visibility :: int

record SharedListEntriesRequest =
  ler_ListId :: int
  ler_Limit :: int
  ler_Offset :: int

record SharedListEntriesResponse =
  lep_List :: SharedList
  lep_Entries :: "SharedListEntry list"
  lep_Total :: int

record SharedListEntryOpRequest =
  loq_ListId :: int
  loq_Op :: int
  loq_EpisodeUuid :: string
  loq_PodcastUuid :: string
  loq_EpisodeTitle :: string
  loq_PodcastTitle :: string
  loq_Position :: int

definition list_gone :: "'m reply" where
  "list_gone = access_denied 404 ''list not found''"

subsection \<open>Roles and visibility\<close>

definition socialListRole :: "sctx \<Rightarrow> int \<Rightarrow> int \<Rightarrow> int \<Rightarrow> social_db \<Rightarrow> int result" where
  "socialListRole x ownerID listID viewerID d =
     (if viewerID = 0 then Inr SHARED_LIST_ROLE_NONE
      else if viewerID = ownerID then Inr SHARED_LIST_ROLE_OWNER
      else (case GetSocialListMember (sx_env x) listID viewerID d of
              Inl err \<Rightarrow> if Is_ErrNoRows err then Inr SHARED_LIST_ROLE_NONE else Inl err
            | Inr role \<Rightarrow>
                Inr (if role = listRoleCollaborator then SHARED_LIST_ROLE_COLLABORATOR
                     else if role = listRoleSubscriber then SHARED_LIST_ROLE_SUBSCRIBER
                     else if role = listRoleInvited then SHARED_LIST_ROLE_INVITED
                     else SHARED_LIST_ROLE_NONE)))"

definition canViewSocialList :: "sctx \<Rightarrow> int \<Rightarrow> int \<Rightarrow> int \<Rightarrow> int \<Rightarrow> social_db \<Rightarrow> bool result" where
  "canViewSocialList x ownerID visibility viewerID role d =
     rbind (if viewerID \<noteq> 0 \<and> viewerID \<noteq> ownerID then IsBlockedEither (sx_env x) viewerID ownerID d else Inr False)
       (\<lambda>blocked.
          if blocked then Inr False
          else if role \<noteq> SHARED_LIST_ROLE_NONE then Inr True
          else if visibility = 2 then Inr True
          else if visibility = 3 then
            (if viewerID = 0 then Inr False
             else (case GetFollowState (sx_env x) viewerID ownerID d of
                     Inl err \<Rightarrow> if Is_ErrNoRows err then Inr False else Inl err
                   | Inr state \<Rightarrow> Inr (state = followStatusActive)))
          else Inr False)"

definition memberToProto :: "ListMemberRow \<Rightarrow> SharedListMember" where
  "memberToProto m =
     \<lparr>slm_Handle = lmr_Handle m, slm_DisplayName = lmr_DisplayName m,
      slm_Role = (if lmr_Role m = listRoleCollaborator then SHARED_LIST_ROLE_COLLABORATOR
                  else if lmr_Role m = listRoleSubscriber then SHARED_LIST_ROLE_SUBSCRIBER
                  else SHARED_LIST_ROLE_INVITED)\<rparr>"

definition listRowToProto :: "ListRow \<Rightarrow> int \<Rightarrow> SharedListMember list \<Rightarrow> SharedList" where
  "listRowToProto r role members =
     (let l = lr_list r
      in \<lparr>psl_Id = sl_ID l, psl_OwnerHandle = lr_OwnerHandle r, psl_OwnerDisplayName = lr_OwnerDisplayName r,
          psl_Title = sl_Title l, psl_Description = sl_Description l, psl_Visibility = sl_Visibility l,
          psl_CreatedAt = sl_CreatedAt l, psl_UpdatedAt = sl_UpdatedAt l, psl_EntryCount = lr_EntryCount r,
          psl_YourRole = role, psl_Members = members\<rparr>)"

definition socialListProto :: "sctx \<Rightarrow> ListRow \<Rightarrow> int \<Rightarrow> bool \<Rightarrow> social_db \<Rightarrow> SharedList" where
  "socialListProto x r role ownerView d =
     listRowToProto r role
       (if ownerView then
          (case GetSocialListMembers (sx_env x) (sl_ID (lr_list r)) d of Inl _ \<Rightarrow> [] | Inr ms \<Rightarrow> map memberToProto ms)
        else [])"


subsection \<open>Lists\<close>

definition list_texts :: "sctx \<Rightarrow> string \<Rightarrow> string \<Rightarrow> bool" where
  "list_texts x title description \<longleftrightarrow>
     CheckText (al_ToLower (sx_lib x)) (sx_blocklist x) title = None \<and>
     CheckText (al_ToLower (sx_lib x)) (sx_blocklist x) description = None"

text \<open>
  The snapshot of a new list: entries with an impossible identifier are left out, an episode that
  comes again replaces its earlier row, where it stands.  \<open>snapshot i rows es\<close> is the loop from
  index \<open>i\<close> on; \<open>rows\<close> is \<^verbatim>\<open>initialEntries\<close>, and the map from episodes to places is the search in it.
\<close>

definition entry_params :: "nat \<Rightarrow> SharedListEntry \<Rightarrow> EntryParams" where
  "entry_params i y =
     \<lparr>ep_EpisodeUuid = sle_EpisodeUuid y, ep_PodcastUuid = sle_PodcastUuid y,
      ep_EpisodeTitle = truncateRunes (sle_EpisodeTitle y) maxTitleLen,
      ep_PodcastTitle = truncateRunes (sle_PodcastTitle y) maxTitleLen, ep_Position = int32 (int i)\<rparr>"

definition valid_entry :: "SharedListEntry \<Rightarrow> bool" where
  "valid_entry y \<longleftrightarrow>
     \<not> (sle_EpisodeUuid y = '''' \<or> length (sle_EpisodeUuid y) > maxUuidFieldLen \<or>
         length (sle_PodcastUuid y) > maxUuidFieldLen)"

fun snapshot :: "nat \<Rightarrow> EntryParams list \<Rightarrow> SharedListEntry list \<Rightarrow> EntryParams list" where
  "snapshot i rows [] = rows"
| "snapshot i rows (y # ys) =
     snapshot (Suc i)
       (if \<not> valid_entry y then rows
        else let row = entry_params i y
             in if \<exists>r \<in> set rows. ep_EpisodeUuid r = ep_EpisodeUuid row
                then map (\<lambda>r. if ep_EpisodeUuid r = ep_EpisodeUuid row then row else r) rows
                else rows @ [row])
       ys"

definition create_list_tx ::
  "sctx \<Rightarrow> int \<Rightarrow> SharedListCreateRequest \<Rightarrow> EntryParams list \<Rightarrow> social_db \<Rightarrow> (SocialList \<times> social_db) result" where
  "create_list_tx x uid req rows d =
     rbind (CreateSocialList (sx_env x) (sx_db x 0) (sx_id x) uid (lcr_Title req) (lcr_Description req)
              (visibilityToStored (lcr_Visibility req)) d) (\<lambda>(created, d).
       if rows = [] then Inr (created, d)
       else rbind (UpsertSocialListEntries (sx_env x) (sx_db x 0) (sl_ID created) (Some uid) rows d)
              (\<lambda>d. Inr (created, d)))"

text \<open>\<open>share_list\<close> is the rest of \<^verbatim>\<open>PostSocialListCreate\<close> after the checks of the request and of the caller.\<close>

definition share_list ::
  "sctx \<Rightarrow> User \<Rightarrow> SocialProfile \<Rightarrow> SharedListCreateRequest \<Rightarrow> social_db \<Rightarrow> SharedList reply \<times> social_db" where
  "share_list x user profile req d =
     (let rows = snapshot 0 [] (lcr_Entries req)
      in (case InTx (sx_env x) (create_list_tx x (u_ID user) req rows) d of
            (Inl err, d') \<Rightarrow> (write_error x err, d')
          | (Inr created, d') \<Rightarrow>
              (Proto 200 \<lparr>psl_Id = sl_ID created, psl_OwnerHandle = sp_Handle profile,
                 psl_OwnerDisplayName = sp_DisplayName profile, psl_Title = lcr_Title req,
                 psl_Description = lcr_Description req, psl_Visibility = visibilityToStored (lcr_Visibility req),
                 psl_CreatedAt = sl_CreatedAt created, psl_UpdatedAt = sl_UpdatedAt created,
                 psl_EntryCount = int32 (int (length rows)), psl_YourRole = SHARED_LIST_ROLE_OWNER,
                 psl_Members = []\<rparr>, d')))"

definition PostSocialListCreate :: "sctx \<Rightarrow> SharedListCreateRequest option \<Rightarrow> social_db \<Rightarrow> SharedList reply \<times> social_db" where
  "PostSocialListCreate x req d =
     (case req of
        None \<Rightarrow> (access_denied 400 ''invalid request'', d)
      | Some req \<Rightarrow>
          if lcr_Title req = '''' then (access_denied 400 ''invalid request'', d)
          else if length (lcr_Title req) > listTitleMaxLength \<or> length (lcr_Description req) > listDescriptionMaxLength \<or>
                  length (lcr_Entries req) > listEntriesMax
          then (access_denied 400 ''list too large'', d)
          else if \<not> list_texts x (lcr_Title req) (lcr_Description req) then (access_denied 422 ''list rejected'', d)
          else (case requireJoined x d of
                  Inl rep \<Rightarrow> (rep, d)
                | Inr (user, profile) \<Rightarrow> share_list x user profile req d))"

definition PostSocialListUpdate :: "sctx \<Rightarrow> SharedListUpdateRequest option \<Rightarrow> social_db \<Rightarrow> bool reply \<times> social_db" where
  "PostSocialListUpdate x req d =
     (case req of
        None \<Rightarrow> (access_denied 400 ''invalid request'', d)
      | Some req \<Rightarrow>
          if lur_ListId req \<le> 0 \<or> lur_Title req = '''' then (access_denied 400 ''invalid request'', d)
          else if length (lur_Title req) > listTitleMaxLength \<or> length (lur_Description req) > listDescriptionMaxLength
          then (access_denied 400 ''list too large'', d)
          else if \<not> list_texts x (lur_Title req) (lur_Description req) then (access_denied 422 ''list rejected'', d)
          else (case requireJoined x d of
                  Inl rep \<Rightarrow> (rep, d)
                | Inr (user, _) \<Rightarrow>
                    (case UpdateSocialList (sx_env x) (sx_db x 0) (lur_ListId req) (u_ID user) (lur_Title req)
                            (lur_Description req) (visibilityToStored (lur_Visibility req)) d of
                       Inl err \<Rightarrow> (write_error x err, d)
                     | Inr (affected, d') \<Rightarrow> (if affected = 0 then list_gone else Proto 200 True, d'))))"

definition PostSocialListDelete :: "sctx \<Rightarrow> int option \<Rightarrow> social_db \<Rightarrow> bool reply \<times> social_db" where
  "PostSocialListDelete x req d =
     (case req of
        None \<Rightarrow> (access_denied 400 ''invalid request'', d)
      | Some lid \<Rightarrow>
          if lid \<le> 0 then (access_denied 400 ''invalid request'', d)
          else (case requireJoined x d of
                  Inl rep \<Rightarrow> (rep, d)
                | Inr (user, _) \<Rightarrow>
                    (case DeleteSocialList (sx_env x) lid (u_ID user) d of
                       Inl err \<Rightarrow> (write_error x err, d)
                     | Inr (affected, d') \<Rightarrow> (if affected = 0 then list_gone else Proto 200 True, d'))))"

definition PostSocialLists :: "sctx \<Rightarrow> social_db \<Rightarrow> (SharedList list \<times> SharedList list) reply" where
  "PostSocialLists x d =
     (case requireJoined x d of
        Inl rep \<Rightarrow> rep
      | Inr (user, _) \<Rightarrow>
          (case GetSocialListsForUser (sx_env x) (u_ID user) d of
             Inl err \<Rightarrow> write_error x err
           | Inr rows \<Rightarrow>
               (case GetSocialListInvitesForUser (sx_env x) (u_ID user) d of
                  Inl err \<Rightarrow> write_error x err
                | Inr invites \<Rightarrow>
                    Proto 200
                      (map (\<lambda>(r, role). listRowToProto r role [])
                         (filter (\<lambda>(_, role). role \<noteq> SHARED_LIST_ROLE_INVITED) rows),
                       map (\<lambda>r. listRowToProto r SHARED_LIST_ROLE_INVITED []) invites))))"


subsection \<open>Entries\<close>

definition entryToProto :: "EntryRow \<Rightarrow> SharedListEntry" where
  "entryToProto r =
     \<lparr>sle_EpisodeUuid = er_EpisodeUuid r, sle_PodcastUuid = er_PodcastUuid r, sle_EpisodeTitle = er_EpisodeTitle r,
      sle_PodcastTitle = er_PodcastTitle r, sle_Position = er_Position r, sle_AddedByHandle = er_AddedByHandle r,
      sle_AddedAt = er_AddedAt r\<rparr>"

definition PostSocialListEntries :: "sctx \<Rightarrow> SharedListEntriesRequest option \<Rightarrow> social_db \<Rightarrow> SharedListEntriesResponse reply" where
  "PostSocialListEntries x req d =
     (case req of
        None \<Rightarrow> access_denied 400 ''invalid request''
      | Some req \<Rightarrow>
          if ler_ListId req \<le> 0 then access_denied 400 ''invalid request''
          else
            (case GetSocialList (sx_env x) (ler_ListId req) d of
               Inl _ \<Rightarrow> list_gone
             | Inr r \<Rightarrow>
                 let owner = sl_OwnerUserID (lr_list r); viewer = optionalViewerID x d
                 in (case socialListRole x owner (ler_ListId req) viewer d of
                       Inl err \<Rightarrow> write_error x err
                     | Inr role \<Rightarrow>
                         (case canViewSocialList x owner (sl_Visibility (lr_list r)) viewer role d of
                            Inl err \<Rightarrow> write_error x err
                          | Inr allowed \<Rightarrow>
                              if \<not> allowed then list_gone
                              else
                                let limit = (if ler_Limit req \<le> 0 \<or> ler_Limit req > maxListEntryPageSize
                                             then maxListEntryPageSize else ler_Limit req)
                                in (case GetSocialListEntries (sx_env x) (ler_ListId req) limit (max (ler_Offset req) 0) d of
                                      Inl err \<Rightarrow> write_error x err
                                    | Inr rows \<Rightarrow>
                                        (case CountSocialListEntries (sx_env x) (ler_ListId req) d of
                                           Inl err \<Rightarrow> write_error x err
                                         | Inr n \<Rightarrow>
                                             Proto 200 \<lparr>lep_List = socialListProto x r role (viewer = owner) d,
                                               lep_Entries = map entryToProto rows, lep_Total = int32 n\<rparr>))))))"

text \<open>The three operations on an entry; the position of an appended entry is an \<^verbatim>\<open>int32\<close>.\<close>

definition list_op :: "sctx \<Rightarrow> int \<Rightarrow> SharedListEntryOpRequest \<Rightarrow> social_db \<Rightarrow> bool reply + social_db" where
  "list_op x uid req d =
     (if loq_Op req = SHARED_LIST_OP_ADD then
        (if (case CountSocialListEntries (sx_env x) (loq_ListId req) d of Inl _ \<Rightarrow> False | Inr n \<Rightarrow> n \<ge> int listEntriesMax)
         then Inl (access_denied 400 ''list full'')
         else
           (case (if loq_Position req < 0
                  then rbind (MaxSocialListPosition (sx_env x) (loq_ListId req) d) (\<lambda>p. Inr (int32 (p + 1)))
                  else Inr (loq_Position req)) of
              Inl err \<Rightarrow> Inl (write_error x err)
            | Inr position \<Rightarrow>
                (case UpsertSocialListEntry (sx_env x) (sx_db x 0) (loq_ListId req) (Some uid)
                        \<lparr>ep_EpisodeUuid = loq_EpisodeUuid req, ep_PodcastUuid = loq_PodcastUuid req,
                         ep_EpisodeTitle = truncateRunes (loq_EpisodeTitle req) maxTitleLen,
                         ep_PodcastTitle = truncateRunes (loq_PodcastTitle req) maxTitleLen, ep_Position = position\<rparr> d of
                   Inl err \<Rightarrow> Inl (write_error x err)
                 | Inr d' \<Rightarrow> Inr d')))
      else if loq_Op req = SHARED_LIST_OP_REMOVE then
        (case DeleteSocialListEntry (sx_env x) (loq_ListId req) (loq_EpisodeUuid req) d of
           Inl err \<Rightarrow> Inl (write_error x err)
         | Inr (_, d') \<Rightarrow> Inr d')
      else if loq_Op req = SHARED_LIST_OP_MOVE then
        (case MoveSocialListEntry (sx_env x) (loq_ListId req) (loq_EpisodeUuid req) (loq_Position req) d of
           Inl err \<Rightarrow> Inl (write_error x err)
         | Inr (_, d') \<Rightarrow> Inr d')
      else Inl (access_denied 400 ''unknown op''))"

definition PostSocialListEntryOp :: "sctx \<Rightarrow> SharedListEntryOpRequest option \<Rightarrow> social_db \<Rightarrow> bool reply \<times> social_db" where
  "PostSocialListEntryOp x req d =
     (case req of
        None \<Rightarrow> (access_denied 400 ''invalid request'', d)
      | Some req \<Rightarrow>
          if loq_ListId req \<le> 0 \<or> loq_EpisodeUuid req = '''' \<or> length (loq_EpisodeUuid req) > maxUuidFieldLen \<or>
             length (loq_PodcastUuid req) > maxUuidFieldLen
          then (access_denied 400 ''invalid request'', d)
          else (case requireJoined x d of
                  Inl rep \<Rightarrow> (rep, d)
                | Inr (user, _) \<Rightarrow>
                    (case GetSocialList (sx_env x) (loq_ListId req) d of
                       Inl _ \<Rightarrow> (list_gone, d)
                     | Inr r \<Rightarrow>
                         let owner = sl_OwnerUserID (lr_list r)
                         in (case socialListRole x owner (loq_ListId req) (u_ID user) d of
                               Inl err \<Rightarrow> (write_error x err, d)
                             | Inr role \<Rightarrow>
                                 if role \<noteq> SHARED_LIST_ROLE_OWNER \<and> role \<noteq> SHARED_LIST_ROLE_COLLABORATOR
                                 then (access_denied 403 ''not an editor'', d)
                                 else (case canViewSocialList x owner (sl_Visibility (lr_list r)) (u_ID user) role d of
                                         Inl err \<Rightarrow> (write_error x err, d)
                                       | Inr allowed \<Rightarrow>
                                           if \<not> allowed then (list_gone, d)
                                           else (case list_op x (u_ID user) req d of
                                                   Inl rep \<Rightarrow> (rep, d)
                                                 | Inr d' \<Rightarrow>
                                                     (case TouchSocialList (sx_env x) (sx_db x 1) (loq_ListId req) d' of
                                                        Inl err \<Rightarrow> (write_error x err, d')
                                                      | Inr d2 \<Rightarrow> (Proto 200 True, d2))))))))"

subsection \<open>Members\<close>

text \<open>
  The search through the members before an invitation: \<open>None\<close> when the target already has a seat,
  else the number of seats that are taken.
\<close>

fun seats :: "int \<Rightarrow> ListMemberRow list \<Rightarrow> nat \<Rightarrow> nat option" where
  "seats target [] n = Some n"
| "seats target (m # ms) n =
     (let n = (if lmr_Role m = listRoleCollaborator \<or> lmr_Role m = listRoleInvited then Suc n else n)
      in if lmr_UserID m = target \<and> lmr_Role m \<noteq> listRoleSubscriber then None else seats target ms n)"

definition list_invite ::
  "sctx \<Rightarrow> User \<Rightarrow> SocialProfile \<Rightarrow> int \<Rightarrow> SocialProfile \<Rightarrow> social_db \<Rightarrow> bool reply \<times> social_db \<times> data_push list" where
  "list_invite x user ownerProfile lid target d =
     (case UpsertSocialListMember (sx_env x) (sx_db x 0) lid (sp_UserID target) listRoleInvited d of
        Inl err \<Rightarrow> (write_error x err, d, [])
      | Inr d' \<Rightarrow>
          (Proto 200 True, d',
           if mutedBy x (sp_UserID target) (u_ID user) d' then []
           else notifyData x (sp_UserID target) SocialPushListInvite (sp_Handle ownerProfile)
                  (sp_DisplayName ownerProfile) [(''list_id'', FormatInt lid)]))"

definition PostSocialListInvite ::
  "sctx \<Rightarrow> (int \<times> string) option \<Rightarrow> social_db \<Rightarrow> bool reply \<times> social_db \<times> data_push list" where
  "PostSocialListInvite x req d =
     (case req of
        None \<Rightarrow> (access_denied 400 ''invalid request'', d, [])
      | Some (lid, handle) \<Rightarrow>
          if lid \<le> 0 \<or> handle = '''' then (access_denied 400 ''invalid request'', d, [])
          else (case requireJoined x d of
                  Inl rep \<Rightarrow> (rep, d, [])
                | Inr (user, ownerProfile) \<Rightarrow>
                    (case GetSocialList (sx_env x) lid d of
                       Inl _ \<Rightarrow> (list_gone, d, [])
                     | Inr r \<Rightarrow>
                         if sl_OwnerUserID (lr_list r) \<noteq> u_ID user then (list_gone, d, [])
                         else (case resolveFollowTarget x (u_ID user) handle d of
                                 Inl rep \<Rightarrow> (rep, d, [])
                               | Inr target \<Rightarrow>
                                   if sp_UserID target = u_ID user
                                   then (access_denied 400 ''cannot invite yourself'', d, [])
                                   else (case GetSocialListMembers (sx_env x) lid d of
                                           Inl _ \<Rightarrow> list_invite x user ownerProfile lid target d
                                         | Inr members \<Rightarrow>
                                             (case seats (sp_UserID target) members 0 of
                                                None \<Rightarrow> (Proto 200 True, d, [])
                                              | Some n \<Rightarrow>
                                                  if n \<ge> listCollaboratorsMax
                                                  then (access_denied 400 ''too many collaborators'', d, [])
                                                  else list_invite x user ownerProfile lid target d))))))"


definition PostSocialListInviteRespond :: "sctx \<Rightarrow> (int \<times> bool) option \<Rightarrow> social_db \<Rightarrow> bool reply \<times> social_db" where
  "PostSocialListInviteRespond x req d =
     (case req of
        None \<Rightarrow> (access_denied 400 ''invalid request'', d)
      | Some (lid, accept) \<Rightarrow>
          if lid \<le> 0 then (access_denied 400 ''invalid request'', d)
          else (case requireJoined x d of
                  Inl rep \<Rightarrow> (rep, d)
                | Inr (user, _) \<Rightarrow>
                    (case GetSocialListMember (sx_env x) lid (u_ID user) d of
                       Inl _ \<Rightarrow> (access_denied 404 ''invite not found'', d)
                     | Inr role \<Rightarrow>
                         if role \<noteq> listRoleInvited then (access_denied 404 ''invite not found'', d)
                         else (case GetSocialList (sx_env x) lid d of
                                 Inl err \<Rightarrow> (write_error x err, d)
                               | Inr r \<Rightarrow>
                                   (case IsBlockedEither (sx_env x) (u_ID user) (sl_OwnerUserID (lr_list r)) d of
                                      Inl err \<Rightarrow> (write_error x err, d)
                                    | Inr blocked \<Rightarrow>
                                        if blocked then (access_denied 404 ''invite not found'', d)
                                        else if accept then
                                          (case UpsertSocialListMember (sx_env x) (sx_db x 0) lid (u_ID user) listRoleCollaborator d of
                                             Inl err \<Rightarrow> (write_error x err, d)
                                           | Inr d' \<Rightarrow> (Proto 200 True, d'))
                                        else
                                          (case DeleteSocialListMember (sx_env x) lid (u_ID user) d of
                                             Inl err \<Rightarrow> (write_error x err, d)
                                           | Inr (_, d') \<Rightarrow> (Proto 200 True, d')))))))"

definition PostSocialListSubscribe :: "sctx \<Rightarrow> (int \<times> bool) option \<Rightarrow> social_db \<Rightarrow> bool reply \<times> social_db" where
  "PostSocialListSubscribe x req d =
     (case req of
        None \<Rightarrow> (access_denied 400 ''invalid request'', d)
      | Some (lid, subscribe) \<Rightarrow>
          if lid \<le> 0 then (access_denied 400 ''invalid request'', d)
          else (case requireJoined x d of
                  Inl rep \<Rightarrow> (rep, d)
                | Inr (user, _) \<Rightarrow>
                    (case GetSocialList (sx_env x) lid d of
                       Inl _ \<Rightarrow> (list_gone, d)
                     | Inr r \<Rightarrow>
                         let owner = sl_OwnerUserID (lr_list r); row = GetSocialListMember (sx_env x) lid (u_ID user) d
                         in if owner = u_ID user then (access_denied 400 ''you own this list'', d)
                            else if (case row of Inl err \<Rightarrow> \<not> Is_ErrNoRows err | Inr _ \<Rightarrow> False)
                            then (case row of Inl err \<Rightarrow> (write_error x err, d) | Inr _ \<Rightarrow> (Proto 200 True, d))
                            else if \<not> subscribe then
                              (case row of
                                 Inl _ \<Rightarrow> (Proto 200 True, d)
                               | Inr _ \<Rightarrow>
                                   (case DeleteSocialListMember (sx_env x) lid (u_ID user) d of
                                      Inl err \<Rightarrow> (write_error x err, d)
                                    | Inr (_, d') \<Rightarrow> (Proto 200 True, d')))
                            else if (case row of Inl _ \<Rightarrow> False | Inr existing \<Rightarrow> existing \<noteq> listRoleSubscriber)
                            then (Proto 200 True, d)
                            else
                              (case socialListRole x owner lid (u_ID user) d of
                                 Inl err \<Rightarrow> (write_error x err, d)
                               | Inr role \<Rightarrow>
                                   (case canViewSocialList x owner (sl_Visibility (lr_list r)) (u_ID user) role d of
                                      Inl err \<Rightarrow> (write_error x err, d)
                                    | Inr allowed \<Rightarrow>
                                        if \<not> allowed then (list_gone, d)
                                        else (case UpsertSocialListMember (sx_env x) (sx_db x 0) lid (u_ID user) listRoleSubscriber d of
                                                Inl err \<Rightarrow> (write_error x err, d)
                                              | Inr d' \<Rightarrow> (Proto 200 True, d')))))))"

definition PostSocialListMemberRemove :: "sctx \<Rightarrow> (int \<times> string) option \<Rightarrow> social_db \<Rightarrow> bool reply \<times> social_db" where
  "PostSocialListMemberRemove x req d =
     (case req of
        None \<Rightarrow> (access_denied 400 ''invalid request'', d)
      | Some (lid, handle) \<Rightarrow>
          if lid \<le> 0 \<or> handle = '''' then (access_denied 400 ''invalid request'', d)
          else (case requireJoined x d of
                  Inl rep \<Rightarrow> (rep, d)
                | Inr (user, _) \<Rightarrow>
                    (case GetSocialList (sx_env x) lid d of
                       Inl _ \<Rightarrow> (list_gone, d)
                     | Inr r \<Rightarrow>
                         if sl_OwnerUserID (lr_list r) \<noteq> u_ID user then (list_gone, d)
                         else (case GetSocialProfileByHandle (sx_env x) (sx_lib x) (normalizeHandle (sx_lib x) handle) d of
                                 Inl _ \<Rightarrow> (access_denied 404 ''member not found'', d)
                               | Inr target \<Rightarrow>
                                   (case DeleteSocialListMember (sx_env x) lid (sp_UserID target) d of
                                      Inl err \<Rightarrow> (write_error x err, d)
                                    | Inr (_, d') \<Rightarrow> (Proto 200 True, d'))))))"

end
