(* ===== verification/List_Runs.thy ===== *)
theory List_Runs
  imports Social_Lists Social_Runs
begin

section \<open>Runs of the list endpoints and the effect of every request\<close>

text \<open>
  \<open>list_exec x a d\<close> is the database after the list request \<open>a\<close>; \<open>list_effect\<close> has one rule for
  every statement that a handler of \<^verbatim>\<open>src/handlers/lists.go\<close> may reach, with the guards passed on the way.
\<close>

datatype list_act =
    CreateList "SharedListCreateRequest option"
  | UpdateList "SharedListUpdateRequest option"
  | DeleteList "int option"
  | EntryOp "SharedListEntryOpRequest option"
  | InviteEditor "(int \<times> string) option"
  | RespondInvite "(int \<times> bool) option"
  | Subscribe "(int \<times> bool) option"
  | RemoveSeat "(int \<times> string) option"

fun list_exec :: "sctx \<Rightarrow> list_act \<Rightarrow> social_db \<Rightarrow> social_db" where
  "list_exec x (CreateList req) d = snd (PostSocialListCreate x req d)"
| "list_exec x (UpdateList req) d = snd (PostSocialListUpdate x req d)"
| "list_exec x (DeleteList req) d = snd (PostSocialListDelete x req d)"
| "list_exec x (EntryOp req) d = snd (PostSocialListEntryOp x req d)"
| "list_exec x (InviteEditor req) d = fst (snd (PostSocialListInvite x req d))"
| "list_exec x (RespondInvite req) d = snd (PostSocialListInviteRespond x req d)"
| "list_exec x (Subscribe req) d = snd (PostSocialListSubscribe x req d)"
| "list_exec x (RemoveSeat req) d = snd (PostSocialListMemberRemove x req d)"

fun list_run :: "(sctx \<times> list_act) list \<Rightarrow> social_db \<Rightarrow> social_db" where
  "list_run [] d = d"
| "list_run ((x, a) # as) d = list_run as (list_exec x a d)"

definition may_edit :: "sctx \<Rightarrow> User \<Rightarrow> int \<Rightarrow> social_db \<Rightarrow> bool" where
  "may_edit x u lid d \<longleftrightarrow>
     (\<exists>r role. GetSocialList (sx_env x) lid d = Inr r \<and>
        socialListRole x (sl_OwnerUserID (lr_list r)) lid (u_ID u) d = Inr role \<and> role \<in> {1, 2} \<and>
        canViewSocialList x (sl_OwnerUserID (lr_list r)) (sl_Visibility (lr_list r)) (u_ID u) role d = Inr True)"

inductive list_effect :: "sctx \<Rightarrow> list_act \<Rightarrow> social_db \<Rightarrow> social_db \<Rightarrow> bool" where
  create: "list_effect x (CreateList (Some req)) d d'"
  if "caller x d = Some u" "length (lcr_Entries req) \<le> listEntriesMax"
    "create_list_tx x (u_ID u) req (snapshot 0 [] (lcr_Entries req)) d = Inr (c, d')"
| update: "list_effect x (UpdateList req) d d'"
  if "caller x d = Some u" "UpdateSocialList (sx_env x) (sx_db x 0) lid (u_ID u) t s vis d = Inr (n, d')"
| dissolve: "list_effect x (DeleteList (Some lid)) d d'"
  if "caller x d = Some u" "DeleteSocialList (sx_env x) lid (u_ID u) d = Inr (n, d')"
| entry: "list_effect x (EntryOp (Some req)) d d'"
  if "caller x d = Some u" "may_edit x u (loq_ListId req) d" "list_op x (u_ID u) req d = (Inr d1 :: bool reply + social_db)"
    "d' = d1 \<or> TouchSocialList (sx_env x) (sx_db x 1) (loq_ListId req) d1 = Inr d'"
| invite: "list_effect x (InviteEditor (Some (lid, h))) d d'"
  if "caller x d = Some u" "GetSocialList (sx_env x) lid d = Inr r" "sl_OwnerUserID (lr_list r) = u_ID u"
    "resolveFollowTarget x (u_ID u) h d = (Inr t :: bool reply + SocialProfile)" "sp_UserID t \<noteq> u_ID u"
    "\<And>ms. GetSocialListMembers (sx_env x) lid d = Inr ms \<Longrightarrow>
       \<exists>n. seats (sp_UserID t) ms 0 = Some n \<and> n < listCollaboratorsMax"
    "UpsertSocialListMember (sx_env x) (sx_db x 0) lid (sp_UserID t) 0 d = Inr d'"
| accept: "list_effect x (RespondInvite (Some (lid, True))) d d'"
  if "caller x d = Some u" "GetSocialListMember (sx_env x) lid (u_ID u) d = Inr 0"
    "UpsertSocialListMember (sx_env x) (sx_db x 0) lid (u_ID u) 1 d = Inr d'"
| decline: "list_effect x (RespondInvite (Some (lid, False))) d d'"
  if "caller x d = Some u" "GetSocialListMember (sx_env x) lid (u_ID u) d = Inr 0"
    "DeleteSocialListMember (sx_env x) lid (u_ID u) d = Inr (n, d')"
| leave: "list_effect x (Subscribe (Some (lid, False))) d d'"
  if "caller x d = Some u" "GetSocialListMember (sx_env x) lid (u_ID u) d = Inr role"
    "DeleteSocialListMember (sx_env x) lid (u_ID u) d = Inr (n, d')"
| subscribe: "list_effect x (Subscribe (Some (lid, True))) d d'"
  if "caller x d = Some u" "u_ID u \<in> sp_UserID ` set (sd_profiles d)"
    "GetSocialList (sx_env x) lid d = Inr r" "sl_OwnerUserID (lr_list r) \<noteq> u_ID u"
    "GetSocialListMember (sx_env x) lid (u_ID u) d = Inr 2 \<or>
     (\<exists>err. GetSocialListMember (sx_env x) lid (u_ID u) d = Inl err \<and> Is_ErrNoRows err)"
    "socialListRole x (sl_OwnerUserID (lr_list r)) lid (u_ID u) d = Inr role"
    "canViewSocialList x (sl_OwnerUserID (lr_list r)) (sl_Visibility (lr_list r)) (u_ID u) role d = Inr True"
    "UpsertSocialListMember (sx_env x) (sx_db x 0) lid (u_ID u) 2 d = Inr d'"
| remove: "list_effect x (RemoveSeat (Some (lid, h))) d d'"
  if "caller x d = Some u" "GetSocialList (sx_env x) lid d = Inr r" "sl_OwnerUserID (lr_list r) = u_ID u"
    "DeleteSocialListMember (sx_env x) lid t d = Inr (n, d')"

inductive_cases list_effectE: "list_effect x a d d'"

lemma create_list_exec: "PostSocialListCreate x req d = (rep, d1) \<Longrightarrow> d1 = d \<or> list_effect x (CreateList req) d d1"
proof -
  assume p: "PostSocialListCreate x req d = (rep, d1)"
  have tx: "d1 = d \<or> list_effect x (CreateList (Some q)) d d1"
    if "caller x d = Some u" "length (lcr_Entries q) \<le> listEntriesMax"
      "InTx (sx_env x) (create_list_tx x (u_ID u) q (snapshot 0 [] (lcr_Entries q))) d = (r, d1)" for u q r
    using that InTx_Inl [of "sx_env x" "create_list_tx x (u_ID u) q (snapshot 0 [] (lcr_Entries q))" d]
    by (cases r) (auto simp: InTx_Inr intro: list_effect.create)
  show ?thesis
    using p by (auto simp: PostSocialListCreate_def share_list_def Let_def requireJoined_Inr not_less
        split: option.splits if_splits sum.splits prod.splits dest!: tx [rotated 2])
qed

lemma update_list_exec: "PostSocialListUpdate x req d = (rep, d1) \<Longrightarrow> d1 = d \<or> list_effect x (UpdateList req) d d1"
  by (auto simp: PostSocialListUpdate_def requireJoined_Inr
      split: option.splits if_splits sum.splits prod.splits intro: list_effect.update)

lemma dissolve_list_exec: "PostSocialListDelete x req d = (rep, d1) \<Longrightarrow> d1 = d \<or> list_effect x (DeleteList req) d d1"
  by (auto simp: PostSocialListDelete_def requireJoined_Inr
      split: option.splits if_splits sum.splits prod.splits intro: list_effect.dissolve)

lemma entry_op_exec: "PostSocialListEntryOp x req d = (rep, d1) \<Longrightarrow> d1 = d \<or> list_effect x (EntryOp req) d d1"
  by (auto simp: PostSocialListEntryOp_def Let_def requireJoined_Inr list_consts may_edit_def
      split: option.splits if_splits sum.splits prod.splits intro!: list_effect.entry)

lemma invite_list_exec: "PostSocialListInvite x req d = (rep, d1, ps) \<Longrightarrow> d1 = d \<or> list_effect x (InviteEditor req) d d1"
  by (auto simp: PostSocialListInvite_def list_invite_def requireJoined_Inr list_consts
      split: option.splits if_splits sum.splits prod.splits intro!: list_effect.invite)

lemma respond_list_exec: "PostSocialListInviteRespond x req d = (rep, d1) \<Longrightarrow> d1 = d \<or> list_effect x (RespondInvite req) d d1"
  by (auto simp: PostSocialListInviteRespond_def requireJoined_Inr list_consts
      split: option.splits if_splits sum.splits prod.splits intro: list_effect.accept list_effect.decline)

lemma subscribe_list_exec:
  assumes "PostSocialListSubscribe x req d = (rep, d1)"
  shows "d1 = d \<or> list_effect x (Subscribe req) d d1"
  using assms
  by (auto simp: PostSocialListSubscribe_def Let_def requireJoined_Inr list_consts
      split: option.splits if_splits sum.splits prod.splits intro!: list_effect.subscribe list_effect.leave
      dest: profile_by_user(1))

lemma remove_seat_exec: "PostSocialListMemberRemove x req d = (rep, d1) \<Longrightarrow> d1 = d \<or> list_effect x (RemoveSeat req) d d1"
  by (auto simp: PostSocialListMemberRemove_def requireJoined_Inr
      split: option.splits if_splits sum.splits prod.splits intro: list_effect.remove)

theorem list_exec_effect: "list_exec x a d = d \<or> list_effect x a d (list_exec x a d)"
proof (cases a)
  case (CreateList req) show ?thesis unfolding CreateList list_exec.simps using create_list_exec [OF surjective_pairing] .
next
  case (UpdateList req) show ?thesis unfolding UpdateList list_exec.simps using update_list_exec [OF surjective_pairing] .
next
  case (DeleteList req) show ?thesis unfolding DeleteList list_exec.simps using dissolve_list_exec [OF surjective_pairing] .
next
  case (EntryOp req) show ?thesis unfolding EntryOp list_exec.simps using entry_op_exec [OF surjective_pairing] .
next
  case (InviteEditor req)
  have "PostSocialListInvite x req d =
      (fst (PostSocialListInvite x req d), fst (snd (PostSocialListInvite x req d)), snd (snd (PostSocialListInvite x req d)))"
    by simp
  then show ?thesis unfolding InviteEditor list_exec.simps by (rule invite_list_exec)
next
  case (RespondInvite req) show ?thesis unfolding RespondInvite list_exec.simps using respond_list_exec [OF surjective_pairing] .
next
  case (Subscribe req) show ?thesis unfolding Subscribe list_exec.simps using subscribe_list_exec [OF surjective_pairing] .
next
  case (RemoveSeat req) show ?thesis unfolding RemoveSeat list_exec.simps using remove_seat_exec [OF surjective_pairing] .
qed

end
