(* ===== verification/List_Theorems.thy ===== *)
theory List_Theorems
  imports List_Runs Group_Theorems
begin

section \<open>Correctness of shared lists\<close>

text \<open>
  The snapshot that a new list is made of, the integrity of the list tables with their two caps, who
  may edit, how a seat changes, and what a hidden list shows.
\<close>

subsection \<open>The snapshot of a new list\<close>

text \<open>
  The reference: every episode once, in the order of its first appearance, with the data and the
  index of its last one.
\<close>

definition latest :: "SharedListEntry list \<Rightarrow> string \<Rightarrow> EntryParams" where
  "latest ys u =
     (case last (filter (\<lambda>(i, y). valid_entry y \<and> sle_EpisodeUuid y = u) (enumerate 0 ys)) of (i, y) \<Rightarrow> entry_params i y)"

definition shared_episodes :: "SharedListEntry list \<Rightarrow> string list" where
  "shared_episodes ys = rev (remdups (rev (map sle_EpisodeUuid (filter valid_entry ys))))"

lemma snapshot_snoc: "snapshot i rows (ys @ [y]) = snapshot (i + length ys) (snapshot i rows ys) [y]"
  by (induction ys arbitrary: i rows) (simp_all add: Let_def)

lemma enumerate_snoc: "enumerate i (ys @ [y]) = enumerate i ys @ [(i + length ys, y)]"
  by (induction ys arbitrary: i) simp_all

lemma ep_entry_params [simp]: "ep_EpisodeUuid (entry_params i y) = sle_EpisodeUuid y"
  by (simp add: entry_params_def)

lemma mem_enumerate: "y \<in> set ys \<Longrightarrow> \<exists>i. (i, y) \<in> set (enumerate k ys)"
  by (induction ys arbitrary: k) auto

lemma latest_uuid: "u \<in> set (shared_episodes ys) \<Longrightarrow> ep_EpisodeUuid (latest ys u) = u"
proof -
  let ?xs = "filter (\<lambda>(i, y). valid_entry y \<and> sle_EpisodeUuid y = u) (enumerate 0 ys)"
  assume "u \<in> set (shared_episodes ys)"
  then obtain y where "y \<in> set ys" "valid_entry y" "sle_EpisodeUuid y = u" by (auto simp: shared_episodes_def)
  then obtain i where "(i, y) \<in> set (enumerate 0 ys)" by (metis mem_enumerate)
  with \<open>valid_entry y\<close> \<open>_ = u\<close> have "?xs \<noteq> []" by (auto simp: filter_empty_conv)
  then have "last ?xs \<in> set ?xs" by (rule last_in_set)
  then show ?thesis by (auto simp: latest_def split: prod.splits)
qed


lemma latest_snoc:
  "latest (ys @ [y]) u = (if valid_entry y \<and> sle_EpisodeUuid y = u then entry_params (length ys) y else latest ys u)"
  by (simp add: latest_def enumerate_snoc)

lemma shared_episodes_snoc:
  "shared_episodes (ys @ [y]) =
     (if \<not> valid_entry y \<or> sle_EpisodeUuid y \<in> set (shared_episodes ys) then shared_episodes ys
      else shared_episodes ys @ [sle_EpisodeUuid y])"
  by (auto simp: shared_episodes_def)

lemma snapshot_latest: "snapshot 0 [] ys = map (latest ys) (shared_episodes ys)"
proof (induction ys rule: rev_induct)
  case Nil
  show ?case by (simp add: shared_episodes_def)
next
  case (snoc y ys)
  let ?us = "shared_episodes ys" and ?u = "sle_EpisodeUuid y"
  have seen: "(\<exists>r \<in> set (map (latest ys) ?us). ep_EpisodeUuid r = ?u) \<longleftrightarrow> ?u \<in> set ?us"
    using latest_uuid by auto
  have keep: "map (latest (ys @ [y])) ?us = map (latest ys) ?us" if "\<not> valid_entry y \<or> ?u \<notin> set ?us"
    using that by (auto simp: latest_snoc)
  have place: "map (\<lambda>r. if ep_EpisodeUuid r = ?u then entry_params (length ys) y else r) (map (latest ys) ?us) =
      map (latest (ys @ [y])) ?us" if "valid_entry y"
    using that latest_uuid by (auto simp: latest_snoc)
  have step: "snapshot (0 + length ys) rows [y] =
      (if \<not> valid_entry y then rows
       else if \<exists>r \<in> set rows. ep_EpisodeUuid r = ?u
       then map (\<lambda>r. if ep_EpisodeUuid r = ?u then entry_params (length ys) y else r) rows
       else rows @ [entry_params (length ys) y])" for rows
    by (simp add: Let_def)
  show ?case
    unfolding snapshot_snoc snoc.IH step seen
    using keep place by (cases "valid_entry y"; cases "?u \<in> set ?us") (simp_all add: shared_episodes_snoc latest_snoc)
qed

lemma shared_episodes_distinct: "distinct (shared_episodes ys)"
  by (simp add: shared_episodes_def)

lemma length_shared_episodes: "length (shared_episodes ys) \<le> length ys"
  using order_trans [OF length_remdups_leq [of "rev (map sle_EpisodeUuid (filter valid_entry ys))"]]
  by (simp add: shared_episodes_def)

lemma snapshot_uuids: "map ep_EpisodeUuid (snapshot 0 [] ys) = shared_episodes ys"
  using latest_uuid by (auto simp: snapshot_latest intro: map_idI)

subsection \<open>The tables after a statement\<close>

definition list_of_id :: "int \<Rightarrow> social_db \<Rightarrow> SocialList option" where
  "list_of_id lid d = find (\<lambda>l. sl_ID l = lid) (sd_lists d)"

definition seat_of :: "int \<Rightarrow> int \<Rightarrow> social_db \<Rightarrow> SocialListMember option" where
  "seat_of lid u d = find (\<lambda>m. lm_key m = (lid, u)) (sd_list_members d)"

definition fresh_seat :: "instant \<Rightarrow> int \<Rightarrow> int \<Rightarrow> int \<Rightarrow> SocialListMember" where
  "fresh_seat now lid u role = \<lparr>lm_ListID = lid, lm_UserID = u, lm_Role = role, lm_CreatedAt = now\<rparr>"

lemma fresh_seat_simps [simp]:
  "lm_ListID (fresh_seat now l u r) = l" "lm_UserID (fresh_seat now l u r) = u" "lm_Role (fresh_seat now l u r) = r"
  by (simp_all add: fresh_seat_def)

lemma get_list:
  assumes "GetSocialList e lid d = Inr r"
  shows "lr_list r \<in> set (sd_lists d)" "sl_ID (lr_list r) = lid"
  using assms
  by (auto simp: GetSocialList_def list_row_def res_simps map_filter_def filter_eq_Cons_iff map_eq_Cons_conv
      split: list.splits dest: arg_cong [of _ _ set])

lemma get_seat: "GetSocialListMember e lid u d = Inr role \<Longrightarrow> \<exists>m. seat_of lid u d = Some m \<and> lm_Role m = role"
  by (auto simp: GetSocialListMember_def res_simps seat_of_def)

lemma get_no_seat: "GetSocialListMember e lid u d = Inl err \<Longrightarrow> Is_ErrNoRows err \<Longrightarrow> proper_faults e \<Longrightarrow> seat_of lid u d = None"
  by (auto simp: GetSocialListMember_def stmt_def res_simps seat_of_def proper_faults_def split: option.splits)

lemma seat_iff: "keyed lm_key (sd_list_members d) \<Longrightarrow>
    seat_of l u d = Some m \<longleftrightarrow> m \<in> set (sd_list_members d) \<and> lm_key m = (l, u)"
  unfolding seat_of_def by (rule keyed_find)

lemma upsert_seat_eq:
  assumes "UpsertSocialListMember e now lid u role d = Inr d'"
  shows "d' = d\<lparr>sd_list_members := upsert_row lm_key (fresh_seat now lid u role) (\<lambda>m. m\<lparr>lm_Role := role\<rparr>) (sd_list_members d)\<rparr>"
    and "seat_of lid u d = None \<longrightarrow> list_exists lid d"
  using assms find_key_None [of lm_key "(lid, u)" "sd_list_members d"]
  by (auto simp: UpsertSocialListMember_def res_simps fresh_seat_def seat_of_def split: if_splits)

lemma upsert_seat_of:
  assumes "UpsertSocialListMember e now lid u role d = Inr d'"
  shows "seat_of l v d' =
     (if (l, v) = (lid, u)
      then Some (case seat_of lid u d of None \<Rightarrow> fresh_seat now lid u role | Some m \<Rightarrow> m\<lparr>lm_Role := role\<rparr>)
      else seat_of l v d)"
  unfolding upsert_seat_eq(1) [OF assms] seat_of_def
  using upsert_find [of lm_key "fresh_seat now lid u role" "\<lambda>m. m\<lparr>lm_Role := role\<rparr>" "(l, v)" "sd_list_members d"]
  by auto

lemma delete_seat_eq: "DeleteSocialListMember e lid u d = Inr (n, d') \<Longrightarrow>
    d' = d\<lparr>sd_list_members := delete_where (\<lambda>m. lm_key m = (lid, u)) (sd_list_members d)\<rparr>"
  by (auto simp: DeleteSocialListMember_def res_simps)

lemma delete_seat_of:
  assumes "DeleteSocialListMember e lid u d = Inr (n, d')"
  shows "seat_of l v d' = (if (l, v) = (lid, u) then None else seat_of l v d)"
proof -
  have "find (\<lambda>m. lm_key m = (l, v)) (delete_where (\<lambda>m. lm_key m = (lid, u)) t) =
      (if (l, v) = (lid, u) then None else find (\<lambda>m. lm_key m = (l, v)) t)" for t
    by (induction t) (auto simp: delete_where_def)
  with delete_seat_eq [OF assms] show ?thesis by (simp add: seat_of_def)
qed

lemma delete_lists_rest:
  "sd_core (delete_lists P d) = sd_core d" "sd_profiles (delete_lists P d) = sd_profiles d"
  "sd_relationships (delete_lists P d) = sd_relationships d"
  "sd_lists (delete_lists P d) = delete_where P (sd_lists d)"
  "sd_list_members (delete_lists P d) =
     delete_where (\<lambda>m. lm_ListID m \<in> sl_ID ` set (filter P (sd_lists d))) (sd_list_members d)"
  "sd_list_entries (delete_lists P d) =
     delete_where (\<lambda>x. le_ListID x \<in> sl_ID ` set (filter P (sd_lists d))) (sd_list_entries d)"
  by (simp_all add: delete_lists_def Let_def)

lemma dissolve_seat_of:
  "seat_of l u (delete_lists P d) = (if l \<in> sl_ID ` set (filter P (sd_lists d)) then None else seat_of l u d)"
proof -
  have "find (\<lambda>m. lm_key m = (l, u)) (delete_where (\<lambda>m. lm_ListID m \<in> L) t) =
      (if l \<in> L then None else find (\<lambda>m. lm_key m = (l, u)) t)" for t L
    by (induction t) (auto simp: delete_where_def)
  then show ?thesis by (simp add: delete_lists_rest seat_of_def)
qed

text \<open>A batch of new episodes is appended.\<close>

lemma upsert_batch_new:
  assumes "\<And>a. key (mk a) = (lid, ep a)" "distinct (map ep as)" "\<And>a. a \<in> set as \<Longrightarrow> (lid, ep a) \<notin> key ` set t"
  shows "foldl (\<lambda>t a. upsert_row key (mk a) (upd a) t) t as = t @ map mk as"
  using assms(2,3)
proof (induction as arbitrary: t)
  case (Cons a as)
  then have "foldl (\<lambda>t a. upsert_row key (mk a) (upd a) t) (t @ [mk a]) as = (t @ [mk a]) @ map mk as"
    by (intro Cons.IH) (auto simp: assms(1) image_iff)
  with Cons.prems(2) show ?case by (simp add: upsert_row_def assms(1))
qed simp

text \<open>What a new list leaves in the tables, when its identity is new.\<close>

definition unused_list :: "int \<Rightarrow> social_db \<Rightarrow> bool" where
  "unused_list lid d \<longleftrightarrow> lid \<notin> le_ListID ` set (sd_list_entries d) \<and> lid \<notin> lm_ListID ` set (sd_list_members d)"

lemma create_list_eq:
  assumes "create_list_tx x uid req rows d = Inr (c, d')" "unused_list (sx_id x) d" "distinct (map ep_EpisodeUuid rows)"
  shows "d' = d\<lparr>sd_lists := sd_lists d @ [c],
               sd_list_entries := sd_list_entries d @ map (new_entry (sx_db x 0) (sx_id x) (Some uid)) rows\<rparr>"
    and "sl_ID c = sx_id x" "sl_OwnerUserID c = uid" "sx_id x \<notin> sl_ID ` set (sd_lists d)"
    and "sl_Visibility c = visibilityToStored (lcr_Visibility req)"
    and "sl_CreatedAt c = sx_db x 0" "sl_UpdatedAt c = sx_db x 0"
proof -
  let ?mk = "new_entry (sx_db x 0) (sx_id x) (Some uid)"
  have batch: "foldl (\<lambda>t a. upsert_row le_key (?mk a) (upd a) t) (sd_list_entries d) rows = sd_list_entries d @ map ?mk rows" for upd
    using assms(2,3) by (intro upsert_batch_new [of _ _ _ ep_EpisodeUuid]) (auto simp: new_entry_def unused_list_def)
  from assms(1) show "d' = d\<lparr>sd_lists := sd_lists d @ [c], sd_list_entries := sd_list_entries d @ map ?mk rows\<rparr>"
    and "sl_ID c = sx_id x" "sl_OwnerUserID c = uid" "sx_id x \<notin> sl_ID ` set (sd_lists d)"
    and "sl_Visibility c = visibilityToStored (lcr_Visibility req)"
    and "sl_CreatedAt c = sx_db x 0" "sl_UpdatedAt c = sx_db x 0"
    by (auto simp: create_list_tx_def CreateSocialList_def UpsertSocialListEntries_def res_simps Let_def batch split: if_splits)
qed

subsection \<open>Integrity and caps\<close>

text \<open>
  List ids, entries and seats are unique, every entry and seat belongs to a list, a seat is held by a
  user with a profile who is not the owner, and no list has more than 500 entries or 20 seats of
  collaborators and invited people.
\<close>

definition taken_seats :: "int \<Rightarrow> social_db \<Rightarrow> nat" where
  "taken_seats lid d = length (filter (\<lambda>m. lm_ListID m = lid \<and> lm_Role m \<in> {0, 1}) (sd_list_members d))"

definition seat_ok :: "social_db \<Rightarrow> SocialListMember \<Rightarrow> bool" where
  "seat_ok d m \<longleftrightarrow>
     lm_Role m \<in> {0, 1, 2} \<and> lm_UserID m \<in> sp_UserID ` set (sd_profiles d) \<and>
     (\<exists>l \<in> set (sd_lists d). sl_ID l = lm_ListID m \<and> sl_OwnerUserID l \<noteq> lm_UserID m)"

definition lists_ok :: "social_db \<Rightarrow> bool" where
  "lists_ok d \<longleftrightarrow>
     keyed sl_ID (sd_lists d) \<and> keyed le_key (sd_list_entries d) \<and> keyed lm_key (sd_list_members d) \<and>
     le_ListID ` set (sd_list_entries d) \<subseteq> sl_ID ` set (sd_lists d) \<and>
     (\<forall>m \<in> set (sd_list_members d). seat_ok d m) \<and>
     (\<forall>lid. entry_count lid d \<le> 500 \<and> taken_seats lid d \<le> 20)"

lemma lists_ok_keyed:
  "lists_ok d \<Longrightarrow> keyed sl_ID (sd_lists d)" "lists_ok d \<Longrightarrow> keyed lm_key (sd_list_members d)"
  by (simp_all add: lists_ok_def)

lemma lists_ok_unused:
  assumes "lists_ok d" "lid \<notin> sl_ID ` set (sd_lists d)"
  shows "unused_list lid d"
proof -
  have "lm_ListID m \<in> sl_ID ` set (sd_lists d)" if "m \<in> set (sd_list_members d)" for m
  proof -
    from assms(1) that have "seat_ok d m" by (simp add: lists_ok_def)
    then obtain l where "l \<in> set (sd_lists d)" "sl_ID l = lm_ListID m" unfolding seat_ok_def by blast
    then show ?thesis by (metis imageI)
  qed
  then have "lid \<notin> lm_ListID ` set (sd_list_members d)" using assms(2) by auto
  moreover have "lid \<notin> le_ListID ` set (sd_list_entries d)" using assms unfolding lists_ok_def by blast
  ultimately show ?thesis by (simp add: unused_list_def)
qed

text \<open>The integrity depends on the ids and owners of the lists, the seats, the keys of the entries, and the profiles.\<close>

definition list_shape :: "social_db \<Rightarrow> (int \<times> int) list" where
  "list_shape d = map (\<lambda>l. (sl_ID l, sl_OwnerUserID l)) (sd_lists d)"

lemma seat_ok_shape:
  "seat_ok d m \<longleftrightarrow>
     lm_Role m \<in> {0, 1, 2} \<and> lm_UserID m \<in> sp_UserID ` set (sd_profiles d) \<and>
     (\<exists>o'. (lm_ListID m, o') \<in> set (list_shape d) \<and> o' \<noteq> lm_UserID m)"
proof -
  have "(\<exists>o'. (i, o') \<in> set (list_shape d) \<and> o' \<noteq> u) \<longleftrightarrow> (\<exists>l \<in> set (sd_lists d). sl_ID l = i \<and> sl_OwnerUserID l \<noteq> u)" for i u
    by (auto simp: list_shape_def image_iff)
  then show ?thesis by (simp add: seat_ok_def)
qed

lemma shape_ids: "map sl_ID (sd_lists d) = map fst (list_shape d)" "sl_ID ` set (sd_lists d) = fst ` set (list_shape d)"
  by (simp_all add: list_shape_def image_image)

lemma update_list_shape:
  "UpdateSocialList e now lid u t s vis d = Inr (n, d') \<Longrightarrow>
     list_shape d' = list_shape d \<and> sd_list_entries d' = sd_list_entries d \<and> sd_list_members d' = sd_list_members d \<and>
     sd_profiles d' = sd_profiles d"
  by (auto simp: UpdateSocialList_def Let_def res_simps list_shape_def update_where_def)

lemma touch_list_shape:
  "TouchSocialList e now lid d = Inr d' \<Longrightarrow>
     list_shape d' = list_shape d \<and> sd_list_entries d' = sd_list_entries d \<and> sd_list_members d' = sd_list_members d \<and>
     sd_profiles d' = sd_profiles d"
  by (auto simp: TouchSocialList_def res_simps list_shape_def update_where_def)

lemma lists_ok_shape:
  assumes "list_shape d' = list_shape d" "sd_list_members d' = sd_list_members d" "sd_profiles d' = sd_profiles d"
    and "keyed le_key (sd_list_entries d')" "le_ListID ` set (sd_list_entries d') \<subseteq> sl_ID ` set (sd_lists d)"
    and "\<And>lid. entry_count lid d' \<le> 500" "lists_ok d"
  shows "lists_ok d'"
proof -
  have "seat_ok d' m = seat_ok d m" for m by (simp add: seat_ok_shape assms(1,3))
  moreover have "keyed sl_ID (sd_lists d') = keyed sl_ID (sd_lists d)" by (simp add: keyed_def shape_ids(1) assms(1))
  moreover have "sl_ID ` set (sd_lists d') = sl_ID ` set (sd_lists d)" by (simp add: shape_ids(2) assms(1))
  moreover have "taken_seats lid d' = taken_seats lid d" for lid by (simp add: taken_seats_def assms(2))
  ultimately show ?thesis using assms(2,4-7) by (simp add: lists_ok_def)
qed

lemma lists_ok_rewritten:
  assumes "list_shape d' = list_shape d \<and> sd_list_entries d' = sd_list_entries d \<and> sd_list_members d' = sd_list_members d \<and>
      sd_profiles d' = sd_profiles d" "lists_ok d"
  shows "lists_ok d'"
  by (rule lists_ok_shape [of d' d]) (use assms in \<open>auto simp: lists_ok_def entry_count_def\<close>)

text \<open>Seats that change one at a time.\<close>

lemma filter_update_other: "(\<And>x. P x \<Longrightarrow> Q (f x) = Q x) \<Longrightarrow> length (filter Q (update_where P f t)) = length (filter Q t)"
  by (induction t) (auto simp: update_where_def)

lemma filter_update_one:
  assumes "keyed key t"
  shows "length (filter Q (update_where (\<lambda>x. key x = k) f t)) \<le> Suc (length (filter Q t))"
  using assms
proof (induction t)
  case (Cons y t)
  have "update_where (\<lambda>x. key x = k) f t = t" if "key y = k"
  proof -
    from Cons.prems that have "k \<notin> key ` set t" by (auto simp: keyed_def)
    then show ?thesis unfolding update_where_def by (intro map_idI) auto
  qed
  moreover have "update_where (\<lambda>x. key x = k) f (y # t) = (if key y = k then f y else y) # update_where (\<lambda>x. key x = k) f t"
    by (simp add: update_where_def)
  moreover have "keyed key t" using Cons.prems by (simp add: keyed_def)
  ultimately show ?case using Cons.IH by simp
qed (simp add: update_where_def)

lemma upsert_seat_ok:
  assumes ok: "lists_ok d" and up: "UpsertSocialListMember e now lid u role d = Inr d'"
    and role: "role \<in> {0, 1, 2}" and prof: "u \<in> sp_UserID ` set (sd_profiles d)"
    and guest: "\<And>l. l \<in> set (sd_lists d) \<Longrightarrow> sl_ID l = lid \<Longrightarrow> sl_OwnerUserID l \<noteq> u"
    and cap: "taken_seats lid d' \<le> 20"
  shows "lists_ok d'"
proof -
  let ?m = "fresh_seat now lid u role"
  note d' = upsert_seat_eq(1) [OF up]
  have rest: "sd_lists d' = sd_lists d" "sd_list_entries d' = sd_list_entries d" "sd_profiles d' = sd_profiles d"
    using d' by simp_all
  have keyed: "keyed lm_key (sd_list_members d')"
    using ok keyed_upsert [of lm_key "sd_list_members d" ?m "\<lambda>m. m\<lparr>lm_Role := role\<rparr>"] by (simp add: d' lists_ok_def)
  have "seat_ok d' m" if m: "m \<in> set (sd_list_members d')" for m
  proof -
    have ex: "\<exists>l \<in> set (sd_lists d). sl_ID l = lid"
    proof (cases "seat_of lid u d")
      case None
      with upsert_seat_eq(2) [OF up] show ?thesis by (simp add: list_exists_def)
    next
      case (Some y)
      then have "y \<in> set (sd_list_members d)" "lm_ListID y = lid" using seat_iff [OF lists_ok_keyed(2) [OF ok]] by auto
      with ok show ?thesis by (auto simp: lists_ok_def seat_ok_def)
    qed
    show ?thesis
    proof (cases "m \<in> set (sd_list_members d)")
      case True
      with ok show ?thesis by (simp add: lists_ok_def seat_ok_def rest)
    next
      case False
      with m have "lm_ListID m = lid" "lm_UserID m = u" "lm_Role m = role"
        by (auto simp: d' upsert_row_def tbl_simps split: if_splits)
      with ex role prof guest show ?thesis by (auto simp: seat_ok_def rest)
    qed
  qed
  moreover have "taken_seats l d' \<le> 20" for l
  proof (cases "l = lid")
    case False
    then have "taken_seats l d' = taken_seats l d"
      unfolding taken_seats_def by (auto simp: d' upsert_row_def intro: filter_update_other)
    with ok show ?thesis by (simp add: lists_ok_def)
  qed (simp add: cap)
  moreover have "entry_count l d' = entry_count l d" for l by (simp add: entry_count_def rest)
  ultimately show ?thesis using ok keyed by (simp add: lists_ok_def rest)
qed

lemma taken_upsert:
  assumes ok: "lists_ok d" and up: "UpsertSocialListMember e now lid u role d = Inr d'"
  shows "taken_seats lid d' \<le> Suc (taken_seats lid d)"
    and "role = 2 \<Longrightarrow> taken_seats lid d' \<le> taken_seats lid d"
    and "seat_of lid u d = Some m \<Longrightarrow> lm_Role m \<in> {0, 1} \<Longrightarrow> taken_seats lid d' \<le> taken_seats lid d"
proof -
  note d' = upsert_seat_eq(1) [OF up]
  show "taken_seats lid d' \<le> Suc (taken_seats lid d)"
    using filter_update_one [OF lists_ok_keyed(2) [OF ok], of "\<lambda>m. lm_ListID m = lid \<and> lm_Role m \<in> {0, 1}" "(lid, u)" "\<lambda>m. m\<lparr>lm_Role := role\<rparr>"]
    by (auto simp: taken_seats_def d' upsert_row_def)
  have fewer: "length (filter Q (update_where P f t)) \<le> length (filter Q t)"
    if "\<And>x. x \<in> set t \<Longrightarrow> P x \<Longrightarrow> Q (f x) \<Longrightarrow> Q x" for P f t and Q :: "SocialListMember \<Rightarrow> bool"
    using that by (induction t) (auto simp: update_where_def)
  show "taken_seats lid d' \<le> taken_seats lid d" if "role = 2"
    using that by (auto simp: taken_seats_def d' upsert_row_def intro: fewer)
  show "taken_seats lid d' \<le> taken_seats lid d" if "seat_of lid u d = Some m" "lm_Role m \<in> {0, 1}"
  proof -
    have key: "(lid, u) \<in> lm_key ` set (sd_list_members d)"
      using that(1) find_key_None [of lm_key "(lid, u)" "sd_list_members d"] by (simp add: seat_of_def)
    have "y = m" if "y \<in> set (sd_list_members d)" "lm_key y = (lid, u)" for y
      using seat_iff [OF lists_ok_keyed(2) [OF ok], of lid u] \<open>seat_of lid u d = Some m\<close> that by (metis option.inject)
    with key that(2) show ?thesis by (auto simp: taken_seats_def d' upsert_row_def intro!: fewer)
  qed
qed

text \<open>The count before an invitation is the number of taken seats.\<close>

lemma seats_count:
  "seats t ms k = Some n \<Longrightarrow> n = k + length (filter (\<lambda>m. lmr_Role m \<in> {0, 1}) ms)"
  by (induction t ms k rule: seats.induct) (auto simp: Let_def list_consts split: if_splits)

lemma map_filter_defined: "(\<And>x. x \<in> set xs \<Longrightarrow> f x = Some (g x)) \<Longrightarrow> List.map_filter f xs = map g xs"
  by (induction xs) (auto simp: map_filter_def)

lemma members_count:
  assumes ok: "lists_ok d" and ms: "GetSocialListMembers e lid d = Inr ms"
  shows "length (filter (\<lambda>m. lmr_Role m \<in> {0, 1}) ms) = taken_seats lid d"
proof -
  define row :: "SocialListMember \<Rightarrow> ListMemberRow" where "row m = \<lparr>lmr_UserID = lm_UserID m, lmr_Role = lm_Role m,
      lmr_Handle = sp_Handle (the (profile_of (lm_UserID m) d)),
      lmr_DisplayName = sp_DisplayName (the (profile_of (lm_UserID m) d))\<rparr>" for m
  let ?ms = "sort_key (\<lambda>m. (lm_Role m, lm_CreatedAt m)) (filter (\<lambda>m. lm_ListID m = lid) (sd_list_members d))"
  have prof: "profile_of (lm_UserID m) d \<noteq> None" if "m \<in> set (sd_list_members d)" for m
  proof -
    from ok that have "seat_ok d m" by (simp add: lists_ok_def)
    then show ?thesis using find_key_None [of sp_UserID "lm_UserID m" "sd_profiles d"] by (simp add: seat_ok_def profile_of_def)
  qed
  have "ms = map row ?ms"
    using ms prof unfolding GetSocialListMembers_def
    by (auto simp: res_simps row_def intro!: map_filter_defined dest!: prof)
  then show ?thesis
    by (simp add: filter_map comp_def row_def filter_sort taken_seats_def)
qed

text \<open>The operations on entries.\<close>

lemma entry_count_upsert:
  "UpsertSocialListEntry e now lid by a d = Inr d' \<Longrightarrow> entry_count l d' \<le> entry_count l d + (if l = lid then 1 else 0)"
proof -
  assume "UpsertSocialListEntry e now lid by a d = Inr d'"
  then have d': "sd_list_entries d' = upsert_row le_key (new_entry now lid by a) (\<lambda>x. x\<lparr>le_Position := ep_Position a\<rparr>) (sd_list_entries d)"
    by (auto simp: UpsertSocialListEntry_def res_simps split: if_splits)
  have same: "length (filter (\<lambda>x. le_ListID x = l) (update_where P (\<lambda>x. x\<lparr>le_Position := ep_Position a\<rparr>) t)) =
      length (filter (\<lambda>x. le_ListID x = l) t)" for P t
    by (rule filter_update_other) simp
  show ?thesis
  proof (cases "(lid, ep_EpisodeUuid a) \<in> le_key ` set (sd_list_entries d)")
    case True
    then have "entry_count l d' = entry_count l d" unfolding entry_count_def d' upsert_row_def by (simp only: new_entry_def SocialListEntry.simps same if_True)
    then show ?thesis by simp
  next
    case False
    then show ?thesis by (simp add: entry_count_def d' upsert_row_def new_entry_def)
  qed
qed

lemma list_op_shape:
  assumes op: "list_op x uid req d = (Inr d1 :: bool reply + social_db)" and ok: "lists_ok d" and healthy: "healthy (sx_env x)"
    and l: "l \<in> set (sd_lists d)" "sl_ID l = loq_ListId req"
  shows "sd_lists d1 = sd_lists d" "sd_list_members d1 = sd_list_members d" "sd_profiles d1 = sd_profiles d"
    and "sd_core d1 = sd_core d" "sd_relationships d1 = sd_relationships d"
    and "lists_ok d1"
proof -
  have eff: "(\<exists>a. UpsertSocialListEntry (sx_env x) (sx_db x 0) (loq_ListId req) (Some uid) a d = Inr d1 \<and>
        entry_count (loq_ListId req) d < 500) \<or>
      (\<exists>n. DeleteSocialListEntry (sx_env x) (loq_ListId req) (loq_EpisodeUuid req) d = Inr (n, d1)) \<or>
      (\<exists>n. MoveSocialListEntry (sx_env x) (loq_ListId req) (loq_EpisodeUuid req) (loq_Position req) d = Inr (n, d1))"
    using op healthy unfolding list_op_def
    by (auto simp: CountSocialListEntries_def listEntriesMax_def split: if_splits sum.splits)
  show same: "sd_lists d1 = sd_lists d" "sd_list_members d1 = sd_list_members d" "sd_profiles d1 = sd_profiles d"
    "sd_core d1 = sd_core d" "sd_relationships d1 = sd_relationships d"
    using eff
    by (auto simp: UpsertSocialListEntry_def DeleteSocialListEntry_def MoveSocialListEntry_def res_simps split: if_splits)
  have shape: "list_shape d1 = list_shape d" by (simp add: list_shape_def same)
  have keyed: "keyed le_key (sd_list_entries d)" and lists: "le_ListID ` set (sd_list_entries d) \<subseteq> sl_ID ` set (sd_lists d)"
    using ok by (simp_all add: lists_ok_def)
  from eff show "lists_ok d1"
  proof (elim disjE exE conjE)
    fix a
    assume up: "UpsertSocialListEntry (sx_env x) (sx_db x 0) (loq_ListId req) (Some uid) a d = Inr d1"
      and room: "entry_count (loq_ListId req) d < 500"
    let ?new = "new_entry (sx_db x 0) (loq_ListId req) (Some uid) a"
    from up have e: "sd_list_entries d1 = upsert_row le_key ?new (\<lambda>x. x\<lparr>le_Position := ep_Position a\<rparr>) (sd_list_entries d)"
      by (auto simp: UpsertSocialListEntry_def res_simps split: if_splits)
    have "keyed le_key (sd_list_entries d1)" unfolding e by (rule keyed_upsert [OF keyed]) simp
    moreover have "le_ListID ` set (sd_list_entries d1) \<subseteq> sl_ID ` set (sd_lists d)"
    proof -
      have "le_ListID y \<in> sl_ID ` set (sd_lists d)" if "y \<in> set (sd_list_entries d1)" for y
        using upsert_row_mem [OF that [unfolded e]]
      proof (elim disjE bexE conjE)
        assume "y = ?new"
        then have "le_ListID y = sl_ID l" using l(2) by (simp add: new_entry_def)
        with l(1) show ?thesis by simp
      next
        fix z
        assume "z \<in> set (sd_list_entries d)" "y = z\<lparr>le_Position := ep_Position a\<rparr>"
        then have "le_ListID y \<in> le_ListID ` set (sd_list_entries d)" by simp
        with lists show ?thesis by blast
      qed (use lists in auto)
      then show ?thesis by blast
    qed
    moreover have "entry_count i d1 \<le> 500" for i
      using entry_count_upsert [OF up, of i] room ok by (auto simp: lists_ok_def split: if_splits dest: spec [of _ i])
    ultimately show ?thesis using lists_ok_shape [OF shape same(2,3)] ok by blast
  next
    fix n
    assume "DeleteSocialListEntry (sx_env x) (loq_ListId req) (loq_EpisodeUuid req) d = Inr (n, d1)"
    then have e: "sd_list_entries d1 = delete_where (\<lambda>y. le_key y = (loq_ListId req, loq_EpisodeUuid req)) (sd_list_entries d)"
      by (auto simp: DeleteSocialListEntry_def res_simps)
    have "entry_count i d1 \<le> entry_count i d" for i
      using length_filter_le [of "\<lambda>y. le_key y \<noteq> (loq_ListId req, loq_EpisodeUuid req)" "filter (\<lambda>y. le_ListID y = i) (sd_list_entries d)"]
      by (simp add: entry_count_def e delete_where_def conj_commute)
    moreover have "entry_count i d \<le> 500" for i using ok by (simp add: lists_ok_def)
    ultimately have "entry_count i d1 \<le> 500" for i by (meson order_trans)
    with keyed lists show ?thesis by (intro lists_ok_shape [OF shape same(2,3) _ _ _ ok]) (auto simp: e tbl_simps)
  next
    fix n
    assume "MoveSocialListEntry (sx_env x) (loq_ListId req) (loq_EpisodeUuid req) (loq_Position req) d = Inr (n, d1)"
    then have e: "sd_list_entries d1 = update_where (\<lambda>y. le_key y = (loq_ListId req, loq_EpisodeUuid req))
        (\<lambda>y. y\<lparr>le_Position := loq_Position req\<rparr>) (sd_list_entries d)"
      by (auto simp: MoveSocialListEntry_def res_simps)
    have "keyed le_key (sd_list_entries d1)" unfolding e by (rule keyed_update [OF keyed]) simp
    moreover have "le_ListID ` set (sd_list_entries d1) \<subseteq> sl_ID ` set (sd_lists d)"
    proof -
      have "map le_ListID (sd_list_entries d1) = map le_ListID (sd_list_entries d)" by (simp add: e update_where_def)
      from arg_cong [OF this, of set] lists show ?thesis by simp
    qed
    moreover have "entry_count i d1 = entry_count i d" for i
      unfolding entry_count_def e by (subst filter_update_other) simp_all
    ultimately show ?thesis using ok by (intro lists_ok_shape [OF shape same(2,3)]) (simp_all add: lists_ok_def)
  qed
qed

subsection \<open>The life of a seat\<close>

text \<open>
  Abstractly every user has a seat, or none, at every list, and every list has an owner.
  \<open>seat_step own c\<close> is what the user \<open>c\<close> may do to the seats while the lists have the owners \<open>own\<close>.
\<close>

datatype list_seat = No_seat | Called | Editor | Reader

definition role_seat :: "int \<Rightarrow> list_seat" where
  "role_seat r = (if r = 0 then Called else if r = 1 then Editor else if r = 2 then Reader else No_seat)"

definition seating :: "social_db \<Rightarrow> int \<Rightarrow> int \<Rightarrow> list_seat" where
  "seating d l u = (case seat_of l u d of None \<Rightarrow> No_seat | Some m \<Rightarrow> role_seat (lm_Role m))"

definition owner_of :: "social_db \<Rightarrow> int \<Rightarrow> int option" where
  "owner_of d l = map_option sl_OwnerUserID (list_of_id l d)"

inductive seat_step ::
  "(int \<Rightarrow> int option) \<Rightarrow> int \<Rightarrow> (int \<Rightarrow> int \<Rightarrow> list_seat) \<Rightarrow> (int \<Rightarrow> int \<Rightarrow> list_seat) \<Rightarrow> bool" where
  offer: "seat_step own c s (s(l := (s l)(u := Called)))" if "own l = Some c" "u \<noteq> c" "s l u \<in> {No_seat, Reader}"
| take_up: "seat_step own c s (s(l := (s l)(c := Editor)))" if "s l c = Called"
| listen: "seat_step own c s (s(l := (s l)(c := Reader)))" if "own l \<noteq> Some c" "s l c \<in> {No_seat, Reader}"
| give_up: "seat_step own c s (s(l := (s l)(c := No_seat)))" if "s l c \<noteq> No_seat"
| withdraw: "seat_step own c s (s(l := (s l)(u := No_seat)))" if "own l = Some c"
| close: "seat_step own c s (s(l := (\<lambda>_. No_seat)))" if "own l = Some c"

inductive_cases seat_stepE: "seat_step own c s s'"

lemma seating_upsert:
  "UpsertSocialListMember e now lid u role d = Inr d' \<Longrightarrow>
     seating d' = (seating d)(lid := (seating d lid)(u := role_seat role))"
  by (auto simp: fun_eq_iff seating_def upsert_seat_of split: option.split)

lemma seating_delete:
  "DeleteSocialListMember e lid u d = Inr (n, d') \<Longrightarrow> seating d' = (seating d)(lid := (seating d lid)(u := No_seat))"
  by (auto simp: fun_eq_iff seating_def delete_seat_of)

lemma seating_cong: "sd_list_members d' = sd_list_members d \<Longrightarrow> seating d' = seating d"
  by (simp add: fun_eq_iff seating_def seat_of_def)

lemma list_owner: "lists_ok d \<Longrightarrow> l \<in> set (sd_lists d) \<Longrightarrow> owner_of d (sl_ID l) = Some (sl_OwnerUserID l)"
  using keyed_find [of sl_ID "sd_lists d" "sl_ID l" l] by (simp add: lists_ok_def owner_of_def list_of_id_def)

lemma owner_guest: "lists_ok d \<Longrightarrow> owner_of d lid \<noteq> Some u \<Longrightarrow> l \<in> set (sd_lists d) \<Longrightarrow> sl_ID l = lid \<Longrightarrow> sl_OwnerUserID l \<noteq> u"
  using list_owner by blast

lemma seat_guest:
  assumes "lists_ok d" "seat_of lid u d = Some m"
  shows "owner_of d lid \<noteq> Some u" "lm_Role m \<in> {0, 1, 2}" "u \<in> sp_UserID ` set (sd_profiles d)"
proof -
  have "m \<in> set (sd_list_members d)" "lm_ListID m = lid" "lm_UserID m = u"
    using assms(2) seat_iff [OF lists_ok_keyed(2) [OF assms(1)]] by auto
  with assms(1) have m: "seat_ok d m" by (simp add: lists_ok_def)
  then obtain l where "l \<in> set (sd_lists d)" "sl_ID l = lid" "sl_OwnerUserID l \<noteq> u"
    using \<open>lm_ListID m = lid\<close> \<open>lm_UserID m = u\<close> unfolding seat_ok_def by blast
  with list_owner [OF assms(1)] show "owner_of d lid \<noteq> Some u" by fastforce
  from m \<open>lm_UserID m = u\<close> show "lm_Role m \<in> {0, 1, 2}" "u \<in> sp_UserID ` set (sd_profiles d)"
    unfolding seat_ok_def by auto
qed

lemma delete_seat_ok:
  assumes ok: "lists_ok d" and del: "DeleteSocialListMember e lid u d = Inr (n, d')"
  shows "lists_ok d'"
proof -
  note d' = delete_seat_eq [OF del]
  have "taken_seats l d' \<le> taken_seats l d" for l
    using length_filter_le [of "\<lambda>m. lm_key m \<noteq> (lid, u)" "filter (\<lambda>m. lm_ListID m = l \<and> lm_Role m \<in> {0, 1}) (sd_list_members d)"]
    by (simp add: taken_seats_def d' delete_where_def conj_commute conj_left_commute)
  moreover have "taken_seats l d \<le> 20" for l using ok by (simp add: lists_ok_def)
  ultimately have "taken_seats l d' \<le> 20" for l by (meson order_trans)
  moreover have "entry_count l d' = entry_count l d" for l by (simp add: entry_count_def d')
  ultimately show ?thesis using ok by (auto simp: lists_ok_def d' tbl_simps seat_ok_def)
qed

lemma dissolve_lists_ok:
  assumes ok: "lists_ok d"
  shows "lists_ok (delete_lists P d)"
proof -
  let ?d = "delete_lists P d" and ?gone = "sl_ID ` set (filter P (sd_lists d))"
  have live: "\<not> P l" if "l \<in> set (sd_lists d)" "sl_ID l \<notin> ?gone" for l
    using that by auto
  have seats: "seat_ok ?d m" if m: "m \<in> set (sd_list_members ?d)" for m
  proof -
    have "seat_ok d m" "lm_ListID m \<notin> ?gone" using m ok by (auto simp: delete_lists_rest tbl_simps lists_ok_def)
    moreover from this(1) obtain l where "l \<in> set (sd_lists d)" "sl_ID l = lm_ListID m" "sl_OwnerUserID l \<noteq> lm_UserID m"
      unfolding seat_ok_def by blast
    ultimately show ?thesis using live [of l] unfolding seat_ok_def by (auto simp: delete_lists_rest tbl_simps)
  qed
  have "le_ListID y \<in> sl_ID ` set (sd_lists ?d)" if y: "y \<in> set (sd_list_entries ?d)" for y
  proof -
    have "le_ListID y \<notin> ?gone" "y \<in> set (sd_list_entries d)" using y by (auto simp: delete_lists_rest tbl_simps)
    moreover from this(2) obtain l where "l \<in> set (sd_lists d)" "le_ListID y = sl_ID l" using ok by (auto simp: lists_ok_def)
    ultimately have "l \<in> set (sd_lists ?d)" using live [of l] by (simp add: delete_lists_rest tbl_simps)
    with \<open>le_ListID y = sl_ID l\<close> show ?thesis by simp
  qed
  moreover have "entry_count l ?d \<le> 500 \<and> taken_seats l ?d \<le> 20" for l
  proof -
    have "entry_count l ?d \<le> entry_count l d" "taken_seats l ?d \<le> taken_seats l d"
      using length_filter_le [of "\<lambda>y. le_ListID y \<notin> ?gone" "filter (\<lambda>y. le_ListID y = l) (sd_list_entries d)"]
        length_filter_le [of "\<lambda>m. lm_ListID m \<notin> ?gone" "filter (\<lambda>m. lm_ListID m = l \<and> lm_Role m \<in> {0, 1}) (sd_list_members d)"]
      by (simp_all add: entry_count_def taken_seats_def delete_lists_rest delete_where_def conj_commute conj_left_commute)
    moreover have "entry_count l d \<le> 500" "taken_seats l d \<le> 20" using ok by (simp_all add: lists_ok_def)
    ultimately show ?thesis by linarith
  qed
  moreover have "keyed sl_ID (sd_lists ?d)" "keyed le_key (sd_list_entries ?d)" "keyed lm_key (sd_list_members ?d)"
    using ok by (auto simp: delete_lists_rest lists_ok_def)
  ultimately show ?thesis using seats unfolding lists_ok_def by blast
qed

text \<open>A target that passes the search through the members has no seat, or only reads.\<close>

lemma seats_vacant: "seats t ms k = Some n \<Longrightarrow> m \<in> set ms \<Longrightarrow> lmr_UserID m = t \<Longrightarrow> lmr_Role m = 2"
  by (induction t ms k rule: seats.induct) (auto simp: Let_def list_consts split: if_splits)

lemma vacant:
  assumes ok: "lists_ok d" and ms: "GetSocialListMembers e lid d = Inr ms" and n: "seats t ms 0 = Some n"
  shows "seating d lid t \<in> {No_seat, Reader}"
proof (cases "seat_of lid t d")
  case (Some m)
  then have m: "m \<in> set (sd_list_members d)" "lm_ListID m = lid" "lm_UserID m = t"
    using seat_iff [OF lists_ok_keyed(2) [OF ok]] by auto
  with ok have "seat_ok d m" by (simp add: lists_ok_def)
  then obtain p where p: "profile_of t d = Some p"
    using find_key_None [of sp_UserID t "sd_profiles d"] m(3) by (auto simp: seat_ok_def profile_of_def)
  have "\<lparr>lmr_UserID = t, lmr_Role = lm_Role m, lmr_Handle = sp_Handle p, lmr_DisplayName = sp_DisplayName p\<rparr> \<in> set ms"
    using ms m p by (auto simp: GetSocialListMembers_def res_simps map_filter_def image_iff intro!: exI [of _ m])
  from seats_vacant [OF n this] Some show ?thesis by (simp add: seating_def role_seat_def)
qed (simp add: seating_def)

lemma list_effect_rest:
  assumes "lists_ok d" "list_effect x a d d'" "healthy (sx_env x)"
  shows "same_rest d d'"
  using assms(2)
proof (cases rule: list_effect.cases)
  case (create u req c)
  from create(4) show ?thesis
    by (auto simp: create_list_tx_def CreateSocialList_def UpsertSocialListEntries_def res_simps Let_def same_rest_def split: if_splits)
next
  case (entry u req d1)
  then obtain r where "GetSocialList (sx_env x) (loq_ListId req) d = Inr r" by (auto simp: may_edit_def)
  note r = get_list [OF this]
  from list_op_shape [OF entry(4) assms(1,3) r] entry(5) show ?thesis
    by (auto simp: same_rest_def TouchSocialList_def res_simps)
qed (auto simp: same_rest_def UpdateSocialList_def DeleteSocialList_def delete_lists_rest Let_def res_simps
    dest!: upsert_seat_eq(1) delete_seat_eq)

text \<open>One effective request: the integrity is kept and the seats make a step of the caller, if any.\<close>

lemma list_effect_step:
  assumes ok: "lists_ok d" and eff: "list_effect x a d d'" and healthy: "healthy (sx_env x)" and c: "caller x d = Some u"
  shows "lists_ok d' \<and> (seat_step (owner_of d) (u_ID u) (seating d) (seating d') \<or> seating d' = seating d)"
  using eff
proof (cases rule: list_effect.cases)
  case (create v req c)
  have "sx_id x \<notin> sl_ID ` set (sd_lists d)"
    using create(4) by (auto simp: create_list_tx_def CreateSocialList_def res_simps split: if_splits)
  note unused = lists_ok_unused [OF ok this]
  have len: "length (snapshot 0 [] (lcr_Entries req)) \<le> 500"
    using create(3) length_shared_episodes [of "lcr_Entries req"] by (simp add: snapshot_latest listEntriesMax_def)
  have dist: "distinct (map ep_EpisodeUuid (snapshot 0 [] (lcr_Entries req)))"
    by (simp only: snapshot_uuids shared_episodes_distinct)
  note new = create_list_eq [OF create(4) unused dist]
  let ?mk = "new_entry (sx_db x 0) (sx_id x) (Some (u_ID v))"
  have id: "le_ListID (?mk a) = sx_id x" for a by (simp add: new_entry_def)
  have "map le_key (map ?mk rows) = map (Pair (sx_id x)) (map ep_EpisodeUuid rows)" for rows by (simp add: new_entry_def)
  then have "distinct (map le_key (map ?mk (snapshot 0 [] (lcr_Entries req))))"
    using dist by (simp only: distinct_map) (simp add: inj_on_def)
  moreover have "le_key ` set (sd_list_entries d) \<inter> le_key ` set (map ?mk rows) = {}" for rows
    using unused by (auto simp: unused_list_def new_entry_def image_iff)
  moreover have "distinct (map le_key (sd_list_entries d))" using ok by (simp add: lists_ok_def keyed_def)
  ultimately have keyed: "keyed le_key (sd_list_entries d @ map ?mk (snapshot 0 [] (lcr_Entries req)))"
    unfolding keyed_def map_append distinct_append set_map [of le_key] by blast
  have "entry_count l d' \<le> 500" for l
  proof (cases "l = sx_id x")
    case True
    have "filter (\<lambda>y. le_ListID y = sx_id x) (sd_list_entries d) = []"
      using unused by (auto simp: unused_list_def filter_empty_conv image_iff)
    with len True show ?thesis by (simp add: entry_count_def new(1) filter_map comp_def id)
  next
    case False
    then have "entry_count l d' = entry_count l d" by (simp add: entry_count_def new(1) filter_map comp_def id)
    with ok show ?thesis by (simp add: lists_ok_def)
  qed
  moreover have "seat_ok d' m" if "m \<in> set (sd_list_members d)" for m
  proof -
    have "seat_ok d m" using ok that by (simp add: lists_ok_def)
    then show ?thesis by (auto simp: seat_ok_def new(1))
  qed
  moreover have "taken_seats l d' = taken_seats l d" for l by (simp add: taken_seats_def new(1))
  moreover have "keyed sl_ID (sd_lists d')" using ok new(2,4) by (simp add: new(1) lists_ok_def keyed_def)
  moreover have "le_ListID ` set (sd_list_entries d') \<subseteq> sl_ID ` set (sd_lists d')"
    using ok new(2) by (auto simp: new(1) id lists_ok_def)
  ultimately have "lists_ok d'" using ok keyed by (simp add: lists_ok_def new(1))
  then show ?thesis using seating_cong [of d' d] by (simp add: new(1))
next
  case (update v lid t s vis n req)
  note shape = update_list_shape [OF update(3)]
  show ?thesis using lists_ok_rewritten [OF shape ok] seating_cong [of d' d] shape by simp
next
  case (dissolve v lid n)
  let ?P = "\<lambda>l. sl_ID l = lid \<and> sl_OwnerUserID l = u_ID u"
  from dissolve c have d': "d' = delete_lists ?P d"
    by (auto simp: DeleteSocialList_def Let_def res_simps)
  have "seat_step (owner_of d) (u_ID u) (seating d) (seating d') \<or> seating d' = seating d"
  proof (cases "\<exists>l \<in> set (sd_lists d). ?P l")
    case True
    then have "seating d' = (seating d)(lid := (\<lambda>_. No_seat))"
      by (auto simp: fun_eq_iff d' seating_def dissolve_seat_of image_iff)
    moreover have "owner_of d lid = Some (u_ID u)" using True list_owner [OF ok] by auto
    ultimately show ?thesis using seat_step.close [of "owner_of d" lid "u_ID u" "seating d"] by simp
  next
    case False
    then show ?thesis by (auto simp: fun_eq_iff d' seating_def dissolve_seat_of image_iff)
  qed
  then show ?thesis using dissolve_lists_ok [OF ok] d' by simp
next
  case (entry v req d1)
  then obtain r where "GetSocialList (sx_env x) (loq_ListId req) d = Inr r" by (auto simp: may_edit_def)
  note op = list_op_shape [OF entry(4) ok healthy get_list [OF this]]
  from entry(5) show ?thesis
  proof
    assume "d' = d1"
    with op(6) seating_cong [OF op(2)] show ?thesis by simp
  next
    assume "TouchSocialList (sx_env x) (sx_db x 1) (loq_ListId req) d1 = Inr d'"
    note shape = touch_list_shape [OF this]
    show ?thesis using lists_ok_rewritten [OF shape op(6)] seating_cong [of d' d] shape op(2) by simp
  qed
next
  case (invite v lid r h t)
  with c have v: "v = u" by simp
  note l = get_list [OF invite(3)]
  have own: "owner_of d lid = Some (u_ID u)" using list_owner [OF ok l(1)] l(2) invite(4) v by simp
  obtain ms where ms: "GetSocialListMembers (sx_env x) lid d = Inr ms"
    using healthy by (simp add: GetSocialListMembers_def)
  with invite(7) obtain n where n: "seats (sp_UserID t) ms 0 = Some n" "n < listCollaboratorsMax" by blast
  have room: "taken_seats lid d < 20"
    using seats_count [OF n(1)] members_count [OF ok ms] n(2) by (simp add: listCollaboratorsMax_def)
  have t: "sp_UserID t \<noteq> u_ID u" "sp_UserID t \<in> sp_UserID ` set (sd_profiles d)"
    using invite(5,6) v by (auto simp: resolveFollowTarget_Inr GetSocialProfileByHandle_def res_simps dest!: find_Some_mem)
  have free: "seating d lid (sp_UserID t) \<in> {No_seat, Reader}"
    using vacant [OF ok ms n(1)] .
  have cap: "taken_seats lid d' \<le> 20" using taken_upsert(1) [OF ok invite(8)] room by simp
  have "lists_ok d'"
    by (rule upsert_seat_ok [OF ok invite(8) _ t(2) owner_guest [OF ok] cap]) (use own t(1) in auto)
  moreover have "seating d' = (seating d)(lid := (seating d lid)(sp_UserID t := Called))"
    using seating_upsert [OF invite(8)] by (simp add: role_seat_def)
  ultimately show ?thesis using seat_step.offer [of "owner_of d" lid "u_ID u" "sp_UserID t" "seating d"] own t(1) free by simp
next
  case (accept v lid)
  with c have v: "v = u" by simp
  from get_seat [OF accept(3)] v obtain m where m: "seat_of lid (u_ID u) d = Some m" "lm_Role m = 0" by auto
  note g = seat_guest [OF ok m(1)]
  have cap: "taken_seats lid d' \<le> 20"
    using taken_upsert(3) [OF ok accept(4), of m] m v ok by (auto simp: lists_ok_def intro: order_trans)
  have "lists_ok d'"
    by (rule upsert_seat_ok [OF ok accept(4) _ _ owner_guest [OF ok] cap]) (use g v in auto)
  moreover have "seating d lid (u_ID u) = Called" using m by (simp add: seating_def role_seat_def)
  ultimately show ?thesis
    using seat_step.take_up [of "seating d" lid "u_ID u"] seating_upsert [OF accept(4)] v by (simp add: role_seat_def)
next
  case (decline v lid n)
  with c have v: "v = u" by simp
  from get_seat [OF decline(3)] v have "seating d lid (u_ID u) \<noteq> No_seat" by (auto simp: seating_def role_seat_def)
  then show ?thesis
    using delete_seat_ok [OF ok decline(4)] seating_delete [OF decline(4)] seat_step.give_up [of "seating d" lid "u_ID u"] v by simp
next
  case (leave v lid role n)
  with c have v: "v = u" by simp
  from get_seat [OF leave(3)] v obtain m where "seat_of lid (u_ID u) d = Some m" by auto
  with seat_guest(2) [OF ok this] have "seating d lid (u_ID u) \<noteq> No_seat" by (auto simp: seating_def role_seat_def)
  then show ?thesis
    using delete_seat_ok [OF ok leave(4)] seating_delete [OF leave(4)] seat_step.give_up [of "seating d" lid "u_ID u"] v by simp
next
  case (subscribe v lid r role)
  with c have v: "v = u" by simp
  note l = get_list [OF subscribe(4)]
  have own: "owner_of d lid \<noteq> Some (u_ID u)" using list_owner [OF ok l(1)] l(2) subscribe(5) v by simp
  have "proper_faults (sx_env x)" using healthy by (simp add: healthy_def proper_faults_def)
  with subscribe(6) have free: "seating d lid (u_ID u) \<in> {No_seat, Reader}"
    using get_seat [of "sx_env x" lid "u_ID v" d] get_no_seat [of "sx_env x" lid "u_ID v" d] v
    by (auto simp: seating_def role_seat_def)
  have cap: "taken_seats lid d' \<le> 20"
    using taken_upsert(2) [OF ok subscribe(9)] ok by (auto simp: lists_ok_def intro: order_trans)
  have "lists_ok d'"
    by (rule upsert_seat_ok [OF ok subscribe(9) _ _ owner_guest [OF ok] cap]) (use subscribe(3) own v in auto)
  then show ?thesis
    using seating_upsert [OF subscribe(9)] seat_step.listen [of "owner_of d" lid "u_ID u" "seating d", OF own free] v by (simp add: role_seat_def)
next
  case (remove v lid r t n h)
  with c have v: "v = u" by simp
  note l = get_list [OF remove(3)]
  have own: "owner_of d lid = Some (u_ID u)" using list_owner [OF ok l(1)] l(2) remove(4) v by simp
  show ?thesis using delete_seat_ok [OF ok remove(5)] seating_delete [OF remove(5)] seat_step.withdraw [of "owner_of d" lid "u_ID u" "seating d" t, OF own] by simp
qed

end
