(* ===== verification/List_Safety.thy ===== *)
theory List_Safety
  imports List_Theorems Group_Safety
begin

section \<open>What holds of shared lists over all requests\<close>

text \<open>
  The properties of the list endpoints, with the database \<open>demo_mix\<close> as their witness: a list of
  Ada's with a few entries and a choice of a seat for Bob.
\<close>

subsection \<open>Runs\<close>

lemma list_exec_ok:
  assumes "lists_ok d" "healthy (sx_env x)"
  shows "lists_ok (list_exec x a d)" "same_rest d (list_exec x a d)"
    and "caller x d = None \<Longrightarrow> list_exec x a d = d"
    and "caller x d = Some u \<Longrightarrow>
      seat_step (owner_of d) (u_ID u) (seating d) (seating (list_exec x a d)) \<or> seating (list_exec x a d) = seating d"
proof -
  have all: "lists_ok (list_exec x a d) \<and> same_rest d (list_exec x a d) \<and>
      (caller x d = None \<longrightarrow> list_exec x a d = d) \<and>
      (\<forall>u. caller x d = Some u \<longrightarrow>
        seat_step (owner_of d) (u_ID u) (seating d) (seating (list_exec x a d)) \<or> seating (list_exec x a d) = seating d)"
    using list_exec_effect [of x a d]
  proof
    assume "list_exec x a d = d"
    then show ?thesis using assms(1) by (simp add: same_rest_def)
  next
    assume eff: "list_effect x a d (list_exec x a d)"
    then obtain v where v: "caller x d = Some v" by (cases rule: list_effect.cases) simp_all
    with list_effect_step [OF assms(1) eff assms(2) v] list_effect_rest [OF assms(1) eff assms(2)] show ?thesis by simp
  qed
  then show "lists_ok (list_exec x a d)" "same_rest d (list_exec x a d)" by simp_all
  from all show "list_exec x a d = d" if "caller x d = None" using that by blast
  from all show "seat_step (owner_of d) (u_ID u) (seating d) (seating (list_exec x a d)) \<or> seating (list_exec x a d) = seating d"
    if "caller x d = Some u" using that by blast
qed

lemma list_run_ok:
  "lists_ok d \<Longrightarrow> \<forall>(x, a) \<in> set as. healthy (sx_env x) \<Longrightarrow> lists_ok (list_run as d)"
  by (induction as d rule: list_run.induct) (auto simp: list_exec_ok)

text \<open>Only accepting an invitation makes an editor.\<close>

lemma create_list_members: "create_list_tx x uid req rows d = Inr (c, d') \<Longrightarrow> sd_list_members d' = sd_list_members d"
  by (auto simp: create_list_tx_def CreateSocialList_def UpsertSocialListEntries_def res_simps Let_def split: if_splits)

lemma editor_effect:
  assumes eff: "list_effect x a d d'" and ok: "lists_ok d" and healthy: "healthy (sx_env x)"
    and before: "seating d l v \<noteq> Editor" and after: "seating d' l v = Editor"
  shows "a = RespondInvite (Some (l, True))"
  using eff
proof (cases rule: list_effect.cases)
  case (accept w lid)
  then show ?thesis using before after seating_upsert [OF accept(4)] by (auto split: if_splits)
next
  case (create w req c)
  show ?thesis using before after seating_cong [OF create_list_members [OF create(4)]] by simp
next
  case (update w lid t s vis n req)
  have "seating d' = seating d" using update_list_shape [OF update(3)] by (intro seating_cong) simp
  then show ?thesis using before after by simp
next
  case (dissolve w lid n)
  then show ?thesis using before after
    by (auto simp: DeleteSocialList_def Let_def res_simps seating_def dissolve_seat_of split: if_splits)
next
  case (entry w req d1)
  then obtain r where "GetSocialList (sx_env x) (loq_ListId req) d = Inr r" by (auto simp: may_edit_def)
  note op = list_op_shape [OF entry(4) ok healthy get_list [OF this]]
  from entry(5) op(2) have "sd_list_members d' = sd_list_members d"
    by (auto simp: TouchSocialList_def res_simps)
  then show ?thesis using before after seating_cong [of d' d] by simp
next
  case (invite w lid r h t)
  then show ?thesis using before after seating_upsert [OF invite(8)] by (auto simp: role_seat_def split: if_splits)
next
  case (decline w lid n)
  then show ?thesis using before after seating_delete [OF decline(4)] by (auto split: if_splits)
next
  case (leave w lid role n)
  then show ?thesis using before after seating_delete [OF leave(4)] by (auto split: if_splits)
next
  case (subscribe w lid r role)
  then show ?thesis using before after seating_upsert [OF subscribe(9)] by (auto simp: role_seat_def split: if_splits)
next
  case (remove w lid r t n h)
  then show ?thesis using before after seating_delete [OF remove(5)] by (auto split: if_splits)
qed

lemma editor_accepted:
  assumes ok: "lists_ok d" and healthy: "healthy (sx_env x)"
    and before: "seating d l v \<noteq> Editor" and after: "seating (list_exec x a d) l v = Editor"
  shows "a = RespondInvite (Some (l, True)) \<and> map_option u_ID (caller x d) = Some v \<and> seating d l v = Called"
proof -
  from before after list_exec_effect [of x a d] have eff: "list_effect x a d (list_exec x a d)" by auto
  then obtain u where u: "caller x d = Some u" by (cases rule: list_effect.cases) simp_all
  have "seating d l v = Called \<and> u_ID u = v"
    using list_exec_ok(4) [OF ok healthy u, of a] before after
    by (auto elim!: seat_stepE split: if_splits)
  with u editor_effect [OF eff ok healthy before after] show ?thesis by simp
qed

lemma editors_accepted:
  assumes "lists_ok d" "\<forall>(x, a) \<in> set as. healthy (sx_env x)" "seating d l v \<noteq> Editor" "seating (list_run as d) l v = Editor"
  shows "\<exists>(x, a) \<in> set as. a = RespondInvite (Some (l, True)) \<and> map_option u_ID (caller x d) = Some v"
  using assms
proof (induction as d rule: list_run.induct)
  case (2 x a as d)
  then have h: "healthy (sx_env x)" by simp
  show ?case
  proof (cases "seating (list_exec x a d) l v = Editor")
    case True
    then show ?thesis using editor_accepted [OF 2(2) h 2(4)] by auto
  next
    case False
    have "caller y (list_exec x a d) = caller y d" for y
      using list_exec_ok(2) [OF 2(2) h, of a] by (intro caller_core) (simp add: same_rest_def)
    with 2(1) [OF list_exec_ok(1) [OF 2(2) h] _ False] 2(3,5) show ?thesis by auto
  qed
qed simp

subsection \<open>Who changes the entries\<close>

abbreviation entries_of :: "int \<Rightarrow> social_db \<Rightarrow> SocialListEntry list" where
  "entries_of l d \<equiv> filter (\<lambda>y. le_ListID y = l) (sd_list_entries d)"

lemma entry_statement_others:
  assumes "l \<noteq> lid"
  shows "UpsertSocialListEntry e now lid by a d = Inr d' \<Longrightarrow> entries_of l d' = entries_of l d"
    and "DeleteSocialListEntry e lid u d = Inr (n, d') \<Longrightarrow> entries_of l d' = entries_of l d"
    and "MoveSocialListEntry e lid u p d = Inr (n, d') \<Longrightarrow> entries_of l d' = entries_of l d"
proof -
  have upd: "filter (\<lambda>y. le_ListID y = l) (update_where (\<lambda>y. le_key y = (lid, u)) (\<lambda>y. y\<lparr>le_Position := p\<rparr>) t) =
      filter (\<lambda>y. le_ListID y = l) t" for u p t
    using assms by (induction t) (auto simp: update_where_def)
  show "UpsertSocialListEntry e now lid by a d = Inr d' \<Longrightarrow> entries_of l d' = entries_of l d"
    using assms upd by (auto simp: UpsertSocialListEntry_def res_simps upsert_row_def new_entry_def split: if_splits)
  show "MoveSocialListEntry e lid u p d = Inr (n, d') \<Longrightarrow> entries_of l d' = entries_of l d"
    using upd by (auto simp: MoveSocialListEntry_def res_simps)
  have "filter (\<lambda>y. le_ListID y = l) (delete_where (\<lambda>y. le_key y = (lid, u)) t) = filter (\<lambda>y. le_ListID y = l) t" for t
    using assms by (induction t) (auto simp: delete_where_def)
  then show "DeleteSocialListEntry e lid u d = Inr (n, d') \<Longrightarrow> entries_of l d' = entries_of l d"
    by (auto simp: DeleteSocialListEntry_def res_simps)
qed

lemma list_op_others:
  assumes "list_op x uid req d = (Inr d1 :: bool reply + social_db)" "l \<noteq> loq_ListId req"
  shows "entries_of l d1 = entries_of l d"
  using assms(1) unfolding list_op_def
  by (auto dest: entry_statement_others [OF assms(2)] split: if_splits sum.splits prod.splits)

lemma may_edit_roles:
  assumes ok: "lists_ok d" and healthy: "healthy (sx_env x)" and edit: "may_edit x u lid d"
  obtains o' where "owner_of d lid = Some o'" "u_ID u = o' \<or> seating d lid (u_ID u) = Editor"
    "u_ID u \<noteq> 0 \<longrightarrow> u_ID u \<noteq> o' \<longrightarrow> \<not> blocked_either (u_ID u) o' (sd_relationships d)"
proof -
  obtain r role where r: "GetSocialList (sx_env x) lid d = Inr r"
    and role: "socialListRole x (sl_OwnerUserID (lr_list r)) lid (u_ID u) d = Inr role" "role \<in> {1, 2}"
    and view: "canViewSocialList x (sl_OwnerUserID (lr_list r)) (sl_Visibility (lr_list r)) (u_ID u) role d = Inr True"
    using edit unfolding may_edit_def by blast
  note l = get_list [OF r]
  have own: "owner_of d lid = Some (sl_OwnerUserID (lr_list r))" using list_owner [OF ok l(1)] l(2) by simp
  have "u_ID u = sl_OwnerUserID (lr_list r) \<or> seating d lid (u_ID u) = Editor"
  proof (cases "u_ID u = sl_OwnerUserID (lr_list r)")
    case False
    with role have "\<exists>q. GetSocialListMember (sx_env x) lid (u_ID u) d = Inr q \<and> q = 1"
      by (auto simp: socialListRole_def list_consts split: if_splits sum.splits)
    then show ?thesis using get_seat by (fastforce simp: seating_def role_seat_def)
  qed simp
  moreover have "u_ID u \<noteq> 0 \<longrightarrow> u_ID u \<noteq> sl_OwnerUserID (lr_list r) \<longrightarrow>
      \<not> blocked_either (u_ID u) (sl_OwnerUserID (lr_list r)) (sd_relationships d)"
    using view healthy by (auto simp: canViewSocialList_def IsBlockedEither_def split: if_splits)
  ultimately show thesis using that own by blast
qed

lemma entry_effect_by_editor:
  assumes eff: "list_effect x a d d'" and ok: "lists_ok d" and healthy: "healthy (sx_env x)"
    and own: "owner_of d l = Some o'" "owner_of d' l \<noteq> None" and new: "entries_of l d' \<noteq> entries_of l d"
  shows "\<exists>u. caller x d = Some u \<and> (u_ID u = o' \<or> seating d l (u_ID u) = Editor) \<and>
    (u_ID u \<noteq> 0 \<longrightarrow> u_ID u \<noteq> o' \<longrightarrow> \<not> blocked_either (u_ID u) o' (sd_relationships d))"
  using eff
proof (cases rule: list_effect.cases)
  case (create u req c)
  have fresh: "sx_id x \<notin> sl_ID ` set (sd_lists d)"
    using create(4) by (auto simp: create_list_tx_def CreateSocialList_def res_simps split: if_splits)
  have "l \<in> sl_ID ` set (sd_lists d)" using own(1) by (auto simp: owner_of_def list_of_id_def dest!: find_Some_mem)
  with fresh have "l \<noteq> sx_id x" by blast
  moreover have "distinct (map ep_EpisodeUuid (snapshot 0 [] (lcr_Entries req)))"
    by (simp only: snapshot_uuids shared_episodes_distinct)
  ultimately have "entries_of l d' = entries_of l d"
    using create_list_eq(1) [OF create(4) lists_ok_unused [OF ok fresh]] by (simp add: new_entry_def filter_map comp_def)
  with new show ?thesis by simp
next
  case (update u lid t s vis n req)
  with update_list_shape [OF update(3)] new show ?thesis by simp
next
  case (dissolve u lid n)
  let ?P = "\<lambda>l. sl_ID l = lid \<and> sl_OwnerUserID l = u_ID u"
  have d': "d' = delete_lists ?P d" using dissolve by (auto simp: DeleteSocialList_def Let_def res_simps)
  have "l \<in> sl_ID ` set (filter ?P (sd_lists d))"
  proof (rule ccontr)
    assume "l \<notin> sl_ID ` set (filter ?P (sd_lists d))"
    then have "entries_of l d' = entries_of l d"
      unfolding d' delete_lists_rest delete_where_def filter_filter by (intro filter_cong [OF refl]) blast
    with new show False by simp
  qed
  then obtain k where k: "k \<in> set (sd_lists d)" "?P k" "sl_ID k = l" by auto
  have "owner_of d' l = None"
  proof (rule ccontr)
    assume "owner_of d' l \<noteq> None"
    then obtain j where "j \<in> set (sd_lists d)" "\<not> ?P j" "sl_ID j = l"
      by (auto simp: owner_of_def list_of_id_def d' delete_lists_rest tbl_simps dest!: find_Some_mem)
    with keyed_inj [OF lists_ok_keyed(1) [OF ok], of j k] k show False by simp
  qed
  with own show ?thesis by simp
next
  case (entry u req d1)
  have "entries_of l d' = entries_of l d1" using entry(5) by (auto simp: TouchSocialList_def res_simps)
  with new list_op_others [OF entry(4)] have l: "l = loq_ListId req" by metis
  obtain o2 where "owner_of d l = Some o2" "u_ID u = o2 \<or> seating d l (u_ID u) = Editor"
    "u_ID u \<noteq> 0 \<longrightarrow> u_ID u \<noteq> o2 \<longrightarrow> \<not> blocked_either (u_ID u) o2 (sd_relationships d)"
    using may_edit_roles [OF ok healthy entry(3)] l by blast
  with entry(2) own(1) show ?thesis by simp
qed (use new in \<open>auto dest!: upsert_seat_eq(1) delete_seat_eq\<close>)

subsection \<open>Who sees a list\<close>

text \<open>The caller may not see the list \<open>l\<close>: blocked, or without a seat and outside its visibility.\<close>

definition hidden_from :: "sctx \<Rightarrow> SocialList \<Rightarrow> social_db \<Rightarrow> bool" where
  "hidden_from x l d \<longleftrightarrow>
     (let v = optionalViewerID x d; o' = sl_OwnerUserID l
      in if v = 0 then sl_Visibility l \<noteq> 2
         else v \<noteq> o' \<and>
           (blocked_either v o' (sd_relationships d) \<or>
            seating d (sl_ID l) v = No_seat \<and> sl_Visibility l \<noteq> 2 \<and>
            \<not> (sl_Visibility l = 3 \<and> map_option sf_Status (find (\<lambda>f. sf_key f = (v, o')) (sd_follows d)) = Some 1)))"

lemma list_role:
  assumes "lists_ok d" "healthy (sx_env x)"
  shows "socialListRole x o' lid v d = Inr (if v = 0 then 0 else if v = o' then 1
           else case seating d lid v of No_seat \<Rightarrow> 0 | Called \<Rightarrow> 4 | Editor \<Rightarrow> 2 | Reader \<Rightarrow> 3)"
proof (cases "seat_of lid v d")
  case None
  then show ?thesis using assms(2)
    by (simp add: socialListRole_def GetSocialListMember_def select_one_def seat_of_def seating_def list_consts)
next
  case (Some m)
  with seat_guest(2) [OF assms(1) Some] assms(2) show ?thesis
    by (auto simp: socialListRole_def GetSocialListMember_def select_one_def seat_of_def seating_def role_seat_def list_consts)
qed

lemma list_visible:
  assumes ok: "lists_ok d" and healthy: "healthy (sx_env x)" and role: "socialListRole x (sl_OwnerUserID l) (sl_ID l) (optionalViewerID x d) d = Inr role"
  shows "canViewSocialList x (sl_OwnerUserID l) (sl_Visibility l) (optionalViewerID x d) role d = Inr (\<not> hidden_from x l d)"
  using role healthy
  by (auto simp: list_role [OF ok healthy] canViewSocialList_def IsBlockedEither_def GetFollowState_def select_one_def hidden_from_def
      Let_def followStatusActive_def list_consts split: list_seat.splits option.splits if_splits)

lemma missing_list:
  assumes "ler_ListId req > 0"
  shows "PostSocialListEntries x (Some req) (delete_lists (\<lambda>k. sl_ID k = ler_ListId req) d) = list_gone"
proof -
  have "filter (\<lambda>l. sl_ID l = lid) (sd_lists (delete_lists (\<lambda>k. sl_ID k = lid) d)) = []" for lid
    by (simp add: delete_lists_rest delete_where_def filter_empty_conv)
  then show ?thesis
    using assms by (auto simp: PostSocialListEntries_def GetSocialList_def stmt_def map_filter_simps split: option.split)
qed

lemma shown_list:
  assumes ok: "lists_ok d" and healthy: "healthy (sx_env x)" and l: "l \<in> set (sd_lists d)" "ler_ListId req = sl_ID l" "sl_ID l > 0"
    and prof: "profile_of (sl_OwnerUserID l) d \<noteq> None"
  obtains r role where "lr_list r = l"
    "GetSocialList (sx_env x) (ler_ListId req) d = Inr r"
    "socialListRole x (sl_OwnerUserID l) (sl_ID l) (optionalViewerID x d) d = Inr role"
    "canViewSocialList x (sl_OwnerUserID l) (sl_Visibility l) (optionalViewerID x d) role d = Inr (\<not> hidden_from x l d)"
proof -
  obtain p where p: "profile_of (sl_OwnerUserID l) d = Some p" using prof by blast
  have one: "filter (\<lambda>k. sl_ID k = sl_ID l) t = [l]" if "keyed sl_ID t" "l \<in> set t" for t
    using that
  proof (induction t)
    case (Cons k t)
    show ?case
    proof (cases "k = l")
      case True
      then have "filter (\<lambda>j. sl_ID j = sl_ID l) t = []" using Cons.prems(1) by (auto simp: keyed_def filter_empty_conv image_iff)
      with True show ?thesis by simp
    next
      case False
      with Cons show ?thesis by (auto simp: keyed_def)
    qed
  qed simp
  have "GetSocialList (sx_env x) (ler_ListId req) d = Inr (the (list_row d l))" "lr_list (the (list_row d l)) = l"
    using healthy p l by (simp_all add: GetSocialList_def one [OF lists_ok_keyed(1) [OF ok] l(1)] map_filter_simps list_row_def)
  then show thesis using that list_role [OF ok healthy] list_visible [OF ok healthy] by metis
qed

lemma joined_no_proto: "requireJoined x d \<noteq> (Inl (Proto s m) :: 'm reply + User \<times> SocialProfile)"
  by (auto simp: requireJoined_def social_user_def currentDbUser_def write_error_def split: option.splits sum.splits)

subsection \<open>Properties\<close>

text \<open>
  C26. List requests keep the integrity of the tables: unique ids, no orphaned entry or seat, no seat
  for the owner, at most 500 entries and at most 20 editors and invited people per list, if the
  database does not fail.
\<close>

theorem lists_invariant:
  assumes "lists_ok d" "\<forall>(x, a) \<in> set as. healthy (sx_env x)"
  shows "lists_ok (list_run as d)"
  using assms by (rule list_run_ok)

text \<open>
  C27. A list request does nothing to the seats, or makes one step of its caller: the owner invites,
  withdraws a seat or closes the list; an invited user accepts; anyone with a seat gives it up; who
  has none, or only reads, subscribes.
\<close>

theorem seat_lifecycle:
  assumes "lists_ok d" "healthy (sx_env x)"
  shows "seating (list_exec x a d) = seating d \<or>
    (\<exists>u. caller x d = Some u \<and> seat_step (owner_of d) (u_ID u) (seating d) (seating (list_exec x a d)))"
proof (cases "caller x d")
  case None
  with list_exec_ok(3) [OF assms] show ?thesis by simp
next
  case (Some u)
  with list_exec_ok(4) [OF assms Some] show ?thesis by blast
qed

text \<open>
  Over any requests, a user becomes a collaborator only by accepting an invitation to that list
  themselves.
\<close>

theorem collaborators_consent:
  assumes "lists_ok d" "\<forall>(x, a) \<in> set as. healthy (sx_env x)" "seating d l v \<noteq> Editor" "seating (list_run as d) l v = Editor"
  shows "\<exists>(x, a) \<in> set as. a = RespondInvite (Some (l, True)) \<and> map_option u_ID (caller x d) = Some v"
  using assms by (rule editors_accepted)

text \<open>
  C28. The entries of a list that exists before and after a request change only for its owner, or for
  a collaborator who neither blocks the owner nor is blocked.
\<close>

theorem entries_by_editors:
  assumes "lists_ok d" "healthy (sx_env x)" "owner_of d l = Some o'" "owner_of (list_exec x a d) l \<noteq> None"
    and "entries_of l (list_exec x a d) \<noteq> entries_of l d"
  shows "\<exists>u. caller x d = Some u \<and> (u_ID u = o' \<or> seating d l (u_ID u) = Editor) \<and>
    (u_ID u \<noteq> 0 \<longrightarrow> u_ID u \<noteq> o' \<longrightarrow> \<not> blocked_either (u_ID u) o' (sd_relationships d))"
proof -
  have "list_effect x a d (list_exec x a d)" using list_exec_effect [of x a d] assms(5) by auto
  then show ?thesis using assms by (rule entry_effect_by_editor)
qed

text \<open>
  C29. A list is shown to those who may see it and to nobody else: for the others the reply is that of
  the database without the list.  The members are shown to the owner only.
\<close>

theorem list_shown_exactly:
  assumes "lists_ok d" "healthy (sx_env x)" "l \<in> set (sd_lists d)" "ler_ListId req = sl_ID l" "sl_ID l > 0"
    and "profile_of (sl_OwnerUserID l) d \<noteq> None"
  shows "if hidden_from x l d
    then PostSocialListEntries x (Some req) d = PostSocialListEntries x (Some req) (delete_lists (\<lambda>k. sl_ID k = sl_ID l) d)
    else \<exists>resp. PostSocialListEntries x (Some req) d = Proto 200 resp \<and> psl_Id (lep_List resp) = sl_ID l \<and>
      lep_Total resp = int32 (entry_count (sl_ID l) d) \<and> length (lep_Entries resp) \<le> 100 \<and>
      (psl_Members (lep_List resp) \<noteq> [] \<longrightarrow> optionalViewerID x d = sl_OwnerUserID l)"
proof -
  obtain r role where r: "lr_list r = l" "GetSocialList (sx_env x) (ler_ListId req) d = Inr r"
    "socialListRole x (sl_OwnerUserID l) (sl_ID l) (optionalViewerID x d) d = Inr role"
    "canViewSocialList x (sl_OwnerUserID l) (sl_Visibility l) (optionalViewerID x d) role d = Inr (\<not> hidden_from x l d)"
    using shown_list [OF assms] by metis
  show ?thesis
  proof (cases "hidden_from x l d")
    case True
    with r assms missing_list [of req x d] show ?thesis by (simp add: PostSocialListEntries_def)
  next
    case False
    with r assms show ?thesis
      by (simp add: PostSocialListEntries_def GetSocialListEntries_def CountSocialListEntries_def socialListProto_def
          listRowToProto_def maxListEntryPageSize_def Let_def) linarith
  qed
qed

text \<open>
  C30. A created list holds every valid episode of the request once, in the order of first appearance,
  with the data and the index of its last appearance, and nothing else; other lists keep their entries.
\<close>

theorem list_created_from_snapshot:
  assumes "lists_ok d" "PostSocialListCreate x (Some req) d = (Proto 200 resp, d')"
  shows "\<exists>u. caller x d = Some u \<and> psl_EntryCount resp = int32 (int (length (shared_episodes (lcr_Entries req)))) \<and>
    sd_list_entries d' = sd_list_entries d @
      map (\<lambda>e. new_entry (sx_db x 0) (psl_Id resp) (Some (u_ID u)) (latest (lcr_Entries req) e)) (shared_episodes (lcr_Entries req)) \<and>
    owner_of d (psl_Id resp) = None \<and> owner_of d' (psl_Id resp) = Some (u_ID u)"
proof -
  obtain u c where u: "caller x d = Some u" and c: "create_list_tx x (u_ID u) req (snapshot 0 [] (lcr_Entries req)) d = Inr (c, d')"
    and resp: "psl_Id resp = sl_ID c" "psl_EntryCount resp = int32 (int (length (snapshot 0 [] (lcr_Entries req))))"
    using assms(2)
    by (auto simp: PostSocialListCreate_def share_list_def Let_def requireJoined_Inr InTx_Inr joined_no_proto write_error_def
        split: option.splits if_splits sum.splits prod.splits)
  have fresh: "sx_id x \<notin> sl_ID ` set (sd_lists d)"
    using c by (auto simp: create_list_tx_def CreateSocialList_def res_simps split: if_splits)
  have "distinct (map ep_EpisodeUuid (snapshot 0 [] (lcr_Entries req)))"
    by (simp only: snapshot_uuids shared_episodes_distinct)
  note new = create_list_eq [OF c lists_ok_unused [OF assms(1) fresh] this]
  have "find (\<lambda>l. sl_ID l = sx_id x) (sd_lists d) = None" using fresh by (auto simp: find_None_not image_iff)
  then show ?thesis
    using u resp by (simp add: new(1-3) snapshot_latest owner_of_def list_of_id_def find_append)
qed

text \<open>
  Editing is the exception: a stranger who tries to edit a hidden list learns that it exists, because
  the role is checked before the visibility.
\<close>

lemma entry_op_tells:
  assumes ok: "lists_ok d" and healthy: "healthy (sx_env x)" and l: "l \<in> set (sd_lists d)" "sl_ID l > 0"
    and prof: "profile_of (sl_OwnerUserID l) d \<noteq> None" and u: "requireJoined x d = (Inr (u, p) :: bool reply + User \<times> SocialProfile)"
    and stranger: "u_ID u \<noteq> sl_OwnerUserID l" "seating d (sl_ID l) (u_ID u) = No_seat"
    and req: "loq_ListId req = sl_ID l" "loq_EpisodeUuid req \<noteq> ''''" "length (loq_EpisodeUuid req) \<le> 64" "length (loq_PodcastUuid req) \<le> 64"
  shows "fst (PostSocialListEntryOp x (Some req) d) = access_denied 403 ''not an editor''"
    and "fst (PostSocialListEntryOp x (Some req) (delete_lists (\<lambda>k. sl_ID k = sl_ID l) d)) = list_gone"
proof -
  obtain r where r: "lr_list r = l" "GetSocialList (sx_env x) (sl_ID l) d = Inr r"
    using shown_list [OF ok healthy l(1) _ l(2) prof, of "\<lparr>ler_ListId = sl_ID l, ler_Limit = 0, ler_Offset = 0\<rparr>"] by auto
  have "socialListRole x (sl_OwnerUserID l) (sl_ID l) (u_ID u) d = Inr 0"
    using stranger by (simp add: list_role [OF ok healthy])
  with r u l(2) req show "fst (PostSocialListEntryOp x (Some req) d) = access_denied 403 ''not an editor''"
    by (auto simp: PostSocialListEntryOp_def maxUuidFieldLen_def list_consts)
  let ?d = "delete_lists (\<lambda>k. sl_ID k = sl_ID l) d"
  have "requireJoined x ?d = (Inr (u, p) :: bool reply + User \<times> SocialProfile)"
    using u by (simp add: requireJoined_Inr GetSocialProfileByUserID_def delete_lists_rest caller_core [of ?d d] profile_of_def)
  moreover have "GetSocialList (sx_env x) (sl_ID l) ?d = Inl ErrNoRows"
    using healthy by (simp add: GetSocialList_def delete_lists_rest delete_where_def map_filter_simps cong: conj_cong)
  ultimately show "fst (PostSocialListEntryOp x (Some req) ?d) = list_gone"
    using l(2) req by (auto simp: PostSocialListEntryOp_def maxUuidFieldLen_def)
qed

subsection \<open>Witnesses\<close>

definition demo_mix :: "int option \<Rightarrow> social_db" where
  "demo_mix role = demo_social\<lparr>
     sd_lists := [\<lparr>sl_ID = 9, sl_OwnerUserID = 1, sl_Title = ''Mix'', sl_Description = '''', sl_Visibility = 1,
       sl_CreatedAt = 0, sl_UpdatedAt = 0\<rparr>],
     sd_list_entries := [\<lparr>le_ListID = 9, le_EpisodeUuid = ''e1'', le_PodcastUuid = '''', le_EpisodeTitle = '''',
       le_PodcastTitle = '''', le_Position = 0, le_AddedBy = Some 1, le_AddedAt = 0\<rparr>],
     sd_list_members := (case role of None \<Rightarrow> [] | Some r \<Rightarrow> [fresh_seat 0 9 2 r])\<rparr>"

lemma demo_mix_counts: "entry_count l (demo_mix role) \<le> 500" "taken_seats l (demo_mix role) \<le> 20"
  by (auto simp: demo_mix_def entry_count_def taken_seats_def demo_social_def split: option.split)

lemma demo_mix_ok: "lists_ok (demo_mix None)" "lists_ok (demo_mix (Some 0))" "lists_ok (demo_mix (Some 1))"
proof -
  have tables: "keyed sl_ID (sd_lists (demo_mix role))" "keyed le_key (sd_list_entries (demo_mix role))"
    "keyed lm_key (sd_list_members (demo_mix role))"
    "le_ListID ` set (sd_list_entries (demo_mix role)) \<subseteq> sl_ID ` set (sd_lists (demo_mix role))" for role
    by (auto simp: demo_mix_def keyed_def split: option.split)
  have seat: "seat_ok (demo_mix (Some r)) (fresh_seat 0 9 2 r)" if "r \<in> {0, 1, 2}" for r
    using that by (auto simp: seat_ok_def demo_mix_def demo_social_def new_profile_def)
  have members: "sd_list_members (demo_mix None) = []" "sd_list_members (demo_mix (Some r)) = [fresh_seat 0 9 2 r]" for r
    by (simp_all add: demo_mix_def)
  show "lists_ok (demo_mix None)" "lists_ok (demo_mix (Some 0))" "lists_ok (demo_mix (Some 1))"
    unfolding lists_ok_def using tables [of None] tables [of "Some 0"] tables [of "Some 1"] demo_mix_counts seat by (simp_all add: members)
qed

lemma demo_mix_callers [simp]:
  "caller ada (demo_mix role) = Some (demo_member 1 CHR ''1'')" "caller bob (demo_mix role) = Some (demo_member 2 CHR ''2'')"
  using demo_caller by (simp_all add: demo_mix_def caller_core [of "demo_mix role" demo_social, unfolded demo_mix_def])

lemma lists_invariant_witness:
  "lists_ok (list_run [(ada, InviteEditor (Some (9, ''bob''))), (bob, RespondInvite (Some (9, True)))] (demo_mix None))"
  by (rule lists_invariant [OF demo_mix_ok(1)]) simp

lemma seat_lifecycle_witness:
  "seat_step (owner_of (demo_mix (Some 0))) 2 (seating (demo_mix (Some 0)))
     (seating (list_exec bob (RespondInvite (Some (9, True))) (demo_mix (Some 0))))"
proof -
  have "seating (demo_mix (Some 0)) 9 2 = Called"
    "seating (list_exec bob (RespondInvite (Some (9, True))) (demo_mix (Some 0))) 9 2 = Editor" by code_simp+
  then have "seating (list_exec bob (RespondInvite (Some (9, True))) (demo_mix (Some 0))) \<noteq> seating (demo_mix (Some 0))" by auto
  with seat_lifecycle [OF demo_mix_ok(2), of bob "RespondInvite (Some (9, True))"] show ?thesis
    by (simp add: demo_member_def demo_user_def)
qed

lemma collaborators_consent_witness:
  "\<exists>(x, a) \<in> set [(ada, InviteEditor (Some (9, ''bob''))), (bob, RespondInvite (Some (9, True)))].
     a = RespondInvite (Some (9, True)) \<and> map_option u_ID (caller x (demo_mix None)) = Some 2"
proof (rule collaborators_consent [OF demo_mix_ok(1)])
  show "seating (demo_mix None) 9 2 \<noteq> Editor" by code_simp
  show "seating (list_run [(ada, InviteEditor (Some (9, ''bob''))), (bob, RespondInvite (Some (9, True)))] (demo_mix None)) 9 2 = Editor"
    by code_simp
qed simp

definition drop_e1 :: list_act where
  "drop_e1 = EntryOp (Some \<lparr>loq_ListId = 9, loq_Op = 2, loq_EpisodeUuid = ''e1'', loq_PodcastUuid = '''',
     loq_EpisodeTitle = '''', loq_PodcastTitle = '''', loq_Position = 0\<rparr>)"

lemma entries_by_editors_witness:
  "u_ID (the (caller bob (demo_mix (Some 1)))) = 1 \<or> seating (demo_mix (Some 1)) 9 2 = Editor"
proof -
  have "owner_of (demo_mix (Some 1)) 9 = Some 1" "owner_of (list_exec bob drop_e1 (demo_mix (Some 1))) 9 = Some 1"
    "length (entries_of 9 (list_exec bob drop_e1 (demo_mix (Some 1)))) = 0" "length (entries_of 9 (demo_mix (Some 1))) = 1"
    by code_simp+
  moreover from this(3,4) have "entries_of 9 (list_exec bob drop_e1 (demo_mix (Some 1))) \<noteq> entries_of 9 (demo_mix (Some 1))" by auto
  ultimately show ?thesis
    using entries_by_editors [OF demo_mix_ok(3), of bob 9 1 drop_e1] by (auto simp: demo_member_def demo_user_def)
qed

definition demo_page :: SharedListEntriesRequest where
  "demo_page = \<lparr>ler_ListId = 9, ler_Limit = 0, ler_Offset = 0\<rparr>"

lemma list_shown_exactly_witness:
  "PostSocialListEntries bob (Some demo_page) (demo_mix None) =
     PostSocialListEntries bob (Some demo_page) (delete_lists (\<lambda>k. sl_ID k = 9) (demo_mix None))"
proof -
  let ?l = "hd (sd_lists (demo_mix None))"
  have l: "?l \<in> set (sd_lists (demo_mix None))" "ler_ListId demo_page = sl_ID ?l" "sl_ID ?l = 9" "sl_OwnerUserID ?l = 1"
    by (simp_all add: demo_mix_def demo_page_def)
  moreover have "profile_of (sl_OwnerUserID ?l) (demo_mix None) \<noteq> None"
    by (simp add: demo_mix_def demo_social_def profile_of_def new_profile_def)
  moreover have "hidden_from bob ?l (demo_mix None)" by code_simp
  ultimately show ?thesis using list_shown_exactly [OF demo_mix_ok(1) _ l(1,2), of bob] by simp
qed

definition demo_entry :: "string \<Rightarrow> string \<Rightarrow> SharedListEntry" where
  "demo_entry u p = \<lparr>sle_EpisodeUuid = u, sle_PodcastUuid = p, sle_EpisodeTitle = '''', sle_PodcastTitle = '''',
     sle_Position = 0, sle_AddedByHandle = '''', sle_AddedAt = 0\<rparr>"

definition demo_share :: SharedListCreateRequest where
  "demo_share = \<lparr>lcr_Title = ''My'', lcr_Description = '''', lcr_Visibility = 1,
     lcr_Entries = [demo_entry ''a'' ''p'', demo_entry ''b'' '''', demo_entry '''' '''', demo_entry ''a'' ''q'']\<rparr>"

lemma demo_share_texts: "list_texts bob ''My'' ''''"
proof -
  have "ValidString ''My''" "runes ''My'' = [0x4D, 0x79]" "ValidString ''''" "runes '''' = []" by code_simp+
  then show ?thesis
    by (simp add: list_texts_def CheckText_None demo_sx_def plain_rune_def IsControl_def isDangerousFormatRune_def)
qed

lemma demo_share_joined:
  "requireJoined bob (demo_mix None) =
     (Inr (demo_member 2 CHR ''2'', new_profile 0 2 ''bob'' ''Bob'' 1) :: SharedList reply + User \<times> SocialProfile)"
proof -
  have "profile_of 2 (demo_mix None) = Some (new_profile 0 2 ''bob'' ''Bob'' 1)" by code_simp
  moreover have "u_ID (demo_member 2 CHR ''2'') = 2" by (simp add: demo_member_def demo_user_def)
  ultimately show ?thesis by (simp add: requireJoined_Inr GetSocialProfileByUserID_def res_simps profile_of_def)
qed

lemma demo_share_reply:
  "PostSocialListCreate bob (Some demo_share) (demo_mix None) =
     share_list bob (demo_member 2 CHR ''2'') (new_profile 0 2 ''bob'' ''Bob'' 1) demo_share (demo_mix None)"
  using demo_share_texts
  by (simp add: PostSocialListCreate_def demo_share_joined)
    (simp add: demo_share_def listTitleMaxLength_def listDescriptionMaxLength_def listEntriesMax_def)

lemma list_created_from_snapshot_witness:
  "map (\<lambda>e. (le_ListID e, le_EpisodeUuid e, le_PodcastUuid e, le_Position e))
     (sd_list_entries (snd (PostSocialListCreate bob (Some demo_share) (demo_mix None)))) =
   [(9, ''e1'', '''', 0), (1, ''a'', ''q'', 3), (1, ''b'', '''', 1)]"
proof -
  have ok: "(case fst (PostSocialListCreate bob (Some demo_share) (demo_mix None)) of Proto s resp \<Rightarrow> s = 200 \<and> psl_Id resp = 1 | _ \<Rightarrow> False)"
    unfolding demo_share_reply by code_simp
  then obtain resp where "fst (PostSocialListCreate bob (Some demo_share) (demo_mix None)) = Proto 200 resp" and id: "psl_Id resp = 1"
    by (auto split: reply.splits)
  then have "PostSocialListCreate bob (Some demo_share) (demo_mix None) =
      (Proto 200 resp, snd (PostSocialListCreate bob (Some demo_share) (demo_mix None)))"
    by (simp add: prod_eq_iff)
  note made = list_created_from_snapshot [OF demo_mix_ok(1) this]
  have snap: "map (\<lambda>e. (ep_EpisodeUuid e, ep_PodcastUuid e, ep_Position e))
      (map (latest (lcr_Entries demo_share)) (shared_episodes (lcr_Entries demo_share))) =
      [(''a'', ''q'', 3), (''b'', '''', 1)]"
    by code_simp
  then have rows: "map ((\<lambda>e. (le_ListID e, le_EpisodeUuid e, le_PodcastUuid e, le_Position e)) \<circ>
       (\<lambda>e. new_entry t 1 v (latest (lcr_Entries demo_share) e))) (shared_episodes (lcr_Entries demo_share)) =
      [(1, ''a'', ''q'', 3), (1, ''b'', '''', 1)]" for t v
    by (auto simp: new_entry_def)
  from made show ?thesis by (auto simp: id rows demo_mix_def [of None])
qed

end
