(* ===== verification/Comment_Db.thy ===== *)
theory Comment_Db
  imports Group_Db
begin

section \<open>Statements on episode comments\<close>

text \<open>
  The statements of \<^verbatim>\<open>src/db/queries.sql.go\<close> on \<^verbatim>\<open>episode_comments\<close> and the inbox of replies, the
  gate on playback, and the two lookups in \<^verbatim>\<open>episode_aliases\<close>, a table that only the crawler
  writes: the statements take it as an argument.
\<close>

record EpisodeAlias =
  ea_DeviceUuid :: string
  ea_CatalogUuid :: string

definition ResolveEpisodeAlias :: "env \<Rightarrow> EpisodeAlias list \<Rightarrow> string \<Rightarrow> string result" where
  "ResolveEpisodeAlias e al device =
     stmt e ''ResolveEpisodeAlias''
       (rbind (select_one (\<lambda>a. ea_DeviceUuid a = device) al) (\<lambda>a. Inr (ea_CatalogUuid a)))"

definition ReverseEpisodeAliases :: "env \<Rightarrow> EpisodeAlias list \<Rightarrow> string \<Rightarrow> string list result" where
  "ReverseEpisodeAliases e al catalog =
     stmt e ''ReverseEpisodeAliases''
       (Inr (take 5 (map ea_DeviceUuid (filter (\<lambda>a. ea_CatalogUuid a = catalog) al))))"

record GatePlayback =
  gpb_PlayedUpTo :: int
  gpb_Duration :: int
  gpb_PlayingStatus :: int

definition GetEpisodePlaybackForGate :: "env \<Rightarrow> int \<Rightarrow> string \<Rightarrow> social_db \<Rightarrow> GatePlayback result" where
  "GetEpisodePlaybackForGate e uid ep d =
     stmt e ''GetEpisodePlaybackForGate''
       (rbind (select_one (\<lambda>r. ue_UserID r = uid \<and> ue_EpisodeUuid r = ep) (st_user_episodes (sd_core d))) (\<lambda>r.
          Inr \<lparr>gpb_PlayedUpTo = ue_PlayedUpTo r, gpb_Duration = ue_Duration r, gpb_PlayingStatus = ue_PlayingStatus r\<rparr>))"

subsection \<open>Writing\<close>

record InsertCommentParams =
  icp_EpisodeUuid :: string
  icp_PodcastUuid :: string
  icp_EpisodeTitle :: string
  icp_PodcastTitle :: string
  icp_UserID :: "int option"
  icp_Text :: string
  icp_Quote :: string
  icp_QuoteSource :: int
  icp_QuoteSegment :: int
  icp_ParentID :: "int option"
  icp_RootID :: "int option"
  icp_TimestampSeconds :: "int option"

definition new_comment :: "instant \<Rightarrow> int \<Rightarrow> InsertCommentParams \<Rightarrow> EpisodeComment" where
  "new_comment now i a =
     \<lparr>ec_ID = i, ec_EpisodeUuid = icp_EpisodeUuid a, ec_PodcastUuid = icp_PodcastUuid a,
      ec_EpisodeTitle = icp_EpisodeTitle a, ec_PodcastTitle = icp_PodcastTitle a, ec_UserID = icp_UserID a,
      ec_ParentID = icp_ParentID a, ec_RootID = icp_RootID a, ec_Text = icp_Text a,
      ec_TimestampSeconds = icp_TimestampSeconds a, ec_CreatedAt = now, ec_EditedAt = None, ec_RemovedAt = None,
      ec_Quote = icp_Quote a, ec_QuoteSource = icp_QuoteSource a, ec_QuoteSegment = icp_QuoteSegment a\<rparr>"

definition comment_exists :: "int option \<Rightarrow> social_db \<Rightarrow> bool" where
  "comment_exists i d \<longleftrightarrow> (case i of None \<Rightarrow> True | Some i \<Rightarrow> \<exists>c \<in> set (sd_comments d). ec_ID c = i)"

definition InsertComment ::
  "env \<Rightarrow> instant \<Rightarrow> int \<Rightarrow> InsertCommentParams \<Rightarrow> social_db \<Rightarrow> ((int \<times> instant) \<times> social_db) result" where
  "InsertComment e now new_id a d =
     stmt e ''InsertComment''
       (if \<exists>c \<in> set (sd_comments d). ec_ID c = new_id then Inl (PgError ''23505'' ''episode_comments_pkey'')
        else if (case icp_UserID a of None \<Rightarrow> False | Some u \<Rightarrow> \<not> user_exists u d)
        then Inl (PgError ''23503'' ''episode_comments_user_id_fkey'')
        else if \<not> comment_exists (icp_ParentID a) d then Inl (PgError ''23503'' ''episode_comments_parent_id_fkey'')
        else if \<not> comment_exists (icp_RootID a) d then Inl (PgError ''23503'' ''episode_comments_root_id_fkey'')
        else Inr ((new_id, now), d\<lparr>sd_comments := sd_comments d @ [new_comment now new_id a]\<rparr>))"

definition GetCommentByID :: "env \<Rightarrow> int \<Rightarrow> social_db \<Rightarrow> (EpisodeComment \<times> bool) result" where
  "GetCommentByID e i d =
     stmt e ''GetCommentByID''
       (rbind (select_one (\<lambda>c. ec_ID c = i) (sd_comments d)) (\<lambda>c.
          Inr (c, \<exists>r \<in> set (sd_comments d). ec_ParentID r = Some (ec_ID c))))"

definition EditComment :: "env \<Rightarrow> instant \<Rightarrow> int \<Rightarrow> int \<Rightarrow> string \<Rightarrow> social_db \<Rightarrow> (int \<times> social_db) result" where
  "EditComment e now i uid body d =
     stmt e ''EditComment''
       (let P = (\<lambda>c. ec_ID c = i \<and> ec_UserID c = Some uid \<and> ec_RemovedAt c = None)
        in Inr (int (length (filter P (sd_comments d))),
                d\<lparr>sd_comments := update_where P (\<lambda>c. c\<lparr>ec_Text := body, ec_EditedAt := Some now\<rparr>) (sd_comments d)\<rparr>))"

definition TombstoneComment :: "env \<Rightarrow> instant \<Rightarrow> int \<Rightarrow> int \<Rightarrow> social_db \<Rightarrow> (int \<times> social_db) result" where
  "TombstoneComment e now i uid d =
     stmt e ''TombstoneComment''
       (let P = (\<lambda>c. ec_ID c = i \<and> ec_UserID c = Some uid \<and> ec_RemovedAt c = None)
        in Inr (int (length (filter P (sd_comments d))),
                d\<lparr>sd_comments := update_where P (wipe_comment now) (sd_comments d)\<rparr>))"

subsection \<open>Reading\<close>

record CommentRow =
  cr_comment :: EpisodeComment
  cr_AuthorUuid :: "string option"
  cr_Handle :: string
  cr_DisplayName :: string
  cr_ReplyCount :: int

definition comment_author :: "social_db \<Rightarrow> EpisodeComment \<Rightarrow> User option" where
  "comment_author d c =
     (case ec_UserID c of None \<Rightarrow> None | Some u \<Rightarrow> find (\<lambda>r. u_ID r = u) (st_users (sd_core d)))"

definition comment_profile :: "social_db \<Rightarrow> EpisodeComment \<Rightarrow> SocialProfile option" where
  "comment_profile d c = (case ec_UserID c of None \<Rightarrow> None | Some u \<Rightarrow> profile_of u d)"

definition comment_row :: "social_db \<Rightarrow> int option \<Rightarrow> EpisodeComment \<Rightarrow> CommentRow" where
  "comment_row d viewer c =
     \<lparr>cr_comment = c, cr_AuthorUuid = map_option u_Uuid (comment_author d c),
      cr_Handle = (case comment_profile d c of None \<Rightarrow> '''' | Some p \<Rightarrow> sp_Handle p),
      cr_DisplayName = (case comment_profile d c of None \<Rightarrow> '''' | Some p \<Rightarrow> sp_DisplayName p),
      cr_ReplyCount = int32 (int (length (filter
        (\<lambda>r. ec_ParentID r = Some (ec_ID c) \<and> \<not> hidden_author viewer (ec_UserID r) (sd_relationships d))
        (sd_comments d))))\<rparr>"

definition top_level :: "string \<Rightarrow> int option \<Rightarrow> social_db \<Rightarrow> EpisodeComment \<Rightarrow> bool" where
  "top_level ep viewer d c \<longleftrightarrow>
     ec_EpisodeUuid c = ep \<and> ec_ParentID c = None \<and> \<not> hidden_author viewer (ec_UserID c) (sd_relationships d)"

definition reply_to :: "int \<Rightarrow> int option \<Rightarrow> social_db \<Rightarrow> EpisodeComment \<Rightarrow> bool" where
  "reply_to parent viewer d c \<longleftrightarrow>
     ec_ParentID c = Some parent \<and> \<not> hidden_author viewer (ec_UserID c) (sd_relationships d)"

definition GetEpisodeComments :: "env \<Rightarrow> string \<Rightarrow> int option \<Rightarrow> int \<Rightarrow> int \<Rightarrow> social_db \<Rightarrow> CommentRow list result" where
  "GetEpisodeComments e ep viewer limit offset d =
     stmt e ''GetEpisodeComments''
       (Inr (map (comment_row d viewer) (take (nat limit) (drop (nat offset)
          (sort_key (\<lambda>c. - ec_CreatedAt c) (filter (top_level ep viewer d) (sd_comments d)))))))"

definition CountEpisodeComments :: "env \<Rightarrow> string \<Rightarrow> int option \<Rightarrow> social_db \<Rightarrow> int result" where
  "CountEpisodeComments e ep viewer d =
     stmt e ''CountEpisodeComments'' (Inr (int (length (filter (top_level ep viewer d) (sd_comments d)))))"

definition GetCommentReplies :: "env \<Rightarrow> int \<Rightarrow> int option \<Rightarrow> int \<Rightarrow> int \<Rightarrow> social_db \<Rightarrow> CommentRow list result" where
  "GetCommentReplies e parent viewer limit offset d =
     stmt e ''GetCommentReplies''
       (Inr (map (comment_row d viewer) (take (nat limit) (drop (nat offset)
          (sort_key ec_CreatedAt (filter (reply_to parent viewer d) (sd_comments d)))))))"

definition CountCommentReplies :: "env \<Rightarrow> int \<Rightarrow> int option \<Rightarrow> social_db \<Rightarrow> int result" where
  "CountCommentReplies e parent viewer d =
     stmt e ''CountCommentReplies'' (Inr (int (length (filter (reply_to parent viewer d) (sd_comments d)))))"

text \<open>
  The inbox of a user: the replies of others to the user's comments.  The page leaves out a reply
  whose author has no user or profile any more, the two counts do not.
\<close>

definition inbox_reply :: "int \<Rightarrow> int option \<Rightarrow> social_db \<Rightarrow> EpisodeComment \<Rightarrow> bool" where
  "inbox_reply uid viewer d c \<longleftrightarrow>
     (\<exists>p \<in> set (sd_comments d). Some (ec_ID p) = ec_ParentID c \<and> ec_UserID p = Some uid) \<and>
     ec_RemovedAt c = None \<and> ec_UserID c \<noteq> Some uid \<and> \<not> hidden_author viewer (ec_UserID c) (sd_relationships d)"

definition GetInboxReplies :: "env \<Rightarrow> int \<Rightarrow> int option \<Rightarrow> int \<Rightarrow> int \<Rightarrow> social_db \<Rightarrow> CommentRow list result" where
  "GetInboxReplies e uid viewer limit offset d =
     stmt e ''GetInboxReplies''
       (Inr (map (comment_row d viewer) (take (nat limit) (drop (nat offset)
          (sort_key (\<lambda>c. - ec_CreatedAt c)
             (filter (\<lambda>c. inbox_reply uid viewer d c \<and> comment_author d c \<noteq> None \<and> comment_profile d c \<noteq> None)
                (sd_comments d)))))))"

definition CountInboxReplies :: "env \<Rightarrow> int \<Rightarrow> int option \<Rightarrow> social_db \<Rightarrow> int result" where
  "CountInboxReplies e uid viewer d =
     stmt e ''CountInboxReplies'' (Inr (int (length (filter (inbox_reply uid viewer d) (sd_comments d)))))"

definition CountUnreadInboxReplies :: "env \<Rightarrow> int \<Rightarrow> int option \<Rightarrow> social_db \<Rightarrow> int result" where
  "CountUnreadInboxReplies e uid viewer d =
     stmt e ''CountUnreadInboxReplies''
       (Inr (case profile_of uid d of
               None \<Rightarrow> 0
             | Some p \<Rightarrow> int (length (filter (\<lambda>c. inbox_reply uid viewer d c \<and> ec_CreatedAt c > sp_RepliesSeenAt p)
                                 (sd_comments d)))))"

definition SetRepliesSeen :: "env \<Rightarrow> instant \<Rightarrow> int \<Rightarrow> social_db \<Rightarrow> social_db result" where
  "SetRepliesSeen e now uid d =
     stmt e ''SetRepliesSeen''
       (Inr (d\<lparr>sd_profiles := update_where (\<lambda>p. sp_UserID p = uid) (\<lambda>p. p\<lparr>sp_RepliesSeenAt := now\<rparr>) (sd_profiles d)\<rparr>))"

end
