(* ===== verification/Social_Comments.thy ===== *)
theory Social_Comments
  imports Comment_Db Social_Groups
begin

section \<open>Episode comments\<close>

text \<open>
  \<^verbatim>\<open>src/handlers/comments.go\<close>: the tree of comments of an episode, and the inbox of replies.  The
  handlers that resolve aliases take the table of aliases as an argument.
\<close>

subsection \<open>Requests and replies\<close>

definition commentMaxLength :: nat where "commentMaxLength = 2000"
definition commentEditGrace :: int where "commentEditGrace = 5 * 60 * 1000000000"
definition maxCommentPageSize :: int where "maxCommentPageSize = 50"
definition quoteMaxLength :: nat where "quoteMaxLength = 300"

record CommentSubmitRequest =
  csr_EpisodeUuid :: string
  csr_PodcastUuid :: string
  csr_Text :: string
  csr_ParentId :: int
  csr_TimestampSeconds :: "int option"
  csr_EpisodeTitle :: string
  csr_PodcastTitle :: string
  csr_Quote :: string
  csr_QuoteSource :: int
  csr_QuoteSegment :: int

record SocialComment =
  sc_Id :: int
  sc_ParentId :: int
  sc_UserId :: string
  sc_Handle :: string
  sc_DisplayName :: string
  sc_Text :: string
  sc_TimestampSeconds :: "int option"
  sc_CreatedAt :: instant
  sc_Edited :: bool
  sc_Removed :: bool
  sc_ReplyCount :: int
  sc_EpisodeUuid :: string
  sc_PodcastUuid :: string
  sc_EpisodeTitle :: string
  sc_PodcastTitle :: string
  sc_Quote :: string
  sc_QuoteSource :: int
  sc_QuoteSegment :: int

record EpisodeCommentsRequest =
  ecq_EpisodeUuid :: string
  ecq_Limit :: int
  ecq_Offset :: int

record CommentRepliesRequest =
  crq_ParentId :: int
  crq_Limit :: int
  crq_Offset :: int

definition canonicalEpisodeUuid :: "sctx \<Rightarrow> EpisodeAlias list \<Rightarrow> string \<Rightarrow> string" where
  "canonicalEpisodeUuid x al ep =
     (if ep = '''' then ep
      else case ResolveEpisodeAlias (sx_env x) al ep of
             Inr canonical \<Rightarrow> if canonical \<noteq> '''' then canonical else ep
           | Inl _ \<Rightarrow> ep)"

text \<open>Tombstones ship no text and no author.\<close>

definition commentToProto :: "int option \<Rightarrow> CommentRow \<Rightarrow> SocialComment" where
  "commentToProto parent r =
     (let c = cr_comment r; live = (ec_RemovedAt c = None)
      in \<lparr>sc_Id = ec_ID c, sc_ParentId = (case parent of None \<Rightarrow> 0 | Some p \<Rightarrow> p),
          sc_UserId = (if live then (case cr_AuthorUuid r of None \<Rightarrow> '''' | Some u \<Rightarrow> u) else ''''),
          sc_Handle = (if live then cr_Handle r else ''''), sc_DisplayName = (if live then cr_DisplayName r else ''''),
          sc_Text = (if live then ec_Text c else ''''),
          sc_TimestampSeconds = (if live then ec_TimestampSeconds c else None), sc_CreatedAt = ec_CreatedAt c,
          sc_Edited = (ec_EditedAt c \<noteq> None), sc_Removed = (ec_RemovedAt c \<noteq> None), sc_ReplyCount = cr_ReplyCount r,
          sc_EpisodeUuid = '''', sc_PodcastUuid = '''', sc_EpisodeTitle = '''', sc_PodcastTitle = '''',
          sc_Quote = (if live then ec_Quote c else ''''), sc_QuoteSource = (if live then ec_QuoteSource c else 0),
          sc_QuoteSegment = (if live then ec_QuoteSegment c else 0)\<rparr>)"

subsection \<open>Submitting\<close>

definition comment_texts :: "sctx \<Rightarrow> string \<Rightarrow> 'm reply option" where
  "comment_texts x body =
     (if length body > commentMaxLength then Some (access_denied 400 ''comment too long'')
      else if CheckText (al_ToLower (sx_lib x)) (sx_blocklist x) body \<noteq> None
      then Some (access_denied 422 ''comment rejected'')
      else None)"

text \<open>A quote needs a top-level comment with a timestamp, and passes the filter of texts.\<close>

definition quote_check :: "sctx \<Rightarrow> CommentSubmitRequest \<Rightarrow> 'm reply option" where
  "quote_check x req =
     (let q = truncateRunes (csr_Quote req) quoteMaxLength
      in if q = '''' then None
         else if csr_ParentId req > 0 \<or> (case csr_TimestampSeconds req of None \<Rightarrow> True | Some t \<Rightarrow> t < 0)
         then Some (access_denied 400 ''quotes require a timestamp'')
         else if CheckText (al_ToLower (sx_lib x)) (sx_blocklist x) q \<noteq> None
         then Some (access_denied 422 ''quote rejected'')
         else None)"

definition comment_params :: "int \<Rightarrow> string \<Rightarrow> CommentSubmitRequest \<Rightarrow> InsertCommentParams" where
  "comment_params uid canonical req =
     \<lparr>icp_EpisodeUuid = canonical, icp_PodcastUuid = csr_PodcastUuid req,
      icp_EpisodeTitle = truncateRunes (csr_EpisodeTitle req) maxTitleLen,
      icp_PodcastTitle = truncateRunes (csr_PodcastTitle req) maxTitleLen, icp_UserID = Some uid,
      icp_Text = csr_Text req, icp_Quote = '''', icp_QuoteSource = 0, icp_QuoteSegment = 0, icp_ParentID = None,
      icp_RootID = None, icp_TimestampSeconds = None\<rparr>"

text \<open>The parameters of a reply: the parent is live, on the same episode, and its author is not blocked.\<close>

definition reply_params ::
  "sctx \<Rightarrow> int \<Rightarrow> CommentSubmitRequest \<Rightarrow> InsertCommentParams \<Rightarrow> social_db \<Rightarrow> 'm reply + InsertCommentParams" where
  "reply_params x uid req a d =
     (if csr_TimestampSeconds req \<noteq> None then Inl (access_denied 400 ''replies cannot carry timestamps'')
      else
        (case GetCommentByID (sx_env x) (csr_ParentId req) d of
           Inl _ \<Rightarrow> Inl (access_denied 404 ''parent not found'')
         | Inr (parent, _) \<Rightarrow>
             if ec_EpisodeUuid parent \<noteq> icp_EpisodeUuid a \<or> ec_RemovedAt parent \<noteq> None
             then Inl (access_denied 404 ''parent not found'')
             else
               let filled = a\<lparr>icp_ParentID := Some (ec_ID parent),
                     icp_RootID := Some (case ec_RootID parent of None \<Rightarrow> ec_ID parent | Some r \<Rightarrow> r),
                     icp_PodcastUuid := (if icp_PodcastUuid a = '''' then ec_PodcastUuid parent else icp_PodcastUuid a),
                     icp_EpisodeTitle := (if icp_EpisodeTitle a = '''' then ec_EpisodeTitle parent else icp_EpisodeTitle a),
                     icp_PodcastTitle := (if icp_PodcastTitle a = '''' then ec_PodcastTitle parent else icp_PodcastTitle a)\<rparr>
               in (case ec_UserID parent of
                     None \<Rightarrow> Inr filled
                   | Some author \<Rightarrow>
                       if author = uid then Inr filled
                       else (case IsBlockedEither (sx_env x) uid author d of
                               Inl err \<Rightarrow> Inl (write_error x err)
                             | Inr blocked \<Rightarrow>
                                 if blocked then Inl (access_denied 404 ''parent not found'') else Inr filled))))"

text \<open>
  The gate of a top-level comment.  The identities are tried in turn, and the first one with a row
  of playback decides: the episode is completed, or a quarter of it is played.  The product is an
  \<^verbatim>\<open>int64\<close>.
\<close>

definition gate_uuids :: "sctx \<Rightarrow> EpisodeAlias list \<Rightarrow> string \<Rightarrow> string \<Rightarrow> string list" where
  "gate_uuids x al ep canonical =
     ep # (if canonical \<noteq> ep then [canonical] else []) @
     (case ReverseEpisodeAliases (sx_env x) al canonical of Inl _ \<Rightarrow> [] | Inr aliases \<Rightarrow> aliases)"

fun gate_playback :: "sctx \<Rightarrow> int \<Rightarrow> string list \<Rightarrow> social_db \<Rightarrow> GatePlayback option" where
  "gate_playback x uid [] d = None"
| "gate_playback x uid (ep # eps) d =
     (case GetEpisodePlaybackForGate (sx_env x) uid ep d of
        Inl _ \<Rightarrow> gate_playback x uid eps d
      | Inr p \<Rightarrow> Some p)"

definition listened :: "GatePlayback option \<Rightarrow> bool" where
  "listened p \<longleftrightarrow>
     (case p of
        None \<Rightarrow> False
      | Some p \<Rightarrow> gpb_PlayingStatus p = 3 \<or> gpb_Duration p > 0 \<and> int64 (gpb_PlayedUpTo p * 4) \<ge> gpb_Duration p)"

definition moment_params :: "CommentSubmitRequest \<Rightarrow> InsertCommentParams \<Rightarrow> InsertCommentParams" where
  "moment_params req a =
     (let q = truncateRunes (csr_Quote req) quoteMaxLength
      in a\<lparr>icp_TimestampSeconds :=
              (case csr_TimestampSeconds req of None \<Rightarrow> None | Some t \<Rightarrow> if t \<ge> 0 then Some t else None),
           icp_Quote := q,
           icp_QuoteSource := (if q = '''' then 0 else max (csr_QuoteSource req) 0),
           icp_QuoteSegment := (if q = '''' then 0 else max (csr_QuoteSegment req) 0)\<rparr>)"

definition place_comment ::
  "sctx \<Rightarrow> EpisodeAlias list \<Rightarrow> int \<Rightarrow> CommentSubmitRequest \<Rightarrow> social_db \<Rightarrow> 'm reply + InsertCommentParams" where
  "place_comment x al uid req d =
     (let canonical = canonicalEpisodeUuid x al (csr_EpisodeUuid req); a = comment_params uid canonical req
      in if csr_ParentId req > 0 then reply_params x uid req a d
         else if \<not> listened (gate_playback x uid (gate_uuids x al (csr_EpisodeUuid req) canonical) d)
         then Inl (access_denied 403 ''listen to more of this episode first'')
         else Inr (moment_params req a))"

definition reply_push ::
  "sctx \<Rightarrow> User \<Rightarrow> SocialProfile \<Rightarrow> CommentSubmitRequest \<Rightarrow> string \<Rightarrow> social_db \<Rightarrow> data_push list" where
  "reply_push x user profile req podcast d =
     (if csr_ParentId req > 0 then
        (case GetCommentByID (sx_env x) (csr_ParentId req) d of
           Inl _ \<Rightarrow> []
         | Inr (parent, _) \<Rightarrow>
             (case ec_UserID parent of
                None \<Rightarrow> []
              | Some author \<Rightarrow>
                  if author \<noteq> u_ID user \<and> \<not> mutedBy x author (u_ID user) d
                  then notifyData x author SocialPushCommentReply (sp_Handle profile) (sp_DisplayName profile)
                         [(''episode_uuid'', csr_EpisodeUuid req), (''podcast_uuid'', podcast),
                          (''comment_id'', FormatInt (case ec_RootID parent of None \<Rightarrow> ec_ID parent | Some r \<Rightarrow> r))]
                  else []))
      else [])"

text \<open>\<open>submit_comment\<close> is the rest of \<^verbatim>\<open>PostCommentSubmit\<close> after the checks of the texts and of the caller.\<close>

definition submit_comment ::
  "sctx \<Rightarrow> EpisodeAlias list \<Rightarrow> User \<Rightarrow> SocialProfile \<Rightarrow> CommentSubmitRequest \<Rightarrow> social_db \<Rightarrow>
   SocialComment reply \<times> social_db \<times> data_push list" where
  "submit_comment x al user profile req d =
     (case place_comment x al (u_ID user) req d of
        Inl rep \<Rightarrow> (rep, d, [])
      | Inr a \<Rightarrow>
          (case InsertComment (sx_env x) (sx_db x 0) (sx_id x) a d of
             Inl err \<Rightarrow> (write_error x err, d, [])
           | Inr ((i, at), d') \<Rightarrow>
               (Proto 200 \<lparr>sc_Id = i, sc_ParentId = csr_ParentId req, sc_UserId = u_Uuid user,
                  sc_Handle = sp_Handle profile, sc_DisplayName = sp_DisplayName profile,
                  sc_Text = csr_Text req, sc_TimestampSeconds = icp_TimestampSeconds a,
                  sc_CreatedAt = at, sc_Edited = False, sc_Removed = False, sc_ReplyCount = 0,
                  sc_EpisodeUuid = '''', sc_PodcastUuid = '''', sc_EpisodeTitle = '''',
                  sc_PodcastTitle = '''', sc_Quote = icp_Quote a,
                  sc_QuoteSource = icp_QuoteSource a, sc_QuoteSegment = icp_QuoteSegment a\<rparr>,
                d', reply_push x user profile req (icp_PodcastUuid a) d')))"

definition PostCommentSubmit ::
  "sctx \<Rightarrow> EpisodeAlias list \<Rightarrow> CommentSubmitRequest option \<Rightarrow> social_db \<Rightarrow>
   SocialComment reply \<times> social_db \<times> data_push list" where
  "PostCommentSubmit x al req d =
     (case req of
        None \<Rightarrow> (access_denied 400 ''invalid request'', d, [])
      | Some req \<Rightarrow>
          if csr_EpisodeUuid req = '''' \<or> csr_Text req = '''' then (access_denied 400 ''invalid request'', d, [])
          else (case comment_texts x (csr_Text req) of
                  Some rep \<Rightarrow> (rep, d, [])
                | None \<Rightarrow>
                    (case quote_check x req of
                       Some rep \<Rightarrow> (rep, d, [])
                     | None \<Rightarrow>
                         (case requireJoined x d of
                            Inl rep \<Rightarrow> (rep, d, [])
                          | Inr (user, profile) \<Rightarrow> submit_comment x al user profile req d))))"

subsection \<open>Editing and deleting\<close>

definition comment_gone :: "'m reply" where
  "comment_gone = access_denied 404 ''comment not found''"

definition PostCommentEdit :: "sctx \<Rightarrow> (int \<times> string) option \<Rightarrow> social_db \<Rightarrow> bool reply \<times> social_db" where
  "PostCommentEdit x req d =
     (case req of
        None \<Rightarrow> (access_denied 400 ''invalid request'', d)
      | Some (i, body) \<Rightarrow>
          if i \<le> 0 \<or> body = '''' then (access_denied 400 ''invalid request'', d)
          else (case comment_texts x body of
                  Some rep \<Rightarrow> (rep, d)
                | None \<Rightarrow>
                    (case requireJoined x d of
                       Inl rep \<Rightarrow> (rep, d)
                     | Inr (user, _) \<Rightarrow>
                         (case GetCommentByID (sx_env x) i d of
                            Inl _ \<Rightarrow> (comment_gone, d)
                          | Inr (c, hasReplies) \<Rightarrow>
                              if ec_RemovedAt c \<noteq> None \<or> ec_UserID c \<noteq> Some (u_ID user) then (comment_gone, d)
                              else if hasReplies \<or> sx_now x - ec_CreatedAt c > commentEditGrace
                              then (access_denied 409 ''edit window closed'', d)
                              else (case EditComment (sx_env x) (sx_db x 0) i (u_ID user) body d of
                                      Inl err \<Rightarrow> (write_error x err, d)
                                    | Inr (_, d') \<Rightarrow> (Proto 200 True, d'))))))"

definition PostCommentDelete :: "sctx \<Rightarrow> int option \<Rightarrow> social_db \<Rightarrow> bool reply \<times> social_db" where
  "PostCommentDelete x req d =
     (case req of
        None \<Rightarrow> (access_denied 400 ''invalid request'', d)
      | Some i \<Rightarrow>
          if i \<le> 0 then (access_denied 400 ''invalid request'', d)
          else (case requireJoined x d of
                  Inl rep \<Rightarrow> (rep, d)
                | Inr (user, _) \<Rightarrow>
                    (case TombstoneComment (sx_env x) (sx_db x 0) i (u_ID user) d of
                       Inl err \<Rightarrow> (write_error x err, d)
                     | Inr (affected, d') \<Rightarrow> (if affected = 0 then comment_gone else Proto 200 True, d'))))"

subsection \<open>Reading\<close>

definition comment_limit :: "int \<Rightarrow> int" where
  "comment_limit limit = (if limit \<le> 0 \<or> limit > maxCommentPageSize then maxCommentPageSize else limit)"

definition PostEpisodeComments ::
  "sctx \<Rightarrow> EpisodeAlias list \<Rightarrow> EpisodeCommentsRequest option \<Rightarrow> social_db \<Rightarrow> (SocialComment list \<times> int) reply" where
  "PostEpisodeComments x al req d =
     (case req of
        None \<Rightarrow> access_denied 400 ''invalid request''
      | Some req \<Rightarrow>
          if ecq_EpisodeUuid req = '''' then access_denied 400 ''invalid request''
          else
            let viewer = viewerRef (optionalViewerID x d); ep = canonicalEpisodeUuid x al (ecq_EpisodeUuid req)
            in (case GetEpisodeComments (sx_env x) ep viewer (comment_limit (ecq_Limit req)) (max (ecq_Offset req) 0) d of
                  Inl err \<Rightarrow> write_error x err
                | Inr rows \<Rightarrow>
                    (case CountEpisodeComments (sx_env x) ep viewer d of
                       Inl err \<Rightarrow> write_error x err
                     | Inr n \<Rightarrow> Proto 200 (map (commentToProto None) rows, int32 n))))"

definition PostCommentReplies ::
  "sctx \<Rightarrow> CommentRepliesRequest option \<Rightarrow> social_db \<Rightarrow> (SocialComment list \<times> int) reply" where
  "PostCommentReplies x req d =
     (case req of
        None \<Rightarrow> access_denied 400 ''invalid request''
      | Some req \<Rightarrow>
          if crq_ParentId req \<le> 0 then access_denied 400 ''invalid request''
          else
            let viewer = viewerRef (optionalViewerID x d)
            in (case GetCommentReplies (sx_env x) (crq_ParentId req) viewer (comment_limit (crq_Limit req))
                       (max (crq_Offset req) 0) d of
                  Inl err \<Rightarrow> write_error x err
                | Inr rows \<Rightarrow>
                    (case CountCommentReplies (sx_env x) (crq_ParentId req) viewer d of
                       Inl err \<Rightarrow> write_error x err
                     | Inr n \<Rightarrow> Proto 200 (map (\<lambda>r. commentToProto (ec_ParentID (cr_comment r)) r) rows, int32 n))))"

record InboxRepliesResponse =
  irp_Replies :: "SocialComment list"
  irp_Total :: int
  irp_Unread :: int

definition inbox_proto :: "CommentRow \<Rightarrow> SocialComment" where
  "inbox_proto r =
     (let c = cr_comment r
      in (commentToProto (ec_ParentID c) r)
           \<lparr>sc_EpisodeUuid := ec_EpisodeUuid c, sc_PodcastUuid := ec_PodcastUuid c,
            sc_EpisodeTitle := ec_EpisodeTitle c, sc_PodcastTitle := ec_PodcastTitle c\<rparr>)"

definition PostInboxReplies :: "sctx \<Rightarrow> (int \<times> int) option \<Rightarrow> social_db \<Rightarrow> InboxRepliesResponse reply" where
  "PostInboxReplies x req d =
     (case req of
        None \<Rightarrow> access_denied 400 ''invalid request''
      | Some (limit, offset) \<Rightarrow>
          (case requireJoined x d of
             Inl rep \<Rightarrow> rep
           | Inr (user, _) \<Rightarrow>
               let uid = u_ID user
               in (case GetInboxReplies (sx_env x) uid (Some uid) (comment_limit limit) (max offset 0) d of
                     Inl err \<Rightarrow> write_error x err
                   | Inr rows \<Rightarrow>
                       (case CountInboxReplies (sx_env x) uid (Some uid) d of
                          Inl err \<Rightarrow> write_error x err
                        | Inr n \<Rightarrow>
                            (case CountUnreadInboxReplies (sx_env x) uid (Some uid) d of
                               Inl err \<Rightarrow> write_error x err
                             | Inr unread \<Rightarrow>
                                 Proto 200 \<lparr>irp_Replies = map inbox_proto rows, irp_Total = int32 n,
                                   irp_Unread = int32 unread\<rparr>)))))"

definition PostInboxRepliesSeen :: "sctx \<Rightarrow> social_db \<Rightarrow> bool reply \<times> social_db" where
  "PostInboxRepliesSeen x d =
     (case requireJoined x d of
        Inl rep \<Rightarrow> (rep, d)
      | Inr (user, _) \<Rightarrow>
          (case SetRepliesSeen (sx_env x) (sx_db x 0) (u_ID user) d of
             Inl err \<Rightarrow> (write_error x err, d)
           | Inr d' \<Rightarrow> (Proto 200 True, d')))"

end
