(* ===== verification/Comment_Theorems.thy ===== *)
theory Comment_Theorems
  imports Social_Comments List_Safety Sync_Engine
begin

section \<open>Correctness of comments\<close>

text \<open>
  The requests on comments with their effect on the tree, the gate of a top-level comment, and what
  the pages show.
\<close>

subsection \<open>Runs\<close>

datatype comment_act =
    Submit "EpisodeAlias list" "CommentSubmitRequest option"
  | Edit "(int \<times> string) option"
  | Delete "int option"
  | Seen

fun comment_exec :: "sctx \<Rightarrow> comment_act \<Rightarrow> social_db \<Rightarrow> social_db" where
  "comment_exec x (Submit al req) d = fst (snd (PostCommentSubmit x al req d))"
| "comment_exec x (Edit req) d = snd (PostCommentEdit x req d)"
| "comment_exec x (Delete req) d = snd (PostCommentDelete x req d)"
| "comment_exec x Seen d = snd (PostInboxRepliesSeen x d)"

fun comment_run :: "(sctx \<times> comment_act) list \<Rightarrow> social_db \<Rightarrow> social_db" where
  "comment_run [] d = d"
| "comment_run ((x, a) # as) d = comment_run as (comment_exec x a d)"

inductive comment_effect :: "sctx \<Rightarrow> comment_act \<Rightarrow> social_db \<Rightarrow> social_db \<Rightarrow> bool" where
  submit: "comment_effect x (Submit al (Some req)) d d'"
  if "caller x d = Some u" "place_comment x al (u_ID u) req d = (Inr a :: SocialComment reply + InsertCommentParams)"
    "InsertComment (sx_env x) (sx_db x 0) (sx_id x) a d = Inr (c, d')"
| edit: "comment_effect x (Edit (Some (i, body))) d d'"
  if "caller x d = Some u" "GetCommentByID (sx_env x) i d = Inr (c, False)" "ec_RemovedAt c = None"
    "ec_UserID c = Some (u_ID u)" "sx_now x - ec_CreatedAt c \<le> commentEditGrace"
    "EditComment (sx_env x) (sx_db x 0) i (u_ID u) body d = Inr (n, d')"
| wipe: "comment_effect x (Delete (Some i)) d d'"
  if "caller x d = Some u" "TombstoneComment (sx_env x) (sx_db x 0) i (u_ID u) d = Inr (n, d')"
| seen: "comment_effect x Seen d d'"
  if "caller x d = Some u" "SetRepliesSeen (sx_env x) (sx_db x 0) (u_ID u) d = Inr d'"

lemma submit_exec_effect:
  "PostCommentSubmit x al req d = (rep, d1, ps) \<Longrightarrow> d1 = d \<or> comment_effect x (Submit al req) d d1"
  by (auto simp: PostCommentSubmit_def submit_comment_def requireJoined_Inr
      split: option.splits if_splits sum.splits prod.splits intro: comment_effect.submit)

lemma edit_exec_effect: "PostCommentEdit x req d = (rep, d1) \<Longrightarrow> d1 = d \<or> comment_effect x (Edit req) d d1"
  by (auto simp: PostCommentEdit_def requireJoined_Inr not_less
      split: option.splits if_splits sum.splits prod.splits intro: comment_effect.edit)

lemma delete_exec_effect: "PostCommentDelete x req d = (rep, d1) \<Longrightarrow> d1 = d \<or> comment_effect x (Delete req) d d1"
  by (auto simp: PostCommentDelete_def requireJoined_Inr
      split: option.splits if_splits sum.splits prod.splits intro: comment_effect.wipe)

lemma seen_exec_effect: "PostInboxRepliesSeen x d = (rep, d1) \<Longrightarrow> d1 = d \<or> comment_effect x Seen d d1"
  by (auto simp: PostInboxRepliesSeen_def requireJoined_Inr split: sum.splits prod.splits intro: comment_effect.seen)

lemma comment_exec_effect: "comment_exec x a d = d \<or> comment_effect x a d (comment_exec x a d)"
proof (cases a)
  case (Submit al req)
  obtain rep d1 ps where "PostCommentSubmit x al req d = (rep, d1, ps)" by (metis prod_cases3)
  then show ?thesis unfolding Submit using submit_exec_effect by simp
next
  case (Edit req) show ?thesis unfolding Edit comment_exec.simps using edit_exec_effect [OF surjective_pairing] .
next
  case (Delete req) show ?thesis unfolding Delete comment_exec.simps using delete_exec_effect [OF surjective_pairing] .
next
  case Seen show ?thesis unfolding Seen comment_exec.simps using seen_exec_effect [OF surjective_pairing] .
qed

subsection \<open>The tree\<close>

text \<open>
  The links of a comment: its id, episode, parent and root.  A tree is sound when the ids are unique
  and a reply hangs off a comment of its episode and names the top-level comment of the thread.
\<close>

definition links :: "EpisodeComment \<Rightarrow> int \<times> string \<times> int option \<times> int option" where
  "links c = (ec_ID c, ec_EpisodeUuid c, ec_ParentID c, ec_RootID c)"

definition sound_link :: "(int \<times> string \<times> int option \<times> int option) set \<Rightarrow> int \<times> string \<times> int option \<times> int option \<Rightarrow> bool" where
  "sound_link L l \<longleftrightarrow>
     (case l of
        (_, _, None, None) \<Rightarrow> True
      | (_, ep, Some p, Some t) \<Rightarrow>
          (p, ep, None, None) \<in> L \<and> t = p \<or>
          (\<exists>q. (p, ep, Some q, Some t) \<in> L) \<and> (t, ep, None, None) \<in> L
      | _ \<Rightarrow> False)"

definition sound_tree :: "social_db \<Rightarrow> bool" where
  "sound_tree d \<longleftrightarrow> distinct (map ec_ID (sd_comments d)) \<and> (\<forall>l \<in> links ` set (sd_comments d). sound_link (links ` set (sd_comments d)) l)"

lemma sound_link_mono: "sound_link L l \<Longrightarrow> L \<subseteq> M \<Longrightarrow> sound_link M l"
proof -
  assume l: "sound_link L l" and sub: "L \<subseteq> M"
  obtain i ep p t where e: "l = (i, ep, p, t)" by (metis prod_cases4)
  show "sound_link M l" using l subsetD [OF sub] unfolding e by (cases p; cases t) (auto simp: sound_link_def, blast+)
qed

lemma same_links:
  assumes "map links (sd_comments d') = map links (sd_comments d)"
  shows "sound_tree d' = sound_tree d"
proof -
  have ids: "map ec_ID cs = map fst (map links cs)" for cs by (simp add: links_def)
  have "links ` set (sd_comments d') = links ` set (sd_comments d)" using arg_cong [OF assms, of set] by simp
  then show ?thesis unfolding sound_tree_def ids assms by simp
qed

lemma place_comment_parent:
  assumes "place_comment x al uid req d = (Inr a :: 'm reply + InsertCommentParams)"
  obtains "icp_ParentID a = None" "icp_RootID a = None"
  | p where "p \<in> set (sd_comments d)" "ec_EpisodeUuid p = icp_EpisodeUuid a" "icp_ParentID a = Some (ec_ID p)"
      "icp_RootID a = Some (case ec_RootID p of None \<Rightarrow> ec_ID p | Some r \<Rightarrow> r)"
  using assms
  by (auto simp: place_comment_def reply_params_def moment_params_def comment_params_def GetCommentByID_def Let_def res_simps
      dest!: find_Some_mem split: if_splits sum.splits prod.splits option.splits)

lemma insert_comment_row:
  "InsertComment e now i a d = Inr (c, d') \<Longrightarrow>
     sd_comments d' = sd_comments d @ [new_comment now i a] \<and> i \<notin> ec_ID ` set (sd_comments d)"
  by (auto simp: InsertComment_def res_simps split: if_splits)

lemma sound_insert:
  assumes ok: "sound_tree d" and a: "place_comment x al uid req d = (Inr a :: 'm reply + InsertCommentParams)"
    and ins: "InsertComment e now i a d = Inr (c, d')"
  shows "sound_tree d'"
proof -
  let ?L = "links ` set (sd_comments d)" and ?n = "new_comment now i a"
  note row = insert_comment_row [OF ins]
  have old: "sound_link ?L l" if "l \<in> ?L" for l using ok that unfolding sound_tree_def by blast
  have new: "sound_link ?L (links ?n)"
    using a
  proof (cases rule: place_comment_parent)
    case 1
    then show ?thesis by (simp add: links_def new_comment_def sound_link_def)
  next
    case (2 p)
    then have p: "links p \<in> ?L" by simp
    have "sound_link ?L (links p)" using old [OF p] .
    with p 2 show ?thesis
      by (cases "ec_ParentID p"; cases "ec_RootID p") (auto simp: links_def new_comment_def sound_link_def)
  qed
  have "sound_link (links ` set (sd_comments d')) l" if "l \<in> links ` set (sd_comments d')" for l
  proof -
    have "links ` set (sd_comments d') = insert (links ?n) ?L" using row by simp
    then have sub: "?L \<subseteq> links ` set (sd_comments d')" and l: "l = links ?n \<or> l \<in> ?L" using that by blast+
    from l have "sound_link ?L l" using old new by metis
    then show ?thesis using sub by (rule sound_link_mono)
  qed
  moreover have "distinct (map ec_ID (sd_comments d'))" using ok row by (simp add: sound_tree_def new_comment_def)
  ultimately show ?thesis by (simp add: sound_tree_def)
qed

lemma edit_comment_rows:
  "EditComment e now i uid body d = Inr (n, d') \<Longrightarrow> sd_comments d' =
     update_where (\<lambda>c. ec_ID c = i \<and> ec_UserID c = Some uid \<and> ec_RemovedAt c = None)
       (\<lambda>c. c\<lparr>ec_Text := body, ec_EditedAt := Some now\<rparr>) (sd_comments d)"
  by (auto simp: EditComment_def Let_def res_simps)

lemma tombstone_comment_rows:
  "TombstoneComment e now i uid d = Inr (n, d') \<Longrightarrow> sd_comments d' =
     update_where (\<lambda>c. ec_ID c = i \<and> ec_UserID c = Some uid \<and> ec_RemovedAt c = None) (wipe_comment now) (sd_comments d)"
  by (auto simp: TombstoneComment_def Let_def res_simps)

lemma links_update: "(\<And>c. links (f c) = links c) \<Longrightarrow> map links (update_where P f cs) = map links cs"
  by (simp add: update_where_def)

lemma comment_effect_sound:
  assumes "sound_tree d" "comment_effect x a d d'"
  shows "sound_tree d'"
  using assms(2)
proof (cases rule: comment_effect.cases)
  case (submit u al req a c)
  show ?thesis using sound_insert [OF assms(1) submit(3,4)] .
next
  case (edit u i c body n)
  have "map links (sd_comments d') = map links (sd_comments d)"
    unfolding edit_comment_rows [OF edit(7)] by (rule links_update) (simp add: links_def)
  from same_links [OF this] assms(1) show ?thesis by blast
next
  case (wipe u i n)
  have "map links (sd_comments d') = map links (sd_comments d)"
    unfolding tombstone_comment_rows [OF wipe(3)] by (rule links_update) (simp add: links_def wipe_comment_def)
  from same_links [OF this] assms(1) show ?thesis by blast
next
  case (seen u)
  then have "map links (sd_comments d') = map links (sd_comments d)" by (auto simp: SetRepliesSeen_def res_simps)
  from same_links [OF this] assms(1) show ?thesis by blast
qed

lemma comment_run_sound: "sound_tree d \<Longrightarrow> sound_tree (comment_run as d)"
proof (induction as d rule: comment_run.induct)
  case (2 x a as d)
  have "sound_tree (comment_exec x a d)"
    using comment_exec_effect [of x a d] comment_effect_sound [OF 2(2)] 2(2) by metis
  with 2(1) show ?case by simp
qed simp

subsection \<open>The gate and the changes\<close>

lemma gate_found:
  "gate_playback x uid eps d = Some p \<Longrightarrow>
     \<exists>r \<in> set (st_user_episodes (sd_core d)). ue_UserID r = uid \<and> ue_EpisodeUuid r \<in> set eps \<and>
       gpb_PlayedUpTo p = ue_PlayedUpTo r \<and> gpb_Duration p = ue_Duration r \<and> gpb_PlayingStatus p = ue_PlayingStatus r"
  by (induction x uid eps d rule: gate_playback.induct)
    (fastforce simp: GetEpisodePlaybackForGate_def res_simps split: sum.splits dest!: find_Some_mem)+

lemma gate_identities:
  "set (gate_uuids x al ep canonical) \<subseteq> {ep, canonical} \<union> ea_DeviceUuid ` {a \<in> set al. ea_CatalogUuid a = canonical}"
  by (auto simp: gate_uuids_def ReverseEpisodeAliases_def stmt_def dest!: in_set_takeD split: sum.splits option.splits)

lemma keyed_comment:
  assumes tree: "sound_tree d" and p: "p \<in> set (sd_comments d)" "p' \<in> set (sd_comments d')" "ec_ID p' = ec_ID p" "p' \<noteq> p"
    and rows: "sd_comments d' = update_where P f (sd_comments d)" and f: "\<And>c. ec_ID (f c) = ec_ID c"
  shows "P p \<and> p' = f p"
proof -
  have k: "keyed ec_ID (sd_comments d)" using tree by (simp add: sound_tree_def keyed_def)
  have "p' \<in> set (update_where P f (sd_comments d))" using p(2) by (simp only: rows)
  then have "p' = (if P p then f p else p)" by (rule keyed_update_row [OF k p(1) _ p(3) f])
  with p(4) show ?thesis by (simp split: if_splits)
qed

lemma changed_comment:
  assumes tree: "sound_tree d" and eff: "comment_effect x a d d'"
    and p: "p \<in> set (sd_comments d)" "p' \<in> set (sd_comments d')" "ec_ID p' = ec_ID p" "p' \<noteq> p"
  shows "\<exists>u. caller x d = Some u \<and> ec_UserID p = Some (u_ID u) \<and> ec_RemovedAt p = None \<and>
    ((\<exists>s. a = Edit (Some (ec_ID p, s)) \<and> \<not> (\<exists>r \<in> set (sd_comments d). ec_ParentID r = Some (ec_ID p)) \<and>
        sx_now x - ec_CreatedAt p \<le> commentEditGrace \<and> p' = p\<lparr>ec_Text := s, ec_EditedAt := Some (sx_db x 0)\<rparr>) \<or>
     a = Delete (Some (ec_ID p)) \<and> p' = wipe_comment (sx_db x 0) p)"
  using eff
proof (cases rule: comment_effect.cases)
  case (submit u al req a' c)
  note row = insert_comment_row [OF submit(4)]
  then have "ec_ID p \<noteq> sx_id x" using p(1) by (metis imageI)
  then have "p' \<in> set (sd_comments d)" using p(2,3) row by (auto simp: new_comment_def)
  moreover have "keyed ec_ID (sd_comments d)" using tree by (simp add: sound_tree_def keyed_def)
  ultimately show ?thesis using keyed_inj [of ec_ID "sd_comments d" p' p] p(1,3,4) by simp
next
  case (edit u i c body n)
  from keyed_comment [OF tree p edit_comment_rows [OF edit(7)]]
  have row: "ec_ID p = i" "ec_UserID p = Some (u_ID u)" "ec_RemovedAt p = None"
    "p' = p\<lparr>ec_Text := body, ec_EditedAt := Some (sx_db x 0)\<rparr>" by simp_all
  have "c \<in> set (sd_comments d)" "ec_ID c = i" "\<not> (\<exists>r \<in> set (sd_comments d). ec_ParentID r = Some (ec_ID c))"
    using edit(3) by (auto simp: GetCommentByID_def res_simps dest!: find_Some_mem)
  moreover have "keyed ec_ID (sd_comments d)" using tree by (simp add: sound_tree_def keyed_def)
  ultimately have "c = p" "\<not> (\<exists>r \<in> set (sd_comments d). ec_ParentID r = Some (ec_ID p))"
    using keyed_inj [of ec_ID "sd_comments d" c p] p(1) row(1) by auto
  with edit row show ?thesis by (intro exI [of _ u] conjI disjI1 exI [of _ body]) simp_all
next
  case (wipe u i n)
  from keyed_comment [OF tree p tombstone_comment_rows [OF wipe(3)]] wipe(1,2) show ?thesis
    by (intro exI [of _ u]) (simp add: wipe_comment_def)
next
  case (seen u)
  then have "p' \<in> set (sd_comments d)" using p(2) by (auto simp: SetRepliesSeen_def res_simps)
  moreover have "keyed ec_ID (sd_comments d)" using tree by (simp add: sound_tree_def keyed_def)
  ultimately show ?thesis using keyed_inj [of ec_ID "sd_comments d" p' p] p(1,3,4) by simp
qed

text \<open>What a row shows of its comment, for a viewer.\<close>

definition fair_row :: "int option \<Rightarrow> social_db \<Rightarrow> SocialComment \<Rightarrow> bool" where
  "fair_row v d s \<longleftrightarrow>
     (\<exists>c \<in> set (sd_comments d). sc_Id s = ec_ID c \<and> \<not> hidden_author v (ec_UserID c) (sd_relationships d) \<and>
       (if ec_RemovedAt c = None then sc_Text s = ec_Text c
        else sc_Text s = '''' \<and> sc_Quote s = '''' \<and> sc_Handle s = '''' \<and> sc_DisplayName s = '''' \<and> sc_UserId s = ''''))"

lemma page_rows:
  assumes "rows = map (comment_row d v) (take (nat (comment_limit k)) (drop m (sort_key (key :: EpisodeComment \<Rightarrow> int) (filter P (sd_comments d)))))"
    and "\<And>c. P c \<Longrightarrow> \<not> hidden_author v (ec_UserID c) (sd_relationships d)"
  shows "length rows \<le> 50" "r \<in> set rows \<Longrightarrow> fair_row v d (commentToProto par r)"
proof -
  have "nat (comment_limit k) \<le> 50" by (simp add: comment_limit_def maxCommentPageSize_def) linarith
  then show "length rows \<le> 50" by (simp add: assms(1) min.coboundedI2)
  assume "r \<in> set rows"
  then obtain c where "c \<in> set (sd_comments d)" "P c" "r = comment_row d v c"
    by (auto simp: assms(1) dest!: in_set_takeD in_set_dropD)
  then show "fair_row v d (commentToProto par r)"
    using assms(2) by (auto simp: fair_row_def commentToProto_def comment_row_def Let_def)
qed

lemma episode_page:
  assumes "PostEpisodeComments x al req d = Proto 200 (cs, n)"
  shows "length cs \<le> 50 \<and> (\<forall>s \<in> set cs. fair_row (viewerRef (optionalViewerID x d)) d s)"
proof -
  obtain ep k m where cs: "cs = map (commentToProto None) (map (comment_row d (viewerRef (optionalViewerID x d)))
      (take (nat (comment_limit k)) (drop m (sort_key (\<lambda>c. - ec_CreatedAt c)
        (filter (top_level ep (viewerRef (optionalViewerID x d)) d) (sd_comments d))))))"
    using assms
    by (auto simp: PostEpisodeComments_def Let_def GetEpisodeComments_def res_simps write_error_def
        split: option.splits if_splits sum.splits)
  note page = page_rows [OF refl, where P = "top_level ep (viewerRef (optionalViewerID x d)) d"
      and v = "viewerRef (optionalViewerID x d)" and key = "\<lambda>c. - ec_CreatedAt c" and k = k and m = m]
  have "\<not> hidden_author (viewerRef (optionalViewerID x d)) (ec_UserID c) (sd_relationships d)"
    if "top_level ep (viewerRef (optionalViewerID x d)) d c" for c using that by (simp add: top_level_def)
  note page = page [OF this]
  show ?thesis unfolding cs using page by (simp only: set_map length_map) blast
qed

lemma replies_page:
  assumes "PostCommentReplies x req d = Proto 200 (cs, n)"
  shows "length cs \<le> 50 \<and> (\<forall>s \<in> set cs. fair_row (viewerRef (optionalViewerID x d)) d s)"
proof -
  obtain p k m where cs: "cs = map (\<lambda>r. commentToProto (ec_ParentID (cr_comment r)) r) (map (comment_row d (viewerRef (optionalViewerID x d)))
      (take (nat (comment_limit k)) (drop m (sort_key ec_CreatedAt
        (filter (reply_to p (viewerRef (optionalViewerID x d)) d) (sd_comments d))))))"
    using assms
    by (auto simp: PostCommentReplies_def Let_def GetCommentReplies_def res_simps write_error_def
        split: option.splits if_splits sum.splits)
  note page = page_rows [OF refl, where P = "reply_to p (viewerRef (optionalViewerID x d)) d"
      and v = "viewerRef (optionalViewerID x d)" and key = ec_CreatedAt and k = k and m = m]
  have "\<not> hidden_author (viewerRef (optionalViewerID x d)) (ec_UserID c) (sd_relationships d)"
    if "reply_to p (viewerRef (optionalViewerID x d)) d c" for c using that by (simp add: reply_to_def)
  note page = page [OF this]
  show ?thesis unfolding cs using page by (simp only: set_map length_map) blast
qed

subsection \<open>Properties\<close>

text \<open>
  C31. Along any comment requests the comments of every episode form a tree of threads: unique ids,
  and a reply hangs off a comment of its episode and names the top-level comment of that thread.
\<close>

theorem comment_tree:
  assumes "sound_tree d"
  shows "sound_tree (comment_run as d)"
  using assms by (rule comment_run_sound)

lemma int64_le: "0 \<le> z \<Longrightarrow> int64 z \<le> z"
  using int64_range [of z] by (cases "is_int64 z") (auto simp: is_int64_def)

text \<open>
  C32. Where the synced positions are not negative, a top-level comment is accepted only from a user who
  has completed the episode or played a quarter of it, under the submitted identity, the catalogue's, or
  a device alias of that one.  The product of the position and four may overflow; for a position that
  is not negative this only makes the gate stricter, for a negative one see \<open>negative_position_passes\<close>.
\<close>

theorem comment_gate:
  assumes "PostCommentSubmit x al (Some req) d = (Proto 200 resp, d', ps)" "csr_ParentId req \<le> 0"
    and "\<forall>r \<in> set (st_user_episodes (sd_core d)). 0 \<le> ue_PlayedUpTo r"
  shows "\<exists>u. caller x d = Some u \<and> (\<exists>r \<in> set (st_user_episodes (sd_core d)). ue_UserID r = u_ID u \<and>
      (let canonical = canonicalEpisodeUuid x al (csr_EpisodeUuid req)
       in ue_EpisodeUuid r \<in> {csr_EpisodeUuid req, canonical} \<union> ea_DeviceUuid ` {a \<in> set al. ea_CatalogUuid a = canonical}) \<and>
      (ue_PlayingStatus r = 3 \<or> ue_Duration r > 0 \<and> ue_PlayedUpTo r * 4 \<ge> ue_Duration r))"
proof -
  let ?c = "canonicalEpisodeUuid x al (csr_EpisodeUuid req)"
  obtain u a where u: "caller x d = Some u"
    and a: "place_comment x al (u_ID u) req d = (Inr a :: SocialComment reply + InsertCommentParams)"
    using assms(1)
    by (auto simp: PostCommentSubmit_def submit_comment_def requireJoined_Inr joined_no_proto write_error_def comment_texts_def quote_check_def
        Let_def place_comment_def reply_params_def split: option.splits if_splits sum.splits prod.splits)
  then obtain p where p: "gate_playback x (u_ID u) (gate_uuids x al (csr_EpisodeUuid req) ?c) d = Some p" "listened (Some p)"
    using assms(2) by (auto simp: place_comment_def Let_def listened_def split: if_splits option.splits)
  from gate_found [OF p(1)] obtain r where r: "r \<in> set (st_user_episodes (sd_core d))" "ue_UserID r = u_ID u"
    "ue_EpisodeUuid r \<in> set (gate_uuids x al (csr_EpisodeUuid req) ?c)" "gpb_PlayedUpTo p = ue_PlayedUpTo r"
    "gpb_Duration p = ue_Duration r" "gpb_PlayingStatus p = ue_PlayingStatus r" by blast
  have "ue_EpisodeUuid r \<in> {csr_EpisodeUuid req, ?c} \<union> ea_DeviceUuid ` {a \<in> set al. ea_CatalogUuid a = ?c}"
    using r(3) gate_identities [of x al "csr_EpisodeUuid req" ?c] by blast
  moreover have "ue_PlayingStatus r = 3 \<or> ue_Duration r > 0 \<and> ue_PlayedUpTo r * 4 \<ge> ue_Duration r"
    using p(2) r(4-6) int64_le [of "ue_PlayedUpTo r * 4"] assms(3) r(1) by (auto simp: listened_def)
  ultimately show ?thesis using u r(1,2) unfolding Let_def by blast
qed

text \<open>
  C33. A comment changes only by its author: an edit within five minutes and before the first reply,
  which replaces the text, or a deletion, which wipes text, quote and author and keeps the place.
\<close>

theorem comment_changes:
  assumes "sound_tree d" "p \<in> set (sd_comments d)" "p' \<in> set (sd_comments (comment_exec x a d))" "ec_ID p' = ec_ID p" "p' \<noteq> p"
  shows "\<exists>u. caller x d = Some u \<and> ec_UserID p = Some (u_ID u) \<and> ec_RemovedAt p = None \<and>
    ((\<exists>s. a = Edit (Some (ec_ID p, s)) \<and> \<not> (\<exists>r \<in> set (sd_comments d). ec_ParentID r = Some (ec_ID p)) \<and>
        sx_now x - ec_CreatedAt p \<le> commentEditGrace \<and> p' = p\<lparr>ec_Text := s, ec_EditedAt := Some (sx_db x 0)\<rparr>) \<or>
     a = Delete (Some (ec_ID p)) \<and> p' = wipe_comment (sx_db x 0) p)"
proof -
  have "keyed ec_ID (sd_comments d)" using assms(1) by (simp add: sound_tree_def keyed_def)
  then have "p' \<notin> set (sd_comments d)" using keyed_inj assms(2,4,5) by metis
  then have "comment_effect x a d (comment_exec x a d)" using comment_exec_effect [of x a d] assms(3) by metis
  then show ?thesis using changed_comment [OF assms(1) _ assms(2-5)] by blast
qed

text \<open>
  A page of comments has at most fifty entries, none by an author whom the viewer blocks or mutes
  or who blocks the viewer, and a deleted comment shows neither text nor quote nor author.
\<close>

theorem comment_pages:
  assumes "PostEpisodeComments x al req d = Proto 200 (cs, n) \<or> PostCommentReplies x req' d = Proto 200 (cs, n)"
  shows "length cs \<le> 50 \<and>
    (\<forall>s \<in> set cs. \<exists>c \<in> set (sd_comments d). sc_Id s = ec_ID c \<and>
       \<not> hidden_author (viewerRef (optionalViewerID x d)) (ec_UserID c) (sd_relationships d) \<and>
       (if ec_RemovedAt c = None then sc_Text s = ec_Text c
        else sc_Text s = '''' \<and> sc_Quote s = '''' \<and> sc_Handle s = '''' \<and> sc_DisplayName s = '''' \<and> sc_UserId s = ''''))"
  using assms episode_page [of x al req d cs n] replies_page [of x req' d cs n] unfolding fair_row_def by blast

subsection \<open>Witnesses\<close>

text \<open>Bob has commented on the episode \<open>ep\<close> and Ada has answered; Ada has played a quarter of it.\<close>

definition demo_comment :: "int \<Rightarrow> int \<Rightarrow> int option \<Rightarrow> EpisodeComment" where
  "demo_comment i u p =
     \<lparr>ec_ID = i, ec_EpisodeUuid = ''ep'', ec_PodcastUuid = '''', ec_EpisodeTitle = '''', ec_PodcastTitle = '''',
      ec_UserID = Some u, ec_ParentID = p, ec_RootID = p, ec_Text = ''hi'', ec_TimestampSeconds = None,
      ec_CreatedAt = 0, ec_EditedAt = None, ec_RemovedAt = None, ec_Quote = '''', ec_QuoteSource = 0, ec_QuoteSegment = 0\<rparr>"

definition demo_talk :: social_db where
  "demo_talk = demo_social\<lparr>
     sd_core := (sd_core demo_social)\<lparr>st_user_episodes :=
       [(new_episode 1 ''ep'')\<lparr>ue_PlayedUpTo := 25, ue_Duration := 100\<rparr>]\<rparr>,
     sd_comments := [demo_comment 4 2 None, demo_comment 6 1 (Some 4)]\<rparr>"

definition demo_remark :: CommentSubmitRequest where
  "demo_remark = \<lparr>csr_EpisodeUuid = ''ep'', csr_PodcastUuid = '''', csr_Text = ''My'', csr_ParentId = 0,
     csr_TimestampSeconds = Some 7, csr_EpisodeTitle = '''', csr_PodcastTitle = '''', csr_Quote = '''',
     csr_QuoteSource = 0, csr_QuoteSegment = 0\<rparr>"

lemma demo_talk_sound: "sound_tree demo_talk"
  by (simp add: sound_tree_def demo_talk_def demo_comment_def links_def sound_link_def)

lemma demo_talk_caller [simp]: "caller ada demo_talk = Some (demo_member 1 CHR ''1'')"
  "caller bob demo_talk = Some (demo_member 2 CHR ''2'')"
  by code_simp+

lemma comment_tree_witness: "sound_tree (comment_run [(bob, Delete (Some 4))] demo_talk)"
  by (rule comment_tree [OF demo_talk_sound])

lemma comment_changes_witness:
  "hd (sd_comments (comment_exec bob (Delete (Some 4)) demo_talk)) = wipe_comment (sx_db bob 0) (hd (sd_comments demo_talk))"
proof -
  let ?c = "hd (sd_comments demo_talk)" and ?c' = "hd (sd_comments (comment_exec bob (Delete (Some 4)) demo_talk))"
  have "length (sd_comments (comment_exec bob (Delete (Some 4)) demo_talk)) = 2" "ec_ID ?c' = 4" "ec_Text ?c' = ''''" by code_simp+
  moreover have "?c \<in> set (sd_comments demo_talk)" "ec_ID ?c = 4" "ec_Text ?c = ''hi''"
    by (simp_all add: demo_talk_def demo_comment_def)
  moreover from calculation(1) have "?c' \<in> set (sd_comments (comment_exec bob (Delete (Some 4)) demo_talk))"
    by (intro hd_in_set) auto
  moreover have "?c' \<noteq> ?c" using calculation by auto
  ultimately show ?thesis using comment_changes [OF demo_talk_sound, of ?c ?c' bob "Delete (Some 4)"] by auto
qed

lemma demo_remark_reply:
  "PostCommentSubmit ada [] (Some demo_remark) demo_talk =
     submit_comment ada [] (demo_member 1 CHR ''1'') (new_profile 0 1 ''ada'' ''Ada'' 1) demo_remark demo_talk"
proof -
  have "ValidString ''My''" "runes ''My'' = [0x4D, 0x79]" by code_simp+
  then have "CheckText (al_ToLower (sx_lib ada)) (sx_blocklist ada) ''My'' = None"
    by (simp add: CheckText_None demo_sx_def plain_rune_def IsControl_def isDangerousFormatRune_def)
  then have "comment_texts ada (csr_Text demo_remark) = (None :: SocialComment reply option)"
    by (simp add: comment_texts_def commentMaxLength_def demo_remark_def)
  moreover have "quote_check ada demo_remark = (None :: SocialComment reply option)"
    by (simp add: quote_check_def demo_remark_def truncateRunes_def RuneCountInString_def Let_def)
  moreover have "requireJoined ada demo_talk =
      (Inr (demo_member 1 CHR ''1'', new_profile 0 1 ''ada'' ''Ada'' 1) :: SocialComment reply + User \<times> SocialProfile)"
  proof -
    have "profile_of 1 demo_talk = Some (new_profile 0 1 ''ada'' ''Ada'' 1)" by code_simp
    moreover have "u_ID (demo_member 1 CHR ''1'') = 1" by (simp add: demo_member_def demo_user_def)
    ultimately show ?thesis by (simp add: requireJoined_Inr GetSocialProfileByUserID_def res_simps profile_of_def)
  qed
  ultimately show ?thesis by (simp add: PostCommentSubmit_def) (simp add: demo_remark_def)
qed

lemma comment_gate_witness:
  "\<exists>r \<in> set (st_user_episodes (sd_core demo_talk)). ue_UserID r = 1 \<and>
     (ue_PlayingStatus r = 3 \<or> ue_Duration r > 0 \<and> ue_PlayedUpTo r * 4 \<ge> ue_Duration r)"
proof -
  have "(case fst (PostCommentSubmit ada [] (Some demo_remark) demo_talk) of Proto s resp \<Rightarrow> s = 200 | _ \<Rightarrow> False)"
    unfolding demo_remark_reply by code_simp
  then obtain resp where "fst (PostCommentSubmit ada [] (Some demo_remark) demo_talk) = Proto 200 resp"
    by (auto split: reply.splits)
  then obtain d' ps where "PostCommentSubmit ada [] (Some demo_remark) demo_talk = (Proto 200 resp, d', ps)"
    by (metis prod.collapse)
  moreover have "\<forall>r \<in> set (st_user_episodes (sd_core demo_talk)). 0 \<le> ue_PlayedUpTo r" by (simp add: demo_talk_def)
  ultimately show ?thesis using comment_gate [of ada "[]" demo_remark demo_talk resp d' ps]
    by (auto simp: demo_remark_def demo_member_def demo_user_def)
qed

text \<open>
  A negative position of a device, which the sync service stores as it is, passes the gate: four times
  the position wraps to a large positive number.
\<close>

lemma negative_position_passes:
  "listened (Some \<lparr>gpb_PlayedUpTo = - 3 * 2 ^ 60, gpb_Duration = 100, gpb_PlayingStatus = 1\<rparr>)"
  by (simp add: listened_def int64_def)

lemma comment_pages_witness:
  "length (fst (case PostCommentReplies ada (Some \<lparr>crq_ParentId = 4, crq_Limit = 0, crq_Offset = 0\<rparr>) demo_talk of Proto s p \<Rightarrow> p)) \<le> 50"
proof -
  let ?q = "Some \<lparr>crq_ParentId = 4, crq_Limit = 0, crq_Offset = 0\<rparr>"
  have "(case PostCommentReplies ada ?q demo_talk of Proto s p \<Rightarrow> s = 200 \<and> length (fst p) = 1 | _ \<Rightarrow> False)" by code_simp
  then obtain cs n where p: "PostCommentReplies ada ?q demo_talk = Proto 200 (cs, n)"
    by (cases "PostCommentReplies ada ?q demo_talk") auto
  show ?thesis using comment_pages [OF disjI2 [OF p]] by (simp add: p)
qed

end
