(* ===== verification/Catalog_Db.thy ===== *)
theory Catalog_Db
  imports Comment_Db Go_Utf8
begin

section \<open>The tables of the crawler\<close>

text \<open>
  Episodes, their aliases, and the index of credited persons (\<^verbatim>\<open>src/db/models.go\<close>) with the statements
  of \<^verbatim>\<open>src/db/queries.sql.go\<close> the crawler and the worker run on them; the podcasts are those of
  \<open>store\<close>.  The identities of new rows come from one sequence, which moves with every attempt to
  insert, also one that meets a conflict.
\<close>

record Episode =
  ep_ID :: int
  ep_Uuid :: string
  ep_PodcastID :: int
  ep_Guid :: string
  ep_Title :: string
  ep_AudioUrl :: string
  ep_FileType :: string
  ep_FileSize :: int
  ep_DurationSecs :: int
  ep_PublishedAt :: "instant option"
  ep_EpisodeType :: string
  ep_Season :: int
  ep_Number :: int
  ep_ShowNotes :: string
  ep_ImageUrl :: string
  ep_CreatedAt :: instant
  ep_UpdatedAt :: instant
  ep_Transcripts :: json
  ep_ChaptersUrl :: string

record Person =
  pe_ID :: int
  pe_CanonicalName :: string
  pe_DisplayName :: string
  pe_CreatedAt :: instant

record PersonAlias =
  pa_PersonID :: int
  pa_AliasFolded :: string
  pa_Source :: string

record PersonAppearance =
  pp_PersonID :: int
  pp_PodcastUuid :: string
  pp_EpisodeUuid :: string
  pp_Role :: string
  pp_CreatedAt :: instant

record PersonExternalRef =
  px_PersonID :: int
  px_Scheme :: string
  px_Value :: string

record catalog =
  ct_core :: store
  ct_seq :: int
  ct_episodes :: "Episode list"
  ct_aliases :: "EpisodeAlias list"
  ct_persons :: "Person list"
  ct_person_aliases :: "PersonAlias list"
  ct_refs :: "PersonExternalRef list"
  ct_appearances :: "PersonAppearance list"

subsection \<open>Podcasts\<close>

text \<open>The row a feed URL gets before it is crawled for the first time, with the defaults of the table.\<close>

definition pending_podcast :: "instant \<Rightarrow> int \<Rightarrow> string \<Rightarrow> string \<Rightarrow> Podcast" where
  "pending_podcast now i uuid url =
     \<lparr>pc_ID = i, pc_Uuid = uuid, pc_FeedUrl = url, pc_Title = '''', pc_Author = '''', pc_Description = '''',
      pc_ImageUrl = '''', pc_WebsiteUrl = '''', pc_Category = '''', pc_Language = '''', pc_MediaType = ''audio'',
      pc_ShowType = ''episodic'', pc_IsExplicit = False, pc_RefreshStatus = ''pending'', pc_RefreshError = '''',
      pc_FeedEtag = '''', pc_FeedLastModified = '''', pc_LastRefreshAt = None, pc_NextRefreshAt = now,
      pc_LatestEpisodeUuid = None, pc_LatestEpisodePublished = None, pc_ContentModifiedMs = 0, pc_CreatedAt = now,
      pc_UpdatedAt = now, pc_BackgroundColor = '''', pc_TintForLightBg = '''', pc_TintForDarkBg = '''',
      pc_ColorsSourceImageUrl = ''''\<rparr>"

definition on_podcasts :: "(Podcast list \<Rightarrow> Podcast list) \<Rightarrow> catalog \<Rightarrow> catalog" where
  "on_podcasts f c = c\<lparr>ct_core := (ct_core c)\<lparr>st_podcasts := f (st_podcasts (ct_core c))\<rparr>\<rparr>"

definition CreatePodcastPending :: "env \<Rightarrow> instant \<Rightarrow> string \<Rightarrow> string \<Rightarrow> catalog \<Rightarrow> (Podcast \<times> catalog) result" where
  "CreatePodcastPending e now uuid url c =
     stmt e ''CreatePodcastPending''
       (rbind (cast_uuid e uuid) (\<lambda>u.
          let c = c\<lparr>ct_seq := ct_seq c + 1\<rparr>
          in case find (\<lambda>p. pc_Uuid p = u) (st_podcasts (ct_core c)) of
               Some p \<Rightarrow> Inr (p, c)
             | None \<Rightarrow>
                 let p = pending_podcast now (ct_seq c) u url
                 in rbind (insert_row ''podcasts_feed_url_key'' pc_FeedUrl p (st_podcasts (ct_core c)))
                      (\<lambda>ps. Inr (p, on_podcasts (\<lambda>_. ps) c))))"

definition PodcastHasSubscribers :: "env \<Rightarrow> string \<Rightarrow> catalog \<Rightarrow> bool result" where
  "PodcastHasSubscribers e uuid c =
     stmt e ''PodcastHasSubscribers''
       (rbind (cast_uuid e uuid) (\<lambda>u.
          Inr (\<exists>r \<in> set (st_user_podcasts (ct_core c)). up_PodcastUuid r = u \<and> up_Subscribed r \<and> \<not> up_IsDeleted r)))"

definition UpdatePodcastCrawlNotModified :: "env \<Rightarrow> instant \<Rightarrow> int \<Rightarrow> instant \<Rightarrow> catalog \<Rightarrow> catalog result" where
  "UpdatePodcastCrawlNotModified e now i next c =
     stmt e ''UpdatePodcastCrawlNotModified''
       (Inr (on_podcasts (update_where (\<lambda>p. pc_ID p = i)
          (\<lambda>p. p\<lparr>pc_LastRefreshAt := Some now, pc_NextRefreshAt := pg_time e next, pc_UpdatedAt := now\<rparr>)) c))"

text \<open>PostgreSQL refuses a text that is not valid UTF-8; only the cut error message can be one.\<close>

definition cast_text :: "string \<Rightarrow> string result" where
  "cast_text s = (if ValidString s then Inr s else Inl (PgError ''22021'' ''''))"

text \<open>A podcast that has been crawled once stays served: its status is kept.\<close>

definition failed_podcast :: "env \<Rightarrow> instant \<Rightarrow> string \<Rightarrow> instant \<Rightarrow> Podcast \<Rightarrow> Podcast" where
  "failed_podcast e now message next p =
     p\<lparr>pc_RefreshStatus := (if pc_RefreshStatus p = ''ok'' then ''ok'' else ''failed''), pc_RefreshError := message,
       pc_LastRefreshAt := Some now, pc_NextRefreshAt := pg_time e next, pc_UpdatedAt := now\<rparr>"

definition UpdatePodcastCrawlFailure :: "env \<Rightarrow> instant \<Rightarrow> int \<Rightarrow> string \<Rightarrow> instant \<Rightarrow> catalog \<Rightarrow> catalog result" where
  "UpdatePodcastCrawlFailure e now i message next c =
     stmt e ''UpdatePodcastCrawlFailure''
       (rbind (cast_text message) (\<lambda>message.
          Inr (on_podcasts (update_where (\<lambda>p. pc_ID p = i) (failed_podcast e now message next)) c)))"

record CrawlSuccessParams =
  cs_Title :: string
  cs_Author :: string
  cs_Description :: string
  cs_ImageUrl :: string
  cs_WebsiteUrl :: string
  cs_Category :: string
  cs_Language :: string
  cs_MediaType :: string
  cs_ShowType :: string
  cs_IsExplicit :: bool
  cs_FeedEtag :: string
  cs_FeedLastModified :: string
  cs_LatestEpisodeUuid :: "string option"
  cs_LatestEpisodePublished :: "instant option"
  cs_ContentModifiedMs :: int
  cs_NextRefreshAt :: instant

definition crawled_podcast :: "env \<Rightarrow> instant \<Rightarrow> CrawlSuccessParams \<Rightarrow> string option \<Rightarrow> Podcast \<Rightarrow> Podcast" where
  "crawled_podcast e now a latest p =
     p\<lparr>pc_Title := cs_Title a, pc_Author := cs_Author a, pc_Description := cs_Description a,
       pc_ImageUrl := cs_ImageUrl a, pc_WebsiteUrl := cs_WebsiteUrl a, pc_Category := cs_Category a,
       pc_Language := cs_Language a, pc_MediaType := cs_MediaType a, pc_ShowType := cs_ShowType a,
       pc_IsExplicit := cs_IsExplicit a, pc_FeedEtag := cs_FeedEtag a,
       pc_FeedLastModified := cs_FeedLastModified a, pc_LatestEpisodeUuid := latest,
       pc_LatestEpisodePublished := map_option (pg_time e) (cs_LatestEpisodePublished a),
       pc_ContentModifiedMs := cs_ContentModifiedMs a, pc_RefreshStatus := ''ok'', pc_RefreshError := '''',
       pc_LastRefreshAt := Some now, pc_NextRefreshAt := pg_time e (cs_NextRefreshAt a), pc_UpdatedAt := now\<rparr>"

definition UpdatePodcastCrawlSuccess :: "env \<Rightarrow> instant \<Rightarrow> int \<Rightarrow> CrawlSuccessParams \<Rightarrow> catalog \<Rightarrow> catalog result" where
  "UpdatePodcastCrawlSuccess e now i a c =
     stmt e ''UpdatePodcastCrawlSuccess''
       (rbind (cast_uuid_null e (cs_LatestEpisodeUuid a)) (\<lambda>latest.
          Inr (on_podcasts (update_where (\<lambda>p. pc_ID p = i) (crawled_podcast e now a latest)) c)))"

definition GetDuePodcasts :: "env \<Rightarrow> instant \<Rightarrow> int \<Rightarrow> catalog \<Rightarrow> Podcast list result" where
  "GetDuePodcasts e now limit c =
     stmt e ''GetDuePodcasts''
       (Inr (take (nat limit) (sort_key pc_NextRefreshAt (filter (\<lambda>p. pc_NextRefreshAt p \<le> now) (st_podcasts (ct_core c))))))"

subsection \<open>Episodes and their aliases\<close>

record UpsertEpisodeParams =
  upe_Uuid :: string
  upe_PodcastID :: int
  upe_Guid :: string
  upe_Title :: string
  upe_AudioUrl :: string
  upe_FileType :: string
  upe_FileSize :: int
  upe_DurationSecs :: int
  upe_PublishedAt :: "instant option"
  upe_EpisodeType :: string
  upe_Season :: int
  upe_Number :: int
  upe_ShowNotes :: string
  upe_ImageUrl :: string
  upe_Transcripts :: json
  upe_ChaptersUrl :: string

definition episode_key :: "Episode \<Rightarrow> int \<times> string" where
  "episode_key r = (ep_PodcastID r, ep_Guid r)"

definition params_key :: "UpsertEpisodeParams \<Rightarrow> int \<times> string" where
  "params_key a = (upe_PodcastID a, upe_Guid a)"

text \<open>What a conflict overwrites: all but the identity, the uuid, the key and the time of creation.\<close>

definition refreshed_episode :: "env \<Rightarrow> instant \<Rightarrow> UpsertEpisodeParams \<Rightarrow> Episode \<Rightarrow> Episode" where
  "refreshed_episode e now a r =
     r\<lparr>ep_Title := upe_Title a, ep_AudioUrl := upe_AudioUrl a, ep_FileType := upe_FileType a, ep_FileSize := upe_FileSize a,
       ep_DurationSecs := upe_DurationSecs a, ep_PublishedAt := map_option (pg_time e) (upe_PublishedAt a),
       ep_EpisodeType := upe_EpisodeType a, ep_Season := upe_Season a, ep_Number := upe_Number a,
       ep_ShowNotes := upe_ShowNotes a, ep_ImageUrl := upe_ImageUrl a, ep_UpdatedAt := now,
       ep_Transcripts := pg_jsonb e (upe_Transcripts a), ep_ChaptersUrl := upe_ChaptersUrl a\<rparr>"

definition new_episode_row :: "env \<Rightarrow> instant \<Rightarrow> int \<Rightarrow> string \<Rightarrow> UpsertEpisodeParams \<Rightarrow> Episode" where
  "new_episode_row e now i uuid a =
     \<lparr>ep_ID = i, ep_Uuid = uuid, ep_PodcastID = upe_PodcastID a, ep_Guid = upe_Guid a, ep_Title = upe_Title a,
      ep_AudioUrl = upe_AudioUrl a, ep_FileType = upe_FileType a, ep_FileSize = upe_FileSize a,
      ep_DurationSecs = upe_DurationSecs a, ep_PublishedAt = map_option (pg_time e) (upe_PublishedAt a),
      ep_EpisodeType = upe_EpisodeType a, ep_Season = upe_Season a, ep_Number = upe_Number a,
      ep_ShowNotes = upe_ShowNotes a, ep_ImageUrl = upe_ImageUrl a, ep_CreatedAt = now, ep_UpdatedAt = now,
      ep_Transcripts = pg_jsonb e (upe_Transcripts a), ep_ChaptersUrl = upe_ChaptersUrl a\<rparr>"

text \<open>A conflict on the pair of podcast and guid updates; one on the uuid alone fails.\<close>

definition UpsertEpisode :: "env \<Rightarrow> instant \<Rightarrow> UpsertEpisodeParams \<Rightarrow> catalog \<Rightarrow> catalog result" where
  "UpsertEpisode e now a c =
     stmt e ''UpsertEpisode''
       (rbind (cast_uuid e (upe_Uuid a)) (\<lambda>u.
          let c = c\<lparr>ct_seq := ct_seq c + 1\<rparr>
          in if params_key a \<in> episode_key ` set (ct_episodes c)
             then Inr (c\<lparr>ct_episodes :=
               update_where (\<lambda>r. episode_key r = params_key a) (refreshed_episode e now a) (ct_episodes c)\<rparr>)
             else if upe_PodcastID a \<notin> pc_ID ` set (st_podcasts (ct_core c))
             then Inl (PgError ''23503'' ''episodes_podcast_id_fkey'')
             else rbind (insert_row ''episodes_uuid_key'' ep_Uuid (new_episode_row e now (ct_seq c) u a) (ct_episodes c))
                    (\<lambda>rs. Inr (c\<lparr>ct_episodes := rs\<rparr>))))"

definition UpsertEpisodeAlias :: "env \<Rightarrow> string \<Rightarrow> string \<Rightarrow> catalog \<Rightarrow> catalog result" where
  "UpsertEpisodeAlias e device cat c =
     stmt e ''UpsertEpisodeAlias''
       (Inr (c\<lparr>ct_aliases := insert_new ea_DeviceUuid \<lparr>ea_DeviceUuid = device, ea_CatalogUuid = cat\<rparr> (ct_aliases c)\<rparr>))"

text \<open>
  The statement compares \<^verbatim>\<open>episode_aliases.catalog_uuid\<close>, a \<^verbatim>\<open>TEXT\<close>, with \<^verbatim>\<open>episodes.uuid\<close>, a \<^verbatim>\<open>UUID\<close>, without
  a cast.  PostgreSQL has no such operator and refuses the statement (undefined function), whatever
  the tables hold.
\<close>

definition GetEpisodesForAliasBackfill :: "env \<Rightarrow> int \<Rightarrow> int \<Rightarrow> catalog \<Rightarrow> (int \<times> string \<times> string) list result" where
  "GetEpisodesForAliasBackfill e after limit c = stmt e ''GetEpisodesForAliasBackfill'' (Inl (PgError ''42883'' ''''))"

subsection \<open>Persons\<close>

text \<open>Of the persons with an alias the one of the least identity is found.\<close>

definition FindPersonByAlias :: "env \<Rightarrow> string \<Rightarrow> catalog \<Rightarrow> Person result" where
  "FindPersonByAlias e folded c =
     stmt e ''FindPersonByAlias''
       (select_one
          (\<lambda>p. \<exists>a \<in> set (ct_person_aliases c). pa_PersonID a = pe_ID p \<and> pa_AliasFolded a = folded)
          (sort_key pe_ID (ct_persons c)))"

definition GetPerson :: "env \<Rightarrow> int \<Rightarrow> catalog \<Rightarrow> Person result" where
  "GetPerson e i c = stmt e ''GetPerson'' (select_one (\<lambda>p. pe_ID p = i) (ct_persons c))"

definition CreatePerson :: "env \<Rightarrow> instant \<Rightarrow> string \<Rightarrow> string \<Rightarrow> catalog \<Rightarrow> (Person \<times> catalog) result" where
  "CreatePerson e now canonical display c =
     stmt e ''CreatePerson''
       (let c = c\<lparr>ct_seq := ct_seq c + 1\<rparr>;
            p = \<lparr>pe_ID = ct_seq c, pe_CanonicalName = canonical, pe_DisplayName = display, pe_CreatedAt = now\<rparr>
        in rbind (insert_row ''persons_pkey'' pe_ID p (ct_persons c)) (\<lambda>ps. Inr (p, c\<lparr>ct_persons := ps\<rparr>)))"

text \<open>
  The key of the table is the pair of alias and person; a second index keeps the aliases of the
  source \<^verbatim>\<open>ingest\<close> unique.
\<close>

definition AddPersonAlias :: "env \<Rightarrow> int \<Rightarrow> string \<Rightarrow> string \<Rightarrow> catalog \<Rightarrow> catalog result" where
  "AddPersonAlias e i folded source c =
     stmt e ''AddPersonAlias''
       (if \<exists>a \<in> set (ct_person_aliases c). pa_AliasFolded a = folded \<and> pa_PersonID a = i then Inr c
        else if source = ''ingest'' \<and> (\<exists>a \<in> set (ct_person_aliases c). pa_AliasFolded a = folded \<and> pa_Source a = ''ingest'')
        then Inl (PgError ''23505'' ''person_aliases_ingest_alias_unique'')
        else Inr (c\<lparr>ct_person_aliases := ct_person_aliases c @
               [\<lparr>pa_PersonID = i, pa_AliasFolded = folded, pa_Source = source\<rparr>]\<rparr>))"

definition AddPersonExternalRef :: "env \<Rightarrow> int \<Rightarrow> string \<Rightarrow> string \<Rightarrow> catalog \<Rightarrow> catalog result" where
  "AddPersonExternalRef e i scheme v c =
     stmt e ''AddPersonExternalRef''
       (Inr (c\<lparr>ct_refs := insert_new (\<lambda>r. (px_Scheme r, px_Value r)) \<lparr>px_PersonID = i, px_Scheme = scheme, px_Value = v\<rparr> (ct_refs c)\<rparr>))"

text \<open>The statement returns a row, the person, only when it inserts one.\<close>

definition UpsertPersonAppearance :: "env \<Rightarrow> instant \<Rightarrow> int \<Rightarrow> string \<Rightarrow> string \<Rightarrow> string \<Rightarrow> catalog \<Rightarrow> (int \<times> catalog) result" where
  "UpsertPersonAppearance e now i podcast ep role c =
     stmt e ''UpsertPersonAppearance''
       (rbind (cast_uuid e podcast) (\<lambda>pu. rbind (cast_uuid e ep) (\<lambda>eu.
          let key = (\<lambda>r. (pp_PersonID r, pp_EpisodeUuid r));
              r = \<lparr>pp_PersonID = i, pp_PodcastUuid = pu, pp_EpisodeUuid = eu, pp_Role = role, pp_CreatedAt = now\<rparr>
          in if key r \<in> key ` set (ct_appearances c) then Inl ErrNoRows
             else Inr (i, c\<lparr>ct_appearances := ct_appearances c @ [r]\<rparr>))))"

end
