(* ===== verification/Feed_Fetch.thy ===== *)
theory Feed_Fetch
  imports Db_Store "HOL-Library.Word"
begin

section \<open>Fetching feeds\<close>

text \<open>
  \<^verbatim>\<open>src/crawler/fetcher.go\<close>: which addresses the server may be made to dial, and the conditional
  request for a feed.  \<open>addr\<close>, \<open>prefix\<close> and their operations are \<^verbatim>\<open>netip.Addr\<close> and \<^verbatim>\<open>netip.Prefix\<close> of
  the standard library; the parsers of texts, the resolver, the dialer and the HTTP client are the
  fields of \<open>net\<close>.
\<close>

subsection \<open>Addresses\<close>

text \<open>An address of the sixth version may carry a zone, the name of a network interface; \<open>NoAddr\<close> is the zero value.\<close>

datatype addr = NoAddr | V4 "32 word" | V6 "128 word" string

datatype prefix = Net4 "32 word" nat | Net6 "128 word" nat

fun Unmap :: "addr \<Rightarrow> addr" where
  "Unmap (V6 w z) = (if drop_bit 32 w = 0xFFFF then V4 (ucast w) else V6 w z)"
| "Unmap a = a"

text \<open>A prefix holds addresses of its own version, and none with a zone.\<close>

fun Contains :: "prefix \<Rightarrow> addr \<Rightarrow> bool" where
  "Contains (Net4 p n) (V4 w) \<longleftrightarrow> drop_bit (32 - n) w = drop_bit (32 - n) p"
| "Contains (Net6 p n) (V6 w z) \<longleftrightarrow> z = '''' \<and> drop_bit (128 - n) w = drop_bit (128 - n) p"
| "Contains p a \<longleftrightarrow> False"

fun IsGlobalUnicast :: "addr \<Rightarrow> bool" where
  "IsGlobalUnicast NoAddr \<longleftrightarrow> False"
| "IsGlobalUnicast (V4 w) \<longleftrightarrow>
     w \<noteq> 0 \<and> w \<noteq> 0xFFFFFFFF \<and> drop_bit 24 w \<noteq> 127 \<and> drop_bit 28 w \<noteq> 0xE \<and> drop_bit 16 w \<noteq> 0xA9FE"
| "IsGlobalUnicast (V6 w z) \<longleftrightarrow>
     \<not> (w = 0 \<and> z = '''') \<and> w \<noteq> 1 \<and> drop_bit 120 w \<noteq> 0xFF \<and> drop_bit 118 w \<noteq> 0x3FA"

definition blockedFeedNetworks :: "prefix list" where
  "blockedFeedNetworks =
     [Net4 0 8, Net4 0x0A000000 8, Net4 0x64400000 10, Net4 0x7F000000 8, Net4 0xA9FE0000 16, Net4 0xAC100000 12,
      Net4 0xC0000000 24, Net4 0xC0000200 24, Net4 0xC01FC400 24, Net4 0xC034C100 24, Net4 0xC0586300 24,
      Net4 0xC0A80000 16, Net4 0xC0AF3000 24, Net4 0xC6120000 15, Net4 0xC6336400 24, Net4 0xCB007100 24,
      Net4 0xE0000000 4, Net4 0xF0000000 4,
      Net6 0 128, Net6 1 128, Net6 0x0064FF9B000000000000000000000000 96, Net6 0x0064FF9B000100000000000000000000 48,
      Net6 0x01000000000000000000000000000000 64, Net6 0x20010000000000000000000000000000 23,
      Net6 0x20010DB8000000000000000000000000 32, Net6 0x20020000000000000000000000000000 16,
      Net6 0x3FFF0000000000000000000000000000 20, Net6 0x5F000000000000000000000000000000 16,
      Net6 0xFC000000000000000000000000000000 7, Net6 0xFEC00000000000000000000000000000 10,
      Net6 0xFE800000000000000000000000000000 10, Net6 0xFF000000000000000000000000000000 8]"

definition isPublicFeedAddress :: "addr \<Rightarrow> bool" where
  "isPublicFeedAddress a =
     (let a = Unmap a
      in if a = NoAddr \<or> \<not> IsGlobalUnicast a then False
         else \<not> (\<exists>p \<in> set blockedFeedNetworks. Contains p a))"

subsection \<open>The guarded dialer\<close>

text \<open>The parts of a parsed URL that the checks read.\<close>

record feed_url =
  fu_Scheme :: string
  fu_Hostname :: string
  fu_User :: "string option"

record feed_response =
  fr_StatusCode :: int
  fr_Body :: "goerr + string"
  fr_ETag :: string
  fr_LastModified :: string

record net =
  ParseRequestURI :: "string \<Rightarrow> goerr + feed_url"
  ParseAddr :: "string \<Rightarrow> addr option"
  addr_String :: "addr \<Rightarrow> string"
  quoted :: "string \<Rightarrow> string"
  decimal :: "int \<Rightarrow> string"
  SplitHostPort :: "string \<Rightarrow> goerr + (string \<times> string)"
  LookupNetIP :: "string \<Rightarrow> goerr + addr list"
  DialContext :: "string \<Rightarrow> string \<Rightarrow> goerr + nat"
  client_Do :: "string \<Rightarrow> (string \<times> string) list \<Rightarrow> goerr + feed_response"

definition validateFeedURL :: "net \<Rightarrow> string \<Rightarrow> bool \<Rightarrow> goerr option" where
  "validateFeedURL L raw allowPrivate =
     (case ParseRequestURI L raw of
        Inl err \<Rightarrow> Some (WrapError ''invalid feed URL: '' err)
      | Inr u \<Rightarrow>
          if fu_Scheme u \<noteq> ''http'' \<and> fu_Scheme u \<noteq> ''https''
          then Some (NewError (''feed URL scheme '' @ quoted L (fu_Scheme u) @ '' is not allowed''))
          else if fu_Hostname u = '''' \<or> fu_User u \<noteq> None
          then Some (NewError ''feed URL must have a host and no user info'')
          else (case ParseAddr L (fu_Hostname u) of
                  None \<Rightarrow> None
                | Some a \<Rightarrow>
                    if \<not> allowPrivate \<and> \<not> isPublicFeedAddress a
                    then Some (NewError (''feed URL address '' @ addr_String L a @ '' is not public''))
                    else None))"

definition JoinHostPort :: "string \<Rightarrow> string \<Rightarrow> string" where
  "JoinHostPort host port =
     (if CHR '':'' \<in> set host then ''['' @ host @ '']:'' @ port else host @ '':'' @ port)"

text \<open>
  \<open>dial_first\<close> is the loop over the resolved addresses; its second result lists the addresses
  dialed.  A connection is a number.
\<close>

fun dial_first :: "net \<Rightarrow> string \<Rightarrow> string \<Rightarrow> goerr \<Rightarrow> addr list \<Rightarrow> (goerr + nat) \<times> addr list" where
  "dial_first L network port dialErr [] = (Inl (WrapError ''dial feed host: '' dialErr), [])"
| "dial_first L network port dialErr (a # as) =
     (case DialContext L network (JoinHostPort (addr_String L a) port) of
        Inr conn \<Rightarrow> (Inr conn, [a])
      | Inl err \<Rightarrow> (let (r, dialed) = dial_first L network port err as in (r, a # dialed)))"

text \<open>The list of addresses is not empty when the loop starts, so its error is never the initial one.\<close>

definition feed_addresses :: "net \<Rightarrow> string \<Rightarrow> goerr + addr list" where
  "feed_addresses L host = (case ParseAddr L host of Some literal \<Rightarrow> Inr [literal] | None \<Rightarrow> LookupNetIP L host)"

definition safeFeedDialContext :: "net \<Rightarrow> bool \<Rightarrow> string \<Rightarrow> string \<Rightarrow> (goerr + nat) \<times> addr list" where
  "safeFeedDialContext L allowPrivate network address =
     (case SplitHostPort L address of
        Inl err \<Rightarrow> (Inl (WrapError ''invalid feed dial address: '' err), [])
      | Inr (host, port) \<Rightarrow>
          (case feed_addresses L host of
             Inl err \<Rightarrow> (Inl (WrapError ''resolve feed host: '' err), [])
           | Inr addresses \<Rightarrow>
               if addresses = [] then (Inl (NewError ''feed host resolved to no addresses''), [])
               else (case find (\<lambda>a. \<not> allowPrivate \<and> \<not> isPublicFeedAddress a) addresses of
                       Some a \<Rightarrow> (Inl (NewError (''feed host resolved to non-public address '' @ addr_String L a)), [])
                     | None \<Rightarrow> dial_first L network port (NewError '''') addresses)))"

definition CheckRedirect :: "net \<Rightarrow> bool \<Rightarrow> string list \<Rightarrow> string \<Rightarrow> goerr option" where
  "CheckRedirect L allowPrivate via raw =
     (if length via \<ge> 10 then Some (NewError ''too many feed redirects'') else validateFeedURL L raw allowPrivate)"

subsection \<open>The conditional request\<close>

text \<open>
  A body is what reading it to the end gives, an error or bytes; \<open>None\<close> answers a request that
  found nothing new.
\<close>

record FetchResult =
  fe_Body :: "(goerr + string) option"
  fe_ETag :: string
  fe_LastModified :: string
  fe_NotModified :: bool

definition fetch_headers :: "string \<Rightarrow> string \<Rightarrow> (string \<times> string) list" where
  "fetch_headers etag lastModified =
     (''User-Agent'', ''podcast-backend/1.0 (+https://github.com/hbmartin/podcast-backend)'') #
     (if etag \<noteq> '''' then [(''If-None-Match'', etag)] else []) @
     (if lastModified \<noteq> '''' then [(''If-Modified-Since'', lastModified)] else [])"

definition Fetch :: "net \<Rightarrow> bool \<Rightarrow> string \<Rightarrow> string \<Rightarrow> string \<Rightarrow> goerr + FetchResult" where
  "Fetch L allowPrivate raw etag lastModified =
     (case validateFeedURL L raw allowPrivate of
        Some err \<Rightarrow> Inl err
      | None \<Rightarrow>
          (case client_Do L raw (fetch_headers etag lastModified) of
             Inl err \<Rightarrow> Inl err
           | Inr resp \<Rightarrow>
               if fr_StatusCode resp = 304
               then Inr \<lparr>fe_Body = None, fe_ETag = '''', fe_LastModified = '''', fe_NotModified = True\<rparr>
               else if fr_StatusCode resp \<noteq> 200 then Inl (NewError (''feed fetch returned status '' @ decimal L (fr_StatusCode resp)))
               else Inr \<lparr>fe_Body = Some (fr_Body resp), fe_ETag = fr_ETag resp,
                      fe_LastModified = fr_LastModified resp, fe_NotModified = False\<rparr>))"

subsection \<open>The reserved ranges\<close>

text \<open>The ranges of the two registries of special-purpose addresses, from the first to the last address of each.\<close>

definition ip4 :: "nat \<Rightarrow> nat \<Rightarrow> nat \<Rightarrow> nat \<Rightarrow> nat" where
  "ip4 a b c d = ((a * 256 + b) * 256 + c) * 256 + d"

definition reserved4 :: "(nat \<times> nat) list" where
  "reserved4 =
     [(ip4 0 0 0 0, ip4 0 255 255 255), (ip4 10 0 0 0, ip4 10 255 255 255), (ip4 100 64 0 0, ip4 100 127 255 255),
      (ip4 127 0 0 0, ip4 127 255 255 255), (ip4 169 254 0 0, ip4 169 254 255 255), (ip4 172 16 0 0, ip4 172 31 255 255),
      (ip4 192 0 0 0, ip4 192 0 0 255), (ip4 192 0 2 0, ip4 192 0 2 255), (ip4 192 88 99 0, ip4 192 88 99 255),
      (ip4 192 168 0 0, ip4 192 168 255 255), (ip4 198 18 0 0, ip4 198 19 255 255), (ip4 198 51 100 0, ip4 198 51 100 255),
      (ip4 203 0 113 0, ip4 203 0 113 255), (ip4 224 0 0 0, ip4 239 255 255 255), (ip4 240 0 0 0, ip4 255 255 255 255)]"

definition ip6 :: "nat list \<Rightarrow> nat" where
  "ip6 hs = foldl (\<lambda>n h. n * 65536 + h) 0 hs"

definition reserved6 :: "(nat \<times> nat) list" where
  "reserved6 =
     [(0, 1),
      (ip6 [0x64, 0xFF9B, 0, 0, 0, 0, 0, 0], ip6 [0x64, 0xFF9B, 0, 0, 0, 0, 0xFFFF, 0xFFFF]),
      (ip6 [0x2001, 0xDB8, 0, 0, 0, 0, 0, 0], ip6 [0x2001, 0xDB8, 0xFFFF, 0xFFFF, 0xFFFF, 0xFFFF, 0xFFFF, 0xFFFF]),
      (ip6 [0x2002, 0, 0, 0, 0, 0, 0, 0], ip6 [0x2002, 0xFFFF, 0xFFFF, 0xFFFF, 0xFFFF, 0xFFFF, 0xFFFF, 0xFFFF]),
      (ip6 [0xFC00, 0, 0, 0, 0, 0, 0, 0], ip6 [0xFDFF, 0xFFFF, 0xFFFF, 0xFFFF, 0xFFFF, 0xFFFF, 0xFFFF, 0xFFFF]),
      (ip6 [0xFE80, 0, 0, 0, 0, 0, 0, 0], ip6 [0xFEBF, 0xFFFF, 0xFFFF, 0xFFFF, 0xFFFF, 0xFFFF, 0xFFFF, 0xFFFF]),
      (ip6 [0xFEC0, 0, 0, 0, 0, 0, 0, 0], ip6 [0xFEFF, 0xFFFF, 0xFFFF, 0xFFFF, 0xFFFF, 0xFFFF, 0xFFFF, 0xFFFF]),
      (ip6 [0xFF00, 0, 0, 0, 0, 0, 0, 0], ip6 [0xFFFF, 0xFFFF, 0xFFFF, 0xFFFF, 0xFFFF, 0xFFFF, 0xFFFF, 0xFFFF])]"

definition in_ranges :: "nat \<Rightarrow> (nat \<times> nat) list \<Rightarrow> bool" where
  "in_ranges n rs = list_ex (\<lambda>(lo, hi). lo \<le> n \<and> n \<le> hi) rs"

lemma div_eq_iff_range: "0 < (m::nat) \<Longrightarrow> x div m = c \<longleftrightarrow> c * m \<le> x \<and> x \<le> (c + 1) * m - 1"
proof -
  assume m: "0 < m"
  have "x div m = c \<longleftrightarrow> c * m \<le> x \<and> x < (c + 1) * m"
    using m by (metis add.commute dividend_less_div_times div_nat_eqI mult.commute mult_Suc plus_1_eq_Suc times_div_less_eq_dividend)
  moreover have "x < (c + 1) * m \<longleftrightarrow> x \<le> (c + 1) * m - 1" using m by (cases "(c + 1) * m") auto
  ultimately show "x div m = c \<longleftrightarrow> c * m \<le> x \<and> x \<le> (c + 1) * m - 1" by simp
qed

lemma drop_bit_range:
  fixes w c :: "'a::len word"
  shows "drop_bit k w = c \<longleftrightarrow> unat c * 2 ^ k \<le> unat w \<and> unat w \<le> (unat c + 1) * 2 ^ k - 1"
proof -
  have "drop_bit k w = c \<longleftrightarrow> unat w div 2 ^ k = unat c"
    by (simp add: word_unat_eq_iff unat_drop_bit_eq drop_bit_eq_div [where 'a = nat])
  then show ?thesis by (simp only: div_eq_iff_range zero_less_power zero_less_numeral)
qed

lemma public_v4:
  assumes "isPublicFeedAddress a" "Unmap a = V4 w"
  shows "\<not> in_ranges (unat w) reserved4"
proof -
  have "\<forall>p \<in> set blockedFeedNetworks. \<not> Contains p (V4 w)"
    using assms by (auto simp: isPublicFeedAddress_def Let_def split: if_splits)
  then show ?thesis
    by (simp add: blockedFeedNetworks_def drop_bit_range in_ranges_def reserved4_def ip4_def)
qed

lemma public_v6:
  assumes "isPublicFeedAddress a" "Unmap a = V6 w ''''"
  shows "\<not> in_ranges (unat w) reserved6"
proof -
  have "\<forall>p \<in> set blockedFeedNetworks. \<not> Contains p (V6 w '''')"
    using assms by (auto simp: isPublicFeedAddress_def Let_def split: if_splits)
  moreover from this have "w \<noteq> 0" "w \<noteq> 1" by (auto simp: blockedFeedNetworks_def)
  then have "\<not> unat w \<le> 1" by (simp add: le_Suc_eq word_unat_eq_iff)
  ultimately show ?thesis
    by (simp add: blockedFeedNetworks_def drop_bit_range in_ranges_def reserved6_def ip6_def)
qed

lemma dial_first_addresses: "set (snd (dial_first L network port err as)) \<subseteq> set as"
proof (induction as arbitrary: err)
  case (Cons a as)
  show ?case
  proof (cases "DialContext L network (JoinHostPort (addr_String L a) port)")
    case (Inl err')
    then show ?thesis using Cons [of err'] by (auto simp: case_prod_unfold Let_def)
  qed simp
qed simp

lemma dialed_public:
  assumes "safeFeedDialContext L False network address = (res, dialed)" "a \<in> set dialed"
  shows "isPublicFeedAddress a"
proof -
  obtain host port as where "SplitHostPort L address = Inr (host, port)"
    and as: "find (\<lambda>a. \<not> isPublicFeedAddress a) as = None" "dial_first L network port (NewError '''') as = (res, dialed)"
    using assms by (auto simp: safeFeedDialContext_def split: sum.splits prod.splits option.splits if_splits)
  have "a \<in> set as" using dial_first_addresses [of L network port "NewError ''''" as] as(2) assms(2) by auto
  then show ?thesis using as(1) by (auto simp: find_None_iff)
qed

subsection \<open>The properties\<close>

text \<open>
  C36. The feed client dials no address of a reserved range, whatever the host of the URL resolves to:
  no private, shared, loopback, link-local, documentation, benchmark, multicast or future address, also
  when it is mapped into the sixth version.  Addresses of the sixth version with a zone are excepted.
\<close>

theorem feed_dial_guard:
  assumes "safeFeedDialContext L False network address = (res, dialed)" "a \<in> set dialed"
  shows "case Unmap a of NoAddr \<Rightarrow> False | V4 w \<Rightarrow> \<not> in_ranges (unat w) reserved4
    | V6 w z \<Rightarrow> z = '''' \<longrightarrow> \<not> in_ranges (unat w) reserved6"
proof -
  have p: "isPublicFeedAddress a" using assms by (rule dialed_public)
  then have "Unmap a \<noteq> NoAddr" by (auto simp: isPublicFeedAddress_def)
  then show ?thesis using p public_v4 public_v6 by (cases "Unmap a") auto
qed

text \<open>
  The exception is real.  A prefix holds no address with a zone, so the loop over the blocked networks
  does not see one, and a URL whose host is such a literal is accepted and dialed.
\<close>

definition demo_net :: net where
  "demo_net =
     \<lparr>ParseRequestURI = (\<lambda>s. Inr \<lparr>fu_Scheme = ''http'', fu_Hostname = ''fd00::1%eth0'', fu_User = None\<rparr>),
      ParseAddr = (\<lambda>s. if s = ''fd00::1%eth0'' then Some (V6 0xFD000000000000000000000000000001 ''eth0'') else None),
      addr_String = (\<lambda>a. if a = V4 0x5DB8D822 then ''93.184.216.34'' else ''fd00::1%eth0''),
      quoted = id, decimal = (\<lambda>n. ''?''),
      SplitHostPort = (\<lambda>s. if s = ''[fd00::1%eth0]:80'' then Inr (''fd00::1%eth0'', ''80'') else Inr (''example.org'', ''80'')),
      LookupNetIP = (\<lambda>s. Inr [V4 0x5DB8D822]), DialContext = (\<lambda>net s. Inr 1),
      client_Do = (\<lambda>s hs. Inl (NewError ''offline''))\<rparr>"

lemma zoned_address_dialed:
  "validateFeedURL demo_net ''http://[fd00::1%25eth0]/'' False = None"
  "safeFeedDialContext demo_net False ''tcp'' ''[fd00::1%eth0]:80'' = (Inr 1, [V6 0xFD000000000000000000000000000001 ''eth0''])"
  "in_ranges (unat (0xFD000000000000000000000000000001 :: 128 word)) reserved6"
  by (simp_all add: validateFeedURL_def safeFeedDialContext_def feed_addresses_def demo_net_def isPublicFeedAddress_def
      blockedFeedNetworks_def in_ranges_def reserved6_def ip6_def)

text \<open>A request is sent only for a URL that passes the checks, and carries the validators of the last answer.\<close>

lemma Fetch_request:
  assumes "Fetch L allowPrivate raw etag lastModified = Inr res"
  shows "validateFeedURL L raw allowPrivate = None"
    "fe_NotModified res \<longleftrightarrow> fe_Body res = None"
    "\<exists>resp. client_Do L raw (fetch_headers etag lastModified) = Inr resp \<and> fr_StatusCode resp \<in> {200, 304}"
  using assms by (auto simp: Fetch_def split: option.splits sum.splits if_splits)

lemma demo_dial:
  "safeFeedDialContext demo_net False ''tcp'' ''example.org:80'' = (Inr 1, [V4 0x5DB8D822])"
  by (simp add: safeFeedDialContext_def feed_addresses_def demo_net_def isPublicFeedAddress_def blockedFeedNetworks_def)

lemma feed_dial_guard_witness: "\<not> in_ranges (unat (0x5DB8D822 :: 32 word)) reserved4"
  using feed_dial_guard [OF demo_dial, of "V4 0x5DB8D822"] by simp

end
