(* ===== verification/Crawl.thy ===== *)
theory Crawl
  imports Catalog_Db Feed_Fetch Sync_Engine
begin

section \<open>The crawler\<close>

text \<open>
  \<^verbatim>\<open>src/crawler\<close>: deriving the identities of podcasts and episodes, reading the items of a feed,
  the index of credited persons, and the crawl of one podcast.  A parsed feed (package \<^verbatim>\<open>gofeed\<close>) is a
  record of the fields the crawler reads; the parser itself, the name-based uuids, the digest and the
  Unicode transformations are the fields of \<open>crawl_lib\<close>, the \<^verbatim>\<open>Fetcher\<close> interface is one more.
\<close>

subsection \<open>Parsed feeds\<close>

record Ext =
  ext_Attrs :: "(string \<times> string) list"
  ext_Value :: string

record Enclosure =
  enc_URL :: string
  enc_Type :: string
  enc_Length :: string

record ITunesItem =
  iti_EpisodeType :: string
  iti_Season :: string
  iti_Episode :: string
  iti_Image :: string
  iti_Duration :: string

record Item =
  it_GUID :: string
  it_Title :: string
  it_Content :: string
  it_Description :: string
  it_PublishedParsed :: "instant option"
  it_Enclosures :: "Enclosure option list"
  it_ITunesExt :: "ITunesItem option"
  it_ImageURL :: "string option"
  it_transcript :: "Ext list"
  it_chapters :: "Ext list"
  it_person :: "Ext list"

record ITunesFeed =
  itf_Author :: string
  itf_Image :: string
  itf_Categories :: "string option list"
  itf_Type :: string
  itf_Explicit :: string

record Feed =
  fd_Title :: string
  fd_Description :: string
  fd_Link :: string
  fd_Language :: string
  fd_Authors :: "string option list"
  fd_ImageURL :: "string option"
  fd_Categories :: "string list"
  fd_ITunesExt :: "ITunesFeed option"
  fd_Items :: "Item list"

record crawl_lib =
  cl_Parse :: "string \<Rightarrow> goerr + Feed"
  cl_NewSHA1 :: "string \<Rightarrow> string \<Rightarrow> string"
  cl_uuid_Parse :: "string \<Rightarrow> string option"
  cl_sha256_hex :: "string \<Rightarrow> string"
  cl_ToLower :: "string \<Rightarrow> string"
  cl_EqualFold :: "string \<Rightarrow> string \<Rightarrow> bool"
  cl_strip_marks :: "string \<Rightarrow> string option"

text \<open>
  The context of a crawl.  \<open>kx_now\<close> gives the readings of the clock, one for each place of the code
  that reads it; the statements read the database's own clock, \<open>kx_db\<close>; \<open>kx_text\<close> prints the errors
  of other packages.
\<close>

record kctx =
  kx_env :: env
  kx_lib :: crawl_lib
  kx_fetch :: "string \<Rightarrow> string \<Rightarrow> string \<Rightarrow> goerr + FetchResult"
  kx_now :: "nat \<Rightarrow> instant"
  kx_db :: instant
  kx_text :: "goerr \<Rightarrow> string"

subsection \<open>Identities\<close>

definition NsPodcast :: string where
  "NsPodcast = ''f0e1d2c3-b4a5-4697-8879-6a5b4c3d2e1f''"

definition PodcastUUID :: "kctx \<Rightarrow> string \<Rightarrow> string" where
  "PodcastUUID x feedURL = cl_NewSHA1 (kx_lib x) NsPodcast (CanonicalFeedURL (kx_env x) feedURL)"

definition EpisodeUUID :: "kctx \<Rightarrow> string \<Rightarrow> string \<Rightarrow> string" where
  "EpisodeUUID x podcast key =
     (let ns = (case cl_uuid_Parse (kx_lib x) podcast of
                  Some ns \<Rightarrow> ns | None \<Rightarrow> cl_NewSHA1 (kx_lib x) NsPodcast podcast)
      in cl_NewSHA1 (kx_lib x) ns key)"

definition deviceNamespace :: string where
  "deviceNamespace = ''au.com.pocketcasts.localfeed:''"

definition hexValue :: "char \<Rightarrow> nat" where
  "hexValue c =
     (let n = of_char c :: nat
      in if 48 \<le> n \<and> n \<le> 57 then n - 48
         else if 97 \<le> n \<and> n \<le> 102 then n - 97 + 10
         else if 65 \<le> n \<and> n \<le> 70 then n - 65 + 10
         else 0)"

text \<open>\<^verbatim>\<open>(value & 0x3) | 0x8\<close>\<close>

definition variantNibble :: "char \<Rightarrow> char" where
  "variantNibble c = ''0123456789abcdef'' ! (hexValue c mod 4 + 8)"

definition device_uuid_text :: "string \<Rightarrow> string" where
  "device_uuid_text digest =
     (let h = (take 32 digest)[12 := CHR ''5'', 16 := variantNibble (digest ! 16)]
      in take 8 h @ ''-'' @ take 4 (drop 8 h) @ ''-'' @ take 4 (drop 12 h) @ ''-'' @ take 4 (drop 16 h) @ ''-'' @ drop 20 h)"

definition DeviceEpisodeUUID :: "kctx \<Rightarrow> string \<Rightarrow> string" where
  "DeviceEpisodeUUID x key =
     (let trimmed = TrimSpace key
      in if trimmed = '''' then '''' else device_uuid_text (cl_sha256_hex (kx_lib x) (deviceNamespace @ trimmed)))"

subsection \<open>Reading an item\<close>

text \<open>
  The numbers wrap: Go's \<^verbatim>\<open>int32\<close> and \<^verbatim>\<open>int64\<close> are computed modulo their width.  A rune that is not
  an ASCII digit makes the result zero, so the loop may read bytes.
\<close>

definition digit :: "char \<Rightarrow> bool" where
  "digit c \<longleftrightarrow> 48 \<le> (of_char c :: nat) \<and> (of_char c :: nat) \<le> 57"

definition atoi :: "(int \<Rightarrow> int) \<Rightarrow> string \<Rightarrow> int" where
  "atoi wrap s =
     (if list_all digit s then foldl (\<lambda>n c. wrap (wrap (n * 10) + (of_char c - 48))) 0 s else 0)"

definition atoiOrZero :: "string \<Rightarrow> int" where
  "atoiOrZero s = atoi int32 s"

definition atoi64OrZero :: "string \<Rightarrow> int" where
  "atoi64OrZero s = atoi int64 s"

fun split_at :: "char \<Rightarrow> string \<Rightarrow> string list" where
  "split_at c [] = [[]]"
| "split_at c (b # s) =
     (if b = c then [] # split_at c s else (case split_at c s of [] \<Rightarrow> [[b]] | p # ps \<Rightarrow> (b # p) # ps))"

definition parseDurationSeconds :: "string \<Rightarrow> int" where
  "parseDurationSeconds v =
     (let parts = split_at CHR '':'' (TrimSpace v)
      in if length parts > 3 then 0
         else foldl (\<lambda>total part. int32 (int32 (total * 60) + atoiOrZero (TrimSpace part))) 0 parts)"

definition itunesDuration :: "Item \<Rightarrow> int" where
  "itunesDuration item =
     (case it_ITunesExt item of
        None \<Rightarrow> 0
      | Some it \<Rightarrow> if iti_Duration it = '''' then 0 else parseDurationSeconds (iti_Duration it))"

definition enclosure :: "Item \<Rightarrow> string \<times> string \<times> int" where
  "enclosure item =
     (case find (\<lambda>enc. case enc of None \<Rightarrow> False | Some enc \<Rightarrow> enc_URL enc \<noteq> '''') (it_Enclosures item) of
        Some (Some enc) \<Rightarrow> (enc_URL enc, enc_Type enc, atoi64OrZero (enc_Length enc))
      | _ \<Rightarrow> ('''', '''', 0))"

definition showNotes :: "Item \<Rightarrow> string" where
  "showNotes item = (if it_Content item \<noteq> '''' then it_Content item else it_Description item)"

definition attr :: "Ext \<Rightarrow> string \<Rightarrow> string" where
  "attr tag name = (case map_of (ext_Attrs tag) name of None \<Rightarrow> '''' | Some v \<Rightarrow> v)"

definition transcriptTypes :: "string list" where
  "transcriptTypes = [''text/vtt'', ''application/json'', ''application/srt'', ''application/x-subrip'', ''text/html'']"

definition itemTranscripts :: "kctx \<Rightarrow> Item \<Rightarrow> json" where
  "itemTranscripts x item =
     JArray (map (\<lambda>tag. JObject
        ([(''url'', JString (attr tag ''url'')), (''type'', JString (cl_ToLower (kx_lib x) (attr tag ''type'')))] @
         (if attr tag ''language'' \<noteq> '''' then [(''language'', JString (attr tag ''language''))] else [])))
       (filter (\<lambda>tag. attr tag ''url'' \<noteq> '''' \<and> cl_ToLower (kx_lib x) (attr tag ''type'') \<in> set transcriptTypes)
          (it_transcript item)))"

definition itemChaptersURL :: "Item \<Rightarrow> string" where
  "itemChaptersURL item =
     (case find (\<lambda>tag. attr tag ''url'' \<noteq> '''') (it_chapters item) of None \<Rightarrow> '''' | Some tag \<Rightarrow> attr tag ''url'')"

definition episodeFromItem :: "kctx \<Rightarrow> Podcast \<Rightarrow> Item \<Rightarrow> UpsertEpisodeParams option" where
  "episodeFromItem x podcast item =
     (let (audioURL, fileType, fileSize) = enclosure item
      in if audioURL = '''' then None
         else
           let key = (if it_GUID item = '''' then audioURL else it_GUID item);
               it = it_ITunesExt item;
               image = (case it of None \<Rightarrow> '''' | Some it \<Rightarrow> iti_Image it)
           in Some \<lparr>upe_Uuid = EpisodeUUID x (pc_Uuid podcast) key, upe_PodcastID = pc_ID podcast, upe_Guid = key,
                upe_Title = it_Title item, upe_AudioUrl = audioURL, upe_FileType = fileType, upe_FileSize = fileSize,
                upe_DurationSecs = itunesDuration item, upe_PublishedAt = it_PublishedParsed item,
                upe_EpisodeType = (case it of None \<Rightarrow> '''' | Some it \<Rightarrow> iti_EpisodeType it),
                upe_Season = (case it of None \<Rightarrow> 0 | Some it \<Rightarrow> atoiOrZero (iti_Season it)),
                upe_Number = (case it of None \<Rightarrow> 0 | Some it \<Rightarrow> atoiOrZero (iti_Episode it)),
                upe_ShowNotes = showNotes item,
                upe_ImageUrl = (if image = '''' then (case it_ImageURL item of None \<Rightarrow> '''' | Some u \<Rightarrow> u) else image),
                upe_Transcripts = itemTranscripts x item, upe_ChaptersUrl = itemChaptersURL item\<rparr>)"

subsection \<open>Credited persons\<close>

record CreditedPerson =
  cp_Name :: string
  cp_Role :: string
  cp_Href :: string

definition maxPersonHrefLen :: nat where "maxPersonHrefLen = 2048"

text \<open>\<^verbatim>\<open>strings.Fields\<close>: the maximal parts without white space; \<open>word\<close> is the part being read.\<close>

function fields_from :: "string \<Rightarrow> string \<Rightarrow> string list" where
  "fields_from word [] = (if word = [] then [] else [word])"
| "fields_from word (c # s) =
     (case find (HasPrefix (c # s)) space_runes of
        None \<Rightarrow> fields_from (word @ [c]) s
      | Some p \<Rightarrow> (if word = [] then [] else [word]) @ fields_from [] (drop (length p - 1) s))"
  by pat_completeness auto
termination by (relation "measure (length \<circ> snd)") auto

fun join_words :: "string list \<Rightarrow> string" where
  "join_words [] = ''''"
| "join_words [w] = w"
| "join_words (w # ws) = w @ '' '' @ join_words ws"

definition FoldPersonName :: "kctx \<Rightarrow> string \<Rightarrow> string" where
  "FoldPersonName x name =
     (let stripped = (case cl_strip_marks (kx_lib x) name of Some s \<Rightarrow> s | None \<Rightarrow> name)
      in join_words (fields_from [] (cl_ToLower (kx_lib x) stripped)))"

definition itemPersons :: "kctx \<Rightarrow> Item \<Rightarrow> CreditedPerson list" where
  "itemPersons x item =
     map (\<lambda>tag. \<lparr>cp_Name = TrimSpace (ext_Value tag), cp_Role = cl_ToLower (kx_lib x) (TrimSpace (attr tag ''role'')),
            cp_Href = TrimSpace (attr tag ''href'')\<rparr>)
       (filter (\<lambda>tag. TrimSpace (ext_Value tag) \<noteq> '''') (it_person item))"

definition isUniqueViolation :: "goerr \<Rightarrow> bool" where
  "isUniqueViolation err \<longleftrightarrow> (case As_PgError err of None \<Rightarrow> False | Some p \<Rightarrow> SqlState p = ''23505'')"

text \<open>
  A person and the alias are created in one transaction; a crawl that loses the race against another
  finds what the winner has committed.
\<close>

definition create_person :: "kctx \<Rightarrow> string \<Rightarrow> string \<Rightarrow> catalog \<Rightarrow> Person result \<times> catalog" where
  "create_person x folded display c =
     InTx (kx_env x)
       (\<lambda>c. rbind (CreatePerson (kx_env x) (kx_db x) folded display c) (\<lambda>(p, c).
              rbind (AddPersonAlias (kx_env x) (pe_ID p) folded ''ingest'' c) (\<lambda>c. Inr (p, c)))) c"

text \<open>The tables stand beside the result, also of an error, as the transaction has left them.\<close>

definition resolvePerson :: "kctx \<Rightarrow> string \<Rightarrow> string \<Rightarrow> catalog \<Rightarrow> Person result \<times> catalog" where
  "resolvePerson x folded display c =
     (case FindPersonByAlias (kx_env x) folded c of
        Inr p \<Rightarrow> (Inr p, c)
      | Inl err \<Rightarrow>
          if \<not> Is_ErrNoRows err then (Inl err, c)
          else (case create_person x folded display c of
                  (Inr p, c) \<Rightarrow> (Inr p, c)
                | (Inl err, c) \<Rightarrow>
                    if isUniqueViolation err then (FindPersonByAlias (kx_env x) folded c, c)
                    else (Inl err, c)))"

text \<open>The persons whose appearance on the episode is new, the error that stops the loop, and the tables.\<close>

definition ingest_person :: "kctx \<Rightarrow> string \<Rightarrow> string \<Rightarrow> CreditedPerson \<Rightarrow> catalog \<Rightarrow> (goerr option \<times> int list) \<times> catalog" where
  "ingest_person x podcast ep credited c =
     (let folded = FoldPersonName x (cp_Name credited)
      in if folded = '''' then ((None, []), c)
         else (case resolvePerson x folded (cp_Name credited) c of
                 (Inl err, c) \<Rightarrow> ((Some err, []), c)
               | (Inr person, c) \<Rightarrow>
                   (case (if cp_Href credited \<noteq> '''' \<and> length (cp_Href credited) \<le> maxPersonHrefLen
                          then AddPersonExternalRef (kx_env x) (pe_ID person) ''href'' (cp_Href credited) c else Inr c) of
                      Inl err \<Rightarrow> ((Some err, []), c)
                    | Inr c \<Rightarrow>
                        (case UpsertPersonAppearance (kx_env x) (kx_db x) (pe_ID person) podcast ep (cp_Role credited) c of
                           Inl err \<Rightarrow> ((if Is_ErrNoRows err then None else Some err, []), c)
                         | Inr (_, c) \<Rightarrow> ((None, [pe_ID person]), c)))))"

fun IngestPersons ::
  "kctx \<Rightarrow> string \<Rightarrow> string \<Rightarrow> CreditedPerson list \<Rightarrow> catalog \<Rightarrow> (goerr option \<times> int list) \<times> catalog" where
  "IngestPersons x podcast ep [] c = ((None, []), c)"
| "IngestPersons x podcast ep (p # ps) c =
     (case ingest_person x podcast ep p c of
        ((Some err, new), c) \<Rightarrow> ((Some err, new), c)
      | ((None, new), c) \<Rightarrow>
          (let ((err, more), c) = IngestPersons x podcast ep ps c in ((err, new @ more), c)))"

subsection \<open>The description of the feed\<close>

definition feedAuthor :: "Feed \<Rightarrow> string" where
  "feedAuthor f =
     (case fd_ITunesExt f of
        Some it \<Rightarrow>
          if itf_Author it \<noteq> '''' then itf_Author it
          else (case fd_Authors f of Some a # _ \<Rightarrow> a | _ \<Rightarrow> '''')
      | None \<Rightarrow> (case fd_Authors f of Some a # _ \<Rightarrow> a | _ \<Rightarrow> ''''))"

definition feedImage :: "Feed \<Rightarrow> string" where
  "feedImage f =
     (let own = (case fd_ImageURL f of Some u \<Rightarrow> u | None \<Rightarrow> '''')
      in case fd_ITunesExt f of Some it \<Rightarrow> if itf_Image it \<noteq> '''' then itf_Image it else own | None \<Rightarrow> own)"

definition feedCategory :: "Feed \<Rightarrow> string" where
  "feedCategory f =
     (let own = (case fd_Categories f of [] \<Rightarrow> '''' | cat # _ \<Rightarrow> cat)
      in case fd_ITunesExt f of
           Some it \<Rightarrow> (case itf_Categories it of Some cat # _ \<Rightarrow> cat | _ \<Rightarrow> own)
         | None \<Rightarrow> own)"

definition feedShowType :: "Feed \<Rightarrow> string" where
  "feedShowType f =
     (case fd_ITunesExt f of Some it \<Rightarrow> if itf_Type it = ''serial'' then ''serial'' else ''episodic'' | None \<Rightarrow> ''episodic'')"

definition feedExplicit :: "kctx \<Rightarrow> Feed \<Rightarrow> bool" where
  "feedExplicit x f \<longleftrightarrow>
     (case fd_ITunesExt f of
        Some it \<Rightarrow> cl_EqualFold (kx_lib x) (itf_Explicit it) ''yes'' \<or> cl_EqualFold (kx_lib x) (itf_Explicit it) ''true''
      | None \<Rightarrow> False)"

subsection \<open>Crawling one podcast\<close>

definition subscribedRefreshInterval :: int where "subscribedRefreshInterval = 60 * 60 * 1000000000"
definition idleRefreshInterval :: int where "idleRefreshInterval = 24 * (60 * 60 * 1000000000)"
definition maxEpisodesPerCrawl :: nat where "maxEpisodesPerCrawl = 5000"
definition maxFeedBodyBytes :: nat where "maxFeedBodyBytes = 20 * 1024 * 1024"

definition nextRefreshAt :: "kctx \<Rightarrow> string \<Rightarrow> catalog \<Rightarrow> instant result" where
  "nextRefreshAt x podcast c =
     rbind (PodcastHasSubscribers (kx_env x) podcast c)
       (\<lambda>subscribed. Inr (kx_now x 0 + (if subscribed then subscribedRefreshInterval else idleRefreshInterval)))"

text \<open>The message is cut after five hundred bytes.\<close>

definition recordFailure :: "kctx \<Rightarrow> Podcast \<Rightarrow> goerr \<Rightarrow> catalog \<Rightarrow> goerr option \<times> catalog" where
  "recordFailure x podcast cause c =
     (case UpdatePodcastCrawlFailure (kx_env x) (kx_db x) (pc_ID podcast)
             (take 500 (Error_string (kx_text x) cause)) (kx_now x 1 + idleRefreshInterval) c of
        Inl err \<Rightarrow> (Some (E_op ''crawler/Crawler.recordFailure'' Database err), c)
      | Inr c' \<Rightarrow> (Some (E_op ''crawler/Crawler.recordFailure'' Internal cause), c'))"

text \<open>
  What the loop over the items carries: the number of episodes, the latest one, the fresh ones in
  the order of the feed, and the calls of \<^verbatim>\<open>OnNewPersonAppearance\<close> (person, name, podcast, episode).
\<close>

record progress =
  pg_count :: nat
  pg_latestUuid :: "string option"
  pg_latestPublished :: "instant option"
  pg_fresh :: "UpsertEpisodeParams list"
  pg_people :: "(int \<times> string \<times> string \<times> string) list"

definition is_fresh :: "Podcast \<Rightarrow> UpsertEpisodeParams \<Rightarrow> bool" where
  "is_fresh podcast a \<longleftrightarrow>
     (case (pc_LatestEpisodePublished podcast, upe_PublishedAt a) of (Some t, Some t') \<Rightarrow> t' > t | _ \<Rightarrow> False)"

definition note_episode :: "Podcast \<Rightarrow> UpsertEpisodeParams \<Rightarrow> progress \<Rightarrow> progress" where
  "note_episode podcast a g =
     (let newer = (case upe_PublishedAt a of
                     None \<Rightarrow> False
                   | Some t \<Rightarrow> (case pg_latestPublished g of None \<Rightarrow> True | Some l \<Rightarrow> t > l))
      in g\<lparr>pg_latestUuid := (if newer then Some (upe_Uuid a) else pg_latestUuid g),
           pg_latestPublished := (if newer then upe_PublishedAt a else pg_latestPublished g),
           pg_fresh := (if is_fresh podcast a then pg_fresh g @ [a] else pg_fresh g)\<rparr>)"

definition appearance_calls :: "kctx \<Rightarrow> string \<Rightarrow> string \<Rightarrow> int list \<Rightarrow> catalog \<Rightarrow> (int \<times> string \<times> string \<times> string) list" where
  "appearance_calls x podcast ep ids c =
     List.maps (\<lambda>i. case GetPerson (kx_env x) i c of Inl _ \<Rightarrow> [] | Inr p \<Rightarrow> [(i, pe_DisplayName p, podcast, ep)]) ids"

text \<open>The body of the loop for an item with an episode.\<close>

definition write_episode :: "kctx \<Rightarrow> UpsertEpisodeParams \<Rightarrow> catalog \<Rightarrow> goerr option \<times> catalog" where
  "write_episode x a c =
     (case UpsertEpisode (kx_env x) (kx_db x) a c of
        Inl err \<Rightarrow> (Some err, c)
      | Inr c \<Rightarrow>
          (let device = DeviceEpisodeUUID x (upe_Guid a)
           in if device \<noteq> '''' \<and> device \<noteq> upe_Uuid a
              then (case UpsertEpisodeAlias (kx_env x) device (upe_Uuid a) c of
                      Inl err \<Rightarrow> (Some err, c) | Inr c \<Rightarrow> (None, c))
              else (None, c)))"

definition ingest_item ::
  "kctx \<Rightarrow> Podcast \<Rightarrow> Item \<Rightarrow> UpsertEpisodeParams \<Rightarrow> progress \<Rightarrow> catalog \<Rightarrow> goerr option \<times> progress \<times> catalog" where
  "ingest_item x podcast item a g c =
     (case write_episode x a c of
        (Some err, c) \<Rightarrow> (Some err, g, c)
      | (None, c) \<Rightarrow>
          (let g = note_episode podcast a g; credited = itemPersons x item
           in if credited = [] then (None, g, c)
              else (case IngestPersons x (pc_Uuid podcast) (upe_Uuid a) credited c of
                      ((Some err, _), c) \<Rightarrow> (Some err, g, c)
                    | ((None, ids), c) \<Rightarrow>
                        (None,
                         g\<lparr>pg_people := pg_people g @
                             (if is_fresh podcast a then appearance_calls x (pc_Uuid podcast) (upe_Uuid a) ids c else [])\<rparr>, c))))"

fun crawl_items :: "kctx \<Rightarrow> Podcast \<Rightarrow> Item list \<Rightarrow> progress \<Rightarrow> catalog \<Rightarrow> goerr option \<times> progress \<times> catalog" where
  "crawl_items x podcast [] g c = (None, g, c)"
| "crawl_items x podcast (item # items) g c =
     (if pg_count g \<ge> maxEpisodesPerCrawl then (None, g, c)
      else (case episodeFromItem x podcast item of
              None \<Rightarrow> crawl_items x podcast items g c
            | Some a \<Rightarrow>
                (case ingest_item x podcast item a (g\<lparr>pg_count := pg_count g + 1\<rparr>) c of
                   (Some err, g, c) \<Rightarrow> (Some err, g, c)
                 | (None, g, c) \<Rightarrow> crawl_items x podcast items g c)))"

definition no_progress :: progress where
  "no_progress = \<lparr>pg_count = 0, pg_latestUuid = None, pg_latestPublished = None, pg_fresh = [], pg_people = []\<rparr>"

text \<open>
  What a crawl announces: the episodes for \<^verbatim>\<open>OnNewEpisodes\<close>, newest first (the order of equal times
  is the one of the feed here, and any in the code), and the appearances.
\<close>

record announced =
  an_episodes :: "string list"
  an_people :: "(int \<times> string \<times> string \<times> string) list"

definition newest_first :: "UpsertEpisodeParams list \<Rightarrow> string list" where
  "newest_first fresh = map upe_Uuid (sort_key (\<lambda>a. - the (upe_PublishedAt a)) fresh)"

definition success_params :: "kctx \<Rightarrow> Feed \<Rightarrow> FetchResult \<Rightarrow> progress \<Rightarrow> instant \<Rightarrow> CrawlSuccessParams" where
  "success_params x f res g next =
     \<lparr>cs_Title = fd_Title f, cs_Author = feedAuthor f, cs_Description = fd_Description f, cs_ImageUrl = feedImage f,
      cs_WebsiteUrl = fd_Link f, cs_Category = feedCategory f, cs_Language = fd_Language f, cs_MediaType = ''audio'',
      cs_ShowType = feedShowType f, cs_IsExplicit = feedExplicit x f, cs_FeedEtag = fe_ETag res,
      cs_FeedLastModified = fe_LastModified res, cs_LatestEpisodeUuid = pg_latestUuid g,
      cs_LatestEpisodePublished = pg_latestPublished g, cs_ContentModifiedMs = kx_now x 2 div 1000000,
      cs_NextRefreshAt = next\<rparr>"

definition db_failure :: "goerr \<Rightarrow> goerr option" where
  "db_failure err = Some (E_op ''crawler/Crawler.Crawl'' Database err)"

definition ingest_feed ::
  "kctx \<Rightarrow> Podcast \<Rightarrow> FetchResult \<Rightarrow> instant \<Rightarrow> Feed \<Rightarrow> catalog \<Rightarrow> goerr option \<times> announced \<times> catalog" where
  "ingest_feed x podcast res next f c =
     (case crawl_items x podcast (fd_Items f) no_progress c of
        (Some err, g, c) \<Rightarrow> (db_failure err, \<lparr>an_episodes = [], an_people = pg_people g\<rparr>, c)
      | (None, g, c) \<Rightarrow>
          (case UpdatePodcastCrawlSuccess (kx_env x) (kx_db x) (pc_ID podcast) (success_params x f res g next) c of
             Inl err \<Rightarrow> (db_failure err, \<lparr>an_episodes = [], an_people = pg_people g\<rparr>, c)
           | Inr c \<Rightarrow> (None, \<lparr>an_episodes = newest_first (pg_fresh g), an_people = pg_people g\<rparr>, c)))"

text \<open>The body of an answer, or what makes it unusable.\<close>

definition read_feed :: "kctx \<Rightarrow> FetchResult \<Rightarrow> goerr + Feed" where
  "read_feed x res =
     (case fe_Body res of
        None \<Rightarrow> Inl (NewError ''nil body'')
      | Some body \<Rightarrow>
          rbind (rbind body (\<lambda>bytes. Inr (take (maxFeedBodyBytes + 1) bytes))) (\<lambda>bytes.
            if length bytes > maxFeedBodyBytes then Inl (NewError ''feed body exceeds 20971520 bytes'')
            else cl_Parse (kx_lib x) bytes))"

definition nothing_announced :: announced where
  "nothing_announced = \<lparr>an_episodes = [], an_people = []\<rparr>"

definition Crawl :: "kctx \<Rightarrow> Podcast \<Rightarrow> catalog \<Rightarrow> goerr option \<times> announced \<times> catalog" where
  "Crawl x podcast c =
     (case kx_fetch x (pc_FeedUrl podcast) (pc_FeedEtag podcast) (pc_FeedLastModified podcast) of
        Inl err \<Rightarrow> (let (e, c) = recordFailure x podcast err c in (e, nothing_announced, c))
      | Inr res \<Rightarrow>
          (case nextRefreshAt x (pc_Uuid podcast) c of
             Inl err \<Rightarrow> (db_failure err, nothing_announced, c)
           | Inr next \<Rightarrow>
               if fe_NotModified res
               then (case UpdatePodcastCrawlNotModified (kx_env x) (kx_db x) (pc_ID podcast) next c of
                       Inl err \<Rightarrow> (Some err, nothing_announced, c)
                     | Inr c \<Rightarrow> (None, nothing_announced, c))
               else (case read_feed x res of
                       Inl err \<Rightarrow> (let (e, c) = recordFailure x podcast err c in (e, nothing_announced, c))
                     | Inr f \<Rightarrow> ingest_feed x podcast res next f c)))"

subsection \<open>Ensuring a podcast\<close>

definition ErrRefreshBackoff :: goerr where
  "ErrRefreshBackoff = NewError ''feed refresh is backing off after a failure''"

definition contains_text :: "string \<Rightarrow> string \<Rightarrow> bool" where
  "contains_text p s \<longleftrightarrow> list_ex (\<lambda>i. HasPrefix (drop i s) p) [0..<length s + 1]"

definition find_or_create :: "kctx \<Rightarrow> string \<Rightarrow> catalog \<Rightarrow> (Podcast \<times> catalog) result" where
  "find_or_create x canonical c =
     (case GetPodcastByFeedURL (kx_env x) canonical (ct_core c) of
        Inr p \<Rightarrow> Inr (p, c)
      | Inl err \<Rightarrow>
          if \<not> Is_ErrNoRows err then Inl (E_op ''crawler/Crawler.EnsurePodcast'' Database err)
          else (case CreatePodcastPending (kx_env x) (kx_db x) (PodcastUUID x canonical) canonical c of
                  Inl err \<Rightarrow> Inl (E_op ''crawler/Crawler.EnsurePodcast'' Database err)
                | Inr r \<Rightarrow> Inr r))"

text \<open>The result is a row and possibly an error beside it, as in the code.\<close>

definition EnsurePodcast :: "kctx \<Rightarrow> string \<Rightarrow> catalog \<Rightarrow> (Podcast option \<times> goerr option) \<times> announced \<times> catalog" where
  "EnsurePodcast x feedURL c =
     (let canonical = CanonicalFeedURL (kx_env x) feedURL
      in if canonical = '''' \<or> \<not> contains_text ''://'' canonical
         then ((None, Some (E_msg ''crawler/Crawler.EnsurePodcast'' Invalid ''feed url is invalid'')), nothing_announced, c)
         else (case find_or_create x canonical c of
                 Inl err \<Rightarrow> ((None, Some err), nothing_announced, c)
               | Inr (podcast, c) \<Rightarrow>
                   if pc_RefreshStatus podcast = ''ok'' then ((Some podcast, None), nothing_announced, c)
                   else if pc_RefreshStatus podcast = ''failed'' \<and> kx_now x 3 < pc_NextRefreshAt podcast
                   then ((Some podcast, Some ErrRefreshBackoff), nothing_announced, c)
                   else (case Crawl x podcast c of
                           (Some err, an, c) \<Rightarrow> ((None, Some err), an, c)
                         | (None, an, c) \<Rightarrow>
                             (case GetPodcastByUUID (kx_env x) (pc_Uuid podcast) (ct_core c) of
                                Inl err \<Rightarrow> ((None, Some (E_op ''crawler/Crawler.EnsurePodcast'' Database err)), an, c)
                              | Inr p \<Rightarrow> ((Some p, None), an, c)))))"

end
