(* ===== verification/Task_Pool.thy ===== *)
theory Task_Pool
  imports Db_Store "HOL-Library.Multiset"
begin

section \<open>The crawl pool of the worker\<close>

text \<open>
  \<^verbatim>\<open>crawlPodcastsBounded\<close> of \<^verbatim>\<open>src/tasks/server.go\<close> starts a number of goroutines that receive
  podcasts from an unbuffered channel, offers every podcast of the batch whose uuid is new on that
  channel, closes it, and waits.  Every arm of a \<^verbatim>\<open>select\<close> is a step of its own, so that a ready
  \<^verbatim>\<open>ctx.Done\<close> and a ready channel are chosen between freely; the context may be cancelled at any
  time before the return.  A call of the argument \<open>crawl\<close> is assumed to return.
\<close>

subsection \<open>States and steps\<close>

datatype worker = Idle | Busy Podcast | Gone

text \<open>
  The phases of the caller: at the head of the loop, in the \<^verbatim>\<open>select\<close> that offers a podcast, after
  \<^verbatim>\<open>close(jobs)\<close>, and returned, with an error or without.
\<close>

datatype phase = Producing | Offering Podcast | Closed | Returned bool

record pool =
  pl_todo :: "Podcast list"
  pl_seen :: "string set"
  pl_phase :: phase
  pl_workers :: "worker list"
  pl_cancelled :: bool
  pl_crawled :: "Podcast list"

definition pool_workers :: "int \<Rightarrow> nat" where
  "pool_workers n = nat (if n < 1 then 1 else n)"

definition start_pool :: "Podcast list \<Rightarrow> int \<Rightarrow> pool" where
  "start_pool ps n =
     \<lparr>pl_todo = ps, pl_seen = {}, pl_phase = Producing, pl_workers = replicate (pool_workers n) Idle,
      pl_cancelled = False, pl_crawled = []\<rparr>"

inductive pool_step :: "pool \<Rightarrow> pool \<Rightarrow> bool" where
  skip: "pl_phase s = Producing \<Longrightarrow> pl_todo s = p # ps \<Longrightarrow> pc_Uuid p \<in> pl_seen s \<Longrightarrow> pool_step s (s\<lparr>pl_todo := ps\<rparr>)"
| offer: "pl_phase s = Producing \<Longrightarrow> pl_todo s = p # ps \<Longrightarrow> pc_Uuid p \<notin> pl_seen s \<Longrightarrow>
    pool_step s (s\<lparr>pl_todo := ps, pl_seen := insert (pc_Uuid p) (pl_seen s), pl_phase := Offering p\<rparr>)"
| hand: "pl_phase s = Offering p \<Longrightarrow> i < length (pl_workers s) \<Longrightarrow> pl_workers s ! i = Idle \<Longrightarrow>
    pool_step s (s\<lparr>pl_phase := Producing, pl_workers := (pl_workers s)[i := Busy p]\<rparr>)"
| abort: "pl_phase s = Offering p \<Longrightarrow> pl_cancelled s \<Longrightarrow> pool_step s (s\<lparr>pl_phase := Closed\<rparr>)"
| close: "pl_phase s = Producing \<Longrightarrow> pl_todo s = [] \<Longrightarrow> pool_step s (s\<lparr>pl_phase := Closed\<rparr>)"
| crawl: "i < length (pl_workers s) \<Longrightarrow> pl_workers s ! i = Busy p \<Longrightarrow>
    pool_step s (s\<lparr>pl_workers := (pl_workers s)[i := Idle], pl_crawled := pl_crawled s @ [p]\<rparr>)"
| quit: "i < length (pl_workers s) \<Longrightarrow> pl_workers s ! i = Idle \<Longrightarrow> pl_cancelled s \<or> pl_phase s = Closed \<Longrightarrow>
    pool_step s (s\<lparr>pl_workers := (pl_workers s)[i := Gone]\<rparr>)"
| wait: "pl_phase s = Closed \<Longrightarrow> set (pl_workers s) \<subseteq> {Gone} \<Longrightarrow> pool_step s (s\<lparr>pl_phase := Returned (pl_cancelled s)\<rparr>)"
| cancel: "\<not> pl_cancelled s \<Longrightarrow> \<forall>e. pl_phase s \<noteq> Returned e \<Longrightarrow> pool_step s (s\<lparr>pl_cancelled := True\<rparr>)"

inductive_cases pool_stepE: "pool_step s t"

subsection \<open>Termination\<close>

fun worker_cost :: "worker \<Rightarrow> nat" where
  "worker_cost Idle = 1"
| "worker_cost (Busy p) = 2"
| "worker_cost Gone = 0"

fun phase_cost :: "phase \<Rightarrow> nat" where
  "phase_cost Producing = 2"
| "phase_cost (Offering p) = 4"
| "phase_cost Closed = 1"
| "phase_cost (Returned e) = 0"

definition pool_cost :: "pool \<Rightarrow> nat" where
  "pool_cost s = 3 * length (pl_todo s) + phase_cost (pl_phase s) + sum_list (map worker_cost (pl_workers s)) +
     (if pl_cancelled s then 0 else 1)"

lemma sum_cost_update:
  assumes "i < length ws"
  shows "sum_list (map worker_cost (ws[i := w])) + worker_cost (ws ! i) = sum_list (map worker_cost ws) + worker_cost w"
proof -
  have "sum_list ((map worker_cost ws)[i := worker_cost w]) + map worker_cost ws ! i = sum_list (map worker_cost ws) + worker_cost w"
    using assms member_le_sum_list [of "map worker_cost ws ! i" "map worker_cost ws"]
    by (subst sum_list_update) (auto simp: elem_le_sum_list)
  then show ?thesis using assms by (simp add: map_update)
qed

lemma pool_step_cost: "pool_step s t \<Longrightarrow> pool_cost t < pool_cost s"
proof (induction rule: pool_step.induct)
  case (hand s p i)
  then show ?case using sum_cost_update [of i "pl_workers s" "Busy p"] by (simp add: pool_cost_def)
next
  case (crawl i s p)
  then show ?case using sum_cost_update [of i "pl_workers s" Idle] by (simp add: pool_cost_def)
next
  case (quit i s)
  then show ?case using sum_cost_update [of i "pl_workers s" Gone] by (simp add: pool_cost_def)
qed (simp_all add: pool_cost_def)

lemma pool_steps_cost: "(pool_step ^^ n) s t \<Longrightarrow> n + pool_cost t \<le> pool_cost s"
proof (induction n arbitrary: t)
  case (Suc n)
  then obtain r where "(pool_step ^^ n) s r" "pool_step r t" by auto
  then show ?case using Suc.IH pool_step_cost by fastforce
qed simp

lemma start_cost: "pool_cost (start_pool ps n) = 3 * length ps + 3 + pool_workers n"
  by (simp add: pool_cost_def start_pool_def sum_list_replicate)

subsection \<open>What is crawled\<close>

text \<open>The podcasts still to be offered: the first ones of every uuid that has not been seen.\<close>

fun fresh_podcasts :: "string set \<Rightarrow> Podcast list \<Rightarrow> Podcast list" where
  "fresh_podcasts seen [] = []"
| "fresh_podcasts seen (p # ps) =
     (if pc_Uuid p \<in> seen then fresh_podcasts seen ps else p # fresh_podcasts (insert (pc_Uuid p) seen) ps)"

lemma fresh_uuids: "pc_Uuid ` set (fresh_podcasts seen ps) = pc_Uuid ` set ps - seen"
  by (induction seen ps rule: fresh_podcasts.induct) auto

lemma fresh_distinct: "distinct (map pc_Uuid (fresh_podcasts seen ps))"
  using fresh_uuids by (induction seen ps rule: fresh_podcasts.induct) auto

fun in_hand :: "worker \<Rightarrow> Podcast multiset" where
  "in_hand (Busy p) = {#p#}"
| "in_hand w = {#}"

fun on_offer :: "phase \<Rightarrow> Podcast multiset" where
  "on_offer (Offering p) = {#p#}"
| "on_offer f = {#}"

text \<open>Every podcast of the batch is crawled, in a worker, on offer or still to be offered, or a cancelled caller dropped it.\<close>

definition pool_taken :: "pool \<Rightarrow> Podcast multiset" where
  "pool_taken s = mset (pl_crawled s) + sum_list (map in_hand (pl_workers s))"

definition pool_accounts :: "pool \<Rightarrow> Podcast multiset" where
  "pool_accounts s = pool_taken s + on_offer (pl_phase s) + mset (fresh_podcasts (pl_seen s) (pl_todo s))"

definition pool_inv :: "Podcast list \<Rightarrow> int \<Rightarrow> pool \<Rightarrow> bool" where
  "pool_inv ps n s \<longleftrightarrow>
     length (pl_workers s) = pool_workers n \<and>
     pool_accounts s \<subseteq># mset (fresh_podcasts {} ps) \<and>
     (\<not> pl_cancelled s \<longrightarrow> pool_accounts s = mset (fresh_podcasts {} ps)) \<and>
     (\<not> pl_cancelled s \<longrightarrow> (\<exists>p. pl_phase s = Offering p) \<or> pl_phase s = Producing \<longrightarrow> Gone \<notin> set (pl_workers s)) \<and>
     (\<not> pl_cancelled s \<longrightarrow> pl_phase s = Closed \<longrightarrow> pl_todo s = []) \<and>
     (\<forall>e. pl_phase s = Returned e \<longrightarrow> e = pl_cancelled s \<and> set (pl_workers s) \<subseteq> {Gone} \<and> (\<not> e \<longrightarrow> pl_todo s = []))"

lemma in_hand_update:
  assumes "i < length ws"
  shows "sum_list (map in_hand (ws[i := w])) + in_hand (ws ! i) = sum_list (map in_hand ws) + in_hand w"
  using assms
proof (induction ws arbitrary: i)
  case (Cons v ws)
  then show ?case by (cases i) (auto simp: ac_simps)
qed simp

lemma none_in_hand: "sum_list (replicate k {#}) = {#}"
  by (induction k) simp_all

lemma gone_in_hand: "set ws \<subseteq> {Gone} \<Longrightarrow> sum_list (map in_hand ws) = {#}"
  by (induction ws) auto

lemma gone_only: "set ws \<subseteq> {Gone} \<Longrightarrow> i < length ws \<Longrightarrow> ws ! i = Gone"
  using nth_mem by fastforce

lemma start_pool_inv: "pool_inv ps n (start_pool ps n)"
  by (auto simp: pool_inv_def start_pool_def pool_accounts_def pool_taken_def none_in_hand)

text \<open>Every step but the dropped offer keeps the account; a dropped offer needs a cancelled context.\<close>

lemma pool_step_accounts:
  assumes "pool_step s t"
  shows "pool_accounts t = pool_accounts s \<or> pl_cancelled t \<and> pool_accounts t \<subseteq># pool_accounts s"
  using assms
proof (induction rule: pool_step.induct)
  case (hand s p i)
  then show ?case using in_hand_update [of i "pl_workers s" "Busy p"] by (simp add: pool_accounts_def pool_taken_def)
next
  case (crawl i s p)
  then show ?case using in_hand_update [of i "pl_workers s" Idle] by (simp add: pool_accounts_def pool_taken_def)
next
  case (quit i s)
  then show ?case using in_hand_update [of i "pl_workers s" Gone] by (simp add: pool_accounts_def pool_taken_def)
qed (simp_all add: pool_accounts_def pool_taken_def)

lemma pool_step_cancelled: "pool_step s t \<Longrightarrow> pl_cancelled s \<Longrightarrow> pl_cancelled t"
  by (erule pool_step.cases) auto

lemma pool_step_inv:
  assumes "pool_step s t" "pool_inv ps n s"
  shows "pool_inv ps n t"
proof -
  have "pool_accounts t \<subseteq># mset (fresh_podcasts {} ps)" "\<not> pl_cancelled t \<longrightarrow> pool_accounts t = mset (fresh_podcasts {} ps)"
    using pool_step_accounts [OF assms(1)] pool_step_cancelled [OF assms(1)] assms(2)
    by (auto simp: pool_inv_def intro: subset_mset.order_trans)
  moreover have "length (pl_workers t) = pool_workers n" using assms by cases (auto simp: pool_inv_def)
  moreover have "\<not> pl_cancelled t \<longrightarrow> (\<exists>p. pl_phase t = Offering p) \<or> pl_phase t = Producing \<longrightarrow> Gone \<notin> set (pl_workers t)"
    using assms by cases (auto simp: pool_inv_def dest!: subsetD [OF set_update_subset_insert])
  moreover have "\<not> pl_cancelled t \<longrightarrow> pl_phase t = Closed \<longrightarrow> pl_todo t = []"
    using assms by cases (auto simp: pool_inv_def)
  moreover have "\<forall>e. pl_phase t = Returned e \<longrightarrow> e = pl_cancelled t \<and> set (pl_workers t) \<subseteq> {Gone} \<and> (\<not> e \<longrightarrow> pl_todo t = [])"
  proof (intro allI impI)
    fix e assume e: "pl_phase t = Returned e"
    have inv: "\<And>e. pl_phase s = Returned e \<Longrightarrow> e = pl_cancelled s \<and> set (pl_workers s) \<subseteq> {Gone} \<and> (\<not> e \<longrightarrow> pl_todo s = [])"
      "\<not> pl_cancelled s \<Longrightarrow> pl_phase s = Closed \<Longrightarrow> pl_todo s = []"
      using assms(2) by (simp_all add: pool_inv_def)
    show "e = pl_cancelled t \<and> set (pl_workers t) \<subseteq> {Gone} \<and> (\<not> e \<longrightarrow> pl_todo t = [])"
      using assms(1)
    proof cases
      case (crawl i p)
      then show ?thesis using e inv(1) [of e] gone_only [of "pl_workers s" i] by simp
    next
      case (quit i)
      then show ?thesis using e inv(1) [of e] gone_only [of "pl_workers s" i] by simp
    next
      case wait
      then show ?thesis using e inv(2) by simp
    qed (use e in simp_all)
  qed
  ultimately show ?thesis unfolding pool_inv_def by blast
qed

lemma pool_reach_inv: "pool_step\<^sup>*\<^sup>* (start_pool ps n) s \<Longrightarrow> pool_inv ps n s"
  by (induction rule: rtranclp_induct) (use start_pool_inv pool_step_inv in blast)+

subsection \<open>Progress\<close>

lemma some_worker: "pool_inv ps n s \<Longrightarrow> 0 < length (pl_workers s)"
  by (simp add: pool_inv_def pool_workers_def)

lemma worker_moves:
  assumes "i < length (pl_workers s)" "pl_workers s ! i \<noteq> Gone" "pl_workers s ! i \<noteq> Idle \<or> (\<exists>p. pl_phase s = Offering p) \<or> pl_phase s = Closed"
  shows "\<exists>t. pool_step s t"
  using assms by (cases "pl_workers s ! i") (auto intro: pool_step.intros)

lemma pool_progress:
  assumes inv: "pool_inv ps n s" and "\<forall>e. pl_phase s \<noteq> Returned e"
  shows "\<exists>t. pool_step s t"
proof (cases "pl_phase s")
  case Producing
  then show ?thesis by (cases "pl_todo s") (blast intro: pool_step.intros)+
next
  case (Offering p)
  have "pl_cancelled s \<or> pl_workers s ! 0 \<noteq> Gone"
    using inv Offering some_worker [OF inv] nth_mem [of 0 "pl_workers s"] by (auto simp: pool_inv_def simp del: nth_mem)
  then show ?thesis using Offering some_worker [OF inv] worker_moves by (auto intro: pool_step.abort)
next
  case Closed
  show ?thesis
  proof (cases "set (pl_workers s) \<subseteq> {Gone}")
    case False
    then obtain i where "i < length (pl_workers s)" "pl_workers s ! i \<noteq> Gone"
      by (metis in_set_conv_nth insertI1 subsetI)
    then show ?thesis using Closed worker_moves by blast
  qed (use Closed in \<open>auto intro: pool_step.wait\<close>)
qed (use assms in simp)

lemma pool_returns:
  assumes "pool_inv ps n s"
  shows "\<exists>t e. pool_step\<^sup>*\<^sup>* s t \<and> pl_phase t = Returned e"
  using assms
proof (induction "pool_cost s" arbitrary: s rule: less_induct)
  case less
  show ?case
  proof (cases "\<exists>e. pl_phase s = Returned e")
    case False
    then obtain t where t: "pool_step s t" using pool_progress less.prems by blast
    then show ?thesis using less.hyps [OF pool_step_cost [OF t] pool_step_inv [OF t less.prems]] by (meson converse_rtranclp_into_rtranclp)
  qed blast
qed

lemma pool_returned:
  assumes "pool_inv ps n s" "pl_phase s = Returned e"
  shows "e = pl_cancelled s" "mset (pl_crawled s) \<subseteq># mset (fresh_podcasts {} ps)"
    "\<not> e \<Longrightarrow> mset (pl_crawled s) = mset (fresh_podcasts {} ps)"
proof -
  have "sum_list (map in_hand (pl_workers s)) = {#}" using assms gone_in_hand by (simp add: pool_inv_def)
  then have acc: "pool_accounts s = mset (pl_crawled s) + mset (fresh_podcasts (pl_seen s) (pl_todo s))"
    using assms(2) by (simp add: pool_accounts_def pool_taken_def)
  then show "mset (pl_crawled s) \<subseteq># mset (fresh_podcasts {} ps)"
    using assms(1) unfolding pool_inv_def by (metis mset_subset_eq_add_left subset_mset.order_trans)
  show "e = pl_cancelled s" using assms by (simp add: pool_inv_def)
  moreover have "\<not> e \<Longrightarrow> pl_todo s = []" using assms unfolding pool_inv_def by blast
  ultimately show "\<not> e \<Longrightarrow> mset (pl_crawled s) = mset (fresh_podcasts {} ps)"
    using assms(1) acc unfolding pool_inv_def by simp
qed

lemma returned_stuck: "pool_inv ps n s \<Longrightarrow> pl_phase s = Returned e \<Longrightarrow> \<not> pool_step s t"
  by (auto simp: pool_inv_def elim!: pool_stepE dest: gone_only)

lemma crawled_once:
  assumes "pool_inv ps n s"
  shows "distinct (map pc_Uuid (pl_crawled s))"
proof -
  have "mset (pl_crawled s) \<subseteq># mset (fresh_podcasts {} ps)"
    using assms unfolding pool_inv_def pool_accounts_def pool_taken_def
    by (metis (no_types, lifting) add.assoc mset_subset_eq_add_left subset_mset.order_trans)
  then obtain qs where "mset (fresh_podcasts {} ps) = mset (pl_crawled s @ qs)"
    by (metis ex_mset mset_append subset_mset.add_diff_inverse)
  then have "mset (map pc_Uuid (fresh_podcasts {} ps)) = mset (map pc_Uuid (pl_crawled s @ qs))" by (simp only: mset_map)
  then have "distinct (map pc_Uuid (pl_crawled s @ qs))" using fresh_distinct mset_eq_imp_distinct_iff by blast
  then show ?thesis by simp
qed

lemma fresh_subset: "set (fresh_podcasts seen ps) \<subseteq> set ps"
  by (induction seen ps rule: fresh_podcasts.induct) auto

definition crawling :: "pool \<Rightarrow> nat" where
  "crawling s = length (filter (\<lambda>w. in_hand w \<noteq> {#}) (pl_workers s))"

subsection \<open>The properties\<close>

text \<open>
  C34. The bounded crawl always ends: a run of its goroutines has at most three steps per podcast,
  one per worker and three more, and it gets stuck exactly when the function has returned (so
  neither the offer of a podcast nor a worker ever waits for a partner that is gone).
\<close>

theorem crawl_pool_ends:
  assumes "(pool_step ^^ k) (start_pool ps n) s"
  shows "k \<le> 3 * length ps + pool_workers n + 3 \<and> ((\<nexists>t. pool_step s t) \<longleftrightarrow> (\<exists>e. pl_phase s = Returned e))"
proof -
  have "pool_inv ps n s" using assms pool_reach_inv by (blast intro: relpowp_imp_rtranclp)
  then show ?thesis
    using pool_steps_cost [OF assms] start_cost pool_progress returned_stuck by (metis add_leD1 add.commute add.left_commute)
qed

text \<open>
  C35. From every state the crawl can reach, it goes on to return.  No uuid is crawled twice, at most
  the given number of podcasts is crawled at once, it returns an error exactly when its context is
  cancelled, and when it returns none every uuid of the batch has been crawled.
\<close>

theorem crawl_pool_complete:
  assumes "pool_step\<^sup>*\<^sup>* (start_pool ps n) s"
  shows "(\<exists>t e. pool_step\<^sup>*\<^sup>* s t \<and> pl_phase t = Returned e) \<and>
    distinct (map pc_Uuid (pl_crawled s)) \<and> crawling s \<le> pool_workers n \<and>
    (\<forall>e. pl_phase s = Returned e \<longrightarrow> e = pl_cancelled s \<and>
       (\<not> e \<longrightarrow> pc_Uuid ` set (pl_crawled s) = pc_Uuid ` set ps \<and> set (pl_crawled s) \<subseteq> set ps))"
proof -
  have inv: "pool_inv ps n s" using assms by (rule pool_reach_inv)
  have "crawling s \<le> pool_workers n" using inv by (auto simp: crawling_def pool_inv_def intro: order_trans [OF length_filter_le])
  moreover have "pc_Uuid ` set (pl_crawled s) = pc_Uuid ` set ps \<and> set (pl_crawled s) \<subseteq> set ps"
    if "pl_phase s = Returned False"
  proof -
    have "set (pl_crawled s) = set (fresh_podcasts {} ps)" using pool_returned(3) [OF inv that] mset_eq_setD by blast
    then show ?thesis using fresh_uuids [of "{}" ps] fresh_subset [of "{}" ps] by simp
  qed
  ultimately show ?thesis using pool_returns [OF inv] crawled_once [OF inv] pool_returned(1) [OF inv] by metis
qed

subsection \<open>Witnesses\<close>

text \<open>One worker crawls a batch that names a podcast twice.\<close>

definition demo_podcast :: Podcast where
  "demo_podcast =
     \<lparr>pc_ID = 1, pc_Uuid = ''p1'', pc_FeedUrl = ''https://f'', pc_Title = '''', pc_Author = '''', pc_Description = '''',
      pc_ImageUrl = '''', pc_WebsiteUrl = '''', pc_Category = '''', pc_Language = '''', pc_MediaType = '''',
      pc_ShowType = '''', pc_IsExplicit = False, pc_RefreshStatus = ''ok'', pc_RefreshError = '''', pc_FeedEtag = '''',
      pc_FeedLastModified = '''', pc_LastRefreshAt = None, pc_NextRefreshAt = 0, pc_LatestEpisodeUuid = None,
      pc_LatestEpisodePublished = None, pc_ContentModifiedMs = 0, pc_CreatedAt = 0, pc_UpdatedAt = 0,
      pc_BackgroundColor = '''', pc_TintForLightBg = '''', pc_TintForDarkBg = '''', pc_ColorsSourceImageUrl = ''''\<rparr>"

definition demo_pool :: "Podcast list \<Rightarrow> phase \<Rightarrow> worker \<Rightarrow> Podcast list \<Rightarrow> pool" where
  "demo_pool todo f w ps =
     \<lparr>pl_todo = todo, pl_seen = {''p1''}, pl_phase = f, pl_workers = [w], pl_cancelled = False, pl_crawled = ps\<rparr>"

lemma demo_pool_run:
  "(pool_step ^^ 7) (start_pool [demo_podcast, demo_podcast] 1) (demo_pool [] (Returned False) Gone [demo_podcast])"
proof -
  let ?p = demo_podcast
  have "pool_step (start_pool [?p, ?p] 1) (demo_pool [?p] (Offering ?p) Idle [])"
    using pool_step.offer [of "start_pool [?p, ?p] 1" ?p "[?p]"]
    by (simp add: start_pool_def demo_pool_def pool_workers_def demo_podcast_def)
  moreover have "pool_step (demo_pool [?p] (Offering ?p) Idle []) (demo_pool [?p] Producing (Busy ?p) [])"
    using pool_step.hand [of "demo_pool [?p] (Offering ?p) Idle []" ?p 0] by (simp add: demo_pool_def)
  moreover have "pool_step (demo_pool [?p] Producing (Busy ?p) []) (demo_pool [] Producing (Busy ?p) [])"
    using pool_step.skip [of "demo_pool [?p] Producing (Busy ?p) []" ?p "[]"] by (simp add: demo_pool_def demo_podcast_def)
  moreover have "pool_step (demo_pool [] Producing (Busy ?p) []) (demo_pool [] Producing Idle [?p])"
    using pool_step.crawl [of 0 "demo_pool [] Producing (Busy ?p) []" ?p] by (simp add: demo_pool_def)
  moreover have "pool_step (demo_pool [] Producing Idle [?p]) (demo_pool [] Closed Idle [?p])"
    using pool_step.close [of "demo_pool [] Producing Idle [?p]"] by (simp add: demo_pool_def)
  moreover have "pool_step (demo_pool [] Closed Idle [?p]) (demo_pool [] Closed Gone [?p])"
    using pool_step.quit [of 0 "demo_pool [] Closed Idle [?p]"] by (simp add: demo_pool_def)
  moreover have "pool_step (demo_pool [] Closed Gone [?p]) (demo_pool [] (Returned False) Gone [?p])"
    using pool_step.wait [of "demo_pool [] Closed Gone [?p]"] by (simp add: demo_pool_def)
  ultimately have "(pool_step ^^ Suc (Suc (Suc (Suc (Suc (Suc (Suc 0)))))))
      (start_pool [?p, ?p] 1) (demo_pool [] (Returned False) Gone [?p])"
    by (blast intro: relpowp_Suc_I relpowp_0_I)
  then show ?thesis by (simp only: numeral_nat One_nat_def)
qed

lemma crawl_pool_ends_witness: "\<nexists>t. pool_step (demo_pool [] (Returned False) Gone [demo_podcast]) t"
proof -
  have "pl_phase (demo_pool [] (Returned False) Gone [demo_podcast]) = Returned False" by (simp add: demo_pool_def)
  then show ?thesis using crawl_pool_ends [OF demo_pool_run] by blast
qed

lemma crawl_pool_complete_witness: "distinct (map pc_Uuid (pl_crawled (demo_pool [] (Returned False) Gone [demo_podcast])))"
  using crawl_pool_complete [OF relpowp_imp_rtranclp [OF demo_pool_run]] by blast

end
