(* ===== verification/Tasks.thy ===== *)
theory Tasks
  imports Crawl Task_Pool Social_Groups
begin

section \<open>The tasks of the worker\<close>

text \<open>
  The handlers of \<^verbatim>\<open>src/tasks/server.go\<close>: the backfill of episode aliases, the clean-up of the
  object store, the refresh of one podcast and of all that are due, the import of a list of feeds,
  and the fan-out of a group post.  A payload that does not parse is \<open>None\<close>.
\<close>

definition SkipRetry :: goerr where
  "SkipRetry = NewError ''skip retry for the task''"

text \<open>\<^verbatim>\<open>errs.E(op, errs.Internal, fmt.Errorf("%w: %v", asynq.SkipRetry, err))\<close>\<close>

definition bad_payload :: "string \<Rightarrow> goerr" where
  "bad_payload op = E_op op Internal (WrapError '': invalid payload'' SkipRetry)"

subsection \<open>The backfill of aliases\<close>

fun backfill_rows :: "kctx \<Rightarrow> (int \<times> string \<times> string) list \<Rightarrow> catalog \<Rightarrow> goerr option \<times> catalog" where
  "backfill_rows x [] c = (None, c)"
| "backfill_rows x ((i, uuid, guid) # rows) c =
     (let device = DeviceEpisodeUUID x guid
      in if device = '''' \<or> device = uuid then backfill_rows x rows c
         else (case UpsertEpisodeAlias (kx_env x) device uuid c of
                 Inl err \<Rightarrow> (Some (E_op ''tasks/WorkerServer.HandleAliasBackfillTask'' Database err), c)
               | Inr c \<Rightarrow> backfill_rows x rows c))"

definition backfill_batch :: int where "backfill_batch = 500"

lemma GetEpisodesForAliasBackfill_fails: "GetEpisodesForAliasBackfill e after n c \<noteq> Inr rows"
  by (simp add: GetEpisodesForAliasBackfill_def stmt_Inr)

text \<open>
  The loop: every round reads a batch above the greatest identity seen so far.  Since the first read
  already fails, no round is ever completed.
\<close>

function alias_backfill :: "kctx \<Rightarrow> int \<Rightarrow> catalog \<Rightarrow> goerr option \<times> catalog" where
  "alias_backfill x after c =
     (case GetEpisodesForAliasBackfill (kx_env x) after backfill_batch c of
        Inl err \<Rightarrow> (Some (E_op ''tasks/WorkerServer.HandleAliasBackfillTask'' Database err), c)
      | Inr rows \<Rightarrow>
          if rows = [] then (None, c)
          else (case backfill_rows x rows c of
                  (Some err, c) \<Rightarrow> (Some err, c)
                | (None, c) \<Rightarrow> alias_backfill x (fst (last rows)) c))"
  by pat_completeness auto

termination
  by (relation "{}") (simp_all add: GetEpisodesForAliasBackfill_fails)

declare alias_backfill.simps [simp del]

definition HandleAliasBackfillTask :: "kctx \<Rightarrow> catalog \<Rightarrow> goerr option \<times> catalog" where
  "HandleAliasBackfillTask x c = alias_backfill x 0 c"

text \<open>The task fails every time and writes no alias.\<close>

lemma alias_backfill_fails: "\<exists>err. HandleAliasBackfillTask x c = (Some err, c)"
  by (simp add: HandleAliasBackfillTask_def alias_backfill.simps [of x 0 c] GetEpisodesForAliasBackfill_fails split: sum.split)

subsection \<open>The clean-up of objects\<close>

text \<open>
  Due rows are claimed for ten minutes, at most \<open>limit\<close> and the oldest first; \<^verbatim>\<open>SKIP LOCKED\<close> makes two
  workers claim different rows.
\<close>

definition due_deletes :: "instant \<Rightarrow> int \<Rightarrow> social_db \<Rightarrow> int list" where
  "due_deletes now limit d =
     take (nat limit) (sort (map od_ID (filter (\<lambda>r. od_CompletedAt r = None \<and> od_AvailableAt r \<le> now) (sd_outbox d))))"

definition ClaimObjectDeletes :: "env \<Rightarrow> instant \<Rightarrow> int \<Rightarrow> social_db \<Rightarrow> (ObjectDeleteOutbox list \<times> social_db) result" where
  "ClaimObjectDeletes e now limit d =
     stmt e ''ClaimObjectDeletes''
       (let mine = (\<lambda>r. od_ID r \<in> set (due_deletes now limit d));
            rows = update_where mine (\<lambda>r. r\<lparr>od_AvailableAt := now + 10 * 60 * 1000000000\<rparr>) (sd_outbox d)
        in Inr (filter mine rows, d\<lparr>sd_outbox := rows\<rparr>))"

definition RetryObjectDelete :: "env \<Rightarrow> instant \<Rightarrow> int \<Rightarrow> int \<Rightarrow> social_db \<Rightarrow> social_db result" where
  "RetryObjectDelete e now i delay d =
     stmt e ''RetryObjectDelete''
       (if \<exists>r \<in> set (sd_outbox d). od_ID r = i \<and> od_Attempts r + 1 \<ge> 2 ^ 31 then Inl (PgError ''22003'' '''')
        else Inr (d\<lparr>sd_outbox := update_where (\<lambda>r. od_ID r = i)
               (\<lambda>r. r\<lparr>od_Attempts := od_Attempts r + 1, od_AvailableAt := now + delay * 1000000000\<rparr>) (sd_outbox d)\<rparr>))"

definition CompleteObjectDelete :: "env \<Rightarrow> instant \<Rightarrow> int \<Rightarrow> social_db \<Rightarrow> social_db result" where
  "CompleteObjectDelete e now i d =
     stmt e ''CompleteObjectDelete''
       (Inr (d\<lparr>sd_outbox := update_where (\<lambda>r. od_ID r = i) (\<lambda>r. r\<lparr>od_CompletedAt := Some now\<rparr>) (sd_outbox d)\<rparr>))"

definition minInt32 :: "int \<Rightarrow> int \<Rightarrow> int" where
  "minInt32 v maximum = (if v < maximum then v else maximum)"

definition retry_delay :: "int \<Rightarrow> int" where
  "retry_delay attempts = int64 (30 * 2 ^ nat (minInt32 attempts 8))"

text \<open>
  \<open>del key\<close> tells whether the object store deletes the object \<open>key\<close>; the second result lists the
  objects deleted.
\<close>

fun clean_items ::
  "env \<Rightarrow> instant \<Rightarrow> (string \<Rightarrow> bool) \<Rightarrow> ObjectDeleteOutbox list \<Rightarrow> social_db \<Rightarrow> goerr option \<times> string list \<times> social_db" where
  "clean_items e now del [] d = (None, [], d)"
| "clean_items e now del (item # items) d =
     (if \<not> del (od_ObjectKey item)
      then (case RetryObjectDelete e now (od_ID item) (retry_delay (od_Attempts item)) d of
              Inl _ \<Rightarrow> clean_items e now del items d
            | Inr d \<Rightarrow> clean_items e now del items d)
      else (case CompleteObjectDelete e now (od_ID item) d of
              Inl err \<Rightarrow> (Some err, [od_ObjectKey item], d)
            | Inr d \<Rightarrow> (let (err, gone, d) = clean_items e now del items d in (err, od_ObjectKey item # gone, d))))"

definition HandleObjectCleanupTask ::
  "env \<Rightarrow> instant \<Rightarrow> (string \<Rightarrow> bool) option \<Rightarrow> social_db \<Rightarrow> goerr option \<times> string list \<times> social_db" where
  "HandleObjectCleanupTask e now objects d =
     (case objects of
        None \<Rightarrow> (None, [], d)
      | Some del \<Rightarrow>
          (case ClaimObjectDeletes e now 100 d of
             Inl err \<Rightarrow> (Some (E_op ''tasks/WorkerServer.HandleObjectCleanupTask'' Database err), [], d)
           | Inr (items, d) \<Rightarrow> clean_items e now del items d))"

subsection \<open>Refreshing podcasts\<close>

record PodcastRefreshPayload =
  prp_PodcastUUID :: string
  prp_FeedURL :: string
  prp_JobID :: string

definition podcastFromPayload :: "kctx \<Rightarrow> PodcastRefreshPayload \<Rightarrow> catalog \<Rightarrow> Podcast result" where
  "podcastFromPayload x p c =
     (if prp_PodcastUUID p \<noteq> '''' then GetPodcastByUUID (kx_env x) (prp_PodcastUUID p) (ct_core c)
      else GetPodcastByFeedURL (kx_env x) (CanonicalFeedURL (kx_env x) (prp_FeedURL p)) (ct_core c))"

text \<open>
  \<open>jobs\<close> are the keys \<^verbatim>\<open>refresh-job:<id>\<close> of Redis, which expire after fifteen minutes; failures
  to write them are ignored, and are not modelled.
\<close>

type_synonym jobs = "string \<rightharpoonup> string"

definition set_job :: "PodcastRefreshPayload \<Rightarrow> string \<Rightarrow> jobs \<Rightarrow> jobs" where
  "set_job p status jobs = (if prp_JobID p = '''' then jobs else jobs(prp_JobID p \<mapsto> status))"

definition HandlePodcastRefreshTask ::
  "kctx \<Rightarrow> PodcastRefreshPayload option \<Rightarrow> jobs \<Rightarrow> catalog \<Rightarrow> goerr option \<times> jobs \<times> announced \<times> catalog" where
  "HandlePodcastRefreshTask x payload jobs c =
     (case payload of
        None \<Rightarrow> (Some (bad_payload ''tasks/WorkerServer.HandlePodcastRefreshTask''), jobs, nothing_announced, c)
      | Some p \<Rightarrow>
          (let jobs = set_job p ''running'' jobs
           in case podcastFromPayload x p c of
                Inl err \<Rightarrow>
                  if Is_ErrNoRows err then (None, set_job p ''failed'' jobs, nothing_announced, c)
                  else (E [AOp ''tasks/WorkerServer.HandlePodcastRefreshTask'', AError err], jobs, nothing_announced, c)
              | Inr podcast \<Rightarrow>
                  (case Crawl x podcast c of
                     (Some err, an, c) \<Rightarrow> (None, set_job p ''failed'' jobs, an, c)
                   | (None, an, c) \<Rightarrow> (None, set_job p ''completed'' jobs, an, c))))"

text \<open>The error of a feed is recorded on its row and does not stop the loop.\<close>

fun import_feeds :: "kctx \<Rightarrow> string list \<Rightarrow> catalog \<Rightarrow> catalog" where
  "import_feeds x [] c = c"
| "import_feeds x (url # urls) c = (let (r, an, c) = EnsurePodcast x url c in import_feeds x urls c)"

definition HandleOpmlImportTask :: "kctx \<Rightarrow> string list option \<Rightarrow> catalog \<Rightarrow> goerr option \<times> catalog" where
  "HandleOpmlImportTask x payload c =
     (case payload of
        None \<Rightarrow> (Some (bad_payload ''tasks/WorkerServer.HandleOpmlImportTask''), c)
      | Some urls \<Rightarrow> (None, import_feeds x urls c))"

definition refreshBatchSize :: int where "refreshBatchSize = 200"
definition scheduledCrawlWorkers :: int where "scheduledCrawlWorkers = 8"

text \<open>The pool that \<^verbatim>\<open>HandleRefreshDuePodcastsTask\<close> starts on the podcasts that are due.\<close>

definition HandleRefreshDuePodcastsTask :: "kctx \<Rightarrow> catalog \<Rightarrow> goerr + pool" where
  "HandleRefreshDuePodcastsTask x c =
     (case GetDuePodcasts (kx_env x) (kx_db x) refreshBatchSize c of
        Inl err \<Rightarrow> Inl (E_op ''tasks/WorkerServer.HandleRefreshDuePodcastsTask'' Database err)
      | Inr due \<Rightarrow> Inr (start_pool due scheduledCrawlWorkers))"

subsection \<open>The fan-out of a group post\<close>

definition HandleGroupPostFanoutTask ::
  "sctx \<Rightarrow> GroupPostFanoutPayload option \<Rightarrow> social_db \<Rightarrow> goerr option \<times> data_push list" where
  "HandleGroupPostFanoutTask x payload d =
     (if \<not> sx_push x then (None, [])
      else case payload of
        None \<Rightarrow> (Some (bad_payload ''tasks/WorkerServer.HandleGroupPostFanoutTask''), [])
      | Some p \<Rightarrow>
          if gfp_GroupID p \<le> 0 \<or> gfp_PostID p \<le> 0 \<or> gfp_ActorUserID p \<le> 0
          then (Some (WrapError '': invalid group post fanout payload'' SkipRetry), [])
          else (case GetGroupNotifyTargets (sx_env x) (gfp_GroupID p) (gfp_ActorUserID p) d of
                  Inl err \<Rightarrow> (Some (E_op ''tasks/WorkerServer.HandleGroupPostFanoutTask'' Database err), [])
                | Inr _ \<Rightarrow> (None, group_fanout x p d)))"

end
