(* ===== verification/Crawl_Theorems.thy ===== *)
theory Crawl_Theorems
  imports Tasks Example_Env
begin

section \<open>What the crawler does to the catalogue\<close>

text \<open>
  The index of persons and the episodes are written side by side: the first lemmas say what each part
  leaves alone, the next ones follow the loop over the items, and the properties put them together.
\<close>

subsection \<open>What the index of persons leaves alone\<close>

definition same_episodes :: "catalog \<Rightarrow> catalog \<Rightarrow> bool" where
  "same_episodes c c' \<longleftrightarrow> ct_episodes c' = ct_episodes c \<and> ct_aliases c' = ct_aliases c \<and> ct_core c' = ct_core c"

lemma same_episodes_refl [simp]: "same_episodes c c"
  by (simp add: same_episodes_def)

lemma same_episodes_trans: "same_episodes a b \<Longrightarrow> same_episodes b c \<Longrightarrow> same_episodes a c"
  by (simp add: same_episodes_def)

lemma create_person_same: "create_person x f n c = (r, c') \<Longrightarrow> same_episodes c c'"
  by (auto simp: create_person_def InTx_def CreatePerson_def AddPersonAlias_def insert_row_def same_episodes_def Let_def res_simps
      split: option.splits sum.splits if_splits)

lemma resolvePerson_same: "resolvePerson x f n c = (r, c') \<Longrightarrow> same_episodes c c'"
  by (auto simp: resolvePerson_def split: sum.splits prod.splits if_splits dest: create_person_same)

lemma AddPersonExternalRef_same: "AddPersonExternalRef e i s v c = Inr c' \<Longrightarrow> same_episodes c c'"
  by (auto simp: AddPersonExternalRef_def res_simps same_episodes_def)

lemma UpsertPersonAppearance_same: "UpsertPersonAppearance e now i p ep role c = Inr (j, c') \<Longrightarrow> same_episodes c c'"
  by (auto simp: UpsertPersonAppearance_def res_simps same_episodes_def Let_def split: if_splits)

lemma ingest_person_same: "ingest_person x podcast ep p c = (r, c') \<Longrightarrow> same_episodes c c'"
  by (auto simp: ingest_person_def Let_def split: if_splits sum.splits prod.splits
      dest!: resolvePerson_same AddPersonExternalRef_same UpsertPersonAppearance_same intro: same_episodes_trans)

lemma IngestPersons_same: "IngestPersons x podcast ep ps c = (r, c') \<Longrightarrow> same_episodes c c'"
proof (induction ps arbitrary: c r c')
  case (Cons p ps)
  obtain err new c1 where p: "ingest_person x podcast ep p c = ((err, new), c1)" by (metis prod.exhaust)
  show ?case
  proof (cases err)
    case None
    obtain r2 c2 where "IngestPersons x podcast ep ps c1 = (r2, c2)" by (metis prod.exhaust)
    then show ?thesis
      using Cons.IH [of c1 r2 c2] ingest_person_same [OF p] Cons.prems p None
      by (auto simp: Let_def split: prod.splits intro: same_episodes_trans)
  qed (use Cons.prems p ingest_person_same [OF p] in auto)
qed simp

subsection \<open>The loop over the items\<close>

text \<open>The episodes a crawl writes, and the table of episodes after one of them.\<close>

definition usable :: "kctx \<Rightarrow> Podcast \<Rightarrow> Item list \<Rightarrow> UpsertEpisodeParams list" where
  "usable x podcast items = List.map_filter (episodeFromItem x podcast) items"

definition written :: "kctx \<Rightarrow> UpsertEpisodeParams \<Rightarrow> Episode list \<Rightarrow> Episode list \<Rightarrow> bool" where
  "written x a t t' \<longleftrightarrow>
     (if params_key a \<in> episode_key ` set t
      then t' = update_where (\<lambda>r. episode_key r = params_key a) (refreshed_episode (kx_env x) (kx_db x) a) t
      else \<exists>i u. t' = t @ [new_episode_row (kx_env x) (kx_db x) i u a])"

fun all_written :: "kctx \<Rightarrow> UpsertEpisodeParams list \<Rightarrow> Episode list \<Rightarrow> Episode list \<Rightarrow> bool" where
  "all_written x [] t t' \<longleftrightarrow> t' = t"
| "all_written x (a # as) t t' \<longleftrightarrow> (\<exists>s. written x a t s \<and> all_written x as s t')"

lemma UpsertEpisode_written:
  "UpsertEpisode (kx_env x) (kx_db x) a c = Inr c' \<Longrightarrow> written x a (ct_episodes c) (ct_episodes c') \<and> ct_core c' = ct_core c"
proof (cases "params_key a \<in> episode_key ` set (ct_episodes c)")
  case False
  assume "UpsertEpisode (kx_env x) (kx_db x) a c = Inr c'"
  with False obtain u where "c' = c\<lparr>ct_seq := ct_seq c + 1, ct_episodes := ct_episodes c @ [new_episode_row (kx_env x) (kx_db x) (ct_seq c + 1) u a]\<rparr>"
    unfolding UpsertEpisode_def Let_def insert_row_def by (auto simp: res_simps split: if_splits)
  then show ?thesis using False by (auto simp: written_def)
qed (auto simp: UpsertEpisode_def res_simps Let_def written_def)

lemma write_episode_written:
  assumes "write_episode x a c = (None, c')"
  shows "written x a (ct_episodes c) (ct_episodes c') \<and> ct_core c' = ct_core c"
proof -
  obtain c1 where u: "UpsertEpisode (kx_env x) (kx_db x) a c = Inr c1"
    using assms by (auto simp: write_episode_def split: sum.splits)
  then have "ct_episodes c' = ct_episodes c1 \<and> ct_core c' = ct_core c1"
    using assms by (auto simp: write_episode_def Let_def UpsertEpisodeAlias_def res_simps split: sum.splits if_splits)
  then show ?thesis using UpsertEpisode_written [OF u] by simp
qed

lemma ingest_item_written:
  assumes "ingest_item x podcast item a g c = (None, g', c')"
  shows "written x a (ct_episodes c) (ct_episodes c') \<and> ct_core c' = ct_core c \<and>
    pg_fresh g' = pg_fresh (note_episode podcast a g) \<and> pg_count g' = pg_count g \<and>
    pg_latestPublished g' = pg_latestPublished (note_episode podcast a g)"
proof -
  obtain c1 where w: "write_episode x a c = (None, c1)"
    using assms by (auto simp: ingest_item_def split: prod.splits option.splits)
  have "same_episodes c1 c'"
  proof (cases "itemPersons x item = []")
    case False
    obtain r c2 where p: "IngestPersons x (pc_Uuid podcast) (upe_Uuid a) (itemPersons x item) c1 = (r, c2)" by (metis prod.exhaust)
    then show ?thesis using assms w False IngestPersons_same [OF p]
      by (auto simp: ingest_item_def Let_def split: prod.splits option.splits)
  qed (use assms w in \<open>auto simp: ingest_item_def Let_def\<close>)
  moreover have "pg_fresh g' = pg_fresh (note_episode podcast a g) \<and> pg_count g' = pg_count g \<and>
    pg_latestPublished g' = pg_latestPublished (note_episode podcast a g)"
    using assms w by (auto simp: ingest_item_def Let_def note_episode_def split: prod.splits option.splits if_splits)
  ultimately show ?thesis using write_episode_written [OF w] by (simp add: same_episodes_def)
qed

lemma crawl_items_written:
  assumes "crawl_items x podcast items g c = (None, g', c')"
  shows "all_written x (take (maxEpisodesPerCrawl - pg_count g) (usable x podcast items)) (ct_episodes c) (ct_episodes c') \<and>
    ct_core c' = ct_core c \<and>
    pg_fresh g' = pg_fresh g @ filter (is_fresh podcast) (take (maxEpisodesPerCrawl - pg_count g) (usable x podcast items))"
  using assms
proof (induction items arbitrary: g c)
  case (Cons item items)
  show ?case
  proof (cases "pg_count g \<ge> maxEpisodesPerCrawl")
    case False
    show ?thesis
    proof (cases "episodeFromItem x podcast item")
      case None
      then show ?thesis using Cons False by (simp add: usable_def List.map_filter_simps)
    next
      case (Some a)
      obtain g1 c1 where i: "ingest_item x podcast item a (g\<lparr>pg_count := pg_count g + 1\<rparr>) c = (None, g1, c1)"
        and r: "crawl_items x podcast items g1 c1 = (None, g', c')"
        using Cons.prems False Some by (auto split: prod.splits option.splits)
      have n: "take (maxEpisodesPerCrawl - pg_count g) (usable x podcast (item # items)) =
          a # take (maxEpisodesPerCrawl - pg_count g1) (usable x podcast items)"
        using False Some ingest_item_written [OF i]
        by (simp add: usable_def List.map_filter_simps take_Suc_Cons [symmetric] Suc_diff_Suc)
      show ?thesis
        unfolding n using Cons.IH [OF r] ingest_item_written [OF i] by (auto simp: note_episode_def Let_def)
    qed
  qed (use Cons.prems in simp)
qed (simp add: usable_def List.map_filter_simps)

text \<open>The identity of an episode, which a crawl keeps, and a row that carries the data of an item.\<close>

definition identity :: "Episode \<Rightarrow> int \<times> string \<times> int \<times> string \<times> instant" where
  "identity r = (ep_ID r, ep_Uuid r, ep_PodcastID r, ep_Guid r, ep_CreatedAt r)"

definition carries :: "kctx \<Rightarrow> UpsertEpisodeParams \<Rightarrow> Episode \<Rightarrow> bool" where
  "carries x a r \<longleftrightarrow> episode_key r = params_key a \<and> refreshed_episode (kx_env x) (kx_db x) a r = r"

lemma refreshed_same [simp]:
  "episode_key (refreshed_episode e now a r) = episode_key r" "identity (refreshed_episode e now a r) = identity r"
  "ep_ID (refreshed_episode e now a r) = ep_ID r" "ep_Uuid (refreshed_episode e now a r) = ep_Uuid r"
  "refreshed_episode e now a (refreshed_episode e now a r) = refreshed_episode e now a r"
  by (simp_all add: refreshed_episode_def episode_key_def identity_def)

lemma new_row_carries: "carries x a (new_episode_row (kx_env x) (kx_db x) i u a)"
  by (simp add: carries_def refreshed_episode_def new_episode_row_def episode_key_def params_key_def)

lemma written_carries:
  assumes "written x a t t'"
  shows "\<exists>r \<in> set t'. carries x a r"
proof (cases "params_key a \<in> episode_key ` set t")
  case True
  then obtain r where "r \<in> set t" "episode_key r = params_key a" by auto
  then have "refreshed_episode (kx_env x) (kx_db x) a r \<in> set t'" "carries x a (refreshed_episode (kx_env x) (kx_db x) a r)"
    using True assms by (auto simp: written_def set_update_where carries_def)
  then show ?thesis by blast
qed (use assms new_row_carries in \<open>auto simp: written_def\<close>)

lemma written_other: "written x a t t' \<Longrightarrow> r \<in> set t \<Longrightarrow> episode_key r \<noteq> params_key a \<Longrightarrow> r \<in> set t'"
  by (auto simp: written_def tbl_simps split: if_splits)

lemma update_identity: "map identity (update_where P (refreshed_episode e now a) t) = map identity t"
  by (simp add: update_where_def)

lemma written_identity: "written x a t t' \<Longrightarrow> identity ` set t \<subseteq> identity ` set t'"
  using arg_cong [OF update_identity, of set] by (auto simp: written_def split: if_splits)

lemma written_rest:
  assumes "written x a t t'" "params_key a \<in> K"
  shows "filter (\<lambda>r. episode_key r \<notin> K) t' = filter (\<lambda>r. episode_key r \<notin> K) t"
proof -
  have "filter (\<lambda>r. episode_key r \<notin> K) (update_where (\<lambda>r. episode_key r = params_key a) (refreshed_episode e now a) u) =
      filter (\<lambda>r. episode_key r \<notin> K) u" for e now and u :: "Episode list"
    using assms(2) by (induction u) (auto simp: update_where_def)
  moreover have "episode_key (new_episode_row e now i u a) = params_key a" for e now i u
    by (simp add: new_episode_row_def episode_key_def params_key_def)
  ultimately show ?thesis using assms by (auto simp: written_def split: if_splits)
qed

lemma all_written_append: "all_written x (as @ bs) t t' \<longleftrightarrow> (\<exists>s. all_written x as t s \<and> all_written x bs s t')"
  by (induction as arbitrary: t) auto

lemma all_written_other:
  "all_written x as t t' \<Longrightarrow> r \<in> set t \<Longrightarrow> episode_key r \<notin> params_key ` set as \<Longrightarrow> r \<in> set t'"
  by (induction as arbitrary: t) (auto dest: written_other)

lemma all_written_identity: "all_written x as t t' \<Longrightarrow> identity ` set t \<subseteq> identity ` set t'"
  by (induction as arbitrary: t) (auto dest: written_identity, blast dest: written_identity)

lemma all_written_rest:
  "all_written x as t t' \<Longrightarrow> params_key ` set as \<subseteq> K \<Longrightarrow>
   filter (\<lambda>r. episode_key r \<notin> K) t' = filter (\<lambda>r. episode_key r \<notin> K) t"
  by (induction as arbitrary: t) (auto dest: written_rest)

lemma all_written_carries:
  assumes "all_written x (bs @ a # as) t t'" "params_key a \<notin> params_key ` set as"
  shows "\<exists>r \<in> set t'. carries x a r"
proof -
  obtain s u where "written x a s u" "all_written x as u t'" using assms(1) by (auto simp: all_written_append)
  then show ?thesis using written_carries [of x a s u] all_written_other [of x as u t'] assms(2) by (auto simp: carries_def)
qed

lemma crawl_success:
  assumes "Crawl x podcast c = (None, an, c')"
    and "kx_fetch x (pc_FeedUrl podcast) (pc_FeedEtag podcast) (pc_FeedLastModified podcast) = Inr res" "\<not> fe_NotModified res"
  obtains f g c1 nxt where "read_feed x res = Inr f" "crawl_items x podcast (fd_Items f) no_progress c = (None, g, c1)"
    "UpdatePodcastCrawlSuccess (kx_env x) (kx_db x) (pc_ID podcast) (success_params x f res g nxt) c1 = Inr c'"
    "an_episodes an = newest_first (pg_fresh g)"
proof -
  obtain nxt where n: "nextRefreshAt x (pc_Uuid podcast) c = Inr nxt"
    using assms by (auto simp: Crawl_def db_failure_def split: sum.splits)
  obtain f where f: "read_feed x res = Inr f"
    using assms n by (auto simp: Crawl_def recordFailure_def Let_def split: sum.splits)
  have "ingest_feed x podcast res nxt f c = (None, an, c')" using assms n f by (simp add: Crawl_def)
  then show thesis
    using that [OF f] by (auto simp: ingest_feed_def db_failure_def split: prod.splits option.splits sum.splits)
qed

lemma on_podcasts_same:
  "ct_episodes (on_podcasts f c) = ct_episodes c" "ct_aliases (on_podcasts f c) = ct_aliases c"
  "ct_persons (on_podcasts f c) = ct_persons c" "ct_person_aliases (on_podcasts f c) = ct_person_aliases c"
  "ct_refs (on_podcasts f c) = ct_refs c" "ct_appearances (on_podcasts f c) = ct_appearances c" "ct_seq (on_podcasts f c) = ct_seq c"
  by (simp_all add: on_podcasts_def)

lemma on_podcasts_rows:
  "st_podcasts (ct_core (on_podcasts (update_where P f) c)) = map (\<lambda>p. if P p then f p else p) (st_podcasts (ct_core c))"
  by (simp add: on_podcasts_def update_where_def)

text \<open>The columns of a podcast that say when it was and will be fetched, and those that say how it went.\<close>

definition without_schedule :: "Podcast \<Rightarrow> Podcast" where
  "without_schedule p = p\<lparr>pc_LastRefreshAt := None, pc_NextRefreshAt := 0, pc_UpdatedAt := 0\<rparr>"


text \<open>The catalogue outside the table of podcasts, and an update of the rows of one podcast.\<close>

definition outside_podcasts :: "catalog \<Rightarrow> catalog" where
  "outside_podcasts = on_podcasts (\<lambda>_. [])"

lemma outside_on_podcasts [simp]: "outside_podcasts (on_podcasts f c) = outside_podcasts c"
  by (simp add: outside_podcasts_def on_podcasts_def)

lemma on_podcasts_updated:
  assumes "c' = on_podcasts (update_where (\<lambda>p. pc_ID p = i) f) c" "\<And>p. g (f p) = g p" "\<And>p. pc_ID (f p) = pc_ID p"
  shows "outside_podcasts c' = outside_podcasts c" "map g (st_podcasts (ct_core c')) = map g (st_podcasts (ct_core c))"
    "filter (\<lambda>p. pc_ID p \<noteq> i) (st_podcasts (ct_core c')) = filter (\<lambda>p. pc_ID p \<noteq> i) (st_podcasts (ct_core c))"
proof -
  show "outside_podcasts c' = outside_podcasts c" unfolding assms(1) by simp
  show "map g (st_podcasts (ct_core c')) = map g (st_podcasts (ct_core c))"
    unfolding assms(1) on_podcasts_rows by (simp add: assms(2))
  have "filter (\<lambda>p. pc_ID p \<noteq> i) (map (\<lambda>p. if pc_ID p = i then f p else p) ps) = filter (\<lambda>p. pc_ID p \<noteq> i) ps" for ps
    using assms(3) by (induction ps) auto
  then show "filter (\<lambda>p. pc_ID p \<noteq> i) (st_podcasts (ct_core c')) = filter (\<lambda>p. pc_ID p \<noteq> i) (st_podcasts (ct_core c))"
    unfolding assms(1) on_podcasts_rows by blast
qed

lemma crawled_podcast_same:
  "pc_ID (crawled_podcast e now a latest p) = pc_ID p" "pc_RefreshStatus (crawled_podcast e now a latest p) = ''ok''"
  "pc_RefreshError (crawled_podcast e now a latest p) = ''''"
  by (simp_all add: crawled_podcast_def)

lemma crawl_success_rows:
  "UpdatePodcastCrawlSuccess e now i a c = Inr c' \<Longrightarrow>
   ct_episodes c' = ct_episodes c \<and>
   filter (\<lambda>p. pc_ID p \<noteq> i) (st_podcasts (ct_core c')) = filter (\<lambda>p. pc_ID p \<noteq> i) (st_podcasts (ct_core c)) \<and>
   (\<forall>p \<in> set (st_podcasts (ct_core c')). pc_ID p = i \<longrightarrow> pc_RefreshStatus p = ''ok'' \<and> pc_RefreshError p = '''')"
proof -
  assume "UpdatePodcastCrawlSuccess e now i a c = Inr c'"
  then obtain latest where c': "c' = on_podcasts (update_where (\<lambda>p. pc_ID p = i) (crawled_podcast e now a latest)) c"
    unfolding UpdatePodcastCrawlSuccess_def stmt_Inr rbind_Inr_iff by blast
  have other: "filter (\<lambda>p. pc_ID p \<noteq> i) (st_podcasts (ct_core c')) = filter (\<lambda>p. pc_ID p \<noteq> i) (st_podcasts (ct_core c))"
    using on_podcasts_updated(3) [OF c', of pc_ID] by (simp add: crawled_podcast_same)
  from c'
  have rows: "ct_episodes c' = ct_episodes c"
    "st_podcasts (ct_core c') = map (\<lambda>p. if pc_ID p = i then crawled_podcast e now a latest p else p) (st_podcasts (ct_core c))"
    by (simp_all only: on_podcasts_same on_podcasts_rows)
  have "pc_RefreshStatus p = ''ok'' \<and> pc_RefreshError p = ''''"
    if p: "p \<in> set (map (\<lambda>p. if pc_ID p = i then crawled_podcast e now a latest p else p) ps)" "pc_ID p = i" for p ps
  proof -
    obtain q where "p = (if pc_ID q = i then crawled_podcast e now a latest q else q)" using p(1) unfolding set_map by blast
    then show ?thesis using p(2) by (cases "pc_ID q = i") (simp_all add: crawled_podcast_same)
  qed
  then have "\<forall>p \<in> set (st_podcasts (ct_core c')). pc_ID p = i \<longrightarrow> pc_RefreshStatus p = ''ok'' \<and> pc_RefreshError p = ''''"
    unfolding rows(2) by blast
  with rows(1) other show ?thesis by blast
qed

text \<open>What a feed that has changed does to the catalogue.\<close>

definition ingested :: "kctx \<Rightarrow> Podcast \<Rightarrow> Feed \<Rightarrow> announced \<Rightarrow> catalog \<Rightarrow> catalog \<Rightarrow> bool" where
  "ingested x podcast f an c c' \<longleftrightarrow>
     (let eps = take maxEpisodesPerCrawl (usable x podcast (fd_Items f))
      in (\<forall>bs a as. eps = bs @ a # as \<and> params_key a \<notin> params_key ` set as \<longrightarrow> (\<exists>r \<in> set (ct_episodes c'). carries x a r)) \<and>
         identity ` set (ct_episodes c) \<subseteq> identity ` set (ct_episodes c') \<and>
         filter (\<lambda>r. episode_key r \<notin> params_key ` set eps) (ct_episodes c') =
           filter (\<lambda>r. episode_key r \<notin> params_key ` set eps) (ct_episodes c) \<and>
         filter (\<lambda>p. pc_ID p \<noteq> pc_ID podcast) (st_podcasts (ct_core c')) =
           filter (\<lambda>p. pc_ID p \<noteq> pc_ID podcast) (st_podcasts (ct_core c)) \<and>
         (\<forall>p \<in> set (st_podcasts (ct_core c')). pc_ID p = pc_ID podcast \<longrightarrow> pc_RefreshStatus p = ''ok'' \<and> pc_RefreshError p = '''') \<and>
         an_episodes an = newest_first (filter (is_fresh podcast) eps))"

lemma crawl_ingested:
  assumes "Crawl x podcast c = (None, an, c')"
    and "kx_fetch x (pc_FeedUrl podcast) (pc_FeedEtag podcast) (pc_FeedLastModified podcast) = Inr res" "\<not> fe_NotModified res"
  shows "\<exists>f. read_feed x res = Inr f \<and> ingested x podcast f an c c'"
proof -
  obtain f g c1 nxt where f: "read_feed x res = Inr f"
    and loop: "crawl_items x podcast (fd_Items f) no_progress c = (None, g, c1)"
    and upd: "UpdatePodcastCrawlSuccess (kx_env x) (kx_db x) (pc_ID podcast) (success_params x f res g nxt) c1 = Inr c'"
    and an: "an_episodes an = newest_first (pg_fresh g)"
    using crawl_success [OF assms] by blast
  let ?eps = "take maxEpisodesPerCrawl (usable x podcast (fd_Items f))"
  have w: "all_written x ?eps (ct_episodes c) (ct_episodes c')" and fr: "pg_fresh g = filter (is_fresh podcast) ?eps"
    using crawl_items_written [OF loop] crawl_success_rows [OF upd] by (simp_all add: no_progress_def)
  have "\<exists>r \<in> set (ct_episodes c'). carries x a r" if "?eps = bs @ a # as" "params_key a \<notin> params_key ` set as" for bs a as
    using all_written_carries [of x bs a as] w that by metis
  then show ?thesis
    using f all_written_identity [OF w] all_written_rest [OF w subset_refl] crawl_success_rows [OF upd] crawl_items_written [OF loop] an fr
    unfolding ingested_def Let_def by (intro exI [of _ f]) auto
qed

text \<open>
  C37. A crawl that reports no error has got an answer for the feed.  Where the answer says that the
  feed has not changed, only the times of the last and the next fetch and of the update of its row
  change; status and error of the last fetch stay.  Otherwise the answer parses as a feed, and the first
  five thousand usable items of it are in the catalogue under their podcast and guid, each guid with the
  data of its last appearance.  No episode disappears or changes its id or uuid, episodes of other guids
  and podcasts and the rows of other podcasts stay as they are, the podcast is marked healthy, and the
  episodes announced are those published after the latest one the podcast had.
\<close>

theorem crawl_ingests:
  assumes "Crawl x podcast c = (None, an, c')"
  shows "\<exists>res. kx_fetch x (pc_FeedUrl podcast) (pc_FeedEtag podcast) (pc_FeedLastModified podcast) = Inr res \<and>
    (if fe_NotModified res then
       an = nothing_announced \<and> outside_podcasts c' = outside_podcasts c \<and>
       map without_schedule (st_podcasts (ct_core c')) = map without_schedule (st_podcasts (ct_core c)) \<and>
       filter (\<lambda>p. pc_ID p \<noteq> pc_ID podcast) (st_podcasts (ct_core c')) =
         filter (\<lambda>p. pc_ID p \<noteq> pc_ID podcast) (st_podcasts (ct_core c))
     else \<exists>f. read_feed x res = Inr f \<and> ingested x podcast f an c c')"
proof -
  obtain res where res: "kx_fetch x (pc_FeedUrl podcast) (pc_FeedEtag podcast) (pc_FeedLastModified podcast) = Inr res"
    using assms by (auto simp: Crawl_def recordFailure_def Let_def split: sum.splits)
  show ?thesis
  proof (cases "fe_NotModified res")
    case True
    let ?row = "\<lambda>n p. p\<lparr>pc_LastRefreshAt := Some (kx_db x), pc_NextRefreshAt := pg_time (kx_env x) n, pc_UpdatedAt := kx_db x\<rparr>"
    from True obtain n where c': "c' = on_podcasts (update_where (\<lambda>p. pc_ID p = pc_ID podcast) (?row n)) c"
      and an: "an = nothing_announced"
      using assms res by (auto simp: Crawl_def db_failure_def UpdatePodcastCrawlNotModified_def stmt_Inr split: sum.splits)
    have "without_schedule (?row n p) = without_schedule p" "pc_ID (?row n p) = pc_ID p" for p
      by (simp_all add: without_schedule_def)
    with res True an on_podcasts_updated [OF c', of without_schedule] show ?thesis by auto
  next
    case False
    with crawl_ingested [OF assms res] res show ?thesis by auto
  qed
qed

subsection \<open>Failures\<close>

text \<open>A feed that cannot be fetched, read or parsed, after the schedule has been read.\<close>

definition unusable :: "kctx \<Rightarrow> Podcast \<Rightarrow> catalog \<Rightarrow> goerr \<Rightarrow> bool" where
  "unusable x podcast c err \<longleftrightarrow>
     (case kx_fetch x (pc_FeedUrl podcast) (pc_FeedEtag podcast) (pc_FeedLastModified podcast) of
        Inl err' \<Rightarrow> err' = err
      | Inr res \<Rightarrow> (\<exists>n. nextRefreshAt x (pc_Uuid podcast) c = Inr n) \<and> \<not> fe_NotModified res \<and> read_feed x res = Inl err)"

lemma Crawl_unusable:
  assumes "unusable x podcast c err"
  shows "Crawl x podcast c = (let (e, c) = recordFailure x podcast err c in (e, nothing_announced, c))"
  using assms by (auto simp: unusable_def Crawl_def split: sum.splits)







text \<open>
  The cut may fall inside a character.  The database refuses such a message, and then nothing is
  recorded: the podcast keeps its schedule and is fetched again by every sweep.
\<close>

lemma cut_message_not_recorded:
  assumes "unusable x p c err" "pg_fault (kx_env x) = Map.empty" "\<not> ValidString (take 500 (Error_string (kx_text x) err))"
  shows "Crawl x p c = (Some (E_op ''crawler/Crawler.recordFailure'' Database (PgError ''22021'' '''')), nothing_announced, c)"
  using assms unfolding Crawl_unusable [OF assms(1)]
  by (simp add: recordFailure_def UpdatePodcastCrawlFailure_def stmt_def cast_text_def)

lemma ValidString_ascii: "byte c < 0x80 \<Longrightarrow> ValidString (c # s) \<longleftrightarrow> ValidString s"
  by (simp add: ValidString_def)

lemma ValidString_ascii_prefix: "ValidString (replicate n CHR ''a'' @ s) \<longleftrightarrow> ValidString s"
  by (induction n) (simp_all add: ValidString_ascii)

lemma a_cut_message: "ValidString (replicate 499 CHR ''a'' @ [CHR 0xC3, CHR 0xA9])" "\<not> ValidString (take 500 (replicate 499 CHR ''a'' @ [CHR 0xC3, CHR 0xA9]))"
proof -
  have t: "take (Suc n) (replicate n CHR ''a'' @ [c, d]) = replicate n CHR ''a'' @ [c]" for n c d by simp
  obtain n :: nat where n: "499 = n" by simp
  then have e: "(500 :: nat) = Suc n" by simp
  show "\<not> ValidString (take 500 (replicate 499 CHR ''a'' @ [CHR 0xC3, CHR 0xA9]))"
    unfolding e n t ValidString_ascii_prefix by (simp add: ValidString_def)
  show "ValidString (replicate 499 CHR ''a'' @ [CHR 0xC3, CHR 0xA9])" unfolding ValidString_ascii_prefix by code_simp
qed

subsection \<open>Witnesses\<close>

text \<open>A crawl of a feed with one item, for a podcast that has one episode already.\<close>

definition demo_item :: Item where
  "demo_item =
     \<lparr>it_GUID = ''g2'', it_Title = ''Two'', it_Content = '''', it_Description = ''notes'', it_PublishedParsed = Some 2000,
      it_Enclosures = [Some \<lparr>enc_URL = ''https://a/2.mp3'', enc_Type = ''audio/mpeg'', enc_Length = ''12''\<rparr>],
      it_ITunesExt = None, it_ImageURL = None, it_transcript = [], it_chapters = [],
      it_person = [\<lparr>ext_Attrs = [(''role'', ''Host'')], ext_Value = ''Ada''\<rparr>]\<rparr>"

definition demo_feed :: Feed where
  "demo_feed =
     \<lparr>fd_Title = ''Show'', fd_Description = '''', fd_Link = '''', fd_Language = ''en'', fd_Authors = [], fd_ImageURL = None,
      fd_Categories = [], fd_ITunesExt = None, fd_Items = [demo_item]\<rparr>"

definition demo_crawl_lib :: crawl_lib where
  "demo_crawl_lib =
     \<lparr>cl_Parse = (\<lambda>s. Inr demo_feed), cl_NewSHA1 = (\<lambda>ns key. ns @ ''/'' @ key), cl_uuid_Parse = Some,
      cl_sha256_hex = (\<lambda>s. replicate 64 CHR ''0''), cl_ToLower = map to_lower_char, cl_EqualFold = (=),
      cl_strip_marks = Some\<rparr>"

definition demo_kctx :: kctx where
  "demo_kctx =
     \<lparr>kx_env = demo_env, kx_lib = demo_crawl_lib,
      kx_fetch = (\<lambda>url etag modified. Inr \<lparr>fe_Body = Some (Inr ''<rss/>''), fe_ETag = ''e'', fe_LastModified = '''', fe_NotModified = False\<rparr>),
      kx_now = (\<lambda>i. 5000), kx_db = 5000, kx_text = (\<lambda>e. ''error'')\<rparr>"


definition demo_episode :: Episode where
  "demo_episode =
     \<lparr>ep_ID = 1, ep_Uuid = ''p1/g1'', ep_PodcastID = 1, ep_Guid = ''g1'', ep_Title = ''One'', ep_AudioUrl = ''https://a/1.mp3'',
      ep_FileType = ''audio/mpeg'', ep_FileSize = 10, ep_DurationSecs = 0, ep_PublishedAt = Some 1000, ep_EpisodeType = '''',
      ep_Season = 0, ep_Number = 0, ep_ShowNotes = '''', ep_ImageUrl = '''', ep_CreatedAt = 0, ep_UpdatedAt = 0,
      ep_Transcripts = JArray [], ep_ChaptersUrl = ''''\<rparr>"

definition demo_catalog :: catalog where
  "demo_catalog =
     \<lparr>ct_core = empty_store\<lparr>st_podcasts := [demo_podcast]\<rparr>, ct_seq = 1, ct_episodes = [demo_episode], ct_aliases = [],
      ct_persons = [], ct_person_aliases = [], ct_refs = [], ct_appearances = []\<rparr>"

definition demo_crawled :: catalog where
  "demo_crawled = snd (snd (Crawl demo_kctx demo_podcast demo_catalog))"

definition demo_answer :: FetchResult where
  "demo_answer = \<lparr>fe_Body = Some (Inr ''<rss/>''), fe_ETag = ''e'', fe_LastModified = '''', fe_NotModified = False\<rparr>"

lemma demo_read: "read_feed demo_kctx demo_answer = Inr demo_feed"
  by (simp add: read_feed_def demo_answer_def maxFeedBodyBytes_def demo_kctx_def demo_crawl_lib_def)

lemma demo_ingest:
  "fst (ingest_feed demo_kctx demo_podcast demo_answer n demo_feed demo_catalog) = None"
  "map pe_CanonicalName (ct_persons (snd (snd (ingest_feed demo_kctx demo_podcast demo_answer n demo_feed demo_catalog)))) = [''ada'']"
proof -
  have "episodeFromItem demo_kctx demo_podcast demo_item \<noteq> None"
    by (simp add: episodeFromItem_def enclosure_def demo_item_def Let_def)
  moreover have "(case ingest_item demo_kctx demo_podcast demo_item (the (episodeFromItem demo_kctx demo_podcast demo_item))
      (no_progress\<lparr>pg_count := 1\<rparr>) demo_catalog of (e, g, c) \<Rightarrow> (e, pg_latestUuid g, map pe_CanonicalName (ct_persons c))) =
        (None, Some ''p1/g2'', [''ada''])"
    by code_simp
  moreover have "UpdatePodcastCrawlSuccess (kx_env demo_kctx) d i (success_params demo_kctx demo_feed demo_answer g n) c \<noteq> Inl err"
    if "pg_latestUuid g = Some ''p1/g2''" for d i g c err
    using that by (simp add: UpdatePodcastCrawlSuccess_def stmt_def success_params_def cast_uuid_null_def cast_uuid_def demo_kctx_def demo_env_def)
  moreover have "ct_persons c' = ct_persons c" if "UpdatePodcastCrawlSuccess e d i a c = Inr c'" for e d i a c c'
    using that by (auto simp: UpdatePodcastCrawlSuccess_def stmt_Inr rbind_Inr_iff on_podcasts_same)
  ultimately show "fst (ingest_feed demo_kctx demo_podcast demo_answer n demo_feed demo_catalog) = None"
    "map pe_CanonicalName (ct_persons (snd (snd (ingest_feed demo_kctx demo_podcast demo_answer n demo_feed demo_catalog)))) = [''ada'']"
    by (auto simp: ingest_feed_def demo_feed_def no_progress_def maxEpisodesPerCrawl_def split: prod.splits option.splits sum.splits)
qed

lemma demo_crawl_ok:
  "fst (Crawl demo_kctx demo_podcast demo_catalog) = None" "map pe_CanonicalName (ct_persons demo_crawled) = [''ada'']"
proof -
  have f: "kx_fetch demo_kctx u e m = Inr demo_answer" for u e m by (simp add: demo_kctx_def demo_answer_def)
  obtain n where n: "nextRefreshAt demo_kctx (pc_Uuid demo_podcast) demo_catalog = Inr n"
    by (simp add: nextRefreshAt_def PodcastHasSubscribers_def stmt_def cast_uuid_def demo_kctx_def demo_env_def demo_podcast_def)
  show "fst (Crawl demo_kctx demo_podcast demo_catalog) = None"
    by (simp add: Crawl_def f n demo_read demo_ingest) (simp add: demo_answer_def)
  show "map pe_CanonicalName (ct_persons demo_crawled) = [''ada'']"
    by (simp add: demo_crawled_def Crawl_def f n demo_read demo_ingest) (simp add: demo_answer_def)
qed

lemma crawl_ingests_witness: "\<exists>r \<in> set (ct_episodes demo_crawled). ep_Guid r = ''g2''"
proof -
  have "Crawl demo_kctx demo_podcast demo_catalog = (None, fst (snd (Crawl demo_kctx demo_podcast demo_catalog)), demo_crawled)"
    using demo_crawl_ok(1) by (metis demo_crawled_def prod.collapse)
  from crawl_ingests [OF this] obtain f where "read_feed demo_kctx demo_answer = Inr f"
      "ingested demo_kctx demo_podcast f (fst (snd (Crawl demo_kctx demo_podcast demo_catalog))) demo_catalog demo_crawled"
    by (auto simp: demo_kctx_def demo_answer_def)
  moreover from this(1) have f: "f = demo_feed" by (simp add: demo_read)
  moreover obtain a where a: "episodeFromItem demo_kctx demo_podcast demo_item = Some a" "upe_Guid a = ''g2''"
    by (simp add: episodeFromItem_def enclosure_def demo_item_def Let_def)
  ultimately have "\<exists>r \<in> set (ct_episodes demo_crawled). carries demo_kctx a r"
    by (auto simp: ingested_def usable_def demo_feed_def List.map_filter_simps maxEpisodesPerCrawl_def dest: spec [of _ "[]"])
  then show ?thesis using a(2) by (auto simp: carries_def episode_key_def params_key_def)
qed


end
