(* ===== verification/Catalog_Inv.thy ===== *)
theory Catalog_Inv
  imports Crawl_Theorems
begin

section \<open>The catalogue stays well formed\<close>

text \<open>
  What the keys and the unique indexes of the tables promise, and what only the code keeps: a device
  uuid that is an alias is a real one and differs from the uuid it leads to; a person has a name and
  the alias of that name from the transaction that made it; a reference and an appearance belong to a
  person.  The invariant has two halves, kept by the statements on episodes and on persons; every
  path of a crawl, also a failing one, keeps both.
\<close>

subsection \<open>The invariant\<close>

definition episodes_ok :: "catalog \<Rightarrow> bool" where
  "episodes_ok c \<longleftrightarrow>
     keyed ep_ID (ct_episodes c) \<and> (\<forall>r \<in> set (ct_episodes c). 0 < ep_ID r \<and> ep_ID r \<le> ct_seq c) \<and>
     keyed episode_key (ct_episodes c) \<and> keyed ep_Uuid (ct_episodes c) \<and> keyed ea_DeviceUuid (ct_aliases c) \<and>
     (\<forall>a \<in> set (ct_aliases c). ea_DeviceUuid a \<noteq> '''' \<and> ea_DeviceUuid a \<noteq> ea_CatalogUuid a)"

definition ingest_aliases :: "catalog \<Rightarrow> PersonAlias list" where
  "ingest_aliases c = filter (\<lambda>a. pa_Source a = ''ingest'') (ct_person_aliases c)"

text \<open>The alias a person gets in the transaction that makes the person.\<close>

definition own_alias :: "Person \<Rightarrow> PersonAlias" where
  "own_alias p = \<lparr>pa_PersonID = pe_ID p, pa_AliasFolded = pe_CanonicalName p, pa_Source = ''ingest''\<rparr>"

definition person_ids :: "catalog \<Rightarrow> int set" where
  "person_ids c = pe_ID ` set (ct_persons c)"

definition persons_ok :: "catalog \<Rightarrow> bool" where
  "persons_ok c \<longleftrightarrow>
     keyed pe_ID (ct_persons c) \<and> keyed pe_CanonicalName (ct_persons c) \<and> keyed pa_AliasFolded (ingest_aliases c) \<and>
     (\<forall>p \<in> set (ct_persons c). pe_ID p \<le> ct_seq c \<and> pe_CanonicalName p \<noteq> '''' \<and> own_alias p \<in> set (ct_person_aliases c)) \<and>
     (\<forall>a \<in> set (ct_person_aliases c). pa_PersonID a \<in> person_ids c) \<and>
     (\<forall>r \<in> set (ct_refs c). px_PersonID r \<in> person_ids c) \<and>
     (\<forall>r \<in> set (ct_appearances c). pp_PersonID r \<in> person_ids c) \<and>
     keyed (\<lambda>r. (pp_PersonID r, pp_EpisodeUuid r)) (ct_appearances c)"

definition catalog_ok :: "catalog \<Rightarrow> bool" where
  "catalog_ok c \<longleftrightarrow> 0 \<le> ct_seq c \<and> episodes_ok c \<and> persons_ok c"

text \<open>A step that leaves the tables of a half alone, and moves the sequence on, keeps that half.\<close>

lemma episodes_ok_frame:
  "episodes_ok c \<Longrightarrow> ct_episodes c' = ct_episodes c \<Longrightarrow> ct_aliases c' = ct_aliases c \<Longrightarrow> ct_seq c \<le> ct_seq c' \<Longrightarrow> episodes_ok c'"
  by (fastforce simp: episodes_ok_def)

lemma persons_ok_frame:
  "persons_ok c \<Longrightarrow> ct_persons c' = ct_persons c \<Longrightarrow> ct_person_aliases c' = ct_person_aliases c \<Longrightarrow>
   ct_refs c' = ct_refs c \<Longrightarrow> ct_appearances c' = ct_appearances c \<Longrightarrow> ct_seq c \<le> ct_seq c' \<Longrightarrow> persons_ok c'"
  by (fastforce simp: persons_ok_def ingest_aliases_def person_ids_def)

subsection \<open>Episodes\<close>

lemma keyed_append: "keyed key t \<Longrightarrow> key r \<notin> key ` set t \<Longrightarrow> keyed key (t @ [r])"
  by (simp add: keyed_def)

lemma new_row_fields:
  "ep_ID (new_episode_row e now i u a) = i" "episode_key (new_episode_row e now i u a) = params_key a"
  by (simp_all add: new_episode_row_def episode_key_def params_key_def)

lemma UpsertEpisode_ok:
  assumes "UpsertEpisode e now a c = Inr c'" "catalog_ok c"
  shows "catalog_ok c'"
proof (cases "params_key a \<in> episode_key ` set (ct_episodes c)")
  case True
  then have c': "c' = c\<lparr>ct_seq := ct_seq c + 1, ct_episodes :=
      update_where (\<lambda>r. episode_key r = params_key a) (refreshed_episode e now a) (ct_episodes c)\<rparr>"
    using assms(1) unfolding UpsertEpisode_def Let_def stmt_Inr rbind_Inr_iff by auto
  have ok: "episodes_ok c" "persons_ok c" "0 \<le> ct_seq c" using assms(2) by (simp_all add: catalog_ok_def)
  have "0 < ep_ID r \<and> ep_ID r \<le> ct_seq c + 1" if "r \<in> set (ct_episodes c')" for r
    using that ok(1) by (force simp: c' episodes_ok_def set_update_where)
  then have "episodes_ok c'" using ok(1) by (simp add: c' episodes_ok_def keyed_update)
  moreover have "persons_ok c'" using ok(2) by (rule persons_ok_frame) (simp_all add: c')
  ultimately show ?thesis using ok(3) by (simp add: catalog_ok_def c')
next
  case False
  then obtain u where c': "c' = c\<lparr>ct_seq := ct_seq c + 1, ct_episodes := ct_episodes c @ [new_episode_row e now (ct_seq c + 1) u a]\<rparr>"
    and u: "ep_Uuid (new_episode_row e now (ct_seq c + 1) u a) \<notin> ep_Uuid ` set (ct_episodes c)"
    using assms(1) unfolding UpsertEpisode_def Let_def stmt_Inr rbind_Inr_iff insert_row_def by (auto split: if_splits)
  have ok: "episodes_ok c" "persons_ok c" "0 \<le> ct_seq c" using assms(2) by (simp_all add: catalog_ok_def)
  have "ct_seq c + 1 \<notin> ep_ID ` set (ct_episodes c)" using ok(1) by (force simp: episodes_ok_def)
  then have "episodes_ok c'" using ok False u by (auto simp: c' episodes_ok_def new_row_fields intro!: keyed_append)
  moreover have "persons_ok c'" using ok(2) by (rule persons_ok_frame) (simp_all add: c')
  ultimately show ?thesis using ok(3) by (simp add: catalog_ok_def c')
qed

lemma UpsertEpisodeAlias_ok:
  assumes "UpsertEpisodeAlias e dev u c = Inr c'" "catalog_ok c" "dev \<noteq> ''''" "dev \<noteq> u"
  shows "catalog_ok c'"
proof -
  have c': "c' = c\<lparr>ct_aliases := insert_new ea_DeviceUuid \<lparr>ea_DeviceUuid = dev, ea_CatalogUuid = u\<rparr> (ct_aliases c)\<rparr>"
    using assms(1) by (simp add: UpsertEpisodeAlias_def stmt_Inr)
  have "keyed ea_DeviceUuid (ct_aliases c')" using assms(2) by (simp add: c' catalog_ok_def episodes_ok_def keyed_insert_new)
  moreover have "ea_DeviceUuid a \<noteq> '''' \<and> ea_DeviceUuid a \<noteq> ea_CatalogUuid a" if "a \<in> set (ct_aliases c')" for a
    using that assms(2-4) by (auto simp: c' catalog_ok_def episodes_ok_def insert_new_def split: if_splits)
  ultimately have "episodes_ok c'" using assms(2) by (simp add: c' catalog_ok_def episodes_ok_def)
  moreover have "persons_ok c'" by (rule persons_ok_frame [of c]) (use assms(2) in \<open>simp_all add: c' catalog_ok_def\<close>)
  ultimately show ?thesis using assms(2) by (simp add: catalog_ok_def c')
qed

lemma write_episode_ok:
  assumes "write_episode x a c = (err, c')" "catalog_ok c"
  shows "catalog_ok c'"
proof (cases "UpsertEpisode (kx_env x) (kx_db x) a c")
  case (Inr c1)
  then have ok: "catalog_ok c1" using UpsertEpisode_ok assms(2) by blast
  show ?thesis
    using assms(1) Inr ok UpsertEpisodeAlias_ok [OF _ ok]
    unfolding write_episode_def Let_def by (auto split: sum.splits if_splits)
qed (use assms in \<open>simp add: write_episode_def\<close>)

subsection \<open>Persons\<close>

lemma create_person_ok:
  assumes "create_person x folded display c = (r, c')" "catalog_ok c" "folded \<noteq> ''''"
  shows "catalog_ok c' \<and> (\<forall>p. r = Inr p \<longrightarrow> pe_ID p \<in> person_ids c')"
proof (cases r)
  case (Inl e)
  then show ?thesis using assms by (auto simp: create_person_def dest: InTx_Inl)
next
  case (Inr p)
  let ?p = "\<lparr>pe_ID = ct_seq c + 1, pe_CanonicalName = folded, pe_DisplayName = display, pe_CreatedAt = kx_db x\<rparr>"
  let ?a = "\<lparr>pa_PersonID = ct_seq c + 1, pa_AliasFolded = folded, pa_Source = ''ingest''\<rparr>"
  have ok: "episodes_ok c" "persons_ok c" "0 \<le> ct_seq c" using assms(2) by (simp_all add: catalog_ok_def)
  have fresh: "ct_seq c + 1 \<notin> pe_ID ` set (ct_persons c)" "\<forall>a \<in> set (ct_person_aliases c). pa_PersonID a \<noteq> ct_seq c + 1"
    using ok(2) by (force simp: persons_ok_def person_ids_def)+
  have c': "c' = c\<lparr>ct_seq := ct_seq c + 1, ct_persons := ct_persons c @ [?p], ct_person_aliases := ct_person_aliases c @ [?a]\<rparr>"
    and a: "\<forall>a \<in> set (ct_person_aliases c). pa_AliasFolded a = folded \<longrightarrow> pa_Source a \<noteq> ''ingest''" and p: "p = ?p"
    using assms(1) Inr fresh(2)
    by (auto simp: create_person_def InTx_Inr CreatePerson_def AddPersonAlias_def stmt_Inr rbind_Inr_iff insert_row_Inr Let_def split: if_splits)
  have name: "folded \<notin> pe_CanonicalName ` set (ct_persons c)"
    using ok(2) a by (force simp: persons_ok_def own_alias_def)
  have "persons_ok c'"
    using ok(2) fresh a name assms(3)
    by (auto simp: c' persons_ok_def ingest_aliases_def person_ids_def own_alias_def intro!: keyed_append)
  moreover have "episodes_ok c'" using ok(1) by (rule episodes_ok_frame) (simp_all add: c')
  ultimately show ?thesis using ok(3) Inr p by (simp add: catalog_ok_def c' person_ids_def)
qed

lemma FindPersonByAlias_id: "FindPersonByAlias e folded c = Inr p \<Longrightarrow> pe_ID p \<in> person_ids c"
  by (auto simp: FindPersonByAlias_def stmt_Inr select_one_Inr person_ids_def dest!: find_Some_mem)

lemma resolvePerson_ok:
  assumes "resolvePerson x folded display c = (r, c')" "catalog_ok c" "folded \<noteq> ''''"
  shows "catalog_ok c' \<and> (\<forall>p. r = Inr p \<longrightarrow> pe_ID p \<in> person_ids c')"
proof -
  obtain r1 c1 where "create_person x folded display c = (r1, c1)" by (metis prod.exhaust)
  then show ?thesis
    using assms create_person_ok [of x folded display c r1 c1]
    by (auto simp: resolvePerson_def dest: FindPersonByAlias_id split: sum.splits if_splits)
qed

lemma AddPersonExternalRef_ok:
  assumes "AddPersonExternalRef e i s v c = Inr c'" "catalog_ok c" "i \<in> person_ids c"
  shows "catalog_ok c' \<and> person_ids c' = person_ids c"
proof -
  obtain rs where c': "c' = c\<lparr>ct_refs := rs\<rparr>" and rs: "\<forall>r \<in> set rs. r \<in> set (ct_refs c) \<or> px_PersonID r = i"
    using assms(1) by (auto simp: AddPersonExternalRef_def stmt_Inr insert_new_def)
  have "persons_ok c'" using assms(2,3) rs by (auto simp: c' catalog_ok_def persons_ok_def ingest_aliases_def person_ids_def)
  moreover have "episodes_ok c'" by (rule episodes_ok_frame [of c]) (use assms(2) in \<open>simp_all add: c' catalog_ok_def\<close>)
  ultimately show ?thesis using assms(2) by (simp add: catalog_ok_def c' person_ids_def)
qed

lemma UpsertPersonAppearance_ok:
  assumes "UpsertPersonAppearance e now i p ep role c = Inr (j, c')" "catalog_ok c" "i \<in> person_ids c"
  shows "catalog_ok c'"
proof -
  let ?key = "\<lambda>r. (pp_PersonID r, pp_EpisodeUuid r)"
  obtain r where c': "c' = c\<lparr>ct_appearances := ct_appearances c @ [r]\<rparr>" and i: "pp_PersonID r = i"
    and r: "?key r \<notin> ?key ` set (ct_appearances c)"
    using assms(1) unfolding UpsertPersonAppearance_def Let_def stmt_Inr rbind_Inr_iff by (auto split: if_splits)
  have "persons_ok c'"
    using assms(2,3) r i by (auto simp: c' catalog_ok_def persons_ok_def ingest_aliases_def person_ids_def intro!: keyed_append)
  moreover have "episodes_ok c'" by (rule episodes_ok_frame [of c]) (use assms(2) in \<open>simp_all add: c' catalog_ok_def\<close>)
  ultimately show ?thesis using assms(2) by (simp add: catalog_ok_def c')
qed

lemma ingest_person_ok:
  assumes "ingest_person x podcast ep p c = (r, c')" "catalog_ok c"
  shows "catalog_ok c'"
proof (cases "FoldPersonName x (cp_Name p) = ''''")
  case False
  obtain q c1 where q: "resolvePerson x (FoldPersonName x (cp_Name p)) (cp_Name p) c = (q, c1)" by (metis prod.exhaust)
  have ok: "catalog_ok c1" "q = Inr person \<Longrightarrow> pe_ID person \<in> person_ids c1" for person
    using resolvePerson_ok [OF q assms(2) False] by auto
  show ?thesis
  proof (cases q)
    case (Inr person)
    let ?ref = "if cp_Href p \<noteq> '''' \<and> length (cp_Href p) \<le> maxPersonHrefLen
      then AddPersonExternalRef (kx_env x) (pe_ID person) ''href'' (cp_Href p) c1 else Inr c1"
    note person = Inr
    show ?thesis
    proof (cases ?ref)
      case (Inr c2)
      then have ok2: "catalog_ok c2" "pe_ID person \<in> person_ids c2"
        using ok person AddPersonExternalRef_ok [of "kx_env x" "pe_ID person" "''href''" "cp_Href p" c1 c2] by (auto split: if_splits)
      show ?thesis
        using assms(1) False q person Inr ok2 UpsertPersonAppearance_ok [OF _ ok2]
        unfolding ingest_person_def Let_def by (auto split: sum.splits)
    qed (use assms(1) False q person ok in \<open>auto simp: ingest_person_def Let_def\<close>)
  qed (use assms(1) False q ok in \<open>auto simp: ingest_person_def Let_def\<close>)
qed (use assms in \<open>auto simp: ingest_person_def Let_def\<close>)

lemma IngestPersons_ok: "IngestPersons x podcast ep ps c = (r, c') \<Longrightarrow> catalog_ok c \<Longrightarrow> catalog_ok c'"
proof (induction ps arbitrary: c r c')
  case (Cons p ps)
  obtain err new c1 where p: "ingest_person x podcast ep p c = ((err, new), c1)" by (metis prod.exhaust)
  obtain r2 c2 where ps: "IngestPersons x podcast ep ps c1 = (r2, c2)" by (metis prod.exhaust)
  have "catalog_ok c1" using ingest_person_ok [OF p] Cons.prems(2) by blast
  then show ?case using Cons.IH [OF ps] Cons.prems(1) p ps by (cases err) (auto simp: Let_def split: prod.splits)
qed simp

subsection \<open>A crawl\<close>

lemma on_podcasts_ok: "catalog_ok c \<Longrightarrow> catalog_ok (on_podcasts f c)"
  unfolding catalog_ok_def episodes_ok_def persons_ok_def ingest_aliases_def person_ids_def by (simp add: on_podcasts_same)

lemma ingest_item_ok:
  assumes "ingest_item x podcast item a g c = (err, g', c')" "catalog_ok c"
  shows "catalog_ok c'"
proof -
  obtain e c1 where w: "write_episode x a c = (e, c1)" by (metis prod.exhaust)
  have ok: "catalog_ok c1" using write_episode_ok [OF w] assms(2) by blast
  obtain r c2 where p: "IngestPersons x (pc_Uuid podcast) (upe_Uuid a) (itemPersons x item) c1 = (r, c2)" by (metis prod.exhaust)
  have ok2: "catalog_ok c2" using IngestPersons_ok [OF p] ok by blast
  show ?thesis
    using assms(1) w p ok ok2 unfolding ingest_item_def Let_def by (cases e; cases r) (auto split: if_splits option.splits)
qed

lemma crawl_items_ok: "crawl_items x podcast items g c = (err, g', c') \<Longrightarrow> catalog_ok c \<Longrightarrow> catalog_ok c'"
proof (induction items arbitrary: g c)
  case (Cons item items)
  show ?case
  proof (cases "pg_count g \<ge> maxEpisodesPerCrawl")
    case False
    show ?thesis
    proof (cases "episodeFromItem x podcast item")
      case None
      then show ?thesis using Cons False by simp
    next
      case (Some a)
      obtain e g1 c1 where i: "ingest_item x podcast item a (g\<lparr>pg_count := pg_count g + 1\<rparr>) c = (e, g1, c1)" by (metis prod.exhaust)
      have "catalog_ok c1" using ingest_item_ok [OF i] Cons.prems(2) by blast
      then show ?thesis using Cons.IH [of g1 c1] Cons.prems(1) False Some i by (cases e) auto
    qed
  qed (use Cons.prems in simp)
qed simp

lemma UpdatePodcastCrawl_ok:
  "UpdatePodcastCrawlFailure e now i m nxt c = Inr c' \<Longrightarrow> catalog_ok c \<Longrightarrow> catalog_ok c'"
  "UpdatePodcastCrawlNotModified e now i nxt c = Inr c' \<Longrightarrow> catalog_ok c \<Longrightarrow> catalog_ok c'"
  "UpdatePodcastCrawlSuccess e now i a c = Inr c' \<Longrightarrow> catalog_ok c \<Longrightarrow> catalog_ok c'"
  unfolding UpdatePodcastCrawlFailure_def UpdatePodcastCrawlNotModified_def UpdatePodcastCrawlSuccess_def stmt_Inr rbind_Inr_iff
  using on_podcasts_ok by blast+

lemma recordFailure_ok: "recordFailure x podcast cause c = (e, c') \<Longrightarrow> catalog_ok c \<Longrightarrow> catalog_ok c'"
  unfolding recordFailure_def by (auto split: sum.splits dest: UpdatePodcastCrawl_ok(1))

lemma ingest_feed_ok:
  assumes "ingest_feed x podcast res nxt f c = (e, an, c')" "catalog_ok c"
  shows "catalog_ok c'"
proof -
  obtain r g c1 where i: "crawl_items x podcast (fd_Items f) no_progress c = (r, g, c1)" by (metis prod.exhaust)
  have "catalog_ok c1" using crawl_items_ok [OF i] assms(2) by blast
  then show ?thesis using assms(1) i unfolding ingest_feed_def
    by (cases r) (auto split: sum.splits dest: UpdatePodcastCrawl_ok(3))
qed

lemma Crawl_ok:
  assumes "Crawl x podcast c = (e, an, c')" "catalog_ok c"
  shows "catalog_ok c'"
  using assms unfolding Crawl_def
  by (auto simp: Let_def split: sum.splits if_splits prod.splits dest: recordFailure_ok UpdatePodcastCrawl_ok(2) ingest_feed_ok)

lemma CreatePodcastPending_ok:
  assumes "CreatePodcastPending e now uuid url c = Inr (p, c')" "catalog_ok c"
  shows "catalog_ok c'"
proof -
  have seq: "catalog_ok (c\<lparr>ct_seq := ct_seq c + 1\<rparr>)"
    using assms(2) by (auto simp: catalog_ok_def intro: episodes_ok_frame [of c] persons_ok_frame [of c])
  then show ?thesis
    using assms(1) on_podcasts_ok [OF seq] unfolding CreatePodcastPending_def Let_def stmt_Inr rbind_Inr_iff
    by (auto simp: rbind_Inr_iff split: option.splits)
qed

lemma EnsurePodcast_ok:
  assumes "EnsurePodcast x url c = (r, an, c')" "catalog_ok c"
  shows "catalog_ok c'"
proof (cases "find_or_create x (CanonicalFeedURL (kx_env x) url) c")
  case (Inr q)
  then obtain p c1 where q: "find_or_create x (CanonicalFeedURL (kx_env x) url) c = Inr (p, c1)" by (cases q) auto
  then have ok: "catalog_ok c1"
    using assms(2) CreatePodcastPending_ok unfolding find_or_create_def by (auto split: sum.splits if_splits)
  obtain e an1 c2 where k: "Crawl x p c1 = (e, an1, c2)" by (metis prod.exhaust)
  have "catalog_ok c2" using Crawl_ok [OF k ok] .
  then show ?thesis
    using assms q ok k unfolding EnsurePodcast_def Let_def by (cases e) (auto split: if_splits sum.splits)
qed (use assms in \<open>auto simp: EnsurePodcast_def Let_def split: if_splits\<close>)

subsection \<open>Runs\<close>

text \<open>What the worker and the handlers do to the catalogue, one after the other.\<close>

datatype catalog_act = CrawlPodcast Podcast | Ensure string | Refresh "PodcastRefreshPayload option" | ImportOpml "string list option" | Backfill

fun catalog_exec :: "kctx \<Rightarrow> catalog_act \<Rightarrow> catalog \<Rightarrow> catalog" where
  "catalog_exec x (CrawlPodcast p) c = snd (snd (Crawl x p c))"
| "catalog_exec x (Ensure url) c = snd (snd (EnsurePodcast x url c))"
| "catalog_exec x (Refresh payload) c = snd (snd (snd (HandlePodcastRefreshTask x payload Map.empty c)))"
| "catalog_exec x (ImportOpml payload) c = snd (HandleOpmlImportTask x payload c)"
| "catalog_exec x Backfill c = snd (HandleAliasBackfillTask x c)"

fun catalog_run :: "(kctx \<times> catalog_act) list \<Rightarrow> catalog \<Rightarrow> catalog" where
  "catalog_run [] c = c"
| "catalog_run ((x, a) # as) c = catalog_run as (catalog_exec x a c)"

lemma HandlePodcastRefreshTask_ok:
  "HandlePodcastRefreshTask x payload jobs c = (e, jobs', an, c') \<Longrightarrow> catalog_ok c \<Longrightarrow> catalog_ok c'"
  unfolding HandlePodcastRefreshTask_def Let_def
  by (auto split: option.splits sum.splits if_splits prod.splits dest: Crawl_ok)

lemma import_feeds_ok: "catalog_ok c \<Longrightarrow> catalog_ok (import_feeds x urls c)"
proof (induction urls arbitrary: c)
  case (Cons url urls)
  obtain r an c1 where "EnsurePodcast x url c = (r, an, c1)" by (metis prod.exhaust)
  then show ?case using Cons EnsurePodcast_ok by (simp add: Let_def)
qed simp


lemma catalog_exec_ok:
  assumes "catalog_ok c"
  shows "catalog_ok (catalog_exec x a c)"
proof (cases a)
  case (CrawlPodcast p)
  then show ?thesis using assms Crawl_ok by (metis catalog_exec.simps(1) prod.collapse)
next
  case (Ensure url)
  then show ?thesis using assms EnsurePodcast_ok by (metis catalog_exec.simps(2) prod.collapse)
next
  case (Refresh payload)
  then show ?thesis using assms HandlePodcastRefreshTask_ok by (metis catalog_exec.simps(3) prod.collapse)
next
  case (ImportOpml payload)
  then show ?thesis using assms import_feeds_ok by (auto simp: HandleOpmlImportTask_def split: option.split)
next
  case Backfill
  then show ?thesis using assms alias_backfill_fails [of x c] by auto
qed

text \<open>
  C40. Whatever the crawler and the worker do, and wherever they fail on the way, the catalogue stays well
  formed: ids, uuids and pairs of podcast and guid of the episodes are unique; a device uuid leads to
  one uuid, is not empty and is not its own target; every person has a name of its own and the alias of
  that name, also where the making of the person was interrupted; no two persons share the alias of an
  ingested name; every alias, reference and appearance belongs to a person, and a person appears once on
  an episode.
\<close>

theorem catalog_invariant:
  assumes "catalog_ok c"
  shows "catalog_ok (catalog_run as c)"
  using assms by (induction as c rule: catalog_run.induct) (simp_all add: catalog_exec_ok)

lemma catalog_invariant_witness:
  "map pe_CanonicalName (ct_persons demo_crawled) = [''ada''] \<and> catalog_ok demo_crawled"
proof -
  have "catalog_ok demo_catalog"
    by (simp add: catalog_ok_def episodes_ok_def persons_ok_def ingest_aliases_def demo_catalog_def demo_episode_def keyed_def)
  from catalog_invariant [OF this, of "[(demo_kctx, CrawlPodcast demo_podcast)]"] show ?thesis
    using demo_crawl_ok(2) by (simp add: demo_crawled_def)
qed

end
