(* ===== verification/Spec2Isabelle.thy ===== *)
theory Spec2Isabelle
  imports Sync_Theorems Sync_Merge Sync_Records Sync_Lists Sync_Requests Account_Theorems Group_Safety List_Safety Comment_Theorems Catalog_Inv
begin

text \<open>
  Podcast backend: a verification development.

  The program is the server of a podcast player: an HTTP service on PostgreSQL and Redis with a
  background worker.  This library models its own logic in Isabelle/HOL, as functions from a request and
  a database to a reply and a database, and proves what its clients rely on.  File and function names
  refer to \<^verbatim>\<open>src/\<close>; a definition carries the name of the Go function, type or SQL statement it models.

  \<^bold>\<open>The parts of the program\<close>

  \<^item> The sync service (\<^verbatim>\<open>syncsvc/\<close>).  Devices keep copies of a user's subscriptions, episodes, playlists,
    folders, bookmarks, settings, queue and history, and send changes with the token of their last answer.
    The engine applies the changes under a fresh token, merges field by field by time stamp, and answers
    the rows stamped since.
  \<^item> Accounts (\<^verbatim>\<open>auth/\<close>, \<^verbatim>\<open>handlers/account.go\<close>).  Passwords, access tokens, rotating refresh tokens with
    theft detection, and codes for the reset of a password, which an administrator issues
    (\<^verbatim>\<open>handlers/admin.go\<close>).  Every other part takes its caller from here.
  \<^item> The social part (\<^verbatim>\<open>handlers/social.go\<close>, \<^verbatim>\<open>graph.go\<close>, \<^verbatim>\<open>groups.go\<close>, \<^verbatim>\<open>groupposts.go\<close>, \<^verbatim>\<open>lists.go\<close>,
    \<^verbatim>\<open>comments.go\<close>).  Handles and profiles, blocks, mutes, follows, groups and their posts, shared lists, and
    comments, which read the listening state of the sync service for their gate.
  \<^item> The catalogue (\<^verbatim>\<open>crawler/\<close>, \<^verbatim>\<open>tasks/\<close>).  The worker fetches feeds, derives identities of podcasts,
    episodes and credited persons, and runs the batches; the comments resolve episodes through its aliases.

  \<^bold>\<open>The theories\<close>

  Foundations.

  \<^item> \<open>Go_Prelude\<close>: Go's integers with their wrap-around, strings and slices; the collections \<open>res_simps\<close>, \<open>tbl_simps\<close> and \<open>frame_simps\<close>.
  \<^item> \<open>Go_Utf8\<close>: the decoder of \<^verbatim>\<open>unicode/utf8\<close> (\<open>DecodeRuneInString\<close>), used where the code counts or cuts texts.
  \<^item> \<open>Errs\<close>: \<^verbatim>\<open>errs/errs.go\<close>, \<^verbatim>\<open>errs/httperrors.go\<close> and the error envelope of \<^verbatim>\<open>handlers/handlers.go\<close>: kinds,
    operations, codes, and what of an error a client sees.
  \<^item> \<open>Sql_Table\<close>, \<open>Proto_Api\<close>, \<open>Db_Store\<close>: tables as lists of records with keyed insert, upsert, update and
    delete; the messages of \<^verbatim>\<open>protos/api.proto\<close>; the rows of \<^verbatim>\<open>db/models.go\<close> and one definition per statement of
    \<^verbatim>\<open>db/queries.sql.go\<close>.  \<open>Account_Db\<close>, \<open>Social_Db\<close>, \<open>Group_Db\<close>, \<open>List_Db\<close>, \<open>Comment_Db\<close> and
    \<open>Catalog_Db\<close> continue the statements, each next to its component.  A statement runs under \<open>stmt\<close>, which
    lets the environment fail it by name, so every error path of the callers is a branch of the model.
  \<^item> \<open>Example_Env\<close>: a concrete environment, digests and codecs, on which the witnesses compute.

  Sync.

  \<^item> \<open>Sync_Token\<close> (\<^verbatim>\<open>token.go\<close>), \<open>Sync_Settings\<close> (\<^verbatim>\<open>settings.go\<close>), \<open>Sync_Convert\<close> (\<^verbatim>\<open>convert.go\<close>),
    \<open>Sync_Engine\<close> (\<^verbatim>\<open>engine.go\<close>), \<open>Sync_UpNext\<close> (\<^verbatim>\<open>upnext.go\<close>), \<open>Sync_History\<close> (\<^verbatim>\<open>history.go\<close>),
    \<open>Sync_Updates\<close> (\<^verbatim>\<open>updates.go\<close>): the definitions.  The state is the record \<open>store\<close>, one field per table.
  \<^item> \<open>Delta_Table\<close>: the locale \<open>delta_table\<close> (an upsert that stamps the row of its key, and a read of the rows
    between two stamps), interpreted on the five synced tables.  \<open>Lww_Register\<close>: the locale \<open>lww_register\<close>
    (a proposal wins exactly when the register is unset or older), with idempotence, convergence and the newest
    proposal as its theorems, interpreted on the episode fields, the bookmark fields, each settings key and each
    history item.
  \<^item> \<open>Sync_Delta\<close>, \<open>Sync_System\<close>: the effect of every entry point as one relation on stamped rows, and
    \<open>sync_step\<close>, one transaction of any user.  \<open>Sync_Theorems\<close> proves that no device misses a change, that users
    do not touch each other, and that a failed request leaves nothing behind; \<open>Sync_Merge\<close>, \<open>Sync_Records\<close>,
    \<open>Sync_Lists\<close> and \<open>Sync_Requests\<close> say what the requests do to the rows: the episode merge is a join and
    converges where equal stamps carry equal values, the edits of the queue compute the expected lists, and the
    history keeps its newest hundred items.

  Accounts.

  \<^item> \<open>Rate_Limit\<close> (\<^verbatim>\<open>handlers/distributed_limit.go\<close>, \<^verbatim>\<open>middlewares/ratelimit.go\<close>), \<open>Auth_Tokens\<close> (\<^verbatim>\<open>auth/\<close>),
    \<open>Account\<close> (\<^verbatim>\<open>handlers/account.go\<close>, and \<^verbatim>\<open>PostAdminPasswordReset\<close> of \<^verbatim>\<open>handlers/admin.go\<close>).
  \<^item> \<open>Account_Sessions\<close>: the machine of sessions (\<open>session_step\<close>), in which sessions are opened, rotated,
    ended alone or with all others of a user, and the relations \<open>token_change\<close> and \<open>code_change\<close> that every
    statement on tokens and on reset codes satisfies.  \<open>Account_Theorems\<close>: the steps of the account endpoints, the
    deletion of an account and the issue of a reset code included; their invariant, their refinement of the machine, theft
    detection, and the single use of reset codes along every run.

  Social.

  \<^item> \<open>Text_Filter\<close> (\<^verbatim>\<open>moderation/textfilter.go\<close>), \<open>Social\<close> (\<^verbatim>\<open>handlers/social.go\<close>, \<^verbatim>\<open>handlers/graph.go\<close>),
    \<open>Social_Groups\<close> (\<^verbatim>\<open>handlers/groups.go\<close>, \<^verbatim>\<open>handlers/groupposts.go\<close>), \<open>Social_Lists\<close>
    (\<^verbatim>\<open>handlers/lists.go\<close>), \<open>Social_Comments\<close> (\<^verbatim>\<open>handlers/comments.go\<close>): the handlers on the record \<open>social_db\<close>.
  \<^item> \<open>Social_Runs\<close>, \<open>Group_Runs\<close>, \<open>List_Runs\<close>: runs of requests in any order by any callers, and per
    component an inductive relation (\<open>group_effect\<close>, \<open>list_effect\<close>, \<open>comment_effect\<close>) with one rule per way a
    request can change the database and the conditions under which it does; its case rules carry the proofs.
  \<^item> \<open>Social_Erasure\<close>: the deletion of an account over all tables, and what it leaves.  \<open>Social_Theorems\<close>: the life of
    a handle, the guarantees of a block, and how a follow becomes active.  \<open>Group_Theorems\<close>, \<open>Group_Safety\<close>: the machine
    of memberships, whose steps are tied to the caller, bans, what a private group shows, who changes a post.
    \<open>List_Theorems\<close>, \<open>List_Safety\<close>: the caps, the seats, the editors, and what a hidden list shows.
    \<open>Comment_Theorems\<close>: the tree, the gate, and who changes a comment.

  Catalogue.

  \<^item> \<open>Feed_Fetch\<close> (\<^verbatim>\<open>crawler/fetcher.go\<close>): addresses as words of 32 and 128 bits, the guard of the dialer, the conditional
    request.  \<open>Crawl\<close> (\<^verbatim>\<open>crawler/crawler.go\<close>, \<^verbatim>\<open>persons.go\<close>, \<^verbatim>\<open>uuid.go\<close>, \<^verbatim>\<open>deviceuuid.go\<close>): identities, items,
    persons, a whole crawl with its failure path.  \<open>Tasks\<close> (\<^verbatim>\<open>tasks/server.go\<close>): the handlers of the worker.
  \<^item> \<open>Task_Pool\<close>: \<open>crawlPodcastsBounded\<close> as a step relation of a producer, a fixed number of goroutines, the
    channel, and a cancellation; it ends, and without an error it has crawled every podcast once.
  \<^item> \<open>Crawl_Theorems\<close>, \<open>Catalog_Inv\<close>: what a successful, an unchanged and a failing crawl does and leaves alone, and
    the invariant of the catalogue over every path.  The backfill of aliases is modelled as it runs: PostgreSQL refuses its
    query (a text compared with a uuid), so the task fails every time.

  \<^bold>\<open>Conventions\<close>

  \<^item> Sized integers are values of type \<open>int\<close> whose conversions and additions wrap as in Go (\<open>int32\<close>, \<open>int64\<close>);
    addresses are words.  Times are nanoseconds of type \<open>int\<close>.  \<open>nil\<close> is \<open>None\<close>.  Errors are values of \<open>goerr\<close>,
    a fallible call returns \<open>goerr + 'a\<close> (\<open>result\<close>), a reply of a handler is a status and a body, or the error envelope.
  \<^item> Code outside \<^verbatim>\<open>src/\<close> is a parameter: the environment of statements (\<open>env\<close>: faults, the
    forms PostgreSQL stores, the JSON of messages), the
    functions for hashing, signatures and case folding (\<open>auth_lib\<close>), the resolver, the HTTP client, the parser of
    feeds and of RSS dates, name-based uuids and Unicode folding (\<open>kctx\<close>).  What is needed of them is a named
    hypothesis of the theorem (\<open>env_ok\<close> and the like), and the witnesses satisfy it.
  \<^item> Loops with an index or a condition are \<open>function\<close>s with a measure (the chain of an error, the removal from the
    queue, the UTF-8 decoder); the loop of the backfill never reaches a second round.  The only fuel is that of \<open>strip\<close> (\<^verbatim>\<open>strings.TrimSpace\<close> on encoded runes): the length of the string, enough as
    each removal shortens it.  The pool has no fuel; its steps are bounded by a cost that falls.

  \<^bold>\<open>What is not modelled\<close>

  \<^item> Concurrency is modelled where the code has a hard case: the check and the commit of a follow as two steps with
    a block in between (the race is a lemma of \<open>Social_Theorems\<close>), and the pool of the crawler.  Elsewhere a request is
    one step: the sync transactions lock the row of the user, a refresh the row of its token.
  \<^item> Within one request a statement fails by its name, so two calls of the same statement fail together.  Where SQL
    leaves the order of ties open, the model keeps the order of the table.
  \<^item> PostgreSQL refuses texts that are not UTF-8 or hold a NUL byte.  The model has this for the failure message of
    the crawler, which the code may cut inside a character, and not for other columns.
  \<^item> The delivery of notifications stops at the notification handed to the push client.  Discovery, reviews,
    people, transcripts, device attestation, artwork and avatars, administration, HTTP plumbing, start-up and
    generated code are outside: mostly reads of the database for display, calls of services, and configuration.
    The import of legacy corpus rows and the sightings of transcripts are the tasks left out.

  \<^bold>\<open>What modelling showed\<close>

  \<^item> Lemmas that show a gap in the code: \<open>follow_block_race\<close> and \<open>ban_lifted_by_erasure\<close> (a block or a ban can be
    got around), \<open>negative_position_passes\<close> (the gate of the comments), \<open>group_update_tells\<close> and \<open>entry_op_tells\<close>
    (a status reveals a hidden group or list), \<open>zoned_address_dialed\<close>, \<open>cut_message_not_recorded\<close> and
    \<open>alias_backfill_fails\<close>.
\<close>

end
